(* ===== verification/Prelude.thy ===== *)
theory Prelude
  imports Main "HOL-Library.Word"
begin

text \<open>
  What every component of the development shares: the machine types of the C sources
  (\<^verbatim>\<open>ARMword\<close>, \<^verbatim>\<open>uint32_t\<close>, \<^verbatim>\<open>uint8_t\<close> and so on as words of HOL-Library.Word),
  the ways a run of the simulator stops for good (\<open>halt_reason\<close>), the field macros
  \<^verbatim>\<open>BIT\<close> and \<^verbatim>\<open>BITS\<close> of armdefs.h, the sign macros \<^verbatim>\<open>POS\<close> and \<^verbatim>\<open>NEG\<close> of armemu.h, and the
  generic facts about words, lists and state passing that the component proofs use.
  Facts go into the collections \<open>word_field\<close> (masks, fields, lanes) and \<open>flag_simps\<close>
  (signs, carries and overflows).
\<close>

unbundle bit_operations_syntax

named_theorems word_field \<open>masks, bit fields and byte lanes of words\<close>
named_theorems flag_simps \<open>sign, carry and overflow of 32-bit arithmetic\<close>

type_synonym u8 = "8 word"
type_synonym u16 = "16 word"
type_synonym u32 = "32 word"
type_synonym u64 = "64 word"

subsection \<open>How a run ends\<close>

text \<open>
  The C code leaves its defined behaviour in a few ways: \<^verbatim>\<open>skyeye_exit\<close>, \<^verbatim>\<open>abort\<close>, a failed
  \<^verbatim>\<open>assert\<close>, a call or a load through a null pointer, an access outside an array, a loop
  that makes no progress, a shift by the width of its operand or more, a division by zero or
  a signed overflow. The
  model records the first one in a sticky field of the state; what a definition computes
  after it is of no consequence, and theorems say when the field stays \<open>None\<close>.
\<close>

datatype halt_reason =
  Skyeye_exit | Abort_called | Assert_failed | Null_pointer | Out_of_bounds | Endless_loop | Undefined_shift | Undefined_arith

definition first_halt :: "halt_reason option \<Rightarrow> halt_reason \<Rightarrow> halt_reason option" where
  "first_halt old h = (case old of None \<Rightarrow> Some h | Some x \<Rightarrow> Some x)"

lemma first_halt_not_None [simp]: "first_halt old h \<noteq> None"
  by (simp add: first_halt_def split: option.split)

subsection \<open>Tables of machines\<close>

text \<open>The search of a simulator for a machine name (\<^verbatim>\<open>parse_mach\<close>) also compares with the null name that ends the table.\<close>

fun scan_machines :: "string \<Rightarrow> string option list \<Rightarrow> nat \<Rightarrow> halt_reason + nat option" where
  "scan_machines p [] i = Inr None"
| "scan_machines p (None # ms) i = Inl Null_pointer"
| "scan_machines p (Some nm # ms) i =
     (if take 32 p = take 32 nm then Inr (Some i) else scan_machines p ms (Suc i))"

subsection \<open>Bit fields\<close>

text \<open>\<^verbatim>\<open>BIT(n)\<close> and \<^verbatim>\<open>BITS(m,n)\<close> of armdefs.h, on an instruction word.\<close>

definition BIT :: "nat \<Rightarrow> u32 \<Rightarrow> bool" where
  "BIT n instr = ((drop_bit n instr) AND 1 \<noteq> 0)"

definition BITS :: "nat \<Rightarrow> nat \<Rightarrow> u32 \<Rightarrow> u32" where
  "BITS m n instr = drop_bit ((31 - n) + m) (push_bit (31 - n) instr)"

lemma BIT_bit [word_field]: "BIT n instr = bit instr n"
  by (auto simp: BIT_def and_one_eq bit_iff_odd_drop_bit odd_iff_mod_2_eq_one)

lemma BITS_take [word_field]:
  "n \<le> 31 \<Longrightarrow> m \<le> n \<Longrightarrow> BITS m n instr = take_bit (Suc n - m) (drop_bit m instr)"
  unfolding BITS_def
  by (intro bit_word_eqI)
    (auto simp: bit_drop_bit_eq bit_push_bit_iff bit_take_bit_iff)

lemma BITS_bound: "n \<le> 31 \<Longrightarrow> m \<le> n \<Longrightarrow> unat (BITS m n instr) < 2 ^ (Suc n - m)"
  by (simp add: BITS_take unsigned_take_bit_eq)

subsection \<open>Signs\<close>

text \<open>\<^verbatim>\<open>NEG(i)\<close> is bit 31 of a word and \<^verbatim>\<open>POS(i)\<close> its complement (armemu.h).\<close>

definition NEG :: "u32 \<Rightarrow> bool" where
  "NEG i = (drop_bit 31 i \<noteq> 0)"

definition POS :: "u32 \<Rightarrow> bool" where
  "POS i = (drop_bit 31 (NOT i) \<noteq> 0)"

lemma drop_bit_31: "drop_bit 31 (i :: u32) = of_bool (bit i 31)"
proof (rule bit_word_eqI)
  fix n
  assume "n < LENGTH(32)"
  show "bit (drop_bit 31 i) n \<longleftrightarrow> bit (of_bool (bit i 31) :: u32) n"
    using bit_imp_le_length [of i "31 + n"] by (cases n) (auto simp: bit_drop_bit_eq bit_simps)
qed

lemma drop_bit_31_iff: "drop_bit 31 (i :: u32) \<noteq> 0 \<longleftrightarrow> bit i 31"
  by (simp add: drop_bit_31)

lemma NEG_bit: "NEG i = bit i 31"
  by (simp add: NEG_def drop_bit_31_iff)

lemma POS_not_NEG [flag_simps]: "POS i = (\<not> NEG i)"
  by (simp add: POS_def NEG_def drop_bit_31_iff bit_not_iff)

lemma NEG_sint [flag_simps]: "NEG i \<longleftrightarrow> sint i < 0"
  using bit_last_iff [of i] by (simp add: NEG_bit)

lemma div_half: "0 \<le> x \<Longrightarrow> x < 2 * m \<Longrightarrow> x div m = of_bool (m \<le> x)" for x m :: int
  using div_pos_pos_trivial [of x m] div_pos_pos_trivial [of "x - m" m] div_add_self2 [of m "x - m"]
  by (cases "m \<le> x") auto

lemma NEG_uint: "NEG i \<longleftrightarrow> 2 ^ 31 \<le> uint i"
proof -
  have "uint i div 2 ^ 31 = of_bool (2 ^ 31 \<le> uint i)"
    using uint_lt2p [of i] by (intro div_half) simp_all
  moreover have "bit i 31 \<longleftrightarrow> bit (uint i) 31" by (simp add: bit_uint_iff)
  ultimately show ?thesis by (simp add: NEG_bit bit_iff_odd [of "uint i"])
qed

subsection \<open>Byte lanes of a word\<close>

text \<open>
  \<open>put_field n w v t\<close> is \<open>t\<close> with the \<open>w\<close> bits from bit \<open>n\<close> on replaced by the low bits of
  \<open>v\<close>: the read-modify-write that every narrow store of the simulator does.
\<close>

lemma ff_mask: "(0xff :: u32) = mask 8" "(0xffff :: u32) = mask 16"
  by (simp_all add: mask_eq_exp_minus_1)

definition put_field :: "nat \<Rightarrow> nat \<Rightarrow> u32 \<Rightarrow> u32 \<Rightarrow> u32" where
  "put_field n w v t = (t AND NOT (push_bit n (mask w))) OR push_bit n (v AND mask w)"

lemma bit_put_field [word_field]:
  "bit (put_field n w v t) k \<longleftrightarrow>
     (if n \<le> k \<and> k < n + w \<and> k < 32 then bit v (k - n) else bit t k)"
  unfolding put_field_def
  by (auto simp: bit_simps dest: bit_imp_le_length)

lemma bit_lane: "n \<le> 24 \<Longrightarrow> bit (ucast (drop_bit n (t::u32)) :: u8) k \<longleftrightarrow> k < 8 \<and> bit t (n + k)"
  by (auto simp: bit_simps dest: bit_imp_le_length)

lemma lane_put_field:
  assumes "n \<le> 24" and "m \<le> 24" and "m = n \<or> m + 8 \<le> n \<or> n + 8 \<le> m"
  shows "(ucast (drop_bit m (put_field n 8 v t)) :: u8) =
         (if m = n then ucast v else ucast (drop_bit m t))"
  using assms
  by (intro bit_word_eqI) (auto simp: bit_lane bit_put_field bit_simps)

lemma and_3_mod: "a AND 3 = word_of_nat (unat (a::u32) mod 4)"
proof -
  have "a AND 3 = take_bit 2 a" by (simp add: take_bit_eq_mask mask_eq_exp_minus_1)
  also have "\<dots> = word_of_nat (unat (take_bit 2 a))" by simp
  also have "unat (take_bit 2 a) = unat a mod 4"
    by (simp add: unsigned_take_bit_eq take_bit_eq_mod unat_mod)
  finally show ?thesis .
qed

lemma and_2_mod: "a AND 2 = (if unat (a::u32) mod 4 < 2 then 0 else 2)"
proof -
  have "a AND 2 = (a AND 3) AND 2" by (simp add: and.assoc)
  moreover have "unat a mod 4 \<in> {0, 1, 2, 3}" by auto
  ultimately show ?thesis unfolding and_3_mod by auto
qed

lemma ucast_ucast_8_32 [simp]: "ucast (ucast (v :: u8) :: u32) = v"
  by (intro bit_word_eqI) (auto simp: bit_simps)

text \<open>Words of an aligned block: same word and same block, on addresses as naturals.\<close>

lemma div4_shift:
  fixes a b m :: nat
  assumes "m mod 4 = 0" "m \<le> a" "m \<le> b"
  shows "(b - m) div 4 = (a - m) div 4 \<longleftrightarrow> b div 4 = a div 4"
proof -
  obtain k where k: "m = 4 * k" using assms(1) by auto
  have "(a - m) div 4 = a div 4 - k" "(b - m) div 4 = b div 4 - k" by (simp_all add: k div_mult_self4 flip: div_diff)
  moreover have "k \<le> a div 4" "k \<le> b div 4" using assms k by auto
  ultimately show ?thesis by linarith
qed

lemma same_word_in_block:
  fixes a b m l :: nat
  assumes "m mod 4 = 0" "l mod 4 = 0" "m \<le> a" "a < m + l" "b div 4 = a div 4"
  shows "m \<le> b \<and> b < m + l"
proof -
  obtain k j where kj: "m = 4 * k" "l = 4 * j" using assms(1,2) by (auto simp: mod_eq_0_iff_dvd elim!: dvdE)
  have "k \<le> a div 4" "a div 4 < k + j"
    using assms(3,4) kj by (auto intro: less_mult_imp_div_less)
  with assms(5) kj div_mult_mod_eq [of b 4] mod_less_divisor [of 4 b] show ?thesis by auto
qed

subsection \<open>Rings\<close>

lemma mod_add_inj:
  fixes a i j n :: nat
  assumes "(a + i) mod n = (a + j) mod n" "i < n" "j < n"
  shows "i = j"
proof -
  have *: "i = j" if "i \<le> j" "(a + i) mod n = (a + j) mod n" "j < n" for i j
  proof -
    have "n dvd j - i" using that(1,2) mod_eq_dvd_iff_nat [of "a + i" "a + j" n] by simp
    then show ?thesis using that by (metis diff_is_0_eq dvd_imp_le less_imp_diff_less linorder_neqE_nat not_le le_antisym zero_less_diff)
  qed
  show ?thesis using * [of i j] * [of j i] assms by (metis nat_le_linear)
qed

end
