(* ===== verification/Arith32.thy ===== *)
theory Arith32
  imports Prelude
begin

text \<open>
  32-bit addition and subtraction as integer arithmetic: the carry out, the borrow, and the signed
  overflow, from the operands' values. Both processors compute their conditions from the
  signs of operands and result.
\<close>

lemma uint_bounds: "0 \<le> uint x" "uint x < 2 ^ 32" for x :: u32
  using uint_lt2p [of x] by simp_all

lemma sint_as_uint: "sint x = uint x - (if 2 ^ 31 \<le> uint x then 2 ^ 32 else 0)" for x :: u32
proof -
  have "sint x = take_bit 32 (uint x) - 2 ^ 32 * of_bool (bit (uint x) 31)"
    using signed_take_bit_eq_take_bit_minus [of 31 "uint x"] by (simp add: sint_uint)
  moreover have "bit (uint x) 31 \<longleftrightarrow> 2 ^ 31 \<le> uint x"
    using NEG_uint [of x] NEG_bit [of x] by (simp add: bit_uint_iff)
  moreover have "take_bit 32 (uint x) = uint x"
    using uint_bounds by (intro take_bit_int_eq_self) simp_all
  ultimately show ?thesis by simp
qed

lemma mod_one_lap:
  fixes S m :: int
  assumes "0 \<le> S" "S < 2 * m"
  shows "S mod m = (if m \<le> S then S - m else S)"
proof (cases "m \<le> S")
  case True
  then have "(S - m) mod m = S - m" using assms by (intro mod_pos_pos_trivial) simp_all
  then show ?thesis using True by simp
qed (use assms in simp)

lemma uint_add_carry: "uint (a + b + of_bool c) =
    uint a + uint b + of_bool c - (if 2 ^ 32 \<le> uint a + uint b + of_bool c then 2 ^ 32 else 0)" for a b :: u32
proof -
  have "uint (a + b + of_bool c) = (uint a + uint b + of_bool c) mod 2 ^ 32"
    by (cases c) (simp_all add: uint_word_ariths mod_simps)
  also have "\<dots> = (if 2 ^ 32 \<le> uint a + uint b + of_bool c then uint a + uint b + of_bool c - 2 ^ 32
      else uint a + uint b + of_bool c)"
    using uint_bounds [of a] uint_bounds [of b] by (intro mod_one_lap; cases c) simp_all
  finally show ?thesis by simp
qed

lemma uint_sub_borrow: "uint (a - b - of_bool c) =
    uint a - uint b - of_bool c + (if uint a < uint b + of_bool c then 2 ^ 32 else 0)" for a b :: u32
proof -
  have "uint (a - b - of_bool c) = (uint a - uint b - of_bool c) mod 2 ^ 32"
    by (cases c) (simp_all add: uint_word_ariths mod_simps)
  also have "\<dots> = (uint a - uint b - of_bool c + 2 ^ 32) mod 2 ^ 32" by simp
  also have "\<dots> = (if 2 ^ 32 \<le> uint a - uint b - of_bool c + 2 ^ 32 then uint a - uint b - of_bool c
      else uint a - uint b - of_bool c + 2 ^ 32)"
  proof (rule mod_one_lap [THEN trans])
    have "(of_bool c :: int) \<le> 1" "0 \<le> (of_bool c :: int)" by (cases c; simp)+
    note lim = this uint_bounds(1) [of a] uint_bounds(1) [of b] uint_bounds(2) [of a] uint_bounds(2) [of b]
    show "0 \<le> uint a - uint b - of_bool c + 2 ^ 32" using lim by linarith
    show "uint a - uint b - of_bool c + 2 ^ 32 < 2 * 2 ^ 32" using lim by linarith
  qed simp
  finally show ?thesis by simp
qed

subsection \<open>Conditions from the signs\<close>

lemma bit_31_uint: "bit x 31 \<longleftrightarrow> 2 ^ 31 \<le> uint x" for x :: u32
  using NEG_uint [of x] by (simp add: NEG_bit)

lemma sign_add_carry:
  fixes a b :: u32
  assumes "d = a + b + of_bool c"
  shows "(bit a 31 \<and> bit b 31) \<or> (\<not> bit d 31 \<and> (bit b 31 \<or> bit a 31)) \<longleftrightarrow> 2 ^ 32 \<le> uint a + uint b + of_bool c"
    and "(bit a 31 \<and> bit b 31 \<and> \<not> bit d 31) \<or> (\<not> bit a 31 \<and> \<not> bit b 31 \<and> bit d 31)
      \<longleftrightarrow> sint d \<noteq> sint a + sint b + of_bool c"
proof -
  define A B D where "A = uint a" and "B = uint b" and "D = uint d"
  have d: "D = A + B + of_bool c - (if 2 ^ 32 \<le> A + B + of_bool c then 2 ^ 32 else 0)"
    using uint_add_carry [of a b c, folded assms] by (simp add: A_def B_def D_def)
  have lim: "0 \<le> A" "A < 2 ^ 32" "0 \<le> B" "B < 2 ^ 32" "0 \<le> D" "D < 2 ^ 32"
    using uint_bounds by (simp_all add: A_def B_def D_def)
  show "(bit a 31 \<and> bit b 31) \<or> (\<not> bit d 31 \<and> (bit b 31 \<or> bit a 31)) \<longleftrightarrow> 2 ^ 32 \<le> uint a + uint b + of_bool c"
    unfolding bit_31_uint A_def [symmetric] B_def [symmetric] D_def [symmetric]
    using d lim by (cases c) (auto split: if_splits)
  show "(bit a 31 \<and> bit b 31 \<and> \<not> bit d 31) \<or> (\<not> bit a 31 \<and> \<not> bit b 31 \<and> bit d 31)
      \<longleftrightarrow> sint d \<noteq> sint a + sint b + of_bool c"
    unfolding bit_31_uint sint_as_uint A_def [symmetric] B_def [symmetric] D_def [symmetric]
    using d lim by (cases c) (auto split: if_splits)
qed

lemma sign_sub_borrow:
  fixes a b :: u32
  assumes "d = a - b - of_bool c"
  shows "(\<not> bit a 31 \<and> bit b 31) \<or> (bit d 31 \<and> (\<not> bit a 31 \<or> bit b 31)) \<longleftrightarrow> uint a < uint b + of_bool c"
    and "(bit a 31 \<and> \<not> bit b 31 \<and> \<not> bit d 31) \<or> (\<not> bit a 31 \<and> bit b 31 \<and> bit d 31)
      \<longleftrightarrow> sint d \<noteq> sint a - sint b - of_bool c"
proof -
  define A B D where "A = uint a" and "B = uint b" and "D = uint d"
  have d: "D = A - B - of_bool c + (if A < B + of_bool c then 2 ^ 32 else 0)"
    using uint_sub_borrow [of a b c, folded assms] by (simp add: A_def B_def D_def)
  have lim: "0 \<le> A" "A < 2 ^ 32" "0 \<le> B" "B < 2 ^ 32" "0 \<le> D" "D < 2 ^ 32"
    using uint_bounds by (simp_all add: A_def B_def D_def)
  show "(\<not> bit a 31 \<and> bit b 31) \<or> (bit d 31 \<and> (\<not> bit a 31 \<or> bit b 31)) \<longleftrightarrow> uint a < uint b + of_bool c"
    unfolding bit_31_uint A_def [symmetric] B_def [symmetric] D_def [symmetric]
    using d lim by (cases c) (auto split: if_splits)
  show "(bit a 31 \<and> \<not> bit b 31 \<and> \<not> bit d 31) \<or> (\<not> bit a 31 \<and> bit b 31 \<and> bit d 31)
      \<longleftrightarrow> sint d \<noteq> sint a - sint b - of_bool c"
    unfolding bit_31_uint sint_as_uint A_def [symmetric] B_def [symmetric] D_def [symmetric]
    using d lim by (cases c) (auto split: if_splits)
qed

end
