(* ===== verification/Bus.thy ===== *)
theory Bus
  imports Prelude
begin

text \<open>
  The memory side of the simulator: the bank table and the bus interface
  (memory/bank_ops.c), RAM and ROM banks (memory/ram.c), and the dispatch of I/O and
  flash banks to the board's devices (memory/io.c, memory/flash.c).

  The static variables of these files are the fields of one record \<open>bus\<close>: the bank table
  (\<^verbatim>\<open>global_memmap\<close>), the bank remembered by \<^verbatim>\<open>bank_ptr\<close> (an index instead of a pointer),
  the bank contents (\<^verbatim>\<open>global_memory\<close>, one list of words per allocated bank), the
  byte order of \<^verbatim>\<open>arch_instance\<close>, the prescaler of \<^verbatim>\<open>io_do_cycle\<close>, the machine's table of
  handlers and the state its handlers work on. The handlers of a concrete board are
  ordinary functions stored in the table, so a board is plugged in by giving a
  \<open>machine_config\<close>; their state type is the type parameter.
\<close>

subsection \<open>Device and machine tables (device/skyeye_device.h, utils/config/skyeye_config.h)\<close>

datatype addr_status = ADDR_NOHIT | ADDR_HIT | ADDR_HITNOAVAIL

text \<open>
  What a board's handlers can touch: the two interrupt pins of the processor, which they
  reach through the global ARM state, and the board's own registers.
\<close>

record 'd io_world =
  NfiqSig :: u32
  NirqSig :: u32
  board :: 'd

record 'd device_desc =
  dev_base :: u32
  dev_size :: u32
  dev_reset :: "('d io_world \<Rightarrow> 'd io_world) option"
  dev_update :: "('d io_world \<Rightarrow> 'd io_world) option"
  dev_read_byte :: "(u32 \<Rightarrow> 'd io_world \<Rightarrow> addr_status \<times> u8 \<times> 'd io_world) option"
  dev_read_halfword :: "(u32 \<Rightarrow> 'd io_world \<Rightarrow> addr_status \<times> u16 \<times> 'd io_world) option"
  dev_read_word :: "(u32 \<Rightarrow> 'd io_world \<Rightarrow> addr_status \<times> u32 \<times> 'd io_world) option"
  dev_write_byte :: "(u32 \<Rightarrow> u8 \<Rightarrow> 'd io_world \<Rightarrow> addr_status \<times> 'd io_world) option"
  dev_write_halfword :: "(u32 \<Rightarrow> u16 \<Rightarrow> 'd io_world \<Rightarrow> addr_status \<times> 'd io_world) option"
  dev_write_word :: "(u32 \<Rightarrow> u32 \<Rightarrow> 'd io_world \<Rightarrow> addr_status \<times> 'd io_world) option"

record 'd machine_config =
  devices :: "'d device_desc list"
  mach_io_reset :: "('d io_world \<Rightarrow> 'd io_world) option"
  mach_io_do_cycle :: "'d io_world \<Rightarrow> 'd io_world"
  mach_io_read_byte :: "u32 \<Rightarrow> 'd io_world \<Rightarrow> u32 \<times> 'd io_world"
  mach_io_read_halfword :: "u32 \<Rightarrow> 'd io_world \<Rightarrow> u32 \<times> 'd io_world"
  mach_io_read_word :: "u32 \<Rightarrow> 'd io_world \<Rightarrow> u32 \<times> 'd io_world"
  mach_io_write_byte :: "u32 \<Rightarrow> u32 \<Rightarrow> 'd io_world \<Rightarrow> 'd io_world"
  mach_io_write_halfword :: "u32 \<Rightarrow> u32 \<Rightarrow> 'd io_world \<Rightarrow> 'd io_world"
  mach_io_write_word :: "u32 \<Rightarrow> u32 \<Rightarrow> 'd io_world \<Rightarrow> 'd io_world"

subsection \<open>The bank table (memory/bank_defs.h)\<close>

text \<open>The functions a bank's two function pointers are ever set to (parse_mem.c).\<close>

datatype bank_reader = mem_read_fn | io_read_fn | flash_read_fn
datatype bank_writer = mem_write_fn | io_write_fn | flash_write_fn | warn_write_fn

datatype mem_type = MEMTYPE_IO | MEMTYPE_RAM | MEMTYPE_ROM | MEMTYPE_FLASH

record mem_bank =
  bank_addr :: u32
  bank_len :: u32
  bank_write :: "bank_writer option"
  bank_read :: "bank_reader option"
  bank_filename :: string
  bank_type :: mem_type

record 'd bus =
  current_num :: nat
  mem_banks :: "mem_bank list"
  mbp :: "nat option"
  rom :: "u32 list option list"
  big_endian :: bool
  prescale :: int
  mach :: "'d machine_config"
  io :: "'d io_world"
  halted :: "halt_reason option"

definition bus_halt :: "halt_reason \<Rightarrow> 'd bus \<Rightarrow> 'd bus" where
  "bus_halt h s = s\<lparr>halted := first_halt (halted s) h\<rparr>"

subsection \<open>Finding a bank (memory/bank_ops.c)\<close>

definition bank_hit :: "mem_bank \<Rightarrow> u32 \<Rightarrow> bool" where
  "bank_hit b a \<longleftrightarrow> bank_addr b \<le> a \<and> a - bank_addr b < bank_len b"

text \<open>
  The search loop of \<^verbatim>\<open>bank_ptr\<close>: from an index on, to the first bank of length 0.
  A table without such a bank is read past its end.
\<close>

datatype scan_result = Scan_hit nat | Scan_end nat | Scan_overrun

fun bank_scan :: "mem_bank list \<Rightarrow> u32 \<Rightarrow> nat \<Rightarrow> scan_result" where
  "bank_scan [] a i = Scan_overrun"
| "bank_scan (b # bs) a i =
     (if bank_len b = 0 then Scan_end i
      else if bank_hit b a then Scan_hit i
      else bank_scan bs a (Suc i))"

definition bank_ptr :: "u32 \<Rightarrow> 'd bus \<Rightarrow> nat option \<times> 'd bus" where
  "bank_ptr a s =
     (let search =
        (case bank_scan (mem_banks s) a 0 of
           Scan_hit i \<Rightarrow> (Some i, s\<lparr>mbp := Some i\<rparr>)
         | Scan_end i \<Rightarrow> (None, s\<lparr>mbp := Some i\<rparr>)
         | Scan_overrun \<Rightarrow> (None, bus_halt Out_of_bounds s))
      in case mbp s of
           Some i \<Rightarrow>
             if i < length (mem_banks s) \<and> bank_hit (mem_banks s ! i) a
             then (Some i, s) else search
         | None \<Rightarrow> search)"

subsection \<open>RAM and ROM (memory/ram.c)\<close>

text \<open>
  \<^verbatim>\<open>global_memory.rom[bank][(addr - bank->addr) >> 2]\<close>, read and written. A bank without
  an allocated array and an index past the array's end are the ways these go wrong.
\<close>

definition rom_read :: "nat \<Rightarrow> u32 \<Rightarrow> 'd bus \<Rightarrow> u32 \<times> 'd bus" where
  "rom_read i a s =
     (if length (rom s) \<le> i then (0, bus_halt Out_of_bounds s)
      else case rom s ! i of
        None \<Rightarrow> (0, bus_halt Null_pointer s)
      | Some ws \<Rightarrow>
          (let k = unat (drop_bit 2 (a - bank_addr (mem_banks s ! i)))
           in if k < length ws then (ws ! k, s) else (0, bus_halt Out_of_bounds s)))"

definition rom_write :: "nat \<Rightarrow> u32 \<Rightarrow> u32 \<Rightarrow> 'd bus \<Rightarrow> 'd bus" where
  "rom_write i a v s =
     (if length (rom s) \<le> i then bus_halt Out_of_bounds s
      else case rom s ! i of
        None \<Rightarrow> bus_halt Null_pointer s
      | Some ws \<Rightarrow>
          (let k = unat (drop_bit 2 (a - bank_addr (mem_banks s ! i)))
           in if k < length ws then s\<lparr>rom := (rom s)[i := Some (ws[k := v])]\<rparr>
              else bus_halt Out_of_bounds s))"

text \<open>Bit offset of a byte or a halfword in its word.\<close>

definition byte_offset :: "bool \<Rightarrow> u32 \<Rightarrow> u32" where
  "byte_offset be a = push_bit 3 ((of_bool be * 3) XOR (a AND 3))"

definition half_offset :: "bool \<Rightarrow> u32 \<Rightarrow> u32" where
  "half_offset be a = push_bit 3 ((of_bool be * 2) XOR (a AND 2))"

definition mem_read_byte :: "u32 \<Rightarrow> 'd bus \<Rightarrow> u32 \<times> 'd bus" where
  "mem_read_byte a s =
     (case bank_ptr a s of
        (None, s1) \<Rightarrow> (0, bus_halt Null_pointer s1)
      | (Some i, s1) \<Rightarrow>
          (case rom_read i a s1 of
             (data, s2) \<Rightarrow>
               ((drop_bit (unat (byte_offset (big_endian s) a)) data) AND 0xff, s2)))"

definition mem_read_halfword :: "u32 \<Rightarrow> 'd bus \<Rightarrow> u32 \<times> 'd bus" where
  "mem_read_halfword a s =
     (case bank_ptr a s of
        (None, s1) \<Rightarrow> (0, bus_halt Null_pointer s1)
      | (Some i, s1) \<Rightarrow>
          (case rom_read i a s1 of
             (data, s2) \<Rightarrow>
               ((drop_bit (unat (half_offset (big_endian s) a)) data) AND 0xffff, s2)))"

definition mem_read_word :: "u32 \<Rightarrow> 'd bus \<Rightarrow> u32 \<times> 'd bus" where
  "mem_read_word a s =
     (case bank_ptr a s of
        (None, s1) \<Rightarrow> (0, bus_halt Null_pointer s1)
      | (Some i, s1) \<Rightarrow> rom_read i a s1)"

definition mem_write_byte :: "u32 \<Rightarrow> u32 \<Rightarrow> 'd bus \<Rightarrow> 'd bus" where
  "mem_write_byte a v s =
     (case bank_ptr a s of
        (None, s1) \<Rightarrow> bus_halt Null_pointer s1
      | (Some i, s1) \<Rightarrow>
          (case rom_read i a s1 of
             (temp, s2) \<Rightarrow>
               (let n = unat (byte_offset (big_endian s) a)
                in rom_write i a
                     ((temp AND NOT (push_bit n 0xff)) OR push_bit n (v AND 0xff)) s2)))"

definition mem_write_halfword :: "u32 \<Rightarrow> u32 \<Rightarrow> 'd bus \<Rightarrow> 'd bus" where
  "mem_write_halfword a v s =
     (case bank_ptr a s of
        (None, s1) \<Rightarrow> bus_halt Null_pointer s1
      | (Some i, s1) \<Rightarrow>
          (case rom_read i a s1 of
             (temp, s2) \<Rightarrow>
               (let n = unat (half_offset (big_endian s) a)
                in rom_write i a
                     ((temp AND NOT (push_bit n 0xffff)) OR push_bit n (v AND 0xffff)) s2)))"

definition mem_write_word :: "u32 \<Rightarrow> u32 \<Rightarrow> 'd bus \<Rightarrow> 'd bus" where
  "mem_write_word a v s =
     (case bank_ptr a s of
        (None, s1) \<Rightarrow> bus_halt Null_pointer s1
      | (Some i, s1) \<Rightarrow> rom_write i a v s1)"

text \<open>
  \<^verbatim>\<open>mem_read\<close> and \<^verbatim>\<open>mem_write\<close> select by access size; any other size only prints a message
  and returns -1, which the bus ignores. \<open>v0\<close> is what \<^verbatim>\<open>*value\<close> holds before the call.
\<close>

definition mem_read :: "nat \<Rightarrow> u32 \<Rightarrow> u32 \<Rightarrow> 'd bus \<Rightarrow> u32 \<times> 'd bus" where
  "mem_read sz a v0 s =
     (if sz = 8 then (case mem_read_byte a s of (v, s') \<Rightarrow> (v AND 0xff, s'))
      else if sz = 16 then (case mem_read_halfword a s of (v, s') \<Rightarrow> (v AND 0xffff, s'))
      else if sz = 32 then mem_read_word a s
      else (v0, s))"

definition mem_write :: "nat \<Rightarrow> u32 \<Rightarrow> u32 \<Rightarrow> 'd bus \<Rightarrow> 'd bus" where
  "mem_write sz a v s =
     (if sz = 8 then mem_write_byte a (v AND 0xff) s
      else if sz = 16 then mem_write_halfword a (v AND 0xffff) s
      else if sz = 32 then mem_write_word a v s
      else s)"

definition warn_write :: "nat \<Rightarrow> u32 \<Rightarrow> u32 \<Rightarrow> 'd bus \<Rightarrow> 'd bus" where
  "warn_write sz a v s = s"

subsection \<open>Loading the banks (memory/ram.c, \<^verbatim>\<open>mem_reset\<close>)\<close>

text \<open>
  A bank with a backing file is filled with the file's first bytes and then rewritten word
  by word from the bytes \<^verbatim>\<open>p[0..3]\<close>, where \<^verbatim>\<open>p\<close> is a \<^verbatim>\<open>char *\<close>: plain \<^verbatim>\<open>char\<close> is signed on the
  simulator's hosts, so the conversion to \<^verbatim>\<open>uint32_t\<close> extends the sign. File contents
  are an argument: \<open>fopen f\<close> is \<open>None\<close> for a file that cannot be opened. The host is
  little-endian, and allocation does not fail.
\<close>

definition sext_byte :: "u8 \<Rightarrow> u32" where
  "sext_byte b = scast b"

definition swap_word :: "bool \<Rightarrow> u32 \<Rightarrow> u32" where
  "swap_word be w =
     (let p0 = sext_byte (ucast w);
          p1 = sext_byte (ucast (drop_bit 8 w));
          p2 = sext_byte (ucast (drop_bit 16 w));
          p3 = sext_byte (ucast (drop_bit 24 w))
      in if be then p3 OR push_bit 8 p2 OR push_bit 16 p1 OR push_bit 24 p0
         else p0 OR push_bit 8 p1 OR push_bit 16 p2 OR push_bit 24 p3)"

text \<open>Bytes to words in memory order, the last word padded with the cleared bytes.\<close>

fun le_words :: "u8 list \<Rightarrow> u32 list" where
  "le_words [] = []"
| "le_words [a] = [ucast a]"
| "le_words [a, b] = [ucast a OR push_bit 8 (ucast b)]"
| "le_words [a, b, c] = [ucast a OR push_bit 8 (ucast b) OR push_bit 16 (ucast c)]"
| "le_words (a # b # c # d # bs) =
     (ucast a OR push_bit 8 (ucast b) OR push_bit 16 (ucast c) OR push_bit 24 (ucast d))
       # le_words bs"

definition fill_words :: "nat \<Rightarrow> u8 list \<Rightarrow> u32 list" where
  "fill_words n bs = (let ws = le_words bs in take n ws @ replicate (n - length ws) 0)"

definition mem_reset_bank :: "(string \<Rightarrow> u8 list option) \<Rightarrow> nat \<Rightarrow> 'd bus \<Rightarrow> 'd bus" where
  "mem_reset_bank fopen i s =
     (let b = mem_banks s ! i;
          n = unat (bank_len b) div 4;
          alloc = (\<lambda>ws. s\<lparr>rom := (rom s)[i := ws]\<rparr>)
      in if length (mem_banks s) \<le> i \<or> length (rom s) \<le> i then bus_halt Out_of_bounds s
         else if bank_type b = MEMTYPE_IO then alloc None
         else case fopen (bank_filename b) of
           Some bs \<Rightarrow>
             (let bs = take (unat (bank_len b)) bs
              in if bs = [] then bus_halt Skyeye_exit (alloc (Some (replicate n 0)))
                 else if unat (bank_len b) mod 4 \<noteq> 0
                 then bus_halt Out_of_bounds (alloc (Some (map (swap_word (big_endian s)) (fill_words n bs))))
                 else alloc (Some (map (swap_word (big_endian s)) (fill_words n bs))))
         | None \<Rightarrow>
             if bank_filename b \<noteq> [] then bus_halt Skyeye_exit (alloc (Some (replicate n 0)))
             else alloc (Some (replicate n 0)))"

definition mem_reset :: "(string \<Rightarrow> u8 list option) \<Rightarrow> 'd bus \<Rightarrow> 'd bus" where
  "mem_reset fopen s = fold (mem_reset_bank fopen) [0 ..< current_num s] s"

subsection \<open>Devices behind I/O banks (memory/io.c)\<close>

text \<open>
  One loop for the three reads and one for the three writes: the devices in order, those
  without the handler skipped, a device of size 0 asked for every address and the others
  for the addresses of their range; the first that does not answer \<^verbatim>\<open>ADDR_NOHIT\<close> ends the
  search.
\<close>

definition dev_covers :: "'d device_desc \<Rightarrow> u32 \<Rightarrow> bool" where
  "dev_covers dev a \<longleftrightarrow>
     dev_size dev = 0 \<or> (dev_base dev \<le> a \<and> a < dev_base dev + dev_size dev)"

fun dispatch_read ::
  "('d device_desc \<Rightarrow> (u32 \<Rightarrow> 'd io_world \<Rightarrow> addr_status \<times> 'a \<times> 'd io_world) option) \<Rightarrow>
   'd device_desc list \<Rightarrow> u32 \<Rightarrow> 'd io_world \<Rightarrow> 'a option \<times> 'd io_world" where
  "dispatch_read handler [] a w = (None, w)"
| "dispatch_read handler (dev # devs) a w =
     (case handler dev of
        None \<Rightarrow> dispatch_read handler devs a w
      | Some f \<Rightarrow>
          if dev_covers dev a then
            (case f a w of
               (st, v, w') \<Rightarrow>
                 if st \<noteq> ADDR_NOHIT then (Some v, w') else dispatch_read handler devs a w')
          else dispatch_read handler devs a w)"

fun dispatch_write ::
  "('d device_desc \<Rightarrow> (u32 \<Rightarrow> 'a \<Rightarrow> 'd io_world \<Rightarrow> addr_status \<times> 'd io_world) option) \<Rightarrow>
   'd device_desc list \<Rightarrow> u32 \<Rightarrow> 'a \<Rightarrow> 'd io_world \<Rightarrow> bool \<times> 'd io_world" where
  "dispatch_write handler [] a v w = (False, w)"
| "dispatch_write handler (dev # devs) a v w =
     (case handler dev of
        None \<Rightarrow> dispatch_write handler devs a v w
      | Some f \<Rightarrow>
          if dev_covers dev a then
            (case f a v w of
               (st, w') \<Rightarrow>
                 if st \<noteq> ADDR_NOHIT then (True, w') else dispatch_write handler devs a v w')
          else dispatch_write handler devs a v w)"

definition io_read_byte :: "u32 \<Rightarrow> 'd bus \<Rightarrow> u32 \<times> 'd bus" where
  "io_read_byte a s =
     (case dispatch_read dev_read_byte (devices (mach s)) a (io s) of
        (Some v, w) \<Rightarrow> (ucast v, s\<lparr>io := w\<rparr>)
      | (None, w) \<Rightarrow>
          (case mach_io_read_byte (mach s) a w of (v, w') \<Rightarrow> (v, s\<lparr>io := w'\<rparr>)))"

definition io_read_halfword :: "u32 \<Rightarrow> 'd bus \<Rightarrow> u32 \<times> 'd bus" where
  "io_read_halfword a s =
     (case dispatch_read dev_read_halfword (devices (mach s)) a (io s) of
        (Some v, w) \<Rightarrow> (ucast v, s\<lparr>io := w\<rparr>)
      | (None, w) \<Rightarrow>
          (case mach_io_read_halfword (mach s) a w of (v, w') \<Rightarrow> (v, s\<lparr>io := w'\<rparr>)))"

definition io_read_word :: "u32 \<Rightarrow> 'd bus \<Rightarrow> u32 \<times> 'd bus" where
  "io_read_word a s =
     (case dispatch_read dev_read_word (devices (mach s)) a (io s) of
        (Some v, w) \<Rightarrow> (v, s\<lparr>io := w\<rparr>)
      | (None, w) \<Rightarrow>
          (case mach_io_read_word (mach s) a w of (v, w') \<Rightarrow> (v, s\<lparr>io := w'\<rparr>)))"

definition io_write_byte :: "u32 \<Rightarrow> u32 \<Rightarrow> 'd bus \<Rightarrow> 'd bus" where
  "io_write_byte a v s =
     (case dispatch_write dev_write_byte (devices (mach s)) a (ucast v) (io s) of
        (True, w) \<Rightarrow> s\<lparr>io := w\<rparr>
      | (False, w) \<Rightarrow> s\<lparr>io := mach_io_write_byte (mach s) a v w\<rparr>)"

definition io_write_halfword :: "u32 \<Rightarrow> u32 \<Rightarrow> 'd bus \<Rightarrow> 'd bus" where
  "io_write_halfword a v s =
     (case dispatch_write dev_write_halfword (devices (mach s)) a (ucast v) (io s) of
        (True, w) \<Rightarrow> s\<lparr>io := w\<rparr>
      | (False, w) \<Rightarrow> s\<lparr>io := mach_io_write_halfword (mach s) a v w\<rparr>)"

definition io_write_word :: "u32 \<Rightarrow> u32 \<Rightarrow> 'd bus \<Rightarrow> 'd bus" where
  "io_write_word a v s =
     (case dispatch_write dev_write_word (devices (mach s)) a v (io s) of
        (True, w) \<Rightarrow> s\<lparr>io := w\<rparr>
      | (False, w) \<Rightarrow> s\<lparr>io := mach_io_write_word (mach s) a v w\<rparr>)"

definition io_read :: "nat \<Rightarrow> u32 \<Rightarrow> u32 \<Rightarrow> 'd bus \<Rightarrow> u32 \<times> 'd bus" where
  "io_read sz a v0 s =
     (if sz = 8 then io_read_byte a s
      else if sz = 16 then io_read_halfword a s
      else if sz = 32 then io_read_word a s
      else (v0, s))"

definition io_write :: "nat \<Rightarrow> u32 \<Rightarrow> u32 \<Rightarrow> 'd bus \<Rightarrow> 'd bus" where
  "io_write sz a v s =
     (if sz = 8 then io_write_byte a v s
      else if sz = 16 then io_write_halfword a v s
      else if sz = 32 then io_write_word a v s
      else s)"

text \<open>\<^verbatim>\<open>io_reset\<close> resets the devices in order and then the machine, if it has a reset.\<close>

definition run_hook :: "('d io_world \<Rightarrow> 'd io_world) option \<Rightarrow> 'd io_world \<Rightarrow> 'd io_world" where
  "run_hook h w = (case h of None \<Rightarrow> w | Some f \<Rightarrow> f w)"

definition io_reset :: "'d bus \<Rightarrow> 'd bus" where
  "io_reset s =
     s\<lparr>io := run_hook (mach_io_reset (mach s))
              (fold (\<lambda>dev. run_hook (dev_reset dev)) (devices (mach s)) (io s))\<rparr>"

definition DIVISOR :: int where
  "DIVISOR = 50"

definition io_do_cycle :: "'d bus \<Rightarrow> 'd bus" where
  "io_do_cycle s =
     (if prescale s - 1 < 0 then
        s\<lparr>prescale := DIVISOR,
          io := mach_io_do_cycle (mach s)
                 (fold (\<lambda>dev. run_hook (dev_update dev)) (devices (mach s)) (io s))\<rparr>
      else s\<lparr>prescale := prescale s - 1\<rparr>)"

subsection \<open>Flash banks (memory/flash.c)\<close>

text \<open>
  As for I/O banks, but without a machine to fall back on: a read no device answers
  returns its uninitialised local variable (the argument \<open>junk\<close>), such a write is dropped.
\<close>

definition flash_read_byte :: "u32 \<Rightarrow> u32 \<Rightarrow> 'd bus \<Rightarrow> u32 \<times> 'd bus" where
  "flash_read_byte junk a s =
     (case dispatch_read dev_read_byte (devices (mach s)) a (io s) of
        (r, w) \<Rightarrow> (case r of Some v \<Rightarrow> ucast v | None \<Rightarrow> junk, s\<lparr>io := w\<rparr>))"

definition flash_read_halfword :: "u32 \<Rightarrow> u32 \<Rightarrow> 'd bus \<Rightarrow> u32 \<times> 'd bus" where
  "flash_read_halfword junk a s =
     (case dispatch_read dev_read_halfword (devices (mach s)) a (io s) of
        (r, w) \<Rightarrow> (case r of Some v \<Rightarrow> ucast v | None \<Rightarrow> junk, s\<lparr>io := w\<rparr>))"

definition flash_read_word :: "u32 \<Rightarrow> u32 \<Rightarrow> 'd bus \<Rightarrow> u32 \<times> 'd bus" where
  "flash_read_word junk a s =
     (case dispatch_read dev_read_word (devices (mach s)) a (io s) of
        (r, w) \<Rightarrow> (case r of Some v \<Rightarrow> v | None \<Rightarrow> junk, s\<lparr>io := w\<rparr>))"

definition flash_write_byte :: "u32 \<Rightarrow> u32 \<Rightarrow> 'd bus \<Rightarrow> 'd bus" where
  "flash_write_byte a v s =
     s\<lparr>io := snd (dispatch_write dev_write_byte (devices (mach s)) a (ucast v) (io s))\<rparr>"

definition flash_write_halfword :: "u32 \<Rightarrow> u32 \<Rightarrow> 'd bus \<Rightarrow> 'd bus" where
  "flash_write_halfword a v s =
     s\<lparr>io := snd (dispatch_write dev_write_halfword (devices (mach s)) a (ucast v) (io s))\<rparr>"

definition flash_write_word :: "u32 \<Rightarrow> u32 \<Rightarrow> 'd bus \<Rightarrow> 'd bus" where
  "flash_write_word a v s =
     s\<lparr>io := snd (dispatch_write dev_write_word (devices (mach s)) a v (io s))\<rparr>"

lemmas flash_defs =
  flash_read_byte_def flash_read_halfword_def flash_read_word_def
  flash_write_byte_def flash_write_halfword_def flash_write_word_def

definition flash_read :: "u32 \<Rightarrow> nat \<Rightarrow> u32 \<Rightarrow> u32 \<Rightarrow> 'd bus \<Rightarrow> u32 \<times> 'd bus" where
  "flash_read junk sz a v0 s =
     (if sz = 8 then flash_read_byte junk a s
      else if sz = 16 then flash_read_halfword junk a s
      else if sz = 32 then flash_read_word junk a s
      else (v0, s))"

definition flash_write :: "nat \<Rightarrow> u32 \<Rightarrow> u32 \<Rightarrow> 'd bus \<Rightarrow> 'd bus" where
  "flash_write sz a v s =
     (if sz = 8 then flash_write_byte a v s
      else if sz = 16 then flash_write_halfword a v s
      else if sz = 32 then flash_write_word a v s
      else s)"

subsection \<open>The bus (memory/bank_ops.c)\<close>

text \<open>
  \<^verbatim>\<open>bus_read\<close> leaves \<^verbatim>\<open>*value\<close> alone where no bank answers or the bank has no reader;
  \<^verbatim>\<open>bus_write\<close> calls the bank's writer without that check. The uninitialised value of a
  flash miss is taken to be what \<^verbatim>\<open>*value\<close> holds.
\<close>

definition bus_read :: "nat \<Rightarrow> u32 \<Rightarrow> u32 \<Rightarrow> 'd bus \<Rightarrow> u32 \<times> 'd bus" where
  "bus_read sz a v0 s =
     (case bank_ptr a s of
        (None, s1) \<Rightarrow> (v0, s1)
      | (Some i, s1) \<Rightarrow>
          (case bank_read (mem_banks s1 ! i) of
             None \<Rightarrow> (v0, s1)
           | Some mem_read_fn \<Rightarrow> mem_read sz a v0 s1
           | Some io_read_fn \<Rightarrow> io_read sz a v0 s1
           | Some flash_read_fn \<Rightarrow> flash_read v0 sz a v0 s1))"

definition bus_write :: "nat \<Rightarrow> u32 \<Rightarrow> u32 \<Rightarrow> 'd bus \<Rightarrow> 'd bus" where
  "bus_write sz a v s =
     (case bank_ptr a s of
        (None, s1) \<Rightarrow> s1
      | (Some i, s1) \<Rightarrow>
          (case bank_write (mem_banks s1 ! i) of
             None \<Rightarrow> bus_halt Null_pointer s1
           | Some mem_write_fn \<Rightarrow> mem_write sz a v s1
           | Some io_write_fn \<Rightarrow> io_write sz a v s1
           | Some flash_write_fn \<Rightarrow> flash_write sz a v s1
           | Some warn_write_fn \<Rightarrow> warn_write sz a v s1))"

end
