(* ===== verification/Bus_Spec.thy ===== *)
theory Bus_Spec
  imports Bus
begin

text \<open>
  What the memory side promises. \<open>wf_bus\<close> says when a bank table is usable: it ends in a
  bank of length 0, its banks are word aligned, do not wrap and do not overlap, have both
  handlers, and the banks of \<^verbatim>\<open>ram.c\<close> have their arrays. On such a bus the remembered bank
  of \<^verbatim>\<open>bank_ptr\<close> is invisible, no access leaves defined behaviour, and the RAM and ROM
  banks together are one array of bytes: \<open>mem_abs\<close> reads that array off the words, with the
  byte order of the machine, and the byte, halfword and word accesses of the bus are reads
  and updates of it. The locale \<open>byte_store\<close> is that contract for byte accesses.
\<close>

subsection \<open>Well-formed bank tables\<close>

definition used_banks :: "mem_bank list \<Rightarrow> mem_bank list" where
  "used_banks bs = takeWhile (\<lambda>b. bank_len b \<noteq> 0) bs"

definition ok_bank :: "mem_bank \<Rightarrow> bool" where
  "ok_bank b \<longleftrightarrow>
     unat (bank_addr b) + unat (bank_len b) \<le> 2 ^ 32 \<and>
     unat (bank_addr b) mod 4 = 0 \<and> unat (bank_len b) mod 4 = 0 \<and>
     bank_read b \<noteq> None \<and> bank_write b \<noteq> None"

definition apart :: "mem_bank \<Rightarrow> mem_bank \<Rightarrow> bool" where
  "apart b c \<longleftrightarrow>
     unat (bank_addr b) + unat (bank_len b) \<le> unat (bank_addr c) \<or>
     unat (bank_addr c) + unat (bank_len c) \<le> unat (bank_addr b)"

fun all_apart :: "mem_bank list \<Rightarrow> bool" where
  "all_apart [] = True"
| "all_apart (b # bs) = (list_all (apart b) bs \<and> all_apart bs)"

definition wf_table :: "mem_bank list \<Rightarrow> bool" where
  "wf_table bs \<longleftrightarrow>
     length (used_banks bs) < length bs \<and> list_all ok_bank (used_banks bs) \<and>
     all_apart (used_banks bs)"

definition backed :: "mem_bank \<Rightarrow> bool" where
  "backed b \<longleftrightarrow> bank_read b = Some mem_read_fn \<or> bank_write b = Some mem_write_fn"

definition has_array :: "mem_bank \<Rightarrow> u32 list option \<Rightarrow> bool" where
  "has_array b r \<longleftrightarrow>
     (backed b \<longrightarrow> (case r of None \<Rightarrow> False | Some ws \<Rightarrow> 4 * length ws = unat (bank_len b)))"

definition wf_bus :: "'d bus \<Rightarrow> bool" where
  "wf_bus s \<longleftrightarrow>
     wf_table (mem_banks s) \<and>
     (case mbp s of None \<Rightarrow> True | Some i \<Rightarrow> i \<le> length (used_banks (mem_banks s))) \<and>
     length (rom s) = length (mem_banks s) \<and>
     list_all2 has_array (used_banks (mem_banks s))
       (take (length (used_banks (mem_banks s))) (rom s))"

text \<open>The bank of an address by the table alone, without the remembered bank.\<close>

fun bank_find :: "mem_bank list \<Rightarrow> u32 \<Rightarrow> nat option" where
  "bank_find [] a = None"
| "bank_find (b # bs) a =
     (if bank_len b = 0 then None
      else if bank_hit b a then Some 0
      else map_option Suc (bank_find bs a))"

text \<open>The array of bytes that the RAM and ROM banks stand for.\<close>

definition word_index :: "mem_bank \<Rightarrow> u32 \<Rightarrow> nat" where
  "word_index b a = unat (drop_bit 2 (a - bank_addr b))"

definition lane :: "bool \<Rightarrow> u32 \<Rightarrow> nat" where
  "lane be a = 8 * (if be then 3 - unat a mod 4 else unat a mod 4)"

definition mem_abs :: "'d bus \<Rightarrow> u32 \<Rightarrow> u8 option" where
  "mem_abs s a =
     (case bank_find (mem_banks s) a of
        None \<Rightarrow> None
      | Some i \<Rightarrow>
          if bank_read (mem_banks s ! i) = Some mem_read_fn then
            (case rom s ! i of
               None \<Rightarrow> None
             | Some ws \<Rightarrow>
                 Some (ucast (drop_bit (lane (big_endian s) a) (ws ! word_index (mem_banks s ! i) a))))
          else None)"

definition ram_at :: "'d bus \<Rightarrow> u32 \<Rightarrow> bool" where
  "ram_at s a \<longleftrightarrow>
     (case bank_find (mem_banks s) a of
        None \<Rightarrow> False
      | Some i \<Rightarrow>
          bank_read (mem_banks s ! i) = Some mem_read_fn \<and>
          bank_write (mem_banks s ! i) = Some mem_write_fn)"

subsection \<open>The search and the remembered bank\<close>

lemma used_banks_simps [simp]:
  "used_banks [] = []"
  "used_banks (b # bs) = (if bank_len b = 0 then [] else b # used_banks bs)"
  by (simp_all add: used_banks_def)

lemma used_banks_le: "length (used_banks bs) \<le> length bs"
  by (simp add: used_banks_def length_takeWhile_le)

lemma used_banks_nth: "i < length (used_banks bs) \<Longrightarrow> used_banks bs ! i = bs ! i"
  by (simp add: used_banks_def takeWhile_nth)

lemma bank_find_used: "bank_find bs a = Some i \<Longrightarrow> i < length (used_banks bs) \<and> bank_hit (bs ! i) a"
  by (induction bs arbitrary: i) (auto split: if_splits)

lemma bank_find_None: "bank_find bs a = None \<Longrightarrow> i < length (used_banks bs) \<Longrightarrow> \<not> bank_hit (bs ! i) a"
proof (induction bs arbitrary: i)
  case (Cons b bs)
  then show ?case by (cases i) (auto split: if_splits)
qed simp

lemma bank_scan_find:
  "bank_scan bs a k =
     (case bank_find bs a of
        Some i \<Rightarrow> Scan_hit (k + i)
      | None \<Rightarrow> if length (used_banks bs) < length bs then Scan_end (k + length (used_banks bs))
                else Scan_overrun)"
  by (induction bs arbitrary: k) (auto split: option.splits)

lemma bank_hit_range:
  "bank_hit b a \<Longrightarrow>
     unat (bank_addr b) \<le> unat a \<and> unat a < unat (bank_addr b) + unat (bank_len b) \<and>
     unat (a - bank_addr b) = unat a - unat (bank_addr b)"
  by (auto simp: bank_hit_def word_le_nat_alt word_less_nat_alt unat_sub)

lemma all_apart_nth:
  "all_apart bs \<Longrightarrow> i < j \<Longrightarrow> j < length bs \<Longrightarrow> apart (bs ! i) (bs ! j)"
proof (induction bs arbitrary: i j)
  case (Cons b bs)
  then show ?case by (cases i; cases j) (auto simp: list_all_length)
qed simp

lemma apart_hit: "apart b c \<Longrightarrow> bank_hit b a \<Longrightarrow> \<not> bank_hit c a"
  by (auto simp: apart_def dest!: bank_hit_range)

lemma hit_unique:
  assumes "all_apart bs" "i < length bs" "j < length bs" "bank_hit (bs ! i) a" "bank_hit (bs ! j) a"
  shows "i = j"
  using assms all_apart_nth [of bs i j] all_apart_nth [of bs j i] apart_hit
  by (metis linorder_neqE_nat)

lemma bank_find_eq:
  assumes "wf_table bs" "i < length (used_banks bs)" "bank_hit (bs ! i) a"
  shows "bank_find bs a = Some i"
proof (cases "bank_find bs a")
  case None
  with assms show ?thesis by (simp add: bank_find_None)
next
  case (Some j)
  then have "j < length (used_banks bs)" "bank_hit (bs ! j) a"
    by (auto dest: bank_find_used)
  with assms hit_unique [of "used_banks bs" i j a] Some show ?thesis
    by (simp add: wf_table_def used_banks_nth)
qed

lemma no_hit_empty: "bank_len b = 0 \<Longrightarrow> \<not> bank_hit b a"
  by (simp add: bank_hit_def)

lemma used_end: "length (used_banks bs) < length bs \<Longrightarrow> bank_len (bs ! length (used_banks bs)) = 0"
  unfolding used_banks_def using nth_length_takeWhile by fastforce

lemma bank_ptr_wf:
  assumes "wf_bus s"
  shows "\<exists>m. bank_ptr a s = (bank_find (mem_banks s) a, s\<lparr>mbp := m\<rparr>) \<and> wf_bus (s\<lparr>mbp := m\<rparr>)"
proof -
  let ?bs = "mem_banks s"
  have t: "wf_table ?bs" "length (used_banks ?bs) < length ?bs"
    using assms by (auto simp: wf_bus_def wf_table_def)
  have scan: "\<exists>m. (case bank_scan ?bs a 0 of
           Scan_hit i \<Rightarrow> (Some i, s\<lparr>mbp := Some i\<rparr>)
         | Scan_end i \<Rightarrow> (None, s\<lparr>mbp := Some i\<rparr>)
         | Scan_overrun \<Rightarrow> (None, bus_halt Out_of_bounds s)) = (bank_find ?bs a, s\<lparr>mbp := m\<rparr>) \<and>
         wf_bus (s\<lparr>mbp := m\<rparr>)"
    using assms t bank_find_used [of ?bs a]
    by (auto simp: bank_scan_find wf_bus_def split: option.splits)
  show ?thesis
  proof (cases "mbp s")
    case None
    with scan show ?thesis by (simp add: bank_ptr_def)
  next
    case (Some i)
    have i: "i \<le> length (used_banks ?bs)" using assms Some by (simp add: wf_bus_def)
    show ?thesis
    proof (cases "bank_hit (?bs ! i) a")
      case True
      with i t have "i < length (used_banks ?bs)"
        using used_end [of ?bs] no_hit_empty [of "?bs ! i" a] by (cases "i = length (used_banks ?bs)") auto
      moreover have "s\<lparr>mbp := Some i\<rparr> = s" using Some by simp
      ultimately show ?thesis
        using t True Some assms bank_find_eq [of ?bs i a]
        by (intro exI [of _ "Some i"]) (auto simp: bank_ptr_def wf_bus_def)
    next
      case False
      with scan Some show ?thesis by (simp add: bank_ptr_def)
    qed
  qed
qed

subsection \<open>Cells of the byte array\<close>

lemma mem_abs_mbp [simp]: "mem_abs (s\<lparr>mbp := m\<rparr>) = mem_abs s"
  by (simp add: mem_abs_def fun_eq_iff split: option.split)

lemma ram_at_mbp [simp]: "ram_at (s\<lparr>mbp := m\<rparr>) = ram_at s"
  by (simp add: ram_at_def fun_eq_iff split: option.split)

lemma lane_eq: "unat (byte_offset be a) = lane be a"
proof -
  have "unat a mod 4 \<in> {0, 1, 2, 3}" by auto
  then show ?thesis
    unfolding byte_offset_def and_3_mod lane_def by (auto simp: push_bit_eq_mult)
qed

lemma half_offset_eq: "unat (half_offset be a) = (if be = (unat a mod 4 < 2) then 16 else 0)"
  unfolding half_offset_def and_2_mod by (auto simp: push_bit_eq_mult)

lemma lane_le: "lane be a \<le> 24"
  by (auto simp: lane_def)

lemma lane_same: "lane be a = lane be b \<longleftrightarrow> unat a mod 4 = unat b mod 4"
proof -
  have "unat a mod 4 < 4" "unat b mod 4 < 4" by simp_all
  then show ?thesis by (auto simp: lane_def)
qed

lemma lane_apart: "lane be a = lane be b \<or> lane be a + 8 \<le> lane be b \<or> lane be b + 8 \<le> lane be a"
  by (auto simp: lane_def)

lemma lane_put:
  "(ucast (drop_bit (lane be b) (put_field (lane be a) 8 v t)) :: u8) =
     (if unat b mod 4 = unat a mod 4 then ucast v else ucast (drop_bit (lane be b) t))"
  using lane_put_field [OF lane_le lane_le lane_apart] by (simp add: lane_same)

lemma word_index_eq:
  assumes "bank_hit b a"
  shows "word_index b a = (unat a - unat (bank_addr b)) div 4"
proof -
  have "unat (drop_bit 2 (a - bank_addr b)) = unat (a - bank_addr b) div 4"
    by (simp add: drop_bit_eq_div unat_div)
  then show ?thesis using bank_hit_range [OF assms] by (simp add: word_index_def)
qed

lemma bank_cell:
  assumes "wf_bus s" "bank_find (mem_banks s) a = Some i" "backed (mem_banks s ! i)"
  shows "\<exists>ws. rom s ! i = Some ws \<and> i < length (rom s) \<and> word_index (mem_banks s ! i) a < length ws"
proof -
  let ?bs = "mem_banks s"
  have i: "i < length (used_banks ?bs)" and h: "bank_hit (?bs ! i) a"
    using assms(2) bank_find_used by auto
  have "has_array (?bs ! i) (rom s ! i)" and len: "i < length (rom s)"
    using assms(1) i used_banks_nth [OF i] used_banks_le [of ?bs]
    by (auto simp: wf_bus_def list_all2_conv_all_nth)
  then obtain ws where ws: "rom s ! i = Some ws" "4 * length ws = unat (bank_len (?bs ! i))"
    using assms(3) by (auto simp: has_array_def split: option.splits)
  moreover have "word_index (?bs ! i) a < length ws"
    using bank_hit_range [OF h] ws(2) unfolding word_index_eq [OF h]
    by (intro less_mult_imp_div_less) linarith
  ultimately show ?thesis using len by auto
qed

lemma rom_read_cell:
  assumes "wf_bus s" "bank_find (mem_banks s) a = Some i" "backed (mem_banks s ! i)"
  shows "rom_read i a s = (the (rom s ! i) ! word_index (mem_banks s ! i) a, s)"
  using bank_cell [OF assms] by (auto simp: rom_read_def Let_def word_index_def)

lemma rom_write_cell:
  assumes "wf_bus s" "bank_find (mem_banks s) a = Some i" "backed (mem_banks s ! i)"
  shows "rom_write i a v s =
    s\<lparr>rom := (rom s)[i := Some ((the (rom s ! i))[word_index (mem_banks s ! i) a := v])]\<rparr>"
  using bank_cell [OF assms] by (auto simp: rom_write_def Let_def word_index_def)

lemma rom_write_keeps_wf:
  assumes "wf_bus s" "bank_find (mem_banks s) a = Some i" "backed (mem_banks s ! i)"
  shows "wf_bus (rom_write i a v s) \<and> halted (rom_write i a v s) = halted s"
proof -
  obtain ws where ws: "rom s ! i = Some ws" "i < length (rom s)"
    using bank_cell [OF assms] by auto
  have "list_all2 has_array (used_banks (mem_banks s))
      (take (length (used_banks (mem_banks s))) (rom (rom_write i a v s)))"
    using assms(1) ws unfolding rom_write_cell [OF assms]
    by (fastforce simp: wf_bus_def list_all2_conv_all_nth nth_list_update has_array_def
        split: option.splits)
  then show ?thesis using assms by (auto simp: wf_bus_def rom_write_cell split: option.splits)
qed

text \<open>The word that holds the byte at an address, and what storing that word does.\<close>

definition word_at :: "'d bus \<Rightarrow> u32 \<Rightarrow> u32" where
  "word_at s a =
     (case bank_find (mem_banks s) a of
        None \<Rightarrow> 0
      | Some i \<Rightarrow> the (rom s ! i) ! word_index (mem_banks s ! i) a)"

definition put_word :: "u32 \<Rightarrow> u32 \<Rightarrow> 'd bus \<Rightarrow> 'd bus" where
  "put_word a v s =
     (case bank_find (mem_banks s) a of
        None \<Rightarrow> s
      | Some i \<Rightarrow>
          s\<lparr>rom := (rom s)[i := Some ((the (rom s ! i))[word_index (mem_banks s ! i) a := v])]\<rparr>)"

lemma word_at_mbp [simp]: "word_at (s\<lparr>mbp := m\<rparr>) a = word_at s a"
  by (simp add: word_at_def split: option.split)

lemma put_word_fields [simp]:
  "mem_banks (put_word a v s) = mem_banks s"
  "big_endian (put_word a v s) = big_endian s"
  "mbp (put_word a v s) = mbp s"
  "halted (put_word a v s) = halted s"
  "length (rom (put_word a v s)) = length (rom s)"
  "io (put_word a v s) = io s"
  "mach (put_word a v s) = mach s"
  by (simp_all add: put_word_def split: option.splits)

lemma put_word_wf:
  assumes "wf_bus s" "ram_at s a"
  shows "wf_bus (put_word a v s)"
proof -
  obtain i where i: "bank_find (mem_banks s) a = Some i" "backed (mem_banks s ! i)"
    using assms(2) by (auto simp: ram_at_def backed_def split: option.splits)
  then show ?thesis
    using rom_write_keeps_wf [OF assms(1) i, of v] rom_write_cell [OF assms(1) i, of v]
    by (simp add: put_word_def)
qed

lemma mem_abs_word:
  assumes "wf_bus s" "ram_at s a"
  shows "mem_abs s a = Some (ucast (drop_bit (lane (big_endian s) a) (word_at s a)))"
proof -
  obtain i where i: "bank_find (mem_banks s) a = Some i" "backed (mem_banks s ! i)"
      "bank_read (mem_banks s ! i) = Some mem_read_fn"
    using assms(2) by (auto simp: ram_at_def backed_def split: option.splits)
  then show ?thesis
    using bank_cell [OF assms(1) i(1,2)] by (auto simp: mem_abs_def word_at_def)
qed

lemma ok_bank_find:
  assumes "wf_bus s" "bank_find (mem_banks s) a = Some i"
  shows "ok_bank (mem_banks s ! i)"
  using assms bank_find_used [OF assms(2)] used_banks_nth
  by (auto simp: wf_bus_def wf_table_def list_all_length)

lemma same_cell:
  assumes "wf_bus s" "bank_find (mem_banks s) a = Some i"
  shows "bank_find (mem_banks s) b = Some i \<and>
      word_index (mem_banks s ! i) b = word_index (mem_banks s ! i) a
    \<longleftrightarrow> unat b div 4 = unat a div 4" (is "?L \<longleftrightarrow> ?R")
proof -
  let ?bs = "mem_banks s"
  have al: "unat (bank_addr (?bs ! i)) mod 4 = 0" "unat (bank_len (?bs ! i)) mod 4 = 0"
    using ok_bank_find [OF assms] by (auto simp: ok_bank_def)
  have ha: "bank_hit (?bs ! i) a" "i < length (used_banks ?bs)"
    using assms(2) bank_find_used by auto
  have index: "word_index (?bs ! i) b = word_index (?bs ! i) a \<longleftrightarrow> ?R" if "bank_hit (?bs ! i) b"
    using that ha(1) al(1) bank_hit_range [OF ha(1)] bank_hit_range [OF that]
    by (simp add: word_index_eq div4_shift)
  have hit: "bank_hit (?bs ! i) b" if ?R
  proof -
    have "unat (bank_addr (?bs ! i)) \<le> unat b \<and>
      unat b < unat (bank_addr (?bs ! i)) + unat (bank_len (?bs ! i))"
      using that bank_hit_range [OF ha(1)] by (intro same_word_in_block [OF al, of "unat a"]) auto
    then show ?thesis by (auto simp: bank_hit_def word_le_nat_alt word_less_nat_alt unat_sub)
  qed
  have "bank_find ?bs b = Some i \<longleftrightarrow> bank_hit (?bs ! i) b"
    using assms(1) ha(2) bank_find_used [of ?bs b i] bank_find_eq [of ?bs i b]
    by (auto simp: wf_bus_def)
  with index hit show ?thesis by auto
qed

lemma word_at_same:
  assumes "wf_bus s" "ram_at s a" "unat b div 4 = unat a div 4"
  shows "word_at s b = word_at s a \<and> ram_at s b"
  using assms(2) same_cell [OF assms(1), of a _ b] assms(3)
  by (auto simp: word_at_def ram_at_def split: option.splits)

lemma mem_abs_put:
  assumes "wf_bus s" "ram_at s a"
  shows "mem_abs (put_word a v s) b =
    (if unat b div 4 = unat a div 4
     then Some (ucast (drop_bit (lane (big_endian s) b) v)) else mem_abs s b)"
proof -
  let ?bs = "mem_banks s"
  obtain i where i: "bank_find ?bs a = Some i" "backed (?bs ! i)"
      "bank_read (?bs ! i) = Some mem_read_fn"
    using assms(2) by (auto simp: ram_at_def backed_def split: option.splits)
  obtain ws where ws: "rom s ! i = Some ws" "i < length (rom s)" "word_index (?bs ! i) a < length ws"
    using bank_cell [OF assms(1) i(1,2)] by auto
  note same = same_cell [OF assms(1) i(1), of b]
  show ?thesis
  proof (cases "unat b div 4 = unat a div 4")
    case True
    then have "bank_find ?bs b = Some i" "word_index (?bs ! i) b = word_index (?bs ! i) a"
      using same by auto
    then show ?thesis using True i ws by (simp add: mem_abs_def put_word_def)
  next
    case False
    then have "bank_find ?bs b \<noteq> Some i \<or> word_index (?bs ! i) b \<noteq> word_index (?bs ! i) a"
      using same by auto
    then show ?thesis using False i ws
      by (auto simp: mem_abs_def put_word_def nth_list_update split: option.splits)
  qed
qed

lemma ram_at_put [simp]: "ram_at (put_word a v s) = ram_at s"
  by (simp add: ram_at_def fun_eq_iff split: option.split)

subsection \<open>Bus accesses to RAM and ROM\<close>

lemma mem_abs_bank:
  assumes "mem_abs s a = Some b"
  shows "\<exists>i. bank_find (mem_banks s) a = Some i \<and> backed (mem_banks s ! i) \<and>
     bank_read (mem_banks s ! i) = Some mem_read_fn \<and>
     b = ucast (drop_bit (lane (big_endian s) a) (word_at s a))"
  using assms by (auto simp: mem_abs_def word_at_def backed_def split: option.splits if_splits)

lemma bus_read_rom:
  assumes "wf_bus s" "mem_abs s a = Some b"
  shows "\<exists>m. bus_read sz a v0 s =
      ((if sz = 8 then (drop_bit (lane (big_endian s) a) (word_at s a)) AND 0xff
        else if sz = 16 then
          (drop_bit (unat (half_offset (big_endian s) a)) (word_at s a)) AND 0xffff
        else if sz = 32 then word_at s a else v0), s\<lparr>mbp := m\<rparr>) \<and> wf_bus (s\<lparr>mbp := m\<rparr>)"
proof -
  obtain i where i: "bank_find (mem_banks s) a = Some i" "backed (mem_banks s ! i)"
      "bank_read (mem_banks s ! i) = Some mem_read_fn"
    using mem_abs_bank [OF assms(2)] by auto
  obtain m where m: "bank_ptr a s = (Some i, s\<lparr>mbp := m\<rparr>)" "wf_bus (s\<lparr>mbp := m\<rparr>)"
    using bank_ptr_wf [OF assms(1), of a] i(1) by auto
  obtain n where n: "bank_ptr a (s\<lparr>mbp := m\<rparr>) = (Some i, s\<lparr>mbp := n\<rparr>)" "wf_bus (s\<lparr>mbp := n\<rparr>)"
    using bank_ptr_wf [OF m(2), of a] i(1) by auto
  have r: "rom_read i a (s\<lparr>mbp := n\<rparr>) = (word_at s a, s\<lparr>mbp := n\<rparr>)"
    using rom_read_cell [OF n(2), of a i] i by (simp add: word_at_def)
  show ?thesis
  proof (cases "sz = 8 \<or> sz = 16 \<or> sz = 32")
    case True
    then show ?thesis
      using i(3) m(1) n r
      by (intro exI [of _ n])
        (auto simp: bus_read_def mem_read_def mem_read_byte_def mem_read_halfword_def
          mem_read_word_def lane_eq and.assoc)
  next
    case False
    then show ?thesis
      using i(3) m by (intro exI [of _ m]) (auto simp: bus_read_def mem_read_def)
  qed
qed

lemma bus_write_ram:
  assumes "wf_bus s" "ram_at s a"
  shows "\<exists>m. bus_write sz a v s =
      (let t = s\<lparr>mbp := m\<rparr> in
       if sz = 8 then put_word a (put_field (lane (big_endian s) a) 8 v (word_at s a)) t
       else if sz = 16 then
         put_word a (put_field (unat (half_offset (big_endian s) a)) 16 v (word_at s a)) t
       else if sz = 32 then put_word a v t
       else t) \<and> wf_bus (s\<lparr>mbp := m\<rparr>)"
proof -
  obtain i where i: "bank_find (mem_banks s) a = Some i" "backed (mem_banks s ! i)"
      "bank_write (mem_banks s ! i) = Some mem_write_fn"
    using assms(2) by (auto simp: ram_at_def backed_def split: option.splits)
  obtain m where m: "bank_ptr a s = (Some i, s\<lparr>mbp := m\<rparr>)" "wf_bus (s\<lparr>mbp := m\<rparr>)"
    using bank_ptr_wf [OF assms(1), of a] i(1) by auto
  obtain n where n: "bank_ptr a (s\<lparr>mbp := m\<rparr>) = (Some i, s\<lparr>mbp := n\<rparr>)" "wf_bus (s\<lparr>mbp := n\<rparr>)"
    using bank_ptr_wf [OF m(2), of a] i(1) by auto
  have r: "rom_read i a (s\<lparr>mbp := n\<rparr>) = (word_at s a, s\<lparr>mbp := n\<rparr>)"
    using rom_read_cell [OF n(2), of a i] i by (simp add: word_at_def)
  have w: "rom_write i a x (s\<lparr>mbp := n\<rparr>) = put_word a x (s\<lparr>mbp := n\<rparr>)" for x
    using rom_write_cell [OF n(2), of a i] i by (simp add: put_word_def)
  show ?thesis
  proof (cases "sz = 8 \<or> sz = 16 \<or> sz = 32")
    case True
    then show ?thesis
      using i(3) m(1) n r w
      by (intro exI [of _ n])
        (auto simp: bus_write_def mem_write_def mem_write_byte_def mem_write_halfword_def
          mem_write_word_def lane_eq and.assoc put_field_def ff_mask Let_def)
  next
    case False
    then show ?thesis
      using i(3) m by (intro exI [of _ m]) (auto simp: bus_write_def mem_write_def)
  qed
qed

lemma and_ff_ucast: "x AND 0xff = ucast (ucast (x :: u32) :: u8)"
  unfolding ff_mask by (intro bit_word_eqI) (auto simp: bit_simps)

lemma bus_read_byte_abs:
  assumes "wf_bus s" "mem_abs s a = Some b"
  shows "\<exists>m. bus_read 8 a v0 s = (ucast b, s\<lparr>mbp := m\<rparr>) \<and> wf_bus (s\<lparr>mbp := m\<rparr>)"
  using bus_read_rom [OF assms, of 8 v0] mem_abs_bank [OF assms(2)]
  by (auto simp: and_ff_ucast)

lemma bus_write_byte_abs:
  assumes "wf_bus s" "ram_at s a"
  shows "mem_abs (bus_write 8 a v s) = (mem_abs s)(a \<mapsto> ucast v) \<and>
    wf_bus (bus_write 8 a v s) \<and> halted (bus_write 8 a v s) = halted s \<and>
    ram_at (bus_write 8 a v s) = ram_at s"
proof -
  let ?n = "lane (big_endian s) a"
  obtain m where m: "bus_write 8 a v s = put_word a (put_field ?n 8 v (word_at s a)) (s\<lparr>mbp := m\<rparr>)"
      "wf_bus (s\<lparr>mbp := m\<rparr>)"
    using bus_write_ram [OF assms, of 8 v] by auto
  have ram: "ram_at (s\<lparr>mbp := m\<rparr>) a" using assms(2) by simp
  have "mem_abs (bus_write 8 a v s) b = ((mem_abs s)(a \<mapsto> ucast v)) b" for b
  proof (cases "unat b div 4 = unat a div 4")
    case True
    have "unat b mod 4 = unat a mod 4 \<longleftrightarrow> b = a"
      using True by (metis div_mult_mod_eq word_unat_eq_iff)
    then show ?thesis
      using True m mem_abs_put [OF m(2) ram] word_at_same [OF assms True] mem_abs_word [OF assms(1), of b]
      by (auto simp: lane_put)
  next
    case False
    then show ?thesis using m mem_abs_put [OF m(2) ram] by auto
  qed
  then show ?thesis using m put_word_wf [OF m(2) ram] by (auto simp: fun_eq_iff)
qed

subsection \<open>The contract of a byte store\<close>

text \<open>
  What the cache, the write buffer and the loaders need of the memory below them: a byte
  write changes one byte of what can be read, keeps the invariant, and does not change
  which addresses can be written.
\<close>

locale byte_store =
  fixes inv :: "'s \<Rightarrow> bool"
    and writable :: "'s \<Rightarrow> 'a \<Rightarrow> bool"
    and rd :: "'s \<Rightarrow> 'a \<Rightarrow> 'b option"
    and wr :: "'a \<Rightarrow> 'b \<Rightarrow> 's \<Rightarrow> 's"
  assumes rd_wr: "inv s \<Longrightarrow> writable s a \<Longrightarrow> rd (wr a v s) = (rd s)(a \<mapsto> v)"
    and inv_wr: "inv s \<Longrightarrow> writable s a \<Longrightarrow> inv (wr a v s)"
    and writable_wr: "inv s \<Longrightarrow> writable s a \<Longrightarrow> writable (wr a v s) = writable s"
begin

lemma writes_inv:
  "inv s \<Longrightarrow> \<forall>(a, v) \<in> set ws. writable s a \<Longrightarrow>
     inv (fold (\<lambda>(a, v). wr a v) ws s) \<and> writable (fold (\<lambda>(a, v). wr a v) ws s) = writable s"
  by (induction ws arbitrary: s) (auto simp: inv_wr writable_wr)

lemma rd_writes:
  "inv s \<Longrightarrow> \<forall>(a, v) \<in> set ws. writable s a \<Longrightarrow>
     rd (fold (\<lambda>(a, v). wr a v) ws s) = rd s ++ map_of (rev ws)"
  by (induction ws arbitrary: s) (auto simp: inv_wr writable_wr rd_wr map_of_append)

end

interpretation bus_bytes:
  byte_store wf_bus ram_at mem_abs "\<lambda>a (v :: u8) s. bus_write 8 a (ucast v) s"
  by unfold_locales (simp_all add: bus_write_byte_abs)

subsection \<open>No access leaves defined behaviour\<close>

lemma mem_abs_readable:
  assumes "wf_bus s" "bank_find (mem_banks s) a = Some i" "bank_read (mem_banks s ! i) = Some mem_read_fn"
  shows "\<exists>b. mem_abs s a = Some b"
  using bank_cell [OF assms(1,2)] assms by (auto simp: mem_abs_def backed_def)

lemma wf_bus_io [simp]: "wf_bus (s\<lparr>io := w\<rparr>) = wf_bus s"
  by (simp add: wf_bus_def split: option.split)

lemma bus_read_wf:
  assumes "wf_bus s"
  shows "wf_bus (snd (bus_read sz a v0 s)) \<and> halted (snd (bus_read sz a v0 s)) = halted s"
proof -
  obtain m where m: "bank_ptr a s = (bank_find (mem_banks s) a, s\<lparr>mbp := m\<rparr>)" "wf_bus (s\<lparr>mbp := m\<rparr>)"
    using bank_ptr_wf [OF assms, of a] by auto
  show ?thesis
  proof (cases "bank_find (mem_banks s) a")
    case None
    with m show ?thesis by (simp add: bus_read_def)
  next
    case (Some i)
    show ?thesis
    proof (cases "bank_read (mem_banks s ! i) = Some mem_read_fn")
      case True
      then obtain b where "mem_abs s a = Some b" using mem_abs_readable [OF assms Some] by auto
      then show ?thesis using bus_read_rom [OF assms, of a b sz v0] by auto
    next
      case False
      with m Some show ?thesis
        by (auto simp: bus_read_def io_read_def io_read_byte_def io_read_halfword_def
            io_read_word_def flash_read_def flash_defs split: option.splits bank_reader.splits prod.splits)
    qed
  qed
qed

lemma bus_write_wf:
  assumes "wf_bus s"
  shows "wf_bus (bus_write sz a v s) \<and> halted (bus_write sz a v s) = halted s"
proof -
  obtain m where m: "bank_ptr a s = (bank_find (mem_banks s) a, s\<lparr>mbp := m\<rparr>)" "wf_bus (s\<lparr>mbp := m\<rparr>)"
    using bank_ptr_wf [OF assms, of a] by auto
  show ?thesis
  proof (cases "bank_find (mem_banks s) a")
    case None
    with m show ?thesis by (simp add: bus_write_def)
  next
    case (Some i)
    have w: "bank_write (mem_banks s ! i) \<noteq> None"
      using ok_bank_find [OF assms Some] by (simp add: ok_bank_def)
    show ?thesis
    proof (cases "bank_write (mem_banks s ! i) = Some mem_write_fn")
      case True
      have bk: "backed (mem_banks s ! i)" using True by (simp add: backed_def)
      have put: "wf_bus (rom_write i a x t) \<and> halted (rom_write i a x t) = halted t"
        if "wf_bus t" "mem_banks t = mem_banks s" for x and t :: "'a bus"
        using that Some bk rom_write_cell [of t a i x] rom_write_keeps_wf [of t a i x] by simp
      have ptr: "\<exists>n. bank_ptr a (s\<lparr>mbp := m\<rparr>) = (Some i, s\<lparr>mbp := n\<rparr>) \<and> wf_bus (s\<lparr>mbp := n\<rparr>) \<and>
          (\<exists>d. rom_read i a (s\<lparr>mbp := n\<rparr>) = (d, s\<lparr>mbp := n\<rparr>))"
        using bank_ptr_wf [OF m(2), of a] Some bk rom_read_cell [of "s\<lparr>mbp := _\<rparr>" a i] by fastforce
      show ?thesis
        using True m Some ptr put
        by (auto simp: bus_write_def mem_write_def mem_write_byte_def mem_write_halfword_def
            mem_write_word_def Let_def)
    next
      case False
      with m Some w show ?thesis
        by (auto simp: bus_write_def io_write_def io_write_byte_def io_write_halfword_def
            io_write_word_def flash_write_def flash_defs warn_write_def
            split: option.splits bank_writer.splits prod.splits bool.splits)
    qed
  qed
qed

subsection \<open>Halfword and word accesses\<close>

lemma half_offset_le: "unat (half_offset be a) \<le> 16"
  by (simp add: half_offset_eq)

lemma drop_put_field:
  "n + w \<le> 32 \<Longrightarrow> (drop_bit n (put_field n w v t)) AND mask w = v AND mask w"
  by (intro bit_word_eqI) (auto simp: bit_simps bit_put_field)

lemma word_at_put:
  assumes "wf_bus s" "ram_at s a"
  shows "word_at (put_word a v s) a = v"
proof -
  obtain i where i: "bank_find (mem_banks s) a = Some i" "backed (mem_banks s ! i)"
    using assms(2) by (auto simp: ram_at_def backed_def split: option.splits)
  then show ?thesis
    using bank_cell [OF assms(1) i] by (auto simp: word_at_def put_word_def)
qed

text \<open>The bits of a value that an access of a given size carries.\<close>

definition access_mask :: "nat \<Rightarrow> u32" where
  "access_mask sz = (if sz = 8 then 0xff else if sz = 16 then 0xffff else 0xffffffff)"

lemma and_full_mask: "x AND 0xffffffff = (x :: u32)"
proof -
  have "(0xffffffff :: u32) = - 1" by simp
  then show ?thesis by (simp only: and.right_neutral)
qed

lemma bus_read_ram:
  assumes "wf_bus s" "ram_at s a"
  shows "fst (bus_read 8 a v0 s) = (drop_bit (lane (big_endian s) a) (word_at s a)) AND 0xff"
    and "fst (bus_read 16 a v0 s) =
      (drop_bit (unat (half_offset (big_endian s) a)) (word_at s a)) AND 0xffff"
    and "fst (bus_read 32 a v0 s) = word_at s a"
  using bus_read_rom [OF assms(1) mem_abs_word [OF assms], of 8 v0]
    bus_read_rom [OF assms(1) mem_abs_word [OF assms], of 16 v0]
    bus_read_rom [OF assms(1) mem_abs_word [OF assms], of 32 v0]
  by auto

subsection \<open>A sample board\<close>

text \<open>
  One 16-byte RAM bank, one I/O bank without devices, and the terminating bank; it serves
  the witnesses of the theorems below and of the components above the bus.
\<close>

definition no_machine :: "unit machine_config" where
  "no_machine =
     \<lparr>devices = [], mach_io_reset = None, mach_io_do_cycle = (\<lambda>w. w),
      mach_io_read_byte = (\<lambda>a w. (0, w)), mach_io_read_halfword = (\<lambda>a w. (0, w)),
      mach_io_read_word = (\<lambda>a w. (0, w)), mach_io_write_byte = (\<lambda>a v w. w),
      mach_io_write_halfword = (\<lambda>a v w. w), mach_io_write_word = (\<lambda>a v w. w)\<rparr>"

definition sample_banks :: "mem_bank list" where
  "sample_banks =
     [\<lparr>bank_addr = 0x30000000, bank_len = 16, bank_write = Some mem_write_fn,
       bank_read = Some mem_read_fn, bank_filename = [], bank_type = MEMTYPE_RAM\<rparr>,
      \<lparr>bank_addr = 0x48000000, bank_len = 0x100, bank_write = Some io_write_fn,
       bank_read = Some io_read_fn, bank_filename = [], bank_type = MEMTYPE_IO\<rparr>,
      \<lparr>bank_addr = 0, bank_len = 0, bank_write = None,
       bank_read = None, bank_filename = [], bank_type = MEMTYPE_IO\<rparr>]"

definition sample_bus :: "unit bus" where
  "sample_bus =
     \<lparr>current_num = 2, mem_banks = sample_banks, mbp = Some 1,
      rom = [Some [1, 2, 3, 0x80], None, None], big_endian = False, prescale = DIVISOR,
      mach = no_machine, io = \<lparr>NfiqSig = 1, NirqSig = 1, board = ()\<rparr>, halted = None\<rparr>"

lemma sample_bus_wf: "wf_bus sample_bus"
  by (simp add: sample_bus_def sample_banks_def wf_bus_def wf_table_def ok_bank_def apart_def
      has_array_def backed_def)

lemma sample_bus_ram: "ram_at sample_bus 0x30000004"
  by (simp add: sample_bus_def sample_banks_def ram_at_def bank_hit_def)

subsection \<open>Properties of the bus\<close>

text \<open>
  The bank that \<^verbatim>\<open>bank_ptr\<close> remembers between calls is only an optimisation: on a
  well-formed table the answer for every address is the one a search of the table gives,
  whatever bank was remembered, and the search never runs past the table.
\<close>

theorem bank_ptr_is_search:
  assumes "wf_bus s"
  shows "fst (bank_ptr a s) = bank_find (mem_banks s) a \<and>
    halted (snd (bank_ptr a s)) = halted s \<and> wf_bus (snd (bank_ptr a s))"
  using bank_ptr_wf [OF assms, of a] by auto

theorem bank_ptr_is_search_witness:
  "wf_bus sample_bus \<and> fst (bank_ptr 0x30000004 sample_bus) = Some 0"
proof -
  have "fst (bank_ptr 0x30000004 sample_bus) = bank_find (mem_banks sample_bus) 0x30000004"
    using bank_ptr_is_search [OF sample_bus_wf] by blast
  also have "\<dots> = Some 0" by (simp add: sample_bus_def sample_banks_def bank_hit_def)
  finally show ?thesis using sample_bus_wf by simp
qed

text \<open>
  C39. No bus access of any size at any address leaves defined behaviour on a well-formed
  bus, and the bus stays well formed: no null handler, no array index out of range.
\<close>

theorem bus_access_safe:
  assumes "wf_bus s"
  shows "wf_bus (snd (bus_read sz a v0 s)) \<and> halted (snd (bus_read sz a v0 s)) = halted s \<and>
    wf_bus (bus_write sz a v s) \<and> halted (bus_write sz a v s) = halted s"
  using bus_read_wf [OF assms] bus_write_wf [OF assms] by blast

theorem bus_access_safe_witness:
  "wf_bus sample_bus \<and> halted (bus_write 32 0x48000010 7 sample_bus) = None"
  using bus_access_safe [OF sample_bus_wf, of 32 "0x48000010" 0 7] sample_bus_wf
  by (simp add: sample_bus_def)

text \<open>
  C37. A byte write is an update of one cell of the byte array that the banks implement,
  and a byte read at any readable address returns its cell and changes nothing, for both
  byte orders.
\<close>

theorem bus_byte_refines:
  assumes "wf_bus s"
  shows "(ram_at s a \<longrightarrow> mem_abs (bus_write 8 a v s) = (mem_abs s)(a \<mapsto> ucast v)) \<and>
    (\<forall>b. mem_abs s a = Some b \<longrightarrow>
      fst (bus_read 8 a v0 s) = ucast b \<and> mem_abs (snd (bus_read 8 a v0 s)) = mem_abs s)"
proof -
  have "fst (bus_read 8 a v0 s) = ucast b \<and> mem_abs (snd (bus_read 8 a v0 s)) = mem_abs s"
    if "mem_abs s a = Some b" for b
    using bus_read_byte_abs [OF assms that, of v0] by auto
  then show ?thesis using bus_write_byte_abs [OF assms] by blast
qed

theorem bus_byte_refines_witness:
  "wf_bus sample_bus \<and> ram_at sample_bus 0x30000004 \<and>
   mem_abs (bus_write 8 0x30000004 0xab sample_bus) = (mem_abs sample_bus)(0x30000004 \<mapsto> 0xab)"
  using bus_byte_refines [OF sample_bus_wf, of "0x30000004" "0xab" 0] sample_bus_wf sample_bus_ram
  by simp

text \<open>
  What is written with an access of 8, 16 or 32 bits is read back by an access of the
  same size at the same address, truncated to that size, and bytes of other words keep
  their value, for both byte orders and for unaligned addresses too.
\<close>

theorem bus_read_after_write:
  assumes "wf_bus s" "ram_at s a" "sz = 8 \<or> sz = 16 \<or> sz = 32"
  shows "fst (bus_read sz a v0 (bus_write sz a v s)) = v AND access_mask sz \<and>
    (\<forall>b. unat b div 4 \<noteq> unat a div 4 \<longrightarrow> mem_abs (bus_write sz a v s) b = mem_abs s b)"
proof -
  obtain m w where m: "bus_write sz a v s = put_word a w (s\<lparr>mbp := m\<rparr>)" "wf_bus (s\<lparr>mbp := m\<rparr>)"
    and w: "sz = 8 \<Longrightarrow> w = put_field (lane (big_endian s) a) 8 v (word_at s a)"
      "sz = 16 \<Longrightarrow> w = put_field (unat (half_offset (big_endian s) a)) 16 v (word_at s a)"
      "sz = 32 \<Longrightarrow> w = v"
    using bus_write_ram [OF assms(1,2), of sz v] assms(3) by (auto simp: Let_def)
  let ?t = "put_word a w (s\<lparr>mbp := m\<rparr>)"
  have ram: "ram_at (s\<lparr>mbp := m\<rparr>) a" using assms(2) by simp
  have t: "wf_bus ?t" "ram_at ?t a" "word_at ?t a = w" "big_endian ?t = big_endian s"
    using put_word_wf [OF m(2) ram] word_at_put [OF m(2) ram] ram by simp_all
  have "fst (bus_read sz a v0 ?t) = v AND access_mask sz"
    using assms(3) bus_read_ram [OF t(1,2), of v0] w t(3,4) lane_le half_offset_le
    by (auto simp: access_mask_def ff_mask drop_put_field and_full_mask)
  moreover have "mem_abs ?t b = mem_abs s b" if "unat b div 4 \<noteq> unat a div 4" for b
    using mem_abs_put [OF m(2) ram, of w b] that by simp
  ultimately show ?thesis using m(1) by simp
qed

theorem bus_read_after_write_witness:
  "wf_bus sample_bus \<and> ram_at sample_bus 0x30000004 \<and>
   fst (bus_read 16 0x30000004 0 (bus_write 16 0x30000004 0xabcd1234 sample_bus)) = 0x1234"
  using bus_read_after_write [OF sample_bus_wf sample_bus_ram, of 16 0 "0xabcd1234"]
    sample_bus_wf sample_bus_ram
  by (simp add: access_mask_def)

subsection \<open>Loading, cycling and dispatching\<close>

lemma bit_sext_byte: "bit (sext_byte b) n \<longleftrightarrow> n < 32 \<and> bit b (if n < 8 then n else 7)"
  unfolding sext_byte_def by (cases "n = 7") (auto simp: bit_simps min_def)

text \<open>
  Exact effect of the byte loop of \<^verbatim>\<open>mem_reset\<close> on a little-endian machine: a loaded word
  keeps its bits but also gets ones above every byte whose top bit is set, because the bytes
  are read through a signed \<^verbatim>\<open>char\<close> pointer. A word with such a byte below its top byte is
  therefore changed: a file that holds the bytes 80 00 00 00 is loaded as ffffff80.
\<close>

theorem swap_word_sign_extends:
  "swap_word False w =
     w OR (if bit w 7 then NOT (mask 8) else 0) OR (if bit w 15 then NOT (mask 16) else 0)
       OR (if bit w 23 then NOT (mask 24) else 0) \<and>
   rom (mem_reset_bank (\<lambda>f. Some [0x80, 0, 0, 0, 1, 0, 0, 0]) 0 sample_bus) ! 0
     = Some [0xffffff80, 1, 0, 0]"
proof
  show "swap_word False w =
     w OR (if bit w 7 then NOT (mask 8) else 0) OR (if bit w 15 then NOT (mask 16) else 0)
       OR (if bit w 23 then NOT (mask 24) else 0)"
    unfolding swap_word_def Let_def by (rule bit_word_eqI) (auto simp: bit_simps bit_sext_byte split: if_splits)
  show "rom (mem_reset_bank (\<lambda>f. Some [0x80, 0, 0, 0, 1, 0, 0, 0]) 0 sample_bus) ! 0
     = Some [0xffffff80, 1, 0, 0]"
    by (simp add: mem_reset_bank_def sample_bus_def sample_banks_def fill_words_def
        swap_word_def sext_byte_def, simp add: numeral_2_eq_2)
qed

lemma io_do_cycle_idle:
  "int n \<le> prescale s \<Longrightarrow> (io_do_cycle ^^ n) s = s\<lparr>prescale := prescale s - int n\<rparr>"
  by (induction n) (auto simp: io_do_cycle_def)

text \<open>
  The board runs once in every 51 calls of \<^verbatim>\<open>io_do_cycle\<close>: from a fresh prescaler, 50
  calls leave devices and machine alone and the next one updates every device in order and
  then the machine, exactly once, and restarts the prescaler.
\<close>

theorem io_do_cycle_period:
  assumes "prescale s = DIVISOR"
  shows "(\<forall>n \<le> 50. io ((io_do_cycle ^^ n) s) = io s) \<and>
    (io_do_cycle ^^ 51) s =
      s\<lparr>prescale := DIVISOR,
        io := mach_io_do_cycle (mach s)
               (fold (\<lambda>dev. run_hook (dev_update dev)) (devices (mach s)) (io s))\<rparr>"
proof -
  have "(io_do_cycle ^^ 51) s = io_do_cycle ((io_do_cycle ^^ 50) s)"
    using funpow_Suc_right [of 50 io_do_cycle] by (simp add: numeral_eq_Suc)
  moreover have "(io_do_cycle ^^ 50) s = s\<lparr>prescale := 0\<rparr>"
    using io_do_cycle_idle [of 50 s] assms by (simp add: DIVISOR_def)
  ultimately show ?thesis
    using assms by (auto simp: io_do_cycle_idle DIVISOR_def io_do_cycle_def)
qed

theorem io_do_cycle_period_witness:
  "prescale sample_bus = DIVISOR \<and> (io_do_cycle ^^ 51) sample_bus = sample_bus"
proof -
  have "prescale sample_bus = DIVISOR" by (simp add: sample_bus_def)
  with io_do_cycle_period [of sample_bus] show ?thesis
    by (simp add: sample_bus_def no_machine_def)
qed

lemma dispatch_read_skip:
  "\<forall>dev \<in> set devs. handler dev = None \<or> \<not> dev_covers dev a \<Longrightarrow>
     dispatch_read handler (devs @ rest) a w = dispatch_read handler rest a w"
  by (induction devs) (auto split: option.splits)

text \<open>
  An I/O read goes to the first device that covers the address, has the handler and
  answers; the machine's own handler is asked only when no device does.
\<close>

theorem io_read_word_dispatch:
  assumes "devices (mach s) = pre @ dev # post"
    and "\<forall>d \<in> set pre. dev_read_word d = None \<or> \<not> dev_covers d a"
    and "dev_read_word dev = Some f" and "dev_covers dev a"
    and "f a (io s) = (st, v, w)" and "st \<noteq> ADDR_NOHIT"
  shows "io_read_word a s = (v, s\<lparr>io := w\<rparr>)"
  using assms by (simp add: io_read_word_def dispatch_read_skip)

definition echo_device :: "unit device_desc" where
  "echo_device =
     \<lparr>dev_base = 0x48000000, dev_size = 0x10, dev_reset = None, dev_update = None,
      dev_read_byte = None, dev_read_halfword = None,
      dev_read_word = Some (\<lambda>a w. (ADDR_HIT, a, w)),
      dev_write_byte = None, dev_write_halfword = None, dev_write_word = None\<rparr>"

theorem io_read_word_dispatch_witness:
  "io_read_word 0x48000004 (sample_bus\<lparr>mach := no_machine\<lparr>devices := [echo_device]\<rparr>\<rparr>)
     = (0x48000004, sample_bus\<lparr>mach := no_machine\<lparr>devices := [echo_device]\<rparr>\<rparr>)"
proof -
  let ?s = "sample_bus\<lparr>mach := no_machine\<lparr>devices := [echo_device]\<rparr>\<rparr>"
  have "io_read_word 0x48000004 ?s = (0x48000004, ?s\<lparr>io := io ?s\<rparr>)"
    by (rule io_read_word_dispatch [where pre = "[]" and post = "[]" and dev = echo_device
          and f = "\<lambda>a w. (ADDR_HIT, a, w)" and st = ADDR_HIT])
      (simp_all add: echo_device_def dev_covers_def)
  then show ?thesis by simp
qed

end
