(* ===== verification/Mmu_Cache.thy ===== *)
theory Mmu_Cache
  imports Bus_Spec
begin

text \<open>
  The set-associative cache of arch_arm/common/mmu/cache.c and cache.h: its structures, the
  search by address and by set/index, allocation of a line with write back of the old one,
  cleaning and invalidating.

  A \<^verbatim>\<open>cache_line_t *\<close> of the C code is a pair of indices (set, line); every operation takes
  and returns the cache and the bus, which are all it reads and writes.
\<close>

subsection \<open>Structures (mmu/cache.h)\<close>

record cache_line =
  line_tag :: u32
  line_pa :: u32
  line_data :: "u32 list"

definition TAG_VALID_FLAG :: u32 where
  "TAG_VALID_FLAG = 0x00000001"

definition TAG_FIRST_HALF_DIRTY :: u32 where
  "TAG_FIRST_HALF_DIRTY = 0x00000002"

definition TAG_LAST_HALF_DIRTY :: u32 where
  "TAG_LAST_HALF_DIRTY = 0x00000004"

record cache_set =
  set_lines :: "cache_line list"
  set_cycle :: nat

datatype w_mode = CACHE_WRITE_BACK | CACHE_WRITE_THROUGH

record cache =
  cache_width :: u32
  cache_way :: u32
  cache_set_num :: u32
  cache_w_mode :: w_mode
  cache_sets :: "cache_set list"

definition va_cache_set :: "u32 \<Rightarrow> cache \<Rightarrow> nat" where
  "va_cache_set va c = unat ((va div cache_width c) AND (cache_set_num c - 1))"

definition va_cache_align :: "u32 \<Rightarrow> cache \<Rightarrow> u32" where
  "va_cache_align va c = va AND NOT (cache_width c - 1)"

definition va_cache_index :: "u32 \<Rightarrow> cache \<Rightarrow> nat" where
  "va_cache_index va c = unat (drop_bit 2 (va AND (cache_width c - 1)))"

definition index_cache_set :: "u32 \<Rightarrow> cache \<Rightarrow> nat" where
  "index_cache_set index c = unat ((index div cache_width c) AND (cache_set_num c - 1))"

text \<open>Words of a line, the \<^verbatim>\<open>width >> WORD_SHT\<close> of the code.\<close>

definition line_words :: "cache \<Rightarrow> nat" where
  "line_words c = unat (drop_bit 2 (cache_width c))"

text \<open>Reading and writing through a line pointer.\<close>

definition get_line :: "cache \<Rightarrow> nat \<times> nat \<Rightarrow> cache_line" where
  "get_line c p = set_lines (cache_sets c ! fst p) ! snd p"

definition set_line :: "nat \<times> nat \<Rightarrow> cache_line \<Rightarrow> cache \<Rightarrow> cache" where
  "set_line p l c =
     c\<lparr>cache_sets := (cache_sets c)[fst p := (cache_sets c ! fst p)
        \<lparr>set_lines := (set_lines (cache_sets c ! fst p))[snd p := l]\<rparr>]\<rparr>"

definition line_exists :: "cache \<Rightarrow> nat \<times> nat \<Rightarrow> bool" where
  "line_exists c p \<longleftrightarrow> fst p < length (cache_sets c) \<and> snd p < length (set_lines (cache_sets c ! fst p))"

subsection \<open>Operations (mmu/cache.c)\<close>

text \<open>
  \<^verbatim>\<open>mmu_cache_init\<close> with every \<^verbatim>\<open>malloc\<close> succeeding; \<open>junk\<close> is what a freshly allocated line
  holds (its data, and its \<^verbatim>\<open>pa\<close>, which the code does not clear).
\<close>

definition mmu_cache_init :: "cache_line \<Rightarrow> u32 \<Rightarrow> u32 \<Rightarrow> u32 \<Rightarrow> w_mode \<Rightarrow> cache" where
  "mmu_cache_init junk wid wy st m =
     \<lparr>cache_width = wid, cache_way = wy, cache_set_num = st, cache_w_mode = m,
      cache_sets = replicate (unat st)
        \<lparr>set_lines = replicate (unat wy) (junk\<lparr>line_tag := 0\<rparr>), set_cycle = 0\<rparr>\<rparr>"

text \<open>The line of a set that holds an address: the first valid one with its tag.\<close>

fun search_lines :: "cache \<Rightarrow> u32 \<Rightarrow> nat \<Rightarrow> cache_line list \<Rightarrow> nat option" where
  "search_lines c t i [] = None"
| "search_lines c t i (l # ls) =
     (if line_tag l AND TAG_VALID_FLAG \<noteq> 0 \<and> t = va_cache_align (line_tag l) c then Some i
      else search_lines c t (Suc i) ls)"

definition mmu_cache_search :: "cache \<Rightarrow> u32 \<Rightarrow> (nat \<times> nat) option" where
  "mmu_cache_search c va =
     (let s = va_cache_set va c
      in map_option (Pair s)
           (search_lines c (va_cache_align va c) 0 (take (unat (cache_way c)) (set_lines (cache_sets c ! s)))))"

text \<open>The number of halvings of \<^verbatim>\<open>way\<close> that leave at least 1.\<close>

fun halvings :: "nat \<Rightarrow> nat" where
  "halvings w = (if w div 2 \<ge> 1 then Suc (halvings (w div 2)) else 0)"

declare halvings.simps [simp del]

text \<open>
  \<^verbatim>\<open>index >> (32 - i)\<close> for \<open>i = 0\<close> is a shift by the width of the type; the caches of the
  simulator have more than one way.
\<close>

definition mmu_cache_search_by_index :: "cache \<Rightarrow> u32 \<Rightarrow> nat \<times> nat" where
  "mmu_cache_search_by_index c index =
     (index_cache_set index c, unat (drop_bit (32 - halvings (unat (cache_way c))) index))"

text \<open>The loop of \<^verbatim>\<open>mmu_cache_write_back\<close>: words to consecutive addresses.\<close>

fun write_words :: "u32 \<Rightarrow> u32 list \<Rightarrow> 'd bus \<Rightarrow> 'd bus" where
  "write_words a [] b = b"
| "write_words a (w # ws) b = write_words (a + 4) ws (bus_write 32 a w b)"

text \<open>And the loop of \<^verbatim>\<open>mmu_cache_alloc\<close>: words from consecutive addresses into the line.\<close>

fun read_words :: "u32 \<Rightarrow> u32 list \<Rightarrow> 'd bus \<Rightarrow> u32 list \<times> 'd bus" where
  "read_words a [] b = ([], b)"
| "read_words a (w # ws) b =
     (case bus_read 32 a w b of
        (v, b1) \<Rightarrow> (case read_words (a + 4) ws b1 of (vs, b2) \<Rightarrow> (v # vs, b2)))"

definition write_back_line :: "cache \<Rightarrow> cache_line \<Rightarrow> 'd bus \<Rightarrow> cache_line \<times> 'd bus" where
  "write_back_line c l b =
     (let nw = line_words c;
          dirty = line_tag l AND NOT 1 AND (TAG_FIRST_HALF_DIRTY OR TAG_LAST_HALF_DIRTY);
          clean = l\<lparr>line_tag := line_tag l AND NOT (TAG_FIRST_HALF_DIRTY OR TAG_LAST_HALF_DIRTY)\<rparr>
      in if line_tag l AND 1 = 0 then (l, b)
         else if dirty = 0 then (l, b)
         else if dirty = TAG_FIRST_HALF_DIRTY
         then (clean, write_words (line_pa l) (take (nw div 2) (line_data l)) b)
         else if dirty = TAG_LAST_HALF_DIRTY
         then (clean, write_words (line_pa l + push_bit 2 (word_of_nat (nw div 2)))
                        (take (nw div 2) (drop (nw div 2) (line_data l))) b)
         else (clean, write_words (line_pa l) (take nw (line_data l)) b))"

definition mmu_cache_write_back :: "nat \<times> nat \<Rightarrow> cache \<Rightarrow> 'd bus \<Rightarrow> cache \<times> 'd bus" where
  "mmu_cache_write_back p c b =
     (if line_exists c p
      then (case write_back_line c (get_line c p) b of (l, b1) \<Rightarrow> (set_line p l c, b1))
      else (c, bus_halt Out_of_bounds b))"

definition mmu_cache_alloc :: "u32 \<Rightarrow> u32 \<Rightarrow> cache \<Rightarrow> 'd bus \<Rightarrow> (nat \<times> nat) \<times> cache \<times> 'd bus" where
  "mmu_cache_alloc va0 pa0 c b =
     (let va = va_cache_align va0 c;
          pa1 = va_cache_align pa0 c;
          s = va_cache_set va c;
          j = set_cycle (cache_sets c ! s);
          j' = (if Suc j = unat (cache_way c) then 0 else Suc j);
          c1 = c\<lparr>cache_sets := (cache_sets c)[s := (cache_sets c ! s)\<lparr>set_cycle := j'\<rparr>]\<rparr>;
          p = (s, j)
      in if \<not> line_exists c p then (p, c1, bus_halt Out_of_bounds b)
         else if cache_w_mode c = CACHE_WRITE_BACK then
           (case (if line_tag (get_line c1 p) AND TAG_VALID_FLAG \<noteq> 0
                  then mmu_cache_write_back p c1 b else (c1, b)) of
              (c2, b1) \<Rightarrow>
                (case read_words pa1 (take (line_words c) (line_data (get_line c2 p))) b1 of
                   (ws, b2) \<Rightarrow>
                     (p, set_line p \<lparr>line_tag = va OR TAG_VALID_FLAG, line_pa = pa1, line_data = ws\<rparr> c2, b2)))
         else
           (p, set_line p ((get_line c1 p)\<lparr>line_tag := va OR TAG_VALID_FLAG, line_pa := pa1\<rparr>) c1, b))"

definition clear_tag :: "nat \<times> nat \<Rightarrow> cache \<Rightarrow> cache" where
  "clear_tag p c = set_line p ((get_line c p)\<lparr>line_tag := 0\<rparr>) c"

definition mmu_cache_clean :: "u32 \<Rightarrow> cache \<Rightarrow> 'd bus \<Rightarrow> cache \<times> 'd bus" where
  "mmu_cache_clean va c b =
     (case mmu_cache_search c va of
        None \<Rightarrow> (c, b)
      | Some p \<Rightarrow> mmu_cache_write_back p c b)"

definition mmu_cache_clean_by_index :: "u32 \<Rightarrow> cache \<Rightarrow> 'd bus \<Rightarrow> cache \<times> 'd bus" where
  "mmu_cache_clean_by_index index c b =
     mmu_cache_write_back (mmu_cache_search_by_index c index) c b"

definition flush_line :: "nat \<times> nat \<Rightarrow> cache \<Rightarrow> 'd bus \<Rightarrow> cache \<times> 'd bus" where
  "flush_line p c b =
     (case mmu_cache_write_back p c b of (c1, b1) \<Rightarrow> (clear_tag p c1, b1))"

definition mmu_cache_invalidate :: "u32 \<Rightarrow> cache \<Rightarrow> 'd bus \<Rightarrow> cache \<times> 'd bus" where
  "mmu_cache_invalidate va c b =
     (case mmu_cache_search c va of
        None \<Rightarrow> (c, b)
      | Some p \<Rightarrow> flush_line p c b)"

definition mmu_cache_invalidate_by_index :: "u32 \<Rightarrow> cache \<Rightarrow> 'd bus \<Rightarrow> cache \<times> 'd bus" where
  "mmu_cache_invalidate_by_index index c b =
     flush_line (mmu_cache_search_by_index c index) c b"

definition mmu_cache_invalidate_all :: "cache \<Rightarrow> 'd bus \<Rightarrow> cache \<times> 'd bus" where
  "mmu_cache_invalidate_all c b =
     fold (\<lambda>p (c, b). flush_line p c b)
       (List.product [0 ..< unat (cache_set_num c)] [0 ..< unat (cache_way c)]) (c, b)"

definition mmu_cache_soft_flush :: "u32 \<Rightarrow> cache \<Rightarrow> 'd bus \<Rightarrow> cache \<times> 'd bus" where
  "mmu_cache_soft_flush a c b =
     (let pa1 = a div cache_width c;
          w = unat (pa1 AND (cache_way c - 1));
          s = unat ((pa1 div cache_way c) AND (cache_set_num c - 1))
      in flush_line (s, w) c b)"

end
