(* ===== verification/Mmu_Wb.thy ===== *)
theory Mmu_Wb
  imports Bus_Spec
begin

text \<open>
  The write buffer of arch_arm/common/mmu/wb.c: a ring of \<^verbatim>\<open>num\<close> entries of at most \<^verbatim>\<open>nb\<close>
  bytes. \<^verbatim>\<open>first\<close> is the slot the next entry goes to, \<^verbatim>\<open>last\<close> the oldest entry, \<^verbatim>\<open>used\<close> their
  number. The specification is a queue of byte writes that have not reached memory yet
  (\<open>wb_queue\<close>); writing appends to it, draining performs it.
\<close>

subsection \<open>Structures (mmu/wb.h)\<close>

record wb_entry =
  wb_pa :: u32
  wb_data :: "u8 list"
  wb_nb :: nat

record wb =
  wb_num :: nat
  wb_size :: nat
  wb_first :: nat
  wb_last :: nat
  wb_used :: nat
  wb_entrys :: "wb_entry list"

subsection \<open>Operations (mmu/wb.c)\<close>

text \<open>\<^verbatim>\<open>mmu_wb_init\<close> with every \<^verbatim>\<open>malloc\<close> succeeding; \<open>junk\<close> is the content of a new entry.\<close>

definition mmu_wb_init :: "wb_entry \<Rightarrow> nat \<Rightarrow> nat \<Rightarrow> wb" where
  "mmu_wb_init junk num nb =
     \<lparr>wb_num = num, wb_size = nb, wb_first = 0, wb_last = 0, wb_used = 0,
      wb_entrys = replicate num junk\<rparr>"

text \<open>The bytes of an entry to consecutive addresses, and the ring step after it.\<close>

fun write_bytes :: "u32 \<Rightarrow> u8 list \<Rightarrow> 'd bus \<Rightarrow> 'd bus" where
  "write_bytes a [] b = b"
| "write_bytes a (d # ds) b = write_bytes (a + 1) ds (bus_write 8 a (ucast d) b)"

definition ring_next :: "nat \<Rightarrow> nat \<Rightarrow> nat" where
  "ring_next num i = (if Suc i = num then 0 else Suc i)"

definition wb_clean_last :: "wb \<Rightarrow> 'd bus \<Rightarrow> wb \<times> 'd bus" where
  "wb_clean_last w b =
     (let e = wb_entrys w ! wb_last w
      in if wb_last w < length (wb_entrys w) \<and> wb_nb e \<le> length (wb_data e) then
           (w\<lparr>wb_last := ring_next (wb_num w) (wb_last w), wb_used := wb_used w - 1\<rparr>,
            write_bytes (wb_pa e) (take (wb_nb e) (wb_data e)) b)
         else (w\<lparr>wb_used := wb_used w - 1\<rparr>, bus_halt Out_of_bounds b))"

text \<open>
  \<^verbatim>\<open>mmu_wb_write_bytes\<close>, the bytes to write as a list. The loop ends because an entry holds
  at least one byte; with \<^verbatim>\<open>nb\<close> 0 the code would loop forever, which the model marks as
  such.
\<close>

function mmu_wb_write_bytes :: "u32 \<Rightarrow> u8 list \<Rightarrow> wb \<Rightarrow> 'd bus \<Rightarrow> wb \<times> 'd bus" where
  "mmu_wb_write_bytes a ds w b =
     (if ds = [] then (w, b)
      else if wb_size w = 0 then (w, bus_halt Endless_loop b)
      else
        (case (if wb_num w = wb_used w then wb_clean_last w b else (w, b)) of
           (w1, b1) \<Rightarrow>
             (let i = min (length ds) (wb_size w);
                  old = wb_data (wb_entrys w1 ! wb_first w1);
                  e = \<lparr>wb_pa = a, wb_data = take i ds @ drop i old, wb_nb = i\<rparr>
              in if wb_first w1 < length (wb_entrys w1) then
                   mmu_wb_write_bytes (a + word_of_nat i) (drop i ds)
                     (w1\<lparr>wb_entrys := (wb_entrys w1)[wb_first w1 := e],
                         wb_first := ring_next (wb_num w1) (wb_first w1),
                         wb_used := Suc (wb_used w1)\<rparr>) b1
                 else (w1, bus_halt Out_of_bounds b1))))"
  by pat_completeness auto
termination
  by (relation "measure (\<lambda>(a, ds, w, b). length ds)") (auto split: if_splits)

declare mmu_wb_write_bytes.simps [simp del]

function mmu_wb_drain_all :: "wb \<Rightarrow> 'd bus \<Rightarrow> wb \<times> 'd bus" where
  "mmu_wb_drain_all w b =
     (if wb_used w = 0 then (w, b)
      else (case wb_clean_last w b of (w1, b1) \<Rightarrow> mmu_wb_drain_all w1 b1))"
  by pat_completeness auto
termination
  by (relation "measure (\<lambda>(w, b). wb_used w)") (auto simp: wb_clean_last_def Let_def split: if_splits)

declare mmu_wb_drain_all.simps [simp del]

subsection \<open>The buffer as a queue of byte writes\<close>

fun byte_writes :: "u32 \<Rightarrow> u8 list \<Rightarrow> (u32 \<times> u8) list" where
  "byte_writes a [] = []"
| "byte_writes a (d # ds) = (a, d) # byte_writes (a + 1) ds"

definition perform :: "(u32 \<times> u8) list \<Rightarrow> 'd bus \<Rightarrow> 'd bus" where
  "perform ws b = fold (\<lambda>(a, v). bus_write 8 a (ucast v)) ws b"

definition entry_ok :: "nat \<Rightarrow> wb_entry \<Rightarrow> bool" where
  "entry_ok n e \<longleftrightarrow> length (wb_data e) = n \<and> wb_nb e \<le> n"

definition pending :: "wb \<Rightarrow> wb_entry list" where
  "pending w = map (\<lambda>i. wb_entrys w ! ((wb_last w + i) mod wb_num w)) [0 ..< wb_used w]"

definition entry_writes :: "wb_entry \<Rightarrow> (u32 \<times> u8) list" where
  "entry_writes e = byte_writes (wb_pa e) (take (wb_nb e) (wb_data e))"

definition wb_queue :: "wb \<Rightarrow> (u32 \<times> u8) list" where
  "wb_queue w = concat (map entry_writes (pending w))"

text \<open>
  The ring invariant: indices in range, \<^verbatim>\<open>first\<close> the slot after the last pending entry, every
  buffer of the allocated size, and no pending entry longer than its buffer.
\<close>

definition wf_wb :: "wb \<Rightarrow> bool" where
  "wf_wb w \<longleftrightarrow>
     0 < wb_num w \<and> 0 < wb_size w \<and> length (wb_entrys w) = wb_num w \<and>
     (\<forall>e \<in> set (wb_entrys w). length (wb_data e) = wb_size w) \<and>
     wb_used w \<le> wb_num w \<and> wb_last w < wb_num w \<and>
     wb_first w = (wb_last w + wb_used w) mod wb_num w \<and>
     (\<forall>e \<in> set (pending w). wb_nb e \<le> wb_size w)"

lemma ring_next_mod: "i < n \<Longrightarrow> ring_next n i = Suc i mod n"
  by (auto simp: ring_next_def)

lemma byte_writes_append:
  "byte_writes a (xs @ ys) = byte_writes a xs @ byte_writes (a + word_of_nat (length xs)) ys"
  by (induction xs arbitrary: a) (auto simp: algebra_simps)

lemma write_bytes_perform: "write_bytes a ds b = perform (byte_writes a ds) b"
  by (induction ds arbitrary: a b) (auto simp: perform_def)

lemma perform_append [simp]: "perform (xs @ ys) b = perform ys (perform xs b)"
  by (simp add: perform_def)

lemma perform_Nil [simp]: "perform [] b = b"
  by (simp add: perform_def)

lemma pending_Nil [simp]: "wb_used w = 0 \<Longrightarrow> pending w = []"
  by (simp add: pending_def)

lemma pending_pop:
  assumes "wf_wb w" "0 < wb_used w"
  shows "pending w = wb_entrys w ! wb_last w #
    pending (w\<lparr>wb_last := ring_next (wb_num w) (wb_last w), wb_used := wb_used w - 1\<rparr>)"
proof -
  obtain u where u: "wb_used w = Suc u" using assms(2) gr0_conv_Suc by blast
  have l: "wb_last w < wb_num w" using assms(1) by (simp add: wf_wb_def)
  have "(wb_last w + Suc i) mod wb_num w = (ring_next (wb_num w) (wb_last w) + i) mod wb_num w" for i
    using l by (simp add: ring_next_mod mod_simps)
  then show ?thesis
    using l by (simp add: pending_def u upt_conv_Cons map_Suc_upt [symmetric] comp_def del: upt_Suc map_Suc_upt)
qed

lemma pending_push:
  assumes "wf_wb w" "wb_used w < wb_num w"
  shows "pending (w\<lparr>wb_entrys := (wb_entrys w)[wb_first w := e],
      wb_first := f, wb_used := Suc (wb_used w)\<rparr>) = pending w @ [e]"
proof -
  have wf: "wb_first w = (wb_last w + wb_used w) mod wb_num w" "wb_first w < length (wb_entrys w)"
    using assms(1) by (auto simp: wf_wb_def)
  have other: "wb_first w \<noteq> (wb_last w + i) mod wb_num w" if "i < wb_used w" for i
  proof
    assume "wb_first w = (wb_last w + i) mod wb_num w"
    then have "i = wb_used w"
      using mod_add_inj [of "wb_last w" i "wb_num w" "wb_used w"] that assms(2) by (simp add: wf(1))
    with that show False by simp
  qed
  show ?thesis
    using wf(2) other by (auto simp: pending_def simp flip: wf(1))
qed

lemma wf_wb_pop:
  assumes "wf_wb w" "0 < wb_used w"
  shows "wf_wb (w\<lparr>wb_last := ring_next (wb_num w) (wb_last w), wb_used := wb_used w - 1\<rparr>)"
proof -
  obtain u where u: "wb_used w = Suc u" using assms(2) gr0_conv_Suc by blast
  have "(ring_next (wb_num w) (wb_last w) + (wb_used w - 1)) mod wb_num w = wb_first w"
    using assms by (simp add: wf_wb_def ring_next_mod u mod_simps)
  then show ?thesis
    using assms pending_pop [OF assms] by (auto simp: wf_wb_def ring_next_mod)
qed

lemma wf_wb_push:
  assumes "wf_wb w" "wb_used w < wb_num w" "length (wb_data e) = wb_size w" "wb_nb e \<le> wb_size w"
  shows "wf_wb (w\<lparr>wb_entrys := (wb_entrys w)[wb_first w := e],
      wb_first := ring_next (wb_num w) (wb_first w), wb_used := Suc (wb_used w)\<rparr>)"
proof -
  have "ring_next (wb_num w) (wb_first w) = (wb_last w + Suc (wb_used w)) mod wb_num w"
    using assms(1) by (simp add: wf_wb_def ring_next_mod mod_simps)
  then show ?thesis
    using assms pending_push [OF assms(1,2), where e = e and f = "ring_next (wb_num w) (wb_first w)"]
    by (auto simp: wf_wb_def dest: set_update_subset_insert [THEN subsetD])
qed

definition popped :: "wb \<Rightarrow> wb" where
  "popped w = w\<lparr>wb_last := ring_next (wb_num w) (wb_last w), wb_used := wb_used w - 1\<rparr>"

lemma popped_fields [simp]:
  "wb_num (popped w) = wb_num w" "wb_size (popped w) = wb_size w"
  "wb_used (popped w) = wb_used w - 1"
  by (simp_all add: popped_def)

lemma wb_clean_last_queue:
  assumes "wf_wb w" "0 < wb_used w"
  shows "wb_clean_last w b = (popped w, perform (entry_writes (wb_entrys w ! wb_last w)) b)"
    and "wb_queue w = entry_writes (wb_entrys w ! wb_last w) @ wb_queue (popped w)"
    and "wf_wb (popped w)"
proof -
  let ?e = "wb_entrys w ! wb_last w"
  have "?e \<in> set (pending w)" using pending_pop [OF assms(1,2)] by simp
  then have "wb_nb ?e \<le> length (wb_data ?e)" "wb_last w < length (wb_entrys w)"
    using assms(1) by (auto simp: wf_wb_def)
  then show "wb_clean_last w b = (popped w, perform (entry_writes ?e) b)"
    by (simp add: wb_clean_last_def popped_def entry_writes_def write_bytes_perform Let_def)
  show "wb_queue w = entry_writes ?e @ wb_queue (popped w)"
    using pending_pop [OF assms(1,2)] by (simp add: wb_queue_def popped_def)
  show "wf_wb (popped w)" using wf_wb_pop [OF assms] by (simp add: popped_def)
qed

lemma drain_queue:
  "wf_wb w \<Longrightarrow> snd (mmu_wb_drain_all w b) = perform (wb_queue w) b \<and>
     wf_wb (fst (mmu_wb_drain_all w b)) \<and> wb_used (fst (mmu_wb_drain_all w b)) = 0"
proof (induction w b rule: mmu_wb_drain_all.induct)
  case (1 w b)
  show ?case
  proof (cases "wb_used w = 0")
    case True
    with 1 show ?thesis by (simp add: mmu_wb_drain_all.simps [of w b] wb_queue_def)
  next
    case False
    then have pos: "0 < wb_used w" by simp
    note q = wb_clean_last_queue [OF "1.prems" pos]
    show ?thesis
      using "1.IH" [OF False] q(1) [of b] q(3) False
      by (simp add: mmu_wb_drain_all.simps [of w b] q(2))
  qed
qed

lemma wb_queue_Nil [simp]: "wb_used w = 0 \<Longrightarrow> wb_queue w = []"
  by (simp add: wb_queue_def)

text \<open>Making room: the state before an entry is filled, with what it has performed.\<close>

lemma make_room:
  assumes "wf_wb w"
  obtains w1 b1 ws where
    "(if wb_num w = wb_used w then wb_clean_last w b else (w, b)) = (w1, b1)"
    "wf_wb w1" "wb_used w1 < wb_num w1" "wb_size w1 = wb_size w" "wb_num w1 = wb_num w"
    "b1 = perform ws b" "wb_queue w = ws @ wb_queue w1"
proof (cases "wb_num w = wb_used w")
  case True
  with assms have pos: "0 < wb_used w" by (simp add: wf_wb_def)
  note q = wb_clean_last_queue [OF assms pos]
  show thesis
    by (rule that [OF _ q(3) _ _ _ refl q(2)]) (use True pos q(1) in simp_all)
next
  case False
  with assms show thesis by (intro that [of w b "[]"]) (auto simp: wf_wb_def)
qed

definition filled :: "wb_entry \<Rightarrow> wb \<Rightarrow> wb" where
  "filled e w = w\<lparr>wb_entrys := (wb_entrys w)[wb_first w := e],
     wb_first := ring_next (wb_num w) (wb_first w), wb_used := Suc (wb_used w)\<rparr>"

lemma wb_queue_filled:
  assumes "wf_wb w" "wb_used w < wb_num w"
  shows "wb_queue (filled e w) = wb_queue w @ entry_writes e"
  using pending_push [OF assms, where e = e and f = "ring_next (wb_num w) (wb_first w)"]
  by (simp add: wb_queue_def filled_def)

lemma write_step:
  assumes "wf_wb w1" "wb_used w1 < wb_num w1" "i = min (length ds) (wb_size w1)"
    and e: "e = \<lparr>wb_pa = a, wb_data = take i ds @ drop i (wb_data (wb_entrys w1 ! wb_first w1)),
                 wb_nb = i\<rparr>"
  shows "wf_wb (filled e w1)" "wb_first w1 < length (wb_entrys w1)"
    "wb_queue w1 @ byte_writes a ds =
       wb_queue (filled e w1) @ byte_writes (a + word_of_nat i) (drop i ds)"
proof -
  have f: "wb_first w1 < length (wb_entrys w1)" using assms(1) by (auto simp: wf_wb_def)
  then have "length (wb_data (wb_entrys w1 ! wb_first w1)) = wb_size w1"
    using assms(1) by (auto simp: wf_wb_def)
  then have "length (wb_data e) = wb_size w1" "wb_nb e \<le> wb_size w1"
    using assms(3) by (auto simp: e)
  then show "wf_wb (filled e w1)" using wf_wb_push [OF assms(1,2)] by (simp add: filled_def)
  have "entry_writes e = byte_writes a (take i ds)" using assms(3) by (simp add: entry_writes_def e)
  moreover have "byte_writes a ds = byte_writes a (take i ds) @ byte_writes (a + word_of_nat i) (drop i ds)"
    using byte_writes_append [of a "take i ds" "drop i ds"] assms(3) by simp
  ultimately show "wb_queue w1 @ byte_writes a ds =
       wb_queue (filled e w1) @ byte_writes (a + word_of_nat i) (drop i ds)"
    by (simp add: wb_queue_filled [OF assms(1,2)])
  show "wb_first w1 < length (wb_entrys w1)" by (fact f)
qed

lemma write_Nil: "mmu_wb_write_bytes a [] w b = (w, b)"
  by (simp add: mmu_wb_write_bytes.simps)

lemma write_queue:
  "wf_wb w \<Longrightarrow> wf_wb (fst (mmu_wb_write_bytes a ds w b)) \<and>
     (\<exists>ws. snd (mmu_wb_write_bytes a ds w b) = perform ws b \<and>
        wb_queue w @ byte_writes a ds = ws @ wb_queue (fst (mmu_wb_write_bytes a ds w b)))"
proof (induction a ds w b rule: mmu_wb_write_bytes.induct)
  case (1 a ds w b)
  show ?case
  proof (cases "ds = []")
    case True
    with 1 show ?thesis by (auto simp: write_Nil intro: exI [of _ "[]"])
  next
    case False
    obtain w1 b1 ws where r: "(if wb_num w = wb_used w then wb_clean_last w b else (w, b)) = (w1, b1)"
        "wf_wb w1" "wb_used w1 < wb_num w1" "wb_size w1 = wb_size w" "wb_num w1 = wb_num w"
        "b1 = perform ws b" "wb_queue w = ws @ wb_queue w1"
      using make_room [OF "1.prems"] by blast
    have sz: "wb_size w \<noteq> 0" using "1.prems" by (simp add: wf_wb_def)
    let ?i = "min (length ds) (wb_size w)"
    let ?e = "\<lparr>wb_pa = a, wb_data = take ?i ds @ drop ?i (wb_data (wb_entrys w1 ! wb_first w1)), wb_nb = ?i\<rparr>"
    have i: "?i = min (length ds) (wb_size w1)" by (simp add: r(4))
    note st = write_step [OF r(2,3) i, of ?e a, OF refl]
    have eq: "mmu_wb_write_bytes a ds w b =
        mmu_wb_write_bytes (a + word_of_nat ?i) (drop ?i ds) (filled ?e w1) b1"
      using False sz st(2) by (simp add: mmu_wb_write_bytes.simps [of a ds w b] r(1) Let_def filled_def)
    have IH: "wf_wb (fst (mmu_wb_write_bytes a ds w b)) \<and>
      (\<exists>us. snd (mmu_wb_write_bytes a ds w b) = perform us b1 \<and>
        wb_queue (filled ?e w1) @ byte_writes (a + word_of_nat ?i) (drop ?i ds) =
        us @ wb_queue (fst (mmu_wb_write_bytes a ds w b)))"
      unfolding eq
      unfolding filled_def
      by (rule "1.IH" [OF False sz r(1) [symmetric] refl refl refl st(2)])
        (use st(1) in \<open>simp add: filled_def\<close>)
    then obtain us where us: "snd (mmu_wb_write_bytes a ds w b) = perform us b1"
        "wb_queue (filled ?e w1) @ byte_writes (a + word_of_nat ?i) (drop ?i ds) =
          us @ wb_queue (fst (mmu_wb_write_bytes a ds w b))" by blast
    then show ?thesis
      using IH st(3) r(6,7) by (intro conjI exI [of _ "ws @ us"]) auto
  qed
qed

subsection \<open>Properties\<close>

lemma init_wf: "0 < n \<Longrightarrow> 0 < k \<Longrightarrow> length (wb_data e) = k \<Longrightarrow> wf_wb (mmu_wb_init e n k)"
  by (simp add: wf_wb_def mmu_wb_init_def)

text \<open>A buffer of the ARM920T's size with one byte pending.\<close>

definition sample_wb :: wb where
  "sample_wb = (mmu_wb_init \<lparr>wb_pa = 0, wb_data = replicate 8 0, wb_nb = 0\<rparr> 8 8)
     \<lparr>wb_entrys := \<lparr>wb_pa = 0x30000004, wb_data = 7 # replicate 7 0, wb_nb = 1\<rparr> #
        replicate 7 \<lparr>wb_pa = 0, wb_data = replicate 8 0, wb_nb = 0\<rparr>,
      wb_first := 1, wb_used := 1\<rparr>"

lemma sample_wb_wf: "wf_wb sample_wb"
  by (simp add: sample_wb_def mmu_wb_init_def wf_wb_def pending_def)

lemma sample_wb_queue: "wb_queue sample_wb = [(0x30000004, 7)]"
  by (simp add: sample_wb_def mmu_wb_init_def wb_queue_def pending_def entry_writes_def)

text \<open>
  Draining the write buffer performs exactly the pending byte writes, oldest first, and
  leaves an empty well-formed buffer. Where the pending writes go to RAM, every byte of
  memory then holds the newest pending write to its address, and its old value where there
  is none.
\<close>

theorem wb_drain_performs_pending:
  assumes "wf_wb w"
  shows "mmu_wb_drain_all w b = (w', b') \<Longrightarrow>
      b' = perform (wb_queue w) b \<and> wf_wb w' \<and> wb_queue w' = [] \<and>
      (wf_bus b \<and> (\<forall>(a, v) \<in> set (wb_queue w). ram_at b a) \<longrightarrow>
         wf_bus b' \<and> mem_abs b' = mem_abs b ++ map_of (rev (wb_queue w)))"
  using drain_queue [OF assms, of b] bus_bytes.writes_inv [of b "wb_queue w"]
    bus_bytes.rd_writes [of b "wb_queue w"]
  by (auto simp: perform_def)

text \<open>
  C38. A write into the buffer is the same, once the buffer is drained, as draining the buffer
  first and then writing the bytes to the bus directly: the buffer delays writes but
  neither loses, duplicates nor reorders them. The ring invariant is kept.
\<close>

theorem wb_write_is_delayed_write:
  assumes "wf_wb w"
  shows "(case mmu_wb_write_bytes a ds w b of (w', b') \<Rightarrow>
      wf_wb w' \<and> snd (mmu_wb_drain_all w' b') = write_bytes a ds (snd (mmu_wb_drain_all w b)))"
proof -
  obtain w' b' where r: "mmu_wb_write_bytes a ds w b = (w', b')" by fastforce
  obtain ws where ws: "b' = perform ws b" "wf_wb w'" "wb_queue w @ byte_writes a ds = ws @ wb_queue w'"
    using write_queue [OF assms, of a ds b] r by auto
  have "snd (mmu_wb_drain_all w' b') = perform (ws @ wb_queue w') b"
    using drain_queue [OF ws(2), of b'] by (simp add: ws(1))
  also have "\<dots> = write_bytes a ds (snd (mmu_wb_drain_all w b))"
    using drain_queue [OF assms, of b] by (simp flip: ws(3) add: write_bytes_perform)
  finally show ?thesis using ws(2) by (simp add: r)
qed

theorem wb_drain_performs_pending_witness:
  "\<exists>w' b'. mmu_wb_drain_all sample_wb sample_bus = (w', b') \<and> wf_bus b' \<and>
     wb_queue w' = [] \<and> mem_abs b' 0x30000004 = Some 7"
proof -
  obtain w' b' where r: "mmu_wb_drain_all sample_wb sample_bus = (w', b')" by fastforce
  show ?thesis
    using wb_drain_performs_pending [OF sample_wb_wf r] sample_bus_wf sample_bus_ram r
    by (auto simp: sample_wb_queue)
qed

theorem wb_write_is_delayed_write_witness:
  "wf_wb sample_wb \<and>
   (case mmu_wb_write_bytes 0x30000000 [1, 2, 3] sample_wb sample_bus of (w', b') \<Rightarrow>
      wf_wb w' \<and> snd (mmu_wb_drain_all w' b') =
        write_bytes 0x30000000 [1, 2, 3] (snd (mmu_wb_drain_all sample_wb sample_bus)))"
  by (rule conjI [OF sample_wb_wf wb_write_is_delayed_write [OF sample_wb_wf]])

end
