(* ===== verification/Arm_State.thy ===== *)
theory Arm_State
  imports Mmu_Cache Mmu_Wb
begin

text \<open>
  The state of the ARM core (arch_arm/common/armdefs.h, armemu.h), its MMU
  (armmmu.h, mmu/tlb.h, mmu/arm920t_mmu.h) and the macros that read and write status
  flags, modes and register 15.

  Arrays are functions on indices (\<open>Reg\<close>, \<open>RegBank\<close>, \<open>Spsr\<close>, \<open>EventPtr\<close>). The single-bit
  status flags and input signals are truth values, counters the C type's words. The
  interrupt pins are in the part of the state that the board's handlers reach
  (\<open>NfiqSig\<close> and \<open>NirqSig\<close> of \<open>io\<close>), because the board writes them. \<^verbatim>\<open>isize\<close> and the fields of
  \<^verbatim>\<open>state->cpu\<close> that are read are fields of the record too. \<open>inst_cache\<close> is
  \<^verbatim>\<open>skyeye_cachetype == INSTCACHE\<close>. \<open>junk\<close> is the value that an uninitialised local variable
  holds; nothing is assumed about it. Debugging, profiling, logging and
  XScale state are left out.
\<close>

subsection \<open>TLB and MMU state (mmu/tlb.h, armmmu.h)\<close>

datatype tlb_mapping =
  TLB_INVALID | TLB_SMALLPAGE | TLB_LARGEPAGE | TLB_SECTION | TLB_ESMALLPAGE | TLB_TINYPAGE

record tlb_entry =
  tlb_virt_addr :: u32
  tlb_phys_addr :: u32
  tlb_perms :: u32
  tlb_domain :: u32
  tlb_kind :: tlb_mapping

record tlb =
  tlb_num :: nat
  tlb_cycle :: nat
  tlb_entrys :: "tlb_entry list"

datatype fault =
  NO_FAULT | ALIGNMENT_FAULT | SECTION_TRANSLATION_FAULT | PAGE_TRANSLATION_FAULT
| SECTION_DOMAIN_FAULT | PAGE_DOMAIN_FAULT | SECTION_PERMISSION_FAULT | SUBPAGE_PERMISSION_FAULT

primrec fault_code :: "fault \<Rightarrow> u32" where
  "fault_code NO_FAULT = 0x0"
| "fault_code ALIGNMENT_FAULT = 0x1"
| "fault_code SECTION_TRANSLATION_FAULT = 0x5"
| "fault_code PAGE_TRANSLATION_FAULT = 0x7"
| "fault_code SECTION_DOMAIN_FAULT = 0x9"
| "fault_code PAGE_DOMAIN_FAULT = 0xB"
| "fault_code SECTION_PERMISSION_FAULT = 0xD"
| "fault_code SUBPAGE_PERMISSION_FAULT = 0xF"

record mmu_state =
  control :: u32
  translation_table_base :: u32
  domain_access_control :: u32
  fault_status :: u32
  fault_address :: u32
  last_domain :: u32
  process_id :: u32
  i_tlb :: tlb
  i_cache :: cache
  d_tlb :: tlb
  d_cache :: cache
  wbuf :: wb

definition CONTROL_MMU :: u32 where "CONTROL_MMU = 0x1"
definition CONTROL_ALIGN_FAULT :: u32 where "CONTROL_ALIGN_FAULT = 0x2"
definition CONTROL_DATA_CACHE :: u32 where "CONTROL_DATA_CACHE = 0x4"
definition CONTROL_WRITE_BUFFER :: u32 where "CONTROL_WRITE_BUFFER = 0x8"
definition CONTROL_SYSTEM :: u32 where "CONTROL_SYSTEM = 0x100"
definition CONTROL_ROM :: u32 where "CONTROL_ROM = 0x200"
definition CONTROL_VECTOR :: u32 where "CONTROL_VECTOR = 0x2000"

lemmas control_bits =
  CONTROL_MMU_def CONTROL_ALIGN_FAULT_def CONTROL_DATA_CACHE_def CONTROL_WRITE_BUFFER_def
  CONTROL_SYSTEM_def CONTROL_ROM_def CONTROL_VECTOR_def

subsection \<open>The processor (armdefs.h, \<^verbatim>\<open>struct ARMul_State\<close>)\<close>

datatype emulate_state = STOP | CHANGEMODE | ONCE | RUN

text \<open>The routines that are ever put on the event list (armcopro.c).\<close>

datatype event_fn = DoAFIQ | DoAIRQ

text \<open>
  The pipeline (\<^verbatim>\<open>state->decoded\<close>, \<^verbatim>\<open>loaded\<close>, \<^verbatim>\<open>pc\<close>, and the local variables of the emulator loop
  of the same names), and the static variables of the coprocessors of armcopro.c.
\<close>

record pipeline =
  decoded :: u32
  loaded :: u32
  pipe_pc :: u32

record cop_state =
  MMUReg :: "nat \<Rightarrow> u32"
  ValReg :: "nat \<Rightarrow> u32"
  ldc_words :: u32
  stc_words :: u32
  val_finish :: u32
  int_finish :: u32

record 'd arm_state =
  Emulate :: emulate_state
  Reg :: "nat \<Rightarrow> u32"
  RegBank :: "nat \<Rightarrow> nat \<Rightarrow> u32"
  Cpsr :: u32
  Spsr :: "nat \<Rightarrow> u32"
  NFlag :: bool
  ZFlag :: bool
  CFlag :: bool
  VFlag :: bool
  IFFlags :: u32
  SFlag :: bool
  TFlag :: bool
  Bank :: nat
  Mode :: u32
  isize :: u32
  NumScycles :: u32
  NumNcycles :: u32
  NumIcycles :: u32
  NumCcycles :: u32
  NumFcycles :: u32
  NumInstrs :: u64
  NextInstr :: u32
  EventSet :: u32
  Now :: u32
  EventPtr :: "nat \<Rightarrow> event_fn list"
  NresetSig :: bool
  abortSig :: bool
  NtransSig :: bool
  bigendSig :: bool
  prog32Sig :: bool
  data32Sig :: bool
  lateabtSig :: bool
  Aborted :: u32
  Base :: u32
  AbortAddr :: u32
  is_v4 :: bool
  is_v5 :: bool
  is_v5e :: bool
  is_XScale :: bool
  is_iWMMXt :: bool
  is_v6 :: bool
  is_ep9312 :: bool
  is_pxa27x :: bool
  Accumulator :: u64
  pipe :: pipeline
  cop :: cop_state
  vector_remap_flag :: bool
  vector_remap_addr :: u32
  cpu_val :: u32
  cpu_arch_name :: string
  inst_cache :: bool
  junk :: u32
  mmu :: mmu_state
  bus :: "'d bus"

definition arm_halt :: "halt_reason \<Rightarrow> 'd arm_state \<Rightarrow> 'd arm_state" where
  "arm_halt h s = s\<lparr>bus := bus_halt h (bus s)\<rparr>"

definition set_reg :: "nat \<Rightarrow> u32 \<Rightarrow> 'd arm_state \<Rightarrow> 'd arm_state" where
  "set_reg r v s = s\<lparr>Reg := (Reg s)(r := v)\<rparr>"

end
