(* ===== verification/Arm_Supp.thy ===== *)
theory Arm_Supp
  imports Arm_State
begin

text \<open>
  The support routines of the ARM core: arch_arm/common/armsupp.c, the exception entry
  \<^verbatim>\<open>ARMul_Abort\<close> of arminit.c and the cycle counters of armvirt.c. These files are compiled
  with \<^verbatim>\<open>MODET\<close> and without \<^verbatim>\<open>MODE32\<close>, which fixes the masks below.
\<close>

subsection \<open>Status bits, modes and banks (armemu.h, armdefs.h)\<close>

definition NBIT :: u32 where "NBIT = 0x80000000"
definition ZBIT :: u32 where "ZBIT = 0x40000000"
definition CBIT :: u32 where "CBIT = 0x20000000"
definition VBIT :: u32 where "VBIT = 0x10000000"
definition SBIT :: u32 where "SBIT = 0x08000000"
definition IBIT :: u32 where "IBIT = 0x80"
definition TBIT :: u32 where "TBIT = 0x20"

definition CCBITS :: u32 where "CCBITS = 0xf8000000"
definition INTBITS :: u32 where "INTBITS = 0xc0"
definition MODEBITS :: u32 where "MODEBITS = 0x1f"
definition PCBITS :: u32 where "PCBITS = 0xfffffffc"
definition R15INTBITS :: u32 where "R15INTBITS = 0x0c000000"
definition R15PCBITS :: u32 where "R15PCBITS = 0x03fffffc"
definition R15MODEBITS :: u32 where "R15MODEBITS = 0x3"
definition PRIMEPIPE :: u32 where "PRIMEPIPE = 4"

lemmas psr_masks =
  NBIT_def ZBIT_def CBIT_def VBIT_def SBIT_def IBIT_def TBIT_def CCBITS_def INTBITS_def
  MODEBITS_def PCBITS_def R15INTBITS_def R15PCBITS_def R15MODEBITS_def PRIMEPIPE_def

definition USER26MODE :: u32 where "USER26MODE = 0"
definition FIQ26MODE :: u32 where "FIQ26MODE = 1"
definition IRQ26MODE :: u32 where "IRQ26MODE = 2"
definition SVC26MODE :: u32 where "SVC26MODE = 3"
definition USER32MODE :: u32 where "USER32MODE = 16"
definition FIQ32MODE :: u32 where "FIQ32MODE = 17"
definition IRQ32MODE :: u32 where "IRQ32MODE = 18"
definition SVC32MODE :: u32 where "SVC32MODE = 19"
definition ABORT32MODE :: u32 where "ABORT32MODE = 23"
definition UNDEF32MODE :: u32 where "UNDEF32MODE = 27"
definition SYSTEM32MODE :: u32 where "SYSTEM32MODE = 31"

lemmas mode_numbers =
  USER26MODE_def FIQ26MODE_def IRQ26MODE_def SVC26MODE_def USER32MODE_def FIQ32MODE_def
  IRQ32MODE_def SVC32MODE_def ABORT32MODE_def UNDEF32MODE_def SYSTEM32MODE_def

definition USERBANK :: nat where "USERBANK = 0"
definition FIQBANK :: nat where "FIQBANK = 1"
definition IRQBANK :: nat where "IRQBANK = 2"
definition SVCBANK :: nat where "SVCBANK = 3"
definition ABORTBANK :: nat where "ABORTBANK = 4"
definition UNDEFBANK :: nat where "UNDEFBANK = 5"
definition DUMMYBANK :: nat where "DUMMYBANK = 6"

lemmas bank_numbers =
  USERBANK_def FIQBANK_def IRQBANK_def SVCBANK_def ABORTBANK_def UNDEFBANK_def DUMMYBANK_def

definition BANK_CAN_ACCESS_SPSR :: "nat \<Rightarrow> bool" where
  "BANK_CAN_ACCESS_SPSR bank \<longleftrightarrow> bank \<noteq> USERBANK \<and> bank \<noteq> DUMMYBANK"

definition MODE32BIT :: "'d arm_state \<Rightarrow> bool" where
  "MODE32BIT s \<longleftrightarrow> Mode s > 3"

text \<open>Exception vectors.\<close>

definition ResetV :: u32 where "ResetV = 0"
definition UndefinedInstrV :: u32 where "UndefinedInstrV = 4"
definition SWIV :: u32 where "SWIV = 8"
definition PrefetchAbortV :: u32 where "PrefetchAbortV = 12"
definition DataAbortV :: u32 where "DataAbortV = 16"
definition AddrExceptnV :: u32 where "AddrExceptnV = 20"
definition IRQV :: u32 where "IRQV = 24"
definition FIQV :: u32 where "FIQV = 28"

lemmas vectors =
  ResetV_def UndefinedInstrV_def SWIV_def PrefetchAbortV_def DataAbortV_def AddrExceptnV_def
  IRQV_def FIQV_def

subsection \<open>Status word macros (armemu.h)\<close>

definition ECC :: "'d arm_state \<Rightarrow> u32" where
  "ECC s = push_bit 31 (of_bool (NFlag s)) OR push_bit 30 (of_bool (ZFlag s))
           OR push_bit 29 (of_bool (CFlag s)) OR push_bit 28 (of_bool (VFlag s))
           OR push_bit 27 (of_bool (SFlag s))"

definition EINT :: "'d arm_state \<Rightarrow> u32" where
  "EINT s = push_bit 6 (IFFlags s)"

definition ER15INT :: "'d arm_state \<Rightarrow> u32" where
  "ER15INT s = push_bit 26 (IFFlags s)"

definition EMODE :: "'d arm_state \<Rightarrow> u32" where
  "EMODE s = Mode s"

definition CPSR :: "'d arm_state \<Rightarrow> u32" where
  "CPSR s = ECC s OR EINT s OR EMODE s OR push_bit 5 (of_bool (TFlag s))"

definition R15PC :: "'d arm_state \<Rightarrow> u32" where
  "R15PC s = Reg s 15 AND R15PCBITS"

definition R15CCINTMODE :: "'d arm_state \<Rightarrow> u32" where
  "R15CCINTMODE s = Reg s 15 AND (CCBITS OR R15INTBITS OR R15MODEBITS)"

definition FFLAG :: "'d arm_state \<Rightarrow> bool" where
  "FFLAG s \<longleftrightarrow> IFFlags s AND 1 \<noteq> 0"

definition IFLAG :: "'d arm_state \<Rightarrow> bool" where
  "IFLAG s \<longleftrightarrow> drop_bit 1 (IFFlags s) \<noteq> 0"

definition FLUSHPIPE :: "'d arm_state \<Rightarrow> 'd arm_state" where
  "FLUSHPIPE s = s\<lparr>NextInstr := NextInstr s OR PRIMEPIPE\<rparr>"

text \<open>\<^verbatim>\<open>SETPSR_F\<close>, \<^verbatim>\<open>SETPSR_S\<close>, \<^verbatim>\<open>SETPSR_X\<close>, \<^verbatim>\<open>SETPSR_C\<close>, with the field's mask as argument.\<close>

definition SETPSR :: "u32 \<Rightarrow> u32 \<Rightarrow> u32 \<Rightarrow> u32" where
  "SETPSR m d v = (d AND NOT m) OR (v AND m)"

subsection \<open>Register banks (armsupp.c)\<close>

definition bankofmode :: "nat list" where
  "bankofmode =
     [USERBANK, FIQBANK, IRQBANK, SVCBANK,
      DUMMYBANK, DUMMYBANK, DUMMYBANK, DUMMYBANK,
      DUMMYBANK, DUMMYBANK, DUMMYBANK, DUMMYBANK,
      DUMMYBANK, DUMMYBANK, DUMMYBANK, DUMMYBANK,
      USERBANK, FIQBANK, IRQBANK, SVCBANK,
      DUMMYBANK, DUMMYBANK, DUMMYBANK, ABORTBANK,
      DUMMYBANK, DUMMYBANK, DUMMYBANK, UNDEFBANK,
      DUMMYBANK, DUMMYBANK, DUMMYBANK, USERBANK]"

definition ModeToBank :: "u32 \<Rightarrow> nat" where
  "ModeToBank mode =
     (if unat mode \<ge> length bankofmode then DUMMYBANK else bankofmode ! unat mode)"

definition copy_regs :: "nat \<Rightarrow> nat \<Rightarrow> (nat \<Rightarrow> u32) \<Rightarrow> (nat \<Rightarrow> u32) \<Rightarrow> nat \<Rightarrow> u32" where
  "copy_regs lo hi from to i = (if lo \<le> i \<and> i < hi then from i else to i)"

text \<open>\<^verbatim>\<open>ARMul_SwitchMode\<close>: saving the old bank's registers, then restoring the new bank's.\<close>

definition save_bank :: "nat \<Rightarrow> nat \<Rightarrow> 'd arm_state \<Rightarrow> 'd arm_state" where
  "save_bank oldbank newbank s =
     (if oldbank \<in> {USERBANK, IRQBANK, SVCBANK, ABORTBANK, UNDEFBANK} then
        (let rb = (if newbank = FIQBANK
                   then (RegBank s)(USERBANK := copy_regs 8 13 (Reg s) (RegBank s USERBANK))
                   else RegBank s)
         in s\<lparr>RegBank := rb(oldbank := copy_regs 13 15 (Reg s) (rb oldbank))\<rparr>)
      else if oldbank = FIQBANK then
        s\<lparr>RegBank := (RegBank s)(FIQBANK := copy_regs 8 15 (Reg s) (RegBank s FIQBANK))\<rparr>
      else if oldbank = DUMMYBANK then
        s\<lparr>RegBank := (RegBank s)(DUMMYBANK := copy_regs 8 15 (\<lambda>i. 0) (RegBank s DUMMYBANK))\<rparr>
      else arm_halt Abort_called s)"

definition restore_bank :: "nat \<Rightarrow> nat \<Rightarrow> 'd arm_state \<Rightarrow> 'd arm_state" where
  "restore_bank oldbank newbank s =
     (if newbank \<in> {USERBANK, IRQBANK, SVCBANK, ABORTBANK, UNDEFBANK} then
        (let r = (if oldbank = FIQBANK
                  then copy_regs 8 13 (RegBank s USERBANK) (Reg s) else Reg s)
         in s\<lparr>Reg := copy_regs 13 15 (RegBank s newbank) r\<rparr>)
      else if newbank = FIQBANK then
        s\<lparr>Reg := copy_regs 8 15 (RegBank s FIQBANK) (Reg s)\<rparr>
      else if newbank = DUMMYBANK then
        s\<lparr>Reg := copy_regs 8 15 (\<lambda>i. 0) (Reg s)\<rparr>
      else arm_halt Abort_called s)"

definition ARMul_SwitchMode :: "u32 \<Rightarrow> u32 \<Rightarrow> 'd arm_state \<Rightarrow> 'd arm_state" where
  "ARMul_SwitchMode oldmode newmode s =
     (let oldbank = ModeToBank oldmode;
          newbank = ModeToBank newmode;
          s1 = s\<lparr>Bank := newbank\<rparr>
      in if oldbank \<noteq> newbank
         then restore_bank oldbank newbank (save_bank oldbank newbank s1) else s1)"

subsection \<open>Registers by mode (armsupp.c)\<close>

definition ARMul_GetReg :: "u32 \<Rightarrow> nat \<Rightarrow> 'd arm_state \<Rightarrow> u32" where
  "ARMul_GetReg mode reg s =
     (let mode = mode AND MODEBITS
      in if mode \<noteq> Mode s then RegBank s (ModeToBank mode) reg else Reg s reg)"

definition ARMul_SetReg :: "u32 \<Rightarrow> nat \<Rightarrow> u32 \<Rightarrow> 'd arm_state \<Rightarrow> 'd arm_state" where
  "ARMul_SetReg mode reg value s =
     (let mode = mode AND MODEBITS; bk = ModeToBank mode
      in if mode \<noteq> Mode s
         then s\<lparr>RegBank := (RegBank s)(bk := (RegBank s bk)(reg := value))\<rparr>
         else set_reg reg value s)"

definition ARMul_GetPC :: "'d arm_state \<Rightarrow> u32" where
  "ARMul_GetPC s = (if Mode s > SVC26MODE then Reg s 15 else R15PC s)"

definition ARMul_GetNextPC :: "'d arm_state \<Rightarrow> u32" where
  "ARMul_GetNextPC s =
     (if Mode s > SVC26MODE then Reg s 15 + isize s else (Reg s 15 + isize s) AND R15PCBITS)"

definition ARMul_SetPC :: "u32 \<Rightarrow> 'd arm_state \<Rightarrow> 'd arm_state" where
  "ARMul_SetPC value s =
     FLUSHPIPE (if MODE32BIT s then set_reg 15 (value AND PCBITS) s
                else set_reg 15 (R15CCINTMODE s OR (value AND R15PCBITS)) s)"

definition ARMul_GetR15 :: "'d arm_state \<Rightarrow> u32" where
  "ARMul_GetR15 s =
     (if Mode s > SVC26MODE then Reg s 15
      else R15PC s OR ECC s OR ER15INT s OR EMODE s)"

text \<open>
  \<^verbatim>\<open>ARMul_R15Altered\<close>: the flags and the mode from register 15, in a 26-bit mode.
\<close>

definition ARMul_R15Altered :: "'d arm_state \<Rightarrow> 'd arm_state" where
  "ARMul_R15Altered s =
     (let m = Reg s 15 AND R15MODEBITS;
          s1 = (if Mode s \<noteq> m
                then (ARMul_SwitchMode (Mode s) m s)\<lparr>Mode := m, NtransSig := (m AND 3 \<noteq> 0)\<rparr>
                else s);
          s2 = (if Mode s1 > SVC26MODE then s1\<lparr>Emulate := CHANGEMODE\<rparr> else s1);
          r15 = Reg s2 15
      in s2\<lparr>IFFlags := drop_bit 26 (r15 AND R15INTBITS) AND 3,
            NFlag := (r15 AND NBIT \<noteq> 0), ZFlag := (r15 AND ZBIT \<noteq> 0),
            CFlag := (r15 AND CBIT \<noteq> 0), VFlag := (r15 AND VBIT \<noteq> 0)\<rparr>)"

definition ARMul_SetR15 :: "u32 \<Rightarrow> 'd arm_state \<Rightarrow> 'd arm_state" where
  "ARMul_SetR15 value s =
     FLUSHPIPE (if MODE32BIT s then set_reg 15 (value AND PCBITS) s
                else ARMul_R15Altered (set_reg 15 value s))"

subsection \<open>Program status registers (armsupp.c)\<close>

definition ARMul_GetCPSR :: "'d arm_state \<Rightarrow> u32" where
  "ARMul_GetCPSR s = CPSR s"

definition r15_word :: "'d arm_state \<Rightarrow> u32" where
  "r15_word s = ECC s OR ER15INT s OR EMODE s OR R15PC s"

definition ARMul_CPSRAltered :: "'d arm_state \<Rightarrow> 'd arm_state" where
  "ARMul_CPSRAltered s =
     (let s1 = (if \<not> prog32Sig s
                then s\<lparr>Cpsr := Cpsr s AND (CCBITS OR INTBITS OR R15MODEBITS)\<rparr> else s);
          oldmode = Mode s1;
          m = Cpsr s1 AND MODEBITS;
          s2 = (if Mode s1 \<noteq> m
                then (ARMul_SwitchMode (Mode s1) m s1)\<lparr>Mode := m, NtransSig := (m AND 3 \<noteq> 0)\<rparr>
                else s1);
          c = Cpsr s2;
          s3 = s2\<lparr>IFFlags := drop_bit 6 (c AND INTBITS) AND 3,
                  NFlag := (c AND NBIT \<noteq> 0), ZFlag := (c AND ZBIT \<noteq> 0),
                  CFlag := (c AND CBIT \<noteq> 0), VFlag := (c AND VBIT \<noteq> 0),
                  SFlag := (c AND SBIT \<noteq> 0), TFlag := (c AND TBIT \<noteq> 0)\<rparr>
      in if oldmode > SVC26MODE then
           (if Mode s3 \<le> SVC26MODE
            then (let s4 = s3\<lparr>Emulate := CHANGEMODE\<rparr> in set_reg 15 (r15_word s4) s4)
            else s3)
         else
           (if Mode s3 > SVC26MODE
            then (let s4 = s3\<lparr>Emulate := CHANGEMODE\<rparr> in set_reg 15 (R15PC s4) s4)
            else set_reg 15 (r15_word s3) s3))"

definition ARMul_SetCPSR :: "u32 \<Rightarrow> 'd arm_state \<Rightarrow> 'd arm_state" where
  "ARMul_SetCPSR value s = ARMul_CPSRAltered (s\<lparr>Cpsr := value\<rparr>)"

definition PSR_FBITS :: u32 where "PSR_FBITS = 0xff000000"
definition PSR_SBITS :: u32 where "PSR_SBITS = 0x00ff0000"
definition PSR_XBITS :: u32 where "PSR_XBITS = 0x0000ff00"
definition PSR_CBITS :: u32 where "PSR_CBITS = 0x000000ff"

lemmas psr_fields = PSR_FBITS_def PSR_SBITS_def PSR_XBITS_def PSR_CBITS_def

definition ARMul_FixCPSR :: "u32 \<Rightarrow> u32 \<Rightarrow> 'd arm_state \<Rightarrow> 'd arm_state" where
  "ARMul_FixCPSR instr rhs s =
     (let c0 = ARMul_GetCPSR s;
          c1 = (if Mode s \<noteq> USER26MODE \<and> Mode s \<noteq> USER32MODE then
                  (let x1 = (if BIT 16 instr then SETPSR PSR_CBITS c0 rhs else c0);
                       x2 = (if BIT 17 instr then SETPSR PSR_XBITS x1 rhs else x1)
                   in if BIT 18 instr then SETPSR PSR_SBITS x2 rhs else x2)
                else c0);
          c2 = (if BIT 19 instr then SETPSR PSR_FBITS c1 rhs else c1)
      in ARMul_CPSRAltered (s\<lparr>Cpsr := c2\<rparr>))"

definition ARMul_GetSPSR :: "u32 \<Rightarrow> 'd arm_state \<Rightarrow> u32" where
  "ARMul_GetSPSR mode s =
     (let bank = ModeToBank (mode AND MODEBITS)
      in if \<not> BANK_CAN_ACCESS_SPSR bank then ARMul_GetCPSR s else Spsr s bank)"

definition ARMul_SetSPSR :: "u32 \<Rightarrow> u32 \<Rightarrow> 'd arm_state \<Rightarrow> 'd arm_state" where
  "ARMul_SetSPSR mode value s =
     (let bank = ModeToBank (mode AND MODEBITS)
      in if BANK_CAN_ACCESS_SPSR bank then s\<lparr>Spsr := (Spsr s)(bank := value)\<rparr> else s)"

definition ARMul_FixSPSR :: "u32 \<Rightarrow> u32 \<Rightarrow> 'd arm_state \<Rightarrow> 'd arm_state" where
  "ARMul_FixSPSR instr rhs s =
     (if BANK_CAN_ACCESS_SPSR (Bank s) then
        (let x0 = Spsr s (Bank s);
             x1 = (if BIT 16 instr then SETPSR PSR_CBITS x0 rhs else x0);
             x2 = (if BIT 17 instr then SETPSR PSR_XBITS x1 rhs else x1);
             x3 = (if BIT 18 instr then SETPSR PSR_SBITS x2 rhs else x2);
             x4 = (if BIT 19 instr then SETPSR PSR_FBITS x3 rhs else x3)
         in s\<lparr>Spsr := (Spsr s)(Bank s := x4)\<rparr>)
      else s)"

subsection \<open>Register lists and flags (armsupp.c)\<close>

text \<open>
  \<^verbatim>\<open>ARMul_NthReg\<close>: the loop from a bit position on, having met \<open>met\<close> set bits. It runs over
  the 32 bits of the instruction; past them the C code shifts by the width of the type,
  so no register is found there.
\<close>

function nth_reg_from :: "u32 \<Rightarrow> nat \<Rightarrow> nat \<Rightarrow> nat \<Rightarrow> nat option" where
  "nth_reg_from instr number k met =
     (if met \<le> number then
        (if 32 \<le> k then None
         else nth_reg_from instr number (Suc k) (if BIT k instr then Suc met else met))
      else Some (k - 1))"
  by pat_completeness auto
termination
  by (relation "measure (\<lambda>(instr, number, k, met). 32 - k)") auto

declare nth_reg_from.simps [simp del]

definition ARMul_NthReg :: "u32 \<Rightarrow> nat \<Rightarrow> nat option" where
  "ARMul_NthReg instr number = nth_reg_from instr number 0 0"

definition ARMul_NegZero :: "u32 \<Rightarrow> 'd arm_state \<Rightarrow> 'd arm_state" where
  "ARMul_NegZero result s =
     (if NEG result then s\<lparr>NFlag := True, ZFlag := False\<rparr>
      else if result = 0 then s\<lparr>NFlag := False, ZFlag := True\<rparr>
      else s\<lparr>NFlag := False, ZFlag := False\<rparr>)"

definition AddOverflow :: "u32 \<Rightarrow> u32 \<Rightarrow> u32 \<Rightarrow> bool" where
  "AddOverflow a b result \<longleftrightarrow>
     (NEG a \<and> NEG b \<and> POS result) \<or> (POS a \<and> POS b \<and> NEG result)"

definition SubOverflow :: "u32 \<Rightarrow> u32 \<Rightarrow> u32 \<Rightarrow> bool" where
  "SubOverflow a b result \<longleftrightarrow>
     (NEG a \<and> POS b \<and> POS result) \<or> (POS a \<and> NEG b \<and> NEG result)"

definition ARMul_AddCarry :: "u32 \<Rightarrow> u32 \<Rightarrow> u32 \<Rightarrow> 'd arm_state \<Rightarrow> 'd arm_state" where
  "ARMul_AddCarry a b result s =
     s\<lparr>CFlag := (NEG a \<and> NEG b) \<or> (NEG a \<and> POS result) \<or> (NEG b \<and> POS result)\<rparr>"

definition ARMul_AddOverflow :: "u32 \<Rightarrow> u32 \<Rightarrow> u32 \<Rightarrow> 'd arm_state \<Rightarrow> 'd arm_state" where
  "ARMul_AddOverflow a b result s = s\<lparr>VFlag := AddOverflow a b result\<rparr>"

definition ARMul_SubCarry :: "u32 \<Rightarrow> u32 \<Rightarrow> u32 \<Rightarrow> 'd arm_state \<Rightarrow> 'd arm_state" where
  "ARMul_SubCarry a b result s =
     s\<lparr>CFlag := (NEG a \<and> POS b) \<or> (NEG a \<and> POS result) \<or> (POS b \<and> POS result)\<rparr>"

definition ARMul_SubOverflow :: "u32 \<Rightarrow> u32 \<Rightarrow> u32 \<Rightarrow> 'd arm_state \<Rightarrow> 'd arm_state" where
  "ARMul_SubOverflow a b result s = s\<lparr>VFlag := SubOverflow a b result\<rparr>"

text \<open>\<^verbatim>\<open>ARMul_Align\<close>, called for addresses that are not word aligned.\<close>

definition ARMul_Align :: "u32 \<Rightarrow> u32 \<Rightarrow> u32" where
  "ARMul_Align address value =
     (let n = unat (push_bit 3 (address AND 3))
      in drop_bit n value OR push_bit (32 - n) value)"

subsection \<open>Exception entry (arminit.c, armemu.h)\<close>

definition SETABORT :: "u32 \<Rightarrow> u32 \<Rightarrow> u32 \<Rightarrow> u32 \<Rightarrow> 'd arm_state \<Rightarrow> 'd arm_state" where
  "SETABORT i m d temp s =
     (let s1 = ARMul_SetSPSR m (ARMul_GetCPSR s) s;
          s2 = ARMul_SetCPSR ((ARMul_GetCPSR s1 AND NOT (EMODE s1 OR TBIT)) OR i OR m) s1
      in set_reg 14 (temp - d) s2)"

text \<open>
  \<^verbatim>\<open>ARMul_OSException\<close> (armos.c) does nothing and answers FALSE, so the early return of
  \<^verbatim>\<open>ARMul_Abort\<close> is never taken. \<open>e2size\<close> is -4 in Thumb state.
\<close>

definition ARMul_OSException :: "u32 \<Rightarrow> u32 \<Rightarrow> 'd arm_state \<Rightarrow> bool" where
  "ARMul_OSException vector pc s = False"

definition abort_return :: "'d arm_state \<Rightarrow> u32" where
  "abort_return s =
     (if prog32Sig s then (if \<not> MODE32BIT s then R15PC s else Reg s 15)
      else R15PC s OR ECC s OR ER15INT s OR EMODE s)"

definition abort_enter :: "u32 \<Rightarrow> u32 \<Rightarrow> 'd arm_state \<Rightarrow> 'd arm_state" where
  "abort_enter vector temp s =
     (let insn = (if TFlag s then 2 else 4);
          esize = (if TFlag s then 0 else 4);
          e2size = (if TFlag s then - 4 else 0);
          m = (\<lambda>m32 m26. if prog32Sig s then m32 else m26)
      in if vector = ResetV then SETABORT INTBITS (m SVC32MODE SVC26MODE) 0 temp s
         else if vector = UndefinedInstrV then SETABORT IBIT (m UNDEF32MODE SVC26MODE) insn temp s
         else if vector = SWIV then SETABORT IBIT (m SVC32MODE SVC26MODE) insn temp s
         else if vector = PrefetchAbortV
         then SETABORT IBIT (m ABORT32MODE SVC26MODE) esize temp (s\<lparr>AbortAddr := 1\<rparr>)
         else if vector = DataAbortV then SETABORT IBIT (m ABORT32MODE SVC26MODE) e2size temp s
         else if vector = AddrExceptnV then SETABORT IBIT SVC26MODE insn temp s
         else if vector = IRQV then SETABORT IBIT (m IRQ32MODE IRQ26MODE) esize temp s
         else if vector = FIQV then SETABORT INTBITS (m FIQ32MODE FIQ26MODE) esize temp s
         else s)"

definition abort_target :: "u32 \<Rightarrow> 'd arm_state \<Rightarrow> u32" where
  "abort_target vector s =
     (let v1 = (if control (mmu s) AND CONTROL_VECTOR \<noteq> 0 then vector + 0xffff0000 else vector)
      in if vector_remap_flag s then v1 + vector_remap_addr s else v1)"

definition ARMul_Abort :: "u32 \<Rightarrow> 'd arm_state \<Rightarrow> 'd arm_state" where
  "ARMul_Abort vector s =
     (let s1 = s\<lparr>Aborted := 0\<rparr>
      in if ARMul_OSException vector (ARMul_GetPC s1) s1 then s1
         else
           (let s2 = abort_enter vector (abort_return s1) s1
            in if MODE32BIT s2 then ARMul_SetR15 (abort_target vector s2) s2
               else ARMul_SetR15 (R15CCINTMODE s2 OR vector) s2))"

definition ARMul_UndefInstr :: "u32 \<Rightarrow> 'd arm_state \<Rightarrow> 'd arm_state" where
  "ARMul_UndefInstr instr s = ARMul_Abort UndefinedInstrV s"

definition IntPending :: "'d arm_state \<Rightarrow> bool \<times> 'd arm_state" where
  "IntPending s =
     (if \<not> NresetSig s then (True, ARMul_Abort ResetV s)
      else if NfiqSig (io (bus s)) = 0 \<and> \<not> FFLAG s then (True, ARMul_Abort FIQV s)
      else if NirqSig (io (bus s)) = 0 \<and> \<not> IFLAG s then (True, ARMul_Abort IRQV s)
      else (False, s))"

subsection \<open>Cycles and events (armvirt.c, armsupp.c, armcopro.c)\<close>

definition ARMul_Icycles :: "u32 \<Rightarrow> 'd arm_state \<Rightarrow> 'd arm_state" where
  "ARMul_Icycles number s = s\<lparr>NumIcycles := NumIcycles s + number, abortSig := False\<rparr>"

definition ARMul_Ccycles :: "u32 \<Rightarrow> 'd arm_state \<Rightarrow> 'd arm_state" where
  "ARMul_Ccycles number s = s\<lparr>NumCcycles := NumCcycles s + number, abortSig := False\<rparr>"

definition ARMul_Time :: "'d arm_state \<Rightarrow> u32" where
  "ARMul_Time s =
     NumScycles s + NumNcycles s + NumIcycles s + NumCcycles s + NumFcycles s"

definition EVENTLISTSIZE :: u32 where
  "EVENTLISTSIZE = 1024"

primrec call_event :: "event_fn \<Rightarrow> 'd arm_state \<Rightarrow> 'd arm_state" where
  "call_event DoAFIQ s = s\<lparr>bus := bus s\<lparr>io := (io (bus s))\<lparr>NfiqSig := 0\<rparr>\<rparr>\<rparr>"
| "call_event DoAIRQ s = s\<lparr>bus := bus s\<lparr>io := (io (bus s))\<lparr>NirqSig := 0\<rparr>\<rparr>\<rparr>"

definition ARMul_ScheduleEvent :: "u32 \<Rightarrow> event_fn \<Rightarrow> 'd arm_state \<Rightarrow> 'd arm_state" where
  "ARMul_ScheduleEvent delay what s =
     (let now = (if EventSet s = 0 then ARMul_Time s else Now s);
          slot = unat ((now + delay) mod EVENTLISTSIZE)
      in s\<lparr>EventSet := EventSet s + 1, Now := now,
           EventPtr := (EventPtr s)(slot := what # EventPtr s slot)\<rparr>)"

definition envoke_slot :: "nat \<Rightarrow> 'd arm_state \<Rightarrow> 'd arm_state" where
  "envoke_slot i s =
     (let s1 = fold (\<lambda>f s. (call_event f s)\<lparr>EventSet := EventSet s - 1\<rparr>) (EventPtr s i) s
      in s1\<lparr>EventPtr := (EventPtr s1)(i := [])\<rparr>)"

definition EnvokeList :: "nat \<Rightarrow> nat \<Rightarrow> 'd arm_state \<Rightarrow> 'd arm_state" where
  "EnvokeList from to s = fold envoke_slot [from ..< Suc to] s"

definition ARMul_EnvokeEvent :: "'d arm_state \<Rightarrow> 'd arm_state" where
  "ARMul_EnvokeEvent s =
     (let since = unat (Now s);
          now = ARMul_Time s mod EVENTLISTSIZE;
          s1 = s\<lparr>Now := now\<rparr>
      in if since < unat now then EnvokeList since (unat now) s1
         else if since > unat now
         then EnvokeList 0 (unat now) (EnvokeList since (unat EVENTLISTSIZE - 1) s1)
         else s1)"

end
