(* ===== verification/Arm_Bank_Spec.thy ===== *)
theory Arm_Bank_Spec
  imports Arm_Supp
begin

text \<open>
  Register banks: mode switches (\<^verbatim>\<open>ARMul_SwitchMode\<close>) lose no register. \<open>reg_view s b i\<close> is
  register \<open>i\<close> as a mode of bank \<open>b\<close> sees it, whether it is in \<open>Reg\<close> or in \<open>RegBank\<close> now.
\<close>

subsection \<open>Registers of a bank\<close>

text \<open>
  The bank that holds register \<open>i\<close> for a mode of bank \<open>b\<close>: banks share registers 0 to 7
  and 15, all but the FIQ bank share 8 to 12.
\<close>

definition owner :: "nat \<Rightarrow> nat \<Rightarrow> nat" where
  "owner b i =
     (if i = 13 \<or> i = 14 then b
      else if 8 \<le> i \<and> i \<le> 12 \<and> b = FIQBANK then FIQBANK else USERBANK)"

definition reg_view :: "'d arm_state \<Rightarrow> nat \<Rightarrow> nat \<Rightarrow> u32" where
  "reg_view s b i =
     (if i < 8 \<or> i = 15 \<or> owner b i = owner (Bank s) i then Reg s i else RegBank s (owner b i) i)"

lemma bankofmode_values: "set bankofmode = {0, 1, 2, 3, 4, 5, 6}"
  by (simp add: bankofmode_def bank_numbers) auto

lemma bank_range: "ModeToBank m \<le> 6"
proof (cases "unat m < length bankofmode")
  case True
  then have "bankofmode ! unat m \<in> {0, 1, 2, 3, 4, 5, 6}"
    using nth_mem bankofmode_values by blast
  then show ?thesis using True by (auto simp: ModeToBank_def)
qed (simp add: ModeToBank_def bank_numbers)

lemma real_bank: "b < DUMMYBANK \<Longrightarrow> b \<in> {USERBANK, IRQBANK, SVCBANK, ABORTBANK, UNDEFBANK} \<or> b = FIQBANK"
  by (auto simp: bank_numbers)

lemma save_bank_shape: "b \<le> 6 \<Longrightarrow> save_bank b nb s = s\<lparr>RegBank := RegBank (save_bank b nb s)\<rparr>"
  using real_bank [of b] by (auto simp: save_bank_def Let_def bank_numbers)

lemma restore_bank_shape: "b \<le> 6 \<Longrightarrow> restore_bank ob b s = s\<lparr>Reg := Reg (restore_bank ob b s)\<rparr>"
  using real_bank [of b] by (auto simp: restore_bank_def Let_def bank_numbers)

lemma restore_keeps_banks: "b \<le> 6 \<Longrightarrow> RegBank (restore_bank ob b s) = RegBank s"
  using arg_cong [OF restore_bank_shape, of b RegBank ob s] by simp

lemma switch_shape:
  obtains r rb where "ARMul_SwitchMode old new s = s\<lparr>Bank := ModeToBank new, RegBank := rb, Reg := r\<rparr>"
proof (cases "ModeToBank old = ModeToBank new")
  case True
  have "ARMul_SwitchMode old new s = s\<lparr>Bank := ModeToBank new, RegBank := RegBank s, Reg := Reg s\<rparr>"
    using True by (simp add: ARMul_SwitchMode_def)
  then show thesis by (rule that)
next
  case False
  let ?t = "save_bank (ModeToBank old) (ModeToBank new) (s\<lparr>Bank := ModeToBank new\<rparr>)"
  have "ARMul_SwitchMode old new s = restore_bank (ModeToBank old) (ModeToBank new) ?t"
    using False by (simp add: ARMul_SwitchMode_def Let_def)
  also have "\<dots> = ?t\<lparr>Reg := Reg (restore_bank (ModeToBank old) (ModeToBank new) ?t)\<rparr>"
    by (rule restore_bank_shape [OF bank_range])
  also have "?t = s\<lparr>Bank := ModeToBank new, RegBank := RegBank ?t\<rparr>"
    by (rule save_bank_shape [OF bank_range])
  finally show thesis by (rule that)
qed

lemma switch_mode_fields [simp]:
  "NumInstrs (ARMul_SwitchMode old new s) = NumInstrs s"
  "Bank (ARMul_SwitchMode old new s) = ModeToBank new"
  "Mode (ARMul_SwitchMode old new s) = Mode s" "Cpsr (ARMul_SwitchMode old new s) = Cpsr s"
  "Spsr (ARMul_SwitchMode old new s) = Spsr s" "Emulate (ARMul_SwitchMode old new s) = Emulate s"
  "prog32Sig (ARMul_SwitchMode old new s) = prog32Sig s" "IFFlags (ARMul_SwitchMode old new s) = IFFlags s"
  "mmu (ARMul_SwitchMode old new s) = mmu s" "NextInstr (ARMul_SwitchMode old new s) = NextInstr s"
  "Aborted (ARMul_SwitchMode old new s) = Aborted s" "TFlag (ARMul_SwitchMode old new s) = TFlag s"
  "vector_remap_flag (ARMul_SwitchMode old new s) = vector_remap_flag s"
  "vector_remap_addr (ARMul_SwitchMode old new s) = vector_remap_addr s"
  "isize (ARMul_SwitchMode old new s) = isize s" "bus (ARMul_SwitchMode old new s) = bus s"
  by (rule switch_shape [of old new s]; simp)+

lemma copy_regs_cases:
  "copy_regs 13 15 f g i = (if i = 13 \<or> i = 14 then f i else g i)"
  "copy_regs 8 13 f g i = (if 8 \<le> i \<and> i \<le> 12 then f i else g i)"
  "copy_regs 8 15 f g i = (if i = 13 \<or> i = 14 then f i else if 8 \<le> i \<and> i \<le> 12 then f i else g i)"
  by (auto simp: copy_regs_def)

lemma fiq_apart: "FIQBANK \<notin> {USERBANK, IRQBANK, SVCBANK, ABORTBANK, UNDEFBANK}"
  by (simp add: bank_numbers)

lemma save_bank_regs:
  assumes "ob \<noteq> nb" "ob < DUMMYBANK"
  shows "Reg (save_bank ob nb s) = Reg s"
    and "RegBank (save_bank ob nb s) b i =
      (if b = ob \<and> (i = 13 \<or> i = 14) then Reg s i
       else if 8 \<le> i \<and> i \<le> 12 \<and> ob = FIQBANK \<and> b = FIQBANK then Reg s i
       else if 8 \<le> i \<and> i \<le> 12 \<and> nb = FIQBANK \<and> b = USERBANK then Reg s i
       else RegBank s b i)"
proof -
  consider "ob = FIQBANK" "save_bank ob nb s =
        s\<lparr>RegBank := (RegBank s)(FIQBANK := copy_regs 8 15 (Reg s) (RegBank s FIQBANK))\<rparr>"
    | "ob \<noteq> FIQBANK" "save_bank ob nb s =
        (let rb = (if nb = FIQBANK
                   then (RegBank s)(USERBANK := copy_regs 8 13 (Reg s) (RegBank s USERBANK))
                   else RegBank s)
         in s\<lparr>RegBank := rb(ob := copy_regs 13 15 (Reg s) (rb ob))\<rparr>)"
  proof (cases "ob = FIQBANK")
    case True
    then have "ob \<notin> {USERBANK, IRQBANK, SVCBANK, ABORTBANK, UNDEFBANK}" using fiq_apart by (simp only: not_False_eq_True)
    then show ?thesis by (intro that(1) True, unfold save_bank_def) (simp only: if_False True if_True refl)
  next
    case False
    then have "ob \<in> {USERBANK, IRQBANK, SVCBANK, ABORTBANK, UNDEFBANK}" using real_bank [OF assms(2)] by blast
    then show ?thesis by (intro that(2) False, unfold save_bank_def) (rule if_P)
  qed
  then have "Reg (save_bank ob nb s) = Reg s \<and> RegBank (save_bank ob nb s) b i =
      (if b = ob \<and> (i = 13 \<or> i = 14) then Reg s i
       else if 8 \<le> i \<and> i \<le> 12 \<and> ob = FIQBANK \<and> b = FIQBANK then Reg s i
       else if 8 \<le> i \<and> i \<le> 12 \<and> nb = FIQBANK \<and> b = USERBANK then Reg s i
       else RegBank s b i)"
    by cases (use assms(1) in \<open>simp_all add: copy_regs_cases Let_def\<close>)
  then show "Reg (save_bank ob nb s) = Reg s"
    "RegBank (save_bank ob nb s) b i =
      (if b = ob \<and> (i = 13 \<or> i = 14) then Reg s i
       else if 8 \<le> i \<and> i \<le> 12 \<and> ob = FIQBANK \<and> b = FIQBANK then Reg s i
       else if 8 \<le> i \<and> i \<le> 12 \<and> nb = FIQBANK \<and> b = USERBANK then Reg s i
       else RegBank s b i)" by blast+
qed

lemma switch_regs:
  assumes "ob \<noteq> nb" "ob < DUMMYBANK" "nb < DUMMYBANK"
  shows "Reg (restore_bank ob nb (save_bank ob nb s)) i =
      (if i = 13 \<or> i = 14 then RegBank s nb i
       else if 8 \<le> i \<and> i \<le> 12 \<and> nb = FIQBANK then RegBank s FIQBANK i
       else if 8 \<le> i \<and> i \<le> 12 \<and> ob = FIQBANK then RegBank s USERBANK i else Reg s i)"
    and "RegBank (restore_bank ob nb (save_bank ob nb s)) = RegBank (save_bank ob nb s)"
proof -
  show "RegBank (restore_bank ob nb (save_bank ob nb s)) = RegBank (save_bank ob nb s)"
    using assms(3) by (simp add: restore_keeps_banks DUMMYBANK_def)
  note o = save_bank_regs [OF assms(1,2)]
  show "Reg (restore_bank ob nb (save_bank ob nb s)) i =
      (if i = 13 \<or> i = 14 then RegBank s nb i
       else if 8 \<le> i \<and> i \<le> 12 \<and> nb = FIQBANK then RegBank s FIQBANK i
       else if 8 \<le> i \<and> i \<le> 12 \<and> ob = FIQBANK then RegBank s USERBANK i else Reg s i)"
  proof (cases "nb = FIQBANK")
    case True
    then show ?thesis using assms(1,2) fiq_apart by (simp add: restore_bank_def copy_regs_cases save_bank_regs)
  next
    case False
    then have m: "nb \<in> {USERBANK, IRQBANK, SVCBANK, ABORTBANK, UNDEFBANK}" using real_bank [OF assms(3)] by blast
    have "FIQBANK \<noteq> USERBANK" by (simp add: bank_numbers)
    then show ?thesis
      unfolding restore_bank_def if_P [OF m] Let_def using False assms
      by (simp add: copy_regs_cases save_bank_regs)
  qed
qed

lemma switch_view:
  assumes "Bank s = ModeToBank old" "ModeToBank old < DUMMYBANK" "ModeToBank new < DUMMYBANK"
  shows "reg_view (ARMul_SwitchMode old new s) b i = reg_view s b i"
proof (cases "ModeToBank old = ModeToBank new")
  case True
  then show ?thesis using assms(1) by (simp add: ARMul_SwitchMode_def reg_view_def)
next
  case False
  let ?t = "s\<lparr>Bank := ModeToBank new\<rparr>"
  have sw: "ARMul_SwitchMode old new s =
      restore_bank (ModeToBank old) (ModeToBank new) (save_bank (ModeToBank old) (ModeToBank new) ?t)"
    using False by (simp add: ARMul_SwitchMode_def Let_def)
  have b: "Bank (restore_bank (ModeToBank old) (ModeToBank new) (save_bank (ModeToBank old) (ModeToBank new) ?t)) = ModeToBank new"
    unfolding sw [symmetric] by simp
  have fiq: "FIQBANK \<noteq> USERBANK" "FIQBANK < DUMMYBANK" "USERBANK < DUMMYBANK"
    by (simp_all add: bank_numbers)
  show ?thesis
    using False assms fiq
    unfolding sw reg_view_def owner_def b
    by (auto simp: switch_regs save_bank_regs)
qed

lemma reg_view_current: "i < 16 \<Longrightarrow> reg_view s (Bank s) i = Reg s i"
  by (simp add: reg_view_def)

end
