(* ===== verification/Mmu_Tlb.thy ===== *)
theory Mmu_Tlb
  imports Arm_Supp
begin

text \<open>
  Address translation and permission checks, arch_arm/common/mmu/tlb.c: the search of the
  TLB, the walk of the page tables in memory, round-robin replacement, invalidation, and
  the domain and access-permission checks. A \<^verbatim>\<open>tlb_t *\<close> argument (the instruction or the
  data TLB) is passed and returned; the entry pointer that \<^verbatim>\<open>translate\<close> yields is the entry.
\<close>

subsection \<open>Definitions (mmu/tlb.h, mmu/tlb.c)\<close>

primrec tlb_masks :: "tlb_mapping \<Rightarrow> u32" where
  "tlb_masks TLB_INVALID = 0x00000000"
| "tlb_masks TLB_SMALLPAGE = 0xFFFFF000"
| "tlb_masks TLB_LARGEPAGE = 0xFFFF0000"
| "tlb_masks TLB_SECTION = 0xFFF00000"
| "tlb_masks TLB_ESMALLPAGE = 0xFFFFF000"
| "tlb_masks TLB_TINYPAGE = 0xFFFFFC00"

definition tlb_c_flag :: "tlb_entry \<Rightarrow> bool" where
  "tlb_c_flag e \<longleftrightarrow> tlb_perms e AND 0x8 \<noteq> 0"

definition tlb_b_flag :: "tlb_entry \<Rightarrow> bool" where
  "tlb_b_flag e \<longleftrightarrow> tlb_perms e AND 0x4 \<noteq> 0"

definition tlb_va_to_pa :: "tlb_entry \<Rightarrow> u32 \<Rightarrow> u32" where
  "tlb_va_to_pa e va =
     (let m = tlb_masks (tlb_kind e) in (tlb_phys_addr e AND m) OR (va AND NOT m))"

definition check_perms :: "u32 \<Rightarrow> bool \<Rightarrow> 'd arm_state \<Rightarrow> bool" where
  "check_perms ap rd s =
     (let sy = (control (mmu s) AND CONTROL_SYSTEM \<noteq> 0);
          ro = (control (mmu s) AND CONTROL_ROM \<noteq> 0);
          user = (Mode s = USER32MODE \<or> Mode s = USER26MODE \<or> Mode s = SYSTEM32MODE)
      in if ap = 0 then rd \<and> ((sy \<and> \<not> user) \<or> ro)
         else if ap = 1 then \<not> user
         else if ap = 2 then rd \<or> \<not> user
         else if ap = 3 then True
         else False)"

definition set_last_domain :: "u32 \<Rightarrow> 'd arm_state \<Rightarrow> 'd arm_state" where
  "set_last_domain d s = s\<lparr>mmu := (mmu s)\<lparr>last_domain := d\<rparr>\<rparr>"

primrec subpage :: "tlb_mapping \<Rightarrow> u32 \<Rightarrow> u32 option" where
  "subpage TLB_ESMALLPAGE va = Some 0"
| "subpage TLB_TINYPAGE va = Some 0"
| "subpage TLB_SMALLPAGE va = Some (drop_bit 10 va AND 3)"
| "subpage TLB_LARGEPAGE va = Some (drop_bit 14 va AND 3)"
| "subpage TLB_SECTION va = Some 3"
| "subpage TLB_INVALID va = None"

definition check_access :: "u32 \<Rightarrow> tlb_entry \<Rightarrow> bool \<Rightarrow> 'd arm_state \<Rightarrow> fault \<times> 'd arm_state" where
  "check_access virt_addr e rd s0 =
     (let s = set_last_domain (tlb_domain e) s0;
          access = drop_bit (unat (tlb_domain e * 2)) (domain_access_control (mmu s)) AND 3
      in if access = 0 \<or> access = 2 then (SECTION_DOMAIN_FAULT, s)
         else if access = 1 then
           (case subpage (tlb_kind e) virt_addr of
              None \<Rightarrow> (NO_FAULT, arm_halt Assert_failed s)
            | Some sp \<Rightarrow>
                (let ap = drop_bit (unat (sp * 2 + 4)) (tlb_perms e) AND 3
                 in if \<not> check_perms ap rd s then
                      (if tlb_kind e = TLB_SECTION then SECTION_PERMISSION_FAULT
                       else SUBPAGE_PERMISSION_FAULT, s)
                    else (NO_FAULT, s)))
         else (NO_FAULT, s))"

text \<open>\<^verbatim>\<open>mmu_tlb_search\<close>: the first valid entry whose page holds the address.\<close>

definition tlb_match :: "u32 \<Rightarrow> tlb_entry \<Rightarrow> bool" where
  "tlb_match va e \<longleftrightarrow>
     tlb_kind e \<noteq> TLB_INVALID \<and>
     va AND tlb_masks (tlb_kind e) = tlb_virt_addr e AND tlb_masks (tlb_kind e)"

fun tlb_scan :: "u32 \<Rightarrow> nat \<Rightarrow> tlb_entry list \<Rightarrow> nat option" where
  "tlb_scan va i [] = None"
| "tlb_scan va i (e # es) = (if tlb_match va e then Some i else tlb_scan va (Suc i) es)"

definition mmu_tlb_search :: "tlb \<Rightarrow> u32 \<Rightarrow> nat option" where
  "mmu_tlb_search t va = tlb_scan va 0 (take (tlb_num t) (tlb_entrys t))"

text \<open>A word from the page tables, by \<^verbatim>\<open>bus_read (32, ...)\<close> into a local variable.\<close>

definition read_desc :: "u32 \<Rightarrow> 'd arm_state \<Rightarrow> u32 \<times> 'd arm_state" where
  "read_desc a s = (case bus_read 32 a (junk s) (bus s) of (v, b) \<Rightarrow> (v, s\<lparr>bus := b\<rparr>))"

definition l1_addr :: "u32 \<Rightarrow> 'd arm_state \<Rightarrow> u32" where
  "l1_addr va s =
     ((translation_table_base (mmu s) AND 0xFFFFC000) OR drop_bit 18 va) AND NOT 3"

definition fine_l2_addr :: "u32 \<Rightarrow> u32 \<Rightarrow> u32" where
  "fine_l2_addr l1desc va = ((l1desc AND 0xFFFFF000) OR drop_bit 8 (va AND 0x000FFC00)) AND NOT 3"

definition coarse_l2_addr :: "u32 \<Rightarrow> u32 \<Rightarrow> u32" where
  "coarse_l2_addr l1desc va =
     ((l1desc AND 0xFFFFFC00) OR drop_bit 10 (va AND 0x000FF000)) AND NOT 3"

definition page_entry :: "u32 \<Rightarrow> u32 \<Rightarrow> u32 \<Rightarrow> tlb_mapping \<Rightarrow> tlb_entry" where
  "page_entry va l1desc l2desc k =
     \<lparr>tlb_virt_addr = va AND tlb_masks k, tlb_phys_addr = l2desc AND tlb_masks k,
      tlb_perms = l2desc AND 0x00000FFC, tlb_domain = drop_bit 5 l1desc AND 0xF, tlb_kind = k\<rparr>"

definition section_entry :: "u32 \<Rightarrow> u32 \<Rightarrow> tlb_entry" where
  "section_entry va l1desc =
     \<lparr>tlb_virt_addr = va AND tlb_masks TLB_SECTION, tlb_phys_addr = l1desc AND tlb_masks TLB_SECTION,
      tlb_perms = l1desc AND 0x00000C0C, tlb_domain = drop_bit 5 l1desc AND 0xF,
      tlb_kind = TLB_SECTION\<rparr>"

text \<open>The walk: a fault, or the entry that will be put into the TLB.\<close>

definition table_walk :: "u32 \<Rightarrow> 'd arm_state \<Rightarrow> (fault + tlb_entry) \<times> 'd arm_state" where
  "table_walk va s =
     (case read_desc (l1_addr va s) s of
        (l1desc, s1) \<Rightarrow>
          (let dom = drop_bit 5 l1desc AND 0xF
           in if l1desc AND 3 = 0 then (Inl PAGE_TRANSLATION_FAULT, s1)
              else if l1desc AND 3 = 3 then
                (case read_desc (fine_l2_addr l1desc va) s1 of
                   (l2desc, s2) \<Rightarrow>
                     if l2desc AND 3 = 0
                     then (Inl PAGE_TRANSLATION_FAULT, set_last_domain dom s2)
                     else if l2desc AND 3 = 3
                     then (Inr (page_entry va l1desc l2desc TLB_TINYPAGE), s2)
                     else if l2desc AND 3 = 1
                     then (Inr (page_entry va l1desc l2desc TLB_LARGEPAGE), s2)
                     else (Inr (page_entry va l1desc l2desc TLB_SMALLPAGE), s2))
              else if l1desc AND 3 = 1 then
                (case read_desc (coarse_l2_addr l1desc va) s1 of
                   (l2desc, s2) \<Rightarrow>
                     if l2desc AND 3 = 0
                     then (Inl PAGE_TRANSLATION_FAULT, set_last_domain dom s2)
                     else if l2desc AND 3 = 3 then
                       (if \<not> is_XScale s2
                        then (Inl PAGE_TRANSLATION_FAULT, set_last_domain dom s2)
                        else (Inr (page_entry va l1desc l2desc TLB_ESMALLPAGE), s2))
                     else if l2desc AND 3 = 1
                     then (Inr (page_entry va l1desc l2desc TLB_LARGEPAGE), s2)
                     else (Inr (page_entry va l1desc l2desc TLB_SMALLPAGE), s2))
              else (Inr (section_entry va l1desc), s1)))"

definition tlb_place :: "tlb_entry \<Rightarrow> tlb \<Rightarrow> tlb" where
  "tlb_place e t =
     t\<lparr>tlb_entrys := (tlb_entrys t)[tlb_cycle t := e],
       tlb_cycle := (tlb_cycle t + 1) mod tlb_num t\<rparr>"

definition translate :: "u32 \<Rightarrow> tlb \<Rightarrow> 'd arm_state \<Rightarrow> (fault + tlb_entry) \<times> tlb \<times> 'd arm_state" where
  "translate va t s =
     (case mmu_tlb_search t va of
        Some i \<Rightarrow>
          (let e = tlb_entrys t ! i in (Inr e, t, set_last_domain (tlb_domain e) s))
      | None \<Rightarrow>
          (case table_walk va s of
             (Inl f, s1) \<Rightarrow> (Inl f, t, s1)
           | (Inr e, s1) \<Rightarrow>
               if tlb_cycle t < length (tlb_entrys t) \<and> tlb_num t \<noteq> 0
               then (Inr e, tlb_place e t, set_last_domain (tlb_domain e) s1)
               else (Inr e, t, arm_halt Out_of_bounds s1)))"

definition mmu_tlb_init :: "tlb_entry \<Rightarrow> nat \<Rightarrow> tlb" where
  "mmu_tlb_init e num =
     \<lparr>tlb_num = num, tlb_cycle = 0, tlb_entrys = replicate num (e\<lparr>tlb_kind := TLB_INVALID\<rparr>)\<rparr>"

definition mmu_tlb_invalidate_all :: "tlb \<Rightarrow> tlb" where
  "mmu_tlb_invalidate_all t =
     t\<lparr>tlb_entrys := map (\<lambda>e. e\<lparr>tlb_kind := TLB_INVALID\<rparr>) (take (tlb_num t) (tlb_entrys t))
                     @ drop (tlb_num t) (tlb_entrys t),
       tlb_cycle := 0\<rparr>"

definition mmu_tlb_invalidate_entry :: "u32 \<Rightarrow> tlb \<Rightarrow> tlb" where
  "mmu_tlb_invalidate_entry va t =
     (case mmu_tlb_search t va of
        None \<Rightarrow> t
      | Some i \<Rightarrow>
          t\<lparr>tlb_entrys := (tlb_entrys t)[i := (tlb_entrys t ! i)\<lparr>tlb_kind := TLB_INVALID\<rparr>]\<rparr>)"

end
