(* ===== verification/Mmu_Arm920t.thy ===== *)
theory Mmu_Arm920t
  imports Mmu_Tlb
begin

text \<open>
  The ARM920T memory management unit, arch_arm/common/mmu/arm920t_mmu.c: instruction
  fetch, data reads and writes through TLB, caches and write buffer, and the coprocessor 15
  registers. The operations return a fault, the value that \<^verbatim>\<open>*data\<close> holds afterwards
  (\<open>junk\<close> when it was not written) and the state. A data type other than byte, halfword
  and word does not exist in the model, so the branches that print and exit for it are not
  there. The message functions print nothing.
\<close>

subsection \<open>Helpers\<close>

datatype data_type = ARM_BYTE_TYPE | ARM_HALFWORD_TYPE | ARM_WORD_TYPE

definition MMU_Enabled :: "'d arm_state \<Rightarrow> bool" where
  "MMU_Enabled s \<longleftrightarrow> control (mmu s) AND CONTROL_MMU \<noteq> 0"

definition MMU_Aligned :: "'d arm_state \<Rightarrow> bool" where
  "MMU_Aligned s \<longleftrightarrow> control (mmu s) AND CONTROL_ALIGN_FAULT \<noteq> 0"

definition MMU_DCacheEnabled :: "'d arm_state \<Rightarrow> bool" where
  "MMU_DCacheEnabled s \<longleftrightarrow> control (mmu s) AND CONTROL_DATA_CACHE \<noteq> 0"

definition MMU_WBEnabled :: "'d arm_state \<Rightarrow> bool" where
  "MMU_WBEnabled s \<longleftrightarrow> control (mmu s) AND CONTROL_WRITE_BUFFER \<noteq> 0"

definition mmu_pid_va_map :: "u32 \<Rightarrow> 'd arm_state \<Rightarrow> u32" where
  "mmu_pid_va_map va s =
     (if va AND 0xfe000000 \<noteq> 0 then va else va OR (process_id (mmu s) AND 0xfe000000))"

text \<open>Reading and writing the bus from the processor's state.\<close>

definition cpu_read :: "nat \<Rightarrow> u32 \<Rightarrow> 'd arm_state \<Rightarrow> u32 \<times> 'd arm_state" where
  "cpu_read sz a s = (case bus_read sz a (junk s) (bus s) of (v, b) \<Rightarrow> (v, s\<lparr>bus := b\<rparr>))"

definition cpu_write :: "nat \<Rightarrow> u32 \<Rightarrow> u32 \<Rightarrow> 'd arm_state \<Rightarrow> 'd arm_state" where
  "cpu_write sz a v s = s\<lparr>bus := bus_write sz a v (bus s)\<rparr>"

text \<open>Running an operation of a cache or of the write buffer inside the state.\<close>

definition on_i_cache :: "(cache \<Rightarrow> 'd bus \<Rightarrow> cache \<times> 'd bus) \<Rightarrow> 'd arm_state \<Rightarrow> 'd arm_state" where
  "on_i_cache f s =
     (case f (i_cache (mmu s)) (bus s) of (c, b) \<Rightarrow> s\<lparr>mmu := (mmu s)\<lparr>i_cache := c\<rparr>, bus := b\<rparr>)"

definition on_d_cache :: "(cache \<Rightarrow> 'd bus \<Rightarrow> cache \<times> 'd bus) \<Rightarrow> 'd arm_state \<Rightarrow> 'd arm_state" where
  "on_d_cache f s =
     (case f (d_cache (mmu s)) (bus s) of (c, b) \<Rightarrow> s\<lparr>mmu := (mmu s)\<lparr>d_cache := c\<rparr>, bus := b\<rparr>)"

definition on_wb :: "(wb \<Rightarrow> 'd bus \<Rightarrow> wb \<times> 'd bus) \<Rightarrow> 'd arm_state \<Rightarrow> 'd arm_state" where
  "on_wb f s =
     (case f (wbuf (mmu s)) (bus s) of (w, b) \<Rightarrow> s\<lparr>mmu := (mmu s)\<lparr>wbuf := w\<rparr>, bus := b\<rparr>)"

definition translate_i :: "u32 \<Rightarrow> 'd arm_state \<Rightarrow> (fault + tlb_entry) \<times> 'd arm_state" where
  "translate_i va s =
     (case translate va (i_tlb (mmu s)) s of
        (r, t, s1) \<Rightarrow> (r, s1\<lparr>mmu := (mmu s1)\<lparr>i_tlb := t\<rparr>\<rparr>))"

definition translate_d :: "u32 \<Rightarrow> 'd arm_state \<Rightarrow> (fault + tlb_entry) \<times> 'd arm_state" where
  "translate_d va s =
     (case translate va (d_tlb (mmu s)) s of
        (r, t, s1) \<Rightarrow> (r, s1\<lparr>mmu := (mmu s1)\<lparr>d_tlb := t\<rparr>\<rparr>))"

text \<open>
  The four checks that precede an access with the MMU on: the translation, then the access
  check with the entry found.
\<close>

definition checked ::
  "(u32 \<Rightarrow> 'd arm_state \<Rightarrow> (fault + tlb_entry) \<times> 'd arm_state) \<Rightarrow> u32 \<Rightarrow> bool \<Rightarrow>
   'd arm_state \<Rightarrow> (fault + tlb_entry) \<times> 'd arm_state" where
  "checked tr va rd s =
     (case tr va s of
        (Inl f, s1) \<Rightarrow> (Inl f, s1)
      | (Inr e, s1) \<Rightarrow>
          (case check_access va e rd s1 of
             (f, s2) \<Rightarrow> if f \<noteq> NO_FAULT then (Inl f, s2) else (Inr e, s2)))"

subsection \<open>Initial state\<close>

definition arm920t_mmu_init :: "tlb_entry \<Rightarrow> cache_line \<Rightarrow> wb_entry \<Rightarrow> mmu_state \<Rightarrow> mmu_state" where
  "arm920t_mmu_init je jl jw m =
     m\<lparr>control := 0x70, translation_table_base := 0xDEADC0DE,
       domain_access_control := 0xDEADC0DE, fault_status := 0, fault_address := 0,
       process_id := 0,
       i_tlb := mmu_tlb_init je 64,
       i_cache := mmu_cache_init jl 32 64 8 CACHE_WRITE_BACK,
       d_tlb := mmu_tlb_init je 64,
       d_cache := mmu_cache_init jl 32 64 8 CACHE_WRITE_BACK,
       wbuf := mmu_wb_init jw 8 8\<rparr>"

subsection \<open>Instruction fetch\<close>

definition fetch_word :: "u32 \<Rightarrow> u32 \<Rightarrow> bool \<Rightarrow> 'd arm_state \<Rightarrow> u32 \<times> 'd arm_state" where
  "fetch_word va pa c s =
     (let ic = i_cache (mmu s)
      in case mmu_cache_search ic va of
           Some p \<Rightarrow> (line_data (get_line ic p) ! va_cache_index va ic, s)
         | None \<Rightarrow>
             if c then
               (case mmu_cache_alloc va pa ic (bus s) of
                  (p, ic1, b) \<Rightarrow>
                    (line_data (get_line ic1 p) ! va_cache_index va ic1,
                     s\<lparr>mmu := (mmu s)\<lparr>i_cache := ic1\<rparr>, bus := b\<rparr>))
             else cpu_read 32 pa s)"

definition arm920t_mmu_load_instr :: "u32 \<Rightarrow> 'd arm_state \<Rightarrow> fault \<times> u32 \<times> 'd arm_state" where
  "arm920t_mmu_load_instr va0 s =
     (let va1 = mmu_pid_va_map va0 s
      in if MMU_Enabled s then
           (if va1 AND 3 \<noteq> 0 \<and> MMU_Aligned s then (ALIGNMENT_FAULT, junk s, s)
            else
              (let va = va1 AND NOT 3
               in case checked translate_i va True s of
                    (Inl f, s1) \<Rightarrow> (f, junk s, s1)
                  | (Inr e, s1) \<Rightarrow>
                      (NO_FAULT, fetch_word va (tlb_va_to_pa e va) (tlb_c_flag e) s1)))
         else (NO_FAULT, fetch_word va1 va1 True s))"

subsection \<open>Data reads\<close>

text \<open>The bits of a cached word that a byte or halfword access selects.\<close>

primrec datatrans :: "data_type \<Rightarrow> bool \<Rightarrow> u32 \<Rightarrow> u32 \<Rightarrow> u32" where
  "datatrans ARM_HALFWORD_TYPE be real_va w = drop_bit (unat (half_offset be real_va)) w AND 0xffff"
| "datatrans ARM_BYTE_TYPE be real_va w = drop_bit (unat (byte_offset be real_va)) w AND 0xff"
| "datatrans ARM_WORD_TYPE be real_va w = w"

primrec mem_read_typed :: "data_type \<Rightarrow> u32 \<Rightarrow> 'd arm_state \<Rightarrow> u32 \<times> 'd arm_state" where
  "mem_read_typed ARM_BYTE_TYPE a s = cpu_read 8 a s"
| "mem_read_typed ARM_HALFWORD_TYPE a s = cpu_read 16 a s"
| "mem_read_typed ARM_WORD_TYPE a s = cpu_read 32 a s"

primrec mem_write_typed :: "data_type \<Rightarrow> u32 \<Rightarrow> u32 \<Rightarrow> 'd arm_state \<Rightarrow> 'd arm_state" where
  "mem_write_typed ARM_BYTE_TYPE a v s = cpu_write 8 a v s"
| "mem_write_typed ARM_HALFWORD_TYPE a v s = cpu_write 16 a v s"
| "mem_write_typed ARM_WORD_TYPE a v s = cpu_write 32 a v s"

text \<open>The physical address of a narrow access: the page's word and the low address bits.\<close>

primrec narrow_pa :: "data_type \<Rightarrow> u32 \<Rightarrow> u32 \<Rightarrow> u32" where
  "narrow_pa ARM_BYTE_TYPE pa real_va = pa OR (real_va AND 3)"
| "narrow_pa ARM_HALFWORD_TYPE pa real_va = pa OR (real_va AND 2)"
| "narrow_pa ARM_WORD_TYPE pa real_va = pa"

definition misaligned :: "data_type \<Rightarrow> u32 \<Rightarrow> 'd arm_state \<Rightarrow> bool" where
  "misaligned dt va s \<longleftrightarrow>
     (va AND 3 \<noteq> 0 \<and> dt = ARM_WORD_TYPE \<and> MMU_Aligned s) \<or>
     (va AND 1 \<noteq> 0 \<and> dt = ARM_HALFWORD_TYPE \<and> MMU_Aligned s)"

text \<open>After the checks: the cache, the flush window, the buffer, and cache fill or memory.\<close>

definition read_translated ::
  "data_type \<Rightarrow> tlb_entry \<Rightarrow> u32 \<Rightarrow> u32 \<Rightarrow> 'd arm_state \<Rightarrow> u32 \<times> 'd arm_state" where
  "read_translated dt e va real_va s =
     (let dc = d_cache (mmu s)
      in case mmu_cache_search dc va of
           Some p \<Rightarrow>
             (datatrans dt (bigendSig s) real_va
                (line_data (get_line dc p) ! va_cache_index va dc), s)
         | None \<Rightarrow>
             (let pa = tlb_va_to_pa e va
              in if 0xe0000000 \<le> pa \<and> pa < 0xe8000000 then
                   (junk s, if tlb_c_flag e then on_d_cache (mmu_cache_soft_flush pa) s else s)
                 else
                   (let s1 = (if tlb_b_flag e then on_wb mmu_wb_drain_all s else s)
                    in if tlb_c_flag e \<and> MMU_DCacheEnabled s1 then
                         (case mmu_cache_alloc va pa (d_cache (mmu s1)) (bus s1) of
                            (p, dc1, b) \<Rightarrow>
                              (datatrans dt (bigendSig s) real_va
                                 (line_data (get_line dc1 p) ! va_cache_index va dc1),
                               s1\<lparr>mmu := (mmu s1)\<lparr>d_cache := dc1\<rparr>, bus := b\<rparr>))
                       else mem_read_typed dt (narrow_pa dt pa real_va) s1)))"

definition arm920t_mmu_read :: "data_type \<Rightarrow> u32 \<Rightarrow> 'd arm_state \<Rightarrow> fault \<times> u32 \<times> 'd arm_state" where
  "arm920t_mmu_read dt va0 s =
     (let real_va = mmu_pid_va_map va0 s
      in if \<not> MMU_Enabled s then (NO_FAULT, mem_read_typed dt real_va s)
         else if misaligned dt real_va s then (ALIGNMENT_FAULT, junk s, s)
         else
           (let va = real_va AND NOT 3
            in case checked translate_d va True s of
                 (Inl f, s1) \<Rightarrow> (f, junk s, s1)
               | (Inr e, s1) \<Rightarrow> (NO_FAULT, read_translated dt e va real_va s1)))"

subsection \<open>Data writes\<close>

definition update_cache ::
  "data_type \<Rightarrow> u32 \<Rightarrow> u32 \<Rightarrow> u32 \<Rightarrow> bool \<Rightarrow> nat \<times> nat \<Rightarrow> cache \<Rightarrow> cache" where
  "update_cache dt va v real_va be p c =
     (let index = va_cache_index va c;
          l = get_line c p;
          temp = line_data l ! index;
          w = (case dt of
                 ARM_WORD_TYPE \<Rightarrow> v
               | ARM_HALFWORD_TYPE \<Rightarrow>
                   (let n = unat (half_offset be real_va)
                    in (temp AND NOT (push_bit n 0xffff)) OR push_bit n (v AND 0xffff))
               | ARM_BYTE_TYPE \<Rightarrow>
                   (let n = unat (byte_offset be real_va)
                    in (temp AND NOT (push_bit n 0xff)) OR push_bit n (v AND 0xff)));
          half = (if index < unat (drop_bit 3 (cache_width c)) then TAG_FIRST_HALF_DIRTY
                  else TAG_LAST_HALF_DIRTY)
      in set_line p (l\<lparr>line_data := (line_data l)[index := w], line_tag := line_tag l OR half\<rparr>) c)"

text \<open>The first \<open>n\<close> bytes of a word in the memory of the little-endian host.\<close>

definition host_bytes :: "nat \<Rightarrow> u32 \<Rightarrow> u8 list" where
  "host_bytes n v = map (\<lambda>i. ucast (drop_bit (8 * i) v)) [0 ..< n]"

primrec data_bytes :: "data_type \<Rightarrow> nat" where
  "data_bytes ARM_BYTE_TYPE = 1"
| "data_bytes ARM_HALFWORD_TYPE = 2"
| "data_bytes ARM_WORD_TYPE = 4"

text \<open>
  A write that misses the data cache. With the entry's B flag set and the write buffer
  off, a byte is written by \<^verbatim>\<open>bus_write (32, ...)\<close>, as the code has it.
\<close>

definition write_uncached ::
  "data_type \<Rightarrow> tlb_entry \<Rightarrow> u32 \<Rightarrow> u32 \<Rightarrow> u32 \<Rightarrow> 'd arm_state \<Rightarrow> 'd arm_state" where
  "write_uncached dt e va real_va v s =
     (let a = narrow_pa dt (tlb_va_to_pa e va) real_va
      in if tlb_b_flag e then
           (if MMU_WBEnabled s
            then on_wb (mmu_wb_write_bytes a (host_bytes (data_bytes dt) v)) s
            else if dt = ARM_BYTE_TYPE then cpu_write 32 a v s
            else mem_write_typed dt a v s)
         else mem_write_typed dt a v (on_wb mmu_wb_drain_all s))"

definition write_translated ::
  "data_type \<Rightarrow> tlb_entry \<Rightarrow> u32 \<Rightarrow> u32 \<Rightarrow> u32 \<Rightarrow> 'd arm_state \<Rightarrow> 'd arm_state" where
  "write_translated dt e va real_va v s =
     (let dc = d_cache (mmu s)
      in case mmu_cache_search dc va of
           Some p \<Rightarrow>
             s\<lparr>mmu := (mmu s)\<lparr>d_cache := update_cache dt va v real_va (bigendSig s) p dc\<rparr>\<rparr>
         | None \<Rightarrow> write_uncached dt e va real_va v s)"

text \<open>The instruction cache is updated before any check.\<close>

definition write_i_cache :: "data_type \<Rightarrow> u32 \<Rightarrow> u32 \<Rightarrow> 'd arm_state \<Rightarrow> 'd arm_state" where
  "write_i_cache dt va v s =
     (let ic = i_cache (mmu s)
      in case mmu_cache_search ic va of
           Some p \<Rightarrow> s\<lparr>mmu := (mmu s)\<lparr>i_cache := update_cache dt va v va (bigendSig s) p ic\<rparr>\<rparr>
         | None \<Rightarrow> s)"

definition arm920t_mmu_write :: "data_type \<Rightarrow> u32 \<Rightarrow> u32 \<Rightarrow> 'd arm_state \<Rightarrow> fault \<times> 'd arm_state" where
  "arm920t_mmu_write dt va0 v s0 =
     (let real_va = mmu_pid_va_map va0 s0;
          s = write_i_cache dt real_va v s0
      in if \<not> MMU_Enabled s then (NO_FAULT, mem_write_typed dt real_va v s)
         else if misaligned dt real_va s then (ALIGNMENT_FAULT, s)
         else
           (let va = real_va AND NOT 3
            in case checked translate_d va False s of
                 (Inl f, s1) \<Rightarrow> (f, s1)
               | (Inr e, s1) \<Rightarrow> (NO_FAULT, write_translated dt e va real_va v s1)))"

subsection \<open>Coprocessor 15\<close>

definition arm920t_mmu_mrc :: "u32 \<Rightarrow> 'd arm_state \<Rightarrow> u32" where
  "arm920t_mmu_mrc instr s =
     (let creg = BITS 16 19 instr; opc2 = BITS 5 7 instr
      in if creg = 0 then (if opc2 = 0 then cpu_val s else if opc2 = 1 then 0x0D172172 else 0)
         else if creg = 1 then (control (mmu s) OR 0x78) AND 0xFFFFF3FF
         else if creg = 2 then translation_table_base (mmu s)
         else if creg = 3 then domain_access_control (mmu s)
         else if creg = 5 then (if opc2 = 0 then fault_status (mmu s) else 0)
         else if creg = 6 then fault_address (mmu s)
         else if creg = 13 then process_id (mmu s)
         else 0)"

definition arm920t_mmu_cache_ops :: "u32 \<Rightarrow> u32 \<Rightarrow> 'd arm_state \<Rightarrow> 'd arm_state" where
  "arm920t_mmu_cache_ops instr value s =
     (let crm = BITS 0 3 instr; opc2 = BITS 5 7 instr
      in if opc2 = 0 \<and> crm = 7
         then on_d_cache mmu_cache_invalidate_all (on_i_cache mmu_cache_invalidate_all s)
         else if opc2 = 0 \<and> crm = 5 then on_i_cache mmu_cache_invalidate_all s
         else if opc2 = 1 \<and> crm = 5 then on_i_cache (mmu_cache_invalidate value) s
         else if opc2 = 1 \<and> crm = 13 then s
         else if opc2 = 0 \<and> crm = 6 then on_d_cache mmu_cache_invalidate_all s
         else if opc2 = 1 \<and> crm = 6 then on_d_cache (mmu_cache_invalidate value) s
         else if opc2 = 1 \<and> crm = 10 then on_d_cache (mmu_cache_clean value) s
         else if opc2 = 1 \<and> crm = 14
         then on_d_cache (mmu_cache_invalidate value) (on_d_cache (mmu_cache_clean value) s)
         else if opc2 = 2 \<and> crm = 10 then on_d_cache (mmu_cache_clean_by_index value) s
         else if opc2 = 2 \<and> crm = 14
         then on_d_cache (mmu_cache_invalidate_by_index value)
                (on_d_cache (mmu_cache_clean_by_index value) s)
         else if opc2 = 4 \<and> crm = 10 then on_wb mmu_wb_drain_all s
         else s)"

definition arm920t_mmu_tlb_ops :: "u32 \<Rightarrow> u32 \<Rightarrow> 'd arm_state \<Rightarrow> 'd arm_state" where
  "arm920t_mmu_tlb_ops instr value s =
     (let crm = BITS 0 3 instr; opc2 = BITS 5 7 instr; m = mmu s
      in if opc2 = 0 \<and> crm = 7
         then s\<lparr>mmu := m\<lparr>i_tlb := mmu_tlb_invalidate_all (i_tlb m),
                         d_tlb := mmu_tlb_invalidate_all (d_tlb m)\<rparr>\<rparr>
         else if opc2 = 0 \<and> crm = 5
         then s\<lparr>mmu := m\<lparr>i_tlb := mmu_tlb_invalidate_all (i_tlb m)\<rparr>\<rparr>
         else if opc2 = 1 \<and> crm = 5
         then s\<lparr>mmu := m\<lparr>i_tlb := mmu_tlb_invalidate_entry value (i_tlb m)\<rparr>\<rparr>
         else if opc2 = 0 \<and> crm = 6
         then s\<lparr>mmu := m\<lparr>d_tlb := mmu_tlb_invalidate_all (d_tlb m)\<rparr>\<rparr>
         else if opc2 = 1 \<and> crm = 6
         then s\<lparr>mmu := m\<lparr>d_tlb := mmu_tlb_invalidate_entry value (d_tlb m)\<rparr>\<rparr>
         else s)"

definition arm920t_mmu_mcr :: "u32 \<Rightarrow> u32 \<Rightarrow> 'd arm_state \<Rightarrow> 'd arm_state" where
  "arm920t_mmu_mcr instr value s =
     (let creg = BITS 16 19 instr; opc2 = BITS 5 7 instr; m = mmu s
      in if take 5 (cpu_arch_name s) \<noteq> ''armv4'' then s
         else if creg = 1 then s\<lparr>mmu := m\<lparr>control := (value OR 0x78) AND 0xFFFFF3FF\<rparr>\<rparr>
         else if creg = 2 then s\<lparr>mmu := m\<lparr>translation_table_base := value AND 0xFFFFC000\<rparr>\<rparr>
         else if creg = 3 then s\<lparr>mmu := m\<lparr>domain_access_control := value\<rparr>\<rparr>
         else if creg = 5
         then (if opc2 = 0 then s\<lparr>mmu := m\<lparr>fault_status := value AND 0xFF\<rparr>\<rparr> else s)
         else if creg = 6 then s\<lparr>mmu := m\<lparr>fault_address := value\<rparr>\<rparr>
         else if creg = 7 then arm920t_mmu_cache_ops instr value s
         else if creg = 8 then arm920t_mmu_tlb_ops instr value s
         else if creg = 13 then s\<lparr>mmu := m\<lparr>process_id := value AND 0xfe000000\<rparr>\<rparr>
         else s)"

definition arm920t_mmu_v2p_dbct :: "u32 \<Rightarrow> 'd arm_state \<Rightarrow> fault \<times> u32 \<times> 'd arm_state" where
  "arm920t_mmu_v2p_dbct va0 s =
     (let va1 = mmu_pid_va_map va0 s
      in if MMU_Enabled s then
           (if va1 AND 3 \<noteq> 0 \<and> MMU_Aligned s then (ALIGNMENT_FAULT, junk s, s)
            else
              (let va = va1 AND NOT 3
               in case checked translate_i va True s of
                    (Inl f, s1) \<Rightarrow> (f, junk s, s1)
                  | (Inr e, s1) \<Rightarrow> (NO_FAULT, tlb_va_to_pa e va, s1)))
         else (NO_FAULT, va1, s))"

end
