(* ===== verification/Arm_Virt.thy ===== *)
theory Arm_Virt
  imports Mmu_Arm920t
begin

text \<open>
  The memory interface of the core, arch_arm/common/armvirt.c, on the MMU entry points of
  armmmu.c: instruction fetch with prefetch aborts, loads and stores with data aborts and
  the fault registers, swaps, and the byte accesses of the debugger. The MMU operations
  are those of the ARM920T (\<^verbatim>\<open>arm920t_mmu_ops\<close>), the ones \<^verbatim>\<open>mmu_init\<close> selects for this core.
\<close>

subsection \<open>MMU entry points (armmmu.c)\<close>

text \<open>
  \<^verbatim>\<open>mmu_init\<close> selects the operations by the processor's number. \<open>other\<close> gives the effect of
  the initialisation for the cores whose MMU files are not part of the development
  (\<^verbatim>\<open>sa_mmu_ops\<close>, \<^verbatim>\<open>xscale_mmu_ops\<close>, \<^verbatim>\<open>arm7100_mmu_ops\<close>, \<^verbatim>\<open>arm926ejs_mmu_ops\<close>), \<open>None\<close> for an unknown
  number.
\<close>

definition mmu_init ::
  "(u32 \<Rightarrow> ('d arm_state \<Rightarrow> 'd arm_state) option) \<Rightarrow> tlb_entry \<Rightarrow> cache_line \<Rightarrow> wb_entry \<Rightarrow> u32 \<Rightarrow>
   'd arm_state \<Rightarrow> 'd arm_state" where
  "mmu_init other je jl jw cpu_mask s =
     (let m = (mmu s)\<lparr>control := 0x70, translation_table_base := 0xDEADC0DE,
                      domain_access_control := 0xDEADC0DE, fault_status := 0,
                      fault_address := 0, process_id := 0\<rparr>;
          n = cpu_val s AND cpu_mask
      in if n = 0x41009200 then s\<lparr>mmu := arm920t_mmu_init je jl jw m\<rparr>
         else case other n of
           Some init \<Rightarrow> init (s\<lparr>mmu := m\<rparr>)
         | None \<Rightarrow> arm_halt Skyeye_exit (s\<lparr>mmu := m\<rparr>))"

definition mmu_read_byte :: "u32 \<Rightarrow> 'd arm_state \<Rightarrow> fault \<times> u32 \<times> 'd arm_state" where
  "mmu_read_byte va s = arm920t_mmu_read ARM_BYTE_TYPE va s"

definition mmu_read_halfword :: "u32 \<Rightarrow> 'd arm_state \<Rightarrow> fault \<times> u32 \<times> 'd arm_state" where
  "mmu_read_halfword va s = arm920t_mmu_read ARM_HALFWORD_TYPE va s"

definition mmu_read_word :: "u32 \<Rightarrow> 'd arm_state \<Rightarrow> fault \<times> u32 \<times> 'd arm_state" where
  "mmu_read_word va s = arm920t_mmu_read ARM_WORD_TYPE va s"

definition mmu_write_byte :: "u32 \<Rightarrow> u32 \<Rightarrow> 'd arm_state \<Rightarrow> fault \<times> 'd arm_state" where
  "mmu_write_byte va v s = arm920t_mmu_write ARM_BYTE_TYPE va v s"

definition mmu_write_halfword :: "u32 \<Rightarrow> u32 \<Rightarrow> 'd arm_state \<Rightarrow> fault \<times> 'd arm_state" where
  "mmu_write_halfword va v s = arm920t_mmu_write ARM_HALFWORD_TYPE va v s"

definition mmu_write_word :: "u32 \<Rightarrow> u32 \<Rightarrow> 'd arm_state \<Rightarrow> fault \<times> 'd arm_state" where
  "mmu_write_word va v s = arm920t_mmu_write ARM_WORD_TYPE va v s"

definition mmu_load_instr :: "u32 \<Rightarrow> 'd arm_state \<Rightarrow> fault \<times> u32 \<times> 'd arm_state" where
  "mmu_load_instr va s = arm920t_mmu_load_instr va s"

definition mmu_mrc :: "u32 \<Rightarrow> 'd arm_state \<Rightarrow> u32" where
  "mmu_mrc instr s = arm920t_mmu_mrc instr s"

definition mmu_mcr :: "u32 \<Rightarrow> u32 \<Rightarrow> 'd arm_state \<Rightarrow> 'd arm_state" where
  "mmu_mcr instr value s = arm920t_mmu_mcr instr value s"

subsection \<open>Aborts (armdefs.h)\<close>

definition ARMul_ABORTWORD :: "'d arm_state \<Rightarrow> u32" where
  "ARMul_ABORTWORD s = (if TFlag s then 0xefffdfff else 0xefffffff)"

definition ARMul_PREFETCHABORT :: "u32 \<Rightarrow> 'd arm_state \<Rightarrow> 'd arm_state" where
  "ARMul_PREFETCHABORT address s =
     (if AbortAddr s = 1
      then s\<lparr>AbortAddr := address AND (if TFlag s then NOT 1 else NOT 3)\<rparr> else s)"

definition ARMul_DATAABORT :: "'d arm_state \<Rightarrow> 'd arm_state" where
  "ARMul_DATAABORT s = s\<lparr>abortSig := True, Aborted := DataAbortV\<rparr>"

definition ARMul_CLEARABORT :: "'d arm_state \<Rightarrow> 'd arm_state" where
  "ARMul_CLEARABORT s = s\<lparr>abortSig := False\<rparr>"

text \<open>The fault registers and the abort of a failed data access.\<close>

definition data_fault :: "fault \<Rightarrow> u32 \<Rightarrow> 'd arm_state \<Rightarrow> 'd arm_state" where
  "data_fault f address s =
     ARMul_DATAABORT
       (s\<lparr>mmu := (mmu s)\<lparr>fault_status := (fault_code f OR push_bit 4 (last_domain (mmu s))) AND 0xFF,
                         fault_address := address\<rparr>\<rparr>)"

text \<open>What the loads do with the result of the MMU, and the stores.\<close>

definition finish_read :: "u32 \<Rightarrow> fault \<times> u32 \<times> 'd arm_state \<Rightarrow> u32 \<times> 'd arm_state" where
  "finish_read address r =
     (case r of (f, v, s) \<Rightarrow>
        if f \<noteq> NO_FAULT
        then (let s1 = data_fault f address s in (ARMul_ABORTWORD s1, s1))
        else (v, ARMul_CLEARABORT s))"

definition finish_write :: "u32 \<Rightarrow> fault \<times> 'd arm_state \<Rightarrow> 'd arm_state" where
  "finish_write address r =
     (case r of (f, s) \<Rightarrow>
        if f \<noteq> NO_FAULT then data_fault f address s else ARMul_CLEARABORT s)"

subsection \<open>Instruction fetch (armvirt.c)\<close>

definition fetch_mem :: "u32 \<Rightarrow> 'd arm_state \<Rightarrow> fault \<times> u32 \<times> 'd arm_state" where
  "fetch_mem address s =
     (if \<not> inst_cache s then mmu_read_word address s else mmu_load_instr address s)"

definition prefetch_fail :: "u32 \<Rightarrow> 'd arm_state \<Rightarrow> u32 \<times> 'd arm_state" where
  "prefetch_fail address s =
     (let s1 = ARMul_PREFETCHABORT address s in (ARMul_ABORTWORD s1, s1))"

definition ARMul_ReLoadInstr :: "u32 \<Rightarrow> u32 \<Rightarrow> 'd arm_state \<Rightarrow> u32 \<times> 'd arm_state" where
  "ARMul_ReLoadInstr address isz s =
     (if isz = 2 \<and> address AND 0x2 \<noteq> 0 then
        (case fetch_mem address s of
           (f1, lo, s1) \<Rightarrow>
             if f1 \<noteq> NO_FAULT then prefetch_fail address s1
             else
               (case fetch_mem (address + 4) s1 of
                  (f2, hi, s2) \<Rightarrow>
                    if f2 \<noteq> NO_FAULT then prefetch_fail address s2
                    else
                      (let s3 = ARMul_CLEARABORT s2
                       in if bigendSig s3 then (push_bit 16 lo OR drop_bit 16 hi, s3)
                          else (push_bit 16 (hi AND 0xFFFF) OR drop_bit 16 lo, s3))))
      else
        (case fetch_mem address s of
           (f, v, s1) \<Rightarrow>
             if f \<noteq> NO_FAULT then prefetch_fail address s1 else (v, ARMul_CLEARABORT s1)))"

definition ARMul_LoadInstrS :: "u32 \<Rightarrow> u32 \<Rightarrow> 'd arm_state \<Rightarrow> u32 \<times> 'd arm_state" where
  "ARMul_LoadInstrS address isz s =
     ARMul_ReLoadInstr address isz (s\<lparr>NumScycles := NumScycles s + 1\<rparr>)"

definition ARMul_LoadInstrN :: "u32 \<Rightarrow> u32 \<Rightarrow> 'd arm_state \<Rightarrow> u32 \<times> 'd arm_state" where
  "ARMul_LoadInstrN address isz s =
     ARMul_ReLoadInstr address isz (s\<lparr>NumNcycles := NumNcycles s + 1\<rparr>)"

subsection \<open>Loads (armvirt.c)\<close>

definition ARMul_ReadWord :: "u32 \<Rightarrow> 'd arm_state \<Rightarrow> u32 \<times> 'd arm_state" where
  "ARMul_ReadWord address s = finish_read address (mmu_read_word address s)"

definition ARMul_LoadWordS :: "u32 \<Rightarrow> 'd arm_state \<Rightarrow> u32 \<times> 'd arm_state" where
  "ARMul_LoadWordS address s = ARMul_ReadWord address (s\<lparr>NumScycles := NumScycles s + 1\<rparr>)"

definition ARMul_LoadWordN :: "u32 \<Rightarrow> 'd arm_state \<Rightarrow> u32 \<times> 'd arm_state" where
  "ARMul_LoadWordN address s = ARMul_ReadWord address (s\<lparr>NumNcycles := NumNcycles s + 1\<rparr>)"

definition ARMul_LoadHalfWord :: "u32 \<Rightarrow> 'd arm_state \<Rightarrow> u32 \<times> 'd arm_state" where
  "ARMul_LoadHalfWord address s =
     finish_read address (mmu_read_halfword address (s\<lparr>NumNcycles := NumNcycles s + 1\<rparr>))"

definition ARMul_ReadByte :: "u32 \<Rightarrow> 'd arm_state \<Rightarrow> u32 \<times> 'd arm_state" where
  "ARMul_ReadByte address s = finish_read address (mmu_read_byte address s)"

definition ARMul_LoadByte :: "u32 \<Rightarrow> 'd arm_state \<Rightarrow> u32 \<times> 'd arm_state" where
  "ARMul_LoadByte address s = ARMul_ReadByte address (s\<lparr>NumNcycles := NumNcycles s + 1\<rparr>)"

text \<open>
  The debugger's byte read: \<^verbatim>\<open>*presult\<close> becomes -1 on a fault; otherwise only its first byte
  is written (\<open>old\<close> is its value before).
\<close>

definition ARMul_ICE_ReadByte :: "u32 \<Rightarrow> u32 \<Rightarrow> 'd arm_state \<Rightarrow> bool \<times> u32 \<times> 'd arm_state" where
  "ARMul_ICE_ReadByte address old s =
     (case mmu_read_byte address s of
        (f, v, s1) \<Rightarrow>
          if f \<noteq> NO_FAULT then (True, - 1, s1)
          else (False, (old AND NOT 0xff) OR (v AND 0xff), s1))"

subsection \<open>Stores and swaps (armvirt.c)\<close>

definition ARMul_WriteWord :: "u32 \<Rightarrow> u32 \<Rightarrow> 'd arm_state \<Rightarrow> 'd arm_state" where
  "ARMul_WriteWord address v s = finish_write address (mmu_write_word address v s)"

definition ARMul_StoreWordS :: "u32 \<Rightarrow> u32 \<Rightarrow> 'd arm_state \<Rightarrow> 'd arm_state" where
  "ARMul_StoreWordS address v s = ARMul_WriteWord address v (s\<lparr>NumScycles := NumScycles s + 1\<rparr>)"

definition ARMul_StoreWordN :: "u32 \<Rightarrow> u32 \<Rightarrow> 'd arm_state \<Rightarrow> 'd arm_state" where
  "ARMul_StoreWordN address v s = ARMul_WriteWord address v (s\<lparr>NumNcycles := NumNcycles s + 1\<rparr>)"

definition ARMul_StoreHalfWord :: "u32 \<Rightarrow> u32 \<Rightarrow> 'd arm_state \<Rightarrow> 'd arm_state" where
  "ARMul_StoreHalfWord address v s =
     finish_write address (mmu_write_halfword address v (s\<lparr>NumNcycles := NumNcycles s + 1\<rparr>))"

definition ARMul_WriteByte :: "u32 \<Rightarrow> u32 \<Rightarrow> 'd arm_state \<Rightarrow> 'd arm_state" where
  "ARMul_WriteByte address v s = finish_write address (mmu_write_byte address v s)"

definition ARMul_StoreByte :: "u32 \<Rightarrow> u32 \<Rightarrow> 'd arm_state \<Rightarrow> 'd arm_state" where
  "ARMul_StoreByte address v s = ARMul_WriteByte address v (s\<lparr>NumNcycles := NumNcycles s + 1\<rparr>)"

definition ARMul_ICE_WriteByte :: "u32 \<Rightarrow> u32 \<Rightarrow> 'd arm_state \<Rightarrow> bool \<times> 'd arm_state" where
  "ARMul_ICE_WriteByte address v s =
     (case mmu_write_byte address v s of (f, s1) \<Rightarrow> (f \<noteq> NO_FAULT, s1))"

text \<open>\<^verbatim>\<open>ARMul_SwapWord\<close> ignores what the MMU answers to its write.\<close>

definition ARMul_SwapWord :: "u32 \<Rightarrow> u32 \<Rightarrow> 'd arm_state \<Rightarrow> u32 \<times> 'd arm_state" where
  "ARMul_SwapWord address v s =
     (case ARMul_ReadWord address (s\<lparr>NumNcycles := NumNcycles s + 1\<rparr>) of
        (temp, s1) \<Rightarrow>
          (temp, snd (mmu_write_word address v (s1\<lparr>NumNcycles := NumNcycles s1 + 1\<rparr>))))"

definition ARMul_SwapByte :: "u32 \<Rightarrow> u32 \<Rightarrow> 'd arm_state \<Rightarrow> u32 \<times> 'd arm_state" where
  "ARMul_SwapByte address v s =
     (case ARMul_LoadByte address s of (temp, s1) \<Rightarrow> (temp, ARMul_StoreByte address v s1))"

end
