(* ===== verification/Arm_Shift.thy ===== *)
theory Arm_Shift
  imports Arm_Virt
begin

text \<open>
  Operand decoding of the 32-bit emulator, arch_arm/common/armemu32.c (compiled with
  \<^verbatim>\<open>MODE32\<close> and \<^verbatim>\<open>MODET\<close>) and the macros of armemu.h it uses: register fields, the barrel
  shifter for data processing (\<^verbatim>\<open>GetDPRegRHS\<close>, \<^verbatim>\<open>GetDPSRegRHS\<close>) and for addressing
  (\<^verbatim>\<open>GetLSRegRHS\<close>, \<^verbatim>\<open>GetLS7RHS\<close>), rotated immediates, and the three ways of writing register 15.
\<close>

subsection \<open>Fields and bus cycles (armemu.h)\<close>

definition field :: "nat \<Rightarrow> nat \<Rightarrow> u32 \<Rightarrow> nat" where
  "field m n instr = unat (BITS m n instr)"

definition DESTReg :: "u32 \<Rightarrow> nat" where "DESTReg instr = field 12 15 instr"
definition LHSReg :: "u32 \<Rightarrow> nat" where "LHSReg instr = field 16 19 instr"
definition RHSReg :: "u32 \<Rightarrow> nat" where "RHSReg instr = field 0 3 instr"

definition MULDESTReg :: "u32 \<Rightarrow> nat" where "MULDESTReg instr = field 16 19 instr"
definition MULLHSReg :: "u32 \<Rightarrow> nat" where "MULLHSReg instr = field 0 3 instr"
definition MULRHSReg :: "u32 \<Rightarrow> nat" where "MULRHSReg instr = field 8 11 instr"
definition MULACCReg :: "u32 \<Rightarrow> nat" where "MULACCReg instr = field 12 15 instr"

definition DEST :: "u32 \<Rightarrow> 'd arm_state \<Rightarrow> u32" where
  "DEST instr s = Reg s (DESTReg instr)"

definition set_DEST :: "u32 \<Rightarrow> u32 \<Rightarrow> 'd arm_state \<Rightarrow> 'd arm_state" where
  "set_DEST instr v s = set_reg (DESTReg instr) v s"

definition LHS :: "u32 \<Rightarrow> 'd arm_state \<Rightarrow> u32" where
  "LHS instr s =
     (if LHSReg instr = 15 then Reg s 15 AND 0xFFFFFFFC else Reg s (LHSReg instr))"

definition set_LSBase :: "u32 \<Rightarrow> u32 \<Rightarrow> 'd arm_state \<Rightarrow> 'd arm_state" where
  "set_LSBase instr v s = set_reg (LHSReg instr) v s"

definition BUSUSEDN :: "'d arm_state \<Rightarrow> 'd arm_state" where
  "BUSUSEDN s = s\<lparr>NextInstr := NextInstr s OR 1\<rparr>"

definition BUSUSEDINCPCS :: "'d arm_state \<Rightarrow> 'd arm_state" where
  "BUSUSEDINCPCS s =
     (if \<not> is_v4 s
      then (set_reg 15 (Reg s 15 + isize s) s)\<lparr>NextInstr := (NextInstr s AND 0xff) OR 2\<rparr>
      else s)"

definition BUSUSEDINCPCN :: "'d arm_state \<Rightarrow> 'd arm_state" where
  "BUSUSEDINCPCN s =
     (if is_v4 s then BUSUSEDN s
      else (set_reg 15 (Reg s 15 + isize s) s)\<lparr>NextInstr := NextInstr s OR 3\<rparr>)"

definition INCPC :: "'d arm_state \<Rightarrow> 'd arm_state" where
  "INCPC s = (set_reg 15 (Reg s 15 + isize s) s)\<lparr>NextInstr := NextInstr s OR 2\<rparr>"

definition TAKEABORT :: "'d arm_state \<Rightarrow> 'd arm_state" where
  "TAKEABORT s = ARMul_Abort DataAbortV s"

definition GETSPSR :: "'d arm_state \<Rightarrow> u32" where
  "GETSPSR s = ARMul_GetSPSR (EMODE s) s"

subsection \<open>Immediates (arminit.c, armemu.h)\<close>

text \<open>
  \<^verbatim>\<open>ROTATER\<close> as \<^verbatim>\<open>ARMul_EmulateInit\<close> uses it: on a \<^verbatim>\<open>long\<close> of 64 bits, truncated to the word
  stored in the table.
\<close>

definition ROTATER :: "u64 \<Rightarrow> nat \<Rightarrow> u64" where
  "ROTATER n b = drop_bit b n OR push_bit (32 - b) n"

definition ARMul_ImmedTable :: "u32 \<Rightarrow> u32" where
  "ARMul_ImmedTable i = ucast (ROTATER (ucast i AND 0xff) (unat (drop_bit 7 i AND 0x1e)))"

definition DPImmRHS :: "u32 \<Rightarrow> u32" where
  "DPImmRHS instr = ARMul_ImmedTable (BITS 0 11 instr)"

definition DPSImmRHS :: "u32 \<Rightarrow> 'd arm_state \<Rightarrow> u32 \<times> 'd arm_state" where
  "DPSImmRHS instr s =
     (let temp = BITS 0 11 instr; rhs = ARMul_ImmedTable temp
      in (rhs, if temp > 255 then s\<lparr>CFlag := (drop_bit 31 rhs \<noteq> 0)\<rparr> else s))"

subsection \<open>The barrel shifter (armemu32.c)\<close>

definition LSL :: nat where "LSL = 0"
definition LSR :: nat where "LSR = 1"
definition ASR :: nat where "ASR = 2"
definition ROR :: nat where "ROR = 3"

lemmas shift_codes = LSL_def LSR_def ASR_def ROR_def

definition shift_by_reg :: "nat \<Rightarrow> u32 \<Rightarrow> nat \<Rightarrow> u32" where
  "shift_by_reg op base shamt =
     (if op = LSL then
        (if shamt = 0 then base else if shamt \<ge> 32 then 0 else push_bit shamt base)
      else if op = LSR then
        (if shamt = 0 then base else if shamt \<ge> 32 then 0 else drop_bit shamt base)
      else if op = ASR then
        (if shamt = 0 then base else if shamt \<ge> 32 then signed_drop_bit 31 base
         else signed_drop_bit shamt base)
      else
        (let sh = shamt mod 32
         in if sh = 0 then base else push_bit (32 - sh) base OR drop_bit sh base))"

definition shift_by_imm :: "nat \<Rightarrow> u32 \<Rightarrow> nat \<Rightarrow> bool \<Rightarrow> u32" where
  "shift_by_imm op base shamt c =
     (if op = LSL then push_bit shamt base
      else if op = LSR then (if shamt = 0 then 0 else drop_bit shamt base)
      else if op = ASR then
        (if shamt = 0 then signed_drop_bit 31 base else signed_drop_bit shamt base)
      else
        (if shamt = 0 then drop_bit 1 base OR push_bit 31 (of_bool c)
         else push_bit (32 - shamt) base OR drop_bit shamt base))"

definition GetDPRegRHS :: "u32 \<Rightarrow> 'd arm_state \<Rightarrow> u32 \<times> 'd arm_state" where
  "GetDPRegRHS instr s =
     (if BIT 4 instr then
        (let s1 = INCPC s;
             base = Reg s1 (RHSReg instr);
             s2 = ARMul_Icycles 1 s1;
             shamt = unat (Reg s2 (field 8 11 instr) AND 0xff)
         in (shift_by_reg (field 5 6 instr) base shamt, s2))
      else
        (shift_by_imm (field 5 6 instr) (Reg s (RHSReg instr)) (field 7 11 instr) (CFlag s), s))"

text \<open>The same with the carry flag set from the last bit shifted out.\<close>

definition ASSIGNC :: "bool \<Rightarrow> 'd arm_state \<Rightarrow> 'd arm_state" where
  "ASSIGNC c s = s\<lparr>CFlag := c\<rparr>"

definition shifts_by_reg :: "nat \<Rightarrow> u32 \<Rightarrow> nat \<Rightarrow> 'd arm_state \<Rightarrow> u32 \<times> 'd arm_state" where
  "shifts_by_reg op base shamt s =
     (if op = LSL then
        (if shamt = 0 then (base, s)
         else if shamt = 32 then (0, ASSIGNC (base AND 1 \<noteq> 0) s)
         else if shamt > 32 then (0, ASSIGNC False s)
         else (push_bit shamt base, ASSIGNC (drop_bit (32 - shamt) base AND 1 \<noteq> 0) s))
      else if op = LSR then
        (if shamt = 0 then (base, s)
         else if shamt = 32 then (0, ASSIGNC (drop_bit 31 base \<noteq> 0) s)
         else if shamt > 32 then (0, ASSIGNC False s)
         else (drop_bit shamt base, ASSIGNC (drop_bit (shamt - 1) base AND 1 \<noteq> 0) s))
      else if op = ASR then
        (if shamt = 0 then (base, s)
         else if shamt \<ge> 32 then (signed_drop_bit 31 base, ASSIGNC (drop_bit 31 base \<noteq> 0) s)
         else (signed_drop_bit shamt base,
               ASSIGNC (signed_drop_bit (shamt - 1) base AND 1 \<noteq> 0) s))
      else
        (if shamt = 0 then (base, s)
         else
           (let sh = shamt mod 32
            in if sh = 0 then (base, ASSIGNC (drop_bit 31 base \<noteq> 0) s)
               else (push_bit (32 - sh) base OR drop_bit sh base,
                     ASSIGNC (drop_bit (sh - 1) base AND 1 \<noteq> 0) s))))"

definition shifts_by_imm :: "nat \<Rightarrow> u32 \<Rightarrow> nat \<Rightarrow> 'd arm_state \<Rightarrow> u32 \<times> 'd arm_state" where
  "shifts_by_imm op base shamt s =
     (if op = LSL then
        (push_bit shamt base, ASSIGNC (drop_bit (32 - shamt) base AND 1 \<noteq> 0) s)
      else if op = LSR then
        (if shamt = 0 then (0, ASSIGNC (drop_bit 31 base \<noteq> 0) s)
         else (drop_bit shamt base, ASSIGNC (drop_bit (shamt - 1) base AND 1 \<noteq> 0) s))
      else if op = ASR then
        (if shamt = 0 then (signed_drop_bit 31 base, ASSIGNC (drop_bit 31 base \<noteq> 0) s)
         else (signed_drop_bit shamt base,
               ASSIGNC (signed_drop_bit (shamt - 1) base AND 1 \<noteq> 0) s))
      else
        (if shamt = 0 then
           (drop_bit 1 base OR push_bit 31 (of_bool (CFlag s)), ASSIGNC (base AND 1 \<noteq> 0) s)
         else (push_bit (32 - shamt) base OR drop_bit shamt base,
               ASSIGNC (drop_bit (shamt - 1) base AND 1 \<noteq> 0) s)))"

definition GetDPSRegRHS :: "u32 \<Rightarrow> 'd arm_state \<Rightarrow> u32 \<times> 'd arm_state" where
  "GetDPSRegRHS instr s =
     (if BIT 4 instr then
        (let s1 = INCPC s;
             base = Reg s1 (RHSReg instr);
             s2 = ARMul_Icycles 1 s1;
             shamt = unat (Reg s2 (field 8 11 instr) AND 0xff)
         in shifts_by_reg (field 5 6 instr) base shamt s2)
      else shifts_by_imm (field 5 6 instr) (Reg s (RHSReg instr)) (field 7 11 instr) s)"

text \<open>The macros that filter an unshifted register.\<close>

definition DPRegRHS :: "u32 \<Rightarrow> 'd arm_state \<Rightarrow> u32 \<times> 'd arm_state" where
  "DPRegRHS instr s =
     (if BITS 4 11 instr = 0 then (Reg s (RHSReg instr), s) else GetDPRegRHS instr s)"

definition DPSRegRHS :: "u32 \<Rightarrow> 'd arm_state \<Rightarrow> u32 \<times> 'd arm_state" where
  "DPSRegRHS instr s =
     (if BITS 4 11 instr = 0 then (Reg s (RHSReg instr), s) else GetDPSRegRHS instr s)"

subsection \<open>Address offsets (armemu32.c)\<close>

definition GetLSRegRHS :: "u32 \<Rightarrow> 'd arm_state \<Rightarrow> u32" where
  "GetLSRegRHS instr s =
     shift_by_imm (field 5 6 instr) (Reg s (RHSReg instr)) (field 7 11 instr) (CFlag s)"

definition LSRegRHS :: "u32 \<Rightarrow> 'd arm_state \<Rightarrow> u32" where
  "LSRegRHS instr s =
     (if BITS 4 11 instr = 0 then Reg s (RHSReg instr) else GetLSRegRHS instr s)"

definition LSImmRHS :: "u32 \<Rightarrow> u32" where
  "LSImmRHS instr = BITS 0 11 instr"

definition GetLS7RHS :: "u32 \<Rightarrow> 'd arm_state \<Rightarrow> u32" where
  "GetLS7RHS instr s =
     (if \<not> BIT 22 instr then Reg s (RHSReg instr)
      else BITS 0 3 instr OR push_bit 4 (BITS 8 11 instr))"

subsection \<open>Writing register 15 (armemu32.c)\<close>

definition WriteR15 :: "u32 \<Rightarrow> 'd arm_state \<Rightarrow> 'd arm_state" where
  "WriteR15 src s =
     FLUSHPIPE (set_reg 15 (src AND (if TFlag s then 0xfffffffe else 0xfffffffc)) s)"

definition WriteSR15 :: "u32 \<Rightarrow> 'd arm_state \<Rightarrow> 'd arm_state" where
  "WriteSR15 src s =
     (let s1 = (if Bank s > 0 then ARMul_CPSRAltered (s\<lparr>Cpsr := Spsr s (Bank s)\<rparr>) else s)
      in FLUSHPIPE (set_reg 15 (src AND (if TFlag s1 then 0xfffffffe else 0xfffffffc)) s1))"

definition WriteR15Branch :: "u32 \<Rightarrow> 'd arm_state \<Rightarrow> 'd arm_state" where
  "WriteR15Branch src s =
     (let s1 = (if src AND 1 \<noteq> 0 then set_reg 15 (src AND 0xfffffffe) (s\<lparr>TFlag := True\<rparr>)
                else set_reg 15 (src AND 0xfffffffc) (s\<lparr>TFlag := False\<rparr>))
      in FLUSHPIPE (s1\<lparr>Cpsr := ARMul_GetCPSR s1\<rparr>))"

definition WRITEDEST :: "u32 \<Rightarrow> u32 \<Rightarrow> 'd arm_state \<Rightarrow> 'd arm_state" where
  "WRITEDEST instr d s = (if DESTReg instr = 15 then WriteR15 d s else set_DEST instr d s)"

definition WRITESDEST :: "u32 \<Rightarrow> u32 \<Rightarrow> 'd arm_state \<Rightarrow> 'd arm_state" where
  "WRITESDEST instr d s =
     (if DESTReg instr = 15 then WriteSR15 d s else ARMul_NegZero d (set_DEST instr d s))"

definition WRITEDESTB :: "u32 \<Rightarrow> u32 \<Rightarrow> 'd arm_state \<Rightarrow> 'd arm_state" where
  "WRITEDESTB instr d s =
     (if DESTReg instr = 15 then WriteR15Branch d s else set_DEST instr d s)"

end
