(* ===== verification/Arm_LS.thy ===== *)
theory Arm_LS
  imports Arm_Shift
begin

text \<open>
  Loads and stores of arch_arm/common/armemu32.c: the single transfers (\<^verbatim>\<open>LoadWord\<close> to
  \<^verbatim>\<open>StoreByte\<close>), the doubleword transfers, the four block transfers, and the macros for
  halfword and signed transfers at the head of the file. A routine that returns whether the base register may be
  written back returns a truth value and the state.
\<close>

subsection \<open>Single transfers\<close>

definition sign_extend_16 :: "u32 \<Rightarrow> u32" where
  "sign_extend_16 d = (if d AND 0x8000 \<noteq> 0 then (d AND 0xffff) - 0x10000 else d)"

definition sign_extend_8 :: "u32 \<Rightarrow> u32" where
  "sign_extend_8 d = (if d AND 0x80 \<noteq> 0 then (d AND 0xff) - 0x100 else d)"

definition LoadWord :: "u32 \<Rightarrow> u32 \<Rightarrow> 'd arm_state \<Rightarrow> bool \<times> 'd arm_state" where
  "LoadWord instr address s =
     (case ARMul_LoadWordN address (BUSUSEDINCPCS s) of
        (dest, s1) \<Rightarrow>
          if Aborted s1 \<noteq> 0 then (lateabtSig s1, TAKEABORT s1)
          else
            (let d = (if address AND 3 \<noteq> 0 then ARMul_Align address dest else dest)
             in (DESTReg instr \<noteq> LHSReg instr, ARMul_Icycles 1 (WRITEDESTB instr d s1))))"

definition LoadHalfWord :: "u32 \<Rightarrow> u32 \<Rightarrow> bool \<Rightarrow> 'd arm_state \<Rightarrow> bool \<times> 'd arm_state" where
  "LoadHalfWord instr address signextend s =
     (case ARMul_LoadHalfWord address (BUSUSEDINCPCS s) of
        (dest, s1) \<Rightarrow>
          if Aborted s1 \<noteq> 0 then (lateabtSig s1, TAKEABORT s1)
          else
            (let d = (if signextend then sign_extend_16 dest else dest)
             in (DESTReg instr \<noteq> LHSReg instr, ARMul_Icycles 1 (WRITEDEST instr d s1))))"

definition LoadByte :: "u32 \<Rightarrow> u32 \<Rightarrow> bool \<Rightarrow> 'd arm_state \<Rightarrow> bool \<times> 'd arm_state" where
  "LoadByte instr address signextend s =
     (case ARMul_LoadByte address (BUSUSEDINCPCS s) of
        (dest, s1) \<Rightarrow>
          if Aborted s1 \<noteq> 0 then (lateabtSig s1, TAKEABORT s1)
          else
            (let d = (if signextend then sign_extend_8 dest else dest)
             in (DESTReg instr \<noteq> LHSReg instr, ARMul_Icycles 1 (WRITEDEST instr d s1))))"

definition finish_store :: "'d arm_state \<Rightarrow> bool \<times> 'd arm_state" where
  "finish_store s = (if Aborted s \<noteq> 0 then (lateabtSig s, TAKEABORT s) else (True, s))"

definition StoreWord :: "u32 \<Rightarrow> u32 \<Rightarrow> 'd arm_state \<Rightarrow> bool \<times> 'd arm_state" where
  "StoreWord instr address s =
     (let s1 = BUSUSEDINCPCN s in finish_store (ARMul_StoreWordN address (DEST instr s1) s1))"

definition StoreHalfWord :: "u32 \<Rightarrow> u32 \<Rightarrow> 'd arm_state \<Rightarrow> bool \<times> 'd arm_state" where
  "StoreHalfWord instr address s =
     (let s1 = BUSUSEDINCPCN s in finish_store (ARMul_StoreHalfWord address (DEST instr s1) s1))"

definition StoreByte :: "u32 \<Rightarrow> u32 \<Rightarrow> 'd arm_state \<Rightarrow> bool \<times> 'd arm_state" where
  "StoreByte instr address s =
     (let s1 = BUSUSEDINCPCN s in finish_store (ARMul_StoreByte address (DEST instr s1) s1))"

text \<open>\<^verbatim>\<open>if (transfer) LSBase = value;\<close>\<close>

definition write_back :: "u32 \<Rightarrow> u32 \<Rightarrow> bool \<times> 'd arm_state \<Rightarrow> 'd arm_state" where
  "write_back instr v r = (if fst r then set_LSBase instr v (snd r) else snd r)"

subsection \<open>Halfword and signed transfers (macros)\<close>

text \<open>
  The value that a post-indexed store adds to the base is read after the transfer.
\<close>

definition SHDOWNWB :: "u32 \<Rightarrow> 'd arm_state \<Rightarrow> 'd arm_state" where
  "SHDOWNWB instr s =
     (let lhs = LHS instr s
      in case StoreHalfWord instr lhs s of
           (ok, s1) \<Rightarrow> write_back instr (lhs - GetLS7RHS instr s1) (ok, s1))"

definition SHUPWB :: "u32 \<Rightarrow> 'd arm_state \<Rightarrow> 'd arm_state" where
  "SHUPWB instr s =
     (let lhs = LHS instr s
      in case StoreHalfWord instr lhs s of
           (ok, s1) \<Rightarrow> write_back instr (lhs + GetLS7RHS instr s1) (ok, s1))"

definition SHPREDOWN :: "u32 \<Rightarrow> 'd arm_state \<Rightarrow> 'd arm_state" where
  "SHPREDOWN instr s = snd (StoreHalfWord instr (LHS instr s - GetLS7RHS instr s) s)"

definition SHPREDOWNWB :: "u32 \<Rightarrow> 'd arm_state \<Rightarrow> 'd arm_state" where
  "SHPREDOWNWB instr s =
     (let temp = LHS instr s - GetLS7RHS instr s
      in write_back instr temp (StoreHalfWord instr temp s))"

definition SHPREUP :: "u32 \<Rightarrow> 'd arm_state \<Rightarrow> 'd arm_state" where
  "SHPREUP instr s = snd (StoreHalfWord instr (LHS instr s + GetLS7RHS instr s) s)"

definition SHPREUPWB :: "u32 \<Rightarrow> 'd arm_state \<Rightarrow> 'd arm_state" where
  "SHPREUPWB instr s =
     (let temp = LHS instr s + GetLS7RHS instr s
      in write_back instr temp (StoreHalfWord instr temp s))"

text \<open>
  The load macros select by bits 5 and 6; for 0 they do nothing and the case goes on
  (\<open>None\<close>).
\<close>

definition signed_load :: "u32 \<Rightarrow> u32 \<Rightarrow> 'd arm_state \<Rightarrow> (bool \<times> 'd arm_state) option" where
  "signed_load instr address s =
     (let k = field 5 6 instr
      in if k = 1 then Some (LoadHalfWord instr address False s)
         else if k = 2 then Some (LoadByte instr address True s)
         else if k = 3 then Some (LoadHalfWord instr address True s)
         else None)"

definition LHPOSTDOWN :: "u32 \<Rightarrow> 'd arm_state \<Rightarrow> 'd arm_state option" where
  "LHPOSTDOWN instr s =
     (let lhs = LHS instr s; temp = lhs - GetLS7RHS instr s
      in map_option (write_back instr temp) (signed_load instr lhs s))"

definition LHPOSTUP :: "u32 \<Rightarrow> 'd arm_state \<Rightarrow> 'd arm_state option" where
  "LHPOSTUP instr s =
     (let lhs = LHS instr s; temp = lhs + GetLS7RHS instr s
      in map_option (write_back instr temp) (signed_load instr lhs s))"

definition LHPREDOWN :: "u32 \<Rightarrow> 'd arm_state \<Rightarrow> 'd arm_state option" where
  "LHPREDOWN instr s =
     map_option snd (signed_load instr (LHS instr s - GetLS7RHS instr s) s)"

definition LHPREDOWNWB :: "u32 \<Rightarrow> 'd arm_state \<Rightarrow> 'd arm_state option" where
  "LHPREDOWNWB instr s =
     (let temp = LHS instr s - GetLS7RHS instr s
      in map_option (write_back instr temp) (signed_load instr temp s))"

definition LHPREUP :: "u32 \<Rightarrow> 'd arm_state \<Rightarrow> 'd arm_state option" where
  "LHPREUP instr s =
     map_option snd (signed_load instr (LHS instr s + GetLS7RHS instr s) s)"

definition LHPREUPWB :: "u32 \<Rightarrow> 'd arm_state \<Rightarrow> 'd arm_state option" where
  "LHPREUPWB instr s =
     (let temp = LHS instr s + GetLS7RHS instr s
      in map_option (write_back instr temp) (signed_load instr temp s))"

subsection \<open>Doubleword transfers\<close>

definition double_offset :: "u32 \<Rightarrow> 'd arm_state \<Rightarrow> u32" where
  "double_offset instr s =
     (if BIT 22 instr then push_bit 4 (BITS 8 11 instr) OR BITS 0 3 instr
      else Reg s (RHSReg instr))"

definition Handle_Load_Double :: "u32 \<Rightarrow> 'd arm_state \<Rightarrow> 'd arm_state" where
  "Handle_Load_Double instr s0 =
     (let s = BUSUSEDINCPCS s0;
          wr = BIT 21 instr; pre = BIT 24 instr;
          addr_reg = LHSReg instr; dest_reg = DESTReg instr;
          base = Reg s addr_reg;
          offset = double_offset instr s;
          sum = (if BIT 23 instr then base + offset else base - offset);
          addr = (if pre then sum else base)
      in if wr \<and> \<not> pre then ARMul_UndefInstr instr s
         else if odd dest_reg \<or> dest_reg = 14 then ARMul_UndefInstr instr s
         else if addr AND 7 \<noteq> 0 then ARMul_UndefInstr instr s
         else if (\<not> pre \<or> wr) \<and> (addr_reg = dest_reg \<or> addr_reg = dest_reg + 1)
         then ARMul_UndefInstr instr s
         else
           (case ARMul_LoadWordN addr s of
              (value1, s1) \<Rightarrow>
                (case ARMul_LoadWordN (addr + 4) s1 of
                   (value2, s2) \<Rightarrow>
                     if Aborted s2 \<noteq> 0 then TAKEABORT s2
                     else
                       (let s3 = set_reg (dest_reg + 1) value2
                                   (set_reg dest_reg value1 (ARMul_Icycles 2 s2))
                        in if \<not> pre \<or> wr then set_reg addr_reg sum s3 else s3))))"

definition Handle_Store_Double :: "u32 \<Rightarrow> 'd arm_state \<Rightarrow> 'd arm_state" where
  "Handle_Store_Double instr s0 =
     (let s = BUSUSEDINCPCS s0;
          wr = BIT 21 instr; pre = BIT 24 instr;
          addr_reg = LHSReg instr; src_reg = DESTReg instr;
          base = Reg s addr_reg;
          offset = double_offset instr s;
          sum = (if BIT 23 instr then base + offset else base - offset);
          addr = (if pre then sum else base)
      in if wr \<and> \<not> pre then ARMul_UndefInstr instr s
         else if addr_reg = 15 then ARMul_UndefInstr instr s
         else if odd src_reg then ARMul_UndefInstr instr s
         else if addr AND 7 \<noteq> 0 then ARMul_UndefInstr instr s
         else if (\<not> pre \<or> wr) \<and> (addr_reg = src_reg \<or> addr_reg = src_reg + 1)
         then ARMul_UndefInstr instr s
         else
           (let s1 = ARMul_StoreWordN addr (Reg s src_reg) s;
                s2 = ARMul_StoreWordN (addr + 4) (Reg s1 (src_reg + 1)) s1
            in if Aborted s2 \<noteq> 0 then TAKEABORT s2
               else if \<not> pre \<or> wr then set_reg addr_reg sum s2 else s2))"

subsection \<open>Block transfers\<close>

text \<open>
  \<^verbatim>\<open>XScale_set_fsr_far\<close> (armcopro.c) returns at once on a core that is not an XScale; the
  XScale's fault registers are outside the model.
\<close>

definition XScale_set_fsr_far :: "u32 \<Rightarrow> u32 \<Rightarrow> 'd arm_state \<Rightarrow> 'd arm_state" where
  "XScale_set_fsr_far fsr far s = s"

text \<open>
  The register of the first transfer is the lowest set bit of the whole instruction; with
  an empty list it is beyond 15 and the code leaves the register array.
\<close>

definition first_set :: "u32 \<Rightarrow> nat option" where
  "first_set instr = find (\<lambda>i. BIT i instr) [0 ..< 32]"

definition regs_from :: "nat \<Rightarrow> u32 \<Rightarrow> nat list" where
  "regs_from i instr = filter (\<lambda>r. BIT r instr) [i ..< 16]"

definition spurious_abort :: "u32 \<Rightarrow> 'd arm_state \<Rightarrow> 'd arm_state" where
  "spurious_abort address s = (XScale_set_fsr_far 1 address s)\<lparr>Aborted := DataAbortV\<rparr>"

definition ldm_put :: "nat \<Rightarrow> u32 \<Rightarrow> u32 \<Rightarrow> 'd arm_state \<Rightarrow> 'd arm_state" where
  "ldm_put r address dest s =
     (if \<not> abortSig s \<and> Aborted s = 0
      then (if r < 16 then set_reg r dest s else arm_halt Out_of_bounds s)
      else if Aborted s = 0 then spurious_abort address s else s)"

fun ldm_loop :: "nat list \<Rightarrow> u32 \<Rightarrow> 'd arm_state \<Rightarrow> 'd arm_state" where
  "ldm_loop [] address s = s"
| "ldm_loop (r # rs) address s =
     (case ARMul_LoadWordS (address + 4) s of
        (dest, s1) \<Rightarrow>
          (let s2 = ldm_put r (address + 4) dest s1
           in if Aborted s2 \<noteq> 0 then s2 else ldm_loop rs (address + 4) s2))"

definition LoadMult :: "u32 \<Rightarrow> u32 \<Rightarrow> u32 \<Rightarrow> 'd arm_state \<Rightarrow> 'd arm_state" where
  "LoadMult instr address WBBase s =
     (case first_set instr of
        None \<Rightarrow> arm_halt Out_of_bounds s
      | Some t \<Rightarrow>
          (case ARMul_LoadWordN address (BUSUSEDINCPCS s) of
             (dest, s1) \<Rightarrow>
               (let s2 = ldm_put t address dest s1;
                    s3 = (if Aborted s2 \<noteq> 0 then s2
                          else (let s' = ldm_loop (regs_from (Suc t) instr) address s2
                                in if BIT 15 instr \<and> Aborted s' = 0
                                   then WriteR15Branch (Reg s' 15) s' else s'));
                    s4 = ARMul_Icycles 1 s3
                in if Aborted s4 \<noteq> 0 then TAKEABORT s4
                   else if BIT 21 instr \<and> LHSReg instr \<noteq> 15 then set_LSBase instr WBBase s4
                   else s4)))"

text \<open>The first load of \<^verbatim>\<open>LoadSMult\<close> tests only \<^verbatim>\<open>abortSig\<close>.\<close>

definition ldm_s_first :: "nat \<Rightarrow> u32 \<Rightarrow> u32 \<Rightarrow> 'd arm_state \<Rightarrow> 'd arm_state" where
  "ldm_s_first r address dest s =
     (if \<not> abortSig s then (if r < 16 then set_reg r dest s else arm_halt Out_of_bounds s)
      else if Aborted s = 0 then spurious_abort address s else s)"

definition user_mode :: "'d arm_state \<Rightarrow> bool" where
  "user_mode s \<longleftrightarrow> Mode s = USER26MODE \<or> Mode s = USER32MODE"

definition ldm_s_read :: "nat \<Rightarrow> u32 \<Rightarrow> u32 \<Rightarrow> 'd arm_state \<Rightarrow> 'd arm_state" where
  "ldm_s_read t instr address s =
     (case ARMul_LoadWordN address s of
        (dest, s1) \<Rightarrow>
          (let s2 = ldm_s_first t address dest s1
           in if Aborted s2 \<noteq> 0 then s2 else ldm_loop (regs_from (Suc t) instr) address s2))"

definition ldm_s_base :: "u32 \<Rightarrow> u32 \<Rightarrow> 'd arm_state \<Rightarrow> 'd arm_state" where
  "ldm_s_base instr WBBase s =
     (if Aborted s \<noteq> 0 then
        TAKEABORT
          (if BIT 21 instr \<and> LHSReg instr \<noteq> 15 \<and> \<not> (abortSig s \<and> \<not> lateabtSig s)
           then set_LSBase instr WBBase s else s)
      else if BIT 21 instr \<and> LHSReg instr \<noteq> 15 then set_LSBase instr WBBase s else s)"

text \<open>The CPSR is restored when register 15 is loaded, also after an abort, which clears \<^verbatim>\<open>Aborted\<close>.\<close>

definition ldm_s_pc :: "u32 \<Rightarrow> 'd arm_state \<Rightarrow> 'd arm_state" where
  "ldm_s_pc instr s =
     (if BIT 15 instr \<and> Aborted s = 0 then
        (let s' = (if \<not> user_mode s then ARMul_CPSRAltered (s\<lparr>Cpsr := GETSPSR s\<rparr>) else s)
         in WriteR15 (Reg s' 15) s')
      else s)"

text \<open>The switch to the user bank and back, as LDM and STM with the S bit do it.\<close>

definition to_user_bank :: "'d arm_state \<Rightarrow> 'd arm_state" where
  "to_user_bank s = (if Bank s \<noteq> USERBANK then ARMul_SwitchMode (Mode s) USER26MODE s else s)"

definition to_own_bank :: "'d arm_state \<Rightarrow> 'd arm_state" where
  "to_own_bank s = (if \<not> user_mode s then ARMul_SwitchMode USER26MODE (Mode s) s else s)"

definition LoadSMult :: "u32 \<Rightarrow> u32 \<Rightarrow> u32 \<Rightarrow> 'd arm_state \<Rightarrow> 'd arm_state" where
  "LoadSMult instr address WBBase s =
     (case first_set instr of
        None \<Rightarrow> arm_halt Out_of_bounds s
      | Some t \<Rightarrow>
          (let s0 = BUSUSEDINCPCS s;
               s1 = (if \<not> BIT 15 instr then to_user_bank s0 else s0);
               s2 = ldm_s_pc instr (ldm_s_base instr WBBase (ldm_s_read t instr address s1));
               s3 = (if \<not> BIT 15 instr then to_own_bank s2 else s2)
           in ARMul_Icycles 1 s3))"

definition stm_check :: "u32 \<Rightarrow> 'd arm_state \<Rightarrow> 'd arm_state" where
  "stm_check address s =
     (if abortSig s \<and> Aborted s = 0 then spurious_abort address s else s)"

fun stm_loop :: "nat list \<Rightarrow> u32 \<Rightarrow> 'd arm_state \<Rightarrow> 'd arm_state" where
  "stm_loop [] address s = s"
| "stm_loop (r # rs) address s =
     (let s1 = stm_check (address + 4) (ARMul_StoreWordS (address + 4) (Reg s r) s)
      in if Aborted s1 \<noteq> 0 then s1 else stm_loop rs (address + 4) s1)"

definition stm_finish :: "u32 \<Rightarrow> u32 \<Rightarrow> 'd arm_state \<Rightarrow> 'd arm_state" where
  "stm_finish instr WBBase s =
     (let s1 = (if BIT 21 instr \<and> LHSReg instr \<noteq> 15
                   \<and> \<not> (abortSig s \<and> Aborted s \<noteq> 0 \<and> \<not> lateabtSig s)
                then set_LSBase instr WBBase s else s)
      in if Aborted s1 \<noteq> 0 then TAKEABORT s1 else s1)"

definition stm_all :: "nat \<Rightarrow> u32 \<Rightarrow> u32 \<Rightarrow> 'd arm_state \<Rightarrow> 'd arm_state" where
  "stm_all t instr address s =
     (if t < 16 then
        (let s1 = stm_check address (ARMul_StoreWordN address (Reg s t) s)
         in if Aborted s1 \<noteq> 0 then s1 else stm_loop (regs_from (Suc t) instr) address s1)
      else arm_halt Out_of_bounds s)"

definition StoreMult :: "u32 \<Rightarrow> u32 \<Rightarrow> u32 \<Rightarrow> 'd arm_state \<Rightarrow> 'd arm_state" where
  "StoreMult instr address WBBase s =
     (case first_set instr of
        None \<Rightarrow> arm_halt Out_of_bounds s
      | Some t \<Rightarrow>
          stm_finish instr WBBase
            (stm_all t instr address (if \<not> TFlag s then BUSUSEDINCPCN s else s)))"

text \<open>An abort leaves \<^verbatim>\<open>StoreSMult\<close> before the bank is switched back.\<close>

definition StoreSMult :: "u32 \<Rightarrow> u32 \<Rightarrow> u32 \<Rightarrow> 'd arm_state \<Rightarrow> 'd arm_state" where
  "StoreSMult instr address WBBase s =
     (case first_set instr of
        None \<Rightarrow> arm_halt Out_of_bounds s
      | Some t \<Rightarrow>
          (let s0 = BUSUSEDINCPCN s;
               s1 = stm_all t instr address (to_user_bank s0);
               s2 = (if Aborted s1 = 0 then to_own_bank s1 else s1)
           in stm_finish instr WBBase s2))"

end
