(* ===== verification/Arm_Mul.thy ===== *)
theory Arm_Mul
  imports Arm_Shift
begin

text \<open>
  The multiplications of arch_arm/common/armemu32.c: the 32-bit MUL and MLA with their
  cycle counts, the long multiplications built from four 16-bit products, and the DSP
  multiplications and saturating additions of ARMv5E.
\<close>

subsection \<open>Long multiplication\<close>

text \<open>\<^verbatim>\<open>Add32\<close>: sum and carry.\<close>

definition Add32 :: "u32 \<Rightarrow> u32 \<Rightarrow> u32 \<times> u32" where
  "Add32 a1 a2 =
     (let result = a1 + a2
      in (result, if (if result = a1 then a2 \<noteq> 0 else result < a1) then 1 else 0))"

text \<open>The product of two words as (low, high), from four products of halves.\<close>

definition mul_parts :: "u32 \<Rightarrow> u32 \<Rightarrow> u32 \<times> u32" where
  "mul_parts Rs Rm =
     (let lo = (Rs AND 0xFFFF) * (Rm AND 0xFFFF);
          mid1 = (Rs AND 0xFFFF) * (drop_bit 16 Rm AND 0xFFFF);
          mid2 = (drop_bit 16 Rs AND 0xFFFF) * (Rm AND 0xFFFF);
          hi = (drop_bit 16 Rs AND 0xFFFF) * (drop_bit 16 Rm AND 0xFFFF)
      in case Add32 lo (push_bit 16 mid1) of
           (l1, c1) \<Rightarrow>
             (case Add32 l1 (push_bit 16 mid2) of
                (l2, c2) \<Rightarrow>
                  (l2, c1 + (c2 + (drop_bit 16 mid1 AND 0xFFFF)
                              + (drop_bit 16 mid2 AND 0xFFFF) + hi))))"

definition negate64 :: "u32 \<times> u32 \<Rightarrow> u32 \<times> u32" where
  "negate64 p =
     (let lo = NOT (fst p); hi = NOT (snd p)
      in if lo = 0xFFFFFFFF then (0, hi + 1) else (lo + 1, hi))"

text \<open>Operands made positive for a signed product, the sign put back at the end.\<close>

definition product64 :: "bool \<Rightarrow> u32 \<Rightarrow> u32 \<Rightarrow> u32 \<times> u32" where
  "product64 msigned Rs Rm =
     (if msigned then
        (let p = mul_parts (if sint Rs < 0 then - Rs else Rs) (if sint Rm < 0 then - Rm else Rm)
         in if (Rm XOR Rs) AND 0x80000000 \<noteq> 0 then negate64 p else p)
      else mul_parts Rs Rm)"

definition mul_cycles :: "bool \<Rightarrow> u32 \<Rightarrow> u32" where
  "mul_cycles msigned Rm0 =
     (let Rm = (if msigned \<and> Rm0 AND 0x80000000 \<noteq> 0 then NOT Rm0 else Rm0)
      in 2 + (if Rm AND 0xFFFFFF00 = 0 then 1
              else if Rm AND 0xFFFF0000 = 0 then 2
              else if Rm AND 0xFF000000 = 0 then 3
              else 4))"

definition long_flags :: "u32 \<times> u32 \<Rightarrow> 'd arm_state \<Rightarrow> 'd arm_state" where
  "long_flags p s =
     ARMul_NegZero (snd p OR drop_bit 16 (fst p) OR (fst p AND 0xFFFF)) s"

definition Multiply64 :: "u32 \<Rightarrow> bool \<Rightarrow> bool \<Rightarrow> 'd arm_state \<Rightarrow> u32 \<times> 'd arm_state" where
  "Multiply64 instr msigned scc s =
     (let nRdHi = field 16 19 instr; nRdLo = field 12 15 instr;
          nRs = field 8 11 instr; nRm = field 0 3 instr;
          Rm = Reg s nRm; Rs = Reg s nRs;
          legal = (nRdHi \<noteq> 15 \<and> nRdLo \<noteq> 15 \<and> nRs \<noteq> 15 \<and> nRm \<noteq> 15
                   \<and> nRdHi \<noteq> nRdLo \<and> nRdHi \<noteq> nRm \<and> nRdLo \<noteq> nRm);
          p = (if legal then product64 msigned Rs Rm else (0, 0));
          s1 = (if legal then set_reg nRdHi (snd p) (set_reg nRdLo (fst p) s) else s);
          Rm' = (if legal \<and> msigned \<and> sint Rm < 0 then - Rm else Rm)
      in (mul_cycles msigned Rm', if scc then long_flags p s1 else s1))"

definition MultiplyAdd64 :: "u32 \<Rightarrow> bool \<Rightarrow> bool \<Rightarrow> 'd arm_state \<Rightarrow> u32 \<times> 'd arm_state" where
  "MultiplyAdd64 instr msigned scc s =
     (let nRdHi = field 16 19 instr; nRdLo = field 12 15 instr;
          RdHi = Reg s nRdHi; RdLo = Reg s nRdLo
      in case Multiply64 instr msigned False s of
           (scount, s1) \<Rightarrow>
             (case Add32 RdLo (Reg s1 nRdLo) of
                (lo, carry) \<Rightarrow>
                  (let hi = RdHi + Reg s1 nRdHi + carry;
                       s2 = set_reg nRdHi hi (set_reg nRdLo lo s1)
                   in (scount + 1, if scc then long_flags (lo, hi) s2 else s2))))"

subsection \<open>MUL and MLA\<close>

definition ARMul_MultTable :: "u32 list" where
  "ARMul_MultTable =
     [1, 2, 2, 3, 3, 4, 4, 5, 5, 6, 6, 7, 7, 8, 8, 9, 9, 10, 10, 11, 11, 12, 12, 13, 13, 14,
      14, 15, 15, 16, 16, 16]"

text \<open>The position of the highest set bit, 0 for 0, as the loop over \<^verbatim>\<open>dest\<close> finds it.\<close>

definition top_set_bit :: "u32 \<Rightarrow> nat" where
  "top_set_bit v = fold (\<lambda>d t. if v AND push_bit d 1 \<noteq> 0 then d else t) [0 ..< 32] 0"

definition mult_cycles :: "u32 \<Rightarrow> 'd arm_state \<Rightarrow> 'd arm_state" where
  "mult_cycles rhs s = ARMul_Icycles (ARMul_MultTable ! top_set_bit rhs) s"

definition op_MUL :: "u32 \<Rightarrow> 'd arm_state \<Rightarrow> 'd arm_state" where
  "op_MUL instr s =
     (let rhs = Reg s (MULRHSReg instr);
          s1 = (if MULLHSReg instr = MULDESTReg instr then set_reg (MULDESTReg instr) 0 s
                else if MULDESTReg instr \<noteq> 15
                then set_reg (MULDESTReg instr) (Reg s (MULLHSReg instr) * rhs) s
                else s)
      in mult_cycles rhs s1)"

definition op_MULS :: "u32 \<Rightarrow> 'd arm_state \<Rightarrow> 'd arm_state" where
  "op_MULS instr s =
     (let rhs = Reg s (MULRHSReg instr);
          s1 = (if MULLHSReg instr = MULDESTReg instr
                then (set_reg (MULDESTReg instr) 0 s)\<lparr>NFlag := False, ZFlag := True\<rparr>
                else if MULDESTReg instr \<noteq> 15
                then (let dest = Reg s (MULLHSReg instr) * rhs
                      in set_reg (MULDESTReg instr) dest (ARMul_NegZero dest s))
                else s)
      in mult_cycles rhs s1)"

definition op_MLA :: "u32 \<Rightarrow> 'd arm_state \<Rightarrow> 'd arm_state" where
  "op_MLA instr s =
     (let rhs = Reg s (MULRHSReg instr);
          s1 = (if MULLHSReg instr = MULDESTReg instr
                then set_reg (MULDESTReg instr) (Reg s (MULACCReg instr)) s
                else if MULDESTReg instr \<noteq> 15
                then set_reg (MULDESTReg instr)
                       (Reg s (MULLHSReg instr) * rhs + Reg s (MULACCReg instr)) s
                else s)
      in mult_cycles rhs s1)"

definition op_MLAS :: "u32 \<Rightarrow> 'd arm_state \<Rightarrow> 'd arm_state" where
  "op_MLAS instr s =
     (let rhs = Reg s (MULRHSReg instr);
          s1 = (if MULLHSReg instr = MULDESTReg instr
                then (let dest = Reg s (MULACCReg instr)
                      in set_reg (MULDESTReg instr) dest (ARMul_NegZero dest s))
                else if MULDESTReg instr \<noteq> 15
                then (let dest = Reg s (MULLHSReg instr) * rhs + Reg s (MULACCReg instr)
                      in set_reg (MULDESTReg instr) dest (ARMul_NegZero dest s))
                else s)
      in mult_cycles rhs s1)"

subsection \<open>ARMv5E\<close>

definition SETS :: "'d arm_state \<Rightarrow> 'd arm_state" where
  "SETS s = s\<lparr>SFlag := True\<rparr>"

text \<open>A halfword of a register as a signed number, selected by an instruction bit.\<close>

definition half_operand :: "bool \<Rightarrow> u32 \<Rightarrow> u32" where
  "half_operand h16 v =
     (let h = (if h16 then drop_bit 16 v else v) AND 0xFFFF
      in if h AND 0x8000 \<noteq> 0 then h - 65536 else h)"

definition half_operand64 :: "bool \<Rightarrow> u64 \<Rightarrow> u64" where
  "half_operand64 h16 v =
     (let h = (if h16 then drop_bit 16 v else v) AND 0xFFFF
      in if h AND 0x8000 \<noteq> 0 then h - 65536 else h)"

definition op_SMLAxy :: "u32 \<Rightarrow> 'd arm_state \<Rightarrow> 'd arm_state" where
  "op_SMLAxy instr s =
     (let op1 = half_operand (BIT 5 instr) (Reg s (field 0 3 instr))
                * half_operand (BIT 6 instr) (Reg s (field 8 11 instr));
          Rn = Reg s (field 12 15 instr);
          s1 = (if AddOverflow op1 Rn (op1 + Rn) then SETS s else s)
      in set_reg (field 16 19 instr) (op1 + Rn) s1)"

definition op_SMULxy :: "u32 \<Rightarrow> 'd arm_state \<Rightarrow> 'd arm_state" where
  "op_SMULxy instr s =
     set_reg (field 16 19 instr)
       (half_operand (BIT 5 instr) (Reg s (field 0 3 instr))
        * half_operand (BIT 6 instr) (Reg s (field 8 11 instr))) s"

definition op_SMLALxy :: "u32 \<Rightarrow> 'd arm_state \<Rightarrow> 'd arm_state" where
  "op_SMLALxy instr s =
     (let op1 = half_operand64 (BIT 5 instr) (ucast (Reg s (field 0 3 instr)));
          op2 = half_operand64 (BIT 6 instr) (ucast (Reg s (field 8 11 instr)));
          dest = (push_bit 32 (ucast (Reg s (field 16 19 instr)))
                  OR ucast (Reg s (field 12 15 instr))) + op1 * op2
      in set_reg (field 16 19 instr) (ucast (drop_bit 32 dest))
           (set_reg (field 12 15 instr) (ucast dest) s))"

text \<open>SMLAWy and SMULWy; the high half of the multiplier by bit 6.\<close>

definition op_SMLAWy :: "u32 \<Rightarrow> 'd arm_state \<Rightarrow> 'd arm_state" where
  "op_SMLAWy instr s =
     (let a = ucast (Reg s (field 0 3 instr)) :: u64;
          op1 = (if a AND 0x80000000 \<noteq> 0 then a - 0x100000000 else a);
          op2 = half_operand64 (BIT 6 instr) (ucast (Reg s (field 8 11 instr)));
          result = drop_bit 16 (op1 * op2)
      in if \<not> BIT 5 instr then
           (let Rn = Reg s (field 12 15 instr);
                r32 = ucast result :: u32;
                s1 = (if AddOverflow r32 Rn (ucast (result + ucast Rn)) then SETS s else s)
            in set_reg (field 16 19 instr) (ucast (result + ucast Rn)) s1)
         else set_reg (field 16 19 instr) (ucast result) s)"

definition saturate :: "u32 \<Rightarrow> u32" where
  "saturate result = (if POS result then 0x80000000 else 0x7fffffff)"

definition sat_add :: "u32 \<Rightarrow> u32 \<Rightarrow> 'd arm_state \<Rightarrow> u32 \<times> 'd arm_state" where
  "sat_add op1 op2 s =
     (let result = op1 + op2
      in if AddOverflow op1 op2 result then (saturate result, SETS s) else (result, s))"

definition sat_sub :: "u32 \<Rightarrow> u32 \<Rightarrow> 'd arm_state \<Rightarrow> u32 \<times> 'd arm_state" where
  "sat_sub op1 op2 s =
     (let result = op1 - op2
      in if SubOverflow op1 op2 result then (saturate result, SETS s) else (result, s))"

definition op_QADD :: "u32 \<Rightarrow> 'd arm_state \<Rightarrow> 'd arm_state" where
  "op_QADD instr s =
     (case sat_add (Reg s (field 0 3 instr)) (Reg s (field 16 19 instr)) s of
        (r, s1) \<Rightarrow> set_reg (field 12 15 instr) r s1)"

definition op_QSUB :: "u32 \<Rightarrow> 'd arm_state \<Rightarrow> 'd arm_state" where
  "op_QSUB instr s =
     (case sat_sub (Reg s (field 0 3 instr)) (Reg s (field 16 19 instr)) s of
        (r, s1) \<Rightarrow> set_reg (field 12 15 instr) r s1)"

definition op_QDADD :: "u32 \<Rightarrow> 'd arm_state \<Rightarrow> 'd arm_state" where
  "op_QDADD instr s =
     (let op1 = Reg s (field 0 3 instr); op2 = Reg s (field 16 19 instr)
      in case sat_add op2 op2 s of
           (op2d, s1) \<Rightarrow>
             (case sat_add op1 op2d s1 of (r, s2) \<Rightarrow> set_reg (field 12 15 instr) r s2))"

definition op_QDSUB :: "u32 \<Rightarrow> 'd arm_state \<Rightarrow> 'd arm_state" where
  "op_QDSUB instr s =
     (let op1 = Reg s (field 0 3 instr); op2 = Reg s (field 16 19 instr)
      in case sat_add op2 op2 s of
           (op2d, s1) \<Rightarrow>
             (case sat_sub op1 op2d s1 of (r, s2) \<Rightarrow> set_reg (field 12 15 instr) r s2))"

text \<open>CLZ: the loop counts shifts until bit 31 is set; it stops within 32 steps for a nonzero word.\<close>

fun clz_loop :: "nat \<Rightarrow> u32 \<Rightarrow> nat \<Rightarrow> nat" where
  "clz_loop 0 op1 result = result"
| "clz_loop (Suc fuel) op1 result =
     (if op1 AND 0x80000000 = 0 then clz_loop fuel (push_bit 1 op1) (Suc result) else result)"

definition op_CLZ :: "u32 \<Rightarrow> 'd arm_state \<Rightarrow> 'd arm_state" where
  "op_CLZ instr s =
     (let op1 = Reg s (field 0 3 instr)
      in set_reg (field 12 15 instr)
           (if op1 = 0 then 32 else word_of_nat (clz_loop 32 op1 0)) s)"

end
