(* ===== verification/Arm_Dp.thy ===== *)
theory Arm_Dp
  imports Arm_LS Arm_Mul
begin

text \<open>
  The data-processing half of the instruction switch of arch_arm/common/armemu32.c: the
  cases 0x00 to 0x3f of \<^verbatim>\<open>switch (BITS (20, 27))\<close>, with the multiplications, halfword and
  signed transfers, swaps, status register moves and branches that share these
  encodings. There is one definition per case with a register operand
  (\<open>dp_00\<close> to \<open>dp_1f\<close>) and one for the cases with an immediate operand. \<open>pc\<close> is the local
  variable of the emulator loop.
\<close>

subsection \<open>Flags of additions and subtractions\<close>

text \<open>The shared blocks after \<^verbatim>\<open>dest = lhs - rhs\<close> and after \<^verbatim>\<open>dest = lhs + rhs\<close>.\<close>

definition sub_flags :: "u32 \<Rightarrow> u32 \<Rightarrow> u32 \<Rightarrow> 'd arm_state \<Rightarrow> 'd arm_state" where
  "sub_flags lhs rhs dest s =
     (if lhs \<ge> rhs \<or> drop_bit 31 (rhs OR lhs) \<noteq> 0
      then ARMul_SubOverflow lhs rhs dest (ARMul_SubCarry lhs rhs dest s)
      else s\<lparr>CFlag := False, VFlag := False\<rparr>)"

definition add_flags :: "u32 \<Rightarrow> u32 \<Rightarrow> u32 \<Rightarrow> 'd arm_state \<Rightarrow> 'd arm_state" where
  "add_flags lhs rhs dest s0 =
     (let s = s0\<lparr>ZFlag := (dest = 0)\<rparr>
      in if drop_bit 30 (lhs OR rhs) \<noteq> 0
         then ARMul_AddOverflow lhs rhs dest (ARMul_AddCarry lhs rhs dest (s\<lparr>NFlag := NEG dest\<rparr>))
         else s\<lparr>NFlag := False, CFlag := False, VFlag := False\<rparr>)"

subsection \<open>Operations with a register operand\<close>

text \<open>
  \<open>rhs = DPRegRHS; dest = f (LHS, rhs); WRITEDEST (dest)\<close>: the left operand is read after
  the shifter ran. The logical operations that set flags take the shifter's carry.
\<close>

definition carry_in :: "'d arm_state \<Rightarrow> u32" where
  "carry_in s = of_bool (CFlag s)"

definition borrow_in :: "'d arm_state \<Rightarrow> u32" where
  "borrow_in s = of_bool (\<not> CFlag s)"

definition reg_op :: "(u32 \<Rightarrow> u32 \<Rightarrow> 'd arm_state \<Rightarrow> u32) \<Rightarrow> u32 \<Rightarrow> 'd arm_state \<Rightarrow> 'd arm_state" where
  "reg_op f instr s =
     (case DPRegRHS instr s of (rhs, s1) \<Rightarrow> WRITEDEST instr (f (LHS instr s1) rhs s1) s1)"

definition reg_op_s :: "(u32 \<Rightarrow> u32 \<Rightarrow> u32) \<Rightarrow> u32 \<Rightarrow> 'd arm_state \<Rightarrow> 'd arm_state" where
  "reg_op_s f instr s =
     (case DPSRegRHS instr s of (rhs, s1) \<Rightarrow> WRITESDEST instr (f (LHS instr s1) rhs) s1)"

text \<open>
  \<open>lhs = LHS; rhs = DPRegRHS; ...\<close>: subtraction and addition with flags, where the left
  operand is read first.
\<close>

definition sub_s :: "u32 \<Rightarrow> u32 \<Rightarrow> u32 \<Rightarrow> u32 \<Rightarrow> 'd arm_state \<Rightarrow> 'd arm_state" where
  "sub_s instr a b borrow s =
     (let dest = a - b - borrow in WRITESDEST instr dest (sub_flags a b dest s))"

definition add_s :: "u32 \<Rightarrow> u32 \<Rightarrow> u32 \<Rightarrow> u32 \<Rightarrow> 'd arm_state \<Rightarrow> 'd arm_state" where
  "add_s instr a b carry s =
     (let dest = a + b + carry in WRITESDEST instr dest (add_flags a b dest s))"

definition reg_arith ::
  "(u32 \<Rightarrow> u32 \<Rightarrow> 'd arm_state \<Rightarrow> 'd arm_state) \<Rightarrow> u32 \<Rightarrow> 'd arm_state \<Rightarrow> 'd arm_state" where
  "reg_arith f instr s =
     (let lhs = LHS instr s in case DPRegRHS instr s of (rhs, s1) \<Rightarrow> f lhs rhs s1)"

text \<open>The tests; with register 15 as destination they restore the CPSR from the SPSR.\<close>

definition restore_psr :: "'d arm_state \<Rightarrow> 'd arm_state" where
  "restore_psr s = ARMul_CPSRAltered (s\<lparr>Cpsr := GETSPSR s\<rparr>)"

definition test_op :: "(u32 \<Rightarrow> u32 \<Rightarrow> u32) \<Rightarrow> u32 \<Rightarrow> 'd arm_state \<Rightarrow> 'd arm_state" where
  "test_op f instr s =
     (if DESTReg instr = 15 then restore_psr s
      else (case DPSRegRHS instr s of (rhs, s1) \<Rightarrow> ARMul_NegZero (f (LHS instr s1) rhs) s1))"

definition cmp_flags :: "u32 \<Rightarrow> u32 \<Rightarrow> 'd arm_state \<Rightarrow> 'd arm_state" where
  "cmp_flags lhs rhs s =
     (let dest = lhs - rhs in sub_flags lhs rhs dest (ARMul_NegZero dest s))"

definition cmn_flags :: "u32 \<Rightarrow> u32 \<Rightarrow> 'd arm_state \<Rightarrow> 'd arm_state" where
  "cmn_flags lhs rhs s = add_flags lhs rhs (lhs + rhs) s"

text \<open>The even cases start with these checks for STRH, LDRD and STRD.\<close>

definition with_double :: "u32 \<Rightarrow> ('d arm_state \<Rightarrow> 'd arm_state) \<Rightarrow> 'd arm_state \<Rightarrow> 'd arm_state" where
  "with_double instr rest s =
     (if BITS 4 7 instr = 0xD then Handle_Load_Double instr s
      else if BITS 4 7 instr = 0xF then Handle_Store_Double instr s
      else rest s)"

definition with_strh_reg ::
  "(u32 \<Rightarrow> 'd arm_state \<Rightarrow> 'd arm_state) \<Rightarrow> u32 \<Rightarrow> ('d arm_state \<Rightarrow> 'd arm_state) \<Rightarrow>
   'd arm_state \<Rightarrow> 'd arm_state" where
  "with_strh_reg st instr rest s = (if BITS 4 11 instr = 0xB then st instr s else rest s)"

definition with_strh_imm ::
  "(u32 \<Rightarrow> 'd arm_state \<Rightarrow> 'd arm_state) \<Rightarrow> u32 \<Rightarrow> ('d arm_state \<Rightarrow> 'd arm_state) \<Rightarrow>
   'd arm_state \<Rightarrow> 'd arm_state" where
  "with_strh_imm st instr rest s = (if BITS 4 7 instr = 0xB then st instr s else rest s)"

text \<open>The odd ones start with a load macro, which may do nothing.\<close>

definition or_else :: "'d arm_state option \<Rightarrow> 'd arm_state \<Rightarrow> 'd arm_state" where
  "or_else r s = (case r of Some s' \<Rightarrow> s' | None \<Rightarrow> s)"

definition with_ldrh_reg ::
  "(u32 \<Rightarrow> 'd arm_state \<Rightarrow> 'd arm_state option) \<Rightarrow> u32 \<Rightarrow> ('d arm_state \<Rightarrow> 'd arm_state) \<Rightarrow>
   'd arm_state \<Rightarrow> 'd arm_state" where
  "with_ldrh_reg ld instr rest s =
     (if BITS 4 11 instr AND 0xF9 = 0x9 then or_else (ld instr s) (rest s) else rest s)"

definition with_ldrh_imm ::
  "(u32 \<Rightarrow> 'd arm_state \<Rightarrow> 'd arm_state option) \<Rightarrow> u32 \<Rightarrow> ('d arm_state \<Rightarrow> 'd arm_state) \<Rightarrow>
   'd arm_state \<Rightarrow> 'd arm_state" where
  "with_ldrh_imm ld instr rest s =
     (if BITS 4 7 instr AND 0x9 = 0x9 then or_else (ld instr s) (rest s) else rest s)"

text \<open>The multiplications in these encodings.\<close>

definition long_mul ::
  "(u32 \<Rightarrow> bool \<Rightarrow> bool \<Rightarrow> 'd arm_state \<Rightarrow> u32 \<times> 'd arm_state) \<Rightarrow> bool \<Rightarrow> bool \<Rightarrow> u32 \<Rightarrow>
   'd arm_state \<Rightarrow> 'd arm_state" where
  "long_mul mul msigned scc instr s =
     (case mul instr msigned scc s of (n, s1) \<Rightarrow> ARMul_Icycles n s1)"

definition with_mul :: "('d arm_state \<Rightarrow> 'd arm_state) \<Rightarrow> u32 \<Rightarrow> ('d arm_state \<Rightarrow> 'd arm_state) \<Rightarrow>
   'd arm_state \<Rightarrow> 'd arm_state" where
  "with_mul m instr rest s = (if BITS 4 7 instr = 9 then m s else rest s)"

subsection \<open>Cases 0x00 to 0x0f\<close>

definition dp_00 :: "u32 \<Rightarrow> 'd arm_state \<Rightarrow> 'd arm_state" where
  "dp_00 instr =
     with_strh_reg SHDOWNWB instr (with_double instr (with_mul (op_MUL instr) instr
       (reg_op (\<lambda>l r s. l AND r) instr)))"

definition dp_01 :: "u32 \<Rightarrow> 'd arm_state \<Rightarrow> 'd arm_state" where
  "dp_01 instr =
     with_ldrh_reg LHPOSTDOWN instr (with_mul (op_MULS instr) instr
       (reg_op_s (\<lambda>l r. l AND r) instr))"

definition dp_02 :: "u32 \<Rightarrow> 'd arm_state \<Rightarrow> 'd arm_state" where
  "dp_02 instr =
     with_strh_reg SHDOWNWB instr (with_mul (op_MLA instr) instr
       (reg_op (\<lambda>l r s. l XOR r) instr))"

definition dp_03 :: "u32 \<Rightarrow> 'd arm_state \<Rightarrow> 'd arm_state" where
  "dp_03 instr =
     with_ldrh_reg LHPOSTDOWN instr (with_mul (op_MLAS instr) instr
       (reg_op_s (\<lambda>l r. l XOR r) instr))"

definition dp_04 :: "u32 \<Rightarrow> 'd arm_state \<Rightarrow> 'd arm_state" where
  "dp_04 instr =
     with_strh_imm SHDOWNWB instr (with_double instr (reg_op (\<lambda>l r s. l - r) instr))"

definition dp_05 :: "u32 \<Rightarrow> 'd arm_state \<Rightarrow> 'd arm_state" where
  "dp_05 instr =
     with_ldrh_imm LHPOSTDOWN instr (reg_arith (\<lambda>l r. sub_s instr l r 0) instr)"

definition dp_06 :: "u32 \<Rightarrow> 'd arm_state \<Rightarrow> 'd arm_state" where
  "dp_06 instr = with_strh_imm SHDOWNWB instr (reg_op (\<lambda>l r s. r - l) instr)"

definition dp_07 :: "u32 \<Rightarrow> 'd arm_state \<Rightarrow> 'd arm_state" where
  "dp_07 instr =
     with_ldrh_imm LHPOSTDOWN instr (reg_arith (\<lambda>l r. sub_s instr r l 0) instr)"

definition dp_08 :: "u32 \<Rightarrow> 'd arm_state \<Rightarrow> 'd arm_state" where
  "dp_08 instr =
     with_strh_reg SHUPWB instr (with_double instr
       (with_mul (long_mul Multiply64 False False instr) instr
         (reg_op (\<lambda>l r s. l + r) instr)))"

definition dp_09 :: "u32 \<Rightarrow> 'd arm_state \<Rightarrow> 'd arm_state" where
  "dp_09 instr =
     with_ldrh_reg LHPOSTUP instr (with_mul (long_mul Multiply64 False True instr) instr
       (reg_arith (\<lambda>l r. add_s instr l r 0) instr))"

definition dp_0a :: "u32 \<Rightarrow> 'd arm_state \<Rightarrow> 'd arm_state" where
  "dp_0a instr =
     with_strh_reg SHUPWB instr (with_mul (long_mul MultiplyAdd64 False False instr) instr
       (reg_op (\<lambda>l r s. l + r + carry_in s) instr))"

definition dp_0b :: "u32 \<Rightarrow> 'd arm_state \<Rightarrow> 'd arm_state" where
  "dp_0b instr =
     with_ldrh_reg LHPOSTUP instr (with_mul (long_mul MultiplyAdd64 False True instr) instr
       (reg_arith (\<lambda>l r s. add_s instr l r (carry_in s) s) instr))"

definition dp_0c :: "u32 \<Rightarrow> 'd arm_state \<Rightarrow> 'd arm_state" where
  "dp_0c instr =
     with_strh_imm SHUPWB instr (with_double instr
       (with_mul (long_mul Multiply64 True False instr) instr
         (reg_op (\<lambda>l r s. l - r - borrow_in s) instr)))"

definition dp_0d :: "u32 \<Rightarrow> 'd arm_state \<Rightarrow> 'd arm_state" where
  "dp_0d instr =
     with_ldrh_imm LHPOSTUP instr (with_mul (long_mul Multiply64 True True instr) instr
       (reg_arith (\<lambda>l r s. sub_s instr l r (borrow_in s) s) instr))"

definition dp_0e :: "u32 \<Rightarrow> 'd arm_state \<Rightarrow> 'd arm_state" where
  "dp_0e instr =
     with_strh_imm SHUPWB instr (with_mul (long_mul MultiplyAdd64 True False instr) instr
       (reg_op (\<lambda>l r s. r - l - borrow_in s) instr))"

definition dp_0f :: "u32 \<Rightarrow> 'd arm_state \<Rightarrow> 'd arm_state" where
  "dp_0f instr =
     with_ldrh_imm LHPOSTUP instr (with_mul (long_mul MultiplyAdd64 True True instr) instr
       (reg_arith (\<lambda>l r s. sub_s instr r l (borrow_in s) s) instr))"

subsection \<open>Cases 0x10 to 0x17: tests, status registers, swaps, branches\<close>

definition op_SWP :: "u32 \<Rightarrow> 'd arm_state \<Rightarrow> 'd arm_state" where
  "op_SWP instr s =
     (let temp = LHS instr s; s1 = BUSUSEDINCPCS s
      in case ARMul_SwapWord temp (Reg s1 (RHSReg instr)) s1 of
           (dest, s2) \<Rightarrow>
             (let s3 = set_DEST instr (if temp AND 3 \<noteq> 0 then ARMul_Align temp dest else dest) s2
              in if abortSig s3 \<or> Aborted s3 \<noteq> 0 then TAKEABORT s3 else s3))"

definition op_SWPB :: "u32 \<Rightarrow> 'd arm_state \<Rightarrow> 'd arm_state" where
  "op_SWPB instr s =
     (let temp = LHS instr s; s1 = BUSUSEDINCPCS s
      in case ARMul_SwapByte temp (Reg s1 (RHSReg instr)) s1 of
           (dest, s2) \<Rightarrow>
             (let s3 = set_DEST instr dest s2
              in if abortSig s3 \<or> Aborted s3 \<noteq> 0 then TAKEABORT s3 else s3))"

text \<open>MRS reads the CPSR without the T bit.\<close>

definition op_MRS_CPSR :: "u32 \<Rightarrow> 'd arm_state \<Rightarrow> 'd arm_state" where
  "op_MRS_CPSR instr s = set_DEST instr (ECC s OR EINT s OR EMODE s) s"

definition dp_10 :: "u32 \<Rightarrow> 'd arm_state \<Rightarrow> 'd arm_state" where
  "dp_10 instr s =
     (if is_v5e s \<and> \<not> BIT 4 instr \<and> BIT 7 instr then op_SMLAxy instr s
      else if is_v5e s \<and> BITS 4 11 instr = 5 then op_QADD instr s
      else
        with_strh_reg SHPREDOWN instr (with_double instr
          (\<lambda>s. if BITS 4 11 instr = 9 then op_SWP instr s
               else if BITS 0 11 instr = 0 \<and> LHSReg instr = 15 then op_MRS_CPSR instr s
               else s)) s)"

definition dp_11 :: "u32 \<Rightarrow> 'd arm_state \<Rightarrow> 'd arm_state" where
  "dp_11 instr = with_ldrh_reg LHPREDOWN instr (test_op (\<lambda>l r. l AND r) instr)"

definition op_BLX2 :: "u32 \<Rightarrow> u32 \<Rightarrow> 'd arm_state \<Rightarrow> 'd arm_state" where
  "op_BLX2 pc instr s =
     (let temp = (if TFlag s then (pc + 2) OR 1 else pc + 4)
      in set_reg 14 temp (WriteR15Branch (Reg s (RHSReg instr)) s))"

definition op_MSR_CPSR :: "u32 \<Rightarrow> 'd arm_state \<Rightarrow> 'd arm_state" where
  "op_MSR_CPSR instr s =
     (case DPRegRHS instr s of (temp, s1) \<Rightarrow> ARMul_FixCPSR instr (temp AND NOT TBIT) s1)"

text \<open>
  \<^verbatim>\<open>ARMul_OSHandleSWI (state, SWI_Breakpoint)\<close> of armos.c: the emulator is stopped, and the call
  counts as handled. BKPT of ARMv5 makes it, because \<^verbatim>\<open>SWI_vector_installed\<close> is never set.
\<close>

definition OSHandleSWI_Breakpoint :: "'d arm_state \<Rightarrow> bool \<times> 'd arm_state" where
  "OSHandleSWI_Breakpoint s = (True, s\<lparr>Emulate := STOP\<rparr>)"

definition op_BKPT :: "'d arm_state \<Rightarrow> 'd arm_state" where
  "op_BKPT s = (snd (OSHandleSWI_Breakpoint s))\<lparr>NextInstr := 8\<rparr>"

definition dp_12 ::
  "u32 \<Rightarrow> u32 \<Rightarrow> 'd arm_state \<Rightarrow> 'd arm_state" where
  "dp_12 pc instr s =
     (if is_v5 s \<and> BITS 4 7 instr = 3 then op_BLX2 pc instr s
      else if is_v5e s \<and> \<not> BIT 4 instr \<and> BIT 7 instr \<and> (\<not> BIT 5 instr \<or> BITS 12 15 instr = 0)
      then op_SMLAWy instr s
      else if is_v5e s \<and> BITS 4 11 instr = 5 then op_QSUB instr s
      else if BITS 4 11 instr = 0xB then SHPREDOWNWB instr s
      else if BITS 4 27 instr = 0x12FFF1 then WriteR15Branch (Reg s (RHSReg instr)) s
      else
        with_double instr
          (\<lambda>s. if is_v5 s \<and> BITS 4 7 instr = 7 then op_BKPT s
               else if DESTReg instr = 15 then op_MSR_CPSR instr s else s) s)"

definition dp_13 :: "u32 \<Rightarrow> 'd arm_state \<Rightarrow> 'd arm_state" where
  "dp_13 instr = with_ldrh_reg LHPREDOWNWB instr (test_op (\<lambda>l r. l XOR r) instr)"

definition dp_14 :: "u32 \<Rightarrow> 'd arm_state \<Rightarrow> 'd arm_state" where
  "dp_14 instr s =
     (if is_v5e s \<and> \<not> BIT 4 instr \<and> BIT 7 instr then op_SMLALxy instr s
      else if is_v5e s \<and> BITS 4 11 instr = 5 then op_QDADD instr s
      else
        with_strh_imm SHPREDOWN instr (with_double instr
          (\<lambda>s. if BITS 4 11 instr = 9 then op_SWPB instr s
               else if BITS 0 11 instr = 0 \<and> LHSReg instr = 15
               then set_DEST instr (GETSPSR s) s
               else s)) s)"

definition dp_15 :: "u32 \<Rightarrow> 'd arm_state \<Rightarrow> 'd arm_state" where
  "dp_15 instr =
     with_ldrh_imm LHPREDOWN instr
       (\<lambda>s. if DESTReg instr = 15 then restore_psr s else reg_arith cmp_flags instr s)"

definition dp_16 :: "u32 \<Rightarrow> 'd arm_state \<Rightarrow> 'd arm_state" where
  "dp_16 instr s =
     (if is_v5e s \<and> \<not> BIT 4 instr \<and> BIT 7 instr \<and> BITS 12 15 instr = 0 then op_SMULxy instr s
      else if is_v5e s \<and> BITS 4 11 instr = 5 then op_QDSUB instr s
      else if is_v5 s \<and> BITS 4 11 instr = 0xF1 \<and> BITS 16 19 instr = 0xF then op_CLZ instr s
      else
        with_strh_imm SHPREDOWNWB instr (with_double instr
          (\<lambda>s. if DESTReg instr = 15
               then (case DPRegRHS instr s of (rhs, s1) \<Rightarrow> ARMul_FixSPSR instr rhs s1)
               else s)) s)"

definition dp_17 :: "u32 \<Rightarrow> 'd arm_state \<Rightarrow> 'd arm_state" where
  "dp_17 instr =
     with_ldrh_imm LHPREDOWNWB instr
       (\<lambda>s. if DESTReg instr = 15 then restore_psr s else reg_arith cmn_flags instr s)"

subsection \<open>Cases 0x18 to 0x1f\<close>

definition dp_18 :: "u32 \<Rightarrow> 'd arm_state \<Rightarrow> 'd arm_state" where
  "dp_18 instr =
     with_strh_reg SHPREUP instr (with_double instr (reg_op (\<lambda>l r s. l OR r) instr))"

definition dp_19 :: "u32 \<Rightarrow> 'd arm_state \<Rightarrow> 'd arm_state" where
  "dp_19 instr = with_ldrh_reg LHPREUP instr (reg_op_s (\<lambda>l r. l OR r) instr)"

definition dp_1a :: "u32 \<Rightarrow> 'd arm_state \<Rightarrow> 'd arm_state" where
  "dp_1a instr =
     with_strh_reg SHPREUPWB instr (with_double instr (reg_op (\<lambda>l r s. r) instr))"

definition dp_1b :: "u32 \<Rightarrow> 'd arm_state \<Rightarrow> 'd arm_state" where
  "dp_1b instr = with_ldrh_reg LHPREUPWB instr (reg_op_s (\<lambda>l r. r) instr)"

definition dp_1c :: "u32 \<Rightarrow> 'd arm_state \<Rightarrow> 'd arm_state" where
  "dp_1c instr =
     with_strh_imm SHPREUP instr (with_double instr (reg_op (\<lambda>l r s. l AND NOT r) instr))"

definition dp_1d :: "u32 \<Rightarrow> 'd arm_state \<Rightarrow> 'd arm_state" where
  "dp_1d instr = with_ldrh_imm LHPREUP instr (reg_op_s (\<lambda>l r. l AND NOT r) instr)"

definition dp_1e :: "u32 \<Rightarrow> 'd arm_state \<Rightarrow> 'd arm_state" where
  "dp_1e instr =
     with_strh_imm SHPREUPWB instr (with_double instr (reg_op (\<lambda>l r s. NOT r) instr))"

definition dp_1f :: "u32 \<Rightarrow> 'd arm_state \<Rightarrow> 'd arm_state" where
  "dp_1f instr = with_ldrh_imm LHPREUPWB instr (reg_op_s (\<lambda>l r. NOT r) instr)"

subsection \<open>Cases 0x20 to 0x3f: immediate operands\<close>

definition imm_op :: "(u32 \<Rightarrow> u32 \<Rightarrow> 'd arm_state \<Rightarrow> u32) \<Rightarrow> u32 \<Rightarrow> 'd arm_state \<Rightarrow> 'd arm_state" where
  "imm_op f instr s = WRITEDEST instr (f (LHS instr s) (DPImmRHS instr) s) s"

definition imm_op_s :: "(u32 \<Rightarrow> u32 \<Rightarrow> u32) \<Rightarrow> u32 \<Rightarrow> 'd arm_state \<Rightarrow> 'd arm_state" where
  "imm_op_s f instr s =
     (case DPSImmRHS instr s of (rhs, s1) \<Rightarrow> WRITESDEST instr (f (LHS instr s1) rhs) s1)"

definition imm_test :: "(u32 \<Rightarrow> u32 \<Rightarrow> u32) \<Rightarrow> u32 \<Rightarrow> 'd arm_state \<Rightarrow> 'd arm_state" where
  "imm_test f instr s =
     (if DESTReg instr = 15 then restore_psr s
      else (case DPSImmRHS instr s of (rhs, s1) \<Rightarrow> ARMul_NegZero (f (LHS instr s1) rhs) s1))"

definition dp_imm_arith :: "nat \<Rightarrow> u32 \<Rightarrow> 'd arm_state \<Rightarrow> 'd arm_state" where
  "dp_imm_arith k instr s =
     (let l = LHS instr s; r = DPImmRHS instr
      in if k = 0x20 then imm_op (\<lambda>l r s. l AND r) instr s
         else if k = 0x21 then imm_op_s (\<lambda>l r. l AND r) instr s
         else if k = 0x22 then imm_op (\<lambda>l r s. l XOR r) instr s
         else if k = 0x23 then imm_op_s (\<lambda>l r. l XOR r) instr s
         else if k = 0x24 then imm_op (\<lambda>l r s. l - r) instr s
         else if k = 0x25 then sub_s instr l r 0 s
         else if k = 0x26 then imm_op (\<lambda>l r s. r - l) instr s
         else if k = 0x27 then sub_s instr r l 0 s
         else if k = 0x28 then imm_op (\<lambda>l r s. l + r) instr s
         else if k = 0x29 then add_s instr l r 0 s
         else if k = 0x2a then imm_op (\<lambda>l r s. l + r + carry_in s) instr s
         else if k = 0x2b then add_s instr l r (carry_in s) s
         else if k = 0x2c then imm_op (\<lambda>l r s. l - r - borrow_in s) instr s
         else if k = 0x2d then sub_s instr l r (borrow_in s) s
         else if k = 0x2e then imm_op (\<lambda>l r s. r - l - borrow_in s) instr s
         else sub_s instr r l (borrow_in s) s)"

definition dp_imm_test :: "nat \<Rightarrow> u32 \<Rightarrow> 'd arm_state \<Rightarrow> 'd arm_state" where
  "dp_imm_test k instr s =
     (let l = LHS instr s; r = DPImmRHS instr; p = (DESTReg instr = 15)
      in if k = 0x30 then s
         else if k = 0x31 then imm_test (\<lambda>l r. l AND r) instr s
         else if k = 0x32 then (if p then ARMul_FixCPSR instr r s else s)
         else if k = 0x33 then imm_test (\<lambda>l r. l XOR r) instr s
         else if k = 0x34 then s
         else if k = 0x35 then (if p then restore_psr s else cmp_flags l r s)
         else if k = 0x36 then (if p then ARMul_FixSPSR instr r s else s)
         else (if p then restore_psr s else cmn_flags l r s))"

definition dp_imm_logic :: "nat \<Rightarrow> u32 \<Rightarrow> 'd arm_state \<Rightarrow> 'd arm_state" where
  "dp_imm_logic k instr s =
     (if k = 0x38 then imm_op (\<lambda>l r s. l OR r) instr s
      else if k = 0x39 then imm_op_s (\<lambda>l r. l OR r) instr s
      else if k = 0x3a then imm_op (\<lambda>l r s. r) instr s
      else if k = 0x3b then imm_op_s (\<lambda>l r. r) instr s
      else if k = 0x3c then imm_op (\<lambda>l r s. l AND NOT r) instr s
      else if k = 0x3d then imm_op_s (\<lambda>l r. l AND NOT r) instr s
      else if k = 0x3e then imm_op (\<lambda>l r s. NOT r) instr s
      else imm_op_s (\<lambda>l r. NOT r) instr s)"

subsection \<open>The switch\<close>

definition dp_reg_cases ::
  "u32 \<Rightarrow> u32 \<Rightarrow> ('d arm_state \<Rightarrow> 'd arm_state) list" where
  "dp_reg_cases pc instr =
     [dp_00 instr, dp_01 instr, dp_02 instr, dp_03 instr,
      dp_04 instr, dp_05 instr, dp_06 instr, dp_07 instr,
      dp_08 instr, dp_09 instr, dp_0a instr, dp_0b instr,
      dp_0c instr, dp_0d instr, dp_0e instr, dp_0f instr,
      dp_10 instr, dp_11 instr, dp_12 pc instr, dp_13 instr,
      dp_14 instr, dp_15 instr, dp_16 instr, dp_17 instr,
      dp_18 instr, dp_19 instr, dp_1a instr, dp_1b instr,
      dp_1c instr, dp_1d instr, dp_1e instr, dp_1f instr]"

definition exec_dp ::
  "u32 \<Rightarrow> u32 \<Rightarrow> 'd arm_state \<Rightarrow> 'd arm_state" where
  "exec_dp pc instr s =
     (let k = field 20 27 instr
      in if k < 0x20 then (dp_reg_cases pc instr ! k) s
         else if k < 0x30 then dp_imm_arith k instr s
         else if k < 0x38 then dp_imm_test k instr s
         else dp_imm_logic k instr s)"

end
