(* ===== verification/Arm_Xfer.thy ===== *)
theory Arm_Xfer
  imports Arm_Dp
begin

text \<open>
  The transfer and branch cases 0x40 to 0xbf of the instruction switch of
  arch_arm/common/armemu32.c: LDR, STR, LDRB and STRB in all addressing modes, LDM and STM,
  B and BL. The case number \<open>k\<close> is \<^verbatim>\<open>BITS (20, 27)\<close>; its bits select load (0), write
  back (1), byte or user registers (2), up (3) and pre-indexing (4), and the definitions
  read them where the sixteen C cases of a group differ only in them.
\<close>

subsection \<open>LDR, STR, LDRB, STRB\<close>

definition k_load :: "nat \<Rightarrow> bool" where "k_load k \<longleftrightarrow> bit k 0"
definition k_wb :: "nat \<Rightarrow> bool" where "k_wb k \<longleftrightarrow> bit k 1"
definition k_byte :: "nat \<Rightarrow> bool" where "k_byte k \<longleftrightarrow> bit k 2"
definition k_up :: "nat \<Rightarrow> bool" where "k_up k \<longleftrightarrow> bit k 3"
definition k_pre :: "nat \<Rightarrow> bool" where "k_pre k \<longleftrightarrow> bit k 4"

definition transfer :: "nat \<Rightarrow> u32 \<Rightarrow> u32 \<Rightarrow> 'd arm_state \<Rightarrow> bool \<times> 'd arm_state" where
  "transfer k instr address s =
     (if k_load k
      then (if k_byte k then LoadByte instr address False s else LoadWord instr address s)
      else (if k_byte k then StoreByte instr address s else StoreWord instr address s))"

definition offset_by :: "nat \<Rightarrow> u32 \<Rightarrow> u32 \<Rightarrow> u32" where
  "offset_by k base off = (if k_up k then base + off else base - off)"

text \<open>
  The post-indexed forms with write back lower \<^verbatim>\<open>NtransSig\<close> during the transfer.
\<close>

definition as_user :: "nat \<Rightarrow> 'd arm_state \<Rightarrow> 'd arm_state" where
  "as_user k s = (if k_wb k then s\<lparr>NtransSig := False\<rparr> else s)"

definition end_user :: "nat \<Rightarrow> 'd arm_state \<Rightarrow> 'd arm_state" where
  "end_user k s = (if k_wb k then s\<lparr>NtransSig := (Mode s AND 3 \<noteq> 0)\<rparr> else s)"

definition ls_post_imm :: "nat \<Rightarrow> u32 \<Rightarrow> 'd arm_state \<Rightarrow> 'd arm_state" where
  "ls_post_imm k instr s =
     (let lhs = LHS instr s
      in end_user k
           (write_back instr (offset_by k lhs (LSImmRHS instr))
              (transfer k instr lhs (as_user k s))))"

definition ls_pre_imm :: "nat \<Rightarrow> u32 \<Rightarrow> 'd arm_state \<Rightarrow> 'd arm_state" where
  "ls_pre_imm k instr s =
     (let temp = offset_by k (LHS instr s) (LSImmRHS instr)
      in if k_wb k then write_back instr temp (transfer k instr temp s)
         else snd (transfer k instr temp s))"

text \<open>
  With a register offset, bit 4 set is an undefined instruction (or one of ARMv6, which no
  supported core is). The post-indexed stores read the offset after the transfer, the
  loads before it.
\<close>

definition ls_post_reg :: "nat \<Rightarrow> u32 \<Rightarrow> 'd arm_state \<Rightarrow> 'd arm_state" where
  "ls_post_reg k instr s =
     (if BIT 4 instr then ARMul_UndefInstr instr s
      else
        (let lhs = LHS instr s;
             r = transfer k instr lhs (as_user k s);
             off = LSRegRHS instr (if k_load k then s else snd r)
         in end_user k (write_back instr (offset_by k lhs off) r)))"

definition ls_pre_reg ::
  "nat \<Rightarrow> u32 \<Rightarrow> 'd arm_state \<Rightarrow> 'd arm_state" where
  "ls_pre_reg k instr s =
     (if BIT 4 instr then
        (if k = 0x7f \<and> BITS 0 19 instr = 0xfdefe then
           (case OSHandleSWI_Breakpoint s of (handled, s1) \<Rightarrow> if handled then s1 else ARMul_Abort SWIV s1)
         else ARMul_UndefInstr instr s)
      else
        (let temp = offset_by k (LHS instr s) (LSRegRHS instr s)
         in if k_wb k then write_back instr temp (transfer k instr temp s)
            else snd (transfer k instr temp s)))"

subsection \<open>LDM and STM\<close>

text \<open>\<^verbatim>\<open>ARMul_BitList\<close>: four times the number of set bits of a byte.\<close>

definition ARMul_BitList :: "u32 \<Rightarrow> u32" where
  "ARMul_BitList b = 4 * word_of_nat (length (filter (\<lambda>i. b AND push_bit i 1 > 0) [0 ..< 8]))"

definition LSMNumRegs :: "u32 \<Rightarrow> u32" where
  "LSMNumRegs instr = ARMul_BitList (BITS 0 7 instr) + ARMul_BitList (BITS 8 15 instr)"

definition LSBase :: "u32 \<Rightarrow> 'd arm_state \<Rightarrow> u32" where
  "LSBase instr s = Reg s (LHSReg instr)"

definition block_transfer :: "nat \<Rightarrow> u32 \<Rightarrow> u32 \<Rightarrow> u32 \<Rightarrow> 'd arm_state \<Rightarrow> 'd arm_state" where
  "block_transfer k instr address WBBase s =
     (if k_load k
      then (if k_byte k then LoadSMult instr address WBBase s else LoadMult instr address WBBase s)
      else (if k_byte k then StoreSMult instr address WBBase s
            else StoreMult instr address WBBase s))"

text \<open>First address and new base; the cases without write back pass 0 as the base.\<close>

definition block_first :: "nat \<Rightarrow> u32 \<Rightarrow> u32 \<Rightarrow> u32" where
  "block_first k base n =
     (if k_up k then (if k_pre k then base + 4 else base)
      else (if k_pre k then base - n else base - n + 4))"

definition block_base :: "nat \<Rightarrow> u32 \<Rightarrow> u32 \<Rightarrow> u32" where
  "block_base k base n =
     (if \<not> k_wb k then 0 else if k_up k then base + n else base - n)"

definition block_op :: "nat \<Rightarrow> u32 \<Rightarrow> 'd arm_state \<Rightarrow> 'd arm_state" where
  "block_op k instr s =
     (let base = LSBase instr s; n = LSMNumRegs instr
      in block_transfer k instr (block_first k base n) (block_base k base n) s)"

subsection \<open>Branches\<close>

definition POSBRANCH :: "u32 \<Rightarrow> u32" where
  "POSBRANCH instr = push_bit 2 (instr AND 0x7fffff)"

definition NEGBRANCH :: "u32 \<Rightarrow> u32" where
  "NEGBRANCH instr = push_bit 2 (0xff000000 OR (instr AND 0xffffff))"

definition op_branch :: "nat \<Rightarrow> u32 \<Rightarrow> u32 \<Rightarrow> 'd arm_state \<Rightarrow> 'd arm_state" where
  "op_branch k pc instr s =
     (let off = (if k_up k then NEGBRANCH instr else POSBRANCH instr);
          s1 = (if k_pre k then set_reg 14 (pc + 4) s else s)
      in FLUSHPIPE (set_reg 15 (pc + 8 + off) s1))"

subsection \<open>The switch\<close>

definition exec_xfer ::
  "u32 \<Rightarrow> u32 \<Rightarrow> 'd arm_state \<Rightarrow> 'd arm_state" where
  "exec_xfer pc instr s =
     (let k = field 20 27 instr
      in if k < 0x40 then exec_dp pc instr s
         else if k < 0x50 then ls_post_imm k instr s
         else if k < 0x60 then ls_pre_imm k instr s
         else if k < 0x70 then ls_post_reg k instr s
         else if k < 0x80 then ls_pre_reg k instr s
         else if k < 0xa0 then block_op k instr s
         else op_branch k pc instr s)"

end
