(* ===== verification/Arm_Copro.thy ===== *)
theory Arm_Copro
  imports Arm_Xfer
begin

text \<open>
  Coprocessors: the handlers of arch_arm/common/armcopro.c (the validation coprocessors 4 and 5
  with their sixteen registers, the MMU as coprocessor 15), the table \<^verbatim>\<open>ARMul_CoProInit\<close> installs,
  and the instructions that call it (armsupp.c: LDC, STC, MCR, MRC, CDP) with their
  busy-waiting. A handler that never stops answering BUSY or INC is a loop that does not
  end: the instruction is then \<open>None\<close>.
\<close>

subsection \<open>Protocol (armdefs.h)\<close>

datatype cp_type = ARMul_FIRST | ARMul_TRANSFER | ARMul_BUSY | ARMul_DATA | ARMul_INTERRUPT

datatype cp_result = CP_DONE | CP_CANT | CP_BUSY | CP_INC

text \<open>
  One coprocessor: the five instruction handlers of the arrays \<^verbatim>\<open>LDC\<close>, \<^verbatim>\<open>STC\<close>, \<^verbatim>\<open>MRC\<close>, \<^verbatim>\<open>MCR\<close> and \<^verbatim>\<open>CDP\<close>
  of the state. STC and MRC get the word their pointer argument points to and return
  the word after the call.
\<close>

record 'd coprocessor =
  cpLDC :: "cp_type \<Rightarrow> u32 \<Rightarrow> u32 \<Rightarrow> 'd arm_state \<Rightarrow> cp_result \<times> 'd arm_state"
  cpSTC :: "cp_type \<Rightarrow> u32 \<Rightarrow> u32 \<Rightarrow> 'd arm_state \<Rightarrow> cp_result \<times> u32 \<times> 'd arm_state"
  cpMRC :: "cp_type \<Rightarrow> u32 \<Rightarrow> u32 \<Rightarrow> 'd arm_state \<Rightarrow> cp_result \<times> u32 \<times> 'd arm_state"
  cpMCR :: "cp_type \<Rightarrow> u32 \<Rightarrow> u32 \<Rightarrow> 'd arm_state \<Rightarrow> cp_result \<times> 'd arm_state"
  cpCDP :: "cp_type \<Rightarrow> u32 \<Rightarrow> 'd arm_state \<Rightarrow> cp_result \<times> 'd arm_state"

subsection \<open>Handlers (armcopro.c)\<close>

definition NoCoPro3R :: "cp_type \<Rightarrow> u32 \<Rightarrow> 'd arm_state \<Rightarrow> cp_result \<times> 'd arm_state" where
  "NoCoPro3R a b s = (CP_CANT, s)"

definition NoCoPro4R :: "cp_type \<Rightarrow> u32 \<Rightarrow> u32 \<Rightarrow> 'd arm_state \<Rightarrow> cp_result \<times> 'd arm_state" where
  "NoCoPro4R a b c s = (CP_CANT, s)"

definition NoCoPro4W ::
  "cp_type \<Rightarrow> u32 \<Rightarrow> u32 \<Rightarrow> 'd arm_state \<Rightarrow> cp_result \<times> u32 \<times> 'd arm_state" where
  "NoCoPro4W a b c s = (CP_CANT, c, s)"

definition MMUInit :: "'d arm_state \<Rightarrow> 'd arm_state" where
  "MMUInit s =
     s\<lparr>cop := (cop s)\<lparr>MMUReg := (MMUReg (cop s))
         (1 := push_bit 4 (of_bool (prog32Sig s)) OR push_bit 5 (of_bool (data32Sig s))
               OR push_bit 6 1 OR push_bit 7 (of_bool (bigendSig s)))\<rparr>\<rparr>"

definition MMUMRC :: "cp_type \<Rightarrow> u32 \<Rightarrow> u32 \<Rightarrow> 'd arm_state \<Rightarrow> cp_result \<times> u32 \<times> 'd arm_state" where
  "MMUMRC type instr v s = (CP_DONE, mmu_mrc instr s, s)"

definition MMUMCR :: "cp_type \<Rightarrow> u32 \<Rightarrow> u32 \<Rightarrow> 'd arm_state \<Rightarrow> cp_result \<times> 'd arm_state" where
  "MMUMCR type instr v s = (CP_DONE, mmu_mcr instr v s)"

definition set_val_reg :: "nat \<Rightarrow> u32 \<Rightarrow> 'd arm_state \<Rightarrow> 'd arm_state" where
  "set_val_reg r v s = s\<lparr>cop := (cop s)\<lparr>ValReg := (ValReg (cop s))(r := v)\<rparr>\<rparr>"

definition ValLDC :: "cp_type \<Rightarrow> u32 \<Rightarrow> u32 \<Rightarrow> 'd arm_state \<Rightarrow> cp_result \<times> 'd arm_state" where
  "ValLDC type instr v s =
     (if type \<noteq> ARMul_DATA then (CP_DONE, s\<lparr>cop := (cop s)\<lparr>ldc_words := 0\<rparr>\<rparr>)
      else
        (let s1 = set_val_reg (field 12 15 instr) v s;
             w = ldc_words (cop s1)
         in if BIT 22 instr
            then (if w \<noteq> 4 then CP_INC else CP_DONE, s1\<lparr>cop := (cop s1)\<lparr>ldc_words := w + 1\<rparr>\<rparr>)
            else (CP_DONE, s1)))"

definition ValSTC :: "cp_type \<Rightarrow> u32 \<Rightarrow> u32 \<Rightarrow> 'd arm_state \<Rightarrow> cp_result \<times> u32 \<times> 'd arm_state" where
  "ValSTC type instr v s =
     (if type \<noteq> ARMul_DATA then (CP_DONE, v, s\<lparr>cop := (cop s)\<lparr>stc_words := 0\<rparr>\<rparr>)
      else
        (let v1 = ValReg (cop s) (field 12 15 instr);
             w = stc_words (cop s)
         in if BIT 22 instr
            then (if w \<noteq> 4 then CP_INC else CP_DONE, v1, s\<lparr>cop := (cop s)\<lparr>stc_words := w + 1\<rparr>\<rparr>)
            else (CP_DONE, v1, s)))"

definition ValMRC :: "cp_type \<Rightarrow> u32 \<Rightarrow> u32 \<Rightarrow> 'd arm_state \<Rightarrow> cp_result \<times> u32 \<times> 'd arm_state" where
  "ValMRC type instr v s = (CP_DONE, ValReg (cop s) (field 16 19 instr), s)"

definition ValMCR :: "cp_type \<Rightarrow> u32 \<Rightarrow> u32 \<Rightarrow> 'd arm_state \<Rightarrow> cp_result \<times> 'd arm_state" where
  "ValMCR type instr v s = (CP_DONE, set_val_reg (field 16 19 instr) v s)"

definition ValCDP :: "cp_type \<Rightarrow> u32 \<Rightarrow> 'd arm_state \<Rightarrow> cp_result \<times> 'd arm_state" where
  "ValCDP type instr s =
     (if BITS 20 23 instr \<noteq> 0 then (CP_CANT, s)
      else if type = ARMul_FIRST then
        (let howlong = ValReg (cop s) (field 0 3 instr)
         in (if howlong = 0 then CP_DONE else CP_BUSY,
             s\<lparr>cop := (cop s)\<lparr>val_finish := ARMul_Time s + howlong\<rparr>\<rparr>))
      else if type = ARMul_BUSY then
        (if val_finish (cop s) \<le> ARMul_Time s then CP_DONE else CP_BUSY, s)
      else (CP_CANT, s))"

definition IntCDP :: "cp_type \<Rightarrow> u32 \<Rightarrow> 'd arm_state \<Rightarrow> cp_result \<times> 'd arm_state" where
  "IntCDP type instr s =
     (let howlong = ValReg (cop s) (field 0 3 instr);
          op = field 20 23 instr
      in if op = 0 then
           (if type = ARMul_FIRST then
              (if howlong = 0 then CP_DONE else CP_BUSY,
               s\<lparr>cop := (cop s)\<lparr>int_finish := ARMul_Time s + howlong\<rparr>\<rparr>)
            else if type = ARMul_BUSY then
              (if int_finish (cop s) \<le> ARMul_Time s then CP_DONE else CP_BUSY, s)
            else (CP_DONE, s))
         else if op = 1 then
           (CP_DONE, if howlong = 0 then ARMul_Abort FIQV s else ARMul_ScheduleEvent howlong DoAFIQ s)
         else if op = 2 then
           (CP_DONE, if howlong = 0 then ARMul_Abort IRQV s else ARMul_ScheduleEvent howlong DoAIRQ s)
         else if op = 3 then (CP_DONE, s\<lparr>bus := bus s\<lparr>io := (io (bus s))\<lparr>NfiqSig := 1\<rparr>\<rparr>\<rparr>)
         else if op = 4 then (CP_DONE, s\<lparr>bus := bus s\<lparr>io := (io (bus s))\<lparr>NirqSig := 1\<rparr>\<rparr>\<rparr>)
         else if op = 5 then (CP_DONE, set_val_reg (field 0 3 instr) (ARMul_Time s) s)
         else (CP_CANT, s))"

subsection \<open>The table (armcopro.c)\<close>

text \<open>\<^verbatim>\<open>ARMul_CoProDetach\<close> of a slot, and \<^verbatim>\<open>ARMul_CoProAttach\<close>, whose NULL arguments change nothing.\<close>

definition ARMul_CoProDetach :: "nat \<Rightarrow> (nat \<Rightarrow> 'd coprocessor) \<Rightarrow> nat \<Rightarrow> 'd coprocessor" where
  "ARMul_CoProDetach n t =
     t(n := \<lparr>cpLDC = NoCoPro4R, cpSTC = NoCoPro4W, cpMRC = NoCoPro4W, cpMCR = NoCoPro4R, cpCDP = NoCoPro3R\<rparr>)"

definition ARMul_CoProAttach ::
  "nat \<Rightarrow> (cp_type \<Rightarrow> u32 \<Rightarrow> u32 \<Rightarrow> 'd arm_state \<Rightarrow> cp_result \<times> 'd arm_state) option \<Rightarrow>
   (cp_type \<Rightarrow> u32 \<Rightarrow> u32 \<Rightarrow> 'd arm_state \<Rightarrow> cp_result \<times> u32 \<times> 'd arm_state) option \<Rightarrow>
   (cp_type \<Rightarrow> u32 \<Rightarrow> u32 \<Rightarrow> 'd arm_state \<Rightarrow> cp_result \<times> u32 \<times> 'd arm_state) option \<Rightarrow>
   (cp_type \<Rightarrow> u32 \<Rightarrow> u32 \<Rightarrow> 'd arm_state \<Rightarrow> cp_result \<times> 'd arm_state) option \<Rightarrow>
   (cp_type \<Rightarrow> u32 \<Rightarrow> 'd arm_state \<Rightarrow> cp_result \<times> 'd arm_state) option \<Rightarrow>
   (nat \<Rightarrow> 'd coprocessor) \<Rightarrow> nat \<Rightarrow> 'd coprocessor" where
  "ARMul_CoProAttach n ldc stc mrc mcr cdp t =
     t(n := \<lparr>cpLDC = (case ldc of None \<Rightarrow> cpLDC (t n) | Some f \<Rightarrow> f),
             cpSTC = (case stc of None \<Rightarrow> cpSTC (t n) | Some f \<Rightarrow> f),
             cpMRC = (case mrc of None \<Rightarrow> cpMRC (t n) | Some f \<Rightarrow> f),
             cpMCR = (case mcr of None \<Rightarrow> cpMCR (t n) | Some f \<Rightarrow> f),
             cpCDP = (case cdp of None \<Rightarrow> cpCDP (t n) | Some f \<Rightarrow> f)\<rparr>)"

text \<open>
  \<^verbatim>\<open>ARMul_CoProInit\<close>: the table for a processor and the state after the initialisation routines.
  The coprocessors of the EP9312 (maverick.c, slots 4 to 6) and of the XScale (xscale_copro.c,
  slots 6 and 13 to 15, with their initialisation) are the arguments \<open>ep9312\<close>, \<open>xscale\<close> and
  \<open>xscale_init\<close>.
\<close>

definition ARMul_CoProInit ::
  "((nat \<Rightarrow> 'd coprocessor) \<Rightarrow> nat \<Rightarrow> 'd coprocessor) \<Rightarrow>
   (bool \<Rightarrow> (nat \<Rightarrow> 'd coprocessor) \<Rightarrow> nat \<Rightarrow> 'd coprocessor) \<Rightarrow> ('d arm_state \<Rightarrow> 'd arm_state) \<Rightarrow>
   (nat \<Rightarrow> 'd coprocessor) \<Rightarrow> 'd arm_state \<Rightarrow> (nat \<Rightarrow> 'd coprocessor) \<times> 'd arm_state" where
  "ARMul_CoProInit ep9312 xscale xscale_init t s =
     (let t0 = fold ARMul_CoProDetach [0 ..< 16] t;
          t1 = (if is_ep9312 s then ep9312 t0
                else ARMul_CoProAttach 5 None None (Some ValMRC) (Some ValMCR) (Some IntCDP)
                       (ARMul_CoProAttach 4 (Some ValLDC) (Some ValSTC) (Some ValMRC) (Some ValMCR)
                         (Some ValCDP) t0));
          t2 = (if is_XScale s then xscale (is_pxa27x s) t1
                else ARMul_CoProAttach 15 None None (Some MMUMRC) (Some MMUMCR) None t1);
          t3 = ARMul_CoProAttach 2 (Some ValLDC) (Some ValSTC) None None None
                 (ARMul_CoProAttach 1 None None (Some ValMRC) (Some ValMCR) None t2)
      in (t3, if is_XScale s then xscale_init s else MMUInit s))"

subsection \<open>Access and aborts (armemu.h, for armsupp.c without MODE32)\<close>

definition CPNum :: "u32 \<Rightarrow> nat" where
  "CPNum instr = field 8 11 instr"

text \<open>\<open>allowed\<close> is \<^verbatim>\<open>xscale_cp15_cp_access_allowed\<close>, the access register of the XScale.\<close>

definition CP_ACCESS_ALLOWED :: "(nat \<Rightarrow> 'd arm_state \<Rightarrow> bool) \<Rightarrow> nat \<Rightarrow> 'd arm_state \<Rightarrow> bool" where
  "CP_ACCESS_ALLOWED allowed cp s \<longleftrightarrow> 14 \<le> cp \<or> \<not> is_XScale s \<or> allowed cp s"

definition VECTORACCESS :: "u32 \<Rightarrow> 'd arm_state \<Rightarrow> bool" where
  "VECTORACCESS address s \<longleftrightarrow> address < 0x20 \<and> \<not> MODE32BIT s \<and> prog32Sig s"

definition ADDREXCEPT :: "u32 \<Rightarrow> 'd arm_state \<Rightarrow> bool" where
  "ADDREXCEPT address s \<longleftrightarrow> address > 0x03ffffff \<and> \<not> data32Sig s"

definition INTERNALABORT :: "u32 \<Rightarrow> 'd arm_state \<Rightarrow> 'd arm_state" where
  "INTERNALABORT address s = s\<lparr>Aborted := (if address < 0x20 then DataAbortV else AddrExceptnV)\<rparr>"

definition TAKEABORT26 :: "'d arm_state \<Rightarrow> 'd arm_state" where
  "TAKEABORT26 s = ARMul_Abort (if Aborted s = AddrExceptnV then AddrExceptnV else DataAbortV) s"

definition CPTAKEABORT :: "'d arm_state \<Rightarrow> 'd arm_state" where
  "CPTAKEABORT s =
     ARMul_Abort (if Aborted s = 0 then UndefinedInstrV
                  else if Aborted s = AddrExceptnV then AddrExceptnV else DataAbortV) s"

subsection \<open>Busy-waiting (armsupp.c)\<close>

text \<open>
  The loop all five instructions share: one internal cycle per turn, until the coprocessor is
  ready or an interrupt is taken. The answer is \<open>None\<close> after an interrupt. \<open>h\<close> is the handler
  with its data argument, threaded as \<open>x\<close>.
\<close>

partial_function (option) busy_wait ::
  "(cp_type \<Rightarrow> 'x \<Rightarrow> 'd arm_state \<Rightarrow> cp_result \<times> 'x \<times> 'd arm_state) \<Rightarrow> cp_result \<Rightarrow> 'x \<Rightarrow>
   'd arm_state \<Rightarrow> (cp_result option \<times> 'x \<times> 'd arm_state) option" where
  "busy_wait h r x s =
     (if r \<noteq> CP_BUSY then Some (Some r, x, s)
      else
        (let p = IntPending (ARMul_Icycles 1 s)
         in if fst p
            then Some (None, x, snd (snd (h ARMul_INTERRUPT x (snd p))))
            else
              (let q = h ARMul_BUSY x (snd p)
               in busy_wait h (fst q) (fst (snd q)) (snd (snd q)))))"

declare busy_wait.simps [code]

definition cp_start ::
  "(cp_type \<Rightarrow> 'x \<Rightarrow> 'd arm_state \<Rightarrow> cp_result \<times> 'x \<times> 'd arm_state) \<Rightarrow> 'x \<Rightarrow>
   'd arm_state \<Rightarrow> (cp_result option \<times> 'x \<times> 'd arm_state) option" where
  "cp_start h x s = (case h ARMul_FIRST x s of (r, x1, s1) \<Rightarrow> busy_wait h r x1 s1)"

text \<open>A handler without a result, for \<open>busy_wait\<close>.\<close>

definition no_data :: "cp_result \<times> 'd arm_state \<Rightarrow> cp_result \<times> unit \<times> 'd arm_state" where
  "no_data r = (fst r, (), snd r)"

subsection \<open>LDC and STC (armsupp.c)\<close>

definition cp_aborted :: "'d arm_state \<Rightarrow> bool" where
  "cp_aborted s \<longleftrightarrow> abortSig s \<or> Aborted s \<noteq> 0"

partial_function (option) ldc_words_loop ::
  "'d coprocessor \<Rightarrow> u32 \<Rightarrow> u32 \<Rightarrow> cp_result \<Rightarrow> 'd arm_state \<Rightarrow> 'd arm_state option" where
  "ldc_words_loop c instr address r s =
     (if r \<noteq> CP_INC then Some s
      else
        (let p = ARMul_LoadWordN (address + 4) s
         in if cp_aborted (snd p) then Some (snd p)
            else
              (let q = cpLDC c ARMul_DATA instr (fst p) (snd p)
               in ldc_words_loop c instr (address + 4) (fst q) (snd q))))"

declare ldc_words_loop.simps [code]

partial_function (option) stc_words_loop ::
  "'d coprocessor \<Rightarrow> u32 \<Rightarrow> u32 \<Rightarrow> cp_result \<Rightarrow> u32 \<Rightarrow> 'd arm_state \<Rightarrow> 'd arm_state option" where
  "stc_words_loop c instr address r v s =
     (if r \<noteq> CP_INC then Some s
      else
        (let q = cpSTC c ARMul_DATA instr v s;
             s1 = ARMul_StoreWordN (address + 4) (fst (snd q)) (snd (snd q))
         in if cp_aborted s1 then Some s1
            else stc_words_loop c instr (address + 4) (fst q) (fst (snd q)) s1))"

declare stc_words_loop.simps [code]

text \<open>The label \<^verbatim>\<open>L_ldc_takeabort\<close>: write back of the base, and the abort.\<close>

definition cp_transfer_end :: "u32 \<Rightarrow> 'd arm_state \<Rightarrow> 'd arm_state" where
  "cp_transfer_end instr s =
     (let s1 = (if BIT 21 instr \<and> \<not> (cp_aborted s \<and> \<not> lateabtSig s) then set_LSBase instr (Base s) s else s)
      in if cp_aborted s1 then TAKEABORT26 s1 else s1)"

definition ARMul_LDC ::
  "(nat \<Rightarrow> 'd arm_state \<Rightarrow> bool) \<Rightarrow> (nat \<Rightarrow> 'd coprocessor) \<Rightarrow> u32 \<Rightarrow> u32 \<Rightarrow> 'd arm_state \<Rightarrow>
   'd arm_state option" where
  "ARMul_LDC allowed cps instr address s =
     (if \<not> CP_ACCESS_ALLOWED allowed (CPNum instr) s then Some (ARMul_UndefInstr instr s)
      else
        (let c = cps (CPNum instr);
             s1 = (if ADDREXCEPT address s then INTERNALABORT address s else s)
         in case cp_start (\<lambda>ty x s. no_data (cpLDC c ty instr 0 s)) () s1 of
              None \<Rightarrow> None
            | Some (None, _, s2) \<Rightarrow> Some s2
            | Some (Some r, _, s2) \<Rightarrow>
                if r = CP_CANT then Some (CPTAKEABORT s2)
                else
                  (let s3 = snd (cpLDC c ARMul_TRANSFER instr 0 s2);
                       p = ARMul_LoadWordN address s3
                   in if cp_aborted (snd p) then Some (cp_transfer_end instr (snd p))
                      else
                        (let q = cpLDC c ARMul_DATA instr (fst p) (BUSUSEDINCPCN (snd p))
                         in map_option (cp_transfer_end instr)
                              (ldc_words_loop c instr address (fst q) (snd q))))))"

definition ARMul_STC ::
  "(nat \<Rightarrow> 'd arm_state \<Rightarrow> bool) \<Rightarrow> (nat \<Rightarrow> 'd coprocessor) \<Rightarrow> u32 \<Rightarrow> u32 \<Rightarrow> 'd arm_state \<Rightarrow>
   'd arm_state option" where
  "ARMul_STC allowed cps instr address s =
     (if \<not> CP_ACCESS_ALLOWED allowed (CPNum instr) s then Some (ARMul_UndefInstr instr s)
      else
        (let c = cps (CPNum instr);
             excepts = (\<lambda>s. ADDREXCEPT address s \<or> VECTORACCESS address s);
             s1 = (if excepts s then INTERNALABORT address s else s)
         in case cp_start (\<lambda>ty x s. cpSTC c ty instr x s) (junk s) s1 of
              None \<Rightarrow> None
            | Some (None, _, s2) \<Rightarrow> Some s2
            | Some (Some r, v, s2) \<Rightarrow>
                if r = CP_CANT then Some (CPTAKEABORT s2)
                else
                  (let s3 = (if excepts s2 then INTERNALABORT address s2 else s2);
                       q = cpSTC c ARMul_DATA instr v (BUSUSEDINCPCN s3);
                       s4 = ARMul_StoreWordN address (fst (snd q)) (snd (snd q))
                   in if cp_aborted s4 then Some (cp_transfer_end instr s4)
                      else map_option (cp_transfer_end instr)
                             (stc_words_loop c instr address (fst q) (fst (snd q)) s4))))"

subsection \<open>MCR, MRC and CDP (armsupp.c)\<close>

definition ARMul_MCR ::
  "(nat \<Rightarrow> 'd arm_state \<Rightarrow> bool) \<Rightarrow> (nat \<Rightarrow> 'd coprocessor) \<Rightarrow> u32 \<Rightarrow> u32 \<Rightarrow> 'd arm_state \<Rightarrow>
   'd arm_state option" where
  "ARMul_MCR allowed cps instr source s =
     (if \<not> CP_ACCESS_ALLOWED allowed (CPNum instr) s then Some (ARMul_UndefInstr instr s)
      else
        (let c = cps (CPNum instr)
         in case cp_start (\<lambda>ty x s. no_data (cpMCR c ty instr (if ty = ARMul_INTERRUPT then 0 else source) s))
                   () s of
              None \<Rightarrow> None
            | Some (None, _, s1) \<Rightarrow> Some s1
            | Some (Some r, _, s1) \<Rightarrow>
                Some (if r = CP_CANT then ARMul_Abort UndefinedInstrV s1
                      else ARMul_Ccycles 1 (BUSUSEDINCPCN s1))))"

definition ARMul_MRC ::
  "(nat \<Rightarrow> 'd arm_state \<Rightarrow> bool) \<Rightarrow> (nat \<Rightarrow> 'd coprocessor) \<Rightarrow> u32 \<Rightarrow> 'd arm_state \<Rightarrow>
   (u32 \<times> 'd arm_state) option" where
  "ARMul_MRC allowed cps instr s =
     (if \<not> CP_ACCESS_ALLOWED allowed (CPNum instr) s then Some (0, ARMul_UndefInstr instr s)
      else
        (let c = cps (CPNum instr)
         in case cp_start (\<lambda>ty x s. cpMRC c ty instr x s) 0 s of
              None \<Rightarrow> None
            | Some (None, _, s1) \<Rightarrow> Some (0, s1)
            | Some (Some r, v, s1) \<Rightarrow>
                Some (if r = CP_CANT
                      then (let s2 = ARMul_Abort UndefinedInstrV s1 in (ECC s2, s2))
                      else (v, ARMul_Icycles 1 (ARMul_Ccycles 1 (BUSUSEDINCPCN s1))))))"

definition ARMul_CDP ::
  "(nat \<Rightarrow> 'd arm_state \<Rightarrow> bool) \<Rightarrow> (nat \<Rightarrow> 'd coprocessor) \<Rightarrow> u32 \<Rightarrow> 'd arm_state \<Rightarrow>
   'd arm_state option" where
  "ARMul_CDP allowed cps instr s =
     (if \<not> CP_ACCESS_ALLOWED allowed (CPNum instr) s then Some (ARMul_UndefInstr instr s)
      else
        (let c = cps (CPNum instr)
         in case cp_start (\<lambda>ty x s. no_data (cpCDP c ty instr s)) () s of
              None \<Rightarrow> None
            | Some (None, _, s1) \<Rightarrow> Some s1
            | Some (Some r, _, s1) \<Rightarrow>
                Some (if r = CP_CANT then ARMul_Abort UndefinedInstrV s1 else BUSUSEDN s1)))"

end
