(* ===== verification/Arm_Thumb.thy ===== *)
theory Arm_Thumb
  imports Arm_Xfer
begin

text \<open>
  The Thumb decoder, arch_arm/common/thumbemu.c: a Thumb instruction is translated to the ARM
  instruction that does the same, which the emulator then executes; branches are executed
  here. One definition per instruction format, in the order of the switch.
\<close>

subsection \<open>Results (armdefs.h, armemu.h)\<close>

datatype tdstate = t_undefined | t_decoded | t_branch

text \<open>Condition codes.\<close>

definition EQ :: nat where "EQ = 0"
definition NE :: nat where "NE = 1"
definition CS :: nat where "CS = 2"
definition CC :: nat where "CC = 3"
definition MI :: nat where "MI = 4"
definition PL :: nat where "PL = 5"
definition VS :: nat where "VS = 6"
definition VC :: nat where "VC = 7"
definition HI :: nat where "HI = 8"
definition LS :: nat where "LS = 9"
definition GE :: nat where "GE = 10"
definition LT :: nat where "LT = 11"
definition GT :: nat where "GT = 12"
definition LE :: nat where "LE = 13"
definition AL :: nat where "AL = 14"
definition NV :: nat where "NV = 15"

lemmas condition_codes =
  EQ_def NE_def CS_def CC_def MI_def PL_def VS_def VC_def HI_def LS_def GE_def LT_def GT_def LE_def
  AL_def NV_def

text \<open>
  Whether a conditional branch is taken; the same tests are the condition check of
  \<^verbatim>\<open>ARMul_Emulate32\<close>.
\<close>

definition cond_taken :: "nat \<Rightarrow> 'd arm_state \<Rightarrow> bool" where
  "cond_taken c s =
     (let n = NFlag s; z = ZFlag s; cy = CFlag s; v = VFlag s
      in if c = EQ then z
         else if c = NE then \<not> z
         else if c = VS then v
         else if c = VC then \<not> v
         else if c = MI then n
         else if c = PL then \<not> n
         else if c = CS then cy
         else if c = CC then \<not> cy
         else if c = HI then cy \<and> \<not> z
         else if c = LS then \<not> cy \<or> z
         else if c = GE then (\<not> n \<and> \<not> v) \<or> (n \<and> v)
         else if c = LT then (n \<and> \<not> v) \<or> (\<not> n \<and> v)
         else if c = GT then (\<not> n \<and> \<not> v \<and> \<not> z) \<or> (n \<and> v \<and> \<not> z)
         else if c = LE then (n \<and> \<not> v) \<or> (\<not> n \<and> v) \<or> z
         else False)"

subsection \<open>Formats 1 to 3: shifts and arithmetic on low registers\<close>

definition t_format1 :: "u32 \<Rightarrow> u32" where
  "t_format1 t =
     0xE1B00000 OR drop_bit 6 (t AND 0x1800) OR push_bit 1 (t AND 0x07C0)
     OR drop_bit 3 (t AND 0x0038) OR push_bit 12 (t AND 0x0007)"

definition t_format2 :: "u32 \<Rightarrow> u32" where
  "t_format2 t =
     ([0xE0900000, 0xE0500000, 0xE2900000, 0xE2500000] ! unat (drop_bit 9 (t AND 0x0600)))
     OR drop_bit 6 (t AND 0x01C0) OR push_bit 13 (t AND 0x0038) OR push_bit 12 (t AND 0x0007)"

definition t_format3 :: "u32 \<Rightarrow> u32" where
  "t_format3 t =
     ([0xE3B00000, 0xE3500000, 0xE2900000, 0xE2500000] ! unat (drop_bit 11 (t AND 0x1800)))
     OR (t AND 0x00FF) OR push_bit 8 (t AND 0x0700) OR push_bit 4 (t AND 0x0700)"

subsection \<open>Formats 4 and 5: two-register operations, high registers\<close>

datatype otype = t_norm | t_shift | t_neg | t_mul

definition t_format4_subset :: "(u32 \<times> otype) list" where
  "t_format4_subset =
     [(0xE0100000, t_norm), (0xE0300000, t_norm), (0xE1B00010, t_shift), (0xE1B00030, t_shift),
      (0xE1B00050, t_shift), (0xE0B00000, t_norm), (0xE0D00000, t_norm), (0xE1B00070, t_shift),
      (0xE1100000, t_norm), (0xE2700000, t_neg), (0xE1500000, t_norm), (0xE1700000, t_norm),
      (0xE1900000, t_norm), (0xE0100090, t_mul), (0xE1D00000, t_norm), (0xE1F00000, t_norm)]"

definition t_format4 :: "u32 \<Rightarrow> u32" where
  "t_format4 t =
     (case t_format4_subset ! unat (drop_bit 6 (t AND 0x03C0)) of
        (opcode, t_norm) \<Rightarrow>
          opcode OR push_bit 16 (t AND 0x0007) OR push_bit 12 (t AND 0x0007) OR drop_bit 3 (t AND 0x0038)
      | (opcode, t_shift) \<Rightarrow>
          opcode OR push_bit 12 (t AND 0x0007) OR (t AND 0x0007) OR push_bit 5 (t AND 0x0038)
      | (opcode, t_neg) \<Rightarrow>
          opcode OR push_bit 12 (t AND 0x0007) OR push_bit 13 (t AND 0x0038)
      | (opcode, t_mul) \<Rightarrow>
          opcode OR push_bit 16 (t AND 0x0007) OR push_bit 8 (t AND 0x0007) OR drop_bit 3 (t AND 0x0038))"

definition t_format5 :: "bool \<Rightarrow> u32 \<Rightarrow> tdstate \<times> u32" where
  "t_format5 v5 t =
     (let Rd = (t AND 0x0007) + (if bit t 7 then 8 else 0);
          Rs = drop_bit 3 (t AND 0x0038) + (if bit t 6 then 8 else 0);
          op = unat (drop_bit 6 (t AND 0x03C0))
      in if op \<in> {1, 2, 3} then (t_decoded, 0xE0800000 OR push_bit 16 Rd OR push_bit 12 Rd OR Rs)
         else if op \<in> {5, 6, 7} then (t_decoded, 0xE1500000 OR push_bit 16 Rd OR push_bit 12 Rd OR Rs)
         else if op \<in> {9, 10, 11} then (t_decoded, 0xE1A00000 OR push_bit 16 Rd OR push_bit 12 Rd OR Rs)
         else if op \<in> {12, 13} then (t_decoded, 0xE12FFF10 OR drop_bit 3 (t AND 0x0078))
         else if op \<in> {14, 15} \<and> v5 then (t_decoded, 0xE1200030 OR Rs)
         else (t_undefined, 0xDEADC0DE))"

subsection \<open>Formats 6 to 11: loads and stores\<close>

definition t_format6 :: "u32 \<Rightarrow> u32" where
  "t_format6 t = 0xE59F0000 OR push_bit 4 (t AND 0x0700) OR push_bit 2 (t AND 0x00FF)"

definition t_format7_8 :: "u32 list \<Rightarrow> u32 \<Rightarrow> u32" where
  "t_format7_8 ops t =
     (ops ! unat (drop_bit 10 (t AND 0x0C00)))
     OR push_bit 12 (t AND 0x0007) OR push_bit 13 (t AND 0x0038) OR drop_bit 6 (t AND 0x01C0)"

definition t_format7 :: "u32 \<Rightarrow> u32" where
  "t_format7 = t_format7_8 [0xE7800000, 0xE7C00000, 0xE7900000, 0xE7D00000]"

definition t_format8 :: "u32 \<Rightarrow> u32" where
  "t_format8 = t_format7_8 [0xE18000B0, 0xE19000D0, 0xE19000B0, 0xE19000F0]"

definition t_format9 :: "u32 \<Rightarrow> u32" where
  "t_format9 t =
     ([0xE5800000, 0xE5900000, 0xE5C00000, 0xE5D00000] ! unat (drop_bit 11 (t AND 0x1800)))
     OR push_bit 12 (t AND 0x0007) OR push_bit 13 (t AND 0x0038)
     OR drop_bit (6 - (if bit t 12 then 0 else 2)) (t AND 0x07C0)"

definition t_format10 :: "u32 \<Rightarrow> u32" where
  "t_format10 t =
     (if bit t 11 then 0xE1D000B0 else 0xE1C000B0)
     OR push_bit 12 (t AND 0x0007) OR push_bit 13 (t AND 0x0038)
     OR drop_bit 5 (t AND 0x01C0) OR drop_bit 1 (t AND 0x0600)"

definition t_format11 :: "u32 \<Rightarrow> u32" where
  "t_format11 t =
     (if bit t 11 then 0xE59D0000 else 0xE58D0000)
     OR push_bit 4 (t AND 0x0700) OR push_bit 2 (t AND 0x00FF)"

subsection \<open>Formats 12 to 15: addresses, stack pointer, multiple transfers\<close>

definition t_format12 :: "u32 \<Rightarrow> u32" where
  "t_format12 t =
     (if \<not> bit t 11 then 0xE28F0F00 OR push_bit 4 (t AND 0x0700) OR (t AND 0x00FF)
      else 0xE28D0F00 OR push_bit 4 (t AND 0x0700) OR (t AND 0x00FF))"

definition SWI_Breakpoint :: u32 where
  "SWI_Breakpoint = 0x180000"

definition t_format13_14 :: "u32 \<Rightarrow> u32" where
  "t_format13_14 t =
     (if t AND 0x0F00 = 0 then (if bit t 7 then 0xE24DDF00 else 0xE28DDF00) OR (t AND 0x007F)
      else if t AND 0x0F00 = 0x0e00 then 0xEF000000 OR SWI_Breakpoint
      else
        ([0xE92D0000, 0xE92D4000, 0xE8BD0000, 0xE8BD8000]
           ! unat (drop_bit 10 (t AND 0x0800) OR drop_bit 8 (t AND 0x0100)))
        OR (t AND 0x00FF))"

definition t_format15 :: "u32 \<Rightarrow> u32" where
  "t_format15 t =
     (if bit t 11 then 0xE8B00000 else 0xE8A00000) OR push_bit 8 (t AND 0x0700) OR (t AND 0x00FF)"

subsection \<open>Formats 16 to 19: branches and SWI\<close>

definition t_format17 :: "u32 \<Rightarrow> u32 \<Rightarrow> 'd arm_state \<Rightarrow> u32" where
  "t_format17 pc t s =
     (if t = ARMul_ABORTWORD s AND 0xffff \<and> AbortAddr s = pc then ARMul_ABORTWORD s
      else if t AND 0x00FF = 0x18 then 0xEF000000 OR push_bit 16 (t AND 0x00FF)
      else if t AND 0x00FF = 0xFE then 0xEF000000 OR SWI_Breakpoint
      else 0xEF000000 OR (t AND 0x00FF))"

definition t_branch_offset :: "nat \<Rightarrow> u32 \<Rightarrow> u32 \<Rightarrow> u32 \<Rightarrow> u32" where
  "t_branch_offset sign m ext t = push_bit 1 (t AND m) OR (if bit t sign then ext else 0)"

definition t_jump :: "u32 \<Rightarrow> 'd arm_state \<Rightarrow> 'd arm_state" where
  "t_jump target s = FLUSHPIPE (set_reg 15 target s)"

definition t_format16 :: "u32 \<Rightarrow> u32 \<Rightarrow> 'd arm_state \<Rightarrow> 'd arm_state" where
  "t_format16 pc t s =
     (if cond_taken (unat (drop_bit 8 (t AND 0x0F00))) s
      then t_jump (pc + 4 + t_branch_offset 7 0x7F 0xFFFFFF00 t) s else s)"

definition t_format18 :: "u32 \<Rightarrow> u32 \<Rightarrow> 'd arm_state \<Rightarrow> 'd arm_state" where
  "t_format18 pc t s = t_jump (pc + 4 + t_branch_offset 10 0x3FF 0xFFFFF800 t) s"

definition t_BL_second :: "u32 \<Rightarrow> u32 \<Rightarrow> 'd arm_state \<Rightarrow> 'd arm_state" where
  "t_BL_second pc t s =
     (let tmp = pc + 2;
          s1 = set_reg 15 (Reg s 14 + push_bit 1 (t AND 0x07FF)) s
      in FLUSHPIPE (set_reg 14 (tmp OR 1) s1))"

definition t_BL_first :: "u32 \<Rightarrow> u32 \<Rightarrow> u32 \<Rightarrow> 'd arm_state \<Rightarrow> 'd arm_state" where
  "t_BL_first pc t next_instr s =
     (let s1 = set_reg 14 (Reg s 15 + (push_bit 12 (t AND 0x07FF) OR (if bit t 10 then 0xFF800000 else 0))) s
      in if drop_bit 11 (next_instr AND 0xF800) \<noteq> 31 then s1
         else t_BL_second (pc + 2) next_instr s1)"

subsection \<open>The decoder\<close>

text \<open>
  \<^verbatim>\<open>ARMul_ThumbDecode\<close>: what was recognised, the ARM instruction (\<^verbatim>\<open>*ainstr\<close>) and the state. The other
  half of the fetched word is the next instruction.
\<close>

definition thumb_switch :: "u32 \<Rightarrow> u32 \<Rightarrow> u32 \<Rightarrow> 'd arm_state \<Rightarrow> tdstate \<times> u32 \<times> 'd arm_state" where
  "thumb_switch pc t next_instr s =
     (let k = unat (drop_bit 11 (t AND 0xF800));
          arm = (\<lambda>a. (t_decoded, a, s));
          dead = 0xDEADC0DE
      in if k < 3 then arm (t_format1 t)
         else if k = 3 then arm (t_format2 t)
         else if k < 8 then arm (t_format3 t)
         else if k = 8 then
           (if \<not> bit t 10 then arm (t_format4 t)
            else (case t_format5 (is_v5 s) t of (r, a) \<Rightarrow> (r, a, s)))
         else if k = 9 then arm (t_format6 t)
         else if k < 12 then arm (if \<not> bit t 9 then t_format7 t else t_format8 t)
         else if k < 16 then arm (t_format9 t)
         else if k < 18 then arm (t_format10 t)
         else if k < 20 then arm (t_format11 t)
         else if k < 22 then arm (t_format12 t)
         else if k < 24 then arm (t_format13_14 t)
         else if k < 26 then arm (t_format15 t)
         else if k < 28 then
           (if t AND 0x0F00 = 0x0F00 then arm (t_format17 pc t s)
            else if t AND 0x0F00 \<noteq> 0x0E00 then (t_branch, dead, t_format16 pc t s)
            else (t_undefined, dead, s))
         else if k = 28 then (t_branch, dead, t_format18 pc t s)
         else if k = 29 then (t_undefined, dead, s)
         else if k = 30 then (t_branch, dead, t_BL_first pc t next_instr s)
         else (t_branch, dead, t_BL_second pc t s))"

definition ARMul_ThumbDecode :: "u32 \<Rightarrow> u32 \<Rightarrow> 'd arm_state \<Rightarrow> tdstate \<times> u32 \<times> 'd arm_state" where
  "ARMul_ThumbDecode pc tinstr s =
     (if bigendSig s then thumb_switch pc (drop_bit 16 tinstr) (tinstr AND 0xFFFF) s
      else thumb_switch pc (tinstr AND 0xFFFF) (drop_bit 16 tinstr) s)"

end
