(* ===== verification/Arm_Emu.thy ===== *)
theory Arm_Emu
  imports Arm_Copro Arm_Thumb
begin

text \<open>
  The emulator loop of arch_arm/common/armemu32.c (\<^verbatim>\<open>ARMul_Emulate32\<close>): the pipeline, events and
  interrupts, the Thumb decoder, the condition check, and the cases 0xc0 to 0xff of the
  instruction switch (coprocessors, SWI). The local copies of the pipeline and of the
  program counter are a \<open>pipeline\<close> record next to the state. The debugger (\<^verbatim>\<open>debugmode\<close>, \<^verbatim>\<open>CallDebug\<close>,
  \<^verbatim>\<open>tea_pc\<close>, \<^verbatim>\<open>tea_break_addr\<close>) and the instruction log are off.
\<close>

subsection \<open>What the core calls outside the model\<close>

text \<open>
  \<open>cp_allowed\<close> is the access register of
  the XScale, \<open>cp_table\<close> the coprocessors that \<^verbatim>\<open>ARMul_CoProInit\<close> installed.
\<close>

record 'd emu_env =
  cp_allowed :: "nat \<Rightarrow> 'd arm_state \<Rightarrow> bool"
  cp_table :: "nat \<Rightarrow> 'd coprocessor"

subsection \<open>Coprocessor transfers: cases 0xc0 to 0xdf\<close>

definition LSCOff :: "u32 \<Rightarrow> u32" where
  "LSCOff instr = push_bit 2 (BITS 0 7 instr)"

definition cp_transfer :: "'d emu_env \<Rightarrow> nat \<Rightarrow> u32 \<Rightarrow> 'd arm_state \<Rightarrow> 'd arm_state option" where
  "cp_transfer env k instr s =
     (let lhs = LHS instr s;
          new = offset_by k lhs (LSCOff instr);
          address = (if k_pre k then new else lhs);
          s1 = (if k_wb k then s\<lparr>Base := new\<rparr> else s)
      in if k_load k then ARMul_LDC (cp_allowed env) (cp_table env) instr address s1
         else ARMul_STC (cp_allowed env) (cp_table env) instr address s1)"

text \<open>Cases 0xc4 and 0xc5 of ARMv5: MAR and MRA of the XScale, undefined on other cores.\<close>

definition xscale_acc_refused :: "'d emu_env \<Rightarrow> u32 \<Rightarrow> 'd arm_state \<Rightarrow> bool" where
  "xscale_acc_refused env instr s \<longleftrightarrow>
     BITS 12 15 instr = 15 \<or> BITS 16 19 instr = 15 \<or> \<not> CP_ACCESS_ALLOWED (cp_allowed env) (CPNum instr) s
     \<or> \<not> is_XScale s \<or> BITS 4 7 instr \<noteq> 0 \<or> CPNum instr \<noteq> 0 \<or> BITS 0 3 instr \<noteq> 0"

definition op_MAR :: "'d emu_env \<Rightarrow> u32 \<Rightarrow> 'd arm_state \<Rightarrow> 'd arm_state" where
  "op_MAR env instr s =
     (if xscale_acc_refused env instr s then ARMul_UndefInstr instr s
      else s\<lparr>Accumulator := ucast (Reg s (field 12 15 instr))
                            + push_bit 32 (ucast (Reg s (field 16 19 instr)))\<rparr>)"

definition op_MRA :: "'d emu_env \<Rightarrow> u32 \<Rightarrow> 'd arm_state \<Rightarrow> 'd arm_state" where
  "op_MRA env instr s =
     (if xscale_acc_refused env instr s then ARMul_UndefInstr instr s
      else
        (let t1 = ucast (drop_bit 32 (Accumulator s) AND 255);
             t2 = (if t1 AND 128 \<noteq> 0 then t1 - 256 else t1)
         in set_reg (field 16 19 instr) t2 (set_reg (field 12 15 instr) (ucast (Accumulator s)) s)))"

definition exec_cp_transfer :: "'d emu_env \<Rightarrow> nat \<Rightarrow> u32 \<Rightarrow> 'd arm_state \<Rightarrow> 'd arm_state option" where
  "exec_cp_transfer env k instr s =
     (if k = 0xc4 \<and> is_v5 s then Some (op_MAR env instr s)
      else if k = 0xc5 \<and> is_v5 s then Some (op_MRA env instr s)
      else cp_transfer env k instr s)"

subsection \<open>Coprocessor registers and operations: cases 0xe0 to 0xef\<close>

text \<open>Multiply and accumulate of the XScale, in case 0xe2; \<open>None\<close> drops through to MCR and CDP.\<close>

definition sext32 :: "u64 \<Rightarrow> u64" where
  "sext32 x = (if bit x 31 then x - 0x100000000 else x)"

definition sext16 :: "u32 \<Rightarrow> u32" where
  "sext16 x = (if bit x 15 then x - 0x10000 else x)"

definition mia_halves :: "u32 \<Rightarrow> u32 \<Rightarrow> u64" where
  "mia_halves a b = sext32 (ucast (sext16 a * sext16 b))"

definition op_MIA :: "u32 \<Rightarrow> 'd arm_state \<Rightarrow> 'd arm_state option" where
  "op_MIA instr s =
     (let m = Reg s (MULLHSReg instr); a = Reg s (MULACCReg instr); sel = BITS 18 19 instr
      in if sel = 0 \<and> BITS 4 11 instr = 1 \<and> BITS 16 17 instr = 0 then
           Some (s\<lparr>Accumulator := Accumulator s + sext32 (ucast m) * sext32 (ucast a)\<rparr>)
         else if sel = 2 \<and> BITS 4 11 instr = 1 \<and> BITS 16 17 instr = 0 then
           Some (s\<lparr>Accumulator := Accumulator s + mia_halves (drop_bit 16 m) (drop_bit 16 a)
                                  + mia_halves (m AND 0xffff) (a AND 0xffff)\<rparr>)
         else if sel = 3 \<and> BITS 4 11 instr = 1 then
           Some (s\<lparr>Accumulator := Accumulator s
                    + mia_halves (if BIT 17 instr then drop_bit 16 m else m AND 0xffff)
                                 (if BIT 16 instr then drop_bit 16 a else a AND 0xffff)\<rparr>)
         else None)"

definition op_MCR_CDP :: "'d emu_env \<Rightarrow> u32 \<Rightarrow> 'd arm_state \<Rightarrow> 'd arm_state option" where
  "op_MCR_CDP env instr s =
     (if BIT 4 instr
      then ARMul_MCR (cp_allowed env) (cp_table env) instr
             (if DESTReg instr = 15 then Reg s 15 + isize s else DEST instr s) s
      else ARMul_CDP (cp_allowed env) (cp_table env) instr s)"

definition mrc_result :: "u32 \<Rightarrow> u32 \<Rightarrow> 'd arm_state \<Rightarrow> 'd arm_state" where
  "mrc_result instr temp s =
     (if DESTReg instr = 15
      then s\<lparr>NFlag := (temp AND NBIT \<noteq> 0), ZFlag := (temp AND ZBIT \<noteq> 0),
             CFlag := (temp AND CBIT \<noteq> 0), VFlag := (temp AND VBIT \<noteq> 0)\<rparr>
      else set_DEST instr temp s)"

definition op_MRC_CDP :: "'d emu_env \<Rightarrow> u32 \<Rightarrow> 'd arm_state \<Rightarrow> 'd arm_state option" where
  "op_MRC_CDP env instr s =
     (if BIT 4 instr
      then map_option (\<lambda>(temp, s1). mrc_result instr temp s1)
             (ARMul_MRC (cp_allowed env) (cp_table env) instr s)
      else ARMul_CDP (cp_allowed env) (cp_table env) instr s)"

definition exec_cp_register :: "'d emu_env \<Rightarrow> nat \<Rightarrow> u32 \<Rightarrow> 'd arm_state \<Rightarrow> 'd arm_state option" where
  "exec_cp_register env k instr s =
     (if k = 0xe2 \<and> \<not> CP_ACCESS_ALLOWED (cp_allowed env) (CPNum instr) s
      then Some (ARMul_UndefInstr instr s)
      else if k = 0xe2 \<and> is_XScale s \<and> op_MIA instr s \<noteq> None then op_MIA instr s
      else if bit k 0 then op_MRC_CDP env instr s else op_MCR_CDP env instr s)"

subsection \<open>SWI: cases 0xf0 to 0xff\<close>

definition op_SWI :: "u32 \<Rightarrow> u32 \<Rightarrow> 'd arm_state \<Rightarrow> 'd arm_state" where
  "op_SWI pc instr s =
     (if instr = ARMul_ABORTWORD s \<and> AbortAddr s = pc
      then ARMul_Abort PrefetchAbortV (XScale_set_fsr_far 0x400 pc s)
      else ARMul_Abort SWIV s)"

subsection \<open>Load and store consecutive of the XScale\<close>

definition xscale_ldrd :: "u32 \<Rightarrow> 'd arm_state \<Rightarrow> 'd arm_state" where
  "xscale_ldrd instr s =
     (let temp = GetLS7RHS instr s;
          temp2 = (if BIT 23 instr then LHS instr s + temp else LHS instr s - temp);
          addr = (if BIT 24 instr then temp2 else LHS instr s)
      in if BIT 12 instr then ARMul_UndefInstr instr s
         else if addr AND 7 \<noteq> 0 then ARMul_Abort DataAbortV s
         else
           (let d = field 12 15 instr;
                p1 = ARMul_LoadWordN addr s;
                s1 = set_reg d (fst p1) (snd p1);
                p2 = ARMul_LoadWordN (addr + 4) s1;
                s2 = set_reg (d + 1) (fst p2) (snd p2)
            in if BIT 21 instr \<or> \<not> BIT 24 instr then set_LSBase instr temp2 s2 else s2))"

definition xscale_strd :: "u32 \<Rightarrow> 'd arm_state \<Rightarrow> 'd arm_state" where
  "xscale_strd instr s =
     (let temp = GetLS7RHS instr s;
          temp2 = (if BIT 23 instr then LHS instr s + temp else LHS instr s - temp);
          addr = (if BIT 24 instr then temp2 else LHS instr s)
      in if BIT 12 instr then ARMul_UndefInstr instr s
         else if addr AND 7 \<noteq> 0 then ARMul_Abort DataAbortV s
         else
           (let d = field 12 15 instr;
                s1 = ARMul_StoreWordN addr (Reg s d) s;
                s2 = ARMul_StoreWordN (addr + 4) (Reg s1 (d + 1)) s1
            in if BIT 21 instr \<or> \<not> BIT 24 instr then set_LSBase instr temp2 s2 else s2))"

subsection \<open>The instruction switch and the condition check\<close>

definition mainswitch :: "'d emu_env \<Rightarrow> u32 \<Rightarrow> u32 \<Rightarrow> 'd arm_state \<Rightarrow> 'd arm_state option" where
  "mainswitch env pc instr s =
     (let k = field 20 27 instr;
          consecutive = is_XScale s \<and> \<not> BIT 20 instr \<and> BITS 25 27 instr = 0
      in if consecutive \<and> BITS 4 7 instr = 0xD then Some (xscale_ldrd instr s)
         else if consecutive \<and> BITS 4 7 instr = 0xF then Some (xscale_strd instr s)
         else if k < 0xc0 then Some (exec_xfer pc instr s)
         else if k < 0xe0 then exec_cp_transfer env k instr s
         else if k < 0xf0 then exec_cp_register env k instr s
         else Some (op_SWI pc instr s))"

definition TOPBITS :: "nat \<Rightarrow> u32 \<Rightarrow> u32" where
  "TOPBITS n instr = drop_bit n instr"

text \<open>The condition \<^verbatim>\<open>NV\<close>: on ARMv5 a space of unconditional instructions.\<close>

definition op_BLX1 :: "u32 \<Rightarrow> u32 \<Rightarrow> 'd arm_state \<Rightarrow> 'd arm_state" where
  "op_BLX1 pc instr s =
     (let off = (if BIT 23 instr then NEGBRANCH instr else POSBRANCH instr)
      in WriteR15Branch (pc + 8 + 1 + (off + push_bit 1 (of_bool (BIT 24 instr)))) (set_reg 14 (pc + 4) s))"

definition exec_NV :: "'d emu_env \<Rightarrow> u32 \<Rightarrow> u32 \<Rightarrow> 'd arm_state \<Rightarrow> 'd arm_state option" where
  "exec_NV env pc instr s =
     (if \<not> is_v5 s then Some s
      else if BITS 25 27 instr = 5 then Some (op_BLX1 pc instr s)
      else if instr AND 0xFC70F000 = 0xF450F000 then Some s
      else if instr AND 0xfe500f00 = 0xfc100100 \<or> instr AND 0xfe500f00 = 0xfc000100
      then mainswitch env pc instr s
      else Some (ARMul_UndefInstr instr s))"

definition exec_arm :: "'d emu_env \<Rightarrow> u32 \<Rightarrow> u32 \<Rightarrow> 'd arm_state \<Rightarrow> 'd arm_state option" where
  "exec_arm env pc instr s =
     (let c = unat (TOPBITS 28 instr)
      in if c = AL then mainswitch env pc instr s
         else if c = NV then exec_NV env pc instr s
         else if cond_taken c s then mainswitch env pc instr s else Some s)"

subsection \<open>The pipeline\<close>

definition SEQ :: u32 where "SEQ = 0"
definition NONSEQ :: u32 where "NONSEQ = 1"
definition PCINCEDSEQ :: u32 where "PCINCEDSEQ = 2"
definition PCINCEDNONSEQ :: u32 where "PCINCEDNONSEQ = 3"
definition RESUME :: u32 where "RESUME = 8"

lemmas fetch_codes = SEQ_def NONSEQ_def PCINCEDSEQ_def PCINCEDNONSEQ_def RESUME_def

definition INSN_SIZE :: "'d arm_state \<Rightarrow> u32" where
  "INSN_SIZE s = (if TFlag s then 2 else 4)"

definition NORMALCYCLE :: "'d arm_state \<Rightarrow> 'd arm_state" where
  "NORMALCYCLE s = s\<lparr>NextInstr := 0\<rparr>"

text \<open>
  The next instruction when the pipeline advances; \<open>inced\<close> when register 15 has been
  advanced already, \<open>load\<close> the kind of cycle.
\<close>

definition advance ::
  "(u32 \<Rightarrow> u32 \<Rightarrow> 'd arm_state \<Rightarrow> u32 \<times> 'd arm_state) \<Rightarrow> bool \<Rightarrow> pipeline \<Rightarrow> 'd arm_state \<Rightarrow>
   u32 \<times> pipeline \<times> 'd arm_state" where
  "advance load inced p s =
     (let s1 = (if inced then s else set_reg 15 (Reg s 15 + isize s) s);
          pc = pipe_pc p + isize s1
      in case load (pc + isize s1 * 2) (isize s1) s1 of
           (l, s2) \<Rightarrow> (decoded p, \<lparr>decoded = loaded p, loaded = l, pipe_pc = pc\<rparr>, s2))"

text \<open>The pipeline filled again after a change of register 15.\<close>

definition refill ::
  "(u32 \<Rightarrow> u32 \<Rightarrow> 'd arm_state \<Rightarrow> u32 \<times> 'd arm_state) \<Rightarrow>
   (u32 \<Rightarrow> u32 \<Rightarrow> 'd arm_state \<Rightarrow> u32 \<times> 'd arm_state) \<Rightarrow> 'd arm_state \<Rightarrow>
   u32 \<times> pipeline \<times> 'd arm_state" where
  "refill load1 load2 s =
     (let pc = Reg s 15;
          i = isize s;
          s1 = (set_reg 15 (pc + i * 2) s)\<lparr>Aborted := 0, AbortAddr := 1\<rparr>
      in case load1 pc i s1 of
           (instr, s2) \<Rightarrow>
             (case load2 (pc + i) i s2 of
                (d, s3) \<Rightarrow>
                  (case load2 (pc + i * 2) i s3 of
                     (l, s4) \<Rightarrow> (instr, \<lparr>decoded = d, loaded = l, pipe_pc = pc\<rparr>, NORMALCYCLE s4))))"

definition fetch :: "pipeline \<Rightarrow> 'd arm_state \<Rightarrow> u32 \<times> pipeline \<times> 'd arm_state" where
  "fetch p s =
     (if NextInstr s = SEQ then advance ARMul_LoadInstrS False p s
      else if NextInstr s = NONSEQ then
        (case advance ARMul_LoadInstrN False p s of (i, q, t) \<Rightarrow> (i, q, NORMALCYCLE t))
      else if NextInstr s = PCINCEDSEQ then
        (case advance ARMul_LoadInstrS True p s of (i, q, t) \<Rightarrow> (i, q, NORMALCYCLE t))
      else if NextInstr s = PCINCEDNONSEQ then
        (case advance ARMul_LoadInstrN True p s of (i, q, t) \<Rightarrow> (i, q, NORMALCYCLE t))
      else if NextInstr s = RESUME then refill ARMul_ReLoadInstr ARMul_ReLoadInstr s
      else refill ARMul_LoadInstrN ARMul_LoadInstrS s)"

subsection \<open>One turn of the loop\<close>

definition running :: "emulate_state \<Rightarrow> bool" where
  "running e \<longleftrightarrow> e = ONCE \<or> e = RUN"

text \<open>Decoding and execution of a fetched instruction, up to the label \<^verbatim>\<open>donext\<close>.\<close>

definition execute :: "'d emu_env \<Rightarrow> u32 \<Rightarrow> u32 \<Rightarrow> 'd arm_state \<Rightarrow> 'd arm_state option" where
  "execute env pc instr s =
     (if TFlag s then
        (case ARMul_ThumbDecode pc instr s of
           (r, new, s1) \<Rightarrow>
             (case r of
                t_undefined \<Rightarrow> Some (ARMul_UndefInstr instr s1)
              | t_branch \<Rightarrow> Some s1
              | t_decoded \<Rightarrow> exec_arm env pc new s1))
      else exec_arm env pc instr s)"

text \<open>\<^verbatim>\<open>TEST_EMULATE\<close>: whether the loop is left, and the state.\<close>

definition test_emulate :: "'d arm_state \<Rightarrow> bool \<times> 'd arm_state" where
  "test_emulate s =
     (if Emulate s = ONCE then (False, s\<lparr>Emulate := STOP\<rparr>)
      else (Emulate s \<noteq> RUN, s))"

definition emulate_turn ::
  "'d emu_env \<Rightarrow> pipeline \<Rightarrow> 'd arm_state \<Rightarrow> (bool \<times> pipeline \<times> 'd arm_state) option" where
  "emulate_turn env p s =
     (case fetch p (s\<lparr>isize := INSN_SIZE s\<rparr>) of
        (instr, q, s1) \<Rightarrow>
          (let s2 = (if EventSet s1 \<noteq> 0 then ARMul_EnvokeEvent s1 else s1);
               irq = IntPending s2
           in if fst irq then Some (True, q, snd irq)
              else if \<not> running (Emulate s2) then Some (True, q, s2\<lparr>NextInstr := RESUME\<rparr>)
              else
                map_option (\<lambda>t. (fst (test_emulate t), q, snd (test_emulate t)))
                  (execute env (pipe_pc q) instr
                     (s2\<lparr>bus := io_do_cycle (bus s2), NumInstrs := NumInstrs s2 + 1\<rparr>))))"

subsection \<open>The loop\<close>

text \<open>
  \<open>stop n\<close> is what the loop reads from \<^verbatim>\<open>stop_simulator\<close> after its turn \<open>n\<close>: the front end sets it
  from another thread.
\<close>

partial_function (option) emulate_loop ::
  "'d emu_env \<Rightarrow> (nat \<Rightarrow> bool) \<Rightarrow> nat \<Rightarrow> pipeline \<Rightarrow> 'd arm_state \<Rightarrow> (pipeline \<times> 'd arm_state) option" where
  "emulate_loop env stop n p s =
     (case emulate_turn env p s of
        None \<Rightarrow> None
      | Some r \<Rightarrow>
          if fst r \<or> stop n then Some (snd r)
          else emulate_loop env stop (Suc n) (fst (snd r)) (snd (snd r)))"

declare emulate_loop.simps [code]

definition ARMul_Emulate32 ::
  "'d emu_env \<Rightarrow> (nat \<Rightarrow> bool) \<Rightarrow> 'd arm_state \<Rightarrow> (u32 \<times> 'd arm_state) option" where
  "ARMul_Emulate32 env stop s =
     (let p = (if NextInstr s < PRIMEPIPE then pipe s else \<lparr>decoded = 0, loaded = 0, pipe_pc = 0\<rparr>)
      in map_option (\<lambda>(q, t). (pipe_pc q, t\<lparr>pipe := q\<rparr>)) (emulate_loop env stop 0 p s))"

end
