(* ===== verification/Mmu_Cache_Spec.thy ===== *)
theory Mmu_Cache_Spec
  imports Mmu_Cache
begin

text \<open>
  Correctness of the cache operations (Mmu_Cache): the cache invariant \<open>wf_cache\<close>, what a
  search finds, that allocation fills the line from memory and makes the address hit, that
  writing back moves exactly the dirty halves of a line to memory, and that flushing empties
  the cache. Memory is seen as an array of words (\<open>word_abs\<close>), by a second interpretation
  of the store contract of Bus_Spec.
\<close>

subsection \<open>Memory as an array of words\<close>

definition word_addr :: "nat \<Rightarrow> u32" where
  "word_addr n = word_of_nat (4 * n)"

definition word_ram :: "'d bus \<Rightarrow> nat \<Rightarrow> bool" where
  "word_ram b n \<longleftrightarrow> n < 2 ^ 30 \<and> ram_at b (word_addr n)"

definition word_abs :: "'d bus \<Rightarrow> nat \<Rightarrow> u32 option" where
  "word_abs b n = (if word_ram b n then Some (word_at b (word_addr n)) else None)"

lemma unat_word_addr: "n < 2 ^ 30 \<Longrightarrow> unat (word_addr n) = 4 * n"
  using take_bit_nat_eq_self [of "4 * n" 32] by (simp only: word_addr_def unsigned_of_nat) simp

lemma word_at_put_any:
  assumes "wf_bus s" "ram_at s a" "ram_at s b"
  shows "word_at (put_word a v s) b = (if unat b div 4 = unat a div 4 then v else word_at s b)"
proof -
  obtain i where i: "bank_find (mem_banks s) a = Some i" "backed (mem_banks s ! i)"
    using assms(2) by (auto simp: ram_at_def backed_def split: option.splits)
  obtain ws where ws: "rom s ! i = Some ws" "i < length (rom s)" "word_index (mem_banks s ! i) a < length ws"
    using bank_cell [OF assms(1) i] by auto
  note same = same_cell [OF assms(1) i(1), of b]
  show ?thesis
  proof (cases "unat b div 4 = unat a div 4")
    case True
    then have "bank_find (mem_banks s) b = Some i"
        "word_index (mem_banks s ! i) b = word_index (mem_banks s ! i) a"
      using same by auto
    then show ?thesis using True i ws by (simp add: word_at_def put_word_def)
  next
    case False
    then have "bank_find (mem_banks s) b \<noteq> Some i \<or>
        word_index (mem_banks s ! i) b \<noteq> word_index (mem_banks s ! i) a"
      using same by auto
    then show ?thesis using False i ws
      by (auto simp: word_at_def put_word_def nth_list_update split: option.splits)
  qed
qed

lemma bus_write_word_abs:
  assumes "wf_bus b" "word_ram b n"
  shows "word_abs (bus_write 32 (word_addr n) v b) = (word_abs b)(n \<mapsto> v)"
    and "wf_bus (bus_write 32 (word_addr n) v b)"
    and "ram_at (bus_write 32 (word_addr n) v b) = ram_at b"
proof -
  have ram: "ram_at b (word_addr n)" and n: "n < 2 ^ 30" using assms(2) by (auto simp: word_ram_def)
  obtain m where m: "bus_write 32 (word_addr n) v b = put_word (word_addr n) v (b\<lparr>mbp := m\<rparr>)"
      "wf_bus (b\<lparr>mbp := m\<rparr>)"
    using bus_write_ram [OF assms(1) ram, of 32 v] by auto
  show "wf_bus (bus_write 32 (word_addr n) v b)" "ram_at (bus_write 32 (word_addr n) v b) = ram_at b"
    using m put_word_wf [OF m(2), of "word_addr n" v] ram by simp_all
  show "word_abs (bus_write 32 (word_addr n) v b) = (word_abs b)(n \<mapsto> v)"
  proof
    fix k
    show "word_abs (bus_write 32 (word_addr n) v b) k = ((word_abs b)(n \<mapsto> v)) k"
      using word_at_put_any [OF m(2), of "word_addr n" "word_addr k" v] ram n assms(2)
      by (cases "k = n")
        (auto simp: word_abs_def word_ram_def m(1) unat_word_addr word_at_mbp)
  qed
qed

interpretation bus_words:
  byte_store wf_bus word_ram word_abs "\<lambda>n (v :: u32) b. bus_write 32 (word_addr n) v b"
  by unfold_locales (auto simp: bus_write_word_abs word_ram_def fun_eq_iff)

text \<open>The word loops of the cache are sequences of such accesses.\<close>

lemma word_addr_Suc: "word_addr n + 4 = word_addr (Suc n)"
  by (simp add: word_addr_def)

lemma write_words_fold:
  "write_words (word_addr n) ws b =
     fold (\<lambda>(k, v). bus_write 32 (word_addr k) v) (zip [n ..< n + length ws] ws) b"
proof (induction ws arbitrary: n b)
  case (Cons w ws)
  have "[n ..< n + length (w # ws)] = n # [Suc n ..< Suc n + length ws]"
    by (subst upt_conv_Cons) simp_all
  with Cons [of "Suc n"] show ?case by (simp add: word_addr_Suc)
qed simp

lemma map_of_rev_distinct:
  assumes "distinct (map fst xs)"
  shows "map_of (rev xs) = map_of xs"
proof
  fix k
  have d: "distinct (map fst (rev xs))" using assms by (simp add: rev_map [symmetric])
  show "map_of (rev xs) k = map_of xs k"
  proof (cases "map_of xs k")
    case None
    then have "map_of (rev xs) k = None" by (simp add: map_of_eq_None_iff)
    with None show ?thesis by simp
  next
    case (Some v)
    then have "map_of (rev xs) k = Some v" using assms d by (simp add: map_of_eq_Some_iff)
    with Some show ?thesis by simp
  qed
qed

lemma write_words_abs:
  assumes "wf_bus b" "\<forall>k \<in> {n ..< n + length ws}. word_ram b k"
  shows "wf_bus (write_words (word_addr n) ws b)"
    and "word_ram (write_words (word_addr n) ws b) = word_ram b"
    and "word_abs (write_words (word_addr n) ws b) k =
      (if n \<le> k \<and> k < n + length ws then Some (ws ! (k - n)) else word_abs b k)"
proof -
  let ?z = "zip [n ..< n + length ws] ws"
  have all: "\<forall>(k, v) \<in> set ?z. word_ram b k" using assms(2) by (auto simp: set_zip)
  show "wf_bus (write_words (word_addr n) ws b)" "word_ram (write_words (word_addr n) ws b) = word_ram b"
    using bus_words.writes_inv [OF assms(1) all] by (simp_all add: write_words_fold)
  have d: "distinct (map fst ?z)" by simp
  have "word_abs (write_words (word_addr n) ws b) = word_abs b ++ map_of (rev ?z)"
    using bus_words.rd_writes [OF assms(1) all] by (simp add: write_words_fold)
  also have "map_of (rev ?z) = map_of ?z" by (rule map_of_rev_distinct [OF d])
  finally have eq: "word_abs (write_words (word_addr n) ws b) = word_abs b ++ map_of ?z" .
  show "word_abs (write_words (word_addr n) ws b) k =
      (if n \<le> k \<and> k < n + length ws then Some (ws ! (k - n)) else word_abs b k)"
  proof (cases "n \<le> k \<and> k < n + length ws")
    case True
    then have "map_of ?z k = Some (ws ! (k - n))"
      using map_of_zip_nth [of "[n ..< n + length ws]" ws "k - n"] by force
    with True show ?thesis by (simp add: eq map_add_Some_iff)
  next
    case False
    then have "map_of ?z k = None" by (auto simp: map_of_eq_None_iff dest: set_zip_leftD)
    then show ?thesis by (simp only: eq map_add_def option.case if_not_P [OF False])
  qed
qed

lemma bus_write_banks [simp]: "mem_banks (bus_write sz a v b) = mem_banks b"
proof -
  have ptr: "mem_banks (snd (bank_ptr x t)) = mem_banks t" for x and t :: "'a bus"
    by (auto simp: bank_ptr_def Let_def bus_halt_def split: option.split scan_result.split)
  have rd: "mem_banks (snd (rom_read i x t)) = mem_banks t" for i x and t :: "'a bus"
    by (auto simp: rom_read_def Let_def bus_halt_def split: option.split)
  have wr: "mem_banks (rom_write i x w t) = mem_banks t" for i x w and t :: "'a bus"
    by (auto simp: rom_write_def Let_def bus_halt_def split: option.split)
  have mw: "mem_banks (mem_write sz a v t) = mem_banks t" for t :: "'a bus"
    using ptr [of a t] rd wr
    by (auto simp: mem_write_def mem_write_byte_def mem_write_halfword_def mem_write_word_def
        Let_def bus_halt_def split: prod.split option.split)
      (metis snd_conv)+
  show ?thesis
    using ptr [of a b] mw
    by (auto simp: bus_write_def io_write_def io_write_byte_def io_write_halfword_def
        io_write_word_def flash_write_def flash_defs warn_write_def bus_halt_def
        split: prod.split option.split bank_writer.split bool.split)
qed

lemma ram_at_banks: "mem_banks b = mem_banks b' \<Longrightarrow> ram_at b = ram_at b'"
  by (simp add: ram_at_def fun_eq_iff split: option.split)

lemma write_words_wf:
  "wf_bus b \<Longrightarrow> wf_bus (write_words a ws b) \<and> mem_banks (write_words a ws b) = mem_banks b \<and>
     halted (write_words a ws b) = halted b"
  by (induction ws arbitrary: a b) (auto simp: bus_write_wf)

lemma read_words_ram:
  assumes "wf_bus b" "\<forall>i < length ws. ram_at b (a + 4 * word_of_nat i)"
  shows "\<exists>m. read_words a ws b =
      (map (\<lambda>i. word_at b (a + 4 * word_of_nat i)) [0 ..< length ws], b\<lparr>mbp := m\<rparr>) \<and>
      wf_bus (b\<lparr>mbp := m\<rparr>)"
  using assms
proof (induction ws arbitrary: a b)
  case Nil
  then show ?case by (intro exI [of _ "mbp b"]) simp
next
  case (Cons w ws)
  have ram: "ram_at b a" using Cons.prems(2) by (force dest: spec [of _ 0])
  obtain m where m: "bus_read 32 a w b = (word_at b a, b\<lparr>mbp := m\<rparr>)" "wf_bus (b\<lparr>mbp := m\<rparr>)"
    using bus_read_rom [OF Cons.prems(1) mem_abs_word [OF Cons.prems(1) ram], of 32 w] by auto
  have "\<forall>i < length ws. ram_at (b\<lparr>mbp := m\<rparr>) (a + 4 + 4 * word_of_nat i)"
  proof (intro allI impI)
    fix i assume "i < length ws"
    then show "ram_at (b\<lparr>mbp := m\<rparr>) (a + 4 + 4 * word_of_nat i)"
      using Cons.prems(2) by (auto dest: spec [of _ "Suc i"] simp: algebra_simps)
  qed
  then obtain n where n: "read_words (a + 4) ws (b\<lparr>mbp := m\<rparr>) =
      (map (\<lambda>i. word_at b (a + 4 + 4 * word_of_nat i)) [0 ..< length ws], b\<lparr>mbp := n\<rparr>)"
      "wf_bus (b\<lparr>mbp := n\<rparr>)"
    using Cons.IH [OF m(2), of "a + 4"] by auto
  have "[0 ..< length (w # ws)] = 0 # map Suc [0 ..< length ws]"
    by (simp add: upt_conv_Cons map_Suc_upt del: upt_Suc)
  then show ?case
    using m(1) n by (intro exI [of _ n]) (simp add: comp_def algebra_simps del: upt_Suc)
qed

subsection \<open>The cache invariant\<close>

definition valid_line :: "cache_line \<Rightarrow> bool" where
  "valid_line l \<longleftrightarrow> line_tag l AND TAG_VALID_FLAG \<noteq> 0"

text \<open>
  Sizes are powers of two and the arrays have them; a valid line is in the set of its
  address, and no address is in two lines of a set.
\<close>

definition geometry_ok :: "cache \<Rightarrow> bool" where
  "geometry_ok c \<longleftrightarrow>
     (\<exists>k \<in> {3 ..< 32}. cache_width c = 2 ^ k) \<and> (\<exists>m \<in> {0 ..< 32}. cache_set_num c = 2 ^ m) \<and>
     0 < unat (cache_way c) \<and> length (cache_sets c) = unat (cache_set_num c)"

definition set_ok :: "cache \<Rightarrow> cache_set \<Rightarrow> bool" where
  "set_ok c s \<longleftrightarrow>
     length (set_lines s) = unat (cache_way c) \<and> set_cycle s < unat (cache_way c) \<and>
     (\<forall>l \<in> set (set_lines s). length (line_data l) = line_words c)"

definition line_ptrs :: "cache \<Rightarrow> (nat \<times> nat) list" where
  "line_ptrs c = List.product [0 ..< unat (cache_set_num c)] [0 ..< unat (cache_way c)]"

definition holds_line :: "cache \<Rightarrow> nat \<times> nat \<Rightarrow> u32 \<Rightarrow> bool" where
  "holds_line c p va \<longleftrightarrow>
     line_exists c p \<and> valid_line (get_line c p) \<and>
     va_cache_align (line_tag (get_line c p)) c = va_cache_align va c"

definition wf_cache :: "cache \<Rightarrow> bool" where
  "wf_cache c \<longleftrightarrow>
     geometry_ok c \<and> (\<forall>s \<in> set (cache_sets c). set_ok c s) \<and>
     (\<forall>p \<in> set (line_ptrs c). valid_line (get_line c p) \<longrightarrow>
        va_cache_set (line_tag (get_line c p)) c = fst p \<and>
        (\<forall>q \<in> set (line_ptrs c). holds_line c q (line_tag (get_line c p)) \<longrightarrow> q = p))"

lemma width_facts:
  assumes "cache_width c = 2 ^ k" "k < 32"
  shows "va_cache_align va c = va AND NOT (mask k)"
    and "va div cache_width c = drop_bit k va"
  using assms by (simp_all add: va_cache_align_def mask_eq_exp_minus_1 drop_bit_eq_div)

lemma set_facts:
  assumes "cache_width c = 2 ^ k" "k < 32" "cache_set_num c = 2 ^ m" "m < 32"
  shows "va_cache_set va c = unat (take_bit m (drop_bit k va))"
  using width_facts(2) [OF assms(1,2), of va] assms(3)
  by (simp add: va_cache_set_def take_bit_eq_mask mask_eq_exp_minus_1)

lemma unat_exp_u32:
  assumes "m < 32"
  shows "unat (2 ^ m :: u32) = 2 ^ m"
proof -
  have "(2 ^ m :: nat) < 2 ^ 32" using assms by (intro power_strict_increasing) simp_all
  then have "unat (word_of_nat (2 ^ m) :: u32) = 2 ^ m"
    using take_bit_nat_eq_self [of "2 ^ m" 32] by (simp only: unsigned_of_nat) simp
  then show ?thesis by simp
qed

lemma set_in_range:
  assumes "geometry_ok c"
  shows "va_cache_set va c < length (cache_sets c)"
proof -
  obtain k m where "k < 32" "m < 32" "cache_width c = 2 ^ k" "cache_set_num c = 2 ^ m"
    using assms by (auto simp: geometry_ok_def)
  moreover have "unat (take_bit m (drop_bit k va)) < 2 ^ m" by (simp add: unsigned_take_bit_eq)
  ultimately show ?thesis
    using assms set_facts [of c k m va] by (simp add: geometry_ok_def unat_exp_u32)
qed

lemma align_set:
  assumes "geometry_ok c" "va_cache_align va c = va_cache_align vb c"
  shows "va_cache_set va c = va_cache_set vb c"
proof -
  obtain k m where km: "k < 32" "m < 32" "cache_width c = 2 ^ k" "cache_set_num c = 2 ^ m"
    using assms by (auto simp: geometry_ok_def)
  have "va AND NOT (mask k) = vb AND NOT (mask k)" using assms(2) width_facts(1) [OF km(3,1)] by simp
  then have "drop_bit k (va AND NOT (mask k)) = drop_bit k (vb AND NOT (mask k))" by simp
  moreover have "drop_bit k (x AND NOT (mask k)) = drop_bit k x" for x :: u32
    by (intro bit_word_eqI) (auto simp: bit_simps dest: bit_imp_le_length)
  ultimately have "drop_bit k va = drop_bit k vb" by simp
  then show ?thesis using set_facts [OF km(3,1,4,2)] by simp
qed

text \<open>The flag bits 0 to 2 of a tag do not disturb its address.\<close>

lemma align_low_bits:
  assumes "geometry_ok c" "\<And>n. 3 \<le> n \<Longrightarrow> bit t n = bit va n"
  shows "va_cache_align t c = va_cache_align va c"
proof -
  obtain k where k: "3 \<le> k" "k < 32" "cache_width c = 2 ^ k"
    using assms by (auto simp: geometry_ok_def)
  have "t AND NOT (mask k) = va AND NOT (mask k)"
    by (intro bit_word_eqI) (use assms(2) k(1) in \<open>auto simp: bit_simps\<close>)
  then show ?thesis using width_facts(1) [OF k(3,2)] by simp
qed

lemma align_idem:
  assumes "geometry_ok c"
  shows "va_cache_align (va_cache_align va c) c = va_cache_align va c"
  using assms width_facts(1) by (auto simp: geometry_ok_def and.assoc)

lemma valid_line_bit: "valid_line l \<longleftrightarrow> bit (line_tag l) 0"
  by (simp add: valid_line_def TAG_VALID_FLAG_def bit_iff_odd and_one_eq odd_iff_mod_2_eq_one)

subsection \<open>Lines and the search\<close>

lemma line_ptrs_iff:
  assumes "geometry_ok c" "\<forall>s \<in> set (cache_sets c). set_ok c s"
  shows "p \<in> set (line_ptrs c) \<longleftrightarrow> line_exists c p"
  using assms by (cases p) (auto simp: line_ptrs_def line_exists_def geometry_ok_def set_ok_def)

lemma wf_cache_ptrs: "wf_cache c \<Longrightarrow> p \<in> set (line_ptrs c) \<longleftrightarrow> line_exists c p"
  by (simp add: wf_cache_def line_ptrs_iff)

lemma set_line_fields [simp]:
  "cache_width (set_line p l c) = cache_width c" "cache_way (set_line p l c) = cache_way c"
  "cache_set_num (set_line p l c) = cache_set_num c" "cache_w_mode (set_line p l c) = cache_w_mode c"
  "va_cache_align va (set_line p l c) = va_cache_align va c"
  "va_cache_set va (set_line p l c) = va_cache_set va c"
  "line_words (set_line p l c) = line_words c" "line_ptrs (set_line p l c) = line_ptrs c"
  "length (cache_sets (set_line p l c)) = length (cache_sets c)"
  "geometry_ok (set_line p l c) = geometry_ok c"
  by (simp_all add: set_line_def va_cache_align_def va_cache_set_def line_words_def line_ptrs_def
      geometry_ok_def)

lemma line_exists_set_line [simp]: "line_exists (set_line p l c) q = line_exists c q"
  by (cases "fst p = fst q") (auto simp: line_exists_def set_line_def nth_list_update)

lemma get_line_set_line:
  "line_exists c p \<Longrightarrow> line_exists c q \<Longrightarrow> get_line (set_line p l c) q = (if q = p then l else get_line c q)"
  by (cases p; cases q) (auto simp: get_line_def line_exists_def set_line_def nth_list_update)

lemma search_lines_iff:
  assumes "\<And>j j'. j < length ls \<Longrightarrow> j' < length ls \<Longrightarrow> hit (ls ! j) \<Longrightarrow> hit (ls ! j') \<Longrightarrow> j = j'"
    and "\<And>l. hit l \<longleftrightarrow> valid_line l \<and> va_cache_align (line_tag l) c = t"
  shows "search_lines c t i ls = Some n \<longleftrightarrow> (\<exists>j < length ls. n = i + j \<and> hit (ls ! j))"
  using assms(1)
proof (induction ls arbitrary: i)
  case (Cons l ls)
  have IH: "search_lines c t (Suc i) ls = Some n \<longleftrightarrow> (\<exists>j < length ls. n = Suc i + j \<and> hit (ls ! j))"
  proof (rule Cons.IH)
    fix j j' assume "j < length ls" "j' < length ls" "hit (ls ! j)" "hit (ls ! j')"
    then show "j = j'" using Cons.prems [of "Suc j" "Suc j'"] by simp
  qed
  have h: "line_tag l AND TAG_VALID_FLAG \<noteq> 0 \<and> t = va_cache_align (line_tag l) c \<longleftrightarrow> hit l"
    using assms(2) by (auto simp: valid_line_def)
  show ?case
  proof (cases "hit l")
    case True
    then show ?thesis using h Cons.prems [of 0] by (auto simp: less_Suc_eq_0_disj)
  next
    case False
    then show ?thesis using h IH by (auto simp: less_Suc_eq_0_disj)
  qed
qed simp

lemma search_iff:
  assumes "wf_cache c"
  shows "mmu_cache_search c va = Some p \<longleftrightarrow> holds_line c p va"
proof -
  let ?s = "va_cache_set va c" and ?t = "va_cache_align va c"
  let ?hit = "\<lambda>l. valid_line l \<and> va_cache_align (line_tag l) c = ?t"
  have geo: "geometry_ok c" using assms by (simp add: wf_cache_def)
  have s: "?s < length (cache_sets c)" by (rule set_in_range [OF geo])
  let ?ls = "set_lines (cache_sets c ! ?s)"
  have len: "length ?ls = unat (cache_way c)"
    using assms nth_mem [OF s] by (auto simp: wf_cache_def set_ok_def)
  have hit: "?hit (?ls ! j) \<longleftrightarrow> holds_line c (?s, j) va" if "j < length ?ls" for j
    using that s by (simp add: holds_line_def line_exists_def get_line_def)
  have uniq: "j = j'" if "j < length ?ls" "j' < length ?ls" "?hit (?ls ! j)" "?hit (?ls ! j')" for j j'
  proof -
    have "(?s, j) \<in> set (line_ptrs c)" "(?s, j') \<in> set (line_ptrs c)"
      using that s by (simp_all add: wf_cache_ptrs [OF assms] line_exists_def)
    moreover have "valid_line (get_line c (?s, j))" "holds_line c (?s, j') (line_tag (get_line c (?s, j)))"
      using that hit by (auto simp: holds_line_def)
    ultimately show ?thesis using assms unfolding wf_cache_def by (metis prod.inject)
  qed
  have "search_lines c ?t 0 ?ls = Some n \<longleftrightarrow> (\<exists>j < length ?ls. n = 0 + j \<and> ?hit (?ls ! j))" for n
    by (rule search_lines_iff) (use uniq in auto)
  then have "mmu_cache_search c va = Some p \<longleftrightarrow> fst p = ?s \<and> snd p < length ?ls \<and> ?hit (?ls ! snd p)"
    using len by (cases p) (auto simp: mmu_cache_search_def Let_def)
  also have "\<dots> \<longleftrightarrow> fst p = ?s \<and> holds_line c p va"
    using hit s by (cases p) (auto simp: holds_line_def line_exists_def get_line_def)
  also have "\<dots> \<longleftrightarrow> holds_line c p va"
  proof -
    have "fst p = ?s" if "holds_line c p va"
      using that assms align_set [OF geo, of "line_tag (get_line c p)" va]
      by (auto simp: holds_line_def wf_cache_def wf_cache_ptrs [OF assms])
    then show ?thesis by auto
  qed
  finally show ?thesis .
qed

subsection \<open>Lines and memory\<close>

text \<open>
  \<open>line_base\<close> is the first memory word a line stands for; \<open>dirty_word l n i\<close> says that word
  \<open>i\<close> of a line of \<open>n\<close> words is in a half marked dirty.
\<close>

definition line_base :: "cache_line \<Rightarrow> nat" where
  "line_base l = unat (line_pa l) div 4"

definition dirty_word :: "cache_line \<Rightarrow> nat \<Rightarrow> nat \<Rightarrow> bool" where
  "dirty_word l n i \<longleftrightarrow> bit (line_tag l) (if i < n div 2 then 1 else 2)"

definition covers :: "cache \<Rightarrow> cache_line \<Rightarrow> nat \<Rightarrow> bool" where
  "covers c l k \<longleftrightarrow> valid_line l \<and> line_base l \<le> k \<and> k < line_base l + line_words c"

definition line_in_ram :: "cache \<Rightarrow> 'd bus \<Rightarrow> u32 \<Rightarrow> bool" where
  "line_in_ram c b a \<longleftrightarrow>
     unat a mod 4 = 0 \<and> (\<forall>k \<in> {unat a div 4 ..< unat a div 4 + line_words c}. word_ram b k)"

definition line_coherent :: "cache \<Rightarrow> 'd bus \<Rightarrow> cache_line \<Rightarrow> bool" where
  "line_coherent c b l \<longleftrightarrow>
     line_in_ram c b (line_pa l) \<and>
     (\<forall>i < line_words c. \<not> dirty_word l (line_words c) i \<longrightarrow> word_abs b (line_base l + i) = Some (line_data l ! i))"

text \<open>
  The coherence invariant of a cache and the memory behind it, and the memory a program sees
  through the cache.
\<close>

definition coherent :: "cache \<Rightarrow> 'd bus \<Rightarrow> bool" where
  "coherent c b \<longleftrightarrow>
     wf_cache c \<and> wf_bus b \<and>
     (\<forall>p \<in> set (line_ptrs c). valid_line (get_line c p) \<longrightarrow>
        line_coherent c b (get_line c p) \<and>
        (\<forall>q \<in> set (line_ptrs c). \<forall>i < line_words c.
           covers c (get_line c q) (line_base (get_line c p) + i) \<longrightarrow> q = p))"

definition seen :: "cache \<Rightarrow> 'd bus \<Rightarrow> nat \<Rightarrow> u32 option" where
  "seen c b k =
     (case find (\<lambda>p. covers c (get_line c p) k) (line_ptrs c) of
        None \<Rightarrow> word_abs b k
      | Some p \<Rightarrow> Some (line_data (get_line c p) ! (k - line_base (get_line c p))))"

lemma aligned_word_addr: "unat a mod 4 = 0 \<Longrightarrow> word_addr (unat a div 4) = a"
proof -
  assume "unat a mod 4 = 0"
  then have "4 * (unat a div 4) = unat a" by (metis mult_div_mod_eq add_0_right)
  then show ?thesis by (simp add: word_addr_def)
qed

lemma word_addr_offset: "word_addr n + push_bit 2 (word_of_nat m) = word_addr (n + m)"
  by (simp add: word_addr_def push_bit_eq_mult algebra_simps)

lemma line_words_even: "geometry_ok c \<Longrightarrow> line_words c = 2 * (line_words c div 2) \<and> 0 < line_words c div 2"
proof -
  assume "geometry_ok c"
  then obtain k where k: "3 \<le> k" "k < 32" "cache_width c = 2 ^ k" by (auto simp: geometry_ok_def)
  have "unat (drop_bit 2 (2 ^ k :: u32)) = 2 ^ k div 4"
    using unat_exp_u32 [OF k(2)] by (simp only: unat_drop_bit_eq) (simp add: drop_bit_eq_div)
  moreover obtain j where "k = 3 + j" using k(1) le_Suc_ex by blast
  ultimately have "line_words c = 2 * 2 ^ j" using k(3) by (simp add: line_words_def power_add)
  then show ?thesis by simp
qed

lemma dirty_tag_cases:
  fixes t :: u32
  defines "d \<equiv> t AND NOT 1 AND (TAG_FIRST_HALF_DIRTY OR TAG_LAST_HALF_DIRTY)"
  shows "d = 0 \<longleftrightarrow> \<not> bit t 1 \<and> \<not> bit t 2"
    and "d = TAG_FIRST_HALF_DIRTY \<longleftrightarrow> bit t 1 \<and> \<not> bit t 2"
    and "d = TAG_LAST_HALF_DIRTY \<longleftrightarrow> \<not> bit t 1 \<and> bit t 2"
proof -
  have "d = of_bool (bit t 1) * 2 + of_bool (bit t 2) * 4"
    unfolding d_def TAG_FIRST_HALF_DIRTY_def TAG_LAST_HALF_DIRTY_def
    by (intro bit_word_eqI) (auto simp: bit_simps numeral_eq_Suc less_Suc_eq)
  then show "d = 0 \<longleftrightarrow> \<not> bit t 1 \<and> \<not> bit t 2" "d = TAG_FIRST_HALF_DIRTY \<longleftrightarrow> bit t 1 \<and> \<not> bit t 2"
    "d = TAG_LAST_HALF_DIRTY \<longleftrightarrow> \<not> bit t 1 \<and> bit t 2"
    by (simp_all add: TAG_FIRST_HALF_DIRTY_def TAG_LAST_HALF_DIRTY_def)
qed

definition clean_line :: "cache_line \<Rightarrow> cache_line" where
  "clean_line l = l\<lparr>line_tag := line_tag l AND NOT (TAG_FIRST_HALF_DIRTY OR TAG_LAST_HALF_DIRTY)\<rparr>"

lemma bit_dirty_flags:
  "bit TAG_FIRST_HALF_DIRTY n \<longleftrightarrow> n = 1" "bit TAG_LAST_HALF_DIRTY n \<longleftrightarrow> n = 2"
proof -
  have flags: "TAG_FIRST_HALF_DIRTY = 2 ^ 1" "TAG_LAST_HALF_DIRTY = 2 ^ 2"
    by (simp_all add: TAG_FIRST_HALF_DIRTY_def TAG_LAST_HALF_DIRTY_def)
  show "bit TAG_FIRST_HALF_DIRTY n \<longleftrightarrow> n = 1" "bit TAG_LAST_HALF_DIRTY n \<longleftrightarrow> n = 2"
    unfolding flags bit_exp_iff by auto
qed

lemma bit_clean_tag: "bit (line_tag (clean_line l)) n \<longleftrightarrow> bit (line_tag l) n \<and> n \<noteq> 1 \<and> n \<noteq> 2"
  by (auto simp: clean_line_def bit_and_iff bit_not_iff bit_or_iff bit_dirty_flags possible_bit_word
      dest: bit_imp_le_length)

lemma clean_line_simps [simp]:
  "line_pa (clean_line l) = line_pa l" "line_data (clean_line l) = line_data l"
  "line_base (clean_line l) = line_base l" "valid_line (clean_line l) = valid_line l"
  "covers c (clean_line l) k = covers c l k" "\<not> dirty_word (clean_line l) n i"
  by (simp_all add: line_base_def valid_line_bit bit_clean_tag covers_def dirty_word_def)
    (simp_all add: clean_line_def)

text \<open>Writing a valid line back changes the words of its dirty halves in memory, and no other.\<close>

lemma write_back_line_abs:
  assumes "geometry_ok c" "wf_bus b" "valid_line l" "line_in_ram c b (line_pa l)"
    and "length (line_data l) = line_words c" "write_back_line c l b = (l', b')"
  shows "l' = clean_line l \<or> l' = l \<and> \<not> bit (line_tag l) 1 \<and> \<not> bit (line_tag l) 2"
    and "wf_bus b'" and "word_ram b' = word_ram b"
    and "word_abs b' k =
      (if covers c l k \<and> dirty_word l (line_words c) (k - line_base l)
       then Some (line_data l ! (k - line_base l)) else word_abs b k)"
proof -
  let ?n = "line_words c" and ?h = "line_words c div 2" and ?m = "line_base l"
  note half = line_words_even [OF assms(1)]
  have pa: "line_pa l = word_addr ?m"
    using assms(4) by (simp add: line_in_ram_def line_base_def aligned_word_addr)
  have ram: "\<forall>k \<in> {?m ..< ?m + ?n}. word_ram b k"
    using assms(4) by (simp add: line_in_ram_def line_base_def)
  have wr: "wf_bus (write_words (word_addr i) ws b)"
      "word_ram (write_words (word_addr i) ws b) = word_ram b"
      "word_abs (write_words (word_addr i) ws b) k =
        (if i \<le> k \<and> k < i + length ws then Some (ws ! (k - i)) else word_abs b k)"
    if "?m \<le> i" "i + length ws \<le> ?m + ?n" for i ws
    using write_words_abs [OF assms(2), of i ws] ram that by auto
  have v: "line_tag l AND 1 \<noteq> 0" using assms(3) by (simp add: valid_line_def TAG_VALID_FLAG_def)
  note wb = assms(6) [unfolded write_back_line_def Let_def pa word_addr_offset dirty_tag_cases
      if_not_P [OF v] clean_line_def [symmetric]]
  consider "\<not> bit (line_tag l) 1" "\<not> bit (line_tag l) 2" | "bit (line_tag l) 1" "\<not> bit (line_tag l) 2"
    | "\<not> bit (line_tag l) 1" "bit (line_tag l) 2" | "bit (line_tag l) 1" "bit (line_tag l) 2" by blast
  then have "(l' = clean_line l \<or> l' = l \<and> \<not> bit (line_tag l) 1 \<and> \<not> bit (line_tag l) 2) \<and>
      wf_bus b' \<and> word_ram b' = word_ram b \<and> word_abs b' k =
      (if covers c l k \<and> dirty_word l ?n (k - ?m) then Some (line_data l ! (k - ?m)) else word_abs b k)"
  proof cases
    case 1
    then show ?thesis using wb assms(2) by (auto simp: dirty_word_def)
  next
    case 2
    then show ?thesis
      using wb assms(3,5) half wr [of ?m "take ?h (line_data l)"]
      by (auto simp: dirty_word_def covers_def)
  next
    case 3
    then show ?thesis
      using wb assms(3,5) half wr [of "?m + ?h" "take ?h (drop ?h (line_data l))"]
      by (auto simp: dirty_word_def covers_def)
  next
    case 4
    then show ?thesis
      using wb assms(3,5) half wr [of ?m "line_data l"]
      by (auto simp: dirty_word_def covers_def)
  qed
  then show "l' = clean_line l \<or> l' = l \<and> \<not> bit (line_tag l) 1 \<and> \<not> bit (line_tag l) 2"
    "wf_bus b'" "word_ram b' = word_ram b"
    "word_abs b' k =
      (if covers c l k \<and> dirty_word l (line_words c) (k - line_base l)
       then Some (line_data l ! (k - line_base l)) else word_abs b k)" by blast+
qed

subsection \<open>Replacing a line\<close>

lemma holds_line_iff:
  "holds_line c p va \<longleftrightarrow> line_exists c p \<and> valid_line (get_line c p) \<and>
     va_cache_align (line_tag (get_line c p)) c = va_cache_align va c"
  by (simp add: holds_line_def)

lemma wf_cacheD:
  assumes "wf_cache c"
  shows "geometry_ok c"
    and "line_exists c p \<Longrightarrow> length (line_data (get_line c p)) = line_words c"
    and "line_exists c p \<Longrightarrow> valid_line (get_line c p) \<Longrightarrow> va_cache_set (line_tag (get_line c p)) c = fst p"
    and "line_exists c p \<Longrightarrow> valid_line (get_line c p) \<Longrightarrow> holds_line c q (line_tag (get_line c p)) \<Longrightarrow> q = p"
proof -
  show "geometry_ok c" using assms by (simp add: wf_cache_def)
  assume p: "line_exists c p"
  then have "set_ok c (cache_sets c ! fst p)" "snd p < length (set_lines (cache_sets c ! fst p))"
    using assms by (simp_all add: wf_cache_def line_exists_def)
  then show "length (line_data (get_line c p)) = line_words c"
    by (simp add: set_ok_def get_line_def)
  assume "valid_line (get_line c p)"
  then show "va_cache_set (line_tag (get_line c p)) c = fst p"
    and "holds_line c q (line_tag (get_line c p)) \<Longrightarrow> q = p"
    using assms p wf_cache_ptrs [OF assms] by (auto simp: wf_cache_def holds_line_iff)
qed

lemma wf_set_line:
  assumes "wf_cache c" "line_exists c p" "length (line_data l) = line_words c"
    and "valid_line l \<Longrightarrow> va_cache_set (line_tag l) c = fst p"
    and "\<And>q. valid_line l \<Longrightarrow> q \<noteq> p \<Longrightarrow> \<not> holds_line c q (line_tag l)"
  shows "wf_cache (set_line p l c)"
proof -
  have sets: "\<forall>s \<in> set (cache_sets (set_line p l c)). set_ok (set_line p l c) s"
  proof
    fix s assume "s \<in> set (cache_sets (set_line p l c))"
    then consider "s \<in> set (cache_sets c)" | "s = (cache_sets c ! fst p)\<lparr>set_lines :=
        (set_lines (cache_sets c ! fst p))[snd p := l]\<rparr>"
      by (auto simp: set_line_def dest!: set_update_subset_insert [THEN subsetD])
    then show "set_ok (set_line p l c) s"
    proof cases
      case 1
      then show ?thesis using assms(1) by (auto simp: wf_cache_def set_ok_def)
    next
      case 2
      moreover have "set_ok c (cache_sets c ! fst p)"
        using assms(1,2) by (auto simp: wf_cache_def line_exists_def)
      ultimately show ?thesis
        using assms(3) by (auto simp: set_ok_def dest!: set_update_subset_insert [THEN subsetD])
    qed
  qed
  have geo: "geometry_ok (set_line p l c)" using assms(1) by (simp add: wf_cache_def)
  have holds: "holds_line (set_line p l c) q va \<longleftrightarrow>
      (if q = p then valid_line l \<and> va_cache_align (line_tag l) c = va_cache_align va c
       else holds_line c q va)" for q va
    using assms(2) by (auto simp: holds_line_iff get_line_set_line)
  show ?thesis
  proof (unfold wf_cache_def, rule conjI [OF geo conjI [OF sets]], intro ballI impI conjI)
    fix r assume r: "r \<in> set (line_ptrs (set_line p l c))" "valid_line (get_line (set_line p l c) r)"
    then have ex: "line_exists c r" using wf_cache_ptrs [OF assms(1)] by simp
    let ?l = "get_line (set_line p l c) r"
    show "va_cache_set (line_tag ?l) (set_line p l c) = fst r"
      using r ex assms(2,4) wf_cacheD(3) [OF assms(1) ex] by (auto simp: get_line_set_line)
    fix q assume q: "holds_line (set_line p l c) q (line_tag ?l)"
    show "q = r"
    proof (cases "r = p")
      case True
      then show ?thesis using q r(2) assms(2) assms(5) [of q] by (auto simp: get_line_set_line holds)
    next
      case False
      then have l: "?l = get_line c r" using ex assms(2) by (simp add: get_line_set_line)
      have "q \<noteq> p"
      proof
        assume "q = p"
        then have "valid_line l" "va_cache_align (line_tag l) c = va_cache_align (line_tag (get_line c r)) c"
          using q by (simp_all add: holds l)
        then show False using assms(5) [OF _ False] ex r(2) l by (simp add: holds_line_iff)
      qed
      then show ?thesis using q r(2) wf_cacheD(4) [OF assms(1) ex, of q] by (simp add: holds l)
    qed
  qed
qed

lemma set_line_same [simp]: "set_line p (get_line c p) c = c"
  by (simp add: set_line_def get_line_def)

lemma covers_set_line [simp]: "covers (set_line p l c) m k = covers c m k"
  by (simp add: covers_def)

lemma line_coherent_set_line [simp]: "line_coherent (set_line p l c) b m = line_coherent c b m"
  by (simp add: line_coherent_def line_in_ram_def)

lemma covers_offset: "valid_line l \<Longrightarrow> i < line_words c \<Longrightarrow> covers c l (line_base l + i)"
  by (simp add: covers_def)

lemma coherentD:
  assumes "coherent c b"
  shows "wf_cache c" "wf_bus b"
    and "line_exists c p \<Longrightarrow> valid_line (get_line c p) \<Longrightarrow> line_coherent c b (get_line c p)"
    and "line_exists c p \<Longrightarrow> line_exists c q \<Longrightarrow> covers c (get_line c p) k \<Longrightarrow>
      covers c (get_line c q) k \<Longrightarrow> q = p"
proof -
  show wf: "wf_cache c" "wf_bus b" using assms by (simp_all add: coherent_def)
  assume p: "line_exists c p"
  show "line_coherent c b (get_line c p)" if "valid_line (get_line c p)"
    using assms that p wf_cache_ptrs [OF wf(1)] by (simp add: coherent_def)
  assume q: "line_exists c q" "covers c (get_line c p) k" "covers c (get_line c q) k"
  then have "valid_line (get_line c p)" "k - line_base (get_line c p) < line_words c"
      "covers c (get_line c q) (line_base (get_line c p) + (k - line_base (get_line c p)))"
    by (auto simp: covers_def)
  then show "q = p" using assms p q(1) wf_cache_ptrs [OF wf(1)] unfolding coherent_def by metis
qed

lemma coherent_set_line:
  assumes "coherent c b" "line_exists c p" "wf_cache (set_line p l c)" "wf_bus b'"
    and "word_ram b' = word_ram b" "valid_line l \<Longrightarrow> line_coherent c b' l"
    and "\<And>q k. line_exists c q \<Longrightarrow> q \<noteq> p \<Longrightarrow> covers c l k \<Longrightarrow> \<not> covers c (get_line c q) k"
    and "\<And>q k. line_exists c q \<Longrightarrow> q \<noteq> p \<Longrightarrow> covers c (get_line c q) k \<Longrightarrow> word_abs b' k = word_abs b k"
  shows "coherent (set_line p l c) b'"
  unfolding coherent_def
proof (intro conjI ballI impI allI assms(3,4))
  fix r assume r: "r \<in> set (line_ptrs (set_line p l c))" "valid_line (get_line (set_line p l c) r)"
  then have ex: "line_exists c r" using wf_cache_ptrs [OF coherentD(1) [OF assms(1)]] by simp
  let ?l = "get_line (set_line p l c) r"
  show "line_coherent (set_line p l c) b' ?l"
  proof (cases "r = p")
    case True
    then show ?thesis using r(2) assms(2,6) by (simp add: get_line_set_line)
  next
    case False
    then have eq: "?l = get_line c r" using ex assms(2) by (simp add: get_line_set_line)
    have "line_coherent c b (get_line c r)" using coherentD(3) [OF assms(1) ex] r(2) eq by simp
    then show ?thesis
      using assms(5) assms(8) [OF ex False] covers_offset [of "get_line c r" _ c] r(2)
      by (simp add: eq line_coherent_def line_in_ram_def)
  qed
  fix q i assume "q \<in> set (line_ptrs (set_line p l c))" "i < line_words (set_line p l c)"
    and cov: "covers (set_line p l c) (get_line (set_line p l c) q) (line_base ?l + i)"
  then have q: "line_exists c q" and i: "i < line_words c"
    using wf_cache_ptrs [OF coherentD(1) [OF assms(1)]] by simp_all
  have covr: "covers c ?l (line_base ?l + i)" using r(2) i by (rule covers_offset)
  show "q = r"
    using cov covr coherentD(4) [OF assms(1) ex q] assms(7) [OF ex] assms(7) [OF q]
    by (cases "q = p"; cases "r = p") (auto simp: get_line_set_line assms(2) ex q)
qed

lemma seen_covered:
  assumes "coherent c b" "line_exists c p" "covers c (get_line c p) k"
  shows "seen c b k = Some (line_data (get_line c p) ! (k - line_base (get_line c p)))"
proof (cases "find (\<lambda>p. covers c (get_line c p) k) (line_ptrs c)")
  case None
  then show ?thesis
    using assms(2,3) wf_cache_ptrs [OF coherentD(1) [OF assms(1)]] unfolding find_None_iff by blast
next
  case (Some q)
  then have "q \<in> set (line_ptrs c)" "covers c (get_line c q) k"
    by (auto simp: find_Some_iff)
  then have "q = p"
    using coherentD(4) [OF assms(1,2) _ assms(3)] wf_cache_ptrs [OF coherentD(1) [OF assms(1)]] by auto
  with Some show ?thesis by (simp add: seen_def)
qed

lemma seen_free:
  assumes "wf_cache c" "\<And>p. line_exists c p \<Longrightarrow> \<not> covers c (get_line c p) k"
  shows "seen c b k = word_abs b k"
proof -
  have "find (\<lambda>p. covers c (get_line c p) k) (line_ptrs c) = None"
    using assms wf_cache_ptrs [OF assms(1)] by (auto simp: find_None_iff)
  then show ?thesis by (simp add: seen_def)
qed

subsection \<open>Write back, flush and allocation\<close>

lemma clean_tag_align:
  assumes "geometry_ok c"
  shows "va_cache_align (line_tag (clean_line l)) c = va_cache_align (line_tag l) c"
    and "va_cache_set (line_tag (clean_line l)) c = va_cache_set (line_tag l) c"
proof -
  show "va_cache_align (line_tag (clean_line l)) c = va_cache_align (line_tag l) c"
    by (rule align_low_bits [OF assms]) (auto simp: bit_clean_tag)
  then show "va_cache_set (line_tag (clean_line l)) c = va_cache_set (line_tag l) c"
    by (rule align_set [OF assms])
qed

lemma word_abs_dom: "word_abs b k \<noteq> None \<longleftrightarrow> word_ram b k"
  by (simp add: word_abs_def)

text \<open>A new tag for a line and a memory changed under that line only leave what is seen.\<close>

lemma seen_same_line:
  assumes co: "coherent c b" and co': "coherent (set_line p l c) b'" and p: "line_exists c p"
    and eq: "line_data l = line_data (get_line c p)" "line_base l = line_base (get_line c p)"
      "\<And>k. covers c l k = covers c (get_line c p) k"
    and other: "\<And>k. \<not> covers c (get_line c p) k \<Longrightarrow> word_abs b' k = word_abs b k"
  shows "seen (set_line p l c) b' = seen c b"
proof
  fix k
  let ?c = "set_line p l c"
  show "seen ?c b' k = seen c b k"
  proof (cases "\<exists>q. line_exists c q \<and> covers c (get_line c q) k")
    case True
    then obtain q where q: "line_exists c q" "covers c (get_line c q) k" by blast
    have g: "get_line ?c q = (if q = p then l else get_line c q)"
      using p q(1) by (simp add: get_line_set_line)
    have "seen ?c b' k = Some (line_data (get_line ?c q) ! (k - line_base (get_line ?c q)))"
      by (rule seen_covered [OF co']) (use q g eq in auto)
    then show ?thesis using seen_covered [OF co q] g eq by simp
  next
    case False
    then have "seen ?c b' k = word_abs b' k"
      using p eq(3) by (intro seen_free coherentD(1) [OF co']) (auto simp: get_line_set_line)
    also have "\<dots> = word_abs b k" using False p by (intro other) blast
    also have "\<dots> = seen c b k" using False by (subst seen_free [OF coherentD(1) [OF co]]) auto
    finally show ?thesis .
  qed
qed

lemma write_back_coherent:
  assumes co: "coherent c b" and p: "line_exists c p" and wb: "mmu_cache_write_back p c b = (c', b')"
  shows "coherent c' b'" and "seen c' b' = seen c b" and "word_ram b' = word_ram b"
    and "\<And>k. covers c (get_line c p) k \<Longrightarrow> word_abs b' k = seen c b k"
    and "\<exists>l'. c' = set_line p l' c \<and> (l' = get_line c p \<or> l' = clean_line (get_line c p))"
proof -
  let ?l = "get_line c p"
  note wf = coherentD(1) [OF co]
  note geo = wf_cacheD(1) [OF wf]
  obtain l' where l': "write_back_line c ?l b = (l', b')" and c': "c' = set_line p l' c"
    using wb p by (auto simp: mmu_cache_write_back_def split: prod.splits)
  have "coherent c' b' \<and> seen c' b' = seen c b \<and> word_ram b' = word_ram b \<and>
    (\<forall>k. covers c ?l k \<longrightarrow> word_abs b' k = seen c b k) \<and> (l' = ?l \<or> l' = clean_line ?l)"
  proof (cases "valid_line ?l")
    case False
    then have "l' = ?l" "b' = b"
      using l' by (auto simp: write_back_line_def Let_def valid_line_def TAG_VALID_FLAG_def)
    then show ?thesis using co c' False by (simp add: covers_def)
  next
    case True
    note lc = coherentD(3) [OF co p True]
    have len: "length (line_data ?l) = line_words c" by (rule wf_cacheD(2) [OF wf p])
    have ram: "line_in_ram c b (line_pa ?l)" using lc by (simp add: line_coherent_def)
    note wbl = write_back_line_abs [OF geo coherentD(2) [OF co] True ram len l']
    have eq: "line_data l' = line_data ?l" "line_base l' = line_base ?l" "line_pa l' = line_pa ?l"
        "valid_line l'" "\<And>k. covers c l' k = covers c ?l k"
        "va_cache_align (line_tag l') c = va_cache_align (line_tag ?l) c"
        "va_cache_set (line_tag l') c = va_cache_set (line_tag ?l) c"
      using wbl(1) True clean_tag_align [OF geo, of ?l] by auto
    have all: "word_abs b' k = Some (line_data ?l ! (k - line_base ?l))" if "covers c ?l k" for k
      using that wbl(4) [of k] lc by (auto simp: line_coherent_def covers_def dest: spec [of _ "k - line_base ?l"])
    have other: "word_abs b' k = word_abs b k" if "\<not> covers c ?l k" for k
      using that wbl(4) [of k] by simp
    have wf': "wf_cache c'" unfolding c'
      using wf p len eq wf_cacheD(3,4) [OF wf p True]
      by (intro wf_set_line) (auto simp: holds_line_iff)
    have co': "coherent c' b'" unfolding c'
    proof (rule coherent_set_line [OF co p wf' [unfolded c'] wbl(2,3)])
      show "line_coherent c b' l'"
        using ram all eq(1-4) wbl(3) covers_offset [OF True, of _ c]
        by (simp add: line_coherent_def line_in_ram_def)
    qed (use coherentD(4) [OF co p] other eq(5) in blast)+
    have "seen c' b' = seen c b" unfolding c'
      by (rule seen_same_line [OF co co' [unfolded c'] p eq(1,2,5) other])
    then show ?thesis using co' wbl(1,3) all seen_covered [OF co p] by auto
  qed
  then show "coherent c' b'" "seen c' b' = seen c b" "word_ram b' = word_ram b"
    "\<And>k. covers c ?l k \<Longrightarrow> word_abs b' k = seen c b k"
    "\<exists>l'. c' = set_line p l' c \<and> (l' = ?l \<or> l' = clean_line ?l)" using c' by blast+
qed

text \<open>A line whose words are all in memory can be dropped.\<close>

lemma drop_line_coherent:
  assumes co: "coherent c b" and p: "line_exists c p" and l: "\<not> valid_line l"
    and len: "length (line_data l) = line_words c"
    and mem: "\<And>k. covers c (get_line c p) k \<Longrightarrow> word_abs b k = seen c b k"
  shows "coherent (set_line p l c) b \<and> seen (set_line p l c) b = seen c b"
proof
  let ?c = "set_line p l c"
  note wf = coherentD(1) [OF co]
  have wf': "wf_cache ?c" using l by (intro wf_set_line wf p len) auto
  have nc: "\<not> covers c l k" for k using l by (simp add: covers_def)
  show co': "coherent ?c b"
    using l nc coherentD(2) [OF co] by (intro coherent_set_line [OF co p wf']) auto
  show "seen ?c b = seen c b"
  proof
    fix k
    show "seen ?c b k = seen c b k"
    proof (cases "\<exists>q. line_exists c q \<and> q \<noteq> p \<and> covers c (get_line c q) k")
      case True
      then obtain q where q: "line_exists c q" "q \<noteq> p" "covers c (get_line c q) k" by blast
      then have "get_line ?c q = get_line c q" using p by (simp add: get_line_set_line)
      then show ?thesis using seen_covered [OF co' _, of q k] seen_covered [OF co q(1,3)] q by simp
    next
      case False
      then have *: "\<not> covers ?c (get_line ?c q) k" if "line_exists ?c q" for q
        using that p nc by (cases q) (auto simp: get_line_set_line)
      have "seen ?c b k = word_abs b k" by (rule seen_free [OF wf' *])
      also have "\<dots> = seen c b k"
        using False mem [of k] seen_free [OF wf, of k b] by (cases "covers c (get_line c p) k") metis+
      finally show ?thesis .
    qed
  qed
qed

lemma flush_line_coherent:
  assumes "coherent c b" "line_exists c p" "flush_line p c b = (c', b')"
  shows "coherent c' b'" and "seen c' b' = seen c b" and "word_ram b' = word_ram b"
    and "\<exists>l. c' = set_line p l c \<and> \<not> valid_line l"
proof -
  obtain c1 where c1: "mmu_cache_write_back p c b = (c1, b')" "c' = clear_tag p c1"
    using assms(3) by (auto simp: flush_line_def split: prod.splits)
  note wb = write_back_coherent [OF assms(1,2) c1(1)]
  obtain l' where l': "c1 = set_line p l' c" "l' = get_line c p \<or> l' = clean_line (get_line c p)"
    using wb(5) by blast
  have p1: "line_exists c1 p" and g1: "get_line c1 p = l'"
    using assms(2) l'(1) by (simp_all add: get_line_set_line)
  have cov: "covers c1 l' k = covers c (get_line c p) k" for k using l' by auto
  let ?l = "l'\<lparr>line_tag := 0\<rparr>"
  have inv: "\<not> valid_line ?l" by (simp add: valid_line_def)
  have "coherent (set_line p ?l c1) b' \<and> seen (set_line p ?l c1) b' = seen c1 b'"
    using wf_cacheD(2) [OF coherentD(1) [OF wb(1)] p1] wb(2,4) inv
    by (intro drop_line_coherent wb(1) p1) (simp_all add: g1 cov)
  then show "coherent c' b'" "seen c' b' = seen c b" "word_ram b' = word_ram b"
    using wb(2,3) c1(2) g1 by (simp_all add: clear_tag_def)
  have "set_line p ?l c1 = set_line p ?l c" using l'(1) assms(2) by (simp add: set_line_def line_exists_def)
  then show "\<exists>l. c' = set_line p l c \<and> \<not> valid_line l" using inv c1(2) g1 by (auto simp: clear_tag_def)
qed

lemma invalidate_fold:
  assumes "coherent c b" "\<And>p. p \<in> set ps \<Longrightarrow> line_exists c p"
    and "fold (\<lambda>p (c, b). flush_line p c b) ps (c, b) = (c', b')"
  shows "coherent c' b' \<and> seen c' b' = seen c b \<and> word_ram b' = word_ram b \<and> line_ptrs c' = line_ptrs c \<and>
    (\<forall>q. line_exists c q \<longrightarrow> line_exists c' q \<and>
      (valid_line (get_line c' q) \<longrightarrow> q \<notin> set ps \<and> valid_line (get_line c q)))"
  using assms
proof (induction ps arbitrary: c b)
  case (Cons p ps)
  obtain c1 b1 where f: "flush_line p c b = (c1, b1)" by fastforce
  have p: "line_exists c p" using Cons.prems(2) by simp
  note fl = flush_line_coherent [OF Cons.prems(1) p f]
  obtain l where l: "c1 = set_line p l c" "\<not> valid_line l" using fl(4) by blast
  have "coherent c' b' \<and> seen c' b' = seen c1 b1 \<and> word_ram b' = word_ram b1 \<and> line_ptrs c' = line_ptrs c1 \<and>
      (\<forall>q. line_exists c1 q \<longrightarrow> line_exists c' q \<and>
        (valid_line (get_line c' q) \<longrightarrow> q \<notin> set ps \<and> valid_line (get_line c1 q)))"
    using Cons.prems f by (intro Cons.IH fl(1)) (simp_all add: l)
  then show ?case using fl(2,3) l p by (auto simp: get_line_set_line split: if_splits)
qed simp

subsection \<open>Allocation\<close>

lemma set_line_cycle:
  "line_exists (c\<lparr>cache_sets := (cache_sets c)[s := (cache_sets c ! s)\<lparr>set_cycle := j\<rparr>]\<rparr>) p = line_exists c p"
  "get_line (c\<lparr>cache_sets := (cache_sets c)[s := (cache_sets c ! s)\<lparr>set_cycle := j\<rparr>]\<rparr>) p = get_line c p"
proof -
  have "set_lines ((cache_sets c)[s := (cache_sets c ! s)\<lparr>set_cycle := j\<rparr>] ! i) = set_lines (cache_sets c ! i)" for i
    by (cases "s < length (cache_sets c)"; cases "i = s") (simp_all add: list_update_beyond)
  then show "line_exists (c\<lparr>cache_sets := (cache_sets c)[s := (cache_sets c ! s)\<lparr>set_cycle := j\<rparr>]\<rparr>) p = line_exists c p"
    "get_line (c\<lparr>cache_sets := (cache_sets c)[s := (cache_sets c ! s)\<lparr>set_cycle := j\<rparr>]\<rparr>) p = get_line c p"
    by (simp_all add: line_exists_def get_line_def)
qed

lemma coherent_cycle:
  fixes s :: nat
  assumes "coherent c b" "j < unat (cache_way c)"
  defines "c1 \<equiv> c\<lparr>cache_sets := (cache_sets c)[s := (cache_sets c ! s)\<lparr>set_cycle := j\<rparr>]\<rparr>"
  shows "coherent c1 b" and "seen c1 b = seen c b" and "mmu_cache_search c1 = mmu_cache_search c"
proof -
  have same: "line_ptrs c1 = line_ptrs c" "line_words c1 = line_words c" "geometry_ok c1 = geometry_ok c"
      "\<And>va. va_cache_set va c1 = va_cache_set va c" "\<And>va. va_cache_align va c1 = va_cache_align va c"
      "\<And>l k. covers c1 l k = covers c l k" "\<And>l. line_coherent c1 b l = line_coherent c b l"
      "\<And>p va. holds_line c1 p va = holds_line c p va"
    by (simp_all add: c1_def line_ptrs_def line_words_def geometry_ok_def va_cache_set_def va_cache_align_def
        covers_def line_coherent_def line_in_ram_def holds_line_def set_line_cycle)
  have get: "get_line c1 p = get_line c p" for p by (simp add: c1_def set_line_cycle)
  have "set_ok c1 t" if "t \<in> set (cache_sets c1)" for t
  proof -
    have "t \<in> set (cache_sets c) \<or> s < length (cache_sets c) \<and> t = (cache_sets c ! s)\<lparr>set_cycle := j\<rparr>"
      using that unfolding c1_def
      by (cases "s < length (cache_sets c)") (simp_all add: list_update_beyond, auto dest!: set_update_subset_insert [THEN subsetD])
    then obtain u where "u \<in> set (cache_sets c)" "t = u \<or> t = u\<lparr>set_cycle := j\<rparr>" by (metis nth_mem)
    moreover from this(1) have "set_ok c u" using coherentD(1) [OF assms(1)] by (simp add: wf_cache_def)
    moreover have "cache_way c1 = cache_way c" by (simp add: c1_def)
    ultimately show ?thesis using assms(2) same(2) by (auto simp: set_ok_def)
  qed
  then have wf: "wf_cache c1"
    using coherentD(1) [OF assms(1)] unfolding wf_cache_def same get by blast
  then show "coherent c1 b" using assms(1) unfolding coherent_def same get by blast
  show "seen c1 b = seen c b" unfolding seen_def same get ..
  show "mmu_cache_search c1 = mmu_cache_search c"
    using search_iff [OF wf] search_iff [OF coherentD(1) [OF assms(1)]] same(8)
    by (intro ext option.expand) (metis (no_types) not_None_eq option.sel)+
qed

text \<open>The new contents of a line: a valid tag and the words of memory.\<close>

lemma fill_line_coherent:
  assumes co: "coherent c b" and p: "line_exists c p" "va_cache_set va c = fst p" "va_cache_align va c = va"
    and miss: "\<And>q. q \<noteq> p \<Longrightarrow> \<not> holds_line c q va"
    and mem: "\<And>k. covers c (get_line c p) k \<Longrightarrow> word_abs b k = seen c b k"
    and l: "line_tag l = va OR TAG_VALID_FLAG" "line_in_ram c b (line_pa l)"
      "length (line_data l) = line_words c"
      "\<And>i. i < line_words c \<Longrightarrow> word_abs b (line_base l + i) = Some (line_data l ! i)"
    and free: "\<And>q k. line_exists c q \<Longrightarrow> q \<noteq> p \<Longrightarrow> covers c l k \<Longrightarrow> \<not> covers c (get_line c q) k"
  shows "coherent (set_line p l c) b \<and> seen (set_line p l c) b = seen c b \<and> holds_line (set_line p l c) p va"
proof -
  let ?ld = "l\<lparr>line_tag := 0\<rparr>"
  let ?cd = "set_line p ?ld c" and ?c = "set_line p l c"
  note wf = coherentD(1) [OF co]
  note geo = wf_cacheD(1) [OF wf]
  have al: "va_cache_align (line_tag l) c = va"
    using align_low_bits [OF geo, of "line_tag l" va] p(3) by (simp add: l(1) TAG_VALID_FLAG_def bit_simps)
  have st: "va_cache_set (line_tag l) c = fst p"
    using align_set [OF geo, of "line_tag l" va] al p(2,3) by simp
  have valid: "valid_line l" by (simp add: valid_line_bit l(1) TAG_VALID_FLAG_def bit_simps)
  have drop: "coherent ?cd b" "seen ?cd b = seen c b"
    using drop_line_coherent [OF co p(1) _ _ mem, of ?ld] l(3) by (simp_all add: valid_line_def)
  have p0: "line_exists ?cd p" using p(1) by simp
  have two: "set_line p l ?cd = ?c" using p(1) by (simp add: set_line_def line_exists_def)
  have wf': "wf_cache ?c"
    using p(3) st l(3) miss al by (intro wf_set_line wf p(1)) (auto simp: holds_line_iff)
  have co': "coherent ?c b"
    by (rule coherent_set_line [OF co p(1) wf' coherentD(2) [OF co] refl _ free refl])
      (use l(2,4) in \<open>simp_all add: line_coherent_def\<close>)
  have "seen ?c b k = seen ?cd b k" for k
  proof (cases "covers c l k")
    case True
    have "seen ?c b k = Some (line_data l ! (k - line_base l))"
      using seen_covered [OF co', of p k] p(1) True by (simp add: get_line_set_line)
    also have "\<dots> = word_abs b k" using l(4) [of "k - line_base l"] True by (auto simp: covers_def)
    also have "\<dots> = seen ?cd b k"
    proof (rule seen_free [OF coherentD(1) [OF drop(1)], symmetric])
      fix q assume "line_exists ?cd q"
      then show "\<not> covers ?cd (get_line ?cd q) k"
        using p(1) free [OF _ _ True] by (auto simp: get_line_set_line covers_def valid_line_def)
    qed
    finally show ?thesis .
  next
    case False
    have "covers c (get_line ?c q) k = covers c (get_line ?cd q) k" if "line_exists c q" for q
      using that p(1) False by (auto simp: get_line_set_line covers_def valid_line_def)
    moreover have "covers c (get_line ?cd q) k \<Longrightarrow> get_line ?c q = get_line ?cd q" if "line_exists c q" for q
      using that p(1) by (auto simp: get_line_set_line covers_def valid_line_def split: if_splits)
    ultimately show ?thesis
      using seen_covered [OF co', of _ k] seen_covered [OF drop(1), of _ k]
        seen_free [OF wf', of k b] seen_free [OF coherentD(1) [OF drop(1)], of k b]
      by (cases "\<exists>q. line_exists c q \<and> covers c (get_line ?c q) k") (simp; metis covers_set_line line_exists_set_line)+
  qed
  then show ?thesis
    using co' drop(2) p al valid by (simp add: holds_line_iff get_line_set_line fun_eq_iff)
qed

lemma cycle_line_exists:
  assumes "wf_cache c"
  shows "line_exists c (va_cache_set va c, set_cycle (cache_sets c ! va_cache_set va c))"
    and "set_cycle (cache_sets c ! va_cache_set va c) < unat (cache_way c)"
proof -
  have "va_cache_set va c < length (cache_sets c)" by (rule set_in_range [OF wf_cacheD(1) [OF assms]])
  moreover from this have "set_ok c (cache_sets c ! va_cache_set va c)" using assms by (simp add: wf_cache_def)
  ultimately show "line_exists c (va_cache_set va c, set_cycle (cache_sets c ! va_cache_set va c))"
    "set_cycle (cache_sets c ! va_cache_set va c) < unat (cache_way c)"
    by (simp_all add: line_exists_def set_ok_def)
qed

lemma read_line_words:
  assumes "wf_bus b" "line_in_ram c b a" "length ws = line_words c"
  obtains m vs where "read_words a ws b = (vs, b\<lparr>mbp := m\<rparr>)" "wf_bus (b\<lparr>mbp := m\<rparr>)"
    "length vs = line_words c" "\<And>i. i < line_words c \<Longrightarrow> word_abs b (unat a div 4 + i) = Some (vs ! i)"
proof -
  have a: "a = word_addr (unat a div 4)" using assms(2) by (simp add: line_in_ram_def aligned_word_addr)
  have ad: "a + 4 * word_of_nat i = word_addr (unat a div 4 + i)" for i
    by (subst a) (simp add: word_addr_def algebra_simps)
  have ram: "word_ram b (unat a div 4 + i)" if "i < line_words c" for i
    using assms(2) that by (simp add: line_in_ram_def)
  have "\<forall>i < length ws. ram_at b (a + 4 * word_of_nat i)"
    using ram assms(3) by (simp add: ad word_ram_def)
  then obtain m where "read_words a ws b =
      (map (\<lambda>i. word_at b (a + 4 * word_of_nat i)) [0 ..< length ws], b\<lparr>mbp := m\<rparr>)" "wf_bus (b\<lparr>mbp := m\<rparr>)"
    using read_words_ram [OF assms(1)] by blast
  then show thesis by (rule that) (use ram assms(3) in \<open>simp_all add: ad word_abs_def\<close>)
qed

lemma mbp_views [simp]:
  "word_ram (b\<lparr>mbp := m\<rparr>) = word_ram b" "word_abs (b\<lparr>mbp := m\<rparr>) = word_abs b"
  "seen c (b\<lparr>mbp := m\<rparr>) = seen c b"
proof -
  show "word_ram (b\<lparr>mbp := m\<rparr>) = word_ram b" by (simp add: word_ram_def fun_eq_iff)
  then show abs: "word_abs (b\<lparr>mbp := m\<rparr>) = word_abs b" by (simp add: word_abs_def fun_eq_iff)
  show "seen c (b\<lparr>mbp := m\<rparr>) = seen c b" unfolding seen_def abs ..
qed

lemma coherent_mbp: "coherent c b \<Longrightarrow> wf_bus (b\<lparr>mbp := m\<rparr>) \<Longrightarrow> coherent c (b\<lparr>mbp := m\<rparr>)"
  by (simp add: coherent_def line_coherent_def line_in_ram_def)

text \<open>Allocation evicts the line of the round-robin counter, then fills it from memory.\<close>

lemma alloc_steps:
  assumes co: "coherent c b" and mode: "cache_w_mode c = CACHE_WRITE_BACK"
    and ram: "line_in_ram c b (va_cache_align pa c)"
    and alloc: "mmu_cache_alloc va pa c b = (p, c', b')"
  obtains c2 vs where "coherent c2 b'" "seen c2 b' = seen c b" "word_ram b' = word_ram b"
    "c' = set_line p \<lparr>line_tag = va_cache_align va c OR TAG_VALID_FLAG, line_pa = va_cache_align pa c,
       line_data = vs\<rparr> c2" "length vs = line_words c"
    "\<And>i. i < line_words c \<Longrightarrow> word_abs b' (unat (va_cache_align pa c) div 4 + i) = Some (vs ! i)"
    "line_exists c p" "fst p = va_cache_set (va_cache_align va c) c"
    "\<And>k. covers c2 (get_line c2 p) k \<Longrightarrow> word_abs b' k = seen c2 b' k"
    "\<And>q. line_exists c2 q = line_exists c q" "\<And>q. line_exists c q \<Longrightarrow> q \<noteq> p \<Longrightarrow> get_line c2 q = get_line c q"
    "line_words c2 = line_words c" "\<And>v. va_cache_set v c2 = va_cache_set v c"
    "\<And>v. va_cache_align v c2 = va_cache_align v c" "\<And>l k. covers c2 l k = covers c l k"
proof -
  let ?va = "va_cache_align va c" and ?pa = "va_cache_align pa c"
  let ?s = "va_cache_set ?va c"
  let ?j = "set_cycle (cache_sets c ! ?s)"
  let ?n = "if Suc ?j = unat (cache_way c) then 0 else Suc ?j" and ?p = "(?s, ?j)"
  define c1 where "c1 = c\<lparr>cache_sets := (cache_sets c)[?s := (cache_sets c ! ?s)\<lparr>set_cycle := ?n\<rparr>]\<rparr>"
  note wf = coherentD(1) [OF co]
  note ex = cycle_line_exists [OF wf, of ?va]
  have "?n < unat (cache_way c)" using ex(2) by auto
  note cyc = coherent_cycle [OF co this, of ?s, folded c1_def]
  have same: "line_words c1 = line_words c" "\<And>v. va_cache_set v c1 = va_cache_set v c"
      "\<And>v. va_cache_align v c1 = va_cache_align v c" "\<And>q. line_exists c1 q = line_exists c q"
      "\<And>q. get_line c1 q = get_line c q" "\<And>l k. covers c1 l k = covers c l k"
    unfolding c1_def set_line_cycle
    by (simp_all add: line_words_def va_cache_set_def va_cache_align_def covers_def)
  obtain c2 b1 where c2: "mmu_cache_write_back ?p c1 b = (c2, b1)" by fastforce
  note wb = write_back_coherent [OF cyc(1) _ c2, unfolded same, OF ex(1)]
  have skip: "mmu_cache_write_back ?p c1 b = (c1, b)" if "\<not> valid_line (get_line c1 ?p)"
    using that ex(1) by (simp add: mmu_cache_write_back_def same write_back_line_def Let_def valid_line_def
        TAG_VALID_FLAG_def) (simp flip: same(5))
  obtain l' where l': "c2 = set_line ?p l' c1" "l' = get_line c ?p \<or> l' = clean_line (get_line c ?p)"
    using wb(5) by blast
  have g2: "get_line c2 ?p = l'" using ex(1) by (simp add: l'(1) get_line_set_line same)
  have len: "length (line_data l') = line_words c" using l'(2) wf_cacheD(2) [OF wf ex(1)] by auto
  have ram2: "line_in_ram c b1 ?pa" using ram wb(3) by (simp add: line_in_ram_def)
  obtain m vs where rd: "read_words ?pa (line_data l') b1 = (vs, b1\<lparr>mbp := m\<rparr>)" "wf_bus (b1\<lparr>mbp := m\<rparr>)"
      "length vs = line_words c" "\<And>i. i < line_words c \<Longrightarrow> word_abs b1 (unat ?pa div 4 + i) = Some (vs ! i)"
    using read_line_words [OF coherentD(2) [OF wb(1)] ram2 len] by blast
  have res: "p = ?p" "c' = set_line ?p \<lparr>line_tag = ?va OR TAG_VALID_FLAG, line_pa = ?pa, line_data = vs\<rparr> c2"
      "b' = b1\<lparr>mbp := m\<rparr>"
    using alloc ex(1) mode skip c2 g2 rd(1) len
    unfolding mmu_cache_alloc_def Let_def c1_def [symmetric]
    by (auto simp: valid_line_def split: if_splits)
  have mem: "word_abs b1 k = seen c2 b1 k" if "covers c2 (get_line c2 ?p) k" for k
    using that wb(2,4) l'(2) by (auto simp: g2) (auto simp: l'(1) same)
  show thesis
  proof (rule that [of c2 vs])
    show "coherent c2 b'" using coherent_mbp [OF wb(1) rd(2)] res(3) by simp
  qed (use wb(2,3) cyc(2) ex(1) rd(3,4) mem in \<open>simp_all add: res l'(1) same get_line_set_line\<close>)
qed

lemma alloc_coherent:
  assumes co: "coherent c b" and mode: "cache_w_mode c = CACHE_WRITE_BACK"
    and miss: "mmu_cache_search c va = None" and ram: "line_in_ram c b (va_cache_align pa c)"
    and free: "\<And>q i. line_exists c q \<Longrightarrow> i < line_words c \<Longrightarrow>
      \<not> covers c (get_line c q) (unat (va_cache_align pa c) div 4 + i)"
    and alloc: "mmu_cache_alloc va pa c b = (p, c', b')"
  shows "coherent c' b' \<and> seen c' b' = seen c b \<and> mmu_cache_search c' va = Some p"
proof -
  note wf = coherentD(1) [OF co]
  note geo = wf_cacheD(1) [OF wf]
  obtain c2 vs where st: "coherent c2 b'" "seen c2 b' = seen c b" "word_ram b' = word_ram b"
    "c' = set_line p \<lparr>line_tag = va_cache_align va c OR TAG_VALID_FLAG, line_pa = va_cache_align pa c,
       line_data = vs\<rparr> c2" "length vs = line_words c"
    "\<And>i. i < line_words c \<Longrightarrow> word_abs b' (unat (va_cache_align pa c) div 4 + i) = Some (vs ! i)"
    "line_exists c p" "fst p = va_cache_set (va_cache_align va c) c"
    "\<And>k. covers c2 (get_line c2 p) k \<Longrightarrow> word_abs b' k = seen c2 b' k"
    and same: "\<And>q. line_exists c2 q = line_exists c q"
      "\<And>q. line_exists c q \<Longrightarrow> q \<noteq> p \<Longrightarrow> get_line c2 q = get_line c q"
      "line_words c2 = line_words c" "\<And>v. va_cache_set v c2 = va_cache_set v c"
      "\<And>v. va_cache_align v c2 = va_cache_align v c" "\<And>l k. covers c2 l k = covers c l k"
    using alloc_steps [OF co mode ram alloc] by metis
  have miss': "\<not> holds_line c2 q (va_cache_align va c)" if "q \<noteq> p" for q
    using that miss search_iff [OF wf, of va q] same(1,5) same(2) [of q] align_idem [OF geo] by (auto simp: holds_line_iff)
  have "coherent c' b' \<and> seen c' b' = seen c2 b' \<and> holds_line c' p (va_cache_align va c)" unfolding st(4)
  proof (rule fill_line_coherent [OF st(1) _ _ _ miss' st(9)])
    show "\<not> covers c2 (get_line c2 q) k" if "line_exists c2 q" "q \<noteq> p"
      "covers c2 \<lparr>line_tag = va_cache_align va c OR TAG_VALID_FLAG, line_pa = va_cache_align pa c,
        line_data = vs\<rparr> k" for q k
    proof -
      have "unat (va_cache_align pa c) div 4 \<le> k"
          "k - unat (va_cache_align pa c) div 4 < line_words c"
        using that(3) by (auto simp: same covers_def line_base_def)
      then show ?thesis using that free [of q "k - unat (va_cache_align pa c) div 4"] by (simp add: same)
    qed
  qed (use st ram align_idem [OF geo] in \<open>simp_all add: same line_in_ram_def line_base_def\<close>)
  moreover from this have "holds_line c' p va"
    using same align_idem [OF geo] by (auto simp: holds_line_iff st(4))
  ultimately show ?thesis using st(2) search_iff [OF coherentD(1), of c' b' va p] by simp
qed

subsection \<open>The caches of the simulator and a concrete state\<close>

definition sample_cache :: cache where
  "sample_cache =
     mmu_cache_init \<lparr>line_tag = 0, line_pa = 0, line_data = [0, 0]\<rparr> 8 2 2 CACHE_WRITE_BACK"

text \<open>Line 0 of set 0 holds the words 0 and 1 of the sample memory, word 0 changed by the program.\<close>

definition dirty_cache :: cache where
  "dirty_cache =
     set_line (0, 0) \<lparr>line_tag = 0x40000003, line_pa = 0x30000000, line_data = [7, 2]\<rparr> sample_cache"

lemma dirty_cache_eq:
  "dirty_cache =
     \<lparr>cache_width = 8, cache_way = 2, cache_set_num = 2, cache_w_mode = CACHE_WRITE_BACK,
      cache_sets =
        [\<lparr>set_lines = [\<lparr>line_tag = 0x40000003, line_pa = 0x30000000, line_data = [7, 2]\<rparr>,
                       \<lparr>line_tag = 0, line_pa = 0, line_data = [0, 0]\<rparr>], set_cycle = 0\<rparr>,
         \<lparr>set_lines = [\<lparr>line_tag = 0, line_pa = 0, line_data = [0, 0]\<rparr>,
                       \<lparr>line_tag = 0, line_pa = 0, line_data = [0, 0]\<rparr>], set_cycle = 0\<rparr>]\<rparr>"
  by code_simp

lemma sample_geometry: "geometry_ok dirty_cache"
proof -
  have "(8 :: u32) = 2 ^ 3" "(2 :: u32) = 2 ^ 1" by simp_all
  then show ?thesis
    unfolding geometry_ok_def dirty_cache_eq
    by (intro conjI bexI [of _ 3] bexI [of _ 1]) simp_all
qed

lemma sample_lines:
  "line_words dirty_cache = 2" "line_ptrs dirty_cache = [(0, 0), (0, 1), (1, 0), (1, 1)]"
  "get_line dirty_cache (0, 0) = \<lparr>line_tag = 0x40000003, line_pa = 0x30000000, line_data = [7, 2]\<rparr>"
  "get_line dirty_cache (0, 1) = \<lparr>line_tag = 0, line_pa = 0, line_data = [0, 0]\<rparr>"
  "get_line dirty_cache (1, 0) = \<lparr>line_tag = 0, line_pa = 0, line_data = [0, 0]\<rparr>"
  "get_line dirty_cache (1, 1) = \<lparr>line_tag = 0, line_pa = 0, line_data = [0, 0]\<rparr>"
  by code_simp+

lemma sample_wf_cache: "wf_cache dirty_cache"
proof -
  have "\<forall>s \<in> set (cache_sets dirty_cache). set_ok dirty_cache s"
    using sample_lines(1) by (simp add: dirty_cache_eq set_ok_def)
  then show ?thesis
    using sample_geometry
    by (simp add: wf_cache_def sample_lines [simplified] holds_line_def valid_line_def TAG_VALID_FLAG_def)
      (simp add: dirty_cache_eq va_cache_set_def)
qed

lemma sample_memory:
  "word_ram sample_bus 0xc000000" "word_ram sample_bus 0xc000001" "word_ram sample_bus 0xc000002"
  "word_ram sample_bus 0xc000003" "word_abs sample_bus 0xc000000 = Some 1" "word_abs sample_bus 0xc000001 = Some 2"
  by (simp_all add: word_abs_def word_ram_def word_addr_def ram_at_def bank_hit_def sample_bus_def
      sample_banks_def word_at_def word_index_def)

lemma all_below_2: "(\<forall>i < 2. P i) \<longleftrightarrow> P 0 \<and> P (1 :: nat)"
  by (auto simp: less_2_cases_iff)

lemmas sample_line_simps = line_base_def covers_def valid_line_def TAG_VALID_FLAG_def sample_lines
  sample_lines [unfolded One_nat_def] all_below_2

lemma sample_coherent: "coherent dirty_cache sample_bus"
proof -
  have range: "{201326592 ..< 201326594} = {201326592, 201326593 :: nat}" by auto
  have ram: "line_coherent dirty_cache sample_bus (get_line dirty_cache (0, 0))"
    using sample_memory
    by (simp add: line_coherent_def line_in_ram_def dirty_word_def sample_line_simps range bit_simps)
  have "\<forall>p \<in> set (line_ptrs dirty_cache). valid_line (get_line dirty_cache p) \<longrightarrow>
        line_coherent dirty_cache sample_bus (get_line dirty_cache p) \<and>
        (\<forall>q \<in> set (line_ptrs dirty_cache). \<forall>i < line_words dirty_cache.
           covers dirty_cache (get_line dirty_cache q) (line_base (get_line dirty_cache p) + i) \<longrightarrow> q = p)"
    using ram by (simp add: sample_line_simps)
  then show ?thesis using sample_wf_cache sample_bus_wf by (simp only: coherent_def simp_thms)
qed

lemma sample_seen: "seen dirty_cache sample_bus 0xc000000 = Some 7"
  by (simp add: seen_def sample_line_simps)

subsection \<open>Properties of the cache\<close>

text \<open>
  In a well-formed cache a search finds a line exactly when the line is valid and holds
  the block of the address, whatever set it is in: looking at one set only loses nothing.
\<close>

theorem cache_search_complete:
  assumes "wf_cache c"
  shows "mmu_cache_search c va = Some p \<longleftrightarrow>
    line_exists c p \<and> valid_line (get_line c p) \<and>
    va_cache_align (line_tag (get_line c p)) c = va_cache_align va c"
  using search_iff [OF assms] by (simp add: holds_line_iff)

theorem cache_search_complete_witness:
  "wf_cache dirty_cache \<and> mmu_cache_search dirty_cache 0x40000004 = Some (0, 0)"
  using cache_search_complete [OF sample_wf_cache, of "0x40000004" "(0, 0)"] sample_wf_cache
  by (simp add: dirty_cache_eq line_exists_def get_line_def valid_line_def va_cache_align_def TAG_VALID_FLAG_def)

text \<open>
  C30. Writing a line back is invisible to the program: in a coherent cache the memory seen
  through the cache is the same before and after, the cache stays coherent, and the words of
  the line are then in memory.
\<close>

theorem cache_write_back_transparent:
  assumes "coherent c b" "line_exists c p" "mmu_cache_write_back p c b = (c', b')"
  shows "coherent c' b' \<and> seen c' b' = seen c b \<and>
    (\<forall>k. covers c (get_line c p) k \<longrightarrow> word_abs b' k = seen c b k)"
  using write_back_coherent [OF assms] by blast

theorem cache_write_back_transparent_witness:
  "coherent dirty_cache sample_bus \<and>
   word_abs (snd (mmu_cache_write_back (0, 0) dirty_cache sample_bus)) 0xc000000 = Some 7"
proof -
  obtain c' b' where wb: "mmu_cache_write_back (0, 0) dirty_cache sample_bus = (c', b')" by fastforce
  have ex: "line_exists dirty_cache (0, 0)" by code_simp
  have "covers dirty_cache (get_line dirty_cache (0, 0)) 0xc000000" by (simp add: sample_line_simps)
  then show ?thesis
    using sample_seen cache_write_back_transparent [OF sample_coherent ex wb] sample_coherent wb by simp
qed

text \<open>
  C28. A miss: allocation in a write-back cache makes the address hit, keeps the cache
  coherent and does not change the memory the program sees, although it evicts another line,
  when the block is in RAM and no other line stands for it.
\<close>

theorem cache_alloc_correct:
  assumes "coherent c b" "cache_w_mode c = CACHE_WRITE_BACK" "mmu_cache_search c va = None"
    and "line_in_ram c b (va_cache_align pa c)"
    and "\<And>q i. line_exists c q \<Longrightarrow> i < line_words c \<Longrightarrow>
      \<not> covers c (get_line c q) (unat (va_cache_align pa c) div 4 + i)"
    and "mmu_cache_alloc va pa c b = (p, c', b')"
  shows "coherent c' b' \<and> seen c' b' = seen c b \<and> mmu_cache_search c' va = Some p"
  by (rule alloc_coherent [OF assms])

theorem cache_alloc_correct_witness:
  "mmu_cache_search dirty_cache 0x4000000c = None \<and>
   (case mmu_cache_alloc 0x4000000c 0x3000000c dirty_cache sample_bus of
      (p, c', b') \<Rightarrow> mmu_cache_search c' 0x4000000c = Some p)"
proof -
  obtain p c' b' where al: "mmu_cache_alloc 0x4000000c 0x3000000c dirty_cache sample_bus = (p, c', b')"
    using prod_cases3 by blast
  have miss: "mmu_cache_search dirty_cache 0x4000000c = None" by code_simp
  have ram: "line_in_ram dirty_cache sample_bus (va_cache_align 0x3000000c dirty_cache)"
  proof -
    have "{201326594 ..< 201326596} = {201326594, 201326595 :: nat}" by auto
    then show ?thesis
      using sample_memory by (simp add: line_in_ram_def sample_line_simps) (simp add: dirty_cache_eq va_cache_align_def)
  qed
  have mode: "cache_w_mode dirty_cache = CACHE_WRITE_BACK" by code_simp
  have "\<forall>q \<in> set (line_ptrs dirty_cache). \<forall>i < line_words dirty_cache.
      \<not> covers dirty_cache (get_line dirty_cache q) (unat (va_cache_align 0x3000000c dirty_cache) div 4 + i)"
    by (simp add: sample_line_simps) (simp add: dirty_cache_eq va_cache_align_def)
  then have "\<And>q i. line_exists dirty_cache q \<Longrightarrow> i < line_words dirty_cache \<Longrightarrow>
      \<not> covers dirty_cache (get_line dirty_cache q) (unat (va_cache_align 0x3000000c dirty_cache) div 4 + i)"
    using wf_cache_ptrs [OF sample_wf_cache] by blast
  then show ?thesis
    using cache_alloc_correct [OF sample_coherent mode miss ram _ al] miss al by simp
qed

text \<open>
  Invalidating the whole cache leaves it empty, with the memory the program saw through
  it now the memory of the bus.
\<close>

theorem cache_invalidate_all_flushes:
  assumes "coherent c b" "mmu_cache_invalidate_all c b = (c', b')"
  shows "coherent c' b' \<and> (\<forall>p. line_exists c' p \<longrightarrow> \<not> valid_line (get_line c' p)) \<and>
    word_abs b' = seen c b"
proof -
  note ptrs = wf_cache_ptrs [OF coherentD(1) [OF assms(1)]]
  have inv: "coherent c' b' \<and> seen c' b' = seen c b \<and> word_ram b' = word_ram b \<and> line_ptrs c' = line_ptrs c \<and>
      (\<forall>q. line_exists c q \<longrightarrow> line_exists c' q \<and>
        (valid_line (get_line c' q) \<longrightarrow> q \<notin> set (line_ptrs c) \<and> valid_line (get_line c q)))"
    using assms(2) ptrs
    by (intro invalidate_fold assms(1)) (simp_all add: mmu_cache_invalidate_all_def line_ptrs_def)
  then have ptrs': "line_exists c' p \<longleftrightarrow> line_exists c p" for p
    using wf_cache_ptrs [OF coherentD(1)] ptrs by metis
  then have empty: "\<not> valid_line (get_line c' p)" if "line_exists c' p" for p
    using that inv ptrs by metis
  then have "seen c' b' k = word_abs b' k" for k
    using inv by (intro seen_free coherentD(1) [of c' b']) (auto simp: covers_def)
  then show ?thesis using inv empty by auto
qed

theorem cache_invalidate_all_flushes_witness:
  "coherent dirty_cache sample_bus \<and>
   word_abs (snd (mmu_cache_invalidate_all dirty_cache sample_bus)) 0xc000000 = Some 7"
proof -
  obtain c' b' where wb: "mmu_cache_invalidate_all dirty_cache sample_bus = (c', b')" by fastforce
  show ?thesis
    using sample_seen cache_invalidate_all_flushes [OF sample_coherent wb] sample_coherent wb by simp
qed

end
