(* ===== verification/Arm_Supp_Spec.thy ===== *)
theory Arm_Supp_Spec
  imports Arm_Bank_Spec Mmu_Cache_Spec Arith32
begin

text \<open>
  Correctness of the support routines (Arm_Supp): the CPSR word and the unpacked flags agree,
  the carry and overflow formulas are the ones of unsigned and signed arithmetic, exceptions
  enter the architected mode and can be returned from, interrupts are masked and ordered,
  and the event list.
\<close>

subsection \<open>The status register\<close>

definition wf_psr :: "'d arm_state \<Rightarrow> bool" where
  "wf_psr s \<longleftrightarrow>
     take_bit 2 (IFFlags s) = IFFlags s \<and> take_bit 5 (Mode s) = Mode s \<and>
     Bank s = ModeToBank (Mode s)"

text \<open>The bits of a status word that the simulator keeps.\<close>

definition PSR_KEPT :: u32 where
  "PSR_KEPT = 0xf80000ff"

lemma psr_bits [word_field]:
  "v AND NBIT \<noteq> 0 \<longleftrightarrow> bit v 31" "v AND ZBIT \<noteq> 0 \<longleftrightarrow> bit v 30" "v AND CBIT \<noteq> 0 \<longleftrightarrow> bit v 29"
  "v AND VBIT \<noteq> 0 \<longleftrightarrow> bit v 28" "v AND SBIT \<noteq> 0 \<longleftrightarrow> bit v 27" "v AND TBIT \<noteq> 0 \<longleftrightarrow> bit v 5"
  "v AND MODEBITS = take_bit 5 v"
  using and_exp_eq_0_iff_not_bit [of v 31] and_exp_eq_0_iff_not_bit [of v 30]
    and_exp_eq_0_iff_not_bit [of v 29] and_exp_eq_0_iff_not_bit [of v 28]
    and_exp_eq_0_iff_not_bit [of v 27] and_exp_eq_0_iff_not_bit [of v 5]
  by (simp_all add: psr_masks take_bit_eq_mask mask_eq_exp_minus_1)

lemma if_flags_of: "drop_bit 6 (v AND INTBITS) AND 3 = (take_bit 2 (drop_bit 6 v) :: u32)"
proof -
  have masks: "(0xc0 :: u32) = push_bit 6 (mask 2)" "(3 :: u32) = mask 2" by (simp_all add: mask_eq_exp_minus_1)
  show ?thesis unfolding INTBITS_def masks
    by (intro bit_word_eqI) (auto simp: bit_simps dest: bit_imp_le_length)
qed

lemma bit_psr_kept: "bit PSR_KEPT n \<longleftrightarrow> n < 8 \<or> 27 \<le> n \<and> n < 32"
proof -
  have k: "PSR_KEPT = NOT (mask 27) OR mask 8" by (simp add: PSR_KEPT_def mask_eq_exp_minus_1)
  show ?thesis unfolding k by (auto simp: bit_simps)
qed

lemma bit_push_flag: "bit (push_bit k (of_bool b) :: u32) n \<longleftrightarrow> k < 32 \<and> n = k \<and> b"
  by (auto simp: bit_simps)

lemma bit_CPSR:
  assumes "wf_psr s" "n < 32"
  shows "bit (CPSR s) n \<longleftrightarrow>
    (n < 5 \<and> bit (Mode s) n) \<or> (n = 5 \<and> TFlag s) \<or> (n = 6 \<and> bit (IFFlags s) 0) \<or> (n = 7 \<and> bit (IFFlags s) 1)
    \<or> (n = 27 \<and> SFlag s) \<or> (n = 28 \<and> VFlag s) \<or> (n = 29 \<and> CFlag s) \<or> (n = 30 \<and> ZFlag s) \<or> (n = 31 \<and> NFlag s)"
proof -
  have m: "n < 5" if "bit (Mode s) n"
    using that assms(1) bit_take_bit_iff [of 5 "Mode s" n] by (simp add: wf_psr_def)
  have f: "k < 2" if "bit (IFFlags s) k" for k
    using that assms(1) bit_take_bit_iff [of 2 "IFFlags s" k] by (simp add: wf_psr_def)
  have e: "bit (CPSR s) n \<longleftrightarrow> n = 31 \<and> NFlag s \<or> n = 30 \<and> ZFlag s \<or> n = 29 \<and> CFlag s \<or> n = 28 \<and> VFlag s
      \<or> n = 27 \<and> SFlag s \<or> (6 \<le> n \<and> bit (IFFlags s) (n - 6)) \<or> bit (Mode s) n \<or> n = 5 \<and> TFlag s"
    unfolding CPSR_def ECC_def EINT_def EMODE_def bit_or_iff bit_push_flag
    using assms(2) by (simp add: bit_push_bit_iff)
  have "n - 6 = 0 \<or> n - 6 = 1" if "6 \<le> n" "bit (IFFlags s) (n - 6)" using f [OF that(2)] by linarith
  then have "6 \<le> n \<and> bit (IFFlags s) (n - 6) \<longleftrightarrow> n = 6 \<and> bit (IFFlags s) 0 \<or> n = 7 \<and> bit (IFFlags s) 1"
    by (cases "n = 6"; cases "n = 7") auto
  then show ?thesis unfolding e using m by blast
qed

text \<open>\<^verbatim>\<open>ARMul_CPSRAltered\<close> between 32-bit modes: a mode switch and the flags.\<close>

definition unpack_flags :: "'d arm_state \<Rightarrow> 'd arm_state" where
  "unpack_flags s =
     s\<lparr>IFFlags := take_bit 2 (drop_bit 6 (Cpsr s)), NFlag := bit (Cpsr s) 31, ZFlag := bit (Cpsr s) 30,
       CFlag := bit (Cpsr s) 29, VFlag := bit (Cpsr s) 28, SFlag := bit (Cpsr s) 27, TFlag := bit (Cpsr s) 5\<rparr>"

definition enter_mode :: "u32 \<Rightarrow> 'd arm_state \<Rightarrow> 'd arm_state" where
  "enter_mode m s =
     (if Mode s \<noteq> m then (ARMul_SwitchMode (Mode s) m s)\<lparr>Mode := m, NtransSig := (m AND 3 \<noteq> 0)\<rparr> else s)"

lemma cpsr_altered32:
  assumes "prog32Sig s" "Mode s > 3" "take_bit 5 (Cpsr s) > 3"
  shows "ARMul_CPSRAltered s = unpack_flags (enter_mode (take_bit 5 (Cpsr s)) s)"
  using assms
  by (simp add: ARMul_CPSRAltered_def Let_def enter_mode_def unpack_flags_def psr_bits
      if_flags_of [unfolded drop_bit_and] SVC26MODE_def)

lemma enter_mode_fields [simp]:
  "Mode (enter_mode m s) = m" "Cpsr (enter_mode m s) = Cpsr s" "Spsr (enter_mode m s) = Spsr s"
  "prog32Sig (enter_mode m s) = prog32Sig s" "mmu (enter_mode m s) = mmu s" "bus (enter_mode m s) = bus s"
  "NextInstr (enter_mode m s) = NextInstr s" "Aborted (enter_mode m s) = Aborted s"
  "vector_remap_flag (enter_mode m s) = vector_remap_flag s" "vector_remap_addr (enter_mode m s) = vector_remap_addr s"
  by (simp_all add: enter_mode_def)

lemma enter_mode_bank: "Bank s = ModeToBank (Mode s) \<Longrightarrow> Bank (enter_mode m s) = ModeToBank m"
  by (simp add: enter_mode_def)

lemma reg_view_update [simp]:
  "reg_view (s\<lparr>Mode := m, NtransSig := t\<rparr>) = reg_view s" "reg_view (unpack_flags s) = reg_view s"
  "reg_view (s\<lparr>Cpsr := v\<rparr>) = reg_view s" "reg_view (s\<lparr>Spsr := f\<rparr>) = reg_view s"
  "reg_view (s\<lparr>Aborted := a\<rparr>) = reg_view s" "reg_view (s\<lparr>AbortAddr := a\<rparr>) = reg_view s"
  "reg_view (FLUSHPIPE s) = reg_view s"
  by (simp_all add: reg_view_def unpack_flags_def FLUSHPIPE_def fun_eq_iff)

lemma enter_mode_view:
  assumes "Bank s = ModeToBank (Mode s)" "ModeToBank (Mode s) < DUMMYBANK" "ModeToBank m < DUMMYBANK"
  shows "reg_view (enter_mode m s) b i = reg_view s b i"
  using assms by (simp add: enter_mode_def switch_view)

lemma unpack_flags_fields [simp]:
  "Mode (unpack_flags s) = Mode s" "Bank (unpack_flags s) = Bank s" "Spsr (unpack_flags s) = Spsr s"
  "prog32Sig (unpack_flags s) = prog32Sig s" "mmu (unpack_flags s) = mmu s" "bus (unpack_flags s) = bus s"
  "NextInstr (unpack_flags s) = NextInstr s" "Aborted (unpack_flags s) = Aborted s" "Reg (unpack_flags s) = Reg s"
  "vector_remap_flag (unpack_flags s) = vector_remap_flag s" "vector_remap_addr (unpack_flags s) = vector_remap_addr s"
  by (simp_all add: unpack_flags_def)

lemma unpack_flags_CPSR:
  assumes "Mode s = take_bit 5 (Cpsr s)" "Bank s = ModeToBank (Mode s)"
  shows "wf_psr (unpack_flags s)" and "CPSR (unpack_flags s) = Cpsr s AND PSR_KEPT"
proof -
  show wf: "wf_psr (unpack_flags s)" using assms by (simp add: wf_psr_def unpack_flags_def)
  show "CPSR (unpack_flags s) = Cpsr s AND PSR_KEPT"
  proof (rule bit_word_eqI)
    fix n assume "n < LENGTH(32)"
    then have n: "n < 32" by simp
    have m: "bit (Mode s) k \<longleftrightarrow> k < 5 \<and> bit (Cpsr s) k" for k by (simp add: assms(1) bit_take_bit_iff)
    have i: "bit (IFFlags (unpack_flags s)) k \<longleftrightarrow> k < 2 \<and> bit (Cpsr s) (6 + k)" for k
      by (simp add: unpack_flags_def bit_take_bit_iff bit_drop_bit_eq)
    have f: "NFlag (unpack_flags s) = bit (Cpsr s) 31" "ZFlag (unpack_flags s) = bit (Cpsr s) 30"
        "CFlag (unpack_flags s) = bit (Cpsr s) 29" "VFlag (unpack_flags s) = bit (Cpsr s) 28"
        "SFlag (unpack_flags s) = bit (Cpsr s) 27" "TFlag (unpack_flags s) = bit (Cpsr s) 5"
      by (simp_all add: unpack_flags_def)
    have "n < 5 \<or> n = 5 \<or> n = 6 \<or> n = 7 \<or> (8 \<le> n \<and> n < 27) \<or> n = 27 \<or> n = 28 \<or> n = 29 \<or> n = 30 \<or> n = 31"
      using n by arith
    then show "bit (CPSR (unpack_flags s)) n \<longleftrightarrow> bit (Cpsr s AND PSR_KEPT) n"
      unfolding bit_CPSR [OF wf n] bit_and_iff bit_psr_kept f i
      by (elim disjE; simp add: m)
  qed
qed

text \<open>The modes of a 32-bit processor.\<close>

definition mode32 :: "u32 \<Rightarrow> bool" where
  "mode32 m \<longleftrightarrow>
     m \<in> {USER32MODE, FIQ32MODE, IRQ32MODE, SVC32MODE, ABORT32MODE, UNDEF32MODE, SYSTEM32MODE}"

lemma mode32_facts:
  assumes "mode32 m"
  shows "m > 3" "take_bit 5 m = m" "ModeToBank m < DUMMYBANK"
  using assms
  by (auto simp: mode32_def mode_numbers ModeToBank_def bankofmode_def bank_numbers take_bit_eq_mask
      mask_eq_exp_minus_1)

definition wf_arm :: "'d arm_state \<Rightarrow> bool" where
  "wf_arm s \<longleftrightarrow> wf_psr s \<and> prog32Sig s \<and> mode32 (Mode s)"

lemma wf_armD:
  assumes "wf_arm s"
  shows "wf_psr s" "prog32Sig s" "mode32 (Mode s)" "Mode s > 3" "Bank s = ModeToBank (Mode s)"
    "ModeToBank (Mode s) < DUMMYBANK"
  using assms mode32_facts [of "Mode s"] by (simp_all add: wf_arm_def wf_psr_def)

lemma set_cpsr:
  assumes "wf_arm s" "mode32 (take_bit 5 v)"
  defines "t \<equiv> ARMul_SetCPSR v s"
  shows "t = unpack_flags (enter_mode (take_bit 5 v) (s\<lparr>Cpsr := v\<rparr>))"
    and "wf_arm t" "CPSR t = v AND PSR_KEPT" "Mode t = take_bit 5 v" "reg_view t b i = reg_view s b i"
proof -
  note s = wf_armD [OF assms(1)] and m = mode32_facts [OF assms(2)]
  let ?u = "s\<lparr>Cpsr := v\<rparr>"
  show t: "t = unpack_flags (enter_mode (take_bit 5 v) ?u)"
    using s m cpsr_altered32 [of ?u] by (simp add: t_def ARMul_SetCPSR_def)
  have b: "Bank (enter_mode (take_bit 5 v) ?u) = ModeToBank (take_bit 5 v)"
    using s(5) by (intro enter_mode_bank) simp
  show "Mode t = take_bit 5 v" by (simp add: t)
  show "wf_arm t" "CPSR t = v AND PSR_KEPT"
    using unpack_flags_CPSR [of "enter_mode (take_bit 5 v) ?u"] b s(2) assms(2) by (simp_all add: t wf_arm_def)
  show "reg_view t b i = reg_view s b i"
    using s m enter_mode_view [of ?u "take_bit 5 v" b i] by (simp add: t)
qed

lemma CPSR_kept: "wf_psr s \<Longrightarrow> CPSR s AND PSR_KEPT = CPSR s"
  by (rule bit_word_eqI) (auto simp: bit_and_iff bit_psr_kept bit_CPSR)

lemma CPSR_mode:
  assumes "wf_psr s"
  shows "take_bit 5 (CPSR s) = Mode s"
proof (rule bit_word_eqI)
  fix n assume "n < LENGTH(32)"
  then have n: "n < 32" by simp
  have "bit (Mode s) n \<longleftrightarrow> n < 5 \<and> bit (Mode s) n"
    using assms bit_take_bit_iff [of 5 "Mode s" n] by (simp add: wf_psr_def)
  then show "bit (take_bit 5 (CPSR s)) n \<longleftrightarrow> bit (Mode s) n"
    unfolding bit_take_bit_iff bit_CPSR [OF assms n] by (cases "n < 5") auto
qed

subsection \<open>Exceptions\<close>

definition entry_mode :: "u32 \<Rightarrow> u32" where
  "entry_mode v =
     (if v = UndefinedInstrV then UNDEF32MODE
      else if v = PrefetchAbortV \<or> v = DataAbortV then ABORT32MODE
      else if v = IRQV then IRQ32MODE else if v = FIQV then FIQ32MODE else SVC32MODE)"

definition entry_mask :: "u32 \<Rightarrow> u32" where
  "entry_mask v = (if v = ResetV \<or> v = FIQV then INTBITS else IBIT)"

text \<open>What the link register falls short of register 15, in ARM and in Thumb state.\<close>

definition link_offset :: "u32 \<Rightarrow> bool \<Rightarrow> u32" where
  "link_offset v t =
     (if v = ResetV then 0
      else if v = UndefinedInstrV \<or> v = SWIV then (if t then 2 else 4)
      else if v = DataAbortV then (if t then - 4 else 0)
      else (if t then 0 else 4))"

definition exception32 :: "u32 \<Rightarrow> bool" where
  "exception32 v \<longleftrightarrow> v \<in> {ResetV, UndefinedInstrV, SWIV, PrefetchAbortV, DataAbortV, IRQV, FIQV}"

lemma entry_mode32: "mode32 (entry_mode v)" "BANK_CAN_ACCESS_SPSR (ModeToBank (entry_mode v))"
  by (simp_all add: mode32_def entry_mode_def ModeToBank_def bankofmode_def BANK_CAN_ACCESS_SPSR_def
      mode_numbers bank_numbers)

text \<open>The status word of the handler.\<close>

lemma entry_cpsr_bits:
  assumes "wf_psr s"
  shows "(CPSR s AND NOT (EMODE s OR TBIT)) OR entry_mask v OR entry_mode v =
      (CPSR s AND NOT 0x3f) OR entry_mask v OR entry_mode v"
    and "((CPSR s AND NOT 0x3f) OR entry_mask v OR entry_mode v) AND PSR_KEPT =
      (CPSR s AND NOT 0x3f) OR entry_mask v OR entry_mode v"
    and "take_bit 5 ((CPSR s AND NOT 0x3f) OR entry_mask v OR entry_mode v) = entry_mode v"
proof -
  have "CPSR s AND NOT (EMODE s OR TBIT) = CPSR s AND NOT 0x3f"
  proof (rule bit_word_eqI)
    fix n assume "n < LENGTH(32)"
    have masks: "TBIT = 2 ^ 5" "(0x3f :: u32) = mask 6" by (simp_all add: TBIT_def mask_eq_exp_minus_1)
    have m: "bit (Mode s) n \<longleftrightarrow> n < 5 \<and> bit (CPSR s) n"
      using CPSR_mode [OF assms] bit_take_bit_iff [of 5 "CPSR s" n] by simp
    show "bit (CPSR s AND NOT (EMODE s OR TBIT)) n \<longleftrightarrow> bit (CPSR s AND NOT 0x3f) n"
      unfolding masks EMODE_def bit_and_iff bit_not_iff bit_or_iff bit_exp_iff bit_mask_iff m
      by (cases "n = 5") auto
  qed
  then show "(CPSR s AND NOT (EMODE s OR TBIT)) OR entry_mask v OR entry_mode v =
      (CPSR s AND NOT 0x3f) OR entry_mask v OR entry_mode v" by simp
  have k: "entry_mask v AND PSR_KEPT = entry_mask v" "entry_mode v AND PSR_KEPT = entry_mode v"
    by (simp_all add: entry_mask_def entry_mode_def PSR_KEPT_def psr_masks mode_numbers)
  have "(CPSR s AND NOT 0x3f) AND PSR_KEPT = (CPSR s AND PSR_KEPT) AND NOT 0x3f" by (simp add: ac_simps)
  then show "((CPSR s AND NOT 0x3f) OR entry_mask v OR entry_mode v) AND PSR_KEPT =
      (CPSR s AND NOT 0x3f) OR entry_mask v OR entry_mode v"
    using k CPSR_kept [OF assms] by (simp add: bit.conj_disj_distrib2)
  have "take_bit 5 (CPSR s AND NOT 0x3f) = 0" "take_bit 5 (entry_mask v) = 0" "take_bit 5 (entry_mode v) = entry_mode v"
    using mode32_facts(2) [OF entry_mode32(1)]
    by (simp_all add: take_bit_eq_mask mask_eq_exp_minus_1 entry_mask_def psr_masks and.assoc)
  then show "take_bit 5 ((CPSR s AND NOT 0x3f) OR entry_mask v OR entry_mode v) = entry_mode v"
    by simp
qed

text \<open>What does not depend on registers and other fields.\<close>

lemma CPSR_other [simp]:
  "CPSR (s\<lparr>Spsr := f\<rparr>) = CPSR s" "CPSR (set_reg r x s) = CPSR s" "CPSR (s\<lparr>AbortAddr := x\<rparr>) = CPSR s"
  "CPSR (s\<lparr>Aborted := x\<rparr>) = CPSR s" "CPSR (FLUSHPIPE s) = CPSR s"
  by (simp_all add: CPSR_def ECC_def EINT_def EMODE_def set_reg_def FLUSHPIPE_def)

lemma wf_arm_other [simp]:
  "wf_arm (s\<lparr>Spsr := f\<rparr>) = wf_arm s" "wf_arm (set_reg r x s) = wf_arm s" "wf_arm (s\<lparr>AbortAddr := x\<rparr>) = wf_arm s"
  "wf_arm (s\<lparr>Aborted := x\<rparr>) = wf_arm s" "wf_arm (FLUSHPIPE s) = wf_arm s"
  by (simp_all add: wf_arm_def wf_psr_def set_reg_def FLUSHPIPE_def)

text \<open>Entry through \<^verbatim>\<open>SETABORT\<close>.\<close>

lemma setabort32:
  fixes temp d v :: u32
  assumes "wf_arm s"
  defines "t \<equiv> SETABORT (entry_mask v) (entry_mode v) d temp s"
  shows "wf_arm t" "Mode t = entry_mode v" "CPSR t = (CPSR s AND NOT 0x3f) OR entry_mask v OR entry_mode v"
    "Reg t 14 = temp - d" "Spsr t = (Spsr s)(ModeToBank (entry_mode v) := CPSR s)"
    "bus t = bus s" "mmu t = mmu s" "NextInstr t = NextInstr s" "Aborted t = Aborted s"
    "vector_remap_flag t = vector_remap_flag s" "vector_remap_addr t = vector_remap_addr s"
    "reg_view t b i = (if i = 14 \<and> b = ModeToBank (entry_mode v) then temp - d else reg_view s b i)"
proof -
  let ?m = "entry_mode v" and ?s1 = "ARMul_SetSPSR (entry_mode v) (CPSR s) s"
  let ?v = "(CPSR s AND NOT 0x3f) OR entry_mask v OR entry_mode v"
  note s = wf_armD [OF assms(1)]
  have bank: "ModeToBank (?m AND MODEBITS) = ModeToBank ?m"
    using mode32_facts(2) [OF entry_mode32(1)] by (simp add: psr_bits)
  have s1: "?s1 = s\<lparr>Spsr := (Spsr s)(ModeToBank ?m := CPSR s)\<rparr>"
    by (simp add: ARMul_SetSPSR_def bank entry_mode32)
  have same: "CPSR ?s1 = CPSR s" "EMODE ?s1 = EMODE s" "wf_arm ?s1"
    using assms(1) by (simp_all add: s1, simp add: EMODE_def)
  let ?t2 = "ARMul_SetCPSR ?v ?s1"
  have t: "t = set_reg 14 (temp - d) ?t2"
    unfolding t_def SETABORT_def Let_def ARMul_GetCPSR_def same entry_cpsr_bits(1) [OF s(1)] ..
  have m: "mode32 (take_bit 5 ?v)" using entry_cpsr_bits(3) [OF s(1)] entry_mode32 by simp
  note t2 = set_cpsr [OF same(3) m]
  have b2: "Bank ?t2 = ModeToBank ?m"
    using wf_armD(5) [OF t2(2)] t2(4) entry_cpsr_bits(3) [OF s(1)] by simp
  show "Reg t 14 = temp - d" by (simp add: t set_reg_def)
  show "Spsr t = (Spsr s)(ModeToBank ?m := CPSR s)" "bus t = bus s" "mmu t = mmu s" "NextInstr t = NextInstr s"
    "Aborted t = Aborted s" "vector_remap_flag t = vector_remap_flag s" "vector_remap_addr t = vector_remap_addr s"
    unfolding t t2(1) by (simp_all add: set_reg_def s1)
  show "Mode t = ?m" using t2(4) entry_cpsr_bits(3) [OF s(1)] by (simp add: t set_reg_def)
  show "wf_arm t" using t2(2) by (simp add: t)
  show "CPSR t = ?v"
    using t2(3) entry_cpsr_bits(2) [OF s(1)] by (simp add: t)
  have "reg_view t b i = (if i = 14 \<and> b = Bank ?t2 then temp - d else reg_view ?t2 b i)"
    by (auto simp: t set_reg_def reg_view_def owner_def bank_numbers)
  then show "reg_view t b i = (if i = 14 \<and> b = ModeToBank ?m then temp - d else reg_view s b i)"
    unfolding b2 t2(5) by (simp add: s1)
qed

lemma exception_entry_facts:
  assumes "wf_arm s" "exception32 v"
  defines "t \<equiv> ARMul_Abort v s"
  shows "wf_arm t" "Mode t = entry_mode v" "CPSR t = (CPSR s AND NOT 0x3f) OR entry_mask v OR entry_mode v"
    "Spsr t (ModeToBank (entry_mode v)) = CPSR s" "Reg t 15 = abort_target v s AND NOT 3"
    "bus t = bus s" "Aborted t = 0"
    "i \<noteq> 15 \<Longrightarrow> reg_view t b i =
      (if i = 14 \<and> b = ModeToBank (entry_mode v) then Reg s 15 - link_offset v (TFlag s) else reg_view s b i)"
proof -
  let ?s1 = "s\<lparr>Aborted := 0\<rparr>" and ?d = "link_offset v (TFlag s)"
  note s = wf_armD [OF assms(1)]
  have ret: "abort_return ?s1 = Reg s 15" using s(2,4) by (simp add: abort_return_def MODE32BIT_def)
  define s2 where "s2 = (if v = PrefetchAbortV then ?s1\<lparr>AbortAddr := 1\<rparr> else ?s1)"
  have wf2: "wf_arm s2" "CPSR s2 = CPSR s" "Aborted s2 = 0" "bus s2 = bus s" "mmu s2 = mmu s" "NextInstr s2 = NextInstr s"
    "vector_remap_flag s2 = vector_remap_flag s" "vector_remap_addr s2 = vector_remap_addr s" "reg_view s2 = reg_view s"
    using assms(1) by (simp_all add: s2_def)
  let ?e = "SETABORT (entry_mask v) (entry_mode v) ?d (Reg s 15) s2"
  have e: "abort_enter v (Reg s 15) ?s1 = ?e"
    using assms(2) s(2)
    by (auto simp: exception32_def abort_enter_def Let_def s2_def entry_mask_def entry_mode_def link_offset_def vectors)
  note en = setabort32 [OF wf2(1), of v ?d "Reg s 15", unfolded wf2]
  have m: "MODE32BIT ?e" using mode32_facts(1) [OF entry_mode32(1)] by (simp add: MODE32BIT_def en(2))
  have tgt: "abort_target v ?e = abort_target v s" by (simp add: abort_target_def en)
  have t: "t = FLUSHPIPE (set_reg 15 (abort_target v s AND PCBITS) ?e)"
    using m tgt by (simp add: t_def ARMul_Abort_def ARMul_OSException_def Let_def ret e ARMul_SetR15_def)
  show "wf_arm t" "CPSR t = (CPSR s AND NOT 0x3f) OR entry_mask v OR entry_mode v" by (simp_all add: t en)
  have pc: "PCBITS = NOT 3" by (simp add: PCBITS_def)
  show "Mode t = entry_mode v" "bus t = bus s" "Aborted t = 0" "Spsr t (ModeToBank (entry_mode v)) = CPSR s"
    "Reg t 15 = abort_target v s AND NOT 3"
    by (simp_all add: t FLUSHPIPE_def set_reg_def en pc)
  show "reg_view t b i = (if i = 14 \<and> b = ModeToBank (entry_mode v) then Reg s 15 - ?d else reg_view s b i)"
    if "i \<noteq> 15"
  proof -
    have "reg_view t b i = reg_view ?e b i" using that by (simp add: t) (simp add: reg_view_def set_reg_def)
    then show ?thesis unfolding en(12) .
  qed
qed

subsection \<open>Carry and overflow\<close>

text \<open>The carry and overflow formulas over the unsigned values.\<close>

lemma add_carry_exact:
  fixes a b :: u32
  assumes "d = a + b + of_bool c"
  shows "CFlag (ARMul_AddCarry a b d s) \<longleftrightarrow> 2 ^ 32 \<le> uint a + uint b + of_bool c"
    and "AddOverflow a b d \<longleftrightarrow> sint d \<noteq> sint a + sint b + of_bool c"
proof -
  define A B D where "A = uint a" and "B = uint b" and "D = uint d"
  have d: "D = A + B + of_bool c - (if 2 ^ 32 \<le> A + B + of_bool c then 2 ^ 32 else 0)"
    using uint_add_carry [of a b c, folded assms] by (simp add: A_def B_def D_def)
  have lim: "0 \<le> A" "A < 2 ^ 32" "0 \<le> B" "B < 2 ^ 32" "0 \<le> D" "D < 2 ^ 32"
    using uint_bounds by (simp_all add: A_def B_def D_def)
  show "CFlag (ARMul_AddCarry a b d s) \<longleftrightarrow> 2 ^ 32 \<le> uint a + uint b + of_bool c"
    unfolding ARMul_AddCarry_def POS_not_NEG NEG_uint A_def [symmetric] B_def [symmetric] D_def [symmetric]
    using d lim by (cases c) (auto split: if_splits)
  show "AddOverflow a b d \<longleftrightarrow> sint d \<noteq> sint a + sint b + of_bool c"
    unfolding AddOverflow_def POS_not_NEG NEG_uint sint_as_uint
      A_def [symmetric] B_def [symmetric] D_def [symmetric]
    using d lim by (cases c) (auto split: if_splits)
qed

lemma sub_carry_exact:
  fixes a b :: u32
  assumes "d = a - b - of_bool c"
  shows "CFlag (ARMul_SubCarry a b d s) \<longleftrightarrow> uint b + of_bool c \<le> uint a"
    and "SubOverflow a b d \<longleftrightarrow> sint d \<noteq> sint a - sint b - of_bool c"
proof -
  define A B D where "A = uint a" and "B = uint b" and "D = uint d"
  have d: "D = A - B - of_bool c + (if A < B + of_bool c then 2 ^ 32 else 0)"
    using uint_sub_borrow [of a b c, folded assms] by (simp add: A_def B_def D_def)
  have lim: "0 \<le> A" "A < 2 ^ 32" "0 \<le> B" "B < 2 ^ 32" "0 \<le> D" "D < 2 ^ 32"
    using uint_bounds by (simp_all add: A_def B_def D_def)
  show "CFlag (ARMul_SubCarry a b d s) \<longleftrightarrow> uint b + of_bool c \<le> uint a"
    unfolding ARMul_SubCarry_def POS_not_NEG NEG_uint A_def [symmetric] B_def [symmetric] D_def [symmetric]
    using d lim by (cases c) (auto split: if_splits)
  show "SubOverflow a b d \<longleftrightarrow> sint d \<noteq> sint a - sint b - of_bool c"
    unfolding SubOverflow_def POS_not_NEG NEG_uint sint_as_uint
      A_def [symmetric] B_def [symmetric] D_def [symmetric]
    using d lim by (cases c) (auto split: if_splits)
qed

subsection \<open>Interrupts, register lists, rotation\<close>

lemma interrupt_flags:
  assumes "wf_psr s"
  shows "FFLAG s \<longleftrightarrow> bit (CPSR s) 6" "IFLAG s \<longleftrightarrow> bit (CPSR s) 7"
proof -
  have f: "bit (IFFlags s) k \<longleftrightarrow> k < 2 \<and> bit (IFFlags s) k" for k
    using assms bit_take_bit_iff [of 2 "IFFlags s" k] by (simp add: wf_psr_def)
  show "FFLAG s \<longleftrightarrow> bit (CPSR s) 6"
    using and_exp_eq_0_iff_not_bit [of "IFFlags s" 0] by (simp add: FFLAG_def bit_CPSR [OF assms])
  have "drop_bit 1 (IFFlags s) = of_bool (bit (IFFlags s) 1)"
  proof (rule bit_word_eqI)
    fix n assume "n < LENGTH(32)"
    show "bit (drop_bit 1 (IFFlags s)) n \<longleftrightarrow> bit (of_bool (bit (IFFlags s) 1) :: u32) n"
      using f [of "Suc n"] by (cases n) (auto simp: bit_drop_bit_eq bit_of_bool_iff)
  qed
  then show "IFLAG s \<longleftrightarrow> bit (CPSR s) 7" by (simp add: IFLAG_def bit_CPSR [OF assms])
qed

lemma abort_NresetSig [simp]: "NresetSig (ARMul_Abort v s) = NresetSig s"
proof -
  have sw: "NresetSig (ARMul_SwitchMode old new t) = NresetSig t" for old new and t :: "'b arm_state"
    by (rule switch_shape [of old new t]) simp
  have alt: "NresetSig (ARMul_CPSRAltered t) = NresetSig t" for t :: "'b arm_state"
    by (simp add: ARMul_CPSRAltered_def Let_def sw set_reg_def)
  have sa: "NresetSig (SETABORT i m d temp t) = NresetSig t" for i m d temp and t :: "'b arm_state"
    by (simp add: SETABORT_def Let_def ARMul_SetCPSR_def alt set_reg_def ARMul_SetSPSR_def)
  have en: "NresetSig (abort_enter v temp t) = NresetSig t" for temp and t :: "'b arm_state"
    by (simp add: abort_enter_def Let_def sa)
  have r15: "NresetSig (ARMul_SetR15 x t) = NresetSig t" for x and t :: "'b arm_state"
    by (simp add: ARMul_SetR15_def FLUSHPIPE_def set_reg_def ARMul_R15Altered_def Let_def sw)
  show ?thesis by (simp add: ARMul_Abort_def ARMul_OSException_def Let_def r15 en)
qed

lemma nth_reg_filter:
  assumes "k \<le> 32"
  shows "nth_reg_from instr number k met =
    (if number < met then Some (k - 1)
     else let bs = filter (bit instr) [k ..< 32]
          in if number - met < length bs then Some (bs ! (number - met)) else None)"
  using assms
proof (induction instr number k met rule: nth_reg_from.induct)
  case (1 instr number k met)
  show ?case
  proof (cases "met \<le> number \<and> k < 32")
    case False
    then show ?thesis using "1.prems" by (subst nth_reg_from.simps) auto
  next
    case True
    have u: "[k ..< 32] = k # [Suc k ..< 32]" using True by (simp add: upt_conv_Cons)
    have IH: "nth_reg_from instr number (Suc k) (if BIT k instr then Suc met else met) =
      (if number < (if BIT k instr then Suc met else met) then Some (Suc k - 1)
       else let bs = filter (bit instr) [Suc k ..< 32]
            in if number - (if BIT k instr then Suc met else met) < length bs
               then Some (bs ! (number - (if BIT k instr then Suc met else met))) else None)"
      using True by (intro "1.IH") auto
    show ?thesis
      using True by (subst nth_reg_from.simps, subst IH) (auto simp: BIT_bit u Let_def nth_Cons')
  qed
qed

lemma rotr_shifts:
  fixes v :: u32
  assumes "k < 32"
  shows "drop_bit k v OR push_bit (32 - k) v = word_rotr k v"
proof (rule bit_word_eqI)
  fix n assume "n < LENGTH(32)"
  then have n: "n < 32" by simp
  have r: "bit (word_rotr k v) n \<longleftrightarrow> bit v ((n + k) mod 32)" using n by (simp add: bit_word_rotr_iff)
  show "bit (drop_bit k v OR push_bit (32 - k) v) n \<longleftrightarrow> bit (word_rotr k v) n"
  proof (cases "n + k < 32")
    case True
    then have "\<not> 32 - k \<le> n" using assms by arith
    then show ?thesis unfolding r using True by (simp add: bit_or_iff bit_drop_bit_eq bit_push_bit_iff add.commute)
  next
    case False
    then have "(n + k) mod 32 = n - (32 - k)" using n assms by (simp add: mod_if)
    moreover have "\<not> bit v (k + n)" using False bit_imp_le_length [of v "k + n"] by auto
    ultimately show ?thesis
      unfolding r using False n by (auto simp: bit_or_iff bit_drop_bit_eq bit_push_bit_iff)
  qed
qed

lemma align_rotates: "ARMul_Align a v = word_rotr (8 * (unat a mod 4)) v"
proof -
  have n: "unat (push_bit 3 (a AND 3)) = 8 * (unat a mod 4)"
  proof -
    have "push_bit 3 (a AND 3) = word_of_nat (8 * (unat a mod 4))"
      by (simp add: and_3_mod push_bit_eq_mult)
    moreover have "take_bit 32 (8 * (unat a mod 4)) = 8 * (unat a mod 4)"
      by (rule take_bit_nat_eq_self) simp
    ultimately show ?thesis by (simp only: unsigned_of_nat) simp
  qed
  show ?thesis unfolding ARMul_Align_def Let_def n by (rule rotr_shifts) simp
qed

subsection \<open>A concrete processor\<close>

definition sample_tlb :: tlb where
  "sample_tlb =
     \<lparr>tlb_num = 2, tlb_cycle = 0, tlb_entrys = replicate 2
        \<lparr>tlb_virt_addr = 0, tlb_phys_addr = 0, tlb_perms = 0, tlb_domain = 0, tlb_kind = TLB_INVALID\<rparr>\<rparr>"

definition sample_mmu :: mmu_state where
  "sample_mmu =
     \<lparr>control = 0x78, translation_table_base = 0x30000000, domain_access_control = 0, fault_status = 0,
      fault_address = 0, last_domain = 0, process_id = 0,
      i_tlb = sample_tlb, i_cache = sample_cache, d_tlb = sample_tlb, d_cache = sample_cache,
      wbuf = sample_wb\<rparr>"

text \<open>In user mode, register \<open>i\<close> holding \<open>16 * i\<close>.\<close>

definition sample_cop :: cop_state where
  "sample_cop =
     \<lparr>MMUReg = (\<lambda>i. 0), ValReg = (\<lambda>i. 0), ldc_words = 0, stc_words = 0, val_finish = 0, int_finish = 0\<rparr>"

definition sample_arm :: "unit arm_state" where
  "sample_arm =
     \<lparr>Emulate = RUN, Reg = (\<lambda>i. word_of_nat (16 * i)), RegBank = (\<lambda>b i. 0), Cpsr = 0x10, Spsr = (\<lambda>b. 0),
      NFlag = False, ZFlag = False, CFlag = True, VFlag = False, IFFlags = 0, SFlag = False, TFlag = False,
      Bank = USERBANK, Mode = USER32MODE, isize = 4, NumScycles = 0, NumNcycles = 0, NumIcycles = 2000,
      NumCcycles = 0, NumFcycles = 0, NumInstrs = 0, NextInstr = 0, EventSet = 0, Now = 0, EventPtr = (\<lambda>i. []),
      NresetSig = True, abortSig = False, NtransSig = False, bigendSig = False, prog32Sig = True, data32Sig = True,
      lateabtSig = False, Aborted = 0, Base = 0, AbortAddr = 0, is_v4 = True, is_v5 = False, is_v5e = False,
      is_XScale = False, is_iWMMXt = False, is_v6 = False, is_ep9312 = False, is_pxa27x = False, Accumulator = 0,
      pipe = \<lparr>decoded = 0, loaded = 0, pipe_pc = 0\<rparr>, cop = sample_cop, vector_remap_flag = False, vector_remap_addr = 0, cpu_val = 0x41009200,
      cpu_arch_name = ''armv4t'', inst_cache = False, junk = 0, mmu = sample_mmu, bus = sample_bus\<rparr>"

lemma sample_arm_wf: "wf_arm sample_arm"
  by (simp add: wf_arm_def wf_psr_def mode32_def sample_arm_def mode_numbers ModeToBank_def bankofmode_def
      bank_numbers take_bit_eq_mask mask_eq_exp_minus_1)

subsection \<open>Properties of the support routines\<close>

text \<open>
  Mode switches lose no register: after \<^verbatim>\<open>ARMul_SwitchMode\<close> every mode's view of every
  register is what it was, and the registers in use are those of the new mode. This covers
  the FIQ bank with its own registers 8 to 12.
\<close>

theorem switch_mode_keeps_registers:
  assumes "Bank s = ModeToBank old" "ModeToBank old < DUMMYBANK" "ModeToBank new < DUMMYBANK" "i < 16"
  shows "reg_view (ARMul_SwitchMode old new s) b i = reg_view s b i \<and>
    Reg (ARMul_SwitchMode old new s) i = reg_view s (ModeToBank new) i"
proof -
  have "Reg (ARMul_SwitchMode old new s) i = reg_view (ARMul_SwitchMode old new s) (ModeToBank new) i"
    using assms(4) by (simp add: reg_view_def)
  then show ?thesis using switch_view [OF assms(1-3)] by simp
qed

theorem switch_mode_keeps_registers_witness:
  "Reg (ARMul_SwitchMode USER32MODE FIQ32MODE sample_arm) 10 = 0 \<and>
   reg_view (ARMul_SwitchMode USER32MODE FIQ32MODE sample_arm) USERBANK 10 = 160"
proof -
  have banks: "ModeToBank USER32MODE = USERBANK" "ModeToBank FIQ32MODE = FIQBANK"
    by (simp_all add: ModeToBank_def bankofmode_def mode_numbers)
  show ?thesis
    using switch_mode_keeps_registers [of sample_arm USER32MODE FIQ32MODE 10 USERBANK] banks
    by (simp add: reg_view_def owner_def sample_arm_def bank_numbers)
qed

text \<open>
  Writing the CPSR in a 32-bit processor: the word read back is the written one without
  the bits the simulator does not keep, the mode is the one it names, and no mode loses a
  register.
\<close>

theorem set_cpsr_read_back:
  assumes "wf_arm s" "mode32 (v AND MODEBITS)"
  shows "ARMul_GetCPSR (ARMul_SetCPSR v s) = v AND PSR_KEPT \<and> Mode (ARMul_SetCPSR v s) = v AND MODEBITS \<and>
    wf_arm (ARMul_SetCPSR v s) \<and> reg_view (ARMul_SetCPSR v s) b i = reg_view s b i"
  using set_cpsr [OF assms(1), of v] assms(2) by (simp add: psr_bits ARMul_GetCPSR_def)

theorem set_cpsr_read_back_witness:
  "wf_arm sample_arm \<and> ARMul_GetCPSR (ARMul_SetCPSR 0xa00000d1 sample_arm) = 0xa00000d1"
proof -
  have m: "mode32 (0xa00000d1 AND MODEBITS)" by (simp add: mode32_def mode_numbers MODEBITS_def)
  show ?thesis
    using set_cpsr_read_back [OF sample_arm_wf m, of 0 0] sample_arm_wf by (simp add: PSR_KEPT_def)
qed

text \<open>
  C31. Exception entry of a 32-bit processor, for every vector but the 26-bit address exception:
  the mode of the exception is entered with the old CPSR in its SPSR, the link value in its
  r14, interrupts masked as the architecture says and the T bit clear; execution goes on at
  the vector; no other register of any mode and nothing on the bus changes.
\<close>

theorem exception_entry_correct:
  assumes "wf_arm s" "exception32 v"
  shows "let t = ARMul_Abort v s; bk = ModeToBank (entry_mode v) in
    wf_arm t \<and> Mode t = entry_mode v \<and> Spsr t bk = CPSR s \<and>
    CPSR t = (CPSR s AND NOT 0x3f) OR entry_mask v OR entry_mode v \<and>
    Reg t 14 = Reg s 15 - link_offset v (TFlag s) \<and> Reg t 15 = abort_target v s AND NOT 3 \<and>
    (\<forall>b i. i = 15 \<or> i = 14 \<and> b = bk \<or> reg_view t b i = reg_view s b i) \<and>
    bus t = bus s \<and> Aborted t = 0"
proof -
  note e = exception_entry_facts [OF assms]
  have "Reg (ARMul_Abort v s) 14 = reg_view (ARMul_Abort v s) (ModeToBank (entry_mode v)) 14"
    using wf_armD(5) [OF e(1)] e(2) by (simp add: reg_view_def)
  then have r14: "Reg (ARMul_Abort v s) 14 = Reg s 15 - link_offset v (TFlag s)" using e(8) by simp
  have "i = 15 \<or> i = 14 \<and> b = ModeToBank (entry_mode v) \<or> reg_view (ARMul_Abort v s) b i = reg_view s b i" for b i
    using e(8) [of i b] by (cases "i = 15") auto
  then show ?thesis unfolding Let_def using e(1-7) r14 by blast
qed

theorem exception_entry_correct_witness:
  "wf_arm sample_arm \<and> exception32 IRQV \<and> Reg (ARMul_Abort IRQV sample_arm) 14 = 236 \<and>
   Mode (ARMul_Abort IRQV sample_arm) = IRQ32MODE \<and> Reg (ARMul_Abort IRQV sample_arm) 15 = 24"
proof -
  have "exception32 IRQV" by (simp add: exception32_def)
  then show ?thesis
    using exception_entry_correct [OF sample_arm_wf, of IRQV] sample_arm_wf
    by (simp add: Let_def)
      (simp add: entry_mode_def vectors sample_arm_def link_offset_def abort_target_def sample_mmu_def CONTROL_VECTOR_def)
qed

text \<open>
  Interrupts: FIQ goes before IRQ, masked ones are not taken, and one that is taken masks
  itself, so that the same pins do not interrupt the handler again.
\<close>

theorem interrupt_taken_once:
  assumes "wf_arm s" "NresetSig s" "IntPending s = (True, t)"
  shows "t = ARMul_Abort (if NfiqSig (io (bus s)) = 0 \<and> \<not> FFLAG s then FIQV else IRQV) s \<and>
    wf_arm t \<and> IFLAG t \<and> IntPending t = (False, t)"
proof -
  let ?v = "if NfiqSig (io (bus s)) = 0 \<and> \<not> FFLAG s then FIQV else IRQV"
  have t: "t = ARMul_Abort ?v s" and q: "NfiqSig (io (bus s)) = 0 \<and> \<not> FFLAG s \<or> NirqSig (io (bus s)) = 0 \<and> \<not> IFLAG s"
    using assms(2,3) by (auto simp: IntPending_def split: if_splits)
  have v: "exception32 ?v" by (simp add: exception32_def)
  note e = exception_entry_facts [OF assms(1) v, folded t]
  have modes: "\<not> bit (entry_mode ?v) 6" "\<not> bit (entry_mode ?v) 7"
    by (simp_all add: entry_mode_def vectors mode_numbers bit_numeral_rec)
  have mask: "bit (entry_mask FIQV) 6" "bit (entry_mask FIQV) 7" "bit (entry_mask IRQV) 7" "\<not> bit (entry_mask IRQV) 6"
    by (simp_all add: entry_mask_def vectors psr_masks bit_numeral_rec)
  have k: "bit (NOT 0x3f :: u32) 6" by (simp add: bit_not_iff bit_numeral_rec)
  note fl = interrupt_flags [OF wf_armD(1) [OF e(1)]] interrupt_flags [OF wf_armD(1) [OF assms(1)]]
  have I: "IFLAG t" unfolding fl(2) e(3) using mask by (auto simp: bit_or_iff)
  have F: "FFLAG t \<longleftrightarrow> NfiqSig (io (bus s)) = 0 \<or> FFLAG s"
    unfolding fl(1,3) e(3) using mask modes k by (auto simp: bit_or_iff bit_and_iff)
  have "IntPending t = (False, t)"
    using I F q assms(2) e(6) by (auto simp: IntPending_def t)
  then show ?thesis using t e(1) I by blast
qed

theorem interrupt_taken_once_witness:
  "let s = sample_arm\<lparr>bus := sample_bus\<lparr>io := \<lparr>NfiqSig = 1, NirqSig = 0, board = ()\<rparr>\<rparr>\<rparr>;
       t = snd (IntPending s) in wf_arm s \<and> IntPending t = (False, t)"
proof -
  let ?s = "sample_arm\<lparr>bus := sample_bus\<lparr>io := \<lparr>NfiqSig = 1, NirqSig = 0, board = ()\<rparr>\<rparr>\<rparr>"
  have wf: "wf_arm ?s" using sample_arm_wf by (simp add: wf_arm_def wf_psr_def)
  have n: "NresetSig ?s" by (simp add: sample_arm_def)
  have p: "IntPending ?s = (True, snd (IntPending ?s))"
    by (simp add: IntPending_def IFLAG_def FFLAG_def sample_arm_def)
  show ?thesis unfolding Let_def using interrupt_taken_once [OF wf n p] wf by blast
qed

text \<open>
  \<^verbatim>\<open>ARMul_NthReg\<close> is the element of the list of set bits, counted from 0.
\<close>

theorem nth_reg_of_list:
  "ARMul_NthReg instr number =
     (let bs = filter (bit instr) [0 ..< 32]
      in if number < length bs then Some (bs ! number) else None)"
  using nth_reg_filter [of 0 instr number 0] by (simp add: ARMul_NthReg_def Let_def)

text \<open>
  \<^verbatim>\<open>ARMul_Align\<close> rotates a loaded word right by the byte offset of its address.
\<close>

theorem align_is_rotation: "ARMul_Align a v = word_rotr (8 * (unat a mod 4)) v"
  by (rule align_rotates)

lemma envoke_empty: "\<forall>i \<in> set is. EventPtr s i = [] \<Longrightarrow> fold envoke_slot is s = s"
proof (induction "is")
  case (Cons i ks)
  have "envoke_slot i s = s" using Cons.prems by (simp add: envoke_slot_def fun_upd_idem)
  then show ?case using Cons by simp
qed simp

text \<open>
  An event is run before its time: scheduled at cycle 2000 for 100 cycles later, the IRQ
  is raised by the next \<^verbatim>\<open>ARMul_EnvokeEvent\<close>, one cycle later, because \<^verbatim>\<open>Now\<close> is kept
  unreduced while the slots are reduced modulo 1024.
\<close>

theorem event_runs_early:
  "let s = ARMul_ScheduleEvent 100 DoAIRQ sample_arm;
       t = ARMul_EnvokeEvent (s\<lparr>NumIcycles := NumIcycles s + 1\<rparr>)
   in ARMul_Time sample_arm = 2000 \<and> NirqSig (io (bus s)) = 1 \<and> NirqSig (io (bus t)) = 0"
proof -
  define s where "s = ARMul_ScheduleEvent 100 DoAIRQ sample_arm"
  have s: "EventPtr s i = (if i = 52 then [DoAIRQ] else [])" "Now s = 2000" "ARMul_Time s = 2000"
      "NumIcycles s = 2000" "NirqSig (io (bus s)) = 1" for i
    by (simp_all add: s_def ARMul_ScheduleEvent_def Let_def ARMul_Time_def EVENTLISTSIZE_def sample_arm_def
        sample_bus_def)
  let ?u = "s\<lparr>NumIcycles := NumIcycles s + 1\<rparr>"
  have now: "ARMul_Time ?u mod EVENTLISTSIZE = 977"
  proof -
    have "ARMul_Time ?u = 2001" using s(3) by (simp add: ARMul_Time_def algebra_simps)
    then show ?thesis by (simp add: EVENTLISTSIZE_def word_unat_eq_iff unat_mod_distrib)
  qed
  let ?v = "?u\<lparr>Now := 977\<rparr>"
  have before: "EventPtr ?v i = []" if "i < 52" for i using that by (simp add: s)
  have after: "EventPtr (envoke_slot 52 ?v) i = []" for i by (simp add: s envoke_slot_def)
  have "ARMul_EnvokeEvent ?u = EnvokeList 0 977 (EnvokeList 2000 1023 ?v)"
    unfolding ARMul_EnvokeEvent_def Let_def now using s(2) by (simp add: EVENTLISTSIZE_def)
  also have "\<dots> = fold envoke_slot [0 ..< 978] ?v" by (simp add: EnvokeList_def del: upt_Suc)
  also have "[0 ..< 978 :: nat] = [0 ..< 52] @ 52 # [53 ..< 978]"
    using upt_add_eq_append [of 0 52 926] upt_conv_Cons [of 52 978] by simp
  also have "fold envoke_slot \<dots> ?v = fold envoke_slot [53 ..< 978] (envoke_slot 52 (fold envoke_slot [0 ..< 52] ?v))"
    by simp
  also have "fold envoke_slot [0 ..< 52] ?v = ?v"
    using before by (intro envoke_empty) simp
  also have "fold envoke_slot [53 ..< 978] (envoke_slot 52 ?v) = envoke_slot 52 ?v"
    using after by (intro envoke_empty) blast
  finally have "NirqSig (io (bus (ARMul_EnvokeEvent ?u))) = 0" by (simp add: envoke_slot_def s)
  moreover have "ARMul_Time sample_arm = 2000" by (simp add: ARMul_Time_def sample_arm_def)
  ultimately show ?thesis unfolding Let_def s_def [symmetric] using s(5) by simp
qed

end
