(* ===== verification/Arm_Frame.thy ===== *)
theory Arm_Frame
  imports Arm_Emu Arm_Supp_Spec
begin

text \<open>
  What memory accesses leave alone. \<open>core\<close> is the state without its MMU, its bus, its cycle counts
  and the abort signals; every fetch, load and store keeps it, so registers, flags, mode
  and pipeline can only change where the instruction says so.
\<close>

subsection \<open>The core of a state\<close>

definition core ::
  "'d arm_state \<Rightarrow> mmu_state \<times> 'd bus \<times> u32 \<times> u32 \<times> bool \<times> u32 \<times> u32 \<Rightarrow> 'd arm_state" where
  "core s = (\<lambda>(m, b, ns, nn, sig, a, d).
     s\<lparr>mmu := m, bus := b, NumScycles := ns, NumNcycles := nn, abortSig := sig, Aborted := a, AbortAddr := d\<rparr>)"

named_theorems core_frame

lemma core_updates [core_frame]:
  "core (s\<lparr>mmu := m\<rparr>) = core s" "core (s\<lparr>bus := b\<rparr>) = core s" "core (s\<lparr>NumScycles := n\<rparr>) = core s"
  "core (s\<lparr>NumNcycles := n\<rparr>) = core s" "core (s\<lparr>abortSig := x\<rparr>) = core s" "core (s\<lparr>Aborted := n\<rparr>) = core s"
  "core (s\<lparr>AbortAddr := n\<rparr>) = core s"
  by (simp_all add: core_def)

lemma core_get:
  "Reg (core s x) = Reg s" "RegBank (core s x) = RegBank s" "Cpsr (core s x) = Cpsr s" "Spsr (core s
  x) = Spsr s" "Mode (core s x) = Mode s" "Bank (core s x) = Bank s" "IFFlags (core s x) = IFFlags
  s" "NFlag (core s x) = NFlag s" "ZFlag (core s x) = ZFlag s" "CFlag (core s x) = CFlag s" "VFlag
  (core s x) = VFlag s" "SFlag (core s x) = SFlag s" "TFlag (core s x) = TFlag s" "prog32Sig (core s
  x) = prog32Sig s" "cop (core s x) = cop s" "pipe (core s x) = pipe s" "NextInstr (core s x) =
  NextInstr s" "Emulate (core s x) = Emulate s" "isize (core s x) = isize s" "NumInstrs (core s x) =
  NumInstrs s" "EventSet (core s x) = EventSet s" "EventPtr (core s x) = EventPtr s" "Now (core s x)
  = Now s" "NresetSig (core s x) = NresetSig s" "Base (core s x) = Base s" "lateabtSig (core s x) =
  lateabtSig s" "is_v4 (core s x) = is_v4 s" "is_v5 (core s x) = is_v5 s" "is_XScale (core s x) =
  is_XScale s" "bigendSig (core s x) = bigendSig s" "Accumulator (core s x) = Accumulator s"
  "cpu_arch_name (core s x) = cpu_arch_name s" "cpu_val (core s x) = cpu_val s" "vector_remap_flag
  (core s x) = vector_remap_flag s" "vector_remap_addr (core s x) = vector_remap_addr s" "NumIcycles
  (core s x) = NumIcycles s" "NumCcycles (core s x) = NumCcycles s" "NumFcycles (core s x) =
  NumFcycles s"
  by (simp_all add: core_def case_prod_beta)

lemma core_fields:
  assumes "core t = core s"
  shows
    "Reg t = Reg s" "RegBank t = RegBank s" "Cpsr t = Cpsr s" "Spsr t = Spsr s" "Mode t = Mode s"
    "Bank t = Bank s" "IFFlags t = IFFlags s" "NFlag t = NFlag s" "ZFlag t = ZFlag s" "CFlag t =
    CFlag s" "VFlag t = VFlag s" "SFlag t = SFlag s" "TFlag t = TFlag s" "prog32Sig t = prog32Sig s"
    "cop t = cop s" "pipe t = pipe s" "NextInstr t = NextInstr s" "Emulate t = Emulate s" "isize t =
    isize s" "NumInstrs t = NumInstrs s" "EventSet t = EventSet s" "EventPtr t = EventPtr s" "Now t
    = Now s" "NresetSig t = NresetSig s" "Base t = Base s" "lateabtSig t = lateabtSig s" "is_v4 t =
    is_v4 s" "is_v5 t = is_v5 s" "is_XScale t = is_XScale s" "bigendSig t = bigendSig s"
    "Accumulator t = Accumulator s" "cpu_arch_name t = cpu_arch_name s" "cpu_val t = cpu_val s"
    "vector_remap_flag t = vector_remap_flag s" "vector_remap_addr t = vector_remap_addr s"
    "NumIcycles t = NumIcycles s" "NumCcycles t = NumCcycles s" "NumFcycles t = NumFcycles s"
  by (metis assms core_get)+

subsection \<open>Memory management\<close>

lemma core_cpu [core_frame]:
  "core (snd (cpu_read sz a s)) = core s" "core (cpu_write sz a v s) = core s"
  "core (on_i_cache f s) = core s" "core (on_d_cache f s) = core s" "core (on_wb g s) = core s"
  by (simp_all add: cpu_read_def cpu_write_def on_i_cache_def on_d_cache_def on_wb_def case_prod_beta core_frame)

lemma core_walk [core_frame]:
  "core (set_last_domain d s) = core s" "core (snd (read_desc a s)) = core s" "core (arm_halt h s) = core s"
  "core (snd (table_walk va s)) = core s"
proof -
  show d: "core (set_last_domain d s) = core s" for d and s :: "'a arm_state"
    by (simp add: set_last_domain_def core_frame)
  show r: "core (snd (read_desc a s)) = core s" for a and s :: "'a arm_state"
    by (simp add: read_desc_def case_prod_beta core_frame)
  show "core (arm_halt h s) = core s" by (simp add: arm_halt_def core_frame)
  show "core (snd (table_walk va s)) = core s"
    by (simp add: table_walk_def case_prod_beta Let_def d r)
qed

lemma core_translate [core_frame]: "core (snd (snd (translate va t s))) = core s"
  using core_walk(4) [of va s]
  by (auto simp: translate_def case_prod_beta Let_def core_frame split: option.split sum.split)

lemma core_checked [core_frame]:
  "core (snd (translate_i va s)) = core s" "core (snd (translate_d va s)) = core s"
  "core (snd (check_access va e rd s)) = core s"
  "(\<And>s. core (snd (tr va s)) = core s) \<Longrightarrow> core (snd (checked tr va rd s)) = core s"
proof -
  show "core (snd (translate_i va s)) = core s" "core (snd (translate_d va s)) = core s"
    by (simp_all add: translate_i_def translate_d_def case_prod_beta core_frame)
  show c: "core (snd (check_access va e rd s)) = core s" for e rd and s :: "'a arm_state"
    by (simp add: check_access_def Let_def core_frame split: option.split)
  show "core (snd (checked tr va rd s)) = core s" if "\<And>s. core (snd (tr va s)) = core s"
    using that [of s] by (simp add: checked_def case_prod_beta c split: sum.split)
qed

lemma core_mmu_read [core_frame]: "core (snd (snd (arm920t_mmu_read dt va s))) = core s"
proof -
  have m: "core (snd (mem_read_typed dt a t)) = core t" for a and t :: "'a arm_state"
    by (cases dt) (simp_all add: core_frame)
  have r: "core (snd (read_translated dt e va' rva t)) = core t" for e va' rva and t :: "'a arm_state"
    by (simp add: read_translated_def Let_def case_prod_beta m core_frame split: option.split)
  show ?thesis
    by (simp add: arm920t_mmu_read_def Let_def case_prod_beta m r core_frame split: sum.split)
qed

lemma core_mmu_write [core_frame]: "core (snd (arm920t_mmu_write dt va v s)) = core s"
proof -
  have m: "core (mem_write_typed dt a v t) = core t" for a and t :: "'a arm_state"
    by (cases dt) (simp_all add: core_frame)
  have w: "core (write_translated dt e va' rva v t) = core t" for e va' rva and t :: "'a arm_state"
    by (simp add: write_translated_def write_uncached_def Let_def m core_frame split: option.split)
  have i: "core (write_i_cache dt va' v t) = core t" for va' and t :: "'a arm_state"
    by (simp add: write_i_cache_def Let_def core_frame split: option.split)
  show ?thesis
    by (simp add: arm920t_mmu_write_def Let_def case_prod_beta m w i core_frame split: sum.split)
qed

lemma core_mmu_fetch [core_frame]: "core (snd (snd (arm920t_mmu_load_instr va s))) = core s"
proof -
  have f: "core (snd (fetch_word va' pa c t)) = core t" for va' pa c and t :: "'a arm_state"
    by (simp add: fetch_word_def Let_def case_prod_beta core_frame split: option.split)
  show ?thesis
    by (simp add: arm920t_mmu_load_instr_def Let_def case_prod_beta f core_frame split: sum.split)
qed

lemma core_mmu_mcr [core_frame]: "core (mmu_mcr instr v s) = core s"
  by (simp add: mmu_mcr_def arm920t_mmu_mcr_def arm920t_mmu_cache_ops_def arm920t_mmu_tlb_ops_def Let_def core_frame)

subsection \<open>Accesses of the core\<close>

lemma core_data_fault [core_frame]: "core (data_fault f a s) = core s" "core (ARMul_CLEARABORT s) = core s"
  by (simp_all add: data_fault_def ARMul_DATAABORT_def ARMul_CLEARABORT_def core_frame)

lemma core_finish [core_frame]:
  "core (snd (finish_read a r)) = core (snd (snd r))" "core (finish_write a q) = core (snd q)"
  by (simp_all add: finish_read_def finish_write_def case_prod_beta Let_def core_frame)

lemma core_loads [core_frame]:
  "core (snd (ARMul_ReadWord a s)) = core s" "core (snd (ARMul_LoadWordS a s)) = core s"
  "core (snd (ARMul_LoadWordN a s)) = core s" "core (snd (ARMul_LoadHalfWord a s)) = core s"
  "core (snd (ARMul_ReadByte a s)) = core s" "core (snd (ARMul_LoadByte a s)) = core s"
  by (simp_all add: ARMul_ReadWord_def ARMul_LoadWordS_def ARMul_LoadWordN_def ARMul_LoadHalfWord_def
      ARMul_ReadByte_def ARMul_LoadByte_def mmu_read_word_def mmu_read_halfword_def mmu_read_byte_def core_frame)

lemma core_stores [core_frame]:
  "core (ARMul_WriteWord a v s) = core s" "core (ARMul_StoreWordS a v s) = core s"
  "core (ARMul_StoreWordN a v s) = core s" "core (ARMul_StoreHalfWord a v s) = core s"
  "core (ARMul_WriteByte a v s) = core s" "core (ARMul_StoreByte a v s) = core s"
  by (simp_all add: ARMul_WriteWord_def ARMul_StoreWordS_def ARMul_StoreWordN_def ARMul_StoreHalfWord_def
      ARMul_WriteByte_def ARMul_StoreByte_def mmu_write_word_def mmu_write_halfword_def mmu_write_byte_def
      core_frame)

lemma core_swaps [core_frame]:
  "core (snd (ARMul_SwapWord a v s)) = core s" "core (snd (ARMul_SwapByte a v s)) = core s"
  by (simp_all add: ARMul_SwapWord_def ARMul_SwapByte_def mmu_write_word_def case_prod_beta core_frame)

lemma core_fetch [core_frame]:
  "core (snd (ARMul_ReLoadInstr a i s)) = core s" "core (snd (ARMul_LoadInstrS a i s)) = core s"
  "core (snd (ARMul_LoadInstrN a i s)) = core s"
proof -
  have m: "core (snd (snd (fetch_mem a s))) = core s" for a and s :: "'a arm_state"
    by (simp add: fetch_mem_def mmu_read_word_def mmu_load_instr_def core_frame)
  have p: "core (snd (prefetch_fail a s)) = core s" for a and s :: "'a arm_state"
    by (simp add: prefetch_fail_def ARMul_PREFETCHABORT_def Let_def core_frame)
  have r: "core (snd (ARMul_ReLoadInstr a i s)) = core s" for a i and s :: "'a arm_state"
    by (simp add: ARMul_ReLoadInstr_def case_prod_beta Let_def m p core_frame)
  show "core (snd (ARMul_ReLoadInstr a i s)) = core s" "core (snd (ARMul_LoadInstrS a i s)) = core s"
    "core (snd (ARMul_LoadInstrN a i s)) = core s"
    by (simp_all add: ARMul_LoadInstrS_def ARMul_LoadInstrN_def r core_frame)
qed

text \<open>
  Memory accesses touch no register: whatever a load, store, swap or instruction fetch does in
  the MMU, caches, buffer and bus, it leaves every register of every bank, the flags, mode,
  saved status and the pipeline as they were, on a fault as well.
\<close>

theorem memory_access_keeps_core:
  assumes "t = snd (ARMul_LoadWordN a s) \<or> t = ARMul_StoreWordN a v s \<or> t = snd (ARMul_LoadByte a s)
    \<or> t = ARMul_StoreByte a v s \<or> t = snd (ARMul_LoadHalfWord a s) \<or> t = ARMul_StoreHalfWord a v s
    \<or> t = snd (ARMul_SwapWord a v s) \<or> t = snd (ARMul_LoadInstrS a i s) \<or> t = snd (ARMul_ReLoadInstr a i s)"
  shows "Reg t = Reg s \<and> RegBank t = RegBank s \<and> CPSR t = CPSR s \<and> Spsr t = Spsr s \<and> Bank t = Bank s
    \<and> pipe t = pipe s \<and> NextInstr t = NextInstr s"
proof -
  have c: "core t = core s" using assms by (elim disjE) (simp_all add: core_frame)
  show ?thesis
    using core_fields [OF c] by (simp add: CPSR_def ECC_def EINT_def EMODE_def)
qed

theorem memory_access_keeps_core_witness:
  "Reg (ARMul_StoreWordN 0x30000004 7 sample_arm) 3 = 48"
  using memory_access_keeps_core [of "ARMul_StoreWordN 0x30000004 7 sample_arm" "0x30000004" sample_arm 7 0]
  by (simp add: sample_arm_def)

end
