(* ===== verification/Arm_Copro_Spec.thy ===== *)
theory Arm_Copro_Spec
  imports Arm_Frame
begin

text \<open>
  The coprocessor protocol: a contract for handlers under which busy-waiting and word transfers
  end (\<open>ready_handler\<close>, \<open>finite_transfer\<close>), its interpretation on the handlers of armcopro.c, and
  the instructions over the table that \<^verbatim>\<open>ARMul_CoProInit\<close> installs.
\<close>

subsection \<open>Busy-waiting ends\<close>

lemma time_icycle: "ARMul_Time (ARMul_Icycles n s) = ARMul_Time s + n"
  by (simp add: ARMul_Time_def ARMul_Icycles_def)

lemma no_interrupt: "\<not> fst (IntPending s) \<Longrightarrow> snd (IntPending s) = s"
  by (auto simp: IntPending_def split: if_splits)

lemma unat_next: "a < b \<Longrightarrow> unat (a + 1) = Suc (unat a)" for a b :: u32
proof -
  assume "a < b"
  then have "unat a < unat b" "unat b < 2 ^ LENGTH(32)"
    using unsigned_less [of b] by (simp_all add: word_less_nat_alt)
  then show "unat (a + 1) = Suc (unat a)"
    using unat_add_lem [of a 1] by simp
qed

text \<open>
  A handler that is busy only while the cycle count is below a time it has chosen, which
  polling does not move.
\<close>

locale ready_handler =
  fixes h :: "cp_type \<Rightarrow> 'x \<Rightarrow> 'd arm_state \<Rightarrow> cp_result \<times> 'x \<times> 'd arm_state"
    and finish :: "'d arm_state \<Rightarrow> u32"
  assumes busy: "fst (h ARMul_BUSY x s) = CP_BUSY \<Longrightarrow>
      snd (snd (h ARMul_BUSY x s)) = s \<and> ARMul_Time s < finish s"
    and fixed: "finish (ARMul_Icycles n s) = finish s"
begin

lemma waits_before: "ARMul_Time s < finish s \<Longrightarrow> busy_wait h r x s \<noteq> None"
proof (induction "unat (finish s) - unat (ARMul_Time s)" arbitrary: r x s rule: less_induct)
  case less
  let ?s1 = "ARMul_Icycles 1 s"
  have step: "busy_wait h r x s =
     (if r \<noteq> CP_BUSY then Some (Some r, x, s)
      else if fst (IntPending ?s1)
      then Some (None, x, snd (snd (h ARMul_INTERRUPT x (snd (IntPending ?s1)))))
      else (let q = h ARMul_BUSY x (snd (IntPending ?s1))
            in busy_wait h (fst q) (fst (snd q)) (snd (snd q))))"
    by (subst busy_wait.simps) (simp add: Let_def)
  show ?case
  proof (cases "r = CP_BUSY \<and> \<not> fst (IntPending ?s1)")
    case False
    then show ?thesis unfolding step by auto
  next
    case True
    then have same: "snd (IntPending ?s1) = ?s1" by (simp add: no_interrupt)
    let ?q = "h ARMul_BUSY x ?s1"
    show ?thesis
    proof (cases "fst ?q = CP_BUSY")
      case False
      then have "busy_wait h (fst ?q) (fst (snd ?q)) (snd (snd ?q)) = Some (Some (fst ?q), fst (snd ?q), snd (snd ?q))"
        by (subst busy_wait.simps) simp
      then show ?thesis unfolding step using True same by (simp add: Let_def)
    next
      case busy': True
      have q: "snd (snd ?q) = ?s1" "ARMul_Time ?s1 < finish ?s1" using busy [OF busy'] by simp_all
      have "unat (ARMul_Time ?s1) = Suc (unat (ARMul_Time s))"
        using less.prems by (simp add: time_icycle unat_next)
      then have "unat (finish ?s1) - unat (ARMul_Time ?s1) < unat (finish s) - unat (ARMul_Time s)"
        using less.prems by (simp add: fixed word_less_nat_alt)
      then have "busy_wait h (fst ?q) (fst (snd ?q)) ?s1 \<noteq> None"
        using less.hyps q(2) by blast
      then show ?thesis unfolding step using True same q(1) by (simp add: Let_def)
    qed
  qed
qed

lemma waits: "busy_wait h r x s \<noteq> None"
proof -
  let ?s1 = "ARMul_Icycles 1 s" and ?q = "h ARMul_BUSY x (ARMul_Icycles 1 s)"
  have "busy_wait h (fst ?q) (fst (snd ?q)) (snd (snd ?q)) \<noteq> None"
  proof (cases "fst ?q = CP_BUSY")
    case True
    then show ?thesis using busy [OF True] waits_before by simp
  next
    case False
    then show ?thesis by (subst busy_wait.simps) simp
  qed
  then show ?thesis
    by (subst busy_wait.simps) (simp add: Let_def no_interrupt)
qed

lemma starts: "cp_start h x s \<noteq> None"
  by (simp add: cp_start_def case_prod_beta waits)

end

text \<open>A handler that is never busy.\<close>

locale never_busy =
  fixes h :: "cp_type \<Rightarrow> 'x \<Rightarrow> 'd arm_state \<Rightarrow> cp_result \<times> 'x \<times> 'd arm_state"
  assumes never: "fst (h ty x s) \<noteq> CP_BUSY"

sublocale never_busy \<subseteq> ready_handler h "\<lambda>s. 0"
  by unfold_locales (simp_all add: never)

text \<open>
  The handlers of armcopro.c. The two that wait, for as many cycles as a register of
  the coprocessor says, keep the contract; the others are never busy.
\<close>

interpretation val_cdp: ready_handler "\<lambda>ty x s. no_data (ValCDP ty instr s)" "\<lambda>s. val_finish (cop s)" for instr
  by unfold_locales (auto simp: ValCDP_def no_data_def ARMul_Icycles_def not_le split: if_splits)

lemma int_cdp_busy:
  assumes "fst (IntCDP ARMul_BUSY instr s) = CP_BUSY"
  shows "snd (IntCDP ARMul_BUSY instr s) = s \<and> ARMul_Time s < int_finish (cop s)"
proof -
  define n where "n = field 20 23 instr"
  note e = IntCDP_def [of ARMul_BUSY instr s, unfolded Let_def n_def [symmetric]]
  consider "n = 0" | "n = 1" | "n = 2" | "n = 3" | "n = 4" | "n = 5" | "5 < n" by linarith
  then show ?thesis
    using assms unfolding e by cases (simp_all add: not_le split: if_splits)
qed

interpretation int_cdp: ready_handler "\<lambda>ty x s. no_data (IntCDP ty instr s)" "\<lambda>s. int_finish (cop s)" for instr
  by unfold_locales (simp_all add: int_cdp_busy no_data_def ARMul_Icycles_def)

interpretation no_cdp: never_busy "\<lambda>ty x s. no_data (NoCoPro3R ty instr s)" for instr
  by unfold_locales (simp add: NoCoPro3R_def no_data_def)

interpretation no_in: never_busy "\<lambda>ty x s. no_data (NoCoPro4R ty instr (g ty) s)" for instr g
  by unfold_locales (simp add: NoCoPro4R_def no_data_def)

interpretation no_out: never_busy "\<lambda>ty x s. NoCoPro4W ty instr x s" for instr
  by unfold_locales (simp add: NoCoPro4W_def)

interpretation mmu_in: never_busy "\<lambda>ty x s. no_data (MMUMCR ty instr (g ty) s)" for instr g
  by unfold_locales (simp add: MMUMCR_def no_data_def)

interpretation mmu_out: never_busy "\<lambda>ty x s. MMUMRC ty instr x s" for instr
  by unfold_locales (simp add: MMUMRC_def)

interpretation val_ldc: never_busy "\<lambda>ty x s. no_data (ValLDC ty instr (g ty) s)" for instr g
  by unfold_locales (simp add: ValLDC_def no_data_def Let_def)

interpretation val_stc: never_busy "\<lambda>ty x s. ValSTC ty instr x s" for instr
  by unfold_locales (simp add: ValSTC_def Let_def)

interpretation val_in: never_busy "\<lambda>ty x s. no_data (ValMCR ty instr (g ty) s)" for instr g
  by unfold_locales (simp add: ValMCR_def no_data_def)

interpretation val_out: never_busy "\<lambda>ty x s. ValMRC ty instr x s" for instr
  by unfold_locales (simp add: ValMRC_def)

subsection \<open>Transfers end\<close>

text \<open>
  A data handler that asks for another word only while a count it keeps in its own state
  goes down. A memory access does not move the count.
\<close>

locale finite_transfer =
  fixes h :: "u32 \<Rightarrow> 'd arm_state \<Rightarrow> cp_result \<times> 'd arm_state"
    and left :: "'d arm_state \<Rightarrow> nat"
  assumes less: "fst (h v s) = CP_INC \<Longrightarrow> left (snd (h v s)) < left s"
    and kept: "core t = core s \<Longrightarrow> left t = left s"
begin

lemma ldc_ends:
  assumes "\<And>v s. cpLDC c ARMul_DATA instr v s = h v s"
  shows "ldc_words_loop c instr a r s \<noteq> None"
proof (induction "left s" arbitrary: a r s rule: less_induct)
  case less
  let ?p = "ARMul_LoadWordN (a + 4) s"
  let ?q = "h (fst ?p) (snd ?p)"
  have "left (snd ?p) = left s" by (rule kept) (simp add: core_frame)
  then have down: "fst ?q = CP_INC \<Longrightarrow> left (snd ?q) < left s" using finite_transfer.less [OF finite_transfer_axioms, of "fst ?p" "snd ?p"] by simp
  have "ldc_words_loop c instr (a + 4) (fst ?q) (snd ?q) \<noteq> None"
  proof (cases "fst ?q = CP_INC")
    case True
    then show ?thesis using less.hyps down by blast
  qed (subst ldc_words_loop.simps, simp)
  then show ?case by (subst ldc_words_loop.simps) (simp add: Let_def assms)
qed

lemma stc_ends:
  assumes "\<And>v s. h v s = (fst (cpSTC c ARMul_DATA instr v s), snd (snd (cpSTC c ARMul_DATA instr v s)))"
  shows "stc_words_loop c instr a r v s \<noteq> None"
proof (induction "left s" arbitrary: a r v s rule: less_induct)
  case less
  let ?q = "cpSTC c ARMul_DATA instr v s"
  let ?s1 = "ARMul_StoreWordN (a + 4) (fst (snd ?q)) (snd (snd ?q))"
  have "left ?s1 = left (snd (snd ?q))" by (rule kept) (simp add: core_frame)
  then have down: "fst ?q = CP_INC \<Longrightarrow> left ?s1 < left s" using finite_transfer.less [OF finite_transfer_axioms, of v s] by (simp add: assms)
  have "stc_words_loop c instr (a + 4) (fst ?q) (fst (snd ?q)) ?s1 \<noteq> None"
  proof (cases "fst ?q = CP_INC")
    case True
    then show ?thesis using less.hyps down by blast
  qed (subst stc_words_loop.simps, simp)
  then show ?case by (subst stc_words_loop.simps) (simp add: Let_def)
qed

end

text \<open>Five words are moved when the instruction asks for a long transfer, one otherwise.\<close>

lemma count_down: "w \<noteq> 4 \<Longrightarrow> unat (3 - w) < unat (4 - w)" for w :: u32
proof -
  assume "w \<noteq> 4"
  then have "0 < unat (4 - w)" by (simp add: unat_gt_0)
  moreover have "unat ((4 - w) - 1) = unat (4 - w) - 1"
    using \<open>w \<noteq> 4\<close> by (intro unat_minus_one) simp
  moreover have "4 - w - 1 = 3 - w" by simp
  ultimately show ?thesis by (metis diff_less zero_less_one)
qed

interpretation val_words_in: finite_transfer "ValLDC ARMul_DATA instr" "\<lambda>s. unat (4 - ldc_words (cop s))" for instr
  by unfold_locales
    (auto simp: ValLDC_def set_val_reg_def Let_def count_down dest: core_fields(15) split: if_splits)

interpretation val_words_out: finite_transfer
    "\<lambda>v s. (fst (ValSTC ARMul_DATA instr v s), snd (snd (ValSTC ARMul_DATA instr v s)))"
    "\<lambda>s. unat (4 - stc_words (cop s))" for instr
  by unfold_locales (auto simp: ValSTC_def Let_def count_down dest: core_fields(15) split: if_splits)

interpretation no_words_in: finite_transfer "NoCoPro4R ARMul_DATA instr" "\<lambda>s. 0" for instr
  by unfold_locales (simp_all add: NoCoPro4R_def)

interpretation no_words_out: finite_transfer
    "\<lambda>v s. (fst (NoCoPro4W ARMul_DATA instr v s), snd (snd (NoCoPro4W ARMul_DATA instr v s)))" "\<lambda>s. 0" for instr
  by unfold_locales (simp_all add: NoCoPro4W_def)

subsection \<open>The standard table\<close>

definition no_cop :: "'d coprocessor" where
  "no_cop = \<lparr>cpLDC = NoCoPro4R, cpSTC = NoCoPro4W, cpMRC = NoCoPro4W, cpMCR = NoCoPro4R, cpCDP = NoCoPro3R\<rparr>"

text \<open>What is installed for a processor that is neither an EP9312 nor an XScale.\<close>

definition std_cop :: "nat \<Rightarrow> 'd coprocessor" where
  "std_cop n =
     (if n = 1 then no_cop\<lparr>cpMRC := ValMRC, cpMCR := ValMCR\<rparr>
      else if n = 2 then no_cop\<lparr>cpLDC := ValLDC, cpSTC := ValSTC\<rparr>
      else if n = 4
      then \<lparr>cpLDC = ValLDC, cpSTC = ValSTC, cpMRC = ValMRC, cpMCR = ValMCR, cpCDP = ValCDP\<rparr>
      else if n = 5 then no_cop\<lparr>cpMRC := ValMRC, cpMCR := ValMCR, cpCDP := IntCDP\<rparr>
      else if n = 15 then no_cop\<lparr>cpMRC := MMUMRC, cpMCR := MMUMCR\<rparr>
      else no_cop)"

lemma detach_all: "fold ARMul_CoProDetach ns t n = (if n \<in> set ns then no_cop else t n)"
  by (induction ns arbitrary: t) (auto simp: ARMul_CoProDetach_def no_cop_def)

lemma standard_table:
  assumes "\<not> is_ep9312 s" "\<not> is_XScale s" "n < 16"
  shows "fst (ARMul_CoProInit ep xs xi t s) n = std_cop n"
  using assms
  by (simp add: ARMul_CoProInit_def Let_def ARMul_CoProAttach_def detach_all std_cop_def no_cop_def)

lemma CPNum_less: "CPNum instr < 16"
  using BITS_bound [of 11 8 instr] by (simp add: CPNum_def field_def)

text \<open>With it no instruction waits or transfers for ever.\<close>

named_theorems ends

lemma std_waits [ends]:
  "cp_start (\<lambda>ty x s. no_data (cpCDP (std_cop n) ty instr s)) () s \<noteq> None"
  "cp_start (\<lambda>ty x s. no_data (cpMCR (std_cop n) ty instr (g ty) s)) () s \<noteq> None"
  "cp_start (\<lambda>ty x s. cpMRC (std_cop n) ty instr x s) v s \<noteq> None"
  "cp_start (\<lambda>ty x s. no_data (cpLDC (std_cop n) ty instr 0 s)) () s \<noteq> None"
  "cp_start (\<lambda>ty x s. cpSTC (std_cop n) ty instr x s) v s \<noteq> None"
  by (simp_all del: not_None_eq add: std_cop_def no_cop_def val_cdp.starts int_cdp.starts no_cdp.starts no_in.starts no_out.starts
      mmu_in.starts mmu_out.starts val_stc.starts val_in.starts val_out.starts
      val_ldc.starts [of instr "\<lambda>_. 0"] no_in.starts [of instr "\<lambda>_. 0"])

lemma std_transfers [ends]:
  "ldc_words_loop (std_cop n) instr a r s \<noteq> None"
  "stc_words_loop (std_cop n) instr a r v s \<noteq> None"
proof -
  have "cpLDC (std_cop n) ARMul_DATA instr = ValLDC ARMul_DATA instr
      \<or> cpLDC (std_cop n) ARMul_DATA instr = NoCoPro4R ARMul_DATA instr"
    by (simp add: std_cop_def no_cop_def)
  then show "ldc_words_loop (std_cop n) instr a r s \<noteq> None"
    using val_words_in.ldc_ends no_words_in.ldc_ends by metis
  have "cpSTC (std_cop n) = ValSTC \<or> cpSTC (std_cop n) = NoCoPro4W"
    by (simp add: std_cop_def no_cop_def)
  then show "stc_words_loop (std_cop n) instr a r v s \<noteq> None"
    using val_words_out.stc_ends [of instr "std_cop n"] no_words_out.stc_ends [of instr "std_cop n"] by metis
qed

lemma cp_instructions_end:
  assumes "cps (CPNum instr) = std_cop (CPNum instr)"
  shows "ARMul_LDC al cps instr a s \<noteq> None" "ARMul_STC al cps instr a s \<noteq> None"
    "ARMul_MCR al cps instr v s \<noteq> None" "ARMul_MRC al cps instr s \<noteq> None" "ARMul_CDP al cps instr s \<noteq> None"
  by (simp_all add: ARMul_LDC_def ARMul_STC_def ARMul_MCR_def ARMul_MRC_def ARMul_CDP_def assms Let_def ends
      case_prod_beta del: not_None_eq split: option.split)

lemma emulate_turn_ends:
  assumes "\<And>n. n < 16 \<Longrightarrow> cp_table env n = std_cop n"
  shows "\<exists>r. emulate_turn env p s = Some r"
proof -
  note ins = cp_instructions_end [of "cp_table env", OF assms [OF CPNum_less]]
  have "exec_cp_transfer env k instr s \<noteq> None" "exec_cp_register env k instr s \<noteq> None" for k instr s
    by (simp_all add: exec_cp_transfer_def cp_transfer_def exec_cp_register_def op_MRC_CDP_def op_MCR_CDP_def
        Let_def ins del: not_None_eq)
  then have "mainswitch env pc instr s \<noteq> None" for pc instr s
    by (simp add: mainswitch_def Let_def del: not_None_eq)
  then have "execute env pc instr s \<noteq> None" for pc instr s
    by (simp add: execute_def exec_arm_def exec_NV_def Let_def case_prod_beta
        del: not_None_eq split: tdstate.split)
  then have "emulate_turn env p s \<noteq> None"
    by (simp add: emulate_turn_def case_prod_beta Let_def del: not_None_eq)
  then show ?thesis by blast
qed

text \<open>
  C2. Every turn of the emulator returns: with the coprocessors the initialisation installs for
  a processor other than the EP9312 and the XScale, fetching, interrupts, and any
  instruction word in any state end, the busy-waiting and the transfers of coprocessors
  included.
\<close>

theorem emulate_turn_returns:
  assumes "\<not> is_ep9312 s0" "\<not> is_XScale s0"
    and "cp_table env = fst (ARMul_CoProInit ep xs xi t0 s0)"
  shows "\<exists>r. emulate_turn env p s = Some r"
  by (rule emulate_turn_ends) (simp add: assms(3) standard_table [OF assms(1,2)])

text \<open>A concrete processor with the standard table, for the witnesses.\<close>

definition sample_env :: "unit emu_env" where
  "sample_env =
     \<lparr>cp_allowed = (\<lambda>n s. True),
      cp_table = fst (ARMul_CoProInit id (\<lambda>b. id) id (\<lambda>n. no_cop) sample_arm)\<rparr>"

lemma sample_arm_kind: "\<not> is_ep9312 sample_arm" "\<not> is_XScale sample_arm"
  by (simp_all add: sample_arm_def)

lemma sample_table: "n < 16 \<Longrightarrow> cp_table sample_env n = std_cop n"
  by (simp add: sample_env_def standard_table sample_arm_kind)

theorem emulate_turn_returns_witness:
  "\<exists>r. emulate_turn sample_env \<lparr>decoded = 0xee010f10, loaded = 0, pipe_pc = 0\<rparr> sample_arm = Some r"
  by (rule emulate_turn_returns [OF sample_arm_kind]) (simp add: sample_env_def)

subsection \<open>The waiting instruction\<close>

lemma pending_other:
  "fst (IntPending (s\<lparr>cop := c\<rparr>)) = fst (IntPending s)"
  "fst (IntPending (ARMul_Icycles n s)) = fst (IntPending s)"
  by (simp_all add: IntPending_def ARMul_Icycles_def FFLAG_def IFLAG_def)

lemma icycles_add: "ARMul_Icycles m (ARMul_Icycles n s) = ARMul_Icycles (m + n) s"
  by (simp add: ARMul_Icycles_def add.assoc add.commute)

lemma val_busy_wait:
  assumes "BITS 20 23 instr = 0" "\<not> fst (IntPending s)"
    and "unat (val_finish (cop s)) = unat (ARMul_Time s) + Suc n"
  shows "busy_wait (\<lambda>ty x s. no_data (ValCDP ty instr s)) CP_BUSY () s =
    Some (Some CP_DONE, (), ARMul_Icycles (word_of_nat (Suc n)) s)"
  using assms(2,3)
proof (induction n arbitrary: s)
  case (Suc n)
  let ?s1 = "ARMul_Icycles 1 s"
  have lt: "ARMul_Time s < val_finish (cop s)" using Suc.prems(2) by (simp add: word_less_nat_alt)
  have t: "unat (val_finish (cop ?s1)) = unat (ARMul_Time ?s1) + Suc n"
    using Suc.prems(2) unat_next [OF lt] by (simp add: time_icycle) (simp add: ARMul_Icycles_def)
  have q: "ValCDP ARMul_BUSY instr ?s1 = (CP_BUSY, ?s1)"
    using t by (simp add: ValCDP_def assms(1) word_le_nat_alt)
  have "busy_wait (\<lambda>ty x s. no_data (ValCDP ty instr s)) CP_BUSY () s =
      busy_wait (\<lambda>ty x s. no_data (ValCDP ty instr s)) CP_BUSY () ?s1"
    using Suc.prems(1) by (subst busy_wait.simps) (simp add: pending_other no_interrupt q no_data_def)
  also have "\<dots> = Some (Some CP_DONE, (), ARMul_Icycles (word_of_nat (Suc n)) ?s1)"
    using Suc.prems(1) t by (intro Suc.IH) (simp_all add: pending_other)
  finally show ?case by (simp add: icycles_add add.commute)
next
  case 0
  let ?s1 = "ARMul_Icycles 1 s"
  have lt: "ARMul_Time s < val_finish (cop s)" using 0(2) by (simp add: word_less_nat_alt)
  have "unat (val_finish (cop ?s1)) = unat (ARMul_Time ?s1)"
    using 0(2) unat_next [OF lt] by (simp add: time_icycle) (simp add: ARMul_Icycles_def)
  then have q: "ValCDP ARMul_BUSY instr ?s1 = (CP_DONE, ?s1)"
    by (simp add: ValCDP_def assms(1) word_le_nat_alt)
  have "busy_wait (\<lambda>ty x s. no_data (ValCDP ty instr s)) CP_BUSY () s =
      busy_wait (\<lambda>ty x s. no_data (ValCDP ty instr s)) CP_DONE () ?s1"
    using 0(1) by (subst busy_wait.simps) (simp add: pending_other no_interrupt q no_data_def)
  then show ?case by (subst (asm) (2) busy_wait.simps) simp
qed

text \<open>
  The waiting operation of coprocessor 4 (\<^verbatim>\<open>ValCDP\<close>) takes exactly the number of internal cycles
  that its register holds, when no interrupt is pending and the cycle counter does not
  wrap: the instruction returns, and changes nothing but the cycle count, the note
  of its end, the abort input and the kind of the next bus cycle.
\<close>

theorem val_cdp_waits_exactly:
  assumes "BITS 20 23 instr = 0" "\<not> fst (IntPending s)"
    and "CP_ACCESS_ALLOWED al (CPNum instr) s" "cpCDP (cps (CPNum instr)) = ValCDP"
    and "w = ValReg (cop s) (field 0 3 instr)" "unat (ARMul_Time s) + unat w < 2 ^ 32"
  shows "ARMul_CDP al cps instr s =
    Some (BUSUSEDN (s\<lparr>cop := (cop s)\<lparr>val_finish := ARMul_Time s + w\<rparr>, NumIcycles := NumIcycles s + w,
                     abortSig := abortSig s \<and> w = 0\<rparr>))"
proof -
  let ?h = "\<lambda>ty x s. no_data (ValCDP ty instr s)" and ?s1 = "s\<lparr>cop := (cop s)\<lparr>val_finish := ARMul_Time s + w\<rparr>\<rparr>"
  have start: "cp_start ?h () s = busy_wait ?h (if w = 0 then CP_DONE else CP_BUSY) () ?s1"
    by (simp add: cp_start_def ValCDP_def assms(1,5) no_data_def Let_def)
  have "cp_start ?h () s = Some (Some CP_DONE, (), if w = 0 then ?s1 else ARMul_Icycles w ?s1)"
  proof (cases "w = 0")
    case True
    then show ?thesis unfolding start by (subst busy_wait.simps) simp
  next
    case False
    then obtain n where n: "unat w = Suc n" using not0_implies_Suc unat_eq_zero by blast
    have "unat (ARMul_Time s + w) = unat (ARMul_Time s) + unat w"
      using assms(6) unat_add_lem [of "ARMul_Time s" w] by simp
    moreover have "val_finish (cop ?s1) = ARMul_Time s + w" "ARMul_Time ?s1 = ARMul_Time s"
      by (simp, simp add: ARMul_Time_def)
    ultimately have "unat (val_finish (cop ?s1)) = unat (ARMul_Time ?s1) + Suc n"
      by (simp only: n)
    moreover have "word_of_nat (Suc n) = w" unfolding n [symmetric] by simp
    ultimately show ?thesis
      using val_busy_wait [of instr ?s1 n] False assms(1,2) unfolding start by (simp add: pending_other)
  qed
  then show ?thesis
    by (auto simp: ARMul_CDP_def assms(3,4) Let_def ARMul_Icycles_def)
qed

theorem val_cdp_waits_exactly_witness:
  "map_option NumIcycles (ARMul_CDP (\<lambda>n s. True) (cp_table sample_env) 0xee000403 (set_val_reg 3 5 sample_arm))
    = Some 2005"
proof -
  have c: "CPNum 0xee000403 = 4" "field 0 3 0xee000403 = 3" "BITS 20 23 0xee000403 = 0"
    by (simp_all add: CPNum_def field_def BITS_def)
  have "cpCDP (cp_table sample_env (CPNum 0xee000403)) = ValCDP"
    by (simp add: c sample_table std_cop_def)
  then show ?thesis
    using val_cdp_waits_exactly [of "0xee000403" "set_val_reg 3 5 sample_arm" "\<lambda>n s. True" "cp_table sample_env" 5]
    by (simp add: c set_val_reg_def CP_ACCESS_ALLOWED_def IntPending_def sample_arm_def sample_bus_def FFLAG_def IFLAG_def
        ARMul_Time_def BUSUSEDN_def)
qed

subsection \<open>Register transfers\<close>

text \<open>What the ARM920T keeps of a word written to a register of coprocessor 15.\<close>

definition cp15_kept :: "u32 \<Rightarrow> u32 \<Rightarrow> u32" where
  "cp15_kept c v =
     (if c = 1 then (v OR 0x78) AND 0xFFFFF3FF else if c = 2 then v AND 0xFFFFC000
      else if c = 5 then v AND 0xFF else if c = 13 then v AND 0xFE000000 else v)"

text \<open>
  The registers of the MMU: what an MCR to coprocessor 15 writes to the control register, the
  translation table base, the domains, the fault registers or the process id, an MRC of
  the same register reads back, without the bits the register does not have; both
  instructions return.
\<close>

theorem cp15_read_back:
  assumes "take 5 (cpu_arch_name s) = ''armv4''" "cps 15 = std_cop 15"
    and "CPNum i = 15" "CPNum j = 15" "BITS 5 7 i = 0" "BITS 5 7 j = 0"
    and "BITS 16 19 i = c" "BITS 16 19 j = c" "c \<in> {1, 2, 3, 5, 6, 13}"
  shows "\<exists>t u. ARMul_MCR al cps i v s = Some t \<and> ARMul_MRC al cps j t = Some (cp15_kept c v, u) \<and> mmu u = mmu t"
proof -
  let ?t = "ARMul_Ccycles 1 (BUSUSEDINCPCN (mmu_mcr i v s))"
  have acc: "CP_ACCESS_ALLOWED al 15 x" for x :: "'a arm_state" by (simp add: CP_ACCESS_ALLOWED_def)
  have one: "busy_wait h CP_DONE x s = Some (Some CP_DONE, x, s)"
    for h :: "cp_type \<Rightarrow> 'x \<Rightarrow> 'a arm_state \<Rightarrow> cp_result \<times> 'x \<times> 'a arm_state" and x s
    by (subst busy_wait.simps) simp
  have mcr: "ARMul_MCR al cps i v s = Some ?t"
    by (simp add: ARMul_MCR_def acc assms(2,3) std_cop_def cp_start_def MMUMCR_def no_data_def one)
  have mrc: "ARMul_MRC al cps j ?t =
      Some (mmu_mrc j ?t, ARMul_Icycles 1 (ARMul_Ccycles 1 (BUSUSEDINCPCN ?t)))"
    by (simp add: ARMul_MRC_def acc assms(2,4) std_cop_def cp_start_def MMUMRC_def one)
  have keep: "mmu (ARMul_Ccycles 1 x) = mmu x" "mmu (ARMul_Icycles 1 x) = mmu x" "mmu (BUSUSEDINCPCN x) = mmu x"
    for x :: "'a arm_state"
    by (simp_all add: ARMul_Ccycles_def ARMul_Icycles_def BUSUSEDINCPCN_def BUSUSEDN_def set_reg_def)
  have "mmu_mrc j ?t = cp15_kept c v"
    using assms(9)
    by (auto simp: mmu_mrc_def arm920t_mmu_mrc_def mmu_mcr_def arm920t_mmu_mcr_def keep assms(1,5-8) cp15_kept_def
        bit.conj_disj_distrib2 and.assoc or.assoc)
  then show ?thesis unfolding mcr using mrc keep by simp
qed

theorem cp15_read_back_witness:
  "\<exists>t u. ARMul_MCR (\<lambda>n s. True) (cp_table sample_env) 0xee010f10 0x1 sample_arm = Some t
    \<and> ARMul_MRC (\<lambda>n s. True) (cp_table sample_env) 0xee112f10 t = Some (0x79, u) \<and> mmu u = mmu t"
  using cp15_read_back [of sample_arm "cp_table sample_env" "0xee010f10" "0xee112f10" 1 "\<lambda>n s. True" 1]
  by (simp add: sample_arm_def sample_table CPNum_def field_def BITS_def cp15_kept_def)

text \<open>
  A register read from a coprocessor that is not there: the undefined instruction exception is
  entered, and then the instruction still writes its destination, with the flags and not
  with a word of the coprocessor. When the destination is register 14, the handler's return
  address is lost.
\<close>

theorem mrc_absent_overwrites:
  assumes "wf_arm s" "BIT 4 instr" "DESTReg instr \<noteq> 15"
    and "CP_ACCESS_ALLOWED (cp_allowed env) (CPNum instr) s" "cpMRC (cp_table env (CPNum instr)) = NoCoPro4W"
  shows "op_MRC_CDP env instr s = Some (set_reg (DESTReg instr) (ECC s) (ARMul_Abort UndefinedInstrV s))
    \<and> Mode (ARMul_Abort UndefinedInstrV s) = UNDEF32MODE
    \<and> reg_view (ARMul_Abort UndefinedInstrV s) UNDEFBANK 14 = Reg s 15 - (if TFlag s then 2 else 4)"
proof -
  let ?t = "ARMul_Abort UndefinedInstrV s"
  note s = wf_armD [OF assms(1)]
  have v: "exception32 UndefinedInstrV" by (simp add: exception32_def)
  note en = exception_entry_facts [OF assms(1) v]
  have m: "entry_mode UndefinedInstrV = UNDEF32MODE" "ModeToBank UNDEF32MODE = UNDEFBANK"
    "link_offset UndefinedInstrV b = (if b then 2 else 4)" for b
    by (simp_all add: entry_mode_def ModeToBank_def bankofmode_def mode_numbers link_offset_def vectors)
  have flags: "bit (CPSR ?t) n = bit (CPSR s) n" if "27 \<le> n" "n < 32" for n
  proof -
    have k: "(0x3f :: u32) = mask 6" "entry_mask UndefinedInstrV = 2 ^ 7" "entry_mode UndefinedInstrV = 27"
      by (simp_all add: mask_eq_exp_minus_1 entry_mask_def psr_masks vectors entry_mode_def mode_numbers)
    have h: "\<not> bit (27 :: u32) n"
      using that bit_take_bit_iff [of 5 "27 :: u32" n] by (simp add: take_bit_eq_mask mask_eq_exp_minus_1)
    show ?thesis
      using that h unfolding en(3) k bit_or_iff bit_and_iff bit_not_iff bit_mask_iff bit_exp_iff by simp
  qed
  have "NFlag ?t = NFlag s" "ZFlag ?t = ZFlag s" "CFlag ?t = CFlag s" "VFlag ?t = VFlag s" "SFlag ?t = SFlag s"
    using flags [of 31] flags [of 30] flags [of 29] flags [of 28] flags [of 27] s(1) wf_armD(1) [OF en(1)]
    by (simp_all add: bit_CPSR)
  then have ecc: "ECC ?t = ECC s" by (simp add: ECC_def)
  have "busy_wait h CP_CANT x s = Some (Some CP_CANT, x, s)"
    for h :: "cp_type \<Rightarrow> u32 \<Rightarrow> 'a arm_state \<Rightarrow> cp_result \<times> u32 \<times> 'a arm_state" and x s
    by (subst busy_wait.simps) simp
  then have "op_MRC_CDP env instr s = Some (set_reg (DESTReg instr) (ECC s) ?t)"
    by (simp add: op_MRC_CDP_def ARMul_MRC_def assms cp_start_def NoCoPro4W_def Let_def ecc mrc_result_def set_DEST_def)
  then show ?thesis using en(2) en(8) [of 14 UNDEFBANK] by (simp add: m)
qed

theorem mrc_absent_overwrites_witness:
  "op_MRC_CDP sample_env 0xee10e310 sample_arm =
    Some (set_reg 14 0x20000000 (ARMul_Abort UndefinedInstrV sample_arm))"
proof -
  have c: "CPNum 0xee10e310 = 3" "BIT 4 0xee10e310" "DESTReg 0xee10e310 = 14"
    by (simp_all add: CPNum_def field_def BITS_def BIT_def DESTReg_def)
  have "ECC sample_arm = 0x20000000" by (simp add: ECC_def sample_arm_def)
  then show ?thesis
    using mrc_absent_overwrites [OF sample_arm_wf c(2), of sample_env] c
    by (simp add: sample_table std_cop_def no_cop_def CP_ACCESS_ALLOWED_def sample_arm_kind)
qed

end
