(* ===== verification/Arm_Init.thy ===== *)
theory Arm_Init
  imports Arm_Emu
begin

text \<open>
  Creation, configuration and reset of a processor, and the two ways of running it
  (arch_arm/common/arminit.c): \<^verbatim>\<open>ARMul_NewState\<close>, \<^verbatim>\<open>ARMul_SelectProcessor\<close>, \<^verbatim>\<open>ARMul_Reset\<close>,
  \<^verbatim>\<open>ARMul_DoProg\<close>, \<^verbatim>\<open>ARMul_DoInstr\<close>. The tables of \<^verbatim>\<open>ARMul_EmulateInit\<close> are functions
  (\<open>ARMul_ImmedTable\<close>, \<open>ARMul_BitList\<close>).
\<close>

subsection \<open>Creation\<close>

text \<open>
  The state \<^verbatim>\<open>memset\<close> clears; the bus is not part of it but for the interrupt pins, and what
  malloc returns for \<^verbatim>\<open>state->cpu\<close> is not cleared (\<open>val\<close>, \<open>arch\<close>).
\<close>

definition cleared_tlb :: tlb where
  "cleared_tlb = \<lparr>tlb_num = 0, tlb_cycle = 0, tlb_entrys = []\<rparr>"

definition cleared_cache :: cache where
  "cleared_cache =
     \<lparr>cache_width = 0, cache_way = 0, cache_set_num = 0, cache_w_mode = CACHE_WRITE_BACK, cache_sets = []\<rparr>"

definition cleared_mmu :: mmu_state where
  "cleared_mmu =
     \<lparr>control = 0, translation_table_base = 0, domain_access_control = 0, fault_status = 0,
      fault_address = 0, last_domain = 0, process_id = 0, i_tlb = cleared_tlb, i_cache = cleared_cache,
      d_tlb = cleared_tlb, d_cache = cleared_cache,
      wbuf = \<lparr>wb_num = 0, wb_size = 0, wb_first = 0, wb_last = 0, wb_used = 0, wb_entrys = []\<rparr>\<rparr>"

definition ARMul_NewState ::
  "u32 \<Rightarrow> string \<Rightarrow> bool \<Rightarrow> u32 \<Rightarrow> cop_state \<Rightarrow> u32 \<Rightarrow> 'd bus \<Rightarrow> 'd arm_state" where
  "ARMul_NewState val arch cachetype jk c isz b =
     \<lparr>Emulate = RUN, Reg = (\<lambda>i. 0), RegBank = (\<lambda>j i. 0), Cpsr = 0, Spsr = (\<lambda>i. 0),
      NFlag = False, ZFlag = False, CFlag = False, VFlag = False, IFFlags = 0, SFlag = False, TFlag = False,
      Bank = 0, Mode = 0, isize = isz, NumScycles = 0, NumNcycles = 0, NumIcycles = 0, NumCcycles = 0,
      NumFcycles = 0, NumInstrs = 0, NextInstr = 0, EventSet = 0, Now = 0, EventPtr = (\<lambda>i. []),
      NresetSig = False, abortSig = False, NtransSig = False, bigendSig = False, prog32Sig = True,
      data32Sig = True, lateabtSig = True, Aborted = 0, Base = 0, AbortAddr = 0,
      is_v4 = False, is_v5 = False, is_v5e = False, is_XScale = False, is_iWMMXt = False, is_v6 = False,
      is_ep9312 = False, is_pxa27x = False, Accumulator = 0,
      pipe = \<lparr>decoded = 0, loaded = 0, pipe_pc = 0\<rparr>, cop = c,
      vector_remap_flag = False, vector_remap_addr = 0, cpu_val = val, cpu_arch_name = arch,
      inst_cache = cachetype, junk = jk, mmu = cleared_mmu,
      bus = b\<lparr>io := (io b)\<lparr>NfiqSig := 0, NirqSig := 0\<rparr>\<rparr>\<rparr>"

subsection \<open>Configuration (properties of armdefs.h)\<close>

definition ARM_Fix26_Prop :: u32 where "ARM_Fix26_Prop = 0x01"
definition ARM_v4_Prop :: u32 where "ARM_v4_Prop = 0x40"
definition ARM_v5_Prop :: u32 where "ARM_v5_Prop = 0x80"
definition ARM_v5e_Prop :: u32 where "ARM_v5e_Prop = 0x100"
definition ARM_XScale_Prop :: u32 where "ARM_XScale_Prop = 0x200"
definition ARM_ep9312_Prop :: u32 where "ARM_ep9312_Prop = 0x400"
definition ARM_iWMMXt_Prop :: u32 where "ARM_iWMMXt_Prop = 0x800"
definition ARM_PXA27X_Prop :: u32 where "ARM_PXA27X_Prop = 0x1000"

lemmas processor_props =
  ARM_Fix26_Prop_def ARM_v4_Prop_def ARM_v5_Prop_def ARM_v5e_Prop_def ARM_XScale_Prop_def
  ARM_ep9312_Prop_def ARM_iWMMXt_Prop_def ARM_PXA27X_Prop_def

text \<open>\<open>coproinit\<close> is \<^verbatim>\<open>ARMul_CoProInit\<close> with its arguments for the processors left out.\<close>

definition ARMul_SelectProcessor ::
  "('d arm_state \<Rightarrow> (nat \<Rightarrow> 'd coprocessor) \<times> 'd arm_state) \<Rightarrow> u32 \<Rightarrow> 'd arm_state \<Rightarrow>
   (nat \<Rightarrow> 'd coprocessor) \<times> 'd arm_state" where
  "ARMul_SelectProcessor coproinit properties s =
     (let s1 = (if properties AND ARM_Fix26_Prop \<noteq> 0 then s\<lparr>prog32Sig := False, data32Sig := False\<rparr>
                else s\<lparr>prog32Sig := True, data32Sig := True\<rparr>)
      in coproinit
           (s1\<lparr>is_v4 := (properties AND (ARM_v4_Prop OR ARM_v5_Prop) \<noteq> 0),
               is_v5 := (properties AND ARM_v5_Prop \<noteq> 0),
               is_v5e := (properties AND ARM_v5e_Prop \<noteq> 0),
               is_XScale := (properties AND ARM_XScale_Prop \<noteq> 0),
               is_iWMMXt := (properties AND ARM_iWMMXt_Prop \<noteq> 0),
               is_v6 := False,
               is_ep9312 := (properties AND ARM_ep9312_Prop \<noteq> 0),
               is_pxa27x := (properties AND ARM_PXA27X_Prop \<noteq> 0)\<rparr>))"

subsection \<open>Reset\<close>

text \<open>\<^verbatim>\<open>mmu_reset\<close> (armmmu.c) is \<^verbatim>\<open>mmu_exit\<close>, which frees, and \<^verbatim>\<open>mmu_init\<close>; \<open>reset_mmu\<close> is the latter with its arguments.\<close>

definition ARMul_Reset :: "('d arm_state \<Rightarrow> 'd arm_state) \<Rightarrow> 'd arm_state \<Rightarrow> 'd arm_state" where
  "ARMul_Reset reset_mmu s =
     (let s1 = s\<lparr>NextInstr := 0\<rparr>;
          s2 = (if prog32Sig s1
                then (set_reg 15 0 s1)\<lparr>Cpsr := INTBITS OR SVC32MODE, Mode := SVC32MODE\<rparr>
                else (set_reg 15 (R15INTBITS OR SVC26MODE) s1)\<lparr>Cpsr := INTBITS OR SVC26MODE, Mode := SVC26MODE\<rparr>);
          s3 = FLUSHPIPE ((ARMul_CPSRAltered s2)\<lparr>Bank := SVCBANK\<rparr>)
      in reset_mmu
           (s3\<lparr>NresetSig := True, NtransSig := (Mode s3 AND 3 \<noteq> 0), abortSig := False, AbortAddr := 1,
               NumInstrs := 0, NumNcycles := 0, NumScycles := 0, NumIcycles := 0, NumCcycles := 0, NumFcycles := 0,
               bus := bus s3\<lparr>io := (io (bus s3))\<lparr>NfiqSig := 1, NirqSig := 1\<rparr>\<rparr>\<rparr>))"

subsection \<open>Running\<close>

text \<open>
  The emulator is chosen by the processor's mode; \<open>emulate26\<close> stands for \<^verbatim>\<open>ARMul_Emulate26\<close>
  (armemu.c), with the stop signal of its loop.
\<close>

definition emulate_any ::
  "'d emu_env \<Rightarrow> ((nat \<Rightarrow> bool) \<Rightarrow> 'd arm_state \<Rightarrow> (u32 \<times> 'd arm_state) option) \<Rightarrow> (nat \<Rightarrow> bool) \<Rightarrow>
   'd arm_state \<Rightarrow> (u32 \<times> 'd arm_state) option" where
  "emulate_any env emulate26 stop s =
     (if prog32Sig s \<and> MODE32BIT s then ARMul_Emulate32 env stop s else emulate26 stop s)"

definition ARMul_DoInstr ::
  "'d emu_env \<Rightarrow> ((nat \<Rightarrow> bool) \<Rightarrow> 'd arm_state \<Rightarrow> (u32 \<times> 'd arm_state) option) \<Rightarrow> (nat \<Rightarrow> bool) \<Rightarrow>
   'd arm_state \<Rightarrow> (u32 \<times> 'd arm_state) option" where
  "ARMul_DoInstr env emulate26 stop s = emulate_any env emulate26 stop (s\<lparr>Emulate := ONCE\<rparr>)"

text \<open>\<open>stop i\<close> is the stop signal as the \<open>i\<close>th call of an emulator sees it.\<close>

partial_function (option) do_prog_loop ::
  "'d emu_env \<Rightarrow> ((nat \<Rightarrow> bool) \<Rightarrow> 'd arm_state \<Rightarrow> (u32 \<times> 'd arm_state) option) \<Rightarrow>
   (nat \<Rightarrow> nat \<Rightarrow> bool) \<Rightarrow> nat \<Rightarrow> u32 \<Rightarrow> 'd arm_state \<Rightarrow> (u32 \<times> 'd arm_state) option" where
  "do_prog_loop env emulate26 stop i pc s =
     (if Emulate s = STOP then Some (pc, s)
      else case emulate_any env emulate26 (stop i) (s\<lparr>Emulate := RUN\<rparr>) of
             None \<Rightarrow> None
           | Some r \<Rightarrow> do_prog_loop env emulate26 stop (Suc i) (fst r) (snd r))"

definition ARMul_DoProg ::
  "'d emu_env \<Rightarrow> ((nat \<Rightarrow> bool) \<Rightarrow> 'd arm_state \<Rightarrow> (u32 \<times> 'd arm_state) option) \<Rightarrow>
   (nat \<Rightarrow> nat \<Rightarrow> bool) \<Rightarrow> 'd arm_state \<Rightarrow> (u32 \<times> 'd arm_state) option" where
  "ARMul_DoProg env emulate26 stop s = do_prog_loop env emulate26 stop 0 0 (s\<lparr>Emulate := RUN\<rparr>)"

declare do_prog_loop.simps [code]

subsection \<open>The interface to the front end (arm_arch_interface.c)\<close>

datatype cachetype = NONCACHE | DATACACHE | INSTCACHE

record cpu_config =
  cpu_arch :: string
  cpu_name :: string
  cpu_id :: u32
  cpu_id_mask :: u32
  cpu_cachetype :: cachetype

definition arm_cpus :: "cpu_config list" where
  "arm_cpus =
     [\<lparr>cpu_arch = ''armv3'', cpu_name = ''arm710'', cpu_id = 0x41007100, cpu_id_mask = 0xfff8ff00, cpu_cachetype = DATACACHE\<rparr>,
      \<lparr>cpu_arch = ''armv3'', cpu_name = ''arm7tdmi'', cpu_id = 0x41007700, cpu_id_mask = 0xfff8ff00, cpu_cachetype = NONCACHE\<rparr>,
      \<lparr>cpu_arch = ''armv4'', cpu_name = ''arm720t'', cpu_id = 0x41807200, cpu_id_mask = 0xffffff00, cpu_cachetype = DATACACHE\<rparr>,
      \<lparr>cpu_arch = ''armv4'', cpu_name = ''sa1110'', cpu_id = 0x6901b110, cpu_id_mask = 0xfffffff0, cpu_cachetype = INSTCACHE\<rparr>,
      \<lparr>cpu_arch = ''armv4'', cpu_name = ''sa1100'', cpu_id = 0x4401a100, cpu_id_mask = 0xffffffe0, cpu_cachetype = INSTCACHE\<rparr>,
      \<lparr>cpu_arch = ''armv4'', cpu_name = ''arm920t'', cpu_id = 0x41009200, cpu_id_mask = 0xff00fff0, cpu_cachetype = INSTCACHE\<rparr>,
      \<lparr>cpu_arch = ''armv5'', cpu_name = ''arm926ejs'', cpu_id = 0x41069260, cpu_id_mask = 0xff0ffff0, cpu_cachetype = INSTCACHE\<rparr>,
      \<lparr>cpu_arch = ''xscale'', cpu_name = ''pxa25x'', cpu_id = 0x69052100, cpu_id_mask = 0xfffffff0, cpu_cachetype = INSTCACHE\<rparr>,
      \<lparr>cpu_arch = ''xscale'', cpu_name = ''pxa27x'', cpu_id = 0x69054110, cpu_id_mask = 0xfffffff0, cpu_cachetype = INSTCACHE\<rparr>,
      \<lparr>cpu_arch = ''armv6'', cpu_name = ''arm11'', cpu_id = 0, cpu_id_mask = 0, cpu_cachetype = NONCACHE\<rparr>]"

text \<open>
  \<^verbatim>\<open>arm_parse_cpu\<close>: the processor of that name, compared in the first 32 characters
  (\<^verbatim>\<open>MAX_PARAM_NAME\<close>); \<open>None\<close> is the error return.
\<close>

definition arm_parse_cpu :: "string \<Rightarrow> cpu_config option" where
  "arm_parse_cpu name = find (\<lambda>c. take 32 name = take 32 (cpu_name c)) arm_cpus"

text \<open>\<open>preset\<close> is \<^verbatim>\<open>preset_regfile[1]\<close>, register 1 of the configuration.\<close>

definition arm_reset_state :: "('d arm_state \<Rightarrow> 'd arm_state) \<Rightarrow> u32 \<Rightarrow> 'd arm_state \<Rightarrow> 'd arm_state" where
  "arm_reset_state reset_mmu preset s =
     (let s1 = (ARMul_Reset reset_mmu s)\<lparr>NextInstr := 0, Emulate := RUN\<rparr>;
          s2 = s1\<lparr>bus := io_reset (bus s1)\<rparr>
      in if preset \<noteq> 0 then set_reg 1 preset s2 else s2)"

definition arm_step_once ::
  "'d emu_env \<Rightarrow> ((nat \<Rightarrow> bool) \<Rightarrow> 'd arm_state \<Rightarrow> (u32 \<times> 'd arm_state) option) \<Rightarrow>
   (nat \<Rightarrow> nat \<Rightarrow> bool) \<Rightarrow> 'd arm_state \<Rightarrow> 'd arm_state option" where
  "arm_step_once env emulate26 stop s =
     map_option (\<lambda>(pc, t). FLUSHPIPE (set_reg 15 pc t))
       (ARMul_DoProg env emulate26 stop (s\<lparr>NextInstr := RESUME\<rparr>))"

definition arm_set_pc :: "u32 \<Rightarrow> 'd arm_state \<Rightarrow> 'd arm_state" where
  "arm_set_pc pc s = set_reg 15 pc s"

definition arm_get_pc :: "'d arm_state \<Rightarrow> u32" where
  "arm_get_pc s = Reg s 15"

definition arm_ICE_write_byte :: "u32 \<Rightarrow> u8 \<Rightarrow> 'd arm_state \<Rightarrow> 'd arm_state" where
  "arm_ICE_write_byte addr v s = s\<lparr>bus := bus_write 8 addr (ucast v) (bus s)\<rparr>"

text \<open>
  \<^verbatim>\<open>arm_ICE_read_byte\<close> passes the byte's address as that of a word (\<open>old\<close> is the word there), and
  \<^verbatim>\<open>bus_read\<close> stores a word through it.
\<close>

definition arm_ICE_read_byte :: "u32 \<Rightarrow> u32 \<Rightarrow> 'd arm_state \<Rightarrow> u32 \<times> 'd arm_state" where
  "arm_ICE_read_byte addr old s =
     (case bus_read 8 addr old (bus s) of (v, b) \<Rightarrow> (v, s\<lparr>bus := b\<rparr>))"

end
