(* ===== verification/Arm_Keep.thy ===== *)
theory Arm_Keep
  imports Arm_Copro_Spec
begin

text \<open>
  What instructions keep. The locale \<open>keeps\<close> is the contract of a predicate on states that register
  writes, flags, cycle counts and memory accesses leave alone and that a change of the status
  register preserves; every instruction of the switch then preserves it. Its instances are
  the representation invariant of the status register, the state of the emulation, and the
  instruction count.
\<close>

named_theorems kept

text \<open>
  A user-bank STM is the one instruction whose preservation is asked for separately.
\<close>

definition user_store :: "u32 \<Rightarrow> bool" where
  "user_store i \<longleftrightarrow> field 20 27 i \<in> {0x80 ..< 0xa0} \<and> \<not> k_load (field 20 27 i) \<and> k_byte (field 20 27 i)"

locale keeps_base =
  fixes P :: "'d arm_state \<Rightarrow> bool"
  assumes frame: "core t = core s \<Longrightarrow> P t = P s"
    and regs [kept]: "P (s\<lparr>Reg := f\<rparr>) = P s" "P (s\<lparr>Spsr := f'\<rparr>) = P s" "P (s\<lparr>Cpsr := w\<rparr>) = P s"
    and flags [kept]: "P (s\<lparr>NFlag := b\<rparr>) = P s" "P (s\<lparr>ZFlag := b\<rparr>) = P s" "P (s\<lparr>CFlag := b\<rparr>) = P s"
      "P (s\<lparr>VFlag := b\<rparr>) = P s" "P (s\<lparr>SFlag := b\<rparr>) = P s" "P (s\<lparr>TFlag := b\<rparr>) = P s"
    and counts [kept]: "P (s\<lparr>NextInstr := w\<rparr>) = P s" "P (s\<lparr>NumIcycles := w\<rparr>) = P s" "P (s\<lparr>NumCcycles := w\<rparr>) = P s"
      "P (s\<lparr>Base := w\<rparr>) = P s" "P (s\<lparr>NtransSig := b\<rparr>) = P s" "P (s\<lparr>Accumulator := d\<rparr>) = P s"
      "P (s\<lparr>cop := c\<rparr>) = P s" "P (s\<lparr>EventSet := w\<rparr>) = P s" "P (s\<lparr>Now := w\<rparr>) = P s" "P (s\<lparr>EventPtr := e\<rparr>) = P s"
    and altered [kept]: "P s \<Longrightarrow> P (ARMul_CPSRAltered s)" "P s \<Longrightarrow> P (ARMul_R15Altered s)"
    and stopped [kept]: "P s \<Longrightarrow> P (s\<lparr>Emulate := STOP\<rparr>)"
begin

lemma memory [kept]:
  "P (s\<lparr>mmu := m\<rparr>) = P s" "P (s\<lparr>bus := bs\<rparr>) = P s" "P (s\<lparr>abortSig := b\<rparr>) = P s"
  "P (s\<lparr>Aborted := w\<rparr>) = P s" "P (s\<lparr>AbortAddr := w\<rparr>) = P s" "P (arm_halt h s) = P s"
  "P (snd (ARMul_LoadWordS a s)) = P s" "P (snd (ARMul_LoadWordN a s)) = P s" "P (snd (ARMul_LoadHalfWord a s)) = P s"
  "P (snd (ARMul_LoadByte a s)) = P s" "P (ARMul_StoreWordS a v s) = P s" "P (ARMul_StoreWordN a v s) = P s"
  "P (ARMul_StoreHalfWord a v s) = P s" "P (ARMul_StoreByte a v s) = P s" "P (snd (ARMul_SwapWord a v s)) = P s"
  "P (snd (ARMul_SwapByte a v s)) = P s" "P (mmu_mcr i v s) = P s"
  by (rule frame, simp add: core_frame)+

lemma steps [kept]:
  "P (set_reg r v s) = P s" "P (set_DEST i v s) = P s" "P (set_LSBase i v s) = P s" "P (FLUSHPIPE s) = P s"
  "P (ARMul_Icycles n s) = P s" "P (ARMul_Ccycles n s) = P s" "P (INCPC s) = P s" "P (BUSUSEDN s) = P s"
  "P (BUSUSEDINCPCS s) = P s" "P (BUSUSEDINCPCN s) = P s" "P (ASSIGNC b s) = P s" "P (SETS s) = P s"
  "P (ARMul_NegZero v s) = P s" "P (spurious_abort a s) = P s"
  by (simp_all add: set_reg_def set_DEST_def set_LSBase_def FLUSHPIPE_def ARMul_Icycles_def ARMul_Ccycles_def
      INCPC_def BUSUSEDN_def BUSUSEDINCPCS_def BUSUSEDINCPCN_def ASSIGNC_def SETS_def ARMul_NegZero_def
      spurious_abort_def XScale_set_fsr_far_def kept)

lemma status [kept]:
  "P s \<Longrightarrow> P (ARMul_SetCPSR v s)" "P s \<Longrightarrow> P (ARMul_FixCPSR i v s)" "P s \<Longrightarrow> P (ARMul_FixSPSR i v s)"
  "P s \<Longrightarrow> P (ARMul_SetSPSR m v s)" "P s \<Longrightarrow> P (ARMul_SetR15 v s)"
  by (simp_all add: ARMul_SetCPSR_def ARMul_FixCPSR_def ARMul_FixSPSR_def ARMul_SetSPSR_def ARMul_SetR15_def
      Let_def kept)

lemma aborts [kept]: "P s \<Longrightarrow> P (ARMul_Abort v s)" "P s \<Longrightarrow> P (TAKEABORT s)" "P s \<Longrightarrow> P (ARMul_UndefInstr i s)"
proof -
  have e: "P s \<Longrightarrow> P (SETABORT i m d v s)" for i m d v s
    by (simp add: SETABORT_def Let_def kept)
  have "P s \<Longrightarrow> P (abort_enter v x s)" for v x s
    by (simp add: abort_enter_def Let_def e kept)
  then show "P s \<Longrightarrow> P (ARMul_Abort v s)" for v s
    by (simp add: ARMul_Abort_def Let_def kept)
  then show "P s \<Longrightarrow> P (TAKEABORT s)" "P s \<Longrightarrow> P (ARMul_UndefInstr i s)"
    by (simp_all add: TAKEABORT_def ARMul_UndefInstr_def)
qed

lemma operands [kept]:
  "P (snd (DPRegRHS i s)) = P s" "P (snd (DPSRegRHS i s)) = P s" "P (snd (DPSImmRHS i s)) = P s"
proof -
  have "P (snd (shifts_by_reg op x n s)) = P s" "P (snd (shifts_by_imm op x n s)) = P s" for op x n s
    by (simp_all add: shifts_by_reg_def shifts_by_imm_def Let_def kept)
  then show "P (snd (DPRegRHS i s)) = P s" "P (snd (DPSRegRHS i s)) = P s" "P (snd (DPSImmRHS i s)) = P s"
    by (simp_all add: DPRegRHS_def DPSRegRHS_def DPSImmRHS_def GetDPRegRHS_def GetDPSRegRHS_def Let_def kept)
qed

lemma writes [kept]:
  "P (WriteR15 v s) = P s" "P s \<Longrightarrow> P (WriteSR15 v s)" "P (WriteR15Branch v s) = P s"
  "P (WRITEDEST i v s) = P s" "P s \<Longrightarrow> P (WRITESDEST i v s)" "P (WRITEDESTB i v s) = P s"
  by (simp_all add: WriteR15_def WriteSR15_def WriteR15Branch_def WRITEDEST_def WRITESDEST_def WRITEDESTB_def
      Let_def kept)

subsection \<open>Loads and stores\<close>

lemma transfers [kept]:
  "P s \<Longrightarrow> P (snd (LoadWord i a s))" "P s \<Longrightarrow> P (snd (LoadHalfWord i a b s))" "P s \<Longrightarrow> P (snd (LoadByte i a b s))"
  "P s \<Longrightarrow> P (snd (StoreWord i a s))" "P s \<Longrightarrow> P (snd (StoreHalfWord i a s))" "P s \<Longrightarrow> P (snd (StoreByte i a s))"
  "P (snd r) \<Longrightarrow> P (write_back i v r)"
  by (simp_all add: LoadWord_def LoadHalfWord_def LoadByte_def StoreWord_def StoreHalfWord_def StoreByte_def
      finish_store_def write_back_def case_prod_beta Let_def kept)

lemma halfwords [kept]:
  "P s \<Longrightarrow> P (SHDOWNWB i s)" "P s \<Longrightarrow> P (SHUPWB i s)" "P s \<Longrightarrow> P (SHPREDOWN i s)" "P s \<Longrightarrow> P (SHPREDOWNWB i s)"
  "P s \<Longrightarrow> P (SHPREUP i s)" "P s \<Longrightarrow> P (SHPREUPWB i s)"
  by (simp_all add: SHDOWNWB_def SHUPWB_def SHPREDOWN_def SHPREDOWNWB_def SHPREUP_def SHPREUPWB_def
      case_prod_beta Let_def kept)

lemma signed_loads:
  assumes "P s" "f \<in> {LHPOSTDOWN, LHPOSTUP, LHPREDOWN, LHPREDOWNWB, LHPREUP, LHPREUPWB}" "P r"
  shows "P (or_else (f i s) r)"
  using assms
  by (auto simp: or_else_def LHPOSTDOWN_def LHPOSTUP_def LHPREDOWN_def LHPREDOWNWB_def LHPREUP_def LHPREUPWB_def
      signed_load_def Let_def kept)

lemma doubles [kept]: "P s \<Longrightarrow> P (Handle_Load_Double i s)" "P s \<Longrightarrow> P (Handle_Store_Double i s)"
  by (simp_all add: Handle_Load_Double_def Handle_Store_Double_def Let_def case_prod_beta kept)

lemma loops [kept]: "P (ldm_loop rs a s) = P s" "P (stm_loop rs a s) = P s"
  by (induction rs arbitrary: a s)
    (simp_all add: ldm_put_def stm_check_def case_prod_beta Let_def kept)

lemma blocks [kept]:
  "P (ldm_put r a v s) = P s" "P (stm_all n i a s) = P s" "P s \<Longrightarrow> P (stm_finish i v s)"
  "P s \<Longrightarrow> P (LoadMult i a v s)" "P s \<Longrightarrow> P (StoreMult i a v s)"
proof -
  show 1: "P (ldm_put r a v s) = P s" "P (stm_all n i a s) = P s" "P s \<Longrightarrow> P (stm_finish i v s)" for r a v s n i
    by (simp_all add: ldm_put_def stm_all_def stm_check_def stm_finish_def Let_def kept)
  show "P s \<Longrightarrow> P (LoadMult i a v s)" "P s \<Longrightarrow> P (StoreMult i a v s)"
    by (simp_all add: LoadMult_def StoreMult_def Let_def case_prod_beta 1 kept split: option.split)
qed

subsection \<open>Data processing\<close>

lemma multiplications [kept]:
  "P s \<Longrightarrow> P (snd (Multiply64 i b c s))" "P s \<Longrightarrow> P (snd (MultiplyAdd64 i b c s))"
  "P s \<Longrightarrow> P (op_MUL i s)" "P s \<Longrightarrow> P (op_MULS i s)" "P s \<Longrightarrow> P (op_MLA i s)" "P s \<Longrightarrow> P (op_MLAS i s)"
proof -
  show m: "P s \<Longrightarrow> P (snd (Multiply64 i b c s))" for i b c s
    by (simp add: Multiply64_def long_flags_def Let_def kept)
  show "P s \<Longrightarrow> P (snd (MultiplyAdd64 i b c s))"
    by (simp add: MultiplyAdd64_def long_flags_def Let_def case_prod_beta m kept)
  show "P s \<Longrightarrow> P (op_MUL i s)" "P s \<Longrightarrow> P (op_MULS i s)" "P s \<Longrightarrow> P (op_MLA i s)" "P s \<Longrightarrow> P (op_MLAS i s)"
    by (simp_all add: op_MUL_def op_MULS_def op_MLA_def op_MLAS_def mult_cycles_def Let_def kept)
qed

lemma saturations [kept]:
  "P s \<Longrightarrow> P (op_SMLAxy i s)" "P s \<Longrightarrow> P (op_SMULxy i s)" "P s \<Longrightarrow> P (op_SMLALxy i s)" "P s \<Longrightarrow> P (op_SMLAWy i s)"
  "P s \<Longrightarrow> P (op_QADD i s)" "P s \<Longrightarrow> P (op_QSUB i s)" "P s \<Longrightarrow> P (op_QDADD i s)" "P s \<Longrightarrow> P (op_QDSUB i s)"
  "P s \<Longrightarrow> P (op_CLZ i s)"
  by (simp_all add: op_SMLAxy_def op_SMULxy_def op_SMLALxy_def op_SMLAWy_def op_QADD_def op_QSUB_def op_QDADD_def
      op_QDSUB_def op_CLZ_def sat_add_def sat_sub_def Let_def case_prod_beta kept)

lemma flag_results [kept]:
  "P (sub_flags a b v s) = P s" "P (add_flags a b v s) = P s" "P (cmp_flags a b s) = P s" "P (cmn_flags a b s) = P s"
proof -
  show 1: "P (sub_flags a b v s) = P s" "P (add_flags a b v s) = P s" for v s
    by (simp_all add: sub_flags_def add_flags_def ARMul_SubOverflow_def ARMul_SubCarry_def ARMul_AddOverflow_def
        ARMul_AddCarry_def Let_def kept)
  show "P (cmp_flags a b s) = P s" "P (cmn_flags a b s) = P s"
    by (simp_all add: cmp_flags_def cmn_flags_def Let_def 1 kept)
qed

lemma operations [kept]:
  "P s \<Longrightarrow> P (reg_op f i s)" "P s \<Longrightarrow> P (reg_op_s g i s)" "P s \<Longrightarrow> P (imm_op f i s)" "P s \<Longrightarrow> P (imm_op_s g i s)"
  "P s \<Longrightarrow> P (sub_s i a b v s)" "P s \<Longrightarrow> P (add_s i a b v s)" "P s \<Longrightarrow> P (restore_psr s)"
  "P s \<Longrightarrow> P (test_op g i s)" "P s \<Longrightarrow> P (imm_test g i s)"
  "(\<And>l r t. P t \<Longrightarrow> P (h l r t)) \<Longrightarrow> P s \<Longrightarrow> P (reg_arith h i s)"
  by (simp_all add: reg_op_def reg_op_s_def imm_op_def imm_op_s_def sub_s_def add_s_def restore_psr_def
      test_op_def imm_test_def reg_arith_def Let_def case_prod_beta kept)

lemma moves [kept]:
  "P s \<Longrightarrow> P (op_SWP i s)" "P s \<Longrightarrow> P (op_SWPB i s)" "P s \<Longrightarrow> P (op_MRS_CPSR i s)" "P s \<Longrightarrow> P (op_MSR_CPSR i s)"
  "P s \<Longrightarrow> P (op_BLX2 pc i s)" "P s \<Longrightarrow> P (op_BKPT s)"
  by (simp_all add: op_SWP_def op_SWPB_def op_MRS_CPSR_def op_MSR_CPSR_def op_BLX2_def op_BKPT_def
      OSHandleSWI_Breakpoint_def Let_def case_prod_beta kept)

text \<open>The wrappers of the switch.\<close>

lemma wrapped:
  "(P s \<Longrightarrow> P (st i s)) \<Longrightarrow> (P s \<Longrightarrow> P (r s)) \<Longrightarrow> P s \<Longrightarrow> P (with_strh_reg st i r s)"
  "(P s \<Longrightarrow> P (st i s)) \<Longrightarrow> (P s \<Longrightarrow> P (r s)) \<Longrightarrow> P s \<Longrightarrow> P (with_strh_imm st i r s)"
  "(P s \<Longrightarrow> P (r s)) \<Longrightarrow> P s \<Longrightarrow> P (with_double i r s)"
  "(P s \<Longrightarrow> P (m s)) \<Longrightarrow> (P s \<Longrightarrow> P (r s)) \<Longrightarrow> P s \<Longrightarrow> P (with_mul m i r s)"
  "(P s \<Longrightarrow> P (snd (q i b c s))) \<Longrightarrow> P s \<Longrightarrow> P (long_mul q b c i s)"
  "f \<in> {LHPOSTDOWN, LHPOSTUP, LHPREDOWN, LHPREDOWNWB, LHPREUP, LHPREUPWB} \<Longrightarrow> (P s \<Longrightarrow> P (r s)) \<Longrightarrow> P s \<Longrightarrow>
    P (with_ldrh_reg f i r s)"
  "f \<in> {LHPOSTDOWN, LHPOSTUP, LHPREDOWN, LHPREDOWNWB, LHPREUP, LHPREUPWB} \<Longrightarrow> (P s \<Longrightarrow> P (r s)) \<Longrightarrow> P s \<Longrightarrow>
    P (with_ldrh_imm f i r s)"
  by (simp_all add: with_strh_reg_def with_strh_imm_def with_double_def with_mul_def long_mul_def with_ldrh_reg_def
      with_ldrh_imm_def case_prod_beta signed_loads kept)

lemma dp_low:
  "P s \<Longrightarrow> P (dp_00 i s)" "P s \<Longrightarrow> P (dp_01 i s)" "P s \<Longrightarrow> P (dp_02 i s)" "P s \<Longrightarrow> P (dp_03 i s)" "P s \<Longrightarrow> P (dp_04 i s)"
  "P s \<Longrightarrow> P (dp_05 i s)" "P s \<Longrightarrow> P (dp_06 i s)" "P s \<Longrightarrow> P (dp_07 i s)" "P s \<Longrightarrow> P (dp_08 i s)" "P s \<Longrightarrow> P (dp_09 i s)"
  "P s \<Longrightarrow> P (dp_0a i s)" "P s \<Longrightarrow> P (dp_0b i s)" "P s \<Longrightarrow> P (dp_0c i s)" "P s \<Longrightarrow> P (dp_0d i s)" "P s \<Longrightarrow> P (dp_0e i s)"
  "P s \<Longrightarrow> P (dp_0f i s)"
  by (simp_all add: dp_00_def dp_01_def dp_02_def dp_03_def dp_04_def dp_05_def dp_06_def dp_07_def dp_08_def dp_09_def
      dp_0a_def dp_0b_def dp_0c_def dp_0d_def dp_0e_def dp_0f_def wrapped kept)

lemma dp_status:
  "P s \<Longrightarrow> P (dp_10 i s)" "P s \<Longrightarrow> P (dp_11 i s)" "P s \<Longrightarrow> P (dp_12 pc i s)" "P s \<Longrightarrow> P (dp_13 i s)" "P s \<Longrightarrow> P (dp_14 i s)"
  "P s \<Longrightarrow> P (dp_15 i s)" "P s \<Longrightarrow> P (dp_16 i s)" "P s \<Longrightarrow> P (dp_17 i s)"
  by (simp_all add: dp_10_def dp_11_def dp_12_def dp_13_def dp_14_def dp_15_def dp_16_def dp_17_def case_prod_beta
      wrapped kept)

lemma dp_high:
  "P s \<Longrightarrow> P (dp_18 i s)" "P s \<Longrightarrow> P (dp_19 i s)" "P s \<Longrightarrow> P (dp_1a i s)" "P s \<Longrightarrow> P (dp_1b i s)" "P s \<Longrightarrow> P (dp_1c i s)"
  "P s \<Longrightarrow> P (dp_1d i s)" "P s \<Longrightarrow> P (dp_1e i s)" "P s \<Longrightarrow> P (dp_1f i s)"
  by (simp_all add: dp_18_def dp_19_def dp_1a_def dp_1b_def dp_1c_def dp_1d_def dp_1e_def dp_1f_def wrapped kept)

lemma data_processing [kept]: "P s \<Longrightarrow> P (exec_dp pc i s)"
proof -
  assume s: "P s"
  have "\<forall>f \<in> set (dp_reg_cases pc i). P (f s)"
    using s by (simp add: dp_reg_cases_def dp_low dp_status dp_high)
  moreover have "length (dp_reg_cases pc i) = 32" by (simp add: dp_reg_cases_def)
  ultimately have "k < 0x20 \<Longrightarrow> P ((dp_reg_cases pc i ! k) s)" for k by (metis nth_mem)
  moreover have "P (dp_imm_arith k i s)" "P (dp_imm_test k i s)" "P (dp_imm_logic k i s)" for k
    using s by (simp_all add: dp_imm_arith_def dp_imm_test_def dp_imm_logic_def Let_def kept)
  ultimately show "P (exec_dp pc i s)" by (simp add: exec_dp_def Let_def)
qed

subsection \<open>Transfers and branches\<close>

lemma single_transfers [kept]:
  "P s \<Longrightarrow> P (ls_post_imm k i s)" "P s \<Longrightarrow> P (ls_pre_imm k i s)" "P s \<Longrightarrow> P (ls_post_reg k i s)"
  "P s \<Longrightarrow> P (ls_pre_reg k i s)"
proof -
  have t: "P s \<Longrightarrow> P (snd (transfer k i a s))" "P (as_user k s) = P s" "P (end_user k s) = P s" for k i a s
    by (simp_all add: transfer_def as_user_def end_user_def kept)
  show "P s \<Longrightarrow> P (ls_post_imm k i s)" "P s \<Longrightarrow> P (ls_pre_imm k i s)" "P s \<Longrightarrow> P (ls_post_reg k i s)"
    "P s \<Longrightarrow> P (ls_pre_reg k i s)"
    by (simp_all add: ls_post_imm_def ls_pre_imm_def ls_post_reg_def ls_pre_reg_def OSHandleSWI_Breakpoint_def
        Let_def t kept)
qed

lemma branch [kept]: "P s \<Longrightarrow> P (op_branch k pc i s)" "P s \<Longrightarrow> P (op_BLX1 pc i s)"
  by (simp_all add: op_branch_def op_BLX1_def Let_def kept)

text \<open>
  The two block transfers of the user bank, for the predicate \<open>P\<close> while the bank is switched and
  \<open>Q\<close> when it is switched back.
\<close>

lemma user_load_parts [kept]:
  "P s \<Longrightarrow> P (ldm_s_read t i a s)" "P s \<Longrightarrow> P (ldm_s_base i v s)" "P s \<Longrightarrow> P (ldm_s_pc i s)"
  by (simp_all add: ldm_s_read_def ldm_s_first_def ldm_s_base_def ldm_s_pc_def case_prod_beta Let_def kept)

lemma user_load_pc: "BIT 15 i \<Longrightarrow> P s \<Longrightarrow> P (LoadSMult i a v s)"
  by (simp add: LoadSMult_def Let_def kept split: option.split)

lemma user_load_low:
  assumes "\<not> BIT 15 i" "P (to_user_bank (BUSUSEDINCPCS s))" "Q s" "\<And>u. P u \<Longrightarrow> Q (to_own_bank u)"
    and "\<And>n u. Q (ARMul_Icycles n u) = Q u" "\<And>h u. Q (arm_halt h u) = Q u"
  shows "Q (LoadSMult i a v s)"
  using assms by (simp add: LoadSMult_def Let_def kept split: option.split)

lemma user_store_all:
  assumes "P s" "\<And>u. P u \<Longrightarrow> P (to_user_bank u)" "\<And>u. P u \<Longrightarrow> P (to_own_bank u)"
  shows "P (StoreSMult i a v s)"
  using assms by (simp add: StoreSMult_def Let_def kept split: option.split)

end

locale keeps = keeps_base P for P :: "'d arm_state \<Rightarrow> bool" +
  assumes user_load [kept]: "P s \<Longrightarrow> P (LoadSMult i a v s)"
begin

lemma transfers_and_dp:
  assumes "P s" "user_store i \<Longrightarrow> P (block_op (field 20 27 i) i s)"
  shows "P (exec_xfer pc i s)"
proof -
  have "P (block_op (field 20 27 i) i s)" if "0x80 \<le> field 20 27 i" "field 20 27 i < 0xa0"
  proof (cases "user_store i")
    case False
    then have "k_load (field 20 27 i) \<or> \<not> k_byte (field 20 27 i)" using that by (simp add: user_store_def)
    then show ?thesis using assms(1) by (auto simp: block_op_def block_transfer_def Let_def kept)
  qed (use assms(2) in blast)
  then show ?thesis using assms(1) by (simp add: exec_xfer_def Let_def kept)
qed

subsection \<open>Coprocessors\<close>

lemma interrupts [kept]:
  "P s \<Longrightarrow> P (snd (IntPending s))" "P (ARMul_ScheduleEvent d f s) = P s"
  by (simp_all add: IntPending_def ARMul_ScheduleEvent_def Let_def kept)

lemma int_cdp_kept: "P s \<Longrightarrow> P (snd (IntCDP ty i s))"
proof -
  assume s: "P s"
  define n where "n = field 20 23 i"
  note e = IntCDP_def [of ty i s, unfolded Let_def n_def [symmetric]]
  consider "n = 0" | "n = 1" | "n = 2" | "n = 3" | "n = 4" | "n = 5" | "5 < n" by linarith
  then show ?thesis
    using s unfolding e by cases (simp_all add: set_val_reg_def kept)
qed

lemma handlers [kept]:
  "P s \<Longrightarrow> P (snd (cpLDC (std_cop n) ty i v s))" "P s \<Longrightarrow> P (snd (snd (cpSTC (std_cop n) ty i v s)))"
  "P s \<Longrightarrow> P (snd (snd (cpMRC (std_cop n) ty i v s)))" "P s \<Longrightarrow> P (snd (cpMCR (std_cop n) ty i v s))"
  "P s \<Longrightarrow> P (snd (cpCDP (std_cop n) ty i s))"
  by (simp_all add: std_cop_def no_cop_def NoCoPro3R_def NoCoPro4R_def NoCoPro4W_def MMUMRC_def MMUMCR_def
      ValLDC_def ValSTC_def ValMRC_def ValMCR_def ValCDP_def set_val_reg_def int_cdp_kept Let_def kept)

lemma waiting:
  assumes "busy_wait h r x s = Some y" "\<And>ty x s. P s \<Longrightarrow> P (snd (snd (h ty x s)))" "P s"
  shows "P (snd (snd y))"
proof -
  let ?Q = "\<lambda>h r x s y. (\<forall>ty x s. P s \<longrightarrow> P (snd (snd (h ty x s)))) \<longrightarrow> P s \<longrightarrow> P (snd (snd y))"
  have "?Q h r x s y"
  proof (rule busy_wait.raw_induct [where P = ?Q and xa = "(((h, r), x), s)", simplified prod.case])
    fix bw h r x s y
    assume ih: "\<And>r x s b y. bw r x s b = Some y \<Longrightarrow> ?Q r x s b y"
      and y: "(if r \<noteq> CP_BUSY then Some (Some r, x, s)
        else let p = IntPending (ARMul_Icycles 1 s)
             in if fst p then Some (None, x, snd (snd (h ARMul_INTERRUPT x (snd p))))
                else let q = h ARMul_BUSY x (snd p) in bw h (fst q) (fst (snd q)) (snd (snd q))) = Some y"
    show "?Q h r x s y"
    proof (intro impI)
      assume h: "\<forall>ty x s. P s \<longrightarrow> P (snd (snd (h ty x s)))" and s: "P s"
      let ?p = "IntPending (ARMul_Icycles 1 s)"
      have p: "P (snd ?p)" using s by (simp add: kept)
      show "P (snd (snd y))"
      proof (cases "r = CP_BUSY \<and> \<not> fst ?p")
        case True
        let ?q = "h ARMul_BUSY x (snd ?p)"
        have "bw h (fst ?q) (fst (snd ?q)) (snd (snd ?q)) = Some y"
          using y True by (simp add: Let_def)
        then show ?thesis using ih h p by blast
      next
        case False
        then show ?thesis using y h p s by (auto simp: Let_def split: if_splits)
      qed
    qed
  qed (use assms(1) in simp)
  then show ?thesis using assms(2,3) by blast
qed

lemma starting:
  assumes "cp_start h x s = Some y" "\<And>ty x s. P s \<Longrightarrow> P (snd (snd (h ty x s)))" "P s"
  shows "P (snd (snd y))"
  using waiting [OF assms(1) [unfolded cp_start_def case_prod_beta]] assms(2,3) by blast

lemma ldc_loop_kept:
  assumes "ldc_words_loop (std_cop n) i a r s = Some t" "P s"
  shows "P t"
proof -
  let ?Q = "\<lambda>(c :: 'd coprocessor) (i :: u32) (a :: u32) (r :: cp_result) s t. c = std_cop n \<longrightarrow> P s \<longrightarrow> P t"
  have "?Q (std_cop n) i a r s t"
  proof (rule ldc_words_loop.raw_induct [where P = ?Q and c = "std_cop n" and instr = i and address = a and r = r and s = s])
    fix loop i a r t and s :: "'d arm_state" and c :: "'d coprocessor"
    let ?p = "ARMul_LoadWordN (a + 4) s"
    let ?q = "cpLDC c ARMul_DATA i (fst ?p) (snd ?p)"
    assume ih: "\<And>c i a r s t. loop c i a r s = Some t \<Longrightarrow> ?Q c i a r s t"
      and t: "(if r \<noteq> CP_INC then Some s
        else let p = ARMul_LoadWordN (a + 4) s
             in if cp_aborted (snd p) then Some (snd p)
                else let q = cpLDC c ARMul_DATA i (fst p) (snd p) in loop c i (a + 4) (fst q) (snd q)) = Some t"
    then have "loop c i (a + 4) (fst ?q) (snd ?q) = Some t \<or> t = s \<or> t = snd ?p"
      by (auto simp: Let_def split: if_splits)
    then show "?Q c i a r s t" using ih by (elim disjE) (auto simp: kept)
  qed (use assms(1) in simp)
  then show ?thesis using assms(2) by blast
qed

lemma stc_loop_kept:
  assumes "stc_words_loop (std_cop n) i a r v s = Some t" "P s"
  shows "P t"
proof -
  let ?Q = "\<lambda>(c :: 'd coprocessor) (i :: u32) (a :: u32) (r :: cp_result) (v :: u32) s t. c = std_cop n \<longrightarrow> P s \<longrightarrow> P t"
  have "?Q (std_cop n) i a r v s t"
  proof (rule stc_words_loop.raw_induct [where P = ?Q and c = "std_cop n" and instr = i and address = a and r = r and v = v and s = s])
    fix loop i a r v t and s :: "'d arm_state" and c :: "'d coprocessor"
    let ?q = "cpSTC c ARMul_DATA i v s"
    let ?s1 = "ARMul_StoreWordN (a + 4) (fst (snd ?q)) (snd (snd ?q))"
    assume ih: "\<And>c i a r v s t. loop c i a r v s = Some t \<Longrightarrow> ?Q c i a r v s t"
      and t: "(if r \<noteq> CP_INC then Some s
        else let q = cpSTC c ARMul_DATA i v s;
                 s1 = ARMul_StoreWordN (a + 4) (fst (snd q)) (snd (snd q))
             in if cp_aborted s1 then Some s1
                else loop c i (a + 4) (fst q) (fst (snd q)) s1) = Some t"
    then have "loop c i (a + 4) (fst ?q) (fst (snd ?q)) ?s1 = Some t \<or> t = s \<or> t = ?s1"
      by (auto simp: Let_def split: if_splits)
    then show "?Q c i a r v s t" using ih by (elim disjE) (auto simp: kept)
  qed (use assms(1) in simp)
  then show ?thesis using assms(2) by blast
qed

lemma transfer_ends_kept [kept]: "P s \<Longrightarrow> P (cp_transfer_end i s)" "P s \<Longrightarrow> P (INTERNALABORT a s)" "P s \<Longrightarrow> P (CPTAKEABORT s)"
  by (simp_all add: cp_transfer_end_def INTERNALABORT_def CPTAKEABORT_def TAKEABORT26_def Let_def kept)

lemma cp_instructions:
  assumes "cps (CPNum i) = std_cop (CPNum i)" "P s"
  shows "ARMul_LDC al cps i a s = Some t \<Longrightarrow> P t" "ARMul_STC al cps i a s = Some t \<Longrightarrow> P t"
    "ARMul_MCR al cps i v s = Some t \<Longrightarrow> P t" "ARMul_MRC al cps i s = Some r \<Longrightarrow> P (snd r)"
    "ARMul_CDP al cps i s = Some t \<Longrightarrow> P t"
proof -
  let ?c = "std_cop (CPNum i)"
  show "P t" if e: "ARMul_CDP al cps i s = Some t"
  proof (cases "CP_ACCESS_ALLOWED al (CPNum i) s")
    case True
    note d = ARMul_CDP_def [of al cps i s, unfolded Let_def assms(1)]
    obtain r' u s2 where q: "cp_start (\<lambda>ty x s. no_data (cpCDP ?c ty i s)) () s = Some (r', u, s2)"
      using e True unfolding d by (cases "cp_start (\<lambda>ty x s. no_data (cpCDP ?c ty i s)) () s") auto
    have s2: "P s2" using starting [OF q _ assms(2)] by (simp add: no_data_def kept)
    show ?thesis
      using e True s2 unfolding d q by (cases r') (auto simp: kept split: if_splits)
  qed (use e assms(2) in \<open>auto simp: ARMul_CDP_def kept\<close>)
  show "P t" if e: "ARMul_MCR al cps i v s = Some t"
  proof (cases "CP_ACCESS_ALLOWED al (CPNum i) s")
    case True
    note d = ARMul_MCR_def [of al cps i v s, unfolded Let_def assms(1)]
    obtain r' u s2 where q: "cp_start (\<lambda>ty x s. no_data (cpMCR ?c ty i (if ty = ARMul_INTERRUPT then 0 else v) s)) () s = Some (r', u, s2)"
      using e True unfolding d by (cases "cp_start (\<lambda>ty x s. no_data (cpMCR ?c ty i (if ty = ARMul_INTERRUPT then 0 else v) s)) () s") auto
    have s2: "P s2" using starting [OF q _ assms(2)] by (simp add: no_data_def kept)
    show ?thesis
      using e True s2 unfolding d q by (cases r') (auto simp: kept split: if_splits)
  qed (use e assms(2) in \<open>auto simp: ARMul_MCR_def kept\<close>)
  show "P (snd r)" if e: "ARMul_MRC al cps i s = Some r"
  proof (cases "CP_ACCESS_ALLOWED al (CPNum i) s")
    case True
    note d = ARMul_MRC_def [of al cps i s, unfolded Let_def assms(1)]
    obtain r' u s2 where q: "cp_start (\<lambda>ty x s. cpMRC ?c ty i x s) 0 s = Some (r', u, s2)"
      using e True unfolding d by (cases "cp_start (\<lambda>ty x s. cpMRC ?c ty i x s) 0 s") auto
    have s2: "P s2" using starting [OF q _ assms(2)] by (simp add: no_data_def kept)
    show ?thesis
      using e True s2 unfolding d q by (cases r') (auto simp: kept split: if_splits)
  qed (use e assms(2) in \<open>auto simp: ARMul_MRC_def kept\<close>)
  show "P t" if e: "ARMul_LDC al cps i a s = Some t"
  proof (cases "CP_ACCESS_ALLOWED al (CPNum i) s")
    case True
    define s1 where "s1 = (if ADDREXCEPT a s then INTERNALABORT a s else s)"
    have s1: "P s1" using assms(2) by (simp add: s1_def kept)
    note d = ARMul_LDC_def [of al cps i a s, unfolded Let_def s1_def [symmetric] assms(1)]
    obtain r u s2 where q: "cp_start (\<lambda>ty x s. no_data (cpLDC ?c ty i 0 s)) () s1 = Some (r, u, s2)"
      using e True unfolding d by (cases "cp_start (\<lambda>ty x s. no_data (cpLDC ?c ty i 0 s)) () s1") auto
    have s2: "P s2" using starting [OF q _ s1] by (simp add: no_data_def kept)
    show ?thesis
      using e True s2 unfolding d q by (cases r) (auto simp: kept split: if_splits dest!: ldc_loop_kept)
  qed (use e assms(2) in \<open>auto simp: ARMul_LDC_def kept\<close>)
  show "P t" if e: "ARMul_STC al cps i a s = Some t"
  proof (cases "CP_ACCESS_ALLOWED al (CPNum i) s")
    case True
    define ex where "ex = (\<lambda>s :: 'd arm_state. ADDREXCEPT a s \<or> VECTORACCESS a s)"
    define s1 where "s1 = (if ex s then INTERNALABORT a s else s)"
    have s1: "P s1" using assms(2) by (simp add: s1_def kept)
    note d = ARMul_STC_def [of al cps i a s, unfolded Let_def ex_def [symmetric] s1_def [symmetric] assms(1)]
    obtain r v s2 where q: "cp_start (\<lambda>ty x s. cpSTC ?c ty i x s) (junk s) s1 = Some (r, v, s2)"
      using e True unfolding d by (cases "cp_start (\<lambda>ty x s. cpSTC ?c ty i x s) (junk s) s1") auto
    have s2: "P s2" using starting [OF q _ s1] by (simp add: kept)
    show ?thesis
      using e True s2 unfolding d q by (cases r) (auto simp: kept split: if_splits dest!: stc_loop_kept)
  qed (use e assms(2) in \<open>auto simp: ARMul_STC_def kept\<close>)
qed

subsection \<open>The switch and the loop\<close>

lemma consecutive [kept]: "P s \<Longrightarrow> P (xscale_ldrd i s)" "P s \<Longrightarrow> P (xscale_strd i s)" "P s \<Longrightarrow> P (op_SWI pc i s)"
  by (simp_all add: xscale_ldrd_def xscale_strd_def op_SWI_def XScale_set_fsr_far_def Let_def kept)

lemma cp_cases:
  assumes "cp_table env (CPNum i) = std_cop (CPNum i)" "P s"
  shows "exec_cp_transfer env k i s = Some t \<Longrightarrow> P t" "exec_cp_register env k i s = Some t \<Longrightarrow> P t"
proof -
  note ins = cp_instructions [of "cp_table env", OF assms(1)]
  have m: "P (op_MAR env i s)" "P (op_MRA env i s)" "op_MIA i s = Some t \<Longrightarrow> P t"
    using assms(2) by (auto simp: op_MAR_def op_MRA_def op_MIA_def Let_def kept split: if_splits)
  have cp: "P t" if "cp_transfer env k i s = Some t"
  proof -
    define s1 where "s1 = (if k_wb k then s\<lparr>Base := offset_by k (LHS i s) (LSCOff i)\<rparr> else s)"
    have s1: "P s1" using assms(2) by (simp add: s1_def kept)
    show ?thesis
      using that unfolding cp_transfer_def Let_def s1_def [symmetric]
      by (cases "k_load k") (simp_all add: ins(1) [OF s1] ins(2) [OF s1])
  qed
  show "exec_cp_transfer env k i s = Some t \<Longrightarrow> P t"
    using m(1,2) cp by (auto simp: exec_cp_transfer_def split: if_splits)
  have r: "P (mrc_result i v u) = P u" for v u
    by (simp add: mrc_result_def kept)
  have "P t" if e: "op_MRC_CDP env i s = Some t"
  proof (cases "BIT 4 i")
    case True
    then obtain v u where "ARMul_MRC (cp_allowed env) (cp_table env) i s = Some (v, u)" "t = mrc_result i v u"
      using e by (auto simp: op_MRC_CDP_def)
    then show ?thesis using ins(4) [OF assms(2)] r by fastforce
  qed (use e ins(5) [OF assms(2)] in \<open>simp add: op_MRC_CDP_def\<close>)
  moreover have "P t" if "op_MCR_CDP env i s = Some t"
    using that ins(3) [OF assms(2)] ins(5) [OF assms(2)] by (simp add: op_MCR_CDP_def split: if_splits)
  ultimately show "exec_cp_register env k i s = Some t \<Longrightarrow> P t"
    using assms(2) m(3) by (auto simp: exec_cp_register_def kept split: if_splits)
qed

lemma switch:
  assumes "cp_table env (CPNum i) = std_cop (CPNum i)" "P s" "user_store i \<Longrightarrow> P (block_op (field 20 27 i) i s)"
  shows "mainswitch env pc i s = Some t \<Longrightarrow> P t"
  using assms(2) cp_cases [OF assms(1,2)] transfers_and_dp [OF assms(2,3)]
  by (auto simp: mainswitch_def Let_def kept split: if_splits)

lemma instruction:
  assumes "cp_table env (CPNum i) = std_cop (CPNum i)" "P s" "user_store i \<Longrightarrow> P (block_op (field 20 27 i) i s)"
    and "exec_arm env pc i s = Some t"
  shows "P t"
  using assms(2,4) switch [OF assms(1-3)]
  by (auto simp: exec_arm_def exec_NV_def Let_def kept split: if_splits)

lemma thumb [kept]: "P (snd (snd (ARMul_ThumbDecode pc i s))) = P s"
proof -
  have "P (t_jump v s) = P s" "P (t_format16 pc t s) = P s" "P (t_format18 pc t s) = P s"
      "P (t_BL_second pc t s) = P s" "P (t_BL_first pc t n s) = P s" for pc t n v s
    by (simp_all add: t_jump_def t_format16_def t_format18_def t_BL_second_def t_BL_first_def Let_def kept)
  then show ?thesis
    by (simp add: ARMul_ThumbDecode_def thumb_switch_def Let_def case_prod_beta)
qed

lemma events [kept]: "P (ARMul_EnvokeEvent s) = P s"
proof -
  have c: "P (call_event f s) = P s" for f s by (cases f) (simp_all add: kept)
  have "P (fold (\<lambda>f s. (call_event f s)\<lparr>EventSet := EventSet s - 1\<rparr>) fs s) = P s" for fs s
    by (induction fs arbitrary: s) (simp_all add: c kept)
  then have e: "P (envoke_slot i s) = P s" for i s by (simp add: envoke_slot_def Let_def kept)
  then have "P (fold envoke_slot is s) = P s" for "is" s by (induction "is" arbitrary: s) simp_all
  then show ?thesis
    by (simp add: ARMul_EnvokeEvent_def EnvokeList_def Let_def kept del: upt_Suc)
qed

lemma fetched: "P (snd (snd (fetch p s))) = P s"
proof -
  have l: "P (snd (ARMul_LoadInstrS a n s)) = P s" "P (snd (ARMul_LoadInstrN a n s)) = P s"
    "P (snd (ARMul_ReLoadInstr a n s)) = P s" for a n s
    by (rule frame, simp add: core_frame)+
  have "P (snd (snd (advance ARMul_LoadInstrS b p s))) = P s" "P (snd (snd (advance ARMul_LoadInstrN b p s))) = P s"
    "P (snd (snd (refill ARMul_ReLoadInstr ARMul_ReLoadInstr s))) = P s"
    "P (snd (snd (refill ARMul_LoadInstrN ARMul_LoadInstrS s))) = P s" for b
    by (simp_all add: advance_def refill_def NORMALCYCLE_def Let_def case_prod_beta l kept)
  then show ?thesis by (simp add: fetch_def case_prod_beta NORMALCYCLE_def kept)
qed

end

text \<open>
  A predicate that the user-bank STM preserves too, and the bookkeeping of the loop, is preserved
  by every turn of the loop.
\<close>

locale keeps_all = keeps P for P :: "'d arm_state \<Rightarrow> bool" +
  assumes user_store: "P s \<Longrightarrow> P (StoreSMult i a v s)"
begin

lemma executes:
  assumes "\<And>n. n < 16 \<Longrightarrow> cp_table env n = std_cop n" "P s" "execute env pc i s = Some t"
  shows "P t"
proof -
  have b: "user_store i \<Longrightarrow> P s \<Longrightarrow> P (block_op (field 20 27 i) i s)" for i s
    by (simp add: block_op_def block_transfer_def Let_def user_store_def user_store)
  have ins: "P u \<Longrightarrow> exec_arm env pc j u = Some t \<Longrightarrow> P t" for j u
    using instruction [OF assms(1) [OF CPNum_less]] b by blast
  define d where "d = ARMul_ThumbDecode pc i s"
  have d: "P (snd (snd d))" using assms(2) by (simp add: d_def kept)
  note e = assms(3) [unfolded execute_def d_def [symmetric] case_prod_beta]
  show ?thesis
  proof (cases "TFlag s")
    case True
    then show ?thesis using e d ins [OF d] by (cases "fst d") (auto simp: kept)
  next
    case False
    then show ?thesis using e ins [OF assms(2)] by simp
  qed
qed

end

text \<open>The same for a predicate that the bookkeeping of the loop keeps.\<close>

locale keeps_turn = keeps_all P for P :: "'d arm_state \<Rightarrow> bool" +
  assumes books: "P (s\<lparr>isize := w\<rparr>) = P s" "P (s\<lparr>NumInstrs := n\<rparr>) = P s"
begin

lemma turn:
  assumes "\<And>n. n < 16 \<Longrightarrow> cp_table env n = std_cop n" "P s" "emulate_turn env p s = Some r"
  shows "P (snd (snd r))"
proof -
  define f where "f = fetch p (s\<lparr>isize := INSN_SIZE s\<rparr>)"
  define s2 where "s2 = (if EventSet (snd (snd f)) \<noteq> 0 then ARMul_EnvokeEvent (snd (snd f)) else snd (snd f))"
  have s2: "P s2" using assms(2) by (simp add: s2_def f_def fetched books kept)
  note e = assms(3) [unfolded emulate_turn_def Let_def f_def [symmetric] case_prod_beta s2_def [symmetric]]
  show ?thesis
  proof (cases "fst (IntPending s2) \<or> \<not> running (Emulate s2)")
    case True
    then show ?thesis using e s2 by (auto simp: kept split: if_splits)
  next
    case False
    then obtain t where t: "execute env (pipe_pc (fst (snd f))) (fst f)
        (s2\<lparr>bus := io_do_cycle (bus s2), NumInstrs := NumInstrs s2 + 1\<rparr>) = Some t"
      "snd (snd r) = snd (test_emulate t)"
      using e by auto
    have "P t" using executes [OF assms(1) _ t(1)] s2 by (simp add: books kept)
    then show ?thesis using t(2) by (simp add: test_emulate_def kept)
  qed
qed

end

end
