(* ===== verification/Arm_Thumb_Spec.thy ===== *)
theory Arm_Thumb_Spec
  imports Arm_Thumb Arm_Supp_Spec
begin

text \<open>
  The Thumb decoder against the architecture: the conditions, the branches with their signed
  offsets, the two halves of BL, and what every translation has in common.
\<close>

subsection \<open>Conditions\<close>

text \<open>
  The architecture's condition check: three bits choose a test, the last one inverts it.
\<close>

definition cond_spec :: "nat \<Rightarrow> 'd arm_state \<Rightarrow> bool" where
  "cond_spec c s =
     (let t = [ZFlag s, CFlag s, NFlag s, VFlag s, CFlag s \<and> \<not> ZFlag s, NFlag s = VFlag s,
               NFlag s = VFlag s \<and> \<not> ZFlag s] ! (c div 2)
      in if odd c then \<not> t else t)"

lemma below_14: "c < (14 :: nat) \<Longrightarrow> c \<in> {0, 1, 2, 3, 4, 5, 6, 7, 8, 9, 10, 11, 12, 13}"
  by (simp only: insert_iff empty_iff) presburger

lemma cond_taken_spec: "c < 14 \<Longrightarrow> cond_taken c s \<longleftrightarrow> cond_spec c s"
  by (drule below_14, elim insertE emptyE; simp add: cond_taken_def cond_spec_def Let_def condition_codes; blast?)

lemma cond_taken_other: "14 \<le> c \<Longrightarrow> \<not> cond_taken c s"
  by (simp add: cond_taken_def Let_def condition_codes)

subsection \<open>Offsets\<close>

text \<open>The signed number in the low \<open>n + 1\<close> bits.\<close>

definition signed_field :: "nat \<Rightarrow> u32 \<Rightarrow> u32" where
  "signed_field n t = signed_take_bit n t"

lemma branch_offset:
  fixes t :: u32
  assumes "n < 30"
  shows "push_bit 1 (t AND mask n) OR (if bit t n then NOT (mask (Suc n)) else 0) = push_bit 1 (signed_take_bit n t)"
    (is "?l = ?r")
proof (rule bit_word_eqI)
  fix k assume "k < LENGTH(32)"
  then have k: "k < 32" by simp
  show "bit ?l k \<longleftrightarrow> bit ?r k"
    using assms k
    unfolding bit_or_iff bit_push_bit_iff bit_and_iff bit_mask_iff bit_signed_take_bit_iff if_distrib [of "\<lambda>x. bit x k"]
      bit_not_iff bit_0_eq
    by (cases "k = 0"; cases "k - 1 \<le> n"; cases "k - 1 = n") (auto simp: min_def)
qed

lemma t_offset_short: "t_branch_offset 7 0x7F 0xFFFFFF00 t = push_bit 1 (signed_take_bit 7 t)"
proof -
  have "(0x7F :: u32) = mask 7" "(0xFFFFFF00 :: u32) = NOT (mask (Suc 7))" by (simp_all add: mask_eq_exp_minus_1)
  then show ?thesis unfolding t_branch_offset_def by (simp only: branch_offset)
qed

lemma t_offset_long: "t_branch_offset 10 0x3FF 0xFFFFF800 t = push_bit 1 (signed_take_bit 10 t)"
proof -
  have "(0x3FF :: u32) = mask 10" "(0xFFFFF800 :: u32) = NOT (mask (Suc 10))" by (simp_all add: mask_eq_exp_minus_1)
  then show ?thesis unfolding t_branch_offset_def by (simp only: branch_offset)
qed

lemma bl_offset: "push_bit 12 (t AND 0x07FF) OR (if bit t 10 then 0xFF800000 else 0) = push_bit 12 (signed_take_bit 10 t)"
  (is "?l = ?r") for t :: u32
proof (rule bit_word_eqI)
  fix k assume "k < LENGTH(32)"
  then have k: "k < 32" by simp
  have m: "(0x07FF :: u32) = mask 11" "(0xFF800000 :: u32) = NOT (mask 23)" by (simp_all add: mask_eq_exp_minus_1)
  show "bit ?l k \<longleftrightarrow> bit ?r k"
    unfolding m using k
    by (cases "k < 12"; cases "k - 12 \<le> 10"; cases "k = 22")
      (auto simp: bit_or_iff bit_push_bit_iff bit_and_iff bit_mask_iff bit_not_iff bit_signed_take_bit_iff min_def)
qed

subsection \<open>What every translation has in common\<close>

text \<open>The condition field of the ARM instruction is AL.\<close>

definition always :: "u32 \<Rightarrow> bool" where
  "always a \<longleftrightarrow> drop_bit 28 a = 14"

lemma always_four:
  "i < 4 \<Longrightarrow> always a \<Longrightarrow> always b \<Longrightarrow> always c \<Longrightarrow> always d \<Longrightarrow> always ([a, b, c, d] ! i)"
proof -
  assume "i < 4" "always a" "always b" "always c" "always d"
  moreover from \<open>i < 4\<close> have "i = 0 \<or> i = 1 \<or> i = 2 \<or> i = 3" by presburger
  ultimately show ?thesis by auto
qed

lemma always_or: "always a \<Longrightarrow> drop_bit 28 b = 0 \<Longrightarrow> always (a OR b)"
  by (simp add: always_def drop_bit_or)

lemma small_field: "drop_bit 28 (push_bit k (t AND m)) = 0" if "take_bit (28 - k) m = m" "k \<le> 28" for t m :: u32
proof (rule bit_word_eqI)
  fix n assume "n < LENGTH(32)"
  have "\<not> bit m j" if "28 - k \<le> j" for j
    using that \<open>take_bit (28 - k) m = m\<close> bit_take_bit_iff [of "28 - k" m j] by simp
  then show "bit (drop_bit 28 (push_bit k (t AND m))) n \<longleftrightarrow> bit (0 :: u32) n"
    using \<open>k \<le> 28\<close> by (auto simp: bit_drop_bit_eq bit_push_bit_iff bit_and_iff)
qed

lemma small_field': "drop_bit 28 (drop_bit k (t AND m)) = 0" "drop_bit 28 (t AND m) = 0"
  if "take_bit 28 m = m" for t m :: u32
proof -
  have m: "drop_bit 28 m = 0"
  proof (rule bit_word_eqI)
    fix n show "bit (drop_bit 28 m) n \<longleftrightarrow> bit (0 :: u32) n"
      using that bit_take_bit_iff [of 28 m "28 + n"] by (auto simp: bit_drop_bit_eq)
  qed
  then show "drop_bit 28 (t AND m) = 0" by (simp add: drop_bit_and)
  then have "drop_bit k (drop_bit 28 (t AND m)) = 0" by simp
  then show "drop_bit 28 (drop_bit k (t AND m)) = 0" by (simp add: drop_bit_drop_bit add.commute)
qed

lemmas fields28 = small_field small_field' always_or

lemma index4: "unat (drop_bit k (t AND m)) < 4" if "drop_bit k m \<le> 3" for t m :: u32
proof -
  have "drop_bit k (t AND m) \<le> drop_bit k m" by (simp add: drop_bit_and word_and_le1 word_and_le2)
  then have "drop_bit k (t AND m) \<le> 3" using that by (rule order_trans)
  then show ?thesis by (simp add: word_le_nat_alt)
qed

lemma always_base:
  "always 0xE1B00000" "always 0xE0900000" "always 0xE0500000" "always 0xE2900000" "always 0xE2500000"
  "always 0xE3B00000" "always 0xE3500000" "always 0xE59F0000" "always 0xE7800000" "always 0xE7C00000"
  "always 0xE7900000" "always 0xE7D00000" "always 0xE18000B0" "always 0xE19000D0" "always 0xE19000B0"
  "always 0xE19000F0" "always 0xE5800000" "always 0xE5900000" "always 0xE5C00000" "always 0xE5D00000"
  "always 0xE1D000B0" "always 0xE1C000B0" "always 0xE59D0000" "always 0xE58D0000" "always 0xE28F0F00"
  "always 0xE28D0F00" "always 0xE24DDF00" "always 0xE28DDF00" "always 0xEF000000" "always 0xE92D0000"
  "always 0xE92D4000" "always 0xE8BD0000" "always 0xE8BD8000" "always 0xE8B00000" "always 0xE8A00000"
  "always 0xE0100000" "always 0xE0300000" "always 0xE1B00010" "always 0xE1B00030" "always 0xE1B00050"
  "always 0xE0B00000" "always 0xE0D00000" "always 0xE1B00070" "always 0xE1100000" "always 0xE2700000"
  "always 0xE1500000" "always 0xE1700000" "always 0xE1900000" "always 0xE0100090" "always 0xE1D00000"
  "always 0xE1F00000" "always 0xE0800000" "always 0xE1A00000" "always 0xE12FFF10" "always 0xE1200030"
  "always 0xefffdfff" "always 0xefffffff"
  by (simp_all add: always_def)

lemma format1_always: "always (t_format1 t)" unfolding t_format1_def by (intro fields28 always_base; simp)
lemma format2_always: "always (t_format2 t)"
  unfolding t_format2_def by (intro fields28 always_four index4 always_base; simp)
lemma format3_always: "always (t_format3 t)"
  unfolding t_format3_def by (intro fields28 always_four index4 always_base; simp)
lemma format6_always: "always (t_format6 t)" unfolding t_format6_def by (intro fields28 always_base; simp)
lemma format7_8_always: "always (t_format7 t)" "always (t_format8 t)"
  unfolding t_format7_def t_format8_def t_format7_8_def
  by (intro fields28 always_four index4 always_base; simp)+

lemma always_if: "always a \<Longrightarrow> always b \<Longrightarrow> always (if c then a else b)"
  by simp

lemma format9_always: "always (t_format9 t)"
  unfolding t_format9_def by (intro fields28 always_four index4 always_base; simp)
lemma format10_always: "always (t_format10 t)"
  unfolding t_format10_def by (intro fields28 always_if always_base; simp)
lemma format11_always: "always (t_format11 t)"
  unfolding t_format11_def by (intro fields28 always_if always_base; simp)
lemma format12_always: "always (t_format12 t)"
  unfolding t_format12_def by (intro fields28 always_if always_base; simp)
lemma format15_always: "always (t_format15 t)"
  unfolding t_format15_def by (intro fields28 always_if always_base; simp)
lemma format17_always: "always (t_format17 pc t s)"
  unfolding t_format17_def ARMul_ABORTWORD_def SWI_Breakpoint_def
  by (intro fields28 always_if always_base; simp)

lemma low_word: "x \<le> 2 \<Longrightarrow> x = 0 \<or> x = 1 \<or> x = 2" for x :: u32
proof -
  assume "x \<le> 2"
  then have "unat x = 0 \<or> unat x = 1 \<or> unat x = 2" by (simp add: word_le_nat_alt) arith
  then show ?thesis by (simp add: word_unat_eq_iff)
qed

lemma push_pop_index: "unat (drop_bit 10 (t AND 0x0800) OR drop_bit 8 (t AND 0x0100)) < 4" for t :: u32
proof -
  have "drop_bit 10 (t AND 0x0800) \<le> 2" by (simp add: drop_bit_and word_and_le1 word_and_le2)
  moreover have "drop_bit 8 (t AND 0x0100) \<le> 1" by (simp add: drop_bit_and word_and_le1 word_and_le2)
  then have "drop_bit 8 (t AND 0x0100) \<le> 2" by (rule order_trans) simp
  ultimately have "drop_bit 10 (t AND 0x0800) = 0 \<or> drop_bit 10 (t AND 0x0800) = 1 \<or> drop_bit 10 (t AND 0x0800) = 2"
    "drop_bit 8 (t AND 0x0100) = 0 \<or> drop_bit 8 (t AND 0x0100) = 1 \<or> drop_bit 8 (t AND 0x0100) = 2"
    using low_word by blast+
  then show ?thesis by (elim disjE) (simp_all del: drop_bit_and)
qed

lemma format13_14_always: "always (t_format13_14 t)"
  unfolding t_format13_14_def SWI_Breakpoint_def
  by (intro fields28 always_if always_four push_pop_index always_base; simp)

lemma format4_always: "always (t_format4 t)"
proof -
  have i: "unat (drop_bit 6 (t AND 0x03C0)) < 16"
  proof -
    have "drop_bit 6 (t AND 0x03C0) \<le> drop_bit 6 0x03C0" by (simp add: drop_bit_and word_and_le1 word_and_le2)
    then show ?thesis by (simp add: word_le_nat_alt)
  qed
  have all: "\<forall>p \<in> set t_format4_subset. always (fst p)"
    by (simp add: t_format4_subset_def always_base)
  obtain opcode ty where p: "t_format4_subset ! unat (drop_bit 6 (t AND 0x03C0)) = (opcode, ty)" by force
  have "t_format4_subset ! unat (drop_bit 6 (t AND 0x03C0)) \<in> set t_format4_subset"
    using i by (intro nth_mem) (simp add: t_format4_subset_def)
  then have a: "always opcode" using all p by force
  show ?thesis
    unfolding t_format4_def p
    by (cases ty; simp only: prod.case otype.case; intro fields28 a; simp)
qed

lemma high_register:
  fixes t :: u32
  assumes "k \<le> 16"
  shows "drop_bit 28 (push_bit k ((t AND 7) + (if b then 8 else 0))) = 0"
    "drop_bit 28 ((t AND 7) + (if b then 8 else 0)) = 0"
proof -
  have "(t AND 7) + (if b then 8 else 0) = (t AND 7) OR (if b then 8 else 0)"
  proof (rule disjunctive_add)
    fix n
    have m: "(7 :: u32) = mask 3" "(8 :: u32) = 2 ^ 3" by (simp_all add: mask_eq_exp_minus_1)
    show "\<not> bit (t AND 7) n \<or> \<not> bit (if b then 8 else 0 :: u32) n"
      unfolding m if_distrib [of "\<lambda>x. bit x n"] bit_and_iff bit_mask_iff bit_exp_iff by auto
  qed
  then have e: "(t AND 7) + (if b then 8 else 0) = (t AND 7) OR ((if b then 8 else 0) AND 8)" by simp
  have "take_bit (28 - k) 7 = (7 :: u32)" "take_bit (28 - k) 8 = (8 :: u32)"
  proof -
    have m: "(7 :: u32) = mask 3" "(8 :: u32) = 2 ^ 3" by (simp_all add: mask_eq_exp_minus_1)
    show "take_bit (28 - k) 7 = (7 :: u32)" "take_bit (28 - k) 8 = (8 :: u32)"
      unfolding m using assms
      by (rule_tac [!] bit_word_eqI, unfold bit_take_bit_iff bit_mask_iff bit_exp_iff) auto
  qed
  then have "drop_bit 28 (push_bit k (t AND 7)) = 0" "drop_bit 28 (push_bit k ((if b then 8 else 0 :: u32) AND 8)) = 0"
    "drop_bit 28 (t AND 7) = 0" "drop_bit 28 ((if b then 8 else 0 :: u32) AND 8) = 0"
    using assms by (intro small_field small_field'; simp)+
  then show "drop_bit 28 (push_bit k ((t AND 7) + (if b then 8 else 0))) = 0"
    "drop_bit 28 ((t AND 7) + (if b then 8 else 0)) = 0"
    unfolding e push_bit_or drop_bit_or by simp_all
qed

lemma format5_fields:
  fixes op :: nat
  assumes "drop_bit 28 (push_bit 16 Rd) = 0" "drop_bit 28 (push_bit 12 Rd) = 0" "drop_bit 28 Rs = 0"
    and "(if op \<in> {1, 2, 3} then (t_decoded, 0xE0800000 OR push_bit 16 Rd OR push_bit 12 Rd OR Rs)
         else if op \<in> {5, 6, 7} then (t_decoded, 0xE1500000 OR push_bit 16 Rd OR push_bit 12 Rd OR Rs)
         else if op \<in> {9, 10, 11} then (t_decoded, 0xE1A00000 OR push_bit 16 Rd OR push_bit 12 Rd OR Rs)
         else if op \<in> {12, 13} then (t_decoded, 0xE12FFF10 OR drop_bit 3 (t AND 0x0078))
         else if op \<in> {14, 15} \<and> v5 then (t_decoded, 0xE1200030 OR Rs)
         else (t_undefined, 0xDEADC0DE)) = (t_decoded, a)"
  shows "always a"
  using assms(4)
  by (auto split: if_splits intro!: always_or always_base small_field' simp: drop_bit_or assms(1-3))

lemma format5_always:
  assumes "t_format5 v t = (t_decoded, a)"
  shows "always a"
proof -
  have e: "drop_bit 3 (t AND 0x0038) = drop_bit 3 t AND 7" by (simp add: drop_bit_and)
  show ?thesis
    using assms unfolding t_format5_def Let_def e
    by (rule format5_fields [rotated 3]) (rule high_register(1), simp, rule high_register(1), simp, rule high_register(2) [of 0], simp)
qed

lemma thumb_switch_decoded:
  assumes "thumb_switch pc t n s = (t_decoded, a, u)"
  shows "always a \<and> u = s"
  using assms unfolding thumb_switch_def Let_def
  by (simp split: if_splits prod.splits)
    (auto simp: format1_always format2_always format3_always format4_always format6_always format7_8_always
        format9_always format10_always format11_always format12_always format13_14_always format15_always
        format17_always format5_always)

text \<open>
  A Thumb instruction that is translated leaves the state alone, and its ARM instruction is
  unconditional, whatever the flags are.
\<close>

theorem thumb_decode_unconditional:
  assumes "fst (ARMul_ThumbDecode pc tinstr s) = t_decoded"
  shows "drop_bit 28 (fst (snd (ARMul_ThumbDecode pc tinstr s))) = 14
    \<and> snd (snd (ARMul_ThumbDecode pc tinstr s)) = s"
proof -
  obtain a u where d: "ARMul_ThumbDecode pc tinstr s = (t_decoded, a, u)"
    using assms by (metis prod.collapse)
  then have "always a \<and> u = s"
    unfolding ARMul_ThumbDecode_def by (auto split: if_splits dest: thumb_switch_decoded)
  then show ?thesis using d by (simp add: always_def)
qed

theorem thumb_decode_unconditional_witness:
  "drop_bit 28 (fst (snd (ARMul_ThumbDecode 0x8000 0x46c01840 sample_arm))) = 14"
proof -
  have "fst (ARMul_ThumbDecode 0x8000 0x46c01840 sample_arm) = t_decoded"
    by (simp add: ARMul_ThumbDecode_def thumb_switch_def sample_arm_def)
  then show ?thesis using thumb_decode_unconditional by blast
qed

definition bl_pair :: "u32 \<Rightarrow> bool" where
  "bl_pair w \<longleftrightarrow> drop_bit 11 (w AND 0xF800) = 30 \<and> drop_bit 11 (drop_bit 16 w AND 0xF800) = 31"

text \<open>
  C36. The two halves of a Thumb BL, fetched together, jump to the program counter the first half
  sees plus the 22-bit signed offset of the pair, with the return address and the Thumb bit
  in register 14; no other register changes and the pipeline is refilled.
\<close>

theorem thumb_bl_target:
  fixes pc :: u32
  assumes "bl_pair w" "\<not> bigendSig s"
  defines "t \<equiv> snd (snd (ARMul_ThumbDecode pc w s))"
  shows "fst (ARMul_ThumbDecode pc w s) = t_branch
    \<and> Reg t 15 = Reg s 15 + push_bit 12 (signed_take_bit 10 w) + push_bit 1 (take_bit 11 (drop_bit 16 w))
    \<and> Reg t 14 = (pc + 4) OR 1
    \<and> (\<forall>i < 14. Reg t i = Reg s i) \<and> PRIMEPIPE AND NextInstr t \<noteq> 0"
proof -
  let ?hi = "w AND 0xFFFF" and ?lo = "drop_bit 16 w"
  have k: "unat (drop_bit 11 (?hi AND 0xF800)) = 30" "drop_bit 11 (?lo AND 0xF800) = 31"
    using assms(1) by (simp_all add: bl_pair_def and.assoc)
  have dec: "ARMul_ThumbDecode pc w s = (t_branch, 0xDEADC0DE, t_BL_first pc ?hi ?lo s)"
    unfolding ARMul_ThumbDecode_def thumb_switch_def Let_def using assms(2) k(1) by simp
  have low: "(0x07FF :: u32) = mask 11" "(0xFFFF :: u32) = mask 16" by (simp_all add: mask_eq_exp_minus_1)
  have "signed_take_bit 10 ?hi = signed_take_bit 10 w"
    by (rule bit_word_eqI, unfold low bit_signed_take_bit_iff bit_and_iff bit_mask_iff) (auto simp: min_def)
  then have first: "push_bit 12 (?hi AND 0x07FF) OR (if bit ?hi 10 then 0xFF800000 else 0) = push_bit 12 (signed_take_bit 10 w)"
    using bl_offset [of ?hi] by simp
  have second: "?lo AND 0x07FF = take_bit 11 ?lo" by (simp add: low take_bit_eq_mask)
  have prime: "PRIMEPIPE AND (n OR PRIMEPIPE) \<noteq> 0" for n
    by (simp add: PRIMEPIPE_def bit.conj_disj_distrib)
  show ?thesis
    unfolding t_def dec t_BL_first_def t_BL_second_def Let_def first second snd_conv fst_conv
    using k(2) prime
    by (simp add: FLUSHPIPE_def set_reg_def algebra_simps)
qed

theorem thumb_bl_target_witness:
  "Reg (snd (snd (ARMul_ThumbDecode 0x8000 0xf802f7ff (sample_arm\<lparr>Reg := (\<lambda>i. 0x8004)\<rparr>)))) 15 = 0x7008"
proof -
  let ?s = "sample_arm\<lparr>Reg := (\<lambda>i. 0x8004)\<rparr>"
  have h: "bl_pair 0xf802f7ff" "\<not> bigendSig ?s" by (simp_all add: bl_pair_def sample_arm_def)
  have o: "signed_take_bit 10 (0xf802f7ff :: u32) = - 1" "take_bit 11 (drop_bit 16 (0xf802f7ff :: u32)) = 2"
    by (simp_all add: signed_take_bit_eq_if_negative)
  show ?thesis
    using thumb_bl_target [OF h, of "0x8000"] o by (simp add: mask_eq_exp_minus_1)
qed

text \<open>
  The condition test shared by Thumb branches and ARM instructions is the architecture's,
  and a Thumb branch goes to the program counter plus 4 plus its signed offset in halfwords
  when the condition holds and does nothing otherwise.
\<close>

theorem thumb_branch_target:
  "t_format18 pc t s = FLUSHPIPE (set_reg 15 (pc + 4 + push_bit 1 (signed_take_bit 10 t)) s)
   \<and> (let c = unat (take_bit 4 (drop_bit 8 t)) in
      t_format16 pc t s =
        (if c < 14 \<and> cond_spec c s
         then FLUSHPIPE (set_reg 15 (pc + 4 + push_bit 1 (signed_take_bit 7 t)) s) else s))"
proof -
  have m: "(0x0F00 :: u32) = push_bit 8 (mask 4)" by (simp add: mask_eq_exp_minus_1)
  have c: "drop_bit 8 (t AND 0x0F00) = take_bit 4 (drop_bit 8 t)"
    unfolding m by (rule bit_word_eqI) (auto simp: bit_simps)
  show ?thesis
    unfolding t_format18_def t_format16_def t_offset_long t_offset_short t_jump_def c Let_def
    by (cases "unat (take_bit 4 (drop_bit 8 t)) < 14") (simp_all add: cond_taken_spec cond_taken_other)
qed

end
