(* ===== verification/Arm_Invariant.thy ===== *)
theory Arm_Invariant
  imports Arm_Keep Arm_Init Arm_Thumb_Spec
begin

text \<open>
  Invariants of execution: the instances of \<open>keeps\<close> and what follows for the instruction switch, for
  single steps (\<^verbatim>\<open>ARMul_DoInstr\<close>) and for reset.
\<close>

subsection \<open>Mode switches\<close>

lemma two_bits: "v = x AND 3 \<Longrightarrow> take_bit 2 v = v" for x v :: u32
  by (simp add: take_bit_eq_mask mask_eq_exp_minus_1 and.assoc)

lemma altered_fields:
  fixes s :: "'d arm_state"
  defines "m \<equiv> (if prog32Sig s then Cpsr s else Cpsr s AND (CCBITS OR INTBITS OR R15MODEBITS)) AND MODEBITS"
  shows "Mode (ARMul_CPSRAltered s) = m" "Bank (ARMul_CPSRAltered s) = (if m = Mode s then Bank s else ModeToBank m)"
    "take_bit 2 (IFFlags (ARMul_CPSRAltered s)) = IFFlags (ARMul_CPSRAltered s)"
    "NumInstrs (ARMul_CPSRAltered s) = NumInstrs s"
    "Emulate (ARMul_CPSRAltered s) = Emulate s \<or> Emulate (ARMul_CPSRAltered s) = CHANGEMODE"
proof -
  define s1 where "s1 = (if \<not> prog32Sig s then s\<lparr>Cpsr := Cpsr s AND (CCBITS OR INTBITS OR R15MODEBITS)\<rparr> else s)"
  define s2 where "s2 = (if Mode s1 \<noteq> Cpsr s1 AND MODEBITS
    then (ARMul_SwitchMode (Mode s1) (Cpsr s1 AND MODEBITS) s1)
      \<lparr>Mode := Cpsr s1 AND MODEBITS, NtransSig := ((Cpsr s1 AND MODEBITS) AND 3 \<noteq> 0)\<rparr> else s1)"
  define s3 where "s3 = s2\<lparr>IFFlags := drop_bit 6 (Cpsr s2 AND INTBITS) AND 3,
                  NFlag := (Cpsr s2 AND NBIT \<noteq> 0), ZFlag := (Cpsr s2 AND ZBIT \<noteq> 0),
                  CFlag := (Cpsr s2 AND CBIT \<noteq> 0), VFlag := (Cpsr s2 AND VBIT \<noteq> 0),
                  SFlag := (Cpsr s2 AND SBIT \<noteq> 0), TFlag := (Cpsr s2 AND TBIT \<noteq> 0)\<rparr>"
  have e: "ARMul_CPSRAltered s = s3 \<or> (\<exists>f. ARMul_CPSRAltered s = s3\<lparr>Reg := f\<rparr>)
      \<or> (\<exists>f. ARMul_CPSRAltered s = s3\<lparr>Emulate := CHANGEMODE, Reg := f\<rparr>)"
    unfolding ARMul_CPSRAltered_def Let_def s1_def [symmetric] s2_def [symmetric] s3_def [symmetric] set_reg_def
    by (simp split: if_split) blast
  have 1: "Mode s1 = Mode s" "Bank s1 = Bank s" "Emulate s1 = Emulate s" "NumInstrs s1 = NumInstrs s" "Cpsr s1 AND MODEBITS = m"
    by (simp_all add: s1_def m_def)
  have 2: "Mode s2 = m" "Bank s2 = (if m = Mode s then Bank s else ModeToBank m)" "Emulate s2 = Emulate s"
    "NumInstrs s2 = NumInstrs s"
    by (auto simp: s2_def 1 switch_mode_fields)
  have 3: "take_bit 2 (IFFlags s3) = IFFlags s3" by (rule two_bits) (simp add: s3_def)
  show "Mode (ARMul_CPSRAltered s) = m" "Bank (ARMul_CPSRAltered s) = (if m = Mode s then Bank s else ModeToBank m)"
    "take_bit 2 (IFFlags (ARMul_CPSRAltered s)) = IFFlags (ARMul_CPSRAltered s)"
    "NumInstrs (ARMul_CPSRAltered s) = NumInstrs s"
    "Emulate (ARMul_CPSRAltered s) = Emulate s \<or> Emulate (ARMul_CPSRAltered s) = CHANGEMODE"
    using e 2 3 by (auto simp: s3_def)
qed

lemma r15_fields:
  fixes s :: "'d arm_state"
  defines "m \<equiv> Reg s 15 AND R15MODEBITS"
  shows "Mode (ARMul_R15Altered s) = m" "Bank (ARMul_R15Altered s) = (if m = Mode s then Bank s else ModeToBank m)"
    "take_bit 2 (IFFlags (ARMul_R15Altered s)) = IFFlags (ARMul_R15Altered s)"
    "NumInstrs (ARMul_R15Altered s) = NumInstrs s"
    "Emulate (ARMul_R15Altered s) = Emulate s \<or> Emulate (ARMul_R15Altered s) = CHANGEMODE"
proof -
  define s1 where "s1 = (if Mode s \<noteq> m
    then (ARMul_SwitchMode (Mode s) m s)\<lparr>Mode := m, NtransSig := (m AND 3 \<noteq> 0)\<rparr> else s)"
  define s2 where "s2 = (if Mode s1 > SVC26MODE then s1\<lparr>Emulate := CHANGEMODE\<rparr> else s1)"
  have e: "ARMul_R15Altered s = s2\<lparr>IFFlags := drop_bit 26 (Reg s2 15 AND R15INTBITS) AND 3,
            NFlag := (Reg s2 15 AND NBIT \<noteq> 0), ZFlag := (Reg s2 15 AND ZBIT \<noteq> 0),
            CFlag := (Reg s2 15 AND CBIT \<noteq> 0), VFlag := (Reg s2 15 AND VBIT \<noteq> 0)\<rparr>"
    by (simp only: ARMul_R15Altered_def Let_def m_def [symmetric] s1_def [symmetric] s2_def [symmetric])
  have 1: "Mode s1 = m" "Bank s1 = (if m = Mode s then Bank s else ModeToBank m)" "Emulate s1 = Emulate s"
    "NumInstrs s1 = NumInstrs s"
    by (auto simp: s1_def switch_mode_fields)
  have "Mode s2 = m" "Bank s2 = (if m = Mode s then Bank s else ModeToBank m)" "NumInstrs s2 = NumInstrs s"
    "Emulate s2 = Emulate s \<or> Emulate s2 = CHANGEMODE"
    using 1 by (auto simp: s2_def)
  then show "Mode (ARMul_R15Altered s) = m" "Bank (ARMul_R15Altered s) = (if m = Mode s then Bank s else ModeToBank m)"
    "NumInstrs (ARMul_R15Altered s) = NumInstrs s"
    "Emulate (ARMul_R15Altered s) = Emulate s \<or> Emulate (ARMul_R15Altered s) = CHANGEMODE"
    by (simp_all add: e)
  show "take_bit 2 (IFFlags (ARMul_R15Altered s)) = IFFlags (ARMul_R15Altered s)"
    by (rule two_bits) (simp add: e)
qed

lemma to_bank_fields:
  "Mode (to_user_bank s) = Mode s" "IFFlags (to_user_bank s) = IFFlags s" "Bank (to_user_bank s) = USERBANK"
  "Emulate (to_user_bank s) = Emulate s" "NumInstrs (to_user_bank s) = NumInstrs s"
  "Mode (to_own_bank s) = Mode s" "IFFlags (to_own_bank s) = IFFlags s"
  "Bank (to_own_bank s) = (if user_mode s then Bank s else ModeToBank (Mode s))"
  "Emulate (to_own_bank s) = Emulate s" "NumInstrs (to_own_bank s) = NumInstrs s"
  by (simp_all add: to_user_bank_def to_own_bank_def switch_mode_fields ModeToBank_def bankofmode_def mode_numbers)

subsection \<open>Instances\<close>

text \<open>The instruction count.\<close>

interpretation counted_base: keeps_base "\<lambda>s. NumInstrs s = n" for n
proof unfold_locales
  fix s t :: "'a arm_state"
  assume "core t = core s"
  then show "(NumInstrs t = n) = (NumInstrs s = n)" by (simp add: core_fields [of t s])
qed (simp_all add: altered_fields r15_fields)

interpretation counted: keeps_all "\<lambda>s. NumInstrs s = n" for n
proof unfold_locales
  fix s :: "'a arm_state" and i a v
  assume n: "NumInstrs s = n"
  show "NumInstrs (LoadSMult i a v s) = n"
  proof (cases "BIT 15 i")
    case False
    then show ?thesis
      by (rule counted_base.user_load_low [of _ _ n])
        (simp_all add: n to_bank_fields counted_base.steps, simp_all add: ARMul_Icycles_def arm_halt_def)
  qed (rule counted_base.user_load_pc [OF _ n])
  show "NumInstrs (StoreSMult i a v s) = n"
    by (rule counted_base.user_store_all [OF n]) (simp_all add: to_bank_fields)
qed

text \<open>The state of the emulation: no instruction makes the emulator run that is to stop.\<close>

interpretation leaving_base: keeps_base "\<lambda>s. Emulate s \<noteq> RUN"
proof unfold_locales
  fix s t :: "'a arm_state"
  assume "core t = core s"
  then show "(Emulate t \<noteq> RUN) = (Emulate s \<noteq> RUN)" by (simp add: core_fields [of t s])
next
  fix s :: "'a arm_state"
  assume "Emulate s \<noteq> RUN"
  then show "Emulate (ARMul_CPSRAltered s) \<noteq> RUN" "Emulate (ARMul_R15Altered s) \<noteq> RUN"
    using altered_fields(5) [of s] r15_fields(5) [of s] by auto
qed simp_all

interpretation leaving: keeps_turn "\<lambda>s. Emulate s \<noteq> RUN"
proof unfold_locales
  fix s :: "'a arm_state" and i a v
  assume n: "Emulate s \<noteq> RUN"
  show "Emulate (LoadSMult i a v s) \<noteq> RUN"
  proof (cases "BIT 15 i")
    case False
    then show ?thesis
      by (rule leaving_base.user_load_low)
        (simp_all add: n to_bank_fields leaving_base.steps, simp_all add: ARMul_Icycles_def arm_halt_def)
  qed (rule leaving_base.user_load_pc [OF _ n])
  show "Emulate (StoreSMult i a v s) \<noteq> RUN"
    by (rule leaving_base.user_store_all [OF n]) (simp_all add: to_bank_fields)
qed simp_all

text \<open>Once the emulator is to stop, it stays so.\<close>

interpretation stopping_base: keeps_base "\<lambda>s. \<not> running (Emulate s)"
proof unfold_locales
  fix s t :: "'a arm_state"
  assume "core t = core s"
  then show "(\<not> running (Emulate t)) = (\<not> running (Emulate s))" by (simp add: core_fields [of t s])
next
  fix s :: "'a arm_state"
  assume "\<not> running (Emulate s)"
  then show "\<not> running (Emulate (ARMul_CPSRAltered s))" "\<not> running (Emulate (ARMul_R15Altered s))"
    using altered_fields(5) [of s] r15_fields(5) [of s] by (auto simp: running_def)
qed (simp_all add: running_def)

interpretation stopping: keeps "\<lambda>s. \<not> running (Emulate s)"
proof unfold_locales
  fix s :: "'a arm_state" and i a v
  assume n: "\<not> running (Emulate s)"
  show "\<not> running (Emulate (LoadSMult i a v s))"
  proof (cases "BIT 15 i")
    case False
    then show ?thesis
      by (rule stopping_base.user_load_low)
        (simp_all add: n to_bank_fields stopping_base.steps, simp_all add: ARMul_Icycles_def arm_halt_def)
  qed (rule stopping_base.user_load_pc [OF _ n])
qed

text \<open>
  The status register. \<open>weak_psr\<close> is \<open>wf_psr\<close> but for a bank that may be the user bank in another
  mode, as it is inside the block transfers of the user bank.
\<close>

definition weak_psr :: "'d arm_state \<Rightarrow> bool" where
  "weak_psr s \<longleftrightarrow>
     take_bit 2 (IFFlags s) = IFFlags s \<and> take_bit 5 (Mode s) = Mode s \<and>
     (Bank s = ModeToBank (Mode s) \<or> Bank s = USERBANK \<and> \<not> user_mode s)"

lemma weak_psr: "wf_psr s \<Longrightarrow> weak_psr s"
  by (simp add: wf_psr_def weak_psr_def)

lemma user_mode_bank: "user_mode s \<Longrightarrow> ModeToBank (Mode s) = USERBANK"
  by (auto simp: user_mode_def ModeToBank_def bankofmode_def mode_numbers)

lemma mode_fits:
  "take_bit 5 (Mode (ARMul_CPSRAltered s)) = Mode (ARMul_CPSRAltered s)"
  "take_bit 5 (Mode (ARMul_R15Altered s)) = Mode (ARMul_R15Altered s)"
  by (simp_all add: altered_fields(1) r15_fields(1) psr_masks take_bit_eq_mask mask_eq_exp_minus_1 and.assoc)

interpretation status_base: keeps_base wf_psr
proof unfold_locales
  fix s t :: "'a arm_state"
  assume "core t = core s"
  then show "wf_psr t = wf_psr s" by (simp add: core_fields [of t s] wf_psr_def)
next
  fix s :: "'a arm_state"
  assume "wf_psr s"
  then show "wf_psr (ARMul_CPSRAltered s)" "wf_psr (ARMul_R15Altered s)"
    using altered_fields(1-3) [of s] r15_fields(1-3) [of s] mode_fits [of s] by (auto simp: wf_psr_def)
qed (simp_all add: wf_psr_def)

interpretation weak_base: keeps_base weak_psr
proof unfold_locales
  fix s t :: "'a arm_state"
  assume "core t = core s"
  then show "weak_psr t = weak_psr s" by (simp add: core_fields [of t s] weak_psr_def user_mode_def)
next
  fix s :: "'a arm_state"
  assume "weak_psr s"
  then show "weak_psr (ARMul_CPSRAltered s)" "weak_psr (ARMul_R15Altered s)"
    using altered_fields(1-3) [of s] r15_fields(1-3) [of s] mode_fits [of s]
    by (auto simp: weak_psr_def user_mode_def)
qed (simp_all add: weak_psr_def user_mode_def)

lemma to_user_weak: "weak_psr s \<Longrightarrow> weak_psr (to_user_bank s)"
  using user_mode_bank [of s] by (auto simp: weak_psr_def to_bank_fields user_mode_def)

lemma to_own_wf: "weak_psr s \<Longrightarrow> wf_psr (to_own_bank s)"
  using user_mode_bank [of s] by (auto simp: weak_psr_def wf_psr_def to_bank_fields)

interpretation status: keeps wf_psr
proof unfold_locales
  fix s :: "'a arm_state" and i a v
  assume n: "wf_psr s"
  show "wf_psr (LoadSMult i a v s)"
  proof (cases "BIT 15 i")
    case False
    then show ?thesis
    proof (rule weak_base.user_load_low)
      show "weak_psr (to_user_bank (BUSUSEDINCPCS s))"
        using weak_psr [OF n] by (intro to_user_weak) (simp add: weak_base.steps)
    qed (simp_all add: n to_own_wf status_base.steps status_base.memory)
  qed (rule status_base.user_load_pc [OF _ n])
qed

interpretation weak: keeps_turn weak_psr
proof unfold_locales
  fix s :: "'a arm_state" and i a v
  assume n: "weak_psr s"
  show "weak_psr (LoadSMult i a v s)"
  proof (cases "BIT 15 i")
    case False
    then show ?thesis
    proof (rule weak_base.user_load_low)
      show "weak_psr (to_user_bank (BUSUSEDINCPCS s))"
        using n by (intro to_user_weak) (simp add: weak_base.steps)
    qed (simp_all add: n to_own_wf weak_psr weak_base.steps weak_base.memory)
  qed (rule weak_base.user_load_pc [OF _ n])
  show "weak_psr (StoreSMult i a v s)"
    by (rule weak_base.user_store_all [OF n]) (simp_all add: to_user_weak to_own_wf weak_psr)
qed (simp_all add: weak_psr_def user_mode_def)

subsection \<open>Aborted transfers of the user bank\<close>

lemma abort_from_weak:
  assumes "weak_psr s" "prog32Sig s" "Mode s \<noteq> ABORT32MODE"
  shows "wf_psr (TAKEABORT s)"
proof -
  let ?w = "s\<lparr>Bank := ModeToBank (Mode s)\<rparr>"
  have w: "wf_psr ?w" using assms(1) by (simp add: weak_psr_def wf_psr_def)
  have same: "CPSR ?w = CPSR s" "EMODE ?w = EMODE s" by (simp_all add: CPSR_def ECC_def EINT_def EMODE_def)
  have codes: "entry_mask DataAbortV = IBIT" "entry_mode DataAbortV = ABORT32MODE"
    by (simp_all add: entry_mask_def entry_mode_def vectors)
  define v where "v = (CPSR s AND NOT (EMODE s OR TBIT)) OR IBIT OR ABORT32MODE"
  have m: "v AND MODEBITS = ABORT32MODE"
    using entry_cpsr_bits(1,3) [OF w, of DataAbortV] by (simp add: same codes v_def psr_bits)
  define s1 where "s1 = s\<lparr>Aborted := 0\<rparr>"
  define s2 where "s2 = ARMul_SetSPSR ABORT32MODE (CPSR s) s1"
  have s2: "wf_psr (ARMul_CPSRAltered (s2\<lparr>Cpsr := v\<rparr>))" if "s2 = s1\<lparr>Spsr := f\<rparr>" for f
    using that assms(2,3) m altered_fields(1-3) [of "s2\<lparr>Cpsr := v\<rparr>"] mode_fits(1) [of "s2\<lparr>Cpsr := v\<rparr>"]
    by (simp add: wf_psr_def s1_def)
  have "s2 = s1\<lparr>Spsr := (Spsr s1)(ABORTBANK := CPSR s)\<rparr>"
    by (simp add: s2_def ARMul_SetSPSR_def ModeToBank_def bankofmode_def mode_numbers psr_masks bank_numbers
        BANK_CAN_ACCESS_SPSR_def Let_def)
  note alt = s2 [OF this] and s2' = this
  have c: "CPSR s1 = CPSR s" "CPSR s2 = CPSR s" "EMODE s2 = EMODE s"
    unfolding s2' by (simp_all add: s1_def CPSR_def ECC_def EINT_def EMODE_def)
  have f1: "prog32Sig s1" "TFlag s1 = TFlag s" using assms(2) by (simp_all add: s1_def)
  have e0: "ARMul_SetSPSR ABORT32MODE (CPSR s) s1 = s2" by (simp add: s2_def)
  have "abort_enter DataAbortV (abort_return s1) s1 =
      set_reg 14 (abort_return s1 - (if TFlag s then - 4 else 0)) (ARMul_CPSRAltered (s2\<lparr>Cpsr := v\<rparr>))"
    using f1 by (simp add: abort_enter_def SETABORT_def Let_def vectors ARMul_SetCPSR_def ARMul_GetCPSR_def v_def c e0)
  then have "wf_psr (abort_enter DataAbortV (abort_return s1) s1)"
    using alt by (simp add: status_base.steps)
  then show ?thesis
    by (simp add: TAKEABORT_def ARMul_Abort_def ARMul_OSException_def Let_def status_base.status status_base.steps
        flip: s1_def)
qed

lemma stm_all_mode: "Mode (stm_all t i a s) = Mode s" "prog32Sig (stm_all t i a s) = prog32Sig s"
proof -
  have c: "core (stm_check a s) = core s" for a and s :: "'a arm_state"
    by (simp add: stm_check_def spurious_abort_def XScale_set_fsr_far_def core_frame)
  have "core (stm_loop rs a s) = core s" for rs a and s :: "'a arm_state"
    by (induction rs arbitrary: a s) (simp_all add: c Let_def core_frame)
  then have "core (stm_all t i a s) = core s"
    by (simp add: stm_all_def Let_def c core_frame)
  from core_fields [OF this] show "Mode (stm_all t i a s) = Mode s" "prog32Sig (stm_all t i a s) = prog32Sig s"
    by simp_all
qed

lemma user_store_wf:
  assumes "wf_psr s" "prog32Sig s" "Mode s \<noteq> ABORT32MODE"
  shows "wf_psr (StoreSMult i a v s)"
proof (cases "first_set i")
  case (Some t)
  define s1 where "s1 = stm_all t i a (to_user_bank (BUSUSEDINCPCN s))"
  have s1: "weak_psr s1" using weak_psr [OF assms(1)] by (simp add: s1_def to_user_weak weak_base.blocks weak_base.steps)
  have m: "Mode s1 = Mode s" "prog32Sig s1 = prog32Sig s"
    by (simp_all add: s1_def stm_all_mode to_bank_fields)
      (simp_all add: to_user_bank_def BUSUSEDINCPCN_def BUSUSEDN_def set_reg_def ARMul_SwitchMode_def
        save_bank_def restore_bank_def arm_halt_def Let_def)
  have "StoreSMult i a v s = stm_finish i v (if Aborted s1 = 0 then to_own_bank s1 else s1)"
    by (simp add: StoreSMult_def Some Let_def s1_def)
  then show ?thesis
  proof (cases "Aborted s1 = 0")
    case True
    then show ?thesis using \<open>StoreSMult i a v s = _\<close> to_own_wf [OF s1] by (simp add: status_base.blocks)
  next
    case False
    define s2 where "s2 = (if BIT 21 i \<and> LHSReg i \<noteq> 15 \<and> \<not> (abortSig s1 \<and> Aborted s1 \<noteq> 0 \<and> \<not> lateabtSig s1)
      then set_LSBase i v s1 else s1)"
    have "weak_psr s2" "prog32Sig s2" "Mode s2 \<noteq> ABORT32MODE" "Aborted s2 \<noteq> 0"
      using s1 m assms False by (simp_all add: s2_def weak_base.steps) (simp_all add: set_LSBase_def set_reg_def)
    moreover have "stm_finish i v s1 = (if Aborted s2 \<noteq> 0 then TAKEABORT s2 else s2)"
      unfolding stm_finish_def Let_def s2_def [symmetric] ..
    ultimately have "wf_psr (stm_finish i v s1)" by (simp add: abort_from_weak)
    then show ?thesis using \<open>StoreSMult i a v s = _\<close> False by simp
  qed
qed (use assms(1) in \<open>simp add: StoreSMult_def status_base.memory\<close>)

subsection \<open>Turns of the loop\<close>

lemma turn_counts:
  assumes "\<And>n. n < 16 \<Longrightarrow> cp_table env n = std_cop n" "emulate_turn env p s = Some r"
  shows "NumInstrs (snd (snd r)) = NumInstrs s \<or> NumInstrs (snd (snd r)) = NumInstrs s + 1"
proof -
  define f where "f = fetch p (s\<lparr>isize := INSN_SIZE s\<rparr>)"
  define s2 where "s2 = (if EventSet (snd (snd f)) \<noteq> 0 then ARMul_EnvokeEvent (snd (snd f)) else snd (snd f))"
  have s2: "NumInstrs s2 = NumInstrs s"
    using counted.fetched [where n = "NumInstrs s" and p = p and s = "s\<lparr>isize := INSN_SIZE s\<rparr>"]
      counted.events [where n = "NumInstrs s" and s = "snd (snd f)"]
    by (simp add: s2_def f_def)
  note e = assms(2) [unfolded emulate_turn_def Let_def f_def [symmetric] case_prod_beta s2_def [symmetric]]
  show ?thesis
  proof (cases "fst (IntPending s2) \<or> \<not> running (Emulate s2)")
    case True
    then show ?thesis
      using e s2 counted.interrupts(1) [where n = "NumInstrs s" and s = s2] by (auto split: if_splits)
  next
    case False
    then obtain t where t: "execute env (pipe_pc (fst (snd f))) (fst f)
        (s2\<lparr>bus := io_do_cycle (bus s2), NumInstrs := NumInstrs s2 + 1\<rparr>) = Some t"
      "snd (snd r) = snd (test_emulate t)"
      using e by auto
    have "NumInstrs t = NumInstrs s + 1" using counted.executes [OF assms(1) _ t(1)] s2 by simp
    then show ?thesis using t(2) by (simp add: test_emulate_def)
  qed
qed

text \<open>A turn of an emulator that is to stop leaves the loop without executing anything.\<close>

lemma turn_stops:
  assumes "emulate_turn env p s = Some (b, q, t)" "\<not> running (Emulate s)"
  shows "b \<and> NumInstrs t = NumInstrs s"
proof -
  define f where "f = fetch p (s\<lparr>isize := INSN_SIZE s\<rparr>)"
  define s2 where "s2 = (if EventSet (snd (snd f)) \<noteq> 0 then ARMul_EnvokeEvent (snd (snd f)) else snd (snd f))"
  have s2: "NumInstrs s2 = NumInstrs s" "\<not> running (Emulate s2)"
    using counted.fetched [where n = "NumInstrs s" and p = p and s = "s\<lparr>isize := INSN_SIZE s\<rparr>"]
      counted.events [where n = "NumInstrs s" and s = "snd (snd f)"]
      stopping.fetched [of p "s\<lparr>isize := INSN_SIZE s\<rparr>"] stopping.events [of "snd (snd f)"] assms(2)
    by (simp_all add: s2_def f_def)
  note e = assms(1) [unfolded emulate_turn_def Let_def f_def [symmetric] case_prod_beta s2_def [symmetric]]
  show ?thesis
    using e s2 counted.interrupts(1) [where n = "NumInstrs s" and s = s2] by (auto split: if_splits)
qed

text \<open>The loop goes on after a single step only to find that it is to stop.\<close>

lemma turn_again:
  assumes "emulate_turn env p s = Some (b, q, t)" "\<not> b" "Emulate t \<noteq> RUN"
  shows "\<not> running (Emulate t)"
proof -
  define f where "f = fetch p (s\<lparr>isize := INSN_SIZE s\<rparr>)"
  define s2 where "s2 = (if EventSet (snd (snd f)) \<noteq> 0 then ARMul_EnvokeEvent (snd (snd f)) else snd (snd f))"
  note e = assms(1) [unfolded emulate_turn_def Let_def f_def [symmetric] case_prod_beta s2_def [symmetric]]
  obtain u where "b = fst (test_emulate u)" "t = snd (test_emulate u)"
    using e assms(2) by (auto split: if_splits)
  then show ?thesis using assms(2,3) by (auto simp: test_emulate_def running_def split: if_splits)
qed

subsection \<open>Properties\<close>

text \<open>
  C1. The status of the processor is well-formed after every instruction: the register bank is the
  one of the mode, and mode and interrupt mask are in range, whatever the instruction word,
  the condition, the memory and the coprocessors of the standard table do. The one
  exception is an STM of user registers in abort mode, whose abort leaves the user bank in
  place.
\<close>

theorem instruction_keeps_status:
  assumes "\<not> is_ep9312 s0" "\<not> is_XScale s0" "cp_table env = fst (ARMul_CoProInit ep xs xi t0 s0)"
    and "wf_psr s" "user_store instr \<Longrightarrow> prog32Sig s \<and> Mode s \<noteq> ABORT32MODE"
    and "exec_arm env pc instr s = Some t"
  shows "wf_psr t"
proof (rule status.instruction [OF _ assms(4) _ assms(6)])
  show "cp_table env (CPNum instr) = std_cop (CPNum instr)"
    using standard_table [OF assms(1,2) CPNum_less] by (simp add: assms(3))
  show "wf_psr (block_op (field 20 27 instr) instr s)" if "user_store instr"
    using that assms(4,5) by (simp add: block_op_def block_transfer_def Let_def user_store_def user_store_wf)
qed



text \<open>MOV of an immediate, executed.\<close>

lemma sample_mov: "exec_arm sample_env 0x8000 0xe3a01005 sample_arm = Some (set_reg 1 5 sample_arm)"
proof -
  have f: "field 20 27 0xe3a01005 = 0x3a" "DESTReg 0xe3a01005 = 1" "DPImmRHS 0xe3a01005 = 5"
    "unat (TOPBITS 28 0xe3a01005) = AL"
    by (simp_all add: field_def BITS_def DESTReg_def DPImmRHS_def ARMul_ImmedTable_def ROTATER_def TOPBITS_def AL_def)
  have "\<not> is_XScale sample_arm" by (rule sample_arm_kind)
  then show ?thesis
    by (simp add: exec_arm_def Let_def f mainswitch_def exec_xfer_def exec_dp_def dp_imm_logic_def imm_op_def
        WRITEDEST_def set_DEST_def)
qed

theorem instruction_keeps_status_witness: "wf_psr (set_reg 1 5 sample_arm)"
  using instruction_keeps_status [OF sample_arm_kind _ _ _ sample_mov, of id "\<lambda>b. id" id "\<lambda>n. no_cop"] sample_arm_wf
  by (simp add: sample_env_def wf_arm_def user_store_def field_def BITS_def)

subsection \<open>Reset\<close>

text \<open>
  Reset, whatever the state before it: a 32-bit processor is then in supervisor mode with the
  supervisor's bank, IRQ and FIQ masked, in ARM state, at address 0 with the pipeline
  to be filled, its representation well-formed and no interrupt pending. The MMU is what its
  initialisation makes it.
\<close>

theorem reset_establishes:
  assumes "prog32Sig s"
  shows "wf_arm (ARMul_Reset (\<lambda>u. u\<lparr>mmu := f u\<rparr>) s) \<and> CPSR (ARMul_Reset (\<lambda>u. u\<lparr>mmu := f u\<rparr>) s) = INTBITS OR SVC32MODE
    \<and> Reg (ARMul_Reset (\<lambda>u. u\<lparr>mmu := f u\<rparr>) s) 15 = 0
    \<and> NextInstr (ARMul_Reset (\<lambda>u. u\<lparr>mmu := f u\<rparr>) s) = PRIMEPIPE
    \<and> \<not> fst (IntPending (ARMul_Reset (\<lambda>u. u\<lparr>mmu := f u\<rparr>) s))"
proof -
  let ?t = "ARMul_Reset (\<lambda>u. u\<lparr>mmu := f u\<rparr>) s"
  define u where "u = (set_reg 15 0 (s\<lparr>NextInstr := 0\<rparr>))\<lparr>Cpsr := INTBITS OR SVC32MODE, Mode := SVC32MODE\<rparr>"
  have u: "prog32Sig u" "Cpsr u = INTBITS OR SVC32MODE" "Mode u = SVC32MODE" "Reg u 15 = 0" "NextInstr u = 0"
    using assms by (simp_all add: u_def set_reg_def)
  have m: "take_bit 5 (Cpsr u) = SVC32MODE"
    by (simp add: u(2) psr_masks mode_numbers take_bit_eq_mask mask_eq_exp_minus_1)
  have "ARMul_CPSRAltered u = unpack_flags (enter_mode SVC32MODE u)"
    using cpsr_altered32 [of u] u m by (simp add: mode_numbers)
  then have a: "ARMul_CPSRAltered u = unpack_flags u" by (simp add: enter_mode_def u(3))
  define r where "r = (FLUSHPIPE ((unpack_flags u)\<lparr>Bank := SVCBANK\<rparr>))\<lparr>NresetSig := True, NtransSig := True, abortSig := False,
      AbortAddr := 1, NumInstrs := 0, NumNcycles := 0, NumScycles := 0, NumIcycles := 0, NumCcycles := 0,
      NumFcycles := 0, bus := (bus u)\<lparr>io := (io (bus u))\<lparr>NfiqSig := 1, NirqSig := 1\<rparr>\<rparr>\<rparr>"
  have n: "SVC32MODE AND 3 \<noteq> 0" by (simp add: mode_numbers)
  have t: "?t = r\<lparr>mmu := f r\<rparr>"
    using assms u(3) a n by (simp add: ARMul_Reset_def Let_def FLUSHPIPE_def r_def flip: u_def)
  have r: "Mode r = SVC32MODE" "Bank r = SVCBANK" "IFFlags r = 3" "TFlag r = False" "ECC r = 0" "prog32Sig r"
    "Reg r 15 = 0" "NextInstr r = PRIMEPIPE" "NresetSig r" "NfiqSig (io (bus r)) = 1" "NirqSig (io (bus r)) = 1"
    using u by (simp_all add: r_def FLUSHPIPE_def ECC_def unpack_flags_def psr_masks mode_numbers)
  have "wf_arm (r\<lparr>mmu := f r\<rparr>)"
    using r by (simp add: wf_arm_def wf_psr_def mode32_def ModeToBank_def bankofmode_def mode_numbers bank_numbers
        take_bit_eq_mask mask_eq_exp_minus_1)
  moreover have "CPSR (r\<lparr>mmu := f r\<rparr>) = INTBITS OR SVC32MODE"
    using r by (simp add: CPSR_def ECC_def EINT_def EMODE_def psr_masks mode_numbers)
  ultimately show ?thesis using r by (simp add: t IntPending_def)
qed

theorem reset_establishes_witness:
  "CPSR (ARMul_Reset (\<lambda>u. u\<lparr>mmu := sample_mmu\<rparr>) sample_arm) = 0xd3
    \<and> Reg (ARMul_Reset (\<lambda>u. u\<lparr>mmu := sample_mmu\<rparr>) sample_arm) 15 = 0"
  using reset_establishes [of sample_arm "\<lambda>u. sample_mmu"] by (simp add: sample_arm_def psr_masks mode_numbers)

subsection \<open>Conditions\<close>

text \<open>
  C35. Conditional execution: an instruction takes effect exactly when the architecture's condition
  for its top four bits holds, an AL instruction always does, the sixteenth condition is
  the ARMv5 space of unconditional instructions, and an instruction whose condition fails
  changes nothing.
\<close>

theorem conditional_execution:
  "exec_arm env pc instr s =
     (let c = unat (TOPBITS 28 instr)
      in if c = 15 then exec_NV env pc instr s
         else if c = 14 \<or> cond_spec c s then mainswitch env pc instr s else Some s)"
proof -
  define c where "c = unat (TOPBITS 28 instr)"
  have "c < 16"
    using unsigned_less [of instr, where 'a = nat] by (simp add: c_def TOPBITS_def unsigned_drop_bit_eq drop_bit_eq_div unat_div_distrib less_mult_imp_div_less)
  then consider "c < 14" | "c = 14" | "c = 15" by linarith
  then show ?thesis
    unfolding exec_arm_def Let_def c_def [symmetric]
    by cases (simp_all add: cond_taken_spec condition_codes)
qed

end
