(* ===== verification/Arm_Shift_Spec.thy ===== *)
theory Arm_Shift_Spec
  imports Arm_Shift Arm_Supp_Spec
begin

text \<open>
  The operand shifter against the architecture's description (\<open>shift_spec\<close>): one result and
  one carry for each shift and amount, of which the four C routines compute the value or the
  value and the carry. Rotated immediates, and the return from an exception by a write to
  register 15 that restores the CPSR.
\<close>

subsection \<open>The shifter of the architecture\<close>

text \<open>
  Shifting a word by any amount, with the last bit shifted out as carry; an amount of 0
  leaves the carry.
\<close>

definition shift_spec :: "nat \<Rightarrow> u32 \<Rightarrow> nat \<Rightarrow> bool \<Rightarrow> u32 \<times> bool" where
  "shift_spec op base n c =
     (if n = 0 then (base, c)
      else if op = LSL then (push_bit n base, n \<le> 32 \<and> bit base (32 - n))
      else if op = LSR then (drop_bit n base, bit base (n - 1))
      else if op = ASR then (signed_drop_bit n base, bit base (min (n - 1) 31))
      else (word_rotr n base, bit (word_rotr n base) 31))"

text \<open>Rotation through the carry, and the encoding of amounts in an instruction.\<close>

definition rrx :: "u32 \<Rightarrow> bool \<Rightarrow> u32 \<times> bool" where
  "rrx base c = (drop_bit 1 base OR push_bit 31 (of_bool c), bit base 0)"

definition imm_shift_spec :: "nat \<Rightarrow> u32 \<Rightarrow> nat \<Rightarrow> bool \<Rightarrow> u32 \<times> bool" where
  "imm_shift_spec op base n c =
     (if n = 0 \<and> op \<noteq> LSL
      then (if op = ROR then rrx base c else shift_spec op base 32 c)
      else shift_spec op base n c)"

definition operand_spec :: "u32 \<Rightarrow> 'd arm_state \<Rightarrow> u32 \<times> bool" where
  "operand_spec instr t =
     (let base = Reg t (RHSReg instr); op = field 5 6 instr
      in if bit instr 4 then shift_spec op base (unat (Reg t (field 8 11 instr) AND 0xff)) (CFlag t)
         else imm_shift_spec op base (field 7 11 instr) (CFlag t))"

lemma field_bound: "m \<le> n \<Longrightarrow> n \<le> 31 \<Longrightarrow> field m n instr < 2 ^ (Suc n - m)"
  by (simp add: field_def BITS_bound)

lemma odd_bit: "drop_bit n x AND 1 \<noteq> 0 \<longleftrightarrow> bit x n" for x :: u32
  by (simp add: and_one_eq bit_iff_odd_drop_bit odd_iff_mod_2_eq_one [symmetric])

lemma drop_31_bit: "drop_bit 31 x \<noteq> 0 \<longleftrightarrow> bit x 31" for x :: u32
  by (rule drop_bit_31_iff)

lemma signed_drop_odd_bit: "n < 32 \<Longrightarrow> signed_drop_bit n x AND 1 \<noteq> 0 \<longleftrightarrow> bit x n" for x :: u32
  using bit_signed_drop_bit_iff [of n x 0] by (simp add: and_one_eq bit_iff_odd odd_iff_mod_2_eq_one [symmetric])

lemma signed_drop_full: "32 \<le> n \<Longrightarrow> signed_drop_bit n x = signed_drop_bit 31 x" for x :: u32
  by (intro bit_word_eqI) (auto simp: bit_signed_drop_bit_iff Suc_le_eq)

lemma push_drop_full: "32 \<le> n \<Longrightarrow> push_bit n x = 0" "32 \<le> n \<Longrightarrow> drop_bit n x = 0" for x :: u32
  by (intro bit_word_eqI; auto simp: bit_simps dest: bit_imp_le_length)+

lemma rotr_mod: "word_rotr n x = word_rotr (n mod 32) x" for x :: u32
  by (intro bit_word_eqI) (simp add: bit_word_rotr_iff mod_simps)

lemma rotr_31: "0 < n \<Longrightarrow> n < 32 \<Longrightarrow> bit (word_rotr n x) 31 \<longleftrightarrow> bit x (n - 1)" for x :: u32
  by (simp add: bit_word_rotr_iff mod_if)

lemma rotr_or: "n < 32 \<Longrightarrow> push_bit (32 - n) x OR drop_bit n x = word_rotr n x" for x :: u32
  using rotr_shifts [of n x] by (simp add: or.commute)

lemma rotr_0: "word_rotr 0 x = x" for x :: u32
  by (intro bit_word_eqI) (simp add: bit_word_rotr_iff)

lemma spec_ROR:
  "shift_spec ROR base n c =
     (if n = 0 then (base, c) else (word_rotr (n mod 32) base, bit (word_rotr (n mod 32) base) 31))"
  by (simp add: shift_spec_def shift_codes rotr_mod [of n])

lemma rotations_by_reg:
  "shifts_by_reg ROR base n s =
     (case shift_spec ROR base n (CFlag s) of (v, c) \<Rightarrow> (v, if n = 0 then s else ASSIGNC c s))"
  "shift_by_reg ROR base n = fst (shift_spec ROR base n c)"
proof -
  have "n mod 32 < 32" by simp
  then show "shifts_by_reg ROR base n s =
     (case shift_spec ROR base n (CFlag s) of (v, c) \<Rightarrow> (v, if n = 0 then s else ASSIGNC c s))"
    unfolding spec_ROR
    by (cases "n mod 32 = 0")
      (simp_all add: shifts_by_reg_def shift_codes Let_def rotr_0 rotr_or rotr_31 odd_bit drop_31_bit)
  show "shift_by_reg ROR base n = fst (shift_spec ROR base n c)"
    unfolding spec_ROR using \<open>n mod 32 < 32\<close>
    by (cases "n mod 32 = 0") (simp_all add: shift_by_reg_def shift_codes Let_def rotr_0 rotr_or)
qed

lemma low_bit_set: "x AND 1 \<noteq> 0 \<longleftrightarrow> bit x 0" for x :: u32
  by (simp add: and_one_eq bit_0 odd_iff_mod_2_eq_one)

lemma no_bit: "32 \<le> n \<Longrightarrow> \<not> bit x n" for x :: u32
  by (auto dest: bit_imp_le_length)

lemma shifts_by_reg_spec:
  assumes "op < 4"
  shows "shifts_by_reg op base n s =
    (case shift_spec op base n (CFlag s) of (v, c) \<Rightarrow> (v, if n = 0 then s else ASSIGNC c s))"
    and "shift_by_reg op base n = fst (shift_spec op base n c)"
proof -
  consider "op = LSL" | "op = LSR" | "op = ASR" | "op = ROR" using assms(1) unfolding shift_codes by arith
  note op_cases = this
  consider "n = 0" | "n = 32" | "32 < n" | "0 < n" "n < 32" by arith
  note amounts = this
  show "shifts_by_reg op base n s =
      (case shift_spec op base n (CFlag s) of (v, c) \<Rightarrow> (v, if n = 0 then s else ASSIGNC c s))"
  proof (cases rule: op_cases)
    case 1
    show ?thesis
      by (cases rule: amounts) (simp_all add: 1 shifts_by_reg_def shift_spec_def shift_codes odd_bit
          low_bit_set push_drop_full bit_drop_bit_eq)
  next
    case 2
    show ?thesis
      by (cases rule: amounts) (simp_all add: 2 shifts_by_reg_def shift_spec_def shift_codes odd_bit
          drop_31_bit push_drop_full no_bit)
  next
    case 3
    show ?thesis
      by (cases rule: amounts) (simp_all add: 3 shifts_by_reg_def shift_spec_def shift_codes
          drop_31_bit signed_drop_odd_bit signed_drop_full)
  next
    case 4
    then show ?thesis by (simp only: rotations_by_reg(1))
  qed
  show "shift_by_reg op base n = fst (shift_spec op base n c)"
  proof (cases rule: op_cases)
    case 4
    then show ?thesis by (simp only: rotations_by_reg(2))
  qed (auto simp: shift_by_reg_def shift_spec_def shift_codes signed_drop_full push_drop_full)
qed

lemma shifts_by_imm_spec:
  assumes "op < 4" and "n < 32"
  shows "shifts_by_imm op base n s =
    (case imm_shift_spec op base n (CFlag s) of (v, c) \<Rightarrow> (v, if op = LSL \<and> n = 0 then ASSIGNC False s else ASSIGNC c s))"
    and "shift_by_imm op base n c = fst (imm_shift_spec op base n c)"
proof -
  consider "op = LSL" | "op = LSR" | "op = ASR" | "op = ROR" using assms(1) unfolding shift_codes by arith
  note op_cases = this
  consider "n = 0" | "0 < n" using assms by arith
  note amounts = this
  show "shifts_by_imm op base n s =
    (case imm_shift_spec op base n (CFlag s) of (v, c) \<Rightarrow> (v, if op = LSL \<and> n = 0 then ASSIGNC False s else ASSIGNC c s))"
    using assms(2)
    by (cases rule: op_cases; cases rule: amounts)
      (simp_all add: shifts_by_imm_def imm_shift_spec_def shift_spec_def rrx_def shift_codes odd_bit
          drop_31_bit signed_drop_odd_bit signed_drop_full push_drop_full low_bit_set no_bit rotr_or rotr_31 bit_drop_bit_eq bit_signed_drop_bit_iff)
  show "shift_by_imm op base n c = fst (imm_shift_spec op base n c)"
    using assms(2)
    by (cases rule: op_cases; cases rule: amounts)
      (simp_all add: shift_by_imm_def imm_shift_spec_def shift_spec_def rrx_def shift_codes
          signed_drop_full push_drop_full rotr_or)
qed

subsection \<open>Operands of the instructions\<close>

lemma amounts_bounded:
  "field 5 6 instr < 4" "field 7 11 instr < 32"
  using field_bound [of 5 6 instr] field_bound [of 7 11 instr] by simp_all

lemma no_shift_field:
  "BITS 4 11 instr = 0 \<longleftrightarrow> \<not> bit instr 4 \<and> field 5 6 instr = LSL \<and> field 7 11 instr = 0"
proof -
  have zero: "BITS m n instr = 0 \<longleftrightarrow> (\<forall>k. m \<le> k \<and> k \<le> n \<longrightarrow> \<not> bit instr k)" if "m \<le> n" "n \<le> 31" for m n
  proof -
    have "BITS m n instr = 0 \<longleftrightarrow> (\<forall>k. \<not> (k < Suc n - m \<and> bit instr (m + k)))"
      using that by (auto simp add: BITS_take bit_eq_iff bit_take_bit_iff bit_drop_bit_eq)
    also have "\<dots> \<longleftrightarrow> (\<forall>k. m \<le> k \<and> k \<le> n \<longrightarrow> \<not> bit instr k)"
    proof (intro iffI allI impI notI)
      fix k
      assume all: "\<forall>k. \<not> (k < Suc n - m \<and> bit instr (m + k))" and "m \<le> k \<and> k \<le> n" and "bit instr k"
      then show False using all [rule_format, of "k - m"] by auto
    qed auto
    finally show ?thesis .
  qed
  have split: "4 \<le> k \<and> k \<le> 11 \<longleftrightarrow> k = 4 \<or> (5 \<le> k \<and> k \<le> 6) \<or> (7 \<le> k \<and> k \<le> 11)" for k :: nat
    by arith
  show ?thesis
    by (simp add: field_def LSL_def zero unsigned_eq_0_iff split) blast
qed

lemma icycle_frame [simp]:
  "Reg (ARMul_Icycles n s) = Reg s" "CFlag (ARMul_Icycles n s) = CFlag s"
  by (simp_all add: ARMul_Icycles_def Let_def)

lemma incpc_carry [simp]: "CFlag (INCPC s) = CFlag s"
  by (simp add: INCPC_def set_reg_def)

lemma keep_carry [simp]: "s\<lparr>CFlag := CFlag s\<rparr> = s"
  by simp

lemma shift_code_bound: "field 5 6 instr = LSL \<or> field 5 6 instr = LSR \<or> field 5 6 instr = ASR \<or> field 5 6 instr = ROR"
  using amounts_bounded(1) [of instr] unfolding shift_codes by arith

lemma operand_value: "fst (DPRegRHS instr s) = fst (operand_spec instr (snd (DPRegRHS instr s)))"
proof (cases "BITS 4 11 instr = 0")
  case True
  then show ?thesis
    using True [unfolded no_shift_field]
    by (simp add: DPRegRHS_def operand_spec_def imm_shift_spec_def shift_spec_def shift_codes)
next
  case False
  then show ?thesis
    by (simp add: DPRegRHS_def GetDPRegRHS_def operand_spec_def BIT_bit Let_def
          shifts_by_reg_spec(2) [OF amounts_bounded(1), symmetric]
          shifts_by_imm_spec(2) [OF amounts_bounded, symmetric])
qed

lemma operand_value_carry:
  "DPSRegRHS instr s =
     (case operand_spec instr (snd (DPRegRHS instr s)) of
        (v, c) \<Rightarrow> (v, (snd (DPRegRHS instr s))\<lparr>CFlag := c\<rparr>))"
proof (cases "BITS 4 11 instr = 0")
  case True
  then show ?thesis
    using True [unfolded no_shift_field]
    by (simp add: DPSRegRHS_def DPRegRHS_def operand_spec_def imm_shift_spec_def shift_spec_def shift_codes)
next
  case False
  have reg: "(case shift_spec op base n (CFlag t) of (v, c) \<Rightarrow> (v, if n = 0 then t else ASSIGNC c t)) =
      (case shift_spec op base n (CFlag t) of (v, c) \<Rightarrow> (v, t\<lparr>CFlag := c\<rparr>))"
    for op base n and t :: "'a arm_state"
    by (simp add: ASSIGNC_def shift_spec_def)
  show ?thesis
  proof (cases "bit instr 4")
    case True
    show ?thesis
      by (simp add: DPSRegRHS_def DPRegRHS_def GetDPRegRHS_def GetDPSRegRHS_def operand_spec_def BIT_bit
          Let_def False True shifts_by_reg_spec(1) [OF amounts_bounded(1)] reg)
  next
    case imm: False
    then show ?thesis
      using False [unfolded no_shift_field]
      by (auto simp add: DPSRegRHS_def DPRegRHS_def GetDPRegRHS_def GetDPSRegRHS_def operand_spec_def BIT_bit
          Let_def False shifts_by_imm_spec(1) [OF amounts_bounded] ASSIGNC_def split: prod.split)
  qed
qed

text \<open>
  C34. The second operand of every data-processing instruction is the one the ARM architecture
  describes, for register and immediate shift amounts, including the amounts 0, 32 and more:
  the two routines return the same value and state, and the flag-setting one differs only in
  the carry flag, which is the carry of the shifter.
\<close>

theorem operand_is_architectural:
  "DPRegRHS instr s = (fst (operand_spec instr (snd (DPRegRHS instr s))), snd (DPRegRHS instr s))
   \<and> DPSRegRHS instr s =
       (case operand_spec instr (snd (DPRegRHS instr s)) of
          (v, c) \<Rightarrow> (v, (snd (DPRegRHS instr s))\<lparr>CFlag := c\<rparr>))"
  by (simp add: operand_value [symmetric] operand_value_carry [symmetric])

subsection \<open>Return from an exception\<close>

lemma write_sr15_restores:
  fixes src :: u32
  assumes "wf_arm t" "Bank t > 0" "mode32 (take_bit 5 (Spsr t (Bank t)))"
  defines "u \<equiv> WriteSR15 src t"
  shows "wf_arm u" "Mode u = take_bit 5 (Spsr t (Bank t))" "CPSR u = Spsr t (Bank t) AND PSR_KEPT"
    "Reg u 15 = src AND (if bit (Spsr t (Bank t)) 5 then 0xfffffffe else 0xfffffffc)"
    "i \<noteq> 15 \<Longrightarrow> reg_view u b i = reg_view t b i"
proof -
  let ?v = "Spsr t (Bank t)"
  let ?t1 = "ARMul_SetCPSR ?v t"
  note set = set_cpsr [OF assms(1,3)]
  have u: "u = FLUSHPIPE (set_reg 15 (src AND (if TFlag ?t1 then 0xfffffffe else 0xfffffffc)) ?t1)"
    using assms(2) by (simp add: u_def WriteSR15_def ARMul_SetCPSR_def Let_def)
  have thumb: "TFlag ?t1 \<longleftrightarrow> bit ?v 5" by (simp add: set(1) unpack_flags_def)
  show "wf_arm u" "CPSR u = ?v AND PSR_KEPT" using set(2,3) by (simp_all add: u)
  show "Mode u = take_bit 5 ?v" using set(4) by (simp add: u FLUSHPIPE_def set_reg_def)
  show "Reg u 15 = src AND (if bit ?v 5 then 0xfffffffe else 0xfffffffc)"
    by (simp add: u FLUSHPIPE_def set_reg_def thumb)
  show "reg_view u b i = reg_view t b i" if "i \<noteq> 15"
  proof -
    have "reg_view u b i = reg_view ?t1 b i"
      using that by (simp add: u) (simp add: reg_view_def set_reg_def)
    then show ?thesis using set(5) by simp
  qed
qed



end
