(* ===== verification/Sparc_State.thy ===== *)
theory Sparc_State
  imports Bus
begin

text \<open>
  The state of the SPARC V8 integer unit and what its instructions share
  (arch_sparc/common/iu.h, bits.h, iu.c, traps.c, helper.c): registers and register windows,
  the fields of the PSR, traps, access to memory.

  The window pointer \<^verbatim>\<open>regwptr[1]\<close> is an offset into \<open>regbase\<close>; \<^verbatim>\<open>regwptr[0]\<close> always points to
  \<open>globals\<close>. The memory is the bus of src/memory. \<open>instr_junk\<close> is the value of the uninitialised
  local of \<^verbatim>\<open>iu_cycle_step\<close>. Statistics, code coverage and printing are left out.
\<close>

subsection \<open>Bit fields (bits.h)\<close>

definition bits :: "u32 \<Rightarrow> nat \<Rightarrow> nat \<Rightarrow> u32" where
  "bits x n m = drop_bit (31 - n + m) (push_bit (31 - n) x)"

definition bitsmask :: "nat \<Rightarrow> nat \<Rightarrow> u32" where
  "bitsmask n m = drop_bit (31 - n) (push_bit (31 - n + m) (drop_bit m (NOT 0)))"

definition clear_bits :: "u32 \<Rightarrow> nat \<Rightarrow> nat \<Rightarrow> u32" where
  "clear_bits x n m = x AND NOT (bitsmask n m)"

definition put_bits :: "u32 \<Rightarrow> nat \<Rightarrow> nat \<Rightarrow> u32" where
  "put_bits x n m = x OR bitsmask n m"

subsection \<open>Processor state (iu.h)\<close>

definition N_WINDOWS :: nat where "N_WINDOWS = 8"

definition PSR_icc_N :: nat where "PSR_icc_N = 23"
definition PSR_icc_Z :: nat where "PSR_icc_Z = 22"
definition PSR_icc_V :: nat where "PSR_icc_V = 21"
definition PSR_icc_C :: nat where "PSR_icc_C = 20"
definition PSR_EF :: nat where "PSR_EF = 12"
definition PSR_S :: nat where "PSR_S = 7"
definition PSR_PS :: nat where "PSR_PS = 6"
definition PSR_ET :: nat where "PSR_ET = 5"

lemmas psr_fields =
  PSR_icc_N_def PSR_icc_Z_def PSR_icc_V_def PSR_icc_C_def PSR_EF_def PSR_S_def PSR_PS_def PSR_ET_def

record 'd sparc_state =
  globals :: "nat \<Rightarrow> u32"
  regbase :: "nat \<Rightarrow> u32"
  regwptr :: nat
  FPREG :: "nat \<Rightarrow> u32"
  YREG :: u32
  PSRREG :: u32
  WIMREG :: u32
  TBRREG :: u32
  PCREG :: u32
  NPCREG :: u32
  FPSRREG :: u32
  irq_pending :: bool
  cycle_counter :: u64
  instr_junk :: u32
  sbus :: "'d bus"

definition sparc_halt :: "halt_reason \<Rightarrow> 'd sparc_state \<Rightarrow> 'd sparc_state" where
  "sparc_halt h s = s\<lparr>sbus := bus_halt h (sbus s)\<rparr>"

text \<open>\<^verbatim>\<open>REG(x)\<close>, read and written.\<close>

definition REG :: "'d sparc_state \<Rightarrow> nat \<Rightarrow> u32" where
  "REG s x = (if x > 7 then regbase s (regwptr s + (x - 8)) else globals s x)"

definition set_REG :: "nat \<Rightarrow> u32 \<Rightarrow> 'd sparc_state \<Rightarrow> 'd sparc_state" where
  "set_REG x v s =
     (if x > 7 then s\<lparr>regbase := (regbase s)(regwptr s + (x - 8) := v)\<rparr>
      else s\<lparr>globals := (globals s)(x := v)\<rparr>)"

definition O7 :: nat where "O7 = 15"
definition L1 :: nat where "L1 = 17"
definition L2 :: nat where "L2 = 18"
definition SP :: nat where "SP = 14"
definition FP :: nat where "FP = 30"

lemmas reg_names = O7_def L1_def L2_def SP_def FP_def

definition CWP :: "'d sparc_state \<Rightarrow> u32" where
  "CWP s = bits (PSRREG s) 4 0"

text \<open>\<^verbatim>\<open>bit(PSRREG, n)\<close>, and \<^verbatim>\<open>set_bit\<close> and \<^verbatim>\<open>clear_bit\<close> on it.\<close>

definition psr_bit :: "'d sparc_state \<Rightarrow> nat \<Rightarrow> u32" where
  "psr_bit s n = drop_bit n (PSRREG s) AND 1"

definition psr_set :: "nat \<Rightarrow> 'd sparc_state \<Rightarrow> 'd sparc_state" where
  "psr_set n s = s\<lparr>PSRREG := put_bits (PSRREG s) n n\<rparr>"

definition psr_clear :: "nat \<Rightarrow> 'd sparc_state \<Rightarrow> 'd sparc_state" where
  "psr_clear n s = s\<lparr>PSRREG := clear_bits (PSRREG s) n n\<rparr>"

definition next_pc :: "'d sparc_state \<Rightarrow> 'd sparc_state" where
  "next_pc s = s\<lparr>PCREG := NPCREG s, NPCREG := NPCREG s + 4\<rparr>"

subsection \<open>Helpers of the instructions (i_utils.c)\<close>

text \<open>A C \<^verbatim>\<open>int\<close> as the word that represents it.\<close>

definition sign_ext :: "int \<Rightarrow> nat \<Rightarrow> u32" where
  "sign_ext x nbits = signed_drop_bit (32 - nbits) (push_bit (32 - nbits) (word_of_int x))"

abbreviation sign_ext13 :: "int \<Rightarrow> u32" where
  "sign_ext13 x \<equiv> sign_ext x 13"

definition clear_icc :: "'d sparc_state \<Rightarrow> 'd sparc_state" where
  "clear_icc s = psr_clear PSR_icc_C (psr_clear PSR_icc_V (psr_clear PSR_icc_N (psr_clear PSR_icc_Z s)))"

subsection \<open>Register windows (iu.c, helper.c)\<close>

definition memcpy32 :: "nat \<Rightarrow> nat \<Rightarrow> (nat \<Rightarrow> u32) \<Rightarrow> nat \<Rightarrow> u32" where
  "memcpy32 d src r =
     r(d := r src, d + 1 := r (src + 1), d + 2 := r (src + 2), d + 3 := r (src + 3),
       d + 4 := r (src + 4), d + 5 := r (src + 5), d + 6 := r (src + 6), d + 7 := r (src + 7))"

definition iu_set_cwp :: "u32 \<Rightarrow> 'd sparc_state \<Rightarrow> 'd sparc_state" where
  "iu_set_cwp new_cwp s =
     (let s1 = (if CWP s = word_of_nat (N_WINDOWS - 1)
                then s\<lparr>regbase := memcpy32 0 (N_WINDOWS * 16) (regbase s)\<rparr> else s);
          s2 = s1\<lparr>PSRREG := clear_bits (PSRREG s1) 4 0 OR new_cwp\<rparr>;
          s3 = (if new_cwp = word_of_nat (N_WINDOWS - 1)
                then s2\<lparr>regbase := memcpy32 (N_WINDOWS * 16) 0 (regbase s2)\<rparr> else s2)
      in s3\<lparr>regwptr := unat new_cwp * 16\<rparr>)"

definition iu_sub_cwp :: "'d sparc_state \<Rightarrow> 'd sparc_state" where
  "iu_sub_cwp s =
     (let s1 = set_REG 0 0 s
      in iu_set_cwp ((CWP s1 - 1) AND word_of_nat (N_WINDOWS - 1)) s1)"

definition iu_add_cwp :: "'d sparc_state \<Rightarrow> 'd sparc_state" where
  "iu_add_cwp s =
     (let s1 = set_REG 0 0 s
      in iu_set_cwp ((CWP s1 + 1) AND word_of_nat (N_WINDOWS - 1)) s1)"

subsection \<open>Traps (traps.h, traps.c)\<close>

definition DATA_STORE_ERROR :: int where "DATA_STORE_ERROR = 1"
definition PRIVILEGED_INSTR :: int where "PRIVILEGED_INSTR = 6"
definition ILLEGAL_INSTR :: int where "ILLEGAL_INSTR = 7"
definition FP_DISABLED :: int where "FP_DISABLED = 8"
definition WOF :: int where "WOF = 12"
definition WUF :: int where "WUF = 13"
definition MEM_ADDR_NOT_ALIGNED :: int where "MEM_ADDR_NOT_ALIGNED = 14"
definition DIV_BY_ZERO :: int where "DIV_BY_ZERO = 21"

lemmas trap_numbers =
  DATA_STORE_ERROR_def PRIVILEGED_INSTR_def ILLEGAL_INSTR_def FP_DISABLED_def WOF_def WUF_def
  MEM_ADDR_NOT_ALIGNED_def DIV_BY_ZERO_def

text \<open>Trap types with their priorities; the mode of every entry is \<^verbatim>\<open>NOTRAP\<close>.\<close>

definition tt_table :: "(u8 \<times> u8) list" where
  "tt_table =
     [(0x00, 1), (0x2B, 2), (0x3C, 2), (0x21, 3), (0x20, 4), (0x01, 5), (0x03, 6), (0x02, 7),
      (0x04, 8), (0x24, 8), (0x25, 8), (0x0B, 8), (0x05, 9), (0x06, 9), (0x07, 10), (0x08, 11),
      (0x28, 11), (0x29, 12), (0x2C, 12), (0x09, 13), (0x0A, 14), (0x2A, 15)]"

definition TBR_BASE_MASK :: u32 where "TBR_BASE_MASK = 0xFFFFF000"
definition TBR_TT_MASK :: u32 where "TBR_TT_MASK = 0x00000FF0"

definition tbr_set_tt :: "u16 \<Rightarrow> 'd sparc_state \<Rightarrow> 'd sparc_state" where
  "tbr_set_tt tt s = s\<lparr>TBRREG := (TBRREG s AND TBR_BASE_MASK) OR (push_bit 4 (ucast tt) AND TBR_TT_MASK)\<rparr>"

text \<open>\<^verbatim>\<open>traps->signal\<close>: an index of the table, or the type of a software trap.\<close>

definition signal :: "int \<Rightarrow> 'd sparc_state \<Rightarrow> 'd sparc_state" where
  "signal trap s =
     (if trap < 0 then s
      else (let s1 = (if int (length tt_table) \<le> trap then tbr_set_tt (word_of_int trap) s
                      else tbr_set_tt (ucast (fst (tt_table ! nat trap))) s)
            in s1\<lparr>irq_pending := True\<rparr>))"

definition trigger :: "'d sparc_state \<Rightarrow> 'd sparc_state" where
  "trigger s =
     (if psr_bit s PSR_ET \<noteq> 0 then
        (let s1 = psr_clear PSR_ET s;
             s2 = (if psr_bit s1 PSR_S \<noteq> 0 then psr_set PSR_PS s1 else psr_clear PSR_PS s1);
             s3 = iu_sub_cwp (psr_set PSR_S s2);
             s4 = set_REG L2 (NPCREG s3) (set_REG L1 (PCREG s3) s3)
         in s4\<lparr>PCREG := TBRREG s4, NPCREG := TBRREG s4 + 4\<rparr>)
      else sparc_halt Skyeye_exit s)"

subsection \<open>Memory (memory.h)\<close>

text \<open>
  The value read, which is \<open>old\<close> where nothing answers, and the status: \<^verbatim>\<open>bus_read\<close> and
  \<^verbatim>\<open>bus_write\<close> always return 0.
\<close>

definition sparc_memory_read :: "nat \<Rightarrow> u32 \<Rightarrow> u32 \<Rightarrow> 'd sparc_state \<Rightarrow> u32 \<times> int \<times> 'd sparc_state" where
  "sparc_memory_read sz old addr s =
     (case bus_read sz addr old (sbus s) of (v, b) \<Rightarrow> (v, 0, s\<lparr>sbus := b\<rparr>))"

definition sparc_memory_store :: "nat \<Rightarrow> u32 \<Rightarrow> u32 \<Rightarrow> 'd sparc_state \<Rightarrow> int \<times> 'd sparc_state" where
  "sparc_memory_store sz addr v s = (0, s\<lparr>sbus := bus_write sz addr v (sbus s)\<rparr>)"

subsection \<open>Instructions (sparc.h)\<close>

text \<open>
  What the \<^verbatim>\<open>disassemble\<close> function of an instruction leaves in the static variables of its file, for
  its \<^verbatim>\<open>execute\<close> function; an operand that is not there is -1.
\<close>

record operands =
  rd :: nat
  rs1 :: nat
  rs2 :: int
  imm :: int
  annul :: bool
  disp :: u32

definition no_operands :: operands where
  "no_operands = \<lparr>rd = 0, rs1 = 0, rs2 = - 1, imm = - 1, annul = False, disp = 0\<rparr>"

record 'd sparc_instruction =
  execute :: "operands \<Rightarrow> 'd sparc_state \<Rightarrow> int \<times> 'd sparc_state"
  disassemble :: "u32 \<Rightarrow> operands option"
  priviledge :: nat
  format :: u32

text \<open>The second operand of an instruction of format 3: a register, or the sign-extended immediate.\<close>

definition operand2 :: "operands \<Rightarrow> 'd sparc_state \<Rightarrow> u32" where
  "operand2 d s = (if imm d < 0 then REG s (nat (rs2 d)) else sign_ext13 (imm d))"

text \<open>The fields that the \<^verbatim>\<open>disassemble\<close> functions of format 3 fill.\<close>

definition format3_fields :: "u32 \<Rightarrow> operands" where
  "format3_fields instr =
     (let d = no_operands\<lparr>rd := unat (bits instr 29 25), rs1 := unat (bits instr 18 14)\<rparr>
      in if bit instr 13 then d\<lparr>imm := uint (bits instr 12 0)\<rparr>
         else d\<lparr>rs2 := uint (bits instr 4 0)\<rparr>)"

definition disassemble3 :: "u32 \<Rightarrow> u32 \<Rightarrow> u32 \<Rightarrow> u32 \<Rightarrow> operands option" where
  "disassemble3 code_mask opv op3v instr =
     (if instr AND code_mask \<noteq> 0 \<and> bits instr 31 30 = opv \<and> bits instr 24 19 = op3v
      then Some (format3_fields instr) else None)"

end
