(* ===== verification/Sparc_Alu.thy ===== *)
theory Sparc_Alu
  imports Sparc_State
begin

text \<open>
  The SPARC instructions on registers: logical, shift, arithmetic, multiplication and division,
  SETHI, NOP, FLUSH, and the state registers (arch_sparc/instructions). For a file \<^verbatim>\<open>i_x.c\<close>,
  \<open>i_x_execute\<close> and \<open>i_x_disassemble\<close> are its two static functions, on the operands
  that the latter leaves for the former, and \<open>i_x\<close> is its \<^verbatim>\<open>sparc_instruction_t\<close>.
\<close>

subsection \<open>Logical instructions\<close>

definition i_or_execute :: "operands \<Rightarrow> 'd sparc_state \<Rightarrow> int \<times> 'd sparc_state" where
  "i_or_execute d s =
     (1, next_pc (set_REG (rd d) (REG s (rs1 d) OR operand2 d s) s))"

definition i_or_disassemble :: "u32 \<Rightarrow> operands option" where
  "i_or_disassemble = disassemble3 0x80100000 2 0x02"

definition i_or :: "'d sparc_instruction" where
  "i_or = \<lparr>execute = i_or_execute, disassemble = i_or_disassemble, priviledge = 0, format = 2\<rparr>"

definition i_and_execute :: "operands \<Rightarrow> 'd sparc_state \<Rightarrow> int \<times> 'd sparc_state" where
  "i_and_execute d s =
     (1, next_pc (set_REG (rd d) (REG s (rs1 d) AND operand2 d s) s))"

definition i_and_disassemble :: "u32 \<Rightarrow> operands option" where
  "i_and_disassemble = disassemble3 0x80080000 2 0x01"

definition i_and :: "'d sparc_instruction" where
  "i_and = \<lparr>execute = i_and_execute, disassemble = i_and_disassemble, priviledge = 0, format = 2\<rparr>"

definition i_andn_execute :: "operands \<Rightarrow> 'd sparc_state \<Rightarrow> int \<times> 'd sparc_state" where
  "i_andn_execute d s =
     (1, next_pc (set_REG (rd d) (REG s (rs1 d) AND NOT (operand2 d s)) s))"

definition i_andn_disassemble :: "u32 \<Rightarrow> operands option" where
  "i_andn_disassemble = disassemble3 0x80280000 2 0x05"

definition i_andn :: "'d sparc_instruction" where
  "i_andn = \<lparr>execute = i_andn_execute, disassemble = i_andn_disassemble, priviledge = 0, format = 2\<rparr>"

definition i_orn_execute :: "operands \<Rightarrow> 'd sparc_state \<Rightarrow> int \<times> 'd sparc_state" where
  "i_orn_execute d s =
     (1, next_pc (set_REG (rd d) (REG s (rs1 d) OR NOT (operand2 d s)) s))"

definition i_orn_disassemble :: "u32 \<Rightarrow> operands option" where
  "i_orn_disassemble = disassemble3 0x80300000 2 0x06"

definition i_orn :: "'d sparc_instruction" where
  "i_orn = \<lparr>execute = i_orn_execute, disassemble = i_orn_disassemble, priviledge = 0, format = 2\<rparr>"

definition i_xor_execute :: "operands \<Rightarrow> 'd sparc_state \<Rightarrow> int \<times> 'd sparc_state" where
  "i_xor_execute d s =
     (1, next_pc (set_REG (rd d) (REG s (rs1 d) XOR operand2 d s) s))"

definition i_xor_disassemble :: "u32 \<Rightarrow> operands option" where
  "i_xor_disassemble = disassemble3 0x80180000 2 0x03"

definition i_xor :: "'d sparc_instruction" where
  "i_xor = \<lparr>execute = i_xor_execute, disassemble = i_xor_disassemble, priviledge = 0, format = 2\<rparr>"

definition i_xnor_execute :: "operands \<Rightarrow> 'd sparc_state \<Rightarrow> int \<times> 'd sparc_state" where
  "i_xnor_execute d s =
     (1, next_pc (set_REG (rd d) (REG s (rs1 d) XOR NOT (operand2 d s)) s))"

definition i_xnor_disassemble :: "u32 \<Rightarrow> operands option" where
  "i_xnor_disassemble = disassemble3 0x80380000 2 0x07"

definition i_xnor :: "'d sparc_instruction" where
  "i_xnor = \<lparr>execute = i_xnor_execute, disassemble = i_xnor_disassemble, priviledge = 1, format = 2\<rparr>"

text \<open>The zero and negative conditions of a result, with the others cleared.\<close>

definition set_nz :: "u32 \<Rightarrow> 'd sparc_state \<Rightarrow> 'd sparc_state" where
  "set_nz z s =
     (let s1 = clear_icc s; s2 = (if z = 0 then psr_set PSR_icc_Z s1 else s1)
      in if bit z 31 then psr_set PSR_icc_N s2 else s2)"

text \<open>The register form of ORCC does not compute anything: \<^verbatim>\<open>z\<close> stays 0 and \<^verbatim>\<open>rd\<close> is not written.\<close>

definition i_orcc_execute :: "operands \<Rightarrow> 'd sparc_state \<Rightarrow> int \<times> 'd sparc_state" where
  "i_orcc_execute d s =
     (if imm d < 0 then (1, next_pc (set_nz 0 s))
      else (let z = REG s (rs1 d) OR sign_ext13 (imm d)
            in (1, next_pc (set_nz z (set_REG (rd d) z s)))))"

definition i_orcc_disassemble :: "u32 \<Rightarrow> operands option" where
  "i_orcc_disassemble = disassemble3 0x80900000 2 0x12"

definition i_orcc :: "'d sparc_instruction" where
  "i_orcc = \<lparr>execute = i_orcc_execute, disassemble = i_orcc_disassemble, priviledge = 0, format = 2\<rparr>"

definition i_andcc_execute :: "operands \<Rightarrow> 'd sparc_state \<Rightarrow> int \<times> 'd sparc_state" where
  "i_andcc_execute d s =
     (let z = REG s (rs1 d) AND operand2 d s
      in (1, next_pc (set_nz z (set_REG (rd d) z s))))"

definition i_andcc_disassemble :: "u32 \<Rightarrow> operands option" where
  "i_andcc_disassemble = disassemble3 0x80880000 2 0x11"

definition i_andcc :: "'d sparc_instruction" where
  "i_andcc = \<lparr>execute = i_andcc_execute, disassemble = i_andcc_disassemble, priviledge = 0, format = 2\<rparr>"

definition i_andncc_execute :: "operands \<Rightarrow> 'd sparc_state \<Rightarrow> int \<times> 'd sparc_state" where
  "i_andncc_execute d s =
     (let z = REG s (rs1 d) AND NOT (operand2 d s)
      in (1, next_pc (set_nz z (set_REG (rd d) z s))))"

definition i_andncc_disassemble :: "u32 \<Rightarrow> operands option" where
  "i_andncc_disassemble = disassemble3 0x80A80000 2 0x15"

definition i_andncc :: "'d sparc_instruction" where
  "i_andncc = \<lparr>execute = i_andncc_execute, disassemble = i_andncc_disassemble, priviledge = 0, format = 2\<rparr>"

subsection \<open>Shifts\<close>

text \<open>A shift by 32 or more is undefined behaviour in C; SPARC takes the count modulo 32.\<close>

definition shift_guard :: "u32 \<Rightarrow> 'd sparc_state \<Rightarrow> 'd sparc_state" where
  "shift_guard n s = (if 32 \<le> n then sparc_halt Undefined_shift s else s)"

definition shift_count :: "operands \<Rightarrow> 'd sparc_state \<Rightarrow> u32" where
  "shift_count d s = (if imm d < 0 then REG s (nat (rs2 d)) else word_of_int (imm d))"

definition disassemble_shift :: "u32 \<Rightarrow> u32 \<Rightarrow> u32 \<Rightarrow> operands option" where
  "disassemble_shift code_mask op3v instr =
     (case disassemble3 code_mask 2 op3v instr of
        None \<Rightarrow> None
      | Some d \<Rightarrow> Some (if bit instr 13 then d\<lparr>imm := uint (bits instr 4 0)\<rparr> else d))"

definition i_sll_execute :: "operands \<Rightarrow> 'd sparc_state \<Rightarrow> int \<times> 'd sparc_state" where
  "i_sll_execute d s =
     (let n = shift_count d s
      in (1, next_pc (set_REG (rd d) (push_bit (unat n) (REG s (rs1 d))) (shift_guard n s))))"

definition i_sll_disassemble :: "u32 \<Rightarrow> operands option" where
  "i_sll_disassemble = disassemble_shift 0x81280000 0x25"

definition i_sll :: "'d sparc_instruction" where
  "i_sll = \<lparr>execute = i_sll_execute, disassemble = i_sll_disassemble, priviledge = 0, format = 2\<rparr>"

definition i_srl_execute :: "operands \<Rightarrow> 'd sparc_state \<Rightarrow> int \<times> 'd sparc_state" where
  "i_srl_execute d s =
     (let n = shift_count d s
      in (1, next_pc (set_REG (rd d) (drop_bit (unat n) (REG s (rs1 d))) (shift_guard n s))))"

definition i_srl_disassemble :: "u32 \<Rightarrow> operands option" where
  "i_srl_disassemble = disassemble_shift 0x81300000 0x26"

definition i_srl :: "'d sparc_instruction" where
  "i_srl = \<lparr>execute = i_srl_execute, disassemble = i_srl_disassemble, priviledge = 0, format = 2\<rparr>"

text \<open>SRA shifts logically and then fills in the sign, with the count read again after \<^verbatim>\<open>rd\<close> is written.\<close>

definition i_sra_execute :: "operands \<Rightarrow> 'd sparc_state \<Rightarrow> int \<times> 'd sparc_state" where
  "i_sra_execute d s =
     (let n = shift_count d s;
          s1 = set_REG (rd d) (drop_bit (unat n) (REG s (rs1 d))) (shift_guard n s);
          n1 = shift_count d s1
      in if bit (REG s (rs1 d)) 31
         then (1, next_pc (set_REG (rd d) (NOT (drop_bit (unat n1) 0xFFFFFFFF) OR REG s1 (rd d)) (shift_guard n1 s1)))
         else (1, next_pc s1))"

definition i_sra_disassemble :: "u32 \<Rightarrow> operands option" where
  "i_sra_disassemble = disassemble_shift 0x81380000 0x27"

definition i_sra :: "'d sparc_instruction" where
  "i_sra = \<lparr>execute = i_sra_execute, disassemble = i_sra_disassemble, priviledge = 0, format = 2\<rparr>"

subsection \<open>Addition and subtraction\<close>

definition i_add_execute :: "operands \<Rightarrow> 'd sparc_state \<Rightarrow> int \<times> 'd sparc_state" where
  "i_add_execute d s =
     (1, next_pc (set_REG (rd d) (REG s (rs1 d) + operand2 d s) s))"

definition i_add_disassemble :: "u32 \<Rightarrow> operands option" where
  "i_add_disassemble = disassemble3 0x80000000 2 0x00"

definition i_add :: "'d sparc_instruction" where
  "i_add = \<lparr>execute = i_add_execute, disassemble = i_add_disassemble, priviledge = 0, format = 2\<rparr>"

definition i_addx_execute :: "operands \<Rightarrow> 'd sparc_state \<Rightarrow> int \<times> 'd sparc_state" where
  "i_addx_execute d s =
     (1, next_pc (set_REG (rd d) (REG s (rs1 d) + operand2 d s + psr_bit s PSR_icc_C) s))"

definition i_addx_disassemble :: "u32 \<Rightarrow> operands option" where
  "i_addx_disassemble = disassemble3 0x80400000 2 0x08"

definition i_addx :: "'d sparc_instruction" where
  "i_addx = \<lparr>execute = i_addx_execute, disassemble = i_addx_disassemble, priviledge = 0, format = 2\<rparr>"

text \<open>The conditions, from the signs of the operands and of the result.\<close>

definition add_carry :: "u32 \<Rightarrow> u32 \<Rightarrow> u32 \<Rightarrow> bool" where
  "add_carry x y z = (let Sm = bit x 31; Dm = bit y 31; Rm = bit z 31 in (Sm \<and> Dm) \<or> (\<not> Rm \<and> (Dm \<or> Sm)))"

definition add_overflow :: "u32 \<Rightarrow> u32 \<Rightarrow> u32 \<Rightarrow> bool" where
  "add_overflow x y z =
     (let Sm = bit x 31; Dm = bit y 31; Rm = bit z 31 in (Sm \<and> Dm \<and> \<not> Rm) \<or> (\<not> Sm \<and> \<not> Dm \<and> Rm))"

definition sub_carry :: "u32 \<Rightarrow> u32 \<Rightarrow> u32 \<Rightarrow> bool" where
  "sub_carry x y z = (let Sm = bit x 31; Dm = bit y 31; Rm = bit z 31 in (\<not> Sm \<and> Dm) \<or> (Rm \<and> (\<not> Sm \<or> Dm)))"

definition sub_overflow :: "u32 \<Rightarrow> u32 \<Rightarrow> u32 \<Rightarrow> bool" where
  "sub_overflow x y z =
     (let Sm = bit x 31; Dm = bit y 31; Rm = bit z 31 in (Sm \<and> \<not> Dm \<and> \<not> Rm) \<or> (\<not> Sm \<and> Dm \<and> Rm))"

definition set_cv :: "bool \<Rightarrow> bool \<Rightarrow> 'd sparc_state \<Rightarrow> 'd sparc_state" where
  "set_cv c v s =
     (let s1 = (if c then psr_set PSR_icc_C s else s) in if v then psr_set PSR_icc_V s1 else s1)"

definition i_addcc_execute :: "operands \<Rightarrow> 'd sparc_state \<Rightarrow> int \<times> 'd sparc_state" where
  "i_addcc_execute d s =
     (let x = REG s (rs1 d); y = operand2 d s; z = x + y
      in (1, next_pc (set_cv (add_carry x y z) (add_overflow x y z) (set_nz z (set_REG (rd d) z s)))))"

definition i_addcc_disassemble :: "u32 \<Rightarrow> operands option" where
  "i_addcc_disassemble = disassemble3 0x80800000 2 0x10"

definition i_addcc :: "'d sparc_instruction" where
  "i_addcc = \<lparr>execute = i_addcc_execute, disassemble = i_addcc_disassemble, priviledge = 0, format = 2\<rparr>"

text \<open>ADDXCC (not among the registered instructions) compares the result with the old \<^verbatim>\<open>rd\<close>, as unsigned numbers.\<close>

definition i_addxcc_execute :: "operands \<Rightarrow> 'd sparc_state \<Rightarrow> int \<times> 'd sparc_state" where
  "i_addxcc_execute d s =
     (let x = REG s (rs1 d); y = operand2 d s; src1 = REG s (rd d); z = x + y + psr_bit s PSR_icc_C
      in (1, next_pc (set_cv (z \<le> src1) (add_overflow x y z) (set_nz z (set_REG (rd d) z s)))))"

definition i_addxcc_disassemble :: "u32 \<Rightarrow> operands option" where
  "i_addxcc_disassemble = disassemble3 0x80c00000 2 0x18"

definition i_addxcc :: "'d sparc_instruction" where
  "i_addxcc = \<lparr>execute = i_addxcc_execute, disassemble = i_addxcc_disassemble, priviledge = 0, format = 2\<rparr>"

definition i_sub_execute :: "operands \<Rightarrow> 'd sparc_state \<Rightarrow> int \<times> 'd sparc_state" where
  "i_sub_execute d s =
     (1, next_pc (set_REG (rd d) (REG s (rs1 d) - operand2 d s) s))"

definition i_sub_disassemble :: "u32 \<Rightarrow> operands option" where
  "i_sub_disassemble = disassemble3 0x80200000 2 0x04"

definition i_sub :: "'d sparc_instruction" where
  "i_sub = \<lparr>execute = i_sub_execute, disassemble = i_sub_disassemble, priviledge = 0, format = 2\<rparr>"

definition i_subx_execute :: "operands \<Rightarrow> 'd sparc_state \<Rightarrow> int \<times> 'd sparc_state" where
  "i_subx_execute d s =
     (1, next_pc (set_REG (rd d) (REG s (rs1 d) - operand2 d s - psr_bit s PSR_icc_C) s))"

definition i_subx_disassemble :: "u32 \<Rightarrow> operands option" where
  "i_subx_disassemble = disassemble3 0x80600000 2 0x0c"

definition i_subx :: "'d sparc_instruction" where
  "i_subx = \<lparr>execute = i_subx_execute, disassemble = i_subx_disassemble, priviledge = 0, format = 2\<rparr>"

text \<open>SUBCC and SUBXCC read the second operand again after \<^verbatim>\<open>rd\<close> is written, for the conditions.\<close>

definition i_subcc_execute :: "operands \<Rightarrow> 'd sparc_state \<Rightarrow> int \<times> 'd sparc_state" where
  "i_subcc_execute d s =
     (let x = REG s (rs1 d); z = x - operand2 d s;
          s1 = set_REG (rd d) z s;
          y = operand2 d s1
      in (1, next_pc (set_cv (sub_carry x y z) (sub_overflow x y z) (set_nz z s1))))"

definition i_subcc_disassemble :: "u32 \<Rightarrow> operands option" where
  "i_subcc_disassemble = disassemble3 0x80a00000 2 0x14"

definition i_subcc :: "'d sparc_instruction" where
  "i_subcc = \<lparr>execute = i_subcc_execute, disassemble = i_subcc_disassemble, priviledge = 0, format = 2\<rparr>"

definition i_subxcc_execute :: "operands \<Rightarrow> 'd sparc_state \<Rightarrow> int \<times> 'd sparc_state" where
  "i_subxcc_execute d s =
     (let x = REG s (rs1 d); z = x - operand2 d s - psr_bit s PSR_icc_C;
          s1 = set_REG (rd d) z s;
          y = operand2 d s1
      in (1, next_pc (set_cv (sub_carry x y z) (sub_overflow x y z) (set_nz z s1))))"

definition i_subxcc_disassemble :: "u32 \<Rightarrow> operands option" where
  "i_subxcc_disassemble = disassemble3 0x80e00000 2 0x1c"

definition i_subxcc :: "'d sparc_instruction" where
  "i_subxcc = \<lparr>execute = i_subxcc_execute, disassemble = i_subxcc_disassemble, priviledge = 0, format = 2\<rparr>"

subsection \<open>Multiplication and division\<close>

text \<open>The products are computed in 32 bits before they are widened.\<close>

definition i_umul_execute :: "operands \<Rightarrow> 'd sparc_state \<Rightarrow> int \<times> 'd sparc_state" where
  "i_umul_execute d s =
     (let result = ucast (REG s (rs1 d) * operand2 d s) :: u64
      in (1, next_pc ((set_REG (rd d) (ucast result) s)\<lparr>YREG := ucast (drop_bit 32 result)\<rparr>)))"

definition i_umul_disassemble :: "u32 \<Rightarrow> operands option" where
  "i_umul_disassemble = disassemble3 0x80500000 2 0x0a"

definition i_umul :: "'d sparc_instruction" where
  "i_umul = \<lparr>execute = i_umul_execute, disassemble = i_umul_disassemble, priviledge = 0, format = 2\<rparr>"

definition i_smul_execute :: "operands \<Rightarrow> 'd sparc_state \<Rightarrow> int \<times> 'd sparc_state" where
  "i_smul_execute d s =
     (let result = ucast (REG s (rs1 d) * operand2 d s) :: u64
      in (1, next_pc ((set_REG (rd d) (ucast result) s)\<lparr>YREG := ucast (signed_drop_bit 32 result)\<rparr>)))"

definition i_smul_disassemble :: "u32 \<Rightarrow> operands option" where
  "i_smul_disassemble = disassemble3 0x80580000 2 0x0b"

definition i_smul :: "'d sparc_instruction" where
  "i_smul = \<lparr>execute = i_smul_execute, disassemble = i_smul_disassemble, priviledge = 0, format = 2\<rparr>"

text \<open>An immediate divisor is sign-extended to 64 bits. After the trap is signalled the program counter still advances.\<close>

definition i_udiv_execute :: "operands \<Rightarrow> 'd sparc_state \<Rightarrow> int \<times> 'd sparc_state" where
  "i_udiv_execute d s =
     (let dividend = push_bit 32 (ucast (YREG s)) OR ucast (REG s (rs1 d)) :: u64
      in if imm d < 0 then
           (if REG s (nat (rs2 d)) = 0 then (1, next_pc (signal DIV_BY_ZERO s))
            else (1, next_pc (set_REG (rd d) (ucast (dividend div ucast (REG s (nat (rs2 d))))) s)))
         else
           (if imm d = 0 then (1, next_pc (signal DIV_BY_ZERO s))
            else (1, next_pc (set_REG (rd d) (ucast (dividend div scast (sign_ext13 (imm d)))) s))))"

definition i_udiv_disassemble :: "u32 \<Rightarrow> operands option" where
  "i_udiv_disassemble = disassemble3 0x80700000 2 0x0e"

definition i_udiv :: "'d sparc_instruction" where
  "i_udiv = \<lparr>execute = i_udiv_execute, disassemble = i_udiv_disassemble, priviledge = 0, format = 2\<rparr>"

text \<open>The multiply step. With an immediate, \<^verbatim>\<open>REG(rs2)\<close> is read at index -1, before the array.\<close>

definition i_mulscc_execute :: "operands \<Rightarrow> 'd sparc_state \<Rightarrow> int \<times> 'd sparc_state" where
  "i_mulscc_execute d s =
     (let s0 = (if rs2 d < 0 then sparc_halt Out_of_bounds s else s);
          rrs1 = REG s (rs1 d); rrs2 = REG s (nat (rs2 d));
          o1 = clear_bits (bits rrs1 31 1) 31 31;
          op1 = (if psr_bit s PSR_icc_N XOR psr_bit s PSR_icc_V \<noteq> 0 then put_bits o1 31 31 else o1);
          op2 = (if \<not> bit (YREG s) 0 then 0 else if imm d < 0 then rrs2 else sign_ext13 (imm d));
          z = op1 + op2;
          y = bits (YREG s) 31 1;
          s1 = (set_REG (rd d) z s0)\<lparr>YREG := (if bit rrs1 0 then put_bits y 31 31 else clear_bits y 31 31)\<rparr>
      in (1, next_pc (set_cv (add_carry op1 op2 z) (add_overflow op1 op2 z) (set_nz z s1))))"

definition i_mulscc_disassemble :: "u32 \<Rightarrow> operands option" where
  "i_mulscc_disassemble = disassemble3 0x8120000 2 0x24"

definition i_mulscc :: "'d sparc_instruction" where
  "i_mulscc = \<lparr>execute = i_mulscc_execute, disassemble = i_mulscc_disassemble, priviledge = 0, format = 2\<rparr>"

subsection \<open>SETHI, NOP and FLUSH\<close>

definition i_sethi_execute :: "operands \<Rightarrow> 'd sparc_state \<Rightarrow> int \<times> 'd sparc_state" where
  "i_sethi_execute d s =
     (1, next_pc (set_REG (rd d) (push_bit 10 (disp d) AND 0xFFFFFC00) s))"

definition i_sethi_disassemble :: "u32 \<Rightarrow> operands option" where
  "i_sethi_disassemble instr =
     (if instr AND 0x01000000 \<noteq> 0 \<and> bits instr 31 30 = 0 \<and> bits instr 24 22 = 4
      then Some (no_operands\<lparr>rd := unat (bits instr 29 25), disp := bits instr 21 0\<rparr>) else None)"

definition i_sethi :: "'d sparc_instruction" where
  "i_sethi = \<lparr>execute = i_sethi_execute, disassemble = i_sethi_disassemble, priviledge = 0, format = 0\<rparr>"

definition i_nop_execute :: "operands \<Rightarrow> 'd sparc_state \<Rightarrow> int \<times> 'd sparc_state" where
  "i_nop_execute d s =
     (1, next_pc s)"

definition i_nop_disassemble :: "u32 \<Rightarrow> operands option" where
  "i_nop_disassemble instr = (if instr XOR 0x1000000 = 0 then Some no_operands else None)"

definition i_nop :: "'d sparc_instruction" where
  "i_nop = \<lparr>execute = i_nop_execute, disassemble = i_nop_disassemble, priviledge = 0, format = 0\<rparr>"

definition i_flush_execute :: "operands \<Rightarrow> 'd sparc_state \<Rightarrow> int \<times> 'd sparc_state" where
  "i_flush_execute d s =
     (1, next_pc s)"

definition i_flush_disassemble :: "u32 \<Rightarrow> operands option" where
  "i_flush_disassemble = disassemble3 0x81d80000 2 0x3b"

definition i_flush :: "'d sparc_instruction" where
  "i_flush = \<lparr>execute = i_flush_execute, disassemble = i_flush_disassemble, priviledge = 0, format = 2\<rparr>"

subsection \<open>State registers\<close>

definition unprivileged :: "'d sparc_state \<Rightarrow> bool" where
  "unprivileged s \<longleftrightarrow> psr_bit s PSR_S \<noteq> 1"

definition disassemble_rd :: "u32 \<Rightarrow> u32 \<Rightarrow> u32 \<Rightarrow> operands option" where
  "disassemble_rd code_mask op3v instr =
     (if instr AND code_mask \<noteq> 0 \<and> drop_bit 30 (instr AND 0xc0000000) = 2
         \<and> drop_bit 19 (instr AND 0x01f80000) = op3v
      then Some (no_operands\<lparr>rd := unat (drop_bit 25 (instr AND 0x3e000000))\<rparr>) else None)"

definition i_rdy_execute :: "operands \<Rightarrow> 'd sparc_state \<Rightarrow> int \<times> 'd sparc_state" where
  "i_rdy_execute d s =
     (1, next_pc (set_REG (rd d) (YREG s) s))"

definition i_rdy_disassemble :: "u32 \<Rightarrow> operands option" where
  "i_rdy_disassemble = disassemble3 0x81400000 2 0x28"

definition i_rdy :: "'d sparc_instruction" where
  "i_rdy = \<lparr>execute = i_rdy_execute, disassemble = i_rdy_disassemble, priviledge = 0, format = 2\<rparr>"

definition i_rdpsr_execute :: "operands \<Rightarrow> 'd sparc_state \<Rightarrow> int \<times> 'd sparc_state" where
  "i_rdpsr_execute d s =
     (if unprivileged s then (1, signal PRIVILEGED_INSTR s)
      else (1, next_pc (set_REG (rd d) (PSRREG s) s)))"

definition i_rdpsr_disassemble :: "u32 \<Rightarrow> operands option" where
  "i_rdpsr_disassemble = disassemble_rd 0x81480000 0x29"

definition i_rdpsr :: "'d sparc_instruction" where
  "i_rdpsr = \<lparr>execute = i_rdpsr_execute, disassemble = i_rdpsr_disassemble, priviledge = 1, format = 2\<rparr>"

definition i_rdwim_execute :: "operands \<Rightarrow> 'd sparc_state \<Rightarrow> int \<times> 'd sparc_state" where
  "i_rdwim_execute d s =
     (if unprivileged s then (1, signal PRIVILEGED_INSTR s)
      else (1, next_pc (set_REG (rd d) (WIMREG s) s)))"

definition i_rdwim_disassemble :: "u32 \<Rightarrow> operands option" where
  "i_rdwim_disassemble = disassemble_rd 0x81500000 0x2A"

definition i_rdwim :: "'d sparc_instruction" where
  "i_rdwim = \<lparr>execute = i_rdwim_execute, disassemble = i_rdwim_disassemble, priviledge = 1, format = 2\<rparr>"

definition i_rdtbr_execute :: "operands \<Rightarrow> 'd sparc_state \<Rightarrow> int \<times> 'd sparc_state" where
  "i_rdtbr_execute d s =
     (if unprivileged s then (1, signal PRIVILEGED_INSTR s)
      else (1, next_pc (set_REG (rd d) (TBRREG s) s)))"

definition i_rdtbr_disassemble :: "u32 \<Rightarrow> operands option" where
  "i_rdtbr_disassemble = disassemble_rd 0x81580000 0x2B"

definition i_rdtbr :: "'d sparc_instruction" where
  "i_rdtbr = \<lparr>execute = i_rdtbr_execute, disassemble = i_rdtbr_disassemble, priviledge = 1, format = 2\<rparr>"

definition i_wry_execute :: "operands \<Rightarrow> 'd sparc_state \<Rightarrow> int \<times> 'd sparc_state" where
  "i_wry_execute d s =
     (1, next_pc (s\<lparr>YREG := REG s (rs1 d) XOR operand2 d s\<rparr>))"

definition i_wry_disassemble :: "u32 \<Rightarrow> operands option" where
  "i_wry_disassemble = disassemble3 0x81800000 2 0x30"

definition i_wry :: "'d sparc_instruction" where
  "i_wry = \<lparr>execute = i_wry_execute, disassemble = i_wry_disassemble, priviledge = 1, format = 2\<rparr>"

text \<open>WRPSR writes the register, with the new window number, before it calls \<^verbatim>\<open>iu_set_cwp\<close>.\<close>

definition i_wrpsr_execute :: "operands \<Rightarrow> 'd sparc_state \<Rightarrow> int \<times> 'd sparc_state" where
  "i_wrpsr_execute d s =
     (if unprivileged s then (1, signal PRIVILEGED_INSTR s)
      else (let value = REG s (rs1 d) XOR operand2 d s; ncwp = bits value 4 0
            in if word_of_nat N_WINDOWS \<le> ncwp then (0, signal ILLEGAL_INSTR s)
               else (1, next_pc (iu_set_cwp ncwp
                          (s\<lparr>PSRREG := clear_bits (clear_bits value 19 14) 31 24\<rparr>)))))"

definition i_wrpsr_disassemble :: "u32 \<Rightarrow> operands option" where
  "i_wrpsr_disassemble = disassemble3 0x81880000 2 0x31"

definition i_wrpsr :: "'d sparc_instruction" where
  "i_wrpsr = \<lparr>execute = i_wrpsr_execute, disassemble = i_wrpsr_disassemble, priviledge = 1, format = 2\<rparr>"

definition i_wrwim_execute :: "operands \<Rightarrow> 'd sparc_state \<Rightarrow> int \<times> 'd sparc_state" where
  "i_wrwim_execute d s =
     (if unprivileged s then (1, signal PRIVILEGED_INSTR s)
      else (1, next_pc (s\<lparr>WIMREG := bits (REG s (rs1 d) XOR operand2 d s) (N_WINDOWS - 1) 0\<rparr>)))"

definition i_wrwim_disassemble :: "u32 \<Rightarrow> operands option" where
  "i_wrwim_disassemble = disassemble3 0x81900000 2 0x32"

definition i_wrwim :: "'d sparc_instruction" where
  "i_wrwim = \<lparr>execute = i_wrwim_execute, disassemble = i_wrwim_disassemble, priviledge = 1, format = 2\<rparr>"

text \<open>WRTBR does not extend the sign of its immediate.\<close>

definition i_wrtbr_execute :: "operands \<Rightarrow> 'd sparc_state \<Rightarrow> int \<times> 'd sparc_state" where
  "i_wrtbr_execute d s =
     (if unprivileged s then (1, signal PRIVILEGED_INSTR s)
      else (1, next_pc (s\<lparr>TBRREG := REG s (rs1 d) XOR
              (if imm d < 0 then REG s (nat (rs2 d)) else word_of_int (imm d))\<rparr>)))"

definition i_wrtbr_disassemble :: "u32 \<Rightarrow> operands option" where
  "i_wrtbr_disassemble = disassemble3 0x81980000 2 0x33"

definition i_wrtbr :: "'d sparc_instruction" where
  "i_wrtbr = \<lparr>execute = i_wrtbr_execute, disassemble = i_wrtbr_disassemble, priviledge = 1, format = 2\<rparr>"

end
