(* ===== verification/Sparc_Ctrl.thy ===== *)
theory Sparc_Ctrl
  imports Sparc_Alu
begin

text \<open>
  The SPARC instructions that transfer control: branches on the integer conditions, CALL, JMPL,
  SAVE and RESTORE, traps and the return from them (arch_sparc/instructions).
\<close>

subsection \<open>Branches\<close>

text \<open>\<^verbatim>\<open>(disp22 << 10) >> 8\<close>\<close>

definition branch_disp :: "operands \<Rightarrow> u32" where
  "branch_disp d = signed_drop_bit 8 (push_bit 10 (disp d))"

text \<open>The program counters of a conditional branch, which the execute functions share.\<close>

definition branch_if :: "bool \<Rightarrow> operands \<Rightarrow> 'd sparc_state \<Rightarrow> int \<times> 'd sparc_state" where
  "branch_if icc d s =
     (if \<not> icc then
        (if annul d then (1, s\<lparr>PCREG := NPCREG s + 4, NPCREG := NPCREG s + 8\<rparr>)
         else (1, s\<lparr>PCREG := NPCREG s, NPCREG := NPCREG s + 4\<rparr>))
      else (1, s\<lparr>PCREG := NPCREG s, NPCREG := branch_disp d + PCREG s\<rparr>))"

definition disassemble_branch :: "u32 \<Rightarrow> u32 \<Rightarrow> u32 \<Rightarrow> operands option" where
  "disassemble_branch code_mask condv instr =
     (if instr AND code_mask \<noteq> 0 \<and> bits instr 31 30 = 0 \<and> bits instr 28 25 = condv
      then Some (no_operands\<lparr>annul := bit instr 29, disp := bits instr 21 0\<rparr>) else None)"

definition icc_N :: "'d sparc_state \<Rightarrow> bool" where "icc_N s \<longleftrightarrow> psr_bit s PSR_icc_N = 1"
definition icc_Z :: "'d sparc_state \<Rightarrow> bool" where "icc_Z s \<longleftrightarrow> psr_bit s PSR_icc_Z = 1"
definition icc_V :: "'d sparc_state \<Rightarrow> bool" where "icc_V s \<longleftrightarrow> psr_bit s PSR_icc_V = 1"
definition icc_C :: "'d sparc_state \<Rightarrow> bool" where "icc_C s \<longleftrightarrow> psr_bit s PSR_icc_C = 1"

definition i_ba_execute :: "operands \<Rightarrow> 'd sparc_state \<Rightarrow> int \<times> 'd sparc_state" where
  "i_ba_execute d s =
     (if annul d then (1, s\<lparr>PCREG := PCREG s + branch_disp d, NPCREG := PCREG s + branch_disp d + 4\<rparr>)
      else (1, s\<lparr>PCREG := NPCREG s, NPCREG := PCREG s + branch_disp d\<rparr>))"

definition i_ba_disassemble :: "u32 \<Rightarrow> operands option" where
  "i_ba_disassemble = disassemble_branch 0x10800000 0x8"

definition i_ba :: "'d sparc_instruction" where
  "i_ba = \<lparr>execute = i_ba_execute, disassemble = i_ba_disassemble, priviledge = 0, format = 0\<rparr>"

text \<open>The condition field of BN is cut out with the mask of another field.\<close>

definition i_bn_execute :: "operands \<Rightarrow> 'd sparc_state \<Rightarrow> int \<times> 'd sparc_state" where
  "i_bn_execute d s =
     (if annul d then (1, s\<lparr>PCREG := NPCREG s + 8, NPCREG := NPCREG s + 8\<rparr>)
      else (1, s\<lparr>PCREG := NPCREG s, NPCREG := NPCREG s + 4\<rparr>))"

definition i_bn_disassemble :: "u32 \<Rightarrow> operands option" where
  "i_bn_disassemble instr =
     (if instr AND 0x0080000 \<noteq> 0 \<and> drop_bit 30 (instr AND 0xc0000000) = 0
         \<and> drop_bit 25 (instr AND 0x01f80000) = 0x8
      then Some (no_operands\<lparr>annul := bit instr 29, disp := instr AND 0x003fffff\<rparr>) else None)"

definition i_bn :: "'d sparc_instruction" where
  "i_bn = \<lparr>execute = i_bn_execute, disassemble = i_bn_disassemble, priviledge = 0, format = 0\<rparr>"

definition i_be_execute :: "operands \<Rightarrow> 'd sparc_state \<Rightarrow> int \<times> 'd sparc_state" where
  "i_be_execute d s =
     branch_if (icc_Z s) d s"

definition i_be_disassemble :: "u32 \<Rightarrow> operands option" where
  "i_be_disassemble = disassemble_branch 0x02800000 0x1"

definition i_be :: "'d sparc_instruction" where
  "i_be = \<lparr>execute = i_be_execute, disassemble = i_be_disassemble, priviledge = 0, format = 0\<rparr>"

definition i_bne_execute :: "operands \<Rightarrow> 'd sparc_state \<Rightarrow> int \<times> 'd sparc_state" where
  "i_bne_execute d s =
     branch_if (\<not> icc_Z s) d s"

definition i_bne_disassemble :: "u32 \<Rightarrow> operands option" where
  "i_bne_disassemble = disassemble_branch 0x12800000 0x9"

definition i_bne :: "'d sparc_instruction" where
  "i_bne = \<lparr>execute = i_bne_execute, disassemble = i_bne_disassemble, priviledge = 0, format = 0\<rparr>"

definition i_bg_execute :: "operands \<Rightarrow> 'd sparc_state \<Rightarrow> int \<times> 'd sparc_state" where
  "i_bg_execute d s =
     branch_if (\<not> (icc_Z s \<or> icc_N s \<noteq> icc_V s)) d s"

definition i_bg_disassemble :: "u32 \<Rightarrow> operands option" where
  "i_bg_disassemble = disassemble_branch 0x14800000 0xa"

definition i_bg :: "'d sparc_instruction" where
  "i_bg = \<lparr>execute = i_bg_execute, disassemble = i_bg_disassemble, priviledge = 0, format = 0\<rparr>"

definition i_ble_execute :: "operands \<Rightarrow> 'd sparc_state \<Rightarrow> int \<times> 'd sparc_state" where
  "i_ble_execute d s =
     branch_if (icc_Z s \<or> icc_N s \<noteq> icc_V s) d s"

definition i_ble_disassemble :: "u32 \<Rightarrow> operands option" where
  "i_ble_disassemble = disassemble_branch 0x04800000 0x2"

definition i_ble :: "'d sparc_instruction" where
  "i_ble = \<lparr>execute = i_ble_execute, disassemble = i_ble_disassemble, priviledge = 0, format = 0\<rparr>"

definition i_bge_execute :: "operands \<Rightarrow> 'd sparc_state \<Rightarrow> int \<times> 'd sparc_state" where
  "i_bge_execute d s =
     branch_if (\<not> (icc_N s \<noteq> icc_V s)) d s"

definition i_bge_disassemble :: "u32 \<Rightarrow> operands option" where
  "i_bge_disassemble = disassemble_branch 0x16800000 0xb"

definition i_bge :: "'d sparc_instruction" where
  "i_bge = \<lparr>execute = i_bge_execute, disassemble = i_bge_disassemble, priviledge = 0, format = 0\<rparr>"

definition i_bl_execute :: "operands \<Rightarrow> 'd sparc_state \<Rightarrow> int \<times> 'd sparc_state" where
  "i_bl_execute d s =
     branch_if (icc_N s \<noteq> icc_V s) d s"

definition i_bl_disassemble :: "u32 \<Rightarrow> operands option" where
  "i_bl_disassemble = disassemble_branch 0x06800000 0x3"

definition i_bl :: "'d sparc_instruction" where
  "i_bl = \<lparr>execute = i_bl_execute, disassemble = i_bl_disassemble, priviledge = 0, format = 0\<rparr>"

definition i_bgu_execute :: "operands \<Rightarrow> 'd sparc_state \<Rightarrow> int \<times> 'd sparc_state" where
  "i_bgu_execute d s =
     branch_if (\<not> (icc_C s \<or> icc_Z s)) d s"

definition i_bgu_disassemble :: "u32 \<Rightarrow> operands option" where
  "i_bgu_disassemble = disassemble_branch 0x18800000 0xc"

definition i_bgu :: "'d sparc_instruction" where
  "i_bgu = \<lparr>execute = i_bgu_execute, disassemble = i_bgu_disassemble, priviledge = 0, format = 0\<rparr>"

definition i_bleu_execute :: "operands \<Rightarrow> 'd sparc_state \<Rightarrow> int \<times> 'd sparc_state" where
  "i_bleu_execute d s =
     branch_if (icc_C s \<or> icc_Z s) d s"

definition i_bleu_disassemble :: "u32 \<Rightarrow> operands option" where
  "i_bleu_disassemble = disassemble_branch 0x08800000 0x4"

definition i_bleu :: "'d sparc_instruction" where
  "i_bleu = \<lparr>execute = i_bleu_execute, disassemble = i_bleu_disassemble, priviledge = 0, format = 0\<rparr>"

definition i_bcc_execute :: "operands \<Rightarrow> 'd sparc_state \<Rightarrow> int \<times> 'd sparc_state" where
  "i_bcc_execute d s =
     branch_if (\<not> icc_C s) d s"

definition i_bcc_disassemble :: "u32 \<Rightarrow> operands option" where
  "i_bcc_disassemble = disassemble_branch 0x1a800000 0xd"

definition i_bcc :: "'d sparc_instruction" where
  "i_bcc = \<lparr>execute = i_bcc_execute, disassemble = i_bcc_disassemble, priviledge = 0, format = 0\<rparr>"

definition i_bcs_execute :: "operands \<Rightarrow> 'd sparc_state \<Rightarrow> int \<times> 'd sparc_state" where
  "i_bcs_execute d s =
     branch_if (icc_C s) d s"

definition i_bcs_disassemble :: "u32 \<Rightarrow> operands option" where
  "i_bcs_disassemble = disassemble_branch 0x0a800000 0x5"

definition i_bcs :: "'d sparc_instruction" where
  "i_bcs = \<lparr>execute = i_bcs_execute, disassemble = i_bcs_disassemble, priviledge = 0, format = 0\<rparr>"

definition i_bpos_execute :: "operands \<Rightarrow> 'd sparc_state \<Rightarrow> int \<times> 'd sparc_state" where
  "i_bpos_execute d s =
     branch_if (\<not> icc_N s) d s"

definition i_bpos_disassemble :: "u32 \<Rightarrow> operands option" where
  "i_bpos_disassemble = disassemble_branch 0x1c800000 0xe"

definition i_bpos :: "'d sparc_instruction" where
  "i_bpos = \<lparr>execute = i_bpos_execute, disassemble = i_bpos_disassemble, priviledge = 0, format = 0\<rparr>"

definition i_bneg_execute :: "operands \<Rightarrow> 'd sparc_state \<Rightarrow> int \<times> 'd sparc_state" where
  "i_bneg_execute d s =
     branch_if (icc_N s) d s"

definition i_bneg_disassemble :: "u32 \<Rightarrow> operands option" where
  "i_bneg_disassemble = disassemble_branch 0x0c800000 0x6"

definition i_bneg :: "'d sparc_instruction" where
  "i_bneg = \<lparr>execute = i_bneg_execute, disassemble = i_bneg_disassemble, priviledge = 0, format = 0\<rparr>"

definition i_bvc_execute :: "operands \<Rightarrow> 'd sparc_state \<Rightarrow> int \<times> 'd sparc_state" where
  "i_bvc_execute d s =
     branch_if (\<not> icc_V s) d s"

definition i_bvc_disassemble :: "u32 \<Rightarrow> operands option" where
  "i_bvc_disassemble = disassemble_branch 0x1e800000 0xf"

definition i_bvc :: "'d sparc_instruction" where
  "i_bvc = \<lparr>execute = i_bvc_execute, disassemble = i_bvc_disassemble, priviledge = 0, format = 0\<rparr>"

definition i_bvs_execute :: "operands \<Rightarrow> 'd sparc_state \<Rightarrow> int \<times> 'd sparc_state" where
  "i_bvs_execute d s =
     branch_if (icc_V s) d s"

definition i_bvs_disassemble :: "u32 \<Rightarrow> operands option" where
  "i_bvs_disassemble = disassemble_branch 0x0e800000 0x7"

definition i_bvs :: "'d sparc_instruction" where
  "i_bvs = \<lparr>execute = i_bvs_execute, disassemble = i_bvs_disassemble, priviledge = 0, format = 0\<rparr>"

subsection \<open>CALL and JMPL\<close>

definition i_call_execute :: "operands \<Rightarrow> 'd sparc_state \<Rightarrow> int \<times> 'd sparc_state" where
  "i_call_execute d s =
     (let s1 = set_REG O7 (PCREG s) s
      in (1, s1\<lparr>PCREG := NPCREG s, NPCREG := push_bit 2 (disp d) + PCREG s\<rparr>))"

definition i_call_disassemble :: "u32 \<Rightarrow> operands option" where
  "i_call_disassemble instr =
     (if bits instr 31 30 = 1 then Some (no_operands\<lparr>disp := bits instr 29 0\<rparr>) else None)"

definition i_call :: "'d sparc_instruction" where
  "i_call = \<lparr>execute = i_call_execute, disassemble = i_call_disassemble, priviledge = 0, format = 1\<rparr>"

definition i_jmpl_execute :: "operands \<Rightarrow> 'd sparc_state \<Rightarrow> int \<times> 'd sparc_state" where
  "i_jmpl_execute d s =
     (let daddr = REG s (rs1 d) + operand2 d s
      in if daddr AND 3 \<noteq> 0 then (1, signal MEM_ADDR_NOT_ALIGNED s)
         else (1, (set_REG (rd d) (PCREG s) s)\<lparr>PCREG := NPCREG s, NPCREG := daddr\<rparr>))"

definition i_jmpl_disassemble :: "u32 \<Rightarrow> operands option" where
  "i_jmpl_disassemble = disassemble3 0x81c00000 2 0x38"

definition i_jmpl :: "'d sparc_instruction" where
  "i_jmpl = \<lparr>execute = i_jmpl_execute, disassemble = i_jmpl_disassemble, priviledge = 0, format = 2\<rparr>"

subsection \<open>SAVE and RESTORE\<close>

text \<open>The sum is taken in the old window and written in the new one.\<close>

definition window_invalid :: "u32 \<Rightarrow> 'd sparc_state \<Rightarrow> bool" where
  "window_invalid w s \<longleftrightarrow> push_bit (unat w) 1 AND WIMREG s \<noteq> 0"

definition i_save_execute :: "operands \<Rightarrow> 'd sparc_state \<Rightarrow> int \<times> 'd sparc_state" where
  "i_save_execute d s =
     (let sum = REG s (rs1 d) + operand2 d s
      in if window_invalid ((CWP s - 1) AND word_of_nat (N_WINDOWS - 1)) s then (1, signal WOF s)
         else (1, next_pc (set_REG (rd d) sum (iu_sub_cwp s))))"

definition i_save_disassemble :: "u32 \<Rightarrow> operands option" where
  "i_save_disassemble = disassemble3 0x81e00000 2 0x3c"

definition i_save :: "'d sparc_instruction" where
  "i_save = \<lparr>execute = i_save_execute, disassemble = i_save_disassemble, priviledge = 0, format = 2\<rparr>"

definition i_restore_execute :: "operands \<Rightarrow> 'd sparc_state \<Rightarrow> int \<times> 'd sparc_state" where
  "i_restore_execute d s =
     (let sum = REG s (rs1 d) + operand2 d s
      in if window_invalid ((CWP s + 1) AND word_of_nat (N_WINDOWS - 1)) s then (1, signal WUF s)
         else (1, next_pc (set_REG (rd d) sum (iu_add_cwp s))))"

definition i_restore_disassemble :: "u32 \<Rightarrow> operands option" where
  "i_restore_disassemble = disassemble3 0x81e80000 2 0x3d"

definition i_restore :: "'d sparc_instruction" where
  "i_restore = \<lparr>execute = i_restore_execute, disassemble = i_restore_disassemble, priviledge = 0, format = 2\<rparr>"

subsection \<open>RETT and Ticc\<close>

definition i_rett_execute :: "operands \<Rightarrow> 'd sparc_state \<Rightarrow> int \<times> 'd sparc_state" where
  "i_rett_execute d s =
     (let S = psr_bit s PSR_S; ET = psr_bit s PSR_ET; daddr = REG s (rs1 d) + operand2 d s
      in if ET = 1 \<and> S = 0 then (2, signal PRIVILEGED_INSTR s)
         else if ET = 1 \<and> S = 1 then (2, signal ILLEGAL_INSTR s)
         else if S = 0 then (2, signal PRIVILEGED_INSTR s)
         else if window_invalid ((CWP s + 1) mod word_of_nat N_WINDOWS) s then (2, signal WUF s)
         else if daddr AND 3 \<noteq> 0 then (2, signal MEM_ADDR_NOT_ALIGNED s)
         else (let s1 = (iu_add_cwp s)\<lparr>PCREG := NPCREG s, NPCREG := daddr\<rparr>;
                   s2 = (if psr_bit s1 PSR_PS = 1 then psr_set PSR_S s1 else psr_clear PSR_S s1)
               in (2, psr_set PSR_ET s2)))"

definition i_rett_disassemble :: "u32 \<Rightarrow> operands option" where
  "i_rett_disassemble = disassemble3 0x81c80000 2 0x39"

definition i_rett :: "'d sparc_instruction" where
  "i_rett = \<lparr>execute = i_rett_execute, disassemble = i_rett_disassemble, priviledge = 1, format = 2\<rparr>"

text \<open>The condition of a Ticc is not looked at: all of them are executed as TA.\<close>

definition i_ta_execute :: "operands \<Rightarrow> 'd sparc_state \<Rightarrow> int \<times> 'd sparc_state" where
  "i_ta_execute d s =
     (let tt = 128 + uint (bits (REG s (rs1 d)) 6 0) +
                 (if imm d < 0 then uint (bits (REG s (nat (rs2 d))) 6 0) else imm d)
      in (1, signal tt s))"

definition i_ta_disassemble :: "u32 \<Rightarrow> operands option" where
  "i_ta_disassemble instr =
     (if instr AND 0x91d00000 \<noteq> 0 \<and> bits instr 31 30 = 2 \<and> bits instr 24 19 = 0x3a
      then (let d = no_operands\<lparr>rs1 := unat (bits instr 18 14)\<rparr>
            in Some (if bit instr 13 then d\<lparr>imm := uint (bits instr 6 0)\<rparr>
                     else d\<lparr>rs2 := uint (bits instr 4 0)\<rparr>))
      else None)"

definition i_ta :: "'d sparc_instruction" where
  "i_ta = \<lparr>execute = i_ta_execute, disassemble = i_ta_disassemble, priviledge = 0, format = 2\<rparr>"

end
