(* ===== verification/Sparc_Mem.thy ===== *)
theory Sparc_Mem
  imports Sparc_Ctrl
begin

text \<open>
  The SPARC loads and stores of integer and floating-point registers (arch_sparc/instructions).
  A failed access signals \<^verbatim>\<open>DATA_STORE_ERROR\<close>, loads included; the bus never reports one.
\<close>

definition mem_addr :: "operands \<Rightarrow> 'd sparc_state \<Rightarrow> u32" where
  "mem_addr d s = REG s (rs1 d) + operand2 d s"

definition finish_access :: "int \<Rightarrow> 'd sparc_state \<Rightarrow> int \<times> 'd sparc_state" where
  "finish_access status s = (1, if status < 0 then signal DATA_STORE_ERROR s else next_pc s)"

definition fp_enabled :: "'d sparc_state \<Rightarrow> bool" where
  "fp_enabled s \<longleftrightarrow> psr_bit s PSR_EF \<noteq> 0"

subsection \<open>Loads\<close>

text \<open>The load of one datum of \<open>sz\<close> bits, with what is done to it, after the alignment check.\<close>

definition load_to :: "nat \<Rightarrow> (u32 \<Rightarrow> u32) \<Rightarrow> u32 \<Rightarrow> nat \<Rightarrow> 'd sparc_state \<Rightarrow> int \<times> 'd sparc_state" where
  "load_to sz f addr r s =
     (case sparc_memory_read sz 0 addr s of (v, status, s1) \<Rightarrow> finish_access status (set_REG r (f v) s1))"

definition i_ldsb_execute :: "operands \<Rightarrow> 'd sparc_state \<Rightarrow> int \<times> 'd sparc_state" where
  "i_ldsb_execute d s =
     load_to 8 (\<lambda>v. if drop_bit 7 v \<noteq> 0 then v OR 0xffffff00 else v) (mem_addr d s) (rd d) s"

definition i_ldsb_disassemble :: "u32 \<Rightarrow> operands option" where
  "i_ldsb_disassemble = disassemble3 0xc0480000 3 0x09"

definition i_ldsb :: "'d sparc_instruction" where
  "i_ldsb = \<lparr>execute = i_ldsb_execute, disassemble = i_ldsb_disassemble, priviledge = 0, format = 3\<rparr>"

definition i_ldsh_execute :: "operands \<Rightarrow> 'd sparc_state \<Rightarrow> int \<times> 'd sparc_state" where
  "i_ldsh_execute d s =
     (if mem_addr d s AND 1 \<noteq> 0 then (1, signal MEM_ADDR_NOT_ALIGNED s)
      else load_to 16 (\<lambda>v. if drop_bit 15 v \<noteq> 0 then v OR 0xffff0000 else v) (mem_addr d s) (rd d) s)"

definition i_ldsh_disassemble :: "u32 \<Rightarrow> operands option" where
  "i_ldsh_disassemble = disassemble3 0xc0500000 3 0x0a"

definition i_ldsh :: "'d sparc_instruction" where
  "i_ldsh = \<lparr>execute = i_ldsh_execute, disassemble = i_ldsh_disassemble, priviledge = 0, format = 3\<rparr>"

definition i_ldub_execute :: "operands \<Rightarrow> 'd sparc_state \<Rightarrow> int \<times> 'd sparc_state" where
  "i_ldub_execute d s =
     load_to 8 (\<lambda>v. v) (mem_addr d s) (rd d) s"

definition i_ldub_disassemble :: "u32 \<Rightarrow> operands option" where
  "i_ldub_disassemble = disassemble3 0xc0080000 3 0x01"

definition i_ldub :: "'d sparc_instruction" where
  "i_ldub = \<lparr>execute = i_ldub_execute, disassemble = i_ldub_disassemble, priviledge = 0, format = 3\<rparr>"

definition i_lduh_execute :: "operands \<Rightarrow> 'd sparc_state \<Rightarrow> int \<times> 'd sparc_state" where
  "i_lduh_execute d s =
     (if mem_addr d s AND 1 \<noteq> 0 then (1, signal MEM_ADDR_NOT_ALIGNED s)
      else load_to 16 (\<lambda>v. v) (mem_addr d s) (rd d) s)"

definition i_lduh_disassemble :: "u32 \<Rightarrow> operands option" where
  "i_lduh_disassemble = disassemble3 0xc0100000 3 0x02"

definition i_lduh :: "'d sparc_instruction" where
  "i_lduh = \<lparr>execute = i_lduh_execute, disassemble = i_lduh_disassemble, priviledge = 0, format = 3\<rparr>"

definition i_ld_execute :: "operands \<Rightarrow> 'd sparc_state \<Rightarrow> int \<times> 'd sparc_state" where
  "i_ld_execute d s =
     (if mem_addr d s AND 3 \<noteq> 0 then (1, signal MEM_ADDR_NOT_ALIGNED s)
      else load_to 32 (\<lambda>v. v) (mem_addr d s) (rd d) s)"

definition i_ld_disassemble :: "u32 \<Rightarrow> operands option" where
  "i_ld_disassemble = disassemble3 0xc0000000 3 0x0"

definition i_ld :: "'d sparc_instruction" where
  "i_ld = \<lparr>execute = i_ld_execute, disassemble = i_ld_disassemble, priviledge = 0, format = 3\<rparr>"

text \<open>The double word: the first access is finished before the second; only the status of the second counts.\<close>

definition i_ldd_execute :: "operands \<Rightarrow> 'd sparc_state \<Rightarrow> int \<times> 'd sparc_state" where
  "i_ldd_execute d s =
     (let addr = mem_addr d s
      in if addr AND 7 \<noteq> 0 then (1, signal MEM_ADDR_NOT_ALIGNED s)
         else if odd (rd d) then (1, signal ILLEGAL_INSTR s)
         else (case sparc_memory_read 32 0 addr s of (v, st, s1) \<Rightarrow>
                case sparc_memory_read 32 v (addr + 4) (set_REG (rd d) v s1) of (v2, status, s2) \<Rightarrow>
                  finish_access status (set_REG (rd d + 1) v2 s2)))"

definition i_ldd_disassemble :: "u32 \<Rightarrow> operands option" where
  "i_ldd_disassemble = disassemble3 0xc0180000 3 0x03"

definition i_ldd :: "'d sparc_instruction" where
  "i_ldd = \<lparr>execute = i_ldd_execute, disassemble = i_ldd_disassemble, priviledge = 0, format = 3\<rparr>"

definition set_FPREG :: "nat \<Rightarrow> u32 \<Rightarrow> 'd sparc_state \<Rightarrow> 'd sparc_state" where
  "set_FPREG r v s = s\<lparr>FPREG := (FPREG s)(r := v)\<rparr>"

definition i_ldf_execute :: "operands \<Rightarrow> 'd sparc_state \<Rightarrow> int \<times> 'd sparc_state" where
  "i_ldf_execute d s =
     (if \<not> fp_enabled s then (1, signal FP_DISABLED s)
      else if mem_addr d s AND 3 \<noteq> 0 then (1, signal MEM_ADDR_NOT_ALIGNED s)
      else (case sparc_memory_read 32 0 (mem_addr d s) s of (v, status, s1) \<Rightarrow>
              finish_access status (set_FPREG (rd d) v s1)))"

definition i_ldf_disassemble :: "u32 \<Rightarrow> operands option" where
  "i_ldf_disassemble = disassemble3 0xc1000000 3 0x20"

definition i_ldf :: "'d sparc_instruction" where
  "i_ldf = \<lparr>execute = i_ldf_execute, disassemble = i_ldf_disassemble, priviledge = 0, format = 3\<rparr>"

definition i_lddf_execute :: "operands \<Rightarrow> 'd sparc_state \<Rightarrow> int \<times> 'd sparc_state" where
  "i_lddf_execute d s =
     (let addr = mem_addr d s
      in if \<not> fp_enabled s then (1, signal FP_DISABLED s)
         else if addr AND 7 \<noteq> 0 then (1, signal MEM_ADDR_NOT_ALIGNED s)
         else if odd (rd d) then (1, signal ILLEGAL_INSTR s)
         else (case sparc_memory_read 32 0 addr s of (v, st, s1) \<Rightarrow>
                case sparc_memory_read 32 v (addr + 4) (set_FPREG (rd d) v s1) of (v2, status, s2) \<Rightarrow>
                  finish_access status (set_FPREG (rd d + 1) v2 s2)))"

definition i_lddf_disassemble :: "u32 \<Rightarrow> operands option" where
  "i_lddf_disassemble = disassemble3 0xc1180000 3 0x23"

definition i_lddf :: "'d sparc_instruction" where
  "i_lddf = \<lparr>execute = i_lddf_execute, disassemble = i_lddf_disassemble, priviledge = 0, format = 3\<rparr>"

subsection \<open>Stores\<close>

definition store_word :: "u32 \<Rightarrow> u32 \<Rightarrow> 'd sparc_state \<Rightarrow> int \<times> 'd sparc_state" where
  "store_word addr v s =
     (case sparc_memory_store 32 addr v s of (status, s1) \<Rightarrow> finish_access status s1)"

definition store_double :: "u32 \<Rightarrow> u32 \<Rightarrow> u32 \<Rightarrow> 'd sparc_state \<Rightarrow> int \<times> 'd sparc_state" where
  "store_double addr v v2 s =
     (case sparc_memory_store 32 addr v s of (st, s1) \<Rightarrow> store_word (addr + 4) v2 s1)"

text \<open>
  ST, STF and STFSR take nine bits for the second register, four of them of the field for the
  address space. A number that is no register reads beyond the window, and beyond the
  array of 520 words when it is large enough.
\<close>

definition disassemble_st :: "u32 \<Rightarrow> u32 \<Rightarrow> u32 \<Rightarrow> operands option" where
  "disassemble_st code_mask op3v instr =
     (case disassemble3 code_mask 3 op3v instr of
        None \<Rightarrow> None
      | Some d \<Rightarrow> Some (if bit instr 13 then d else d\<lparr>rs2 := uint (bits instr 8 0)\<rparr>))"

definition array_guard :: "operands \<Rightarrow> 'd sparc_state \<Rightarrow> 'd sparc_state" where
  "array_guard d s =
     (if imm d < 0 \<and> 520 \<le> regwptr s + nat (rs2 d) - 8 then sparc_halt Out_of_bounds s else s)"

definition i_st_execute :: "operands \<Rightarrow> 'd sparc_state \<Rightarrow> int \<times> 'd sparc_state" where
  "i_st_execute d s =
     (if mem_addr d s AND 3 \<noteq> 0 then (1, signal MEM_ADDR_NOT_ALIGNED (array_guard d s))
      else store_word (mem_addr d s) (REG s (rd d)) (array_guard d s))"

definition i_st_disassemble :: "u32 \<Rightarrow> operands option" where
  "i_st_disassemble = disassemble_st 0xc0200000 0x04"

definition i_st :: "'d sparc_instruction" where
  "i_st = \<lparr>execute = i_st_execute, disassemble = i_st_disassemble, priviledge = 0, format = 3\<rparr>"

definition i_stb_execute :: "operands \<Rightarrow> 'd sparc_state \<Rightarrow> int \<times> 'd sparc_state" where
  "i_stb_execute d s =
     (case sparc_memory_store 8 (mem_addr d s) (REG s (rd d) AND 0xff) s of
        (status, s1) \<Rightarrow> finish_access status s1)"

definition i_stb_disassemble :: "u32 \<Rightarrow> operands option" where
  "i_stb_disassemble = disassemble3 0xc0280000 3 0x05"

definition i_stb :: "'d sparc_instruction" where
  "i_stb = \<lparr>execute = i_stb_execute, disassemble = i_stb_disassemble, priviledge = 0, format = 3\<rparr>"

definition i_sth_execute :: "operands \<Rightarrow> 'd sparc_state \<Rightarrow> int \<times> 'd sparc_state" where
  "i_sth_execute d s =
     (if mem_addr d s AND 1 \<noteq> 0 then (1, signal MEM_ADDR_NOT_ALIGNED s)
      else (case sparc_memory_store 16 (mem_addr d s) (REG s (rd d) AND 0xffff) s of
              (status, s1) \<Rightarrow> finish_access status s1))"

definition i_sth_disassemble :: "u32 \<Rightarrow> operands option" where
  "i_sth_disassemble = disassemble3 0xc0300000 3 0x06"

definition i_sth :: "'d sparc_instruction" where
  "i_sth = \<lparr>execute = i_sth_execute, disassemble = i_sth_disassemble, priviledge = 0, format = 3\<rparr>"

text \<open>The immediate form of STD computes its address in a variable of an inner block; the one that is used stays 0.\<close>

definition i_std_execute :: "operands \<Rightarrow> 'd sparc_state \<Rightarrow> int \<times> 'd sparc_state" where
  "i_std_execute d s =
     (if odd (rd d) then (1, signal ILLEGAL_INSTR s)
      else if mem_addr d s AND 7 \<noteq> 0 then (1, signal MEM_ADDR_NOT_ALIGNED s)
      else store_double (if imm d < 0 then mem_addr d s else 0) (REG s (rd d)) (REG s (rd d + 1)) s)"

definition i_std_disassemble :: "u32 \<Rightarrow> operands option" where
  "i_std_disassemble = disassemble3 0xc0380000 3 0x07"

definition i_std :: "'d sparc_instruction" where
  "i_std = \<lparr>execute = i_std_execute, disassemble = i_std_disassemble, priviledge = 0, format = 3\<rparr>"

text \<open>The floating-point stores trap when the floating-point unit is enabled.\<close>

definition i_stf_execute :: "operands \<Rightarrow> 'd sparc_state \<Rightarrow> int \<times> 'd sparc_state" where
  "i_stf_execute d s =
     (if fp_enabled s then (1, signal FP_DISABLED s)
      else if mem_addr d s AND 3 \<noteq> 0 then (1, signal MEM_ADDR_NOT_ALIGNED (array_guard d s))
      else store_word (mem_addr d s) (FPREG s (rd d)) (array_guard d s))"

definition i_stf_disassemble :: "u32 \<Rightarrow> operands option" where
  "i_stf_disassemble = disassemble_st 0xc1200000 0x24"

definition i_stf :: "'d sparc_instruction" where
  "i_stf = \<lparr>execute = i_stf_execute, disassemble = i_stf_disassemble, priviledge = 0, format = 3\<rparr>"

definition i_stdf_execute :: "operands \<Rightarrow> 'd sparc_state \<Rightarrow> int \<times> 'd sparc_state" where
  "i_stdf_execute d s =
     (if fp_enabled s then (1, signal FP_DISABLED s)
      else if odd (rd d) then (1, signal ILLEGAL_INSTR s)
      else if mem_addr d s AND 7 \<noteq> 0 then (1, signal MEM_ADDR_NOT_ALIGNED s)
      else store_double (mem_addr d s) (FPREG s (rd d)) (FPREG s (rd d + 1)) s)"

definition i_stdf_disassemble :: "u32 \<Rightarrow> operands option" where
  "i_stdf_disassemble = disassemble3 0xc1380000 3 0x27"

definition i_stdf :: "'d sparc_instruction" where
  "i_stdf = \<lparr>execute = i_stdf_execute, disassemble = i_stdf_disassemble, priviledge = 0, format = 3\<rparr>"

definition i_stfsr_execute :: "operands \<Rightarrow> 'd sparc_state \<Rightarrow> int \<times> 'd sparc_state" where
  "i_stfsr_execute d s =
     (if fp_enabled s then (1, signal FP_DISABLED s)
      else if mem_addr d s AND 3 \<noteq> 0 then (1, signal MEM_ADDR_NOT_ALIGNED (array_guard d s))
      else store_word (mem_addr d s) (FPSRREG s) (array_guard d s))"

definition i_stfsr_disassemble :: "u32 \<Rightarrow> operands option" where
  "i_stfsr_disassemble = disassemble_st 0xc1280000 0x25"

definition i_stfsr :: "'d sparc_instruction" where
  "i_stfsr = \<lparr>execute = i_stfsr_execute, disassemble = i_stfsr_disassemble, priviledge = 0, format = 3\<rparr>"

end
