(* ===== verification/Sparc_Iu.thy ===== *)
theory Sparc_Iu
  imports Sparc_Mem
begin

text \<open>
  The integer unit: its instruction table, dispatch, one processor cycle, pending traps and
  initialisation (arch_sparc/common/iu.c), and the interface to the front end
  (arch_sparc/common/sparc_arch_interface.c).
\<close>

subsection \<open>The instruction table\<close>

text \<open>The instructions in the order of \<^verbatim>\<open>iu_isa_register\<close>; \<open>i_set\<close> is the table of one format.\<close>

definition isa :: "'d sparc_instruction list" where
  "isa =
     [i_nop,
      i_or, i_and, i_andn, i_orn, i_xor, i_xnor, i_orcc, i_andcc, i_andncc,
      i_sll, i_srl, i_sra,
      i_add, i_addx, i_addcc,
      i_sub, i_subx, i_subcc, i_subxcc,
      i_stb, i_sth, i_st, i_std,
      i_sethi,
      i_jmpl,
      i_wry, i_wrpsr, i_wrwim, i_wrtbr,
      i_rdy, i_rdpsr, i_rdwim, i_rdtbr,
      i_ldsb, i_ldsh, i_ldub, i_lduh, i_ld, i_ldd,
      i_ba, i_bn, i_bne, i_be, i_bg, i_ble, i_bge, i_bl, i_bgu, i_bleu, i_bcc, i_bcs, i_bpos, i_bneg,
      i_bvc, i_bvs,
      i_flush,
      i_save, i_restore,
      i_ldf, i_lddf,
      i_call,
      i_rett,
      i_ta,
      i_stf, i_stdf, i_stfsr,
      i_udiv, i_smul, i_umul,
      i_mulscc]"

definition i_set :: "u32 \<Rightarrow> 'd sparc_instruction list" where
  "i_set fmt = filter (\<lambda>i. format i = fmt) isa"

text \<open>The first instruction of the word's format that accepts it, with its operands.\<close>

definition iu_get_instr :: "u32 \<Rightarrow> (operands \<times> 'd sparc_instruction) option" where
  "iu_get_instr instr =
     (case find (\<lambda>i. disassemble i instr \<noteq> None) (i_set (bits instr 31 30)) of
        None \<Rightarrow> None
      | Some i \<Rightarrow> Some (the (disassemble i instr), i))"

subsection \<open>Cycles and traps\<close>

definition iu_get_pc :: "'d sparc_state \<Rightarrow> u32" where
  "iu_get_pc s = PCREG s"

definition iu_set_pc :: "u32 \<Rightarrow> 'd sparc_state \<Rightarrow> 'd sparc_state" where
  "iu_set_pc addr s = s\<lparr>PCREG := addr, NPCREG := addr + 4\<rparr>"

text \<open>An instruction that is not implemented ends the simulation.\<close>

definition iu_cycle_step :: "'d sparc_state \<Rightarrow> int \<times> 'd sparc_state" where
  "iu_cycle_step s =
     (case sparc_memory_read 32 (instr_junk s) (iu_get_pc s) s of
        (instr, st, s1) \<Rightarrow>
          (case iu_get_instr instr of
             None \<Rightarrow> (0, sparc_halt Skyeye_exit s1)
           | Some (d, i) \<Rightarrow>
               (case execute i d s1 of
                  (cycles, s2) \<Rightarrow>
                    (let s3 = (if 0 < cycles then s2\<lparr>cycle_counter := cycle_counter s2 + word_of_int cycles\<rparr> else s2)
                     in (cycles, set_REG 0 0 s3)))))"

definition iu_trap_cycle :: "'d sparc_state \<Rightarrow> 'd sparc_state" where
  "iu_trap_cycle s = (if irq_pending s then (trigger s)\<lparr>irq_pending := False\<rparr> else s)"

text \<open>
  \<^verbatim>\<open>iu_init_state\<close>. The static structure it starts from is zero at program start. The
  frame pointer is register 30 of window 0, whose word the stack pointer of window 1 shares.
\<close>

definition iu_init_state :: "'d sparc_state \<Rightarrow> 'd sparc_state" where
  "iu_init_state s =
     (let s1 = s\<lparr>irq_pending := False, cycle_counter := 0, regwptr := 0 * 16, PSRREG := 0, WIMREG := 2\<rparr>;
          s2 = psr_set PSR_EF (psr_set PSR_ET (psr_set PSR_PS (psr_set PSR_S s1)));
          s3 = set_REG FP ((0x40000000 + 0x040000) AND 0xFFFFFFF0) s2
      in set_REG SP (REG s3 FP - 0x180) s3)"

subsection \<open>The interface to the front end (sparc_arch_interface.c)\<close>

text \<open>
  \<^verbatim>\<open>sparc_step_once\<close>: an instruction, a pending trap, the devices. After \<^verbatim>\<open>skyeye_exit\<close> nothing
  more is done.
\<close>

definition sparc_io_do_cycle :: "'d sparc_state \<Rightarrow> 'd sparc_state" where
  "sparc_io_do_cycle s =
     s\<lparr>sbus := (sbus s)\<lparr>io := mach_io_do_cycle (mach (sbus s)) (io (sbus s))\<rparr>\<rparr>"

definition sparc_running :: "'d sparc_state \<Rightarrow> bool" where
  "sparc_running s \<longleftrightarrow> halted (sbus s) = None"

definition sparc_step_once :: "'d sparc_state \<Rightarrow> 'd sparc_state" where
  "sparc_step_once s =
     (let s1 = snd (iu_cycle_step s)
      in if \<not> sparc_running s1 then s1
         else (let s2 = iu_trap_cycle s1
               in if \<not> sparc_running s2 then s2 else sparc_io_do_cycle s2))"

definition sparc_reset_state :: "'d sparc_state \<Rightarrow> 'd sparc_state" where
  "sparc_reset_state s =
     (case mach_io_reset (mach (sbus s)) of
        None \<Rightarrow> sparc_halt Skyeye_exit s
      | Some f \<Rightarrow> s\<lparr>sbus := (sbus s)\<lparr>io := f (io (sbus s))\<rparr>\<rparr>)"

definition sparc_set_pc :: "u32 \<Rightarrow> 'd sparc_state \<Rightarrow> 'd sparc_state" where
  "sparc_set_pc addr s = iu_set_pc addr s"

definition sparc_get_pc :: "'d sparc_state \<Rightarrow> u32" where
  "sparc_get_pc s = iu_get_pc s"

definition sparc_ICE_write_byte :: "u32 \<Rightarrow> u8 \<Rightarrow> 'd sparc_state \<Rightarrow> 'd sparc_state" where
  "sparc_ICE_write_byte addr v s = s\<lparr>sbus := bus_write 8 addr (ucast v) (sbus s)\<rparr>"

end
