(* ===== verification/Mach_Leon2.thy ===== *)
theory Mach_Leon2
  imports Sparc_Iu
begin

text \<open>
  The LEON2 board of the SPARC simulator (arch_sparc/mach): its I/O areas (mach_leon2_io.c), UART,
  timer unit, memory configuration, configuration register and interrupt controller. \<open>leon2_machine\<close>
  is the table of handlers that \<^verbatim>\<open>leon2_mach_init\<close> installs.

  A device is an array of registers; a structure of bit fields is the word that holds it. The
  watchdog is never enabled: \<^verbatim>\<open>wdog_enabled\<close> is set nowhere. \<^verbatim>\<open>raise (SIGINT)\<close> is the flag \<open>sigint\<close>.
\<close>

subsection \<open>State\<close>

text \<open>The pair of callbacks that a device registers, and the area it registers them for.\<close>

datatype leon2_device = Uart_area | Timer_area | Mcfg_area | Cfg_area | Irqctrl_area

record io_area =
  area_device :: leon2_device
  area_address :: u32
  area_bsize :: u32

record leon2_io =
  io_areas :: "io_area list"
  uart_address :: u32
  uart_regs :: "nat \<Rightarrow> u32"
  uart_tx :: "u8 list"
  timer_address :: u32
  timer_regs :: "nat \<Rightarrow> u32"
  wdog_enabled :: bool
  mcfg_address :: u32
  mcfg_regs :: "nat \<Rightarrow> u32"
  leon2_cfg :: u32
  irqctrl_address :: u32
  irqctrl_regs :: "nat \<Rightarrow> u32"
  sigint :: bool

definition TIMER1_ADDR :: u32 where "TIMER1_ADDR = 0x80000040"
definition UART1_ADDR :: u32 where "UART1_ADDR = 0x80000070"
definition MCFG_ADDR :: u32 where "MCFG_ADDR = 0x80000000"
definition CFG_ADDR :: u32 where "CFG_ADDR = 0x80000024"
definition IRQCTRL_ADDR :: u32 where "IRQCTRL_ADDR = 0x80000090"
definition TIMER1_INT :: nat where "TIMER1_INT = 9"
definition TIMER2_INT :: nat where "TIMER2_INT = 8"
definition USER_DEFINED_INT1 :: nat where "USER_DEFINED_INT1 = 15"
definition IRQCTRL_NREGS :: u32 where "IRQCTRL_NREGS = 4"
definition TIMER_NREGS :: u32 where "TIMER_NREGS = 10"
definition UART_NREGS :: u32 where "UART_NREGS = 4"
definition MCFG_REGS :: u32 where "MCFG_REGS = 3"

lemmas leon2_map =
  TIMER1_ADDR_def UART1_ADDR_def MCFG_ADDR_def CFG_ADDR_def IRQCTRL_ADDR_def TIMER1_INT_def TIMER2_INT_def
  USER_DEFINED_INT1_def IRQCTRL_NREGS_def TIMER_NREGS_def UART_NREGS_def MCFG_REGS_def

definition leon2_register_io_memory :: "u32 \<Rightarrow> u32 \<Rightarrow> leon2_device \<Rightarrow> leon2_io \<Rightarrow> leon2_io" where
  "leon2_register_io_memory address sz d b =
     b\<lparr>io_areas := io_areas b @ [\<lparr>area_device = d, area_address = address, area_bsize = sz\<rparr>]\<rparr>"

text \<open>\<^verbatim>\<open>(addr - address) >> 2\<close>\<close>

definition reg_index :: "u32 \<Rightarrow> u32 \<Rightarrow> nat" where
  "reg_index addr address = unat (drop_bit 2 (addr - address))"

subsection \<open>Interrupt controller (leon2_irqctrl.c)\<close>

definition IRQCTRL_MASK_AND_PRIORITY_REGISTER :: nat where "IRQCTRL_MASK_AND_PRIORITY_REGISTER = 0"
definition IRQCTRL_PENDING_REGISTER :: nat where "IRQCTRL_PENDING_REGISTER = 1"
definition IRQCTRL_FORCE_REGISTER :: nat where "IRQCTRL_FORCE_REGISTER = 2"
definition IRQCTRL_CLEAR_REGISTER :: nat where "IRQCTRL_CLEAR_REGISTER = 3"

lemmas irq_regs = IRQCTRL_MASK_AND_PRIORITY_REGISTER_def IRQCTRL_PENDING_REGISTER_def
  IRQCTRL_FORCE_REGISTER_def IRQCTRL_CLEAR_REGISTER_def

text \<open>The CLEAR register clears bits of itself.\<close>

definition leon2_irqctrl_write :: "u32 \<Rightarrow> u32 \<Rightarrow> leon2_io \<Rightarrow> leon2_io" where
  "leon2_irqctrl_write addr val b =
     (let reg = reg_index addr (irqctrl_address b);
          regs = (irqctrl_regs b)(reg := val);
          b1 = b\<lparr>irqctrl_regs := regs\<rparr>
      in if reg = IRQCTRL_MASK_AND_PRIORITY_REGISTER \<or> reg = IRQCTRL_PENDING_REGISTER \<or> reg = IRQCTRL_FORCE_REGISTER
         then b1
         else if reg = IRQCTRL_CLEAR_REGISTER
         then b1\<lparr>irqctrl_regs := regs(IRQCTRL_CLEAR_REGISTER := regs IRQCTRL_CLEAR_REGISTER AND NOT val)\<rparr>
         else b1\<lparr>sigint := True\<rparr>)"

definition leon2_irqctrl_read :: "u32 \<Rightarrow> leon2_io \<Rightarrow> u32" where
  "leon2_irqctrl_read addr b =
     (let reg = reg_index addr (irqctrl_address b)
      in if reg = IRQCTRL_CLEAR_REGISTER then 0 else irqctrl_regs b reg)"

definition leon2_irqctrl_set_pending :: "nat \<Rightarrow> leon2_io \<Rightarrow> leon2_io" where
  "leon2_irqctrl_set_pending irq b =
     b\<lparr>irqctrl_regs := (irqctrl_regs b)(IRQCTRL_PENDING_REGISTER :=
        irqctrl_regs b IRQCTRL_PENDING_REGISTER OR push_bit irq 1)\<rparr>"

definition leon2_irqctrl_reset_pending :: "nat \<Rightarrow> leon2_io \<Rightarrow> leon2_io" where
  "leon2_irqctrl_reset_pending irq b =
     b\<lparr>irqctrl_regs := (irqctrl_regs b)(IRQCTRL_PENDING_REGISTER :=
        irqctrl_regs b IRQCTRL_PENDING_REGISTER AND NOT (push_bit irq 1))\<rparr>"

definition leon2_irqctrl_pending :: "leon2_io \<Rightarrow> u32" where
  "leon2_irqctrl_pending b = irqctrl_regs b IRQCTRL_PENDING_REGISTER"

definition leon2_irqctrl_mask :: "leon2_io \<Rightarrow> u32" where
  "leon2_irqctrl_mask b = irqctrl_regs b IRQCTRL_MASK_AND_PRIORITY_REGISTER AND 0xfffe"

definition leon2_irqctrl_forced :: "leon2_io \<Rightarrow> u32" where
  "leon2_irqctrl_forced b = irqctrl_regs b IRQCTRL_FORCE_REGISTER"

definition leon2_irqctrl_reset_forced :: "nat \<Rightarrow> leon2_io \<Rightarrow> leon2_io" where
  "leon2_irqctrl_reset_forced irq b =
     b\<lparr>irqctrl_regs := (irqctrl_regs b)(IRQCTRL_FORCE_REGISTER :=
        irqctrl_regs b IRQCTRL_FORCE_REGISTER AND NOT (push_bit irq 1))\<rparr>"

definition leon2_irqctrl_init :: "u32 \<Rightarrow> leon2_io \<Rightarrow> leon2_io" where
  "leon2_irqctrl_init address b =
     leon2_register_io_memory address (IRQCTRL_NREGS * 4) Irqctrl_area
       (b\<lparr>irqctrl_regs := \<lambda>i. 0, irqctrl_address := address\<rparr>)"

definition leon2_set_int :: "nat \<Rightarrow> leon2_io \<Rightarrow> leon2_io" where
  "leon2_set_int irq b = leon2_irqctrl_set_pending irq b"

subsection \<open>Timer unit (leon2_timer_unit.c)\<close>

definition UNDERFLOW :: u32 where "UNDERFLOW = 0xffffffff"
definition TIMER_CTRL_EN :: nat where "TIMER_CTRL_EN = 0"
definition TIMER_CTRL_RL :: nat where "TIMER_CTRL_RL = 1"
definition TIMER_CTRL_LD :: nat where "TIMER_CTRL_LD = 2"
definition TIMER1_COUNTER_REGISTER :: nat where "TIMER1_COUNTER_REGISTER = 0"
definition TIMER1_RELOAD_REGISTER :: nat where "TIMER1_RELOAD_REGISTER = 1"
definition TIMER1_CONTROL_REGISTER :: nat where "TIMER1_CONTROL_REGISTER = 2"
definition WATCHDOG_REGISTER :: nat where "WATCHDOG_REGISTER = 3"
definition TIMER2_COUNTER_REGISTER :: nat where "TIMER2_COUNTER_REGISTER = 4"
definition TIMER2_RELOAD_REGISTER :: nat where "TIMER2_RELOAD_REGISTER = 5"
definition TIMER2_CONTROL_REGISTER :: nat where "TIMER2_CONTROL_REGISTER = 6"
definition PRESCALER_COUNTER_REGISTER :: nat where "PRESCALER_COUNTER_REGISTER = 8"
definition PRESCALER_RELOAD_REGISTER :: nat where "PRESCALER_RELOAD_REGISTER = 9"

lemmas timer_layout =
  TIMER_CTRL_EN_def TIMER_CTRL_RL_def TIMER_CTRL_LD_def TIMER1_COUNTER_REGISTER_def TIMER1_RELOAD_REGISTER_def
  TIMER1_CONTROL_REGISTER_def WATCHDOG_REGISTER_def TIMER2_COUNTER_REGISTER_def TIMER2_RELOAD_REGISTER_def
  TIMER2_CONTROL_REGISTER_def PRESCALER_COUNTER_REGISTER_def PRESCALER_RELOAD_REGISTER_def

definition set_timer :: "nat \<Rightarrow> u32 \<Rightarrow> leon2_io \<Rightarrow> leon2_io" where
  "set_timer r v b = b\<lparr>timer_regs := (timer_regs b)(r := v)\<rparr>"

text \<open>The tick of a timer, and the underflow check that follows it; for the registers and the interrupt of either timer.\<close>

definition timer_tick :: "nat \<Rightarrow> nat \<Rightarrow> leon2_io \<Rightarrow> leon2_io" where
  "timer_tick counter control b =
     (if bit (timer_regs b control) TIMER_CTRL_EN then set_timer counter (timer_regs b counter - 1) b else b)"

definition timer_underflow :: "nat \<Rightarrow> nat \<Rightarrow> nat \<Rightarrow> nat \<Rightarrow> leon2_io \<Rightarrow> leon2_io" where
  "timer_underflow counter reload control irq b =
     (if timer_regs b counter = UNDERFLOW
      then leon2_set_int irq
             (if bit (timer_regs b control) TIMER_CTRL_RL then set_timer counter (timer_regs b reload) b else b)
      else b)"

definition leon2_timer_core_cycle :: "leon2_io \<Rightarrow> leon2_io" where
  "leon2_timer_core_cycle b =
     (let b1 = set_timer PRESCALER_COUNTER_REGISTER (timer_regs b PRESCALER_COUNTER_REGISTER - 1) b
      in if timer_regs b1 PRESCALER_COUNTER_REGISTER = UNDERFLOW then
           (let b2 = set_timer PRESCALER_COUNTER_REGISTER (timer_regs b1 PRESCALER_RELOAD_REGISTER) b1;
                b3 = timer_tick TIMER1_COUNTER_REGISTER TIMER1_CONTROL_REGISTER b2;
                b4 = timer_tick TIMER2_COUNTER_REGISTER TIMER2_CONTROL_REGISTER b3;
                b5 = timer_underflow TIMER1_COUNTER_REGISTER TIMER1_RELOAD_REGISTER TIMER1_CONTROL_REGISTER TIMER1_INT b4;
                b6 = timer_underflow TIMER2_COUNTER_REGISTER TIMER2_RELOAD_REGISTER TIMER2_CONTROL_REGISTER TIMER2_INT b5;
                b7 = (if wdog_enabled b6 then set_timer WATCHDOG_REGISTER (timer_regs b6 WATCHDOG_REGISTER - 1) b6 else b6)
            in if timer_regs b7 WATCHDOG_REGISTER = UNDERFLOW then leon2_set_int USER_DEFINED_INT1 b7 else b7)
         else b1)"

definition leon2_timer_core_write :: "u32 \<Rightarrow> u32 \<Rightarrow> leon2_io \<Rightarrow> leon2_io" where
  "leon2_timer_core_write addr val b =
     (let reg = reg_index addr (timer_address b);
          b1 = set_timer reg (val AND 0x00ffffff) b
      in if reg = TIMER1_CONTROL_REGISTER \<and> bit (timer_regs b1 TIMER1_CONTROL_REGISTER) TIMER_CTRL_LD
         then (let b2 = set_timer TIMER1_COUNTER_REGISTER (timer_regs b1 TIMER1_RELOAD_REGISTER) b1
               in set_timer TIMER1_CONTROL_REGISTER
                    (unset_bit TIMER_CTRL_LD (timer_regs b2 TIMER1_CONTROL_REGISTER)) b2)
         else b1)"

definition leon2_timer_core_read :: "u32 \<Rightarrow> leon2_io \<Rightarrow> u32" where
  "leon2_timer_core_read addr b = timer_regs b (reg_index addr (timer_address b))"

definition leon2_timer_core_init :: "u32 \<Rightarrow> leon2_io \<Rightarrow> leon2_io" where
  "leon2_timer_core_init address b =
     leon2_register_io_memory address (TIMER_NREGS * 4) Timer_area
       (b\<lparr>timer_regs := \<lambda>i. 0, timer_address := address\<rparr>)"

subsection \<open>UART (leon2_uart.c, leon2_uart.h)\<close>

definition UART_DATA_REGISTER :: nat where "UART_DATA_REGISTER = 0"
definition UART_STATUS_REGISTER :: nat where "UART_STATUS_REGISTER = 1"
definition UART_CONTROL_REGISTER :: nat where "UART_CONTROL_REGISTER = 2"

text \<open>The bit fields.\<close>

definition data_ready :: nat where "data_ready = 0"
definition transmitter_shift_register_empty :: nat where "transmitter_shift_register_empty = 1"
definition transmitter_hold_register_empty :: nat where "transmitter_hold_register_empty = 2"
definition receiver_enable :: nat where "receiver_enable = 0"
definition transmitter_enable :: nat where "transmitter_enable = 1"

lemmas uart_layout =
  UART_DATA_REGISTER_def UART_STATUS_REGISTER_def UART_CONTROL_REGISTER_def data_ready_def
  transmitter_shift_register_empty_def transmitter_hold_register_empty_def receiver_enable_def transmitter_enable_def

definition set_uart :: "nat \<Rightarrow> u32 \<Rightarrow> leon2_io \<Rightarrow> leon2_io" where
  "set_uart r v b = b\<lparr>uart_regs := (uart_regs b)(r := v)\<rparr>"

text \<open>The character in the hold register, if there is one, goes to the host.\<close>

definition leon2_uart_cycle :: "leon2_io \<Rightarrow> leon2_io" where
  "leon2_uart_cycle b =
     (if bit (uart_regs b UART_CONTROL_REGISTER) transmitter_enable
         \<and> \<not> bit (uart_regs b UART_STATUS_REGISTER) transmitter_hold_register_empty
      then set_uart UART_STATUS_REGISTER
             (set_bit transmitter_shift_register_empty
               (set_bit transmitter_hold_register_empty (uart_regs b UART_STATUS_REGISTER)))
             (b\<lparr>uart_tx := uart_tx b @ [ucast (uart_regs b UART_DATA_REGISTER)]\<rparr>)
      else b)"

definition leon2_uart_write :: "u32 \<Rightarrow> u32 \<Rightarrow> leon2_io \<Rightarrow> leon2_io" where
  "leon2_uart_write addr v b =
     (let reg = reg_index addr (uart_address b)
      in if reg = UART_DATA_REGISTER then
           set_uart UART_STATUS_REGISTER
             (unset_bit transmitter_hold_register_empty (uart_regs b UART_STATUS_REGISTER))
             (set_uart UART_DATA_REGISTER v b)
         else if reg = UART_STATUS_REGISTER then b
         else set_uart reg v b)"

definition leon2_uart_read :: "u32 \<Rightarrow> leon2_io \<Rightarrow> u32 \<times> leon2_io" where
  "leon2_uart_read addr b =
     (let reg = reg_index addr (uart_address b)
      in (uart_regs b reg,
          if reg = UART_DATA_REGISTER
          then set_uart UART_STATUS_REGISTER (unset_bit data_ready (uart_regs b UART_STATUS_REGISTER)) b
          else b))"

definition leon2_uart_init :: "u32 \<Rightarrow> leon2_io \<Rightarrow> leon2_io" where
  "leon2_uart_init address b =
     (let b1 = b\<lparr>uart_regs := \<lambda>i. 0, uart_address := address\<rparr>;
          b2 = set_uart UART_CONTROL_REGISTER (set_bit receiver_enable (set_bit transmitter_enable 0)) b1;
          b3 = set_uart UART_STATUS_REGISTER
                 (set_bit transmitter_shift_register_empty (set_bit transmitter_hold_register_empty 0)) b2
      in leon2_register_io_memory address (UART_NREGS * 4) Uart_area b3)"

subsection \<open>Memory configuration and configuration register (leon2_mcfg.c, leon2_cfg.c)\<close>

definition leon2_mcfg_write :: "u32 \<Rightarrow> u32 \<Rightarrow> leon2_io \<Rightarrow> leon2_io" where
  "leon2_mcfg_write addr val b = b"

definition leon2_mcfg_read :: "u32 \<Rightarrow> leon2_io \<Rightarrow> u32" where
  "leon2_mcfg_read addr b = mcfg_regs b (reg_index addr (mcfg_address b))"

definition leon2_mcfg_init :: "u32 \<Rightarrow> leon2_io \<Rightarrow> leon2_io" where
  "leon2_mcfg_init address b =
     leon2_register_io_memory address (MCFG_REGS * 4) Mcfg_area
       (b\<lparr>mcfg_regs := (\<lambda>i. 0)(0 := 0x00000233, 1 := 0x00001220), mcfg_address := address\<rparr>)"

definition leon2_cfg_write :: "u32 \<Rightarrow> u32 \<Rightarrow> leon2_io \<Rightarrow> leon2_io" where
  "leon2_cfg_write addr val b = b"

definition leon2_cfg_read :: "u32 \<Rightarrow> leon2_io \<Rightarrow> u32" where
  "leon2_cfg_read addr b = leon2_cfg b"

definition leon2_cfg_init :: "u32 \<Rightarrow> leon2_io \<Rightarrow> leon2_io" where
  "leon2_cfg_init address b =
     leon2_register_io_memory address 4 Cfg_area (b\<lparr>leon2_cfg := 0x700000\<rparr>)"

subsection \<open>The board (mach_leon2_io.c, skyeye_mach_leon2.c)\<close>

definition handle_irq :: "leon2_io \<Rightarrow> leon2_io" where
  "handle_irq b = (if leon2_irqctrl_pending b AND leon2_irqctrl_mask b = 0 then b else b\<lparr>sigint := True\<rparr>)"

definition leon2_io_do_cycle :: "leon2_io \<Rightarrow> leon2_io" where
  "leon2_io_do_cycle b = handle_irq (leon2_timer_core_cycle (leon2_uart_cycle b))"

text \<open>Only words can be accessed: the others raise SIGINT and read 0.\<close>

definition leon2_io_read_byte :: "u32 \<Rightarrow> leon2_io \<Rightarrow> u32 \<times> leon2_io" where
  "leon2_io_read_byte addr b = (0, b\<lparr>sigint := True\<rparr>)"

definition leon2_io_read_word :: "u32 \<Rightarrow> leon2_io \<Rightarrow> u32 \<times> leon2_io" where
  "leon2_io_read_word addr b = (0, b\<lparr>sigint := True\<rparr>)"

definition leon2_io_write_byte :: "u32 \<Rightarrow> u32 \<Rightarrow> leon2_io \<Rightarrow> leon2_io" where
  "leon2_io_write_byte addr v b = b\<lparr>sigint := True\<rparr>"

definition leon2_io_write_word :: "u32 \<Rightarrow> u32 \<Rightarrow> leon2_io \<Rightarrow> leon2_io" where
  "leon2_io_write_word addr v b = b\<lparr>sigint := True\<rparr>"

definition area_hit :: "u32 \<Rightarrow> io_area \<Rightarrow> bool" where
  "area_hit addr a \<longleftrightarrow> addr - area_address a < area_bsize a"

primrec leon2_device_read :: "leon2_device \<Rightarrow> u32 \<Rightarrow> leon2_io \<Rightarrow> u32 \<times> leon2_io" where
  "leon2_device_read Uart_area addr b = leon2_uart_read addr b"
| "leon2_device_read Timer_area addr b = (leon2_timer_core_read addr b, b)"
| "leon2_device_read Mcfg_area addr b = (leon2_mcfg_read addr b, b)"
| "leon2_device_read Cfg_area addr b = (leon2_cfg_read addr b, b)"
| "leon2_device_read Irqctrl_area addr b = (leon2_irqctrl_read addr b, b)"

primrec leon2_device_write :: "leon2_device \<Rightarrow> u32 \<Rightarrow> u32 \<Rightarrow> leon2_io \<Rightarrow> leon2_io" where
  "leon2_device_write Uart_area addr v b = leon2_uart_write addr v b"
| "leon2_device_write Timer_area addr v b = leon2_timer_core_write addr v b"
| "leon2_device_write Mcfg_area addr v b = leon2_mcfg_write addr v b"
| "leon2_device_write Cfg_area addr v b = leon2_cfg_write addr v b"
| "leon2_device_write Irqctrl_area addr v b = leon2_irqctrl_write addr v b"

definition leon2_io_read_long :: "u32 \<Rightarrow> leon2_io \<Rightarrow> u32 \<times> leon2_io" where
  "leon2_io_read_long addr b =
     (case find (area_hit addr) (io_areas b) of
        None \<Rightarrow> (0, b)
      | Some a \<Rightarrow> leon2_device_read (area_device a) addr b)"

definition leon2_io_write_long :: "u32 \<Rightarrow> u32 \<Rightarrow> leon2_io \<Rightarrow> leon2_io" where
  "leon2_io_write_long addr v b =
     (case find (area_hit addr) (io_areas b) of
        None \<Rightarrow> b
      | Some a \<Rightarrow> leon2_device_write (area_device a) addr v b)"

definition leon2_io_reset :: "leon2_io \<Rightarrow> leon2_io" where
  "leon2_io_reset b =
     leon2_irqctrl_init IRQCTRL_ADDR
       (leon2_cfg_init CFG_ADDR
         (leon2_mcfg_init MCFG_ADDR
           (leon2_timer_core_init TIMER1_ADDR
             (leon2_uart_init UART1_ADDR (b\<lparr>io_areas := []\<rparr>)))))"

definition on_leon2 :: "(leon2_io \<Rightarrow> leon2_io) \<Rightarrow> leon2_io io_world \<Rightarrow> leon2_io io_world" where
  "on_leon2 f w = w\<lparr>board := f (board w)\<rparr>"

definition read_leon2 :: "(leon2_io \<Rightarrow> u32 \<times> leon2_io) \<Rightarrow> leon2_io io_world \<Rightarrow> u32 \<times> leon2_io io_world" where
  "read_leon2 f w = (case f (board w) of (v, b) \<Rightarrow> (v, w\<lparr>board := b\<rparr>))"

definition leon2_machine :: "leon2_io machine_config" where
  "leon2_machine =
     \<lparr>devices = [],
      mach_io_reset = Some (on_leon2 leon2_io_reset),
      mach_io_do_cycle = on_leon2 leon2_io_do_cycle,
      mach_io_read_byte = (\<lambda>a. read_leon2 (leon2_io_read_byte a)),
      mach_io_read_halfword = (\<lambda>a. read_leon2 (leon2_io_read_word a)),
      mach_io_read_word = (\<lambda>a. read_leon2 (leon2_io_read_long a)),
      mach_io_write_byte = (\<lambda>a v. on_leon2 (leon2_io_write_byte a v)),
      mach_io_write_halfword = (\<lambda>a v. on_leon2 (leon2_io_write_word a v)),
      mach_io_write_word = (\<lambda>a v. on_leon2 (leon2_io_write_long a v))\<rparr>"

end
