(* ===== verification/Leon2_Spec.thy ===== *)
theory Leon2_Spec
  imports Mach_Leon2
begin

text \<open>
  The LEON2 board: the time between two interrupts of a timer, the address map, and the interrupt
  controller's clear register.
\<close>

subsection \<open>The period of timer 1\<close>

lemma set_timer_same: "set_timer r (timer_regs b r) b = b"
  by (simp add: set_timer_def)

lemma set_timer_at [simp]:
  "timer_regs (set_timer r v b) = (timer_regs b)(r := v)" "irqctrl_regs (set_timer r v b) = irqctrl_regs b"
  "wdog_enabled (set_timer r v b) = wdog_enabled b"
  by (simp_all add: set_timer_def)

lemma set_int_at [simp]: "timer_regs (leon2_set_int i b) = timer_regs b" "wdog_enabled (leon2_set_int i b) = wdog_enabled b"
  "n < 32 \<Longrightarrow> bit (irqctrl_regs (leon2_set_int i b) (Suc 0)) n \<longleftrightarrow> n = i \<or> bit (irqctrl_regs b (Suc 0)) n"
  by (auto simp: leon2_set_int_def leon2_irqctrl_set_pending_def irq_regs bit_simps)

lemma underflow: "x - 1 = UNDERFLOW \<longleftrightarrow> x = 0"
proof -
  have "UNDERFLOW + 1 = 0" by (simp add: UNDERFLOW_def)
  then show ?thesis unfolding diff_eq_eq by (rule arg_cong)
qed

lemma tick_at [simp]:
  "timer_regs (timer_tick c k b) = (if bit (timer_regs b k) 0 then (timer_regs b)(c := timer_regs b c - 1) else timer_regs b)"
  "irqctrl_regs (timer_tick c k b) = irqctrl_regs b"
  by (simp_all add: timer_tick_def timer_layout)

lemma underflow_at [simp]:
  "timer_regs (timer_underflow c rl k i b) =
     (if timer_regs b c = UNDERFLOW \<and> bit (timer_regs b k) 1 then (timer_regs b)(c := timer_regs b rl) else timer_regs b)"
  "n < 32 \<Longrightarrow> bit (irqctrl_regs (timer_underflow c rl k i b) (Suc 0)) n \<longleftrightarrow>
     timer_regs b c = UNDERFLOW \<and> n = i \<or> bit (irqctrl_regs b (Suc 0)) n"
  by (auto simp: timer_underflow_def timer_layout)

text \<open>The state of timer 1: running with reload, with the counters of the prescaler and of the timer.\<close>

definition timer1_at :: "u32 \<Rightarrow> u32 \<Rightarrow> u32 \<Rightarrow> u32 \<Rightarrow> bool \<Rightarrow> leon2_io \<Rightarrow> bool" where
  "timer1_at q rl p c pend b \<longleftrightarrow>
     bit (timer_regs b 2) 0 \<and> bit (timer_regs b 2) 1 \<and> timer_regs b 9 = q \<and> timer_regs b 1 = rl
     \<and> timer_regs b 8 = p \<and> timer_regs b 0 = c \<and> bit (irqctrl_regs b 1) 9 = pend"

lemma cycle_counts: "timer1_at q rl p c pend b \<Longrightarrow> p \<noteq> 0 \<Longrightarrow> timer1_at q rl (p - 1) c pend (leon2_timer_core_cycle b)"
  by (simp add: timer1_at_def leon2_timer_core_cycle_def timer_layout underflow Let_def)

lemma cycle_ticks:
  assumes "timer1_at q rl 0 c pend b"
  shows "timer1_at q rl q (if c = 0 then rl else c - 1) (pend \<or> c = 0) (leon2_timer_core_cycle b)"
proof -
  have irq: "USER_DEFINED_INT1 \<noteq> 9" "TIMER2_INT \<noteq> 9" "TIMER1_INT = 9" by (simp_all add: leon2_map)
  show ?thesis
    using assms irq underflow [of 0] underflow [of c]
    by (auto simp add: timer1_at_def leon2_timer_core_cycle_def timer_layout Let_def)
qed

text \<open>The counters run down: first the prescaler, then the timer by one for each lap of the prescaler.\<close>

lemma cycles_prescaler:
  assumes "timer1_at q rl p c pend b" "n \<le> unat p"
  shows "timer1_at q rl (p - word_of_nat n) c pend ((leon2_timer_core_cycle ^^ n) b)"
  using assms(2)
proof (induction n)
  case 0
  then show ?case using assms(1) by simp
next
  case (Suc n)
  have "unat p < 2 ^ LENGTH(32)" by (rule unsigned_less)
  then have "unat (word_of_nat n :: u32) = n" using Suc.prems by (simp add: unsigned_of_nat take_bit_nat_eq_self_iff)
  then have "p \<noteq> word_of_nat n" using Suc.prems by auto
  then show ?case using cycle_counts [of q rl "p - word_of_nat n" c pend] Suc.IH Suc.prems by (simp add: algebra_simps)
qed

lemma lap:
  assumes "timer1_at q rl p c pend b" "n = Suc (unat p)"
  shows "timer1_at q rl q (if c = 0 then rl else c - 1) (pend \<or> c = 0) ((leon2_timer_core_cycle ^^ n) b)"
  using cycle_ticks cycles_prescaler [OF assms(1) order_refl] by (simp add: assms(2))

lemma countdown:
  assumes "timer1_at q rl p c pend b"
  shows "timer1_at q rl 0 0 pend ((leon2_timer_core_cycle ^^ (unat p + unat c * Suc (unat q))) b)"
  using assms
proof (induction "unat c" arbitrary: c p b)
  case 0
  then show ?case using cycles_prescaler [OF 0(2) order_refl] by (simp add: unat_eq_zero)
next
  case (Suc k)
  have c0: "c \<noteq> 0" using Suc.hyps(2) by auto
  have c: "c \<noteq> 0" "k = unat (c - 1)" using Suc.hyps(2) c0 unfolding unat_minus_one [OF c0] by simp_all
  define u where "u = (leon2_timer_core_cycle ^^ Suc (unat p)) b"
  have "timer1_at q rl q (c - 1) pend u" using lap [OF Suc.prems refl] c(1) by (simp add: u_def)
  then have "timer1_at q rl 0 0 pend ((leon2_timer_core_cycle ^^ (unat q + k * Suc (unat q))) u)"
    using Suc.hyps(1) [OF c(2)] c(2) by simp
  moreover have "unat p + unat c * Suc (unat q) = (unat q + k * Suc (unat q)) + Suc (unat p)"
    using Suc.hyps(2) [symmetric] by simp
  ultimately show ?case by (simp only: u_def funpow_add comp_apply)
qed

lemma pending_stays: "bit (irqctrl_regs b (Suc 0)) 9 \<Longrightarrow> bit (irqctrl_regs ((leon2_timer_core_cycle ^^ n) b) (Suc 0)) 9"
  by (induction n) (simp_all add: leon2_timer_core_cycle_def Let_def)

text \<open>
  C33. Timer 1, enabled with reload, raises its interrupt after exactly the number of cycles that its counters and the
  reload value of the prescaler determine, and is then again in its starting state, so that it
  goes on with a period of (reload + 1) (prescaler reload + 1) cycles.
\<close>

theorem timer1_period:
  assumes "timer1_at q rl p c False b"
  defines "N \<equiv> Suc (unat p) + unat c * Suc (unat q)"
  shows "(n < N \<longrightarrow> \<not> bit (irqctrl_regs ((leon2_timer_core_cycle ^^ n) b) 1) 9)
    \<and> timer1_at q rl q rl True ((leon2_timer_core_cycle ^^ N) b)"
proof -
  define M where "M = unat p + unat c * Suc (unat q)"
  have N: "N = Suc M" by (simp add: N_def M_def)
  have M: "timer1_at q rl 0 0 False ((leon2_timer_core_cycle ^^ M) b)"
    unfolding M_def by (rule countdown [OF assms(1)])
  have "timer1_at q rl q rl True ((leon2_timer_core_cycle ^^ N) b)" using cycle_ticks [OF M] by (simp add: N)
  moreover have "\<not> bit (irqctrl_regs ((leon2_timer_core_cycle ^^ n) b) (Suc 0)) 9" if "n \<le> M"
  proof
    assume "bit (irqctrl_regs ((leon2_timer_core_cycle ^^ n) b) (Suc 0)) 9"
    from pending_stays [OF this, of "M - n"]
    have "bit (irqctrl_regs ((leon2_timer_core_cycle ^^ M) b) (Suc 0)) 9"
      using that by (simp flip: funpow_add comp_apply [of "leon2_timer_core_cycle ^^ (M - n)"])
    then show False using M by (simp add: timer1_at_def)
  qed
  ultimately show ?thesis by (simp add: N)
qed

definition sample_leon2 :: leon2_io where
  "sample_leon2 =
     \<lparr>io_areas = [], uart_address = 0, uart_regs = (\<lambda>i. 0), uart_tx = [], timer_address = 0,
      timer_regs = (\<lambda>i. 0)(0 := 2, 1 := 4, 2 := 3, 8 := 1, 9 := 1), wdog_enabled = False,
      mcfg_address = 0, mcfg_regs = (\<lambda>i. 0), leon2_cfg = 0, irqctrl_address = 0, irqctrl_regs = (\<lambda>i. 0),
      sigint = False\<rparr>"

theorem timer1_period_witness:
  "timer1_at 1 4 1 4 True ((leon2_timer_core_cycle ^^ 6) sample_leon2)
    \<and> \<not> bit (irqctrl_regs ((leon2_timer_core_cycle ^^ 5) sample_leon2) 1) 9"
proof -
  have "timer1_at 1 4 1 2 False sample_leon2" by (simp add: timer1_at_def sample_leon2_def)
  note p = timer1_period [OF this, of 5]
  have "Suc (unat (1 :: u32)) + unat (2 :: u32) * Suc (unat (1 :: u32)) = 6" by simp
  note p [unfolded this]
  then show ?thesis by simp
qed

subsection \<open>The address map and the interrupt controller\<close>

lemma reset_areas: "io_areas (leon2_io_reset b) =
    [\<lparr>area_device = Uart_area, area_address = 0x80000070, area_bsize = 16\<rparr>,
     \<lparr>area_device = Timer_area, area_address = 0x80000040, area_bsize = 40\<rparr>,
     \<lparr>area_device = Mcfg_area, area_address = 0x80000000, area_bsize = 12\<rparr>,
     \<lparr>area_device = Cfg_area, area_address = 0x80000024, area_bsize = 4\<rparr>,
     \<lparr>area_device = Irqctrl_area, area_address = 0x80000090, area_bsize = 16\<rparr>]"
  by (simp add: leon2_io_reset_def leon2_irqctrl_init_def leon2_cfg_init_def leon2_mcfg_init_def
      leon2_timer_core_init_def leon2_uart_init_def leon2_register_io_memory_def leon2_map set_uart_def Let_def)

text \<open>
  Writing the interrupt clear register does not clear anything: whatever is written, the pending register keeps
  every interrupt, so an interrupt that is pending and enabled is raised again in every cycle.
\<close>

theorem irq_clear_ineffective:
  fixes v :: u32
  assumes "io_areas b = io_areas (leon2_io_reset b0)" "irqctrl_address b = IRQCTRL_ADDR"
  defines "t \<equiv> leon2_io_write_long 0x8000009c v b"
  shows "leon2_irqctrl_pending t = leon2_irqctrl_pending b \<and> leon2_irqctrl_mask t = leon2_irqctrl_mask b
    \<and> (leon2_irqctrl_pending b AND leon2_irqctrl_mask b \<noteq> 0 \<longrightarrow> sigint (handle_irq t))"
proof -
  have "t = leon2_irqctrl_write 0x8000009c v b"
    by (simp add: t_def leon2_io_write_long_def assms(1) reset_areas area_hit_def)
  moreover have "reg_index 0x8000009c (irqctrl_address b) = 3"
    by (simp add: assms(2) reg_index_def leon2_map)
  ultimately have "irqctrl_regs t 0 = irqctrl_regs b 0" "irqctrl_regs t 1 = irqctrl_regs b 1"
    by (simp_all add: leon2_irqctrl_write_def irq_regs Let_def)
  then show ?thesis by (simp add: leon2_irqctrl_pending_def leon2_irqctrl_mask_def irq_regs handle_irq_def)
qed

theorem irq_clear_ineffective_witness:
  "leon2_irqctrl_pending (leon2_io_write_long 0x8000009c 0x200 (leon2_set_int 9 (leon2_io_reset sample_leon2))) = 0x200"
proof -
  let ?b = "leon2_set_int 9 (leon2_io_reset sample_leon2)"
  have a: "io_areas ?b = io_areas (leon2_io_reset sample_leon2)"
    by (simp add: leon2_set_int_def leon2_irqctrl_set_pending_def)
  have i: "irqctrl_address ?b = IRQCTRL_ADDR" "leon2_irqctrl_pending ?b = 0x200"
    by (simp_all add: leon2_set_int_def leon2_irqctrl_set_pending_def leon2_irqctrl_pending_def leon2_io_reset_def
        leon2_irqctrl_init_def leon2_register_io_memory_def irq_regs)
  show ?thesis using irq_clear_ineffective [OF a i(1), of "0x200"] i(2) by simp
qed

end
