(* ===== verification/Ppc_State.thy ===== *)
theory Ppc_State
  imports Prelude
begin

text \<open>
  The state of the PowerPC e500 simulator and what its parts share (arch_ppc/common: ppc_e500_core.h,
  ppc_cpu.h, ppc_dec.h, sysendian.h, ppc_e500_exc.c, ppc_opc.h): the cores, byte order, fields of an
  instruction, exceptions, condition register.

  \<^verbatim>\<open>gCPU\<close>, \<^verbatim>\<open>current_core\<close> and the three memories are one record. A pointer to a core is its
  index. Output is left out, and so are the fields that no function reads.
\<close>

subsection \<open>Cores (ppc_e500_core.h)\<close>

record ppc_tlb_entry =
  t_v :: u32
  t_ts :: u32
  t_tid :: u32
  t_epn :: u32
  t_rpn :: u32
  t_size :: u32
  t_usxrw :: u32
  t_wimge :: u32
  t_x :: u32
  t_u :: u32
  t_iprot :: u32

definition L2_TLB0_SIZE :: nat where "L2_TLB0_SIZE = 256"
definition L2_TLB1_SIZE :: nat where "L2_TLB1_SIZE = 16"

text \<open>
  The walks over both tables go one entry too far: entry 16 of \<open>tlb1\<close> is what lies behind the array. Its first
  word, the valid bit, is the padding at the end of \<^verbatim>\<open>e500_mmu_t\<close>, the others are fields of the core.
\<close>

record e500_mmu =
  mpid :: "nat \<Rightarrow> u64"
  tlbcfg :: "nat \<Rightarrow> u64"
  mas :: "nat \<Rightarrow> u64"
  tlb0_nv :: u32
  tlb0 :: "nat \<Rightarrow> ppc_tlb_entry"
  tlb1 :: "nat \<Rightarrow> ppc_tlb_entry"

definition TLBSEL :: "u64 \<Rightarrow> u64" where "TLBSEL e = drop_bit 28 e AND 1"
definition ESEL :: "u64 \<Rightarrow> u64" where "ESEL e = drop_bit 16 e AND 0xf"
definition EPN :: "u64 \<Rightarrow> u64" where "EPN e = drop_bit 12 e"
definition TLBSELD :: "u64 \<Rightarrow> u64" where "TLBSELD e = drop_bit 28 (e AND 0x10000000)"

text \<open>The segment registers \<^verbatim>\<open>sr\<close> are \<open>eseg\<close>, the exception syndrome register \<^verbatim>\<open>esr\<close> is \<open>eesr\<close>.\<close>

record e500_core =
  egpr :: "nat \<Rightarrow> u32"
  efpr :: "nat \<Rightarrow> u64"
  ecr :: u32
  efpscr :: u32
  exer :: u32
  elr :: u32
  ectr :: u32
  emsr :: u32
  epvr :: u32
  eibatu :: "nat \<Rightarrow> u32"
  eibatl :: "nat \<Rightarrow> u32"
  eibat_bl17 :: "nat \<Rightarrow> u32"
  edbatu :: "nat \<Rightarrow> u32"
  edbatl :: "nat \<Rightarrow> u32"
  edbat_bl17 :: "nat \<Rightarrow> u32"
  esdr1 :: u32
  eseg :: "nat \<Rightarrow> u32"
  edar :: u32
  edsisr :: u32
  esprg :: "nat \<Rightarrow> u32"
  esrr :: "nat \<Rightarrow> u32"
  edec :: u32
  eear :: u32
  epir :: u32
  etb :: u64
  ehid :: "nat \<Rightarrow> u32"
  epc :: u32
  enpc :: u32
  eopc :: u32
  epagetable_base :: u32
  epagetable_hashmask :: u32
  ereserve :: u32
  ehave_reservation :: bool
  eeffective_code_page :: u32
  epdec :: u64
  eptb :: u64
  evrsave :: u32
  el1csr :: "nat \<Rightarrow> u32"
  ecsrr :: "nat \<Rightarrow> u32"
  emcsrr :: "nat \<Rightarrow> u32"
  eesr :: u32
  emcsr :: u32
  edear :: u32
  edbcr :: "nat \<Rightarrow> u32"
  edbsr :: u32
  etcr :: u32
  etsr :: u32
  edac :: "nat \<Rightarrow> u32"
  eivpr :: u32
  eivor :: "nat \<Rightarrow> u32"
  eiac :: "nat \<Rightarrow> u32"
  etbl :: u32
  etbu :: u32
  espefscr :: u32
  emmu :: e500_mmu
  eipr :: u32
  eipi_flag :: u32

subsection \<open>The simulator's state\<close>

text \<open>
  \<open>pjunk\<close> is what a local variable holds that was not assigned, \<open>pdev\<close> the registers of the board,
  \<open>phalted\<close> the first reason for which the simulator stopped. The memories are arrays of bytes.
\<close>

record 'd ppc_state =
  cores :: "nat \<Rightarrow> e500_core"
  cur :: nat
  core_num :: nat
  bptr :: u32
  eebpcr :: u32
  ccsr :: u32
  boot_rom :: "nat \<Rightarrow> u8"
  init_ram :: "nat \<Rightarrow> u8"
  ddr_ram :: "nat \<Rightarrow> u8"
  pdev :: 'd
  pjunk :: u32
  phalted :: "halt_reason option"

definition ppc_halt :: "halt_reason \<Rightarrow> 'd ppc_state \<Rightarrow> 'd ppc_state" where
  "ppc_halt h s = s\<lparr>phalted := first_halt (phalted s) h\<rparr>"

definition cc :: "'d ppc_state \<Rightarrow> e500_core" where
  "cc s = cores s (cur s)"

definition upd_core_of :: "nat \<Rightarrow> (e500_core \<Rightarrow> e500_core) \<Rightarrow> 'd ppc_state \<Rightarrow> 'd ppc_state" where
  "upd_core_of c f s = s\<lparr>cores := (cores s)(c := f (cores s c))\<rparr>"

definition upd_core :: "(e500_core \<Rightarrow> e500_core) \<Rightarrow> 'd ppc_state \<Rightarrow> 'd ppc_state" where
  "upd_core f s = upd_core_of (cur s) f s"

definition pgpr :: "'d ppc_state \<Rightarrow> nat \<Rightarrow> u32" where
  "pgpr s r = egpr (cc s) r"

definition gpr0 :: "'d ppc_state \<Rightarrow> nat \<Rightarrow> u32" where
  "gpr0 s r = (if r \<noteq> 0 then pgpr s r else 0)"

definition set_pgpr :: "nat \<Rightarrow> u32 \<Rightarrow> 'd ppc_state \<Rightarrow> 'd ppc_state" where
  "set_pgpr r v = upd_core (\<lambda>c. c\<lparr>egpr := (egpr c)(r := v)\<rparr>)"

definition set_pfpr :: "nat \<Rightarrow> u64 \<Rightarrow> 'd ppc_state \<Rightarrow> 'd ppc_state" where
  "set_pfpr r v = upd_core (\<lambda>c. c\<lparr>efpr := (efpr c)(r := v)\<rparr>)"

definition opc :: "'d ppc_state \<Rightarrow> u32" where
  "opc s = eopc (cc s)"

definition set_mas :: "nat \<Rightarrow> u64 \<Rightarrow> e500_core \<Rightarrow> e500_core" where
  "set_mas n v c = c\<lparr>emmu := (emmu c)\<lparr>mas := (mas (emmu c))(n := v)\<rparr>\<rparr>"

text \<open>The functions of the board that the simulator calls.\<close>

record 'd ppc_board =
  bd_read_byte :: "u32 \<Rightarrow> 'd ppc_state \<Rightarrow> u32 \<times> 'd ppc_state"
  bd_read_half :: "u32 \<Rightarrow> 'd ppc_state \<Rightarrow> u32 \<times> 'd ppc_state"
  bd_read_word :: "u32 \<Rightarrow> 'd ppc_state \<Rightarrow> u32 \<times> 'd ppc_state"
  bd_write_byte :: "u32 \<Rightarrow> u32 \<Rightarrow> 'd ppc_state \<Rightarrow> 'd ppc_state"
  bd_write_half :: "u32 \<Rightarrow> u32 \<Rightarrow> 'd ppc_state \<Rightarrow> 'd ppc_state"
  bd_write_word :: "u32 \<Rightarrow> u32 \<Rightarrow> 'd ppc_state \<Rightarrow> 'd ppc_state"
  bd_io_reset :: "'d ppc_state \<Rightarrow> 'd ppc_state"
  bd_do_cycle :: "'d ppc_state \<Rightarrow> 'd ppc_state"

type_synonym 'd ppc_insn = "'d ppc_board \<Rightarrow> 'd ppc_state \<Rightarrow> 'd ppc_state"

subsection \<open>Byte order (sysendian.h)\<close>

definition ppc_bswap_word :: "u32 \<Rightarrow> u32" where
  "ppc_bswap_word d =
     drop_bit 24 d OR (drop_bit 8 d AND 0xff00) OR (push_bit 8 d AND 0xff0000) OR push_bit 24 d"

definition ppc_bswap_dword :: "u64 \<Rightarrow> u64" where
  "ppc_bswap_dword d =
     push_bit 32 (ucast (ppc_bswap_word (ucast d))) OR ucast (ppc_bswap_word (ucast (drop_bit 32 d)))"

definition ppc_bswap_half :: "u16 \<Rightarrow> u16" where
  "ppc_bswap_half d = push_bit 8 d OR drop_bit 8 d"

text \<open>Accesses of the little-endian host to an array of bytes, at index \<open>i\<close>.\<close>

definition host_half :: "(nat \<Rightarrow> u8) \<Rightarrow> nat \<Rightarrow> u16" where
  "host_half m i = ucast (m i) OR push_bit 8 (ucast (m (i + 1)))"

definition host_word :: "(nat \<Rightarrow> u8) \<Rightarrow> nat \<Rightarrow> u32" where
  "host_word m i = ucast (m i) OR push_bit 8 (ucast (m (i + 1))) OR
     push_bit 16 (ucast (m (i + 2))) OR push_bit 24 (ucast (m (i + 3)))"

definition host_put_half :: "nat \<Rightarrow> u16 \<Rightarrow> (nat \<Rightarrow> u8) \<Rightarrow> nat \<Rightarrow> u8" where
  "host_put_half i v m = m(i := ucast v, i + 1 := ucast (drop_bit 8 v))"

definition host_put_word :: "nat \<Rightarrow> u32 \<Rightarrow> (nat \<Rightarrow> u8) \<Rightarrow> nat \<Rightarrow> u8" where
  "host_put_word i v m = m(i := ucast v, i + 1 := ucast (drop_bit 8 v),
     i + 2 := ucast (drop_bit 16 v), i + 3 := ucast (drop_bit 24 v))"

subsection \<open>Fields of an instruction (ppc_dec.h)\<close>

definition PPC_OPC_MAIN :: "u32 \<Rightarrow> nat" where "PPC_OPC_MAIN i = unat (drop_bit 26 i AND 0x3f)"
definition PPC_OPC_EXT :: "u32 \<Rightarrow> nat" where "PPC_OPC_EXT i = unat (drop_bit 1 i AND 0x3ff)"
definition PPC_OPC_Rc :: u32 where "PPC_OPC_Rc = 1"
definition PPC_OPC_LK :: u32 where "PPC_OPC_LK = 1"
definition PPC_OPC_AA :: u32 where "PPC_OPC_AA = 2"

text \<open>The five-bit fields by the bit they start at, in the order of the macros \<^verbatim>\<open>PPC_OPC_TEMPL_*\<close>.\<close>

definition f21 :: "u32 \<Rightarrow> nat" where "f21 i = unat (drop_bit 21 i AND 0x1f)"
definition f16 :: "u32 \<Rightarrow> nat" where "f16 i = unat (drop_bit 16 i AND 0x1f)"
definition f11 :: "u32 \<Rightarrow> nat" where "f11 i = unat (drop_bit 11 i AND 0x1f)"
definition f6 :: "u32 \<Rightarrow> nat" where "f6 i = unat (drop_bit 6 i AND 0x1f)"
definition f1 :: "u32 \<Rightarrow> nat" where "f1 i = unat (drop_bit 1 i AND 0x1f)"

definition simm :: "u32 \<Rightarrow> u32" where
  "simm i = (let imm = i AND 0xffff in if imm AND 0x8000 \<noteq> 0 then imm OR 0xffff0000 else imm)"

definition uimm :: "u32 \<Rightarrow> u32" where "uimm i = i AND 0xffff"
definition imm_shift16 :: "u32 \<Rightarrow> u32" where "imm_shift16 i = push_bit 16 i"

definition templ_BD :: "u32 \<Rightarrow> u32" where
  "templ_BD i = (let d = i AND 0xfffc in if d AND 0x8000 \<noteq> 0 then d OR 0xffff0000 else d)"

definition templ_LI :: "u32 \<Rightarrow> u32" where
  "templ_LI i = (let l = i AND 0x3fffffc in if l AND 0x02000000 \<noteq> 0 then l OR 0xfc000000 else l)"

definition templ_CRM :: "u32 \<Rightarrow> u32" where "templ_CRM i = drop_bit 12 i AND 0xff"
definition templ_FM :: "u32 \<Rightarrow> u32" where "templ_FM i = drop_bit 17 i AND 0xff"

subsection \<open>Status bits (ppc_cpu.h)\<close>

definition CR_CR0_LT :: u32 where "CR_CR0_LT = 0x80000000"
definition CR_CR0_GT :: u32 where "CR_CR0_GT = 0x40000000"
definition CR_CR0_EQ :: u32 where "CR_CR0_EQ = 0x20000000"
definition CR_CR0_SO :: u32 where "CR_CR0_SO = 0x10000000"
definition XER_SO :: u32 where "XER_SO = 0x80000000"
definition XER_CA :: u32 where "XER_CA = 0x20000000"
definition XER_n :: "u32 \<Rightarrow> nat" where "XER_n v = unat (v AND 0x7f)"
definition MSR_PR :: u32 where "MSR_PR = 0x4000"
definition MSR_FP :: u32 where "MSR_FP = 0x2000"
definition MSR_POW :: u32 where "MSR_POW = 0x40000"
definition MSR_RFI_SAVE_MASK :: u32 where "MSR_RFI_SAVE_MASK = 0xff73"
definition TB_TO_PTB_FACTOR :: u64 where "TB_TO_PTB_FACTOR = 10"
definition BATU_BL :: "u32 \<Rightarrow> u32" where "BATU_BL v = drop_bit 2 (v AND 0x1ffc)"

text \<open>The result of an instruction in field 0 of the condition register (ppc_opc.h).\<close>

definition ppc_update_cr0 :: "u32 \<Rightarrow> 'd ppc_state \<Rightarrow> 'd ppc_state" where
  "ppc_update_cr0 r = upd_core (\<lambda>c.
     let cr = (ecr c AND 0x0fffffff) OR
           (if r = 0 then CR_CR0_EQ else if r AND 0x80000000 \<noteq> 0 then CR_CR0_LT else CR_CR0_GT)
     in c\<lparr>ecr := if exer c AND XER_SO \<noteq> 0 then cr OR CR_CR0_SO else cr\<rparr>)"

definition record_cr0 :: "nat \<Rightarrow> 'd ppc_state \<Rightarrow> 'd ppc_state" where
  "record_cr0 r s = (if opc s AND PPC_OPC_Rc \<noteq> 0 then ppc_update_cr0 (pgpr s r) s else s)"

subsection \<open>Exceptions (ppc_e500_exc.c)\<close>

definition CRI_INPUT :: u32 where "CRI_INPUT = 0"
definition MACH_CHECK :: u32 where "MACH_CHECK = 1"
definition DATA_ST :: u32 where "DATA_ST = 2"
definition EXT_INT :: u32 where "EXT_INT = 4"
definition PROG :: u32 where "PROG = 6"
definition SYSCALL :: u32 where "SYSCALL = 8"
definition DEC :: u32 where "DEC = 10"
definition DATA_TLB :: u32 where "DATA_TLB = 13"
definition INSN_TLB :: u32 where "INSN_TLB = 14"

lemmas exc_types = CRI_INPUT_def MACH_CHECK_def DATA_ST_def EXT_INT_def PROG_def SYSCALL_def DEC_def DATA_TLB_def INSN_TLB_def

text \<open>The codes of ppc_exc.h, for which \<^verbatim>\<open>ppc_exception\<close> has no case.\<close>

definition PPC_EXC_PROGRAM :: u32 where "PPC_EXC_PROGRAM = 0x700"
definition PPC_EXC_NO_FPU :: u32 where "PPC_EXC_NO_FPU = 0x800"

definition PPC_MMU_READ :: u32 where "PPC_MMU_READ = 1"
definition PPC_MMU_WRITE :: u32 where "PPC_MMU_WRITE = 2"
definition PPC_MMU_CODE :: u32 where "PPC_MMU_CODE = 4"

text \<open>The assist registers that both TLB exceptions prepare for the handler's \<^verbatim>\<open>tlbwe\<close>.\<close>

definition tlb_miss_assist :: "u32 \<Rightarrow> e500_core \<Rightarrow> e500_core" where
  "tlb_miss_assist a c =
     (let m = mas (emmu c);
          m0 = (m 4 AND 0x10000000) OR (m 0 AND NOT 0x10000000);
          nv = tlb0_nv (emmu c);
          m0' = (if TLBSELD (m 4) = 0
                 then ucast (NOT nv AND 3) OR ((ucast (push_bit 18 nv) OR (m0 AND 0xFFF0FFFF)) AND 0xFFFFFFFC) else m0);
          pid = push_bit 16 (mpid (emmu c) 0 AND 0xFF)
      in set_mas 1 (((m 4 AND 0xF00) OR (m 1 AND 0xFFFFF0FF)) AND 0xFF00FFFF OR pid)
           (set_mas 2 (ucast (a AND 0xFFFFF000) OR (m 2 AND 0xFFF))
             (set_mas 3 ((m 3 AND 0xFFFFFC00) AND 0xFFF) (set_mas 0 m0' c))))"

definition set_spid :: "e500_core \<Rightarrow> e500_core" where
  "set_spid c = set_mas 6 ((mas (emmu c) 6 AND 0xFF00FFFF) OR push_bit 16 (mpid (emmu c) 0 AND 0xFF)) c"

definition save_pc :: "u32 \<Rightarrow> e500_core \<Rightarrow> e500_core" where
  "save_pc ret c = c\<lparr>esrr := (esrr c)(0 := ret, 1 := emsr c)\<rparr>"

text \<open>The exception of core \<open>c\<close>. Of a data TLB miss, the valid bit comes from the current core's register.\<close>

definition ppc_exception :: "nat \<Rightarrow> u32 \<Rightarrow> u32 \<Rightarrow> u32 \<Rightarrow> 'd ppc_state \<Rightarrow> 'd ppc_state" where
  "ppc_exception c ty flags a s =
     (if ty \<in> {CRI_INPUT, MACH_CHECK, DATA_ST, EXT_INT, SYSCALL, DEC, DATA_TLB, INSN_TLB} then
        let s1 =
          (if ty \<in> {CRI_INPUT, MACH_CHECK, DATA_ST} then upd_core_of c (\<lambda>k.
             (save_pc (epc k) k)\<lparr>eesr := 0x00800000, edear := a, emsr := emsr k AND 0x21200\<rparr>) s
           else if ty = EXT_INT then upd_core_of c (\<lambda>k. (save_pc (enpc k) k)\<lparr>emsr := emsr k AND 0x21200\<rparr>) s
           else if ty = SYSCALL then upd_core_of c (\<lambda>k. (save_pc (enpc k) k)\<lparr>emsr := emsr k AND NOT 0x2e930\<rparr>) s
           else if ty = DEC then upd_core_of c (\<lambda>k.
             (save_pc (enpc k) k)\<lparr>emsr := emsr k AND 0x21200, etsr := etsr k OR 0x8000000\<rparr>) s
           else if ty = DATA_TLB then
             let s2 = upd_core_of c (\<lambda>k.
                    tlb_miss_assist a ((save_pc (epc k) k)\<lparr>edear := a, emsr := emsr k AND 0x21200\<rparr>)) s;
                 s3 = upd_core_of c (set_mas 1 (mas (emmu (cc s2)) 1 OR 0x80000000)) s2
             in upd_core_of c (\<lambda>k. (set_spid k)\<lparr>eesr := if flags = PPC_MMU_WRITE then 0x00800000 else 0\<rparr>) s3
           else upd_core_of c (\<lambda>k. set_spid (tlb_miss_assist a ((save_pc (epc k) k)\<lparr>emsr := emsr k AND 0x21200\<rparr>))) s)
        in upd_core_of c (\<lambda>k. k\<lparr>enpc := (eivpr k AND 0xFFFF0000) OR (eivor k (unat ty) AND 0xFFF0)\<rparr>) s1
      else ppc_halt Skyeye_exit s)"

end
