(* ===== verification/Ppc_Tlb.thy ===== *)
theory Ppc_Tlb
  imports Ppc_State
begin

text \<open>
  Address translation of the e500 simulator and the instructions on its two TLBs (arch_ppc/common/ppc_mmu.c).
  \<open>None\<close> as the result of a translation is the return value \<^verbatim>\<open>PPC_MMU_EXC\<close>: an exception was raised.
\<close>

subsection \<open>Walking over the entries\<close>

text \<open>
  The index runs from 1 to 272: entry 0 of TLB0 is never looked at, the last step is to the entry behind TLB1.
\<close>

definition tlb_walk :: "nat list" where
  "tlb_walk = [1..<L2_TLB0_SIZE + L2_TLB1_SIZE + 1]"

definition tlb_at :: "e500_mmu \<Rightarrow> nat \<Rightarrow> ppc_tlb_entry" where
  "tlb_at m i = (if L2_TLB0_SIZE - 1 < i then tlb1 m (i - L2_TLB0_SIZE) else tlb0 m i)"

definition upd_tlb_at :: "nat \<Rightarrow> (ppc_tlb_entry \<Rightarrow> ppc_tlb_entry) \<Rightarrow> e500_mmu \<Rightarrow> e500_mmu" where
  "upd_tlb_at i f m =
     (if L2_TLB0_SIZE - 1 < i then m\<lparr>tlb1 := (tlb1 m)(i - L2_TLB0_SIZE := f (tlb1 m (i - L2_TLB0_SIZE)))\<rparr>
      else m\<lparr>tlb0 := (tlb0 m)(i := f (tlb0 m i))\<rparr>)"

text \<open>The bits of the address above the page. \<^verbatim>\<open>s\<close> is a signed product; it wraps here.\<close>

definition tlb_pages :: "ppc_tlb_entry \<Rightarrow> u32" where
  "tlb_pages e = push_bit (2 * unat (t_size e)) 1"

definition tlb_mask :: "nat \<Rightarrow> ppc_tlb_entry \<Rightarrow> u32" where
  "tlb_mask i e =
     (if L2_TLB0_SIZE - 1 < i then NOT ((1024 * (tlb_pages e - 1) - 1) + 1024) else NOT (1024 * 4 - 1))"

definition tlb_tid_ok :: "e500_mmu \<Rightarrow> ppc_tlb_entry \<Rightarrow> bool" where
  "tlb_tid_ok m e = (t_tid e = 0 \<or> mpid m 0 = ucast (t_tid e))"

definition tlb_addr_ok :: "nat \<Rightarrow> ppc_tlb_entry \<Rightarrow> u32 \<Rightarrow> bool" where
  "tlb_addr_ok i e a =
     (if t_size e \<noteq> 0xb then a AND tlb_mask i e = push_bit 12 (t_epn e) AND tlb_mask i e
      else push_bit 12 (t_epn e) \<le> a)"

definition tlb_hit :: "e500_mmu \<Rightarrow> u32 \<Rightarrow> nat \<Rightarrow> bool" where
  "tlb_hit m a i = (t_v (tlb_at m i) \<noteq> 0 \<and> tlb_tid_ok m (tlb_at m i) \<and> tlb_addr_ok i (tlb_at m i) a)"

definition tlb_real :: "nat \<Rightarrow> ppc_tlb_entry \<Rightarrow> u32 \<Rightarrow> u32" where
  "tlb_real i e a =
     (if t_size e \<noteq> 0xb then push_bit 12 (t_rpn e) OR (a AND NOT (tlb_mask i e))
      else push_bit 12 (t_rpn e) OR (a - push_bit 12 (t_epn e)))"

text \<open>A write in user mode needs bit 3, in supervisor mode bit 2; pages of size 0xb and reads are not checked.\<close>

definition tlb_protected :: "u32 \<Rightarrow> u32 \<Rightarrow> ppc_tlb_entry \<Rightarrow> bool" where
  "tlb_protected flags msr e =
     (t_size e \<noteq> 0xb \<and> flags = PPC_MMU_WRITE \<and> t_usxrw e AND (if msr AND 0x4000 \<noteq> 0 then 0x8 else 0x4) = 0)"

definition ppc_effective_to_physical :: "nat \<Rightarrow> u32 \<Rightarrow> u32 \<Rightarrow> 'd ppc_state \<Rightarrow> u32 option \<times> 'd ppc_state" where
  "ppc_effective_to_physical c a flags s =
     (if bptr s AND 0x80000000 \<noteq> 0 \<and> drop_bit 12 a = 0xFFFFF then (Some ((a AND 0xFFF) OR push_bit 12 (bptr s)), s)
      else case find (tlb_hit (emmu (cc s)) a) tlb_walk of
        Some i \<Rightarrow>
          (let e = tlb_at (emmu (cc s)) i in
           if tlb_protected flags (emsr (cc s)) e then (None, ppc_exception c DATA_ST flags a s)
           else (Some (tlb_real i e a), s))
      | None \<Rightarrow> (None, ppc_exception c (if flags = PPC_MMU_CODE then INSN_TLB else DATA_TLB) flags a s))"

subsection \<open>Reset\<close>

definition tlb_entry_0 :: ppc_tlb_entry where
  "tlb_entry_0 = \<lparr>t_v = 0, t_ts = 0, t_tid = 0, t_epn = 0, t_rpn = 0, t_size = 0, t_usxrw = 0, t_wimge = 0,
     t_x = 0, t_u = 0, t_iprot = 0\<rparr>"

text \<open>Of the entry behind TLB1 the first word is cleared as well, it is the padding of the structure.\<close>

definition e500_mmu_init :: "e500_mmu \<Rightarrow> e500_mmu" where
  "e500_mmu_init m = \<lparr>mpid = (\<lambda>_. 0), tlbcfg = (\<lambda>_. 0)(0 := 0x4110200, 1 := 0x101bc010), mas = (\<lambda>_. 0), tlb0_nv = 0,
     tlb0 = (\<lambda>_. tlb_entry_0),
     tlb1 = (\<lambda>i. if i = 0 then tlb_entry_0\<lparr>t_v := 1, t_epn := 0xFFFFF, t_rpn := 0xFFFFF, t_size := 1,
                                   t_usxrw := 0x15, t_wimge := 8, t_iprot := 1\<rparr>
                 else if i < L2_TLB1_SIZE then tlb_entry_0
                 else if i = L2_TLB1_SIZE then (tlb1 m i)\<lparr>t_v := 0\<rparr> else tlb1 m i)\<rparr>"

definition ppc_mmu_tlb_invalidate :: "'d ppc_state \<Rightarrow> 'd ppc_state" where
  "ppc_mmu_tlb_invalidate = upd_core (\<lambda>c. c\<lparr>eeffective_code_page := 0xffffffff\<rparr>)"

subsection \<open>The hashed page table register\<close>

text \<open>The low ones of \<open>h\<close>, nine at most; \<open>x\<close> is the next bit, \<open>xx\<close> those found.\<close>

primrec sdr1_loop :: "nat \<Rightarrow> u32 \<Rightarrow> u32 \<Rightarrow> u32 \<Rightarrow> u32" where
  "sdr1_loop 0 h x xx = xx"
| "sdr1_loop (Suc n) h x xx = (if h AND x \<noteq> 0 then sdr1_loop n h (push_bit 1 x) (xx OR x) else xx)"

definition ppc_mmu_set_sdr1 :: "u32 \<Rightarrow> 'd ppc_state \<Rightarrow> bool \<times> 'd ppc_state" where
  "ppc_mmu_set_sdr1 v s =
     (let htabmask = v AND 0x1ff; htaborg = drop_bit 16 v; xx = sdr1_loop 9 htabmask 1 0 in
      if htabmask AND NOT xx \<noteq> 0 then (False, s)
      else if htaborg AND xx \<noteq> 0 then (False, s)
      else (True, upd_core (\<lambda>c. c\<lparr>epagetable_base := push_bit 16 htaborg, esdr1 := v,
                                epagetable_hashmask := push_bit 10 xx OR 0x3ff\<rparr>) s))"

subsection \<open>Instructions on the TLBs\<close>

definition upd_mmu :: "(e500_mmu \<Rightarrow> e500_mmu) \<Rightarrow> 'd ppc_state \<Rightarrow> 'd ppc_state" where
  "upd_mmu f = upd_core (\<lambda>c. c\<lparr>emmu := f (emmu c)\<rparr>)"

text \<open>The entry that the assist registers select, with the bound that is checked before the access.\<close>

definition tlb0_offset :: "e500_mmu \<Rightarrow> nat" where
  "tlb0_offset m = unat (push_bit 4 (ESEL (mas m 0) AND 0xC) OR (EPN (mas m 2) AND 0x3f))"

definition tlb1_offset :: "e500_mmu \<Rightarrow> nat" where
  "tlb1_offset m = unat (ESEL (mas m 0))"

definition tlbwe_entry :: "(nat \<Rightarrow> u64) \<Rightarrow> ppc_tlb_entry" where
  "tlbwe_entry m = \<lparr>
     t_v = ucast (drop_bit 31 (m 1)),
     t_ts = ucast (drop_bit 12 (m 1) AND 1),
     t_tid = ucast (drop_bit 16 (m 1) AND 0xFF),
     t_epn = ucast (drop_bit 12 (m 2) AND 0xFFFFF),
     t_rpn = ucast (drop_bit 12 (m 3) AND 0xFFFFF),
     t_size = ucast (drop_bit 8 (m 1) AND 0xF),
     t_usxrw = ucast (m 3 AND 0x3F),
     t_wimge = ucast (m 2 AND 0x1F),
     t_x = ucast (drop_bit 5 (m 2) AND 3),
     t_u = ucast (drop_bit 6 (m 3) AND 0xF),
     t_iprot = ucast (drop_bit 30 (m 1) AND 1)\<rparr>"

definition ppc_opc_tlbwe :: "'d ppc_insn" where
  "ppc_opc_tlbwe bd s =
     (let m = emmu (cc s); e = tlbwe_entry (mas m) in
      if TLBSEL (mas m 0) = 0 then
        if L2_TLB0_SIZE \<le> tlb0_offset m then ppc_halt Skyeye_exit s
        else upd_mmu (\<lambda>m. m\<lparr>tlb0 := (tlb0 m)(tlb0_offset m := e), tlb0_nv := ucast (mas m 0 AND 3)\<rparr>) s
      else if L2_TLB1_SIZE \<le> tlb1_offset m then ppc_halt Skyeye_exit s
      else upd_mmu (\<lambda>m. m\<lparr>tlb1 := (tlb1 m)(tlb1_offset m := e), tlb0_nv := ucast (mas m 0 AND 3)\<rparr>) s)"

text \<open>The masks of the registers are constants of 32 bits and clear the upper words.\<close>

definition tlbre_mas1 :: "ppc_tlb_entry \<Rightarrow> u64 \<Rightarrow> u64" where
  "tlbre_mas1 e v0 =
     (let v1 = (v0 AND 0x7FFFFFFF) OR ucast (push_bit 31 (t_v e));
          v2 = (v1 AND 0xBFFFFFFF) OR ucast (push_bit 30 (t_iprot e));
          v3 = (v2 AND 0xFFFFEFFF) OR ucast (push_bit 12 (t_ts e));
          v4 = (v3 AND 0xFF00FFFF) OR ucast (push_bit 16 (t_tid e))
      in (v4 AND 0xFFFFF0FF) OR ucast (push_bit 8 (t_size e)))"

definition tlbre_mas2 :: "ppc_tlb_entry \<Rightarrow> u64 \<Rightarrow> u64" where
  "tlbre_mas2 e v0 =
     (let v1 = (v0 AND 0xFFFFFFE0) OR ucast (t_wimge e);
          v2 = (v1 AND 0xFFFFFF9F) OR ucast (push_bit 5 (t_x e))
      in (v2 AND 0xFFF) OR ucast (push_bit 12 (t_epn e)))"

definition tlbre_mas3 :: "ppc_tlb_entry \<Rightarrow> u64 \<Rightarrow> u64" where
  "tlbre_mas3 e v0 =
     (let v1 = (v0 AND 0xFFFFFFC0) OR ucast (t_usxrw e);
          v2 = (v1 AND 0xFFFFFFC3F) OR ucast (push_bit 6 (t_u e))
      in (v2 AND 0xFFF) OR ucast (push_bit 12 (t_rpn e)))"

definition tlbre_put :: "ppc_tlb_entry \<Rightarrow> e500_mmu \<Rightarrow> e500_mmu" where
  "tlbre_put e m = m\<lparr>mas := (mas m)(1 := tlbre_mas1 e (mas m 1), 2 := tlbre_mas2 e (mas m 2), 3 := tlbre_mas3 e (mas m 3))\<rparr>"

definition ppc_opc_tlbrehi :: "'d ppc_insn" where
  "ppc_opc_tlbrehi bd s =
     (let m = emmu (cc s) in
      if TLBSEL (mas m 0) = 0 then
        if L2_TLB0_SIZE < tlb0_offset m then ppc_halt Skyeye_exit s
        else upd_mmu (\<lambda>m. tlbre_put (tlb0 m (tlb0_offset m))
               (m\<lparr>mas := (mas m)(0 := (mas m 0 AND 0xFFFFFFFC) OR ucast (tlb0_nv m AND 3))\<rparr>)) s
      else if L2_TLB1_SIZE < tlb1_offset m then ppc_halt Skyeye_exit s
      else upd_mmu (\<lambda>m. tlbre_put (tlb1 m (tlb1_offset m)) m) s)"

definition tlbsx_hit :: "e500_mmu \<Rightarrow> u32 \<Rightarrow> nat \<Rightarrow> bool" where
  "tlbsx_hit m a i =
     (let e = tlb_at m i; mask = (if L2_TLB0_SIZE - 1 < i then NOT (1024 * tlb_pages e - 1) else NOT (1024 * 4 - 1)) in
      t_v e \<noteq> 0 \<and> (t_tid e = 0 \<or> ucast (t_tid e) = drop_bit 16 (mas m 6 AND 0xFF0000)) \<and>
      a AND mask = push_bit 12 (t_epn e))"

definition tlbsx_mas0 :: "nat \<Rightarrow> u32 \<Rightarrow> u64 \<Rightarrow> u64" where
  "tlbsx_mas0 i nv v =
     (if L2_TLB0_SIZE - 1 < i then
        let v1 = v OR 0x10000000
        in v1 OR (v1 AND 0xFFF0FFFF) OR push_bit 16 (of_nat (i - L2_TLB0_SIZE) AND 0xC)
      else
        let v1 = v AND NOT 0x10000000; v2 = (v1 AND 0xFFFFFFFC) OR ucast (nv AND 3)
        in (v2 AND 0xFFF0FFFF) OR push_bit 16 (drop_bit 4 (of_nat i AND 0xC0)))"

definition tlbsx_put :: "nat \<Rightarrow> e500_mmu \<Rightarrow> e500_mmu" where
  "tlbsx_put i m =
     (let e = tlb_at m i; v3 = (mas m 3 AND 0xFFFFFFC0) OR ucast (t_usxrw e)
      in m\<lparr>mas := (mas m)(
           0 := tlbsx_mas0 i (tlb0_nv m) (mas m 0),
           2 := (mas m 2 AND 0xFFFFF000) OR ucast (push_bit 12 (t_epn e)),
           3 := (v3 AND 0xFFF) OR ucast (push_bit 12 (t_rpn e)),
           1 := ((mas m 1 AND 0xFF0000) OR ucast (push_bit 16 (t_tid e))) OR 0x80000000)\<rparr>)"

definition ppc_opc_tlbsx :: "'d ppc_insn" where
  "ppc_opc_tlbsx bd s =
     (case find (tlbsx_hit (emmu (cc s)) (pgpr s (f11 (opc s)))) tlb_walk of
        Some i \<Rightarrow> upd_mmu (tlbsx_put i) s
      | None \<Rightarrow> s)"

definition inv_entry :: "ppc_tlb_entry \<Rightarrow> ppc_tlb_entry" where
  "inv_entry e = (if t_iprot e \<noteq> 0 then e else e\<lparr>t_v := 0\<rparr>)"

definition tlbivax_at :: "u32 \<Rightarrow> nat \<Rightarrow> e500_mmu \<Rightarrow> e500_mmu" where
  "tlbivax_at a i m =
     (let e = tlb_at m i in
      if t_iprot e = 0 \<and> tlb_tid_ok m e \<and> tlb_addr_ok i e a then upd_tlb_at i (\<lambda>e. e\<lparr>t_v := 0\<rparr>) m else m)"

definition ppc_opc_tlbivax :: "'d ppc_insn" where
  "ppc_opc_tlbivax bd s =
     (let i = opc s; a = (if f16 i \<noteq> 0 then pgpr s (f16 i) + pgpr s (f11 i) else pgpr s (f11 i)) in
      if a AND 4 \<noteq> 0 then
        if 1 < drop_bit 3 a AND 3 then s
        else if drop_bit 3 a AND 3 \<noteq> 0
        then upd_mmu (\<lambda>m. m\<lparr>tlb1 := \<lambda>j. if j < L2_TLB1_SIZE then inv_entry (tlb1 m j) else tlb1 m j\<rparr>) s
        else upd_mmu (\<lambda>m. m\<lparr>tlb0 := \<lambda>j. if j < L2_TLB0_SIZE then inv_entry (tlb0 m j) else tlb0 m j\<rparr>) s
      else upd_mmu (fold (tlbivax_at a) tlb_walk) s)"

end
