(* ===== verification/Ppc_Mem.thy ===== *)
theory Ppc_Mem
  imports Ppc_Tlb
begin

text \<open>
  Accesses of the e500 simulator to effective addresses (arch_ppc/common/ppc_io.c and the dword accesses of
  ppc_mmu.c): translation, then the board's registers, the boot ROM, the initial RAM or the DDR RAM by the physical
  address.

  A read returns \<open>None\<close> after an exception. \<open>old\<close> is what the result variable held, a half word or word
  outside every region leaves it unchanged. An access that reaches past the end of an array is \<open>Out_of_bounds\<close>.
\<close>

subsection \<open>Regions\<close>

definition BOOT_ROM_START :: u32 where "BOOT_ROM_START = 0xFFFFFFFF - 0x800000 + 1"
definition BOOT_ROM_SIZE :: u32 where "BOOT_ROM_SIZE = 0x800000"
definition INIT_RAM_START :: u32 where "INIT_RAM_START = 0xe4010000"
definition INIT_RAM_SIZE :: u32 where "INIT_RAM_SIZE = 0x4000"
definition DDR_RAM_SIZE :: u32 where "DDR_RAM_SIZE = 0x4000000"
definition CCSR_MEM_SIZE :: u32 where "CCSR_MEM_SIZE = 0x100000"

lemmas region_defs = BOOT_ROM_START_def BOOT_ROM_SIZE_def INIT_RAM_START_def INIT_RAM_SIZE_def DDR_RAM_SIZE_def CCSR_MEM_SIZE_def

definition GET_CCSR_BASE :: "u32 \<Rightarrow> u32" where
  "GET_CCSR_BASE r = push_bit 20 (drop_bit 8 r AND 0xFFF)"

datatype ppc_region = Reg_ccsr u32 | Reg_rom nat | Reg_init nat | Reg_ddr nat | Reg_none

text \<open>\<open>rom_end\<close> is the bound of the boot ROM; the one of the writes wraps around to 0.\<close>

definition region_of :: "u32 \<Rightarrow> u32 \<Rightarrow> u32 \<Rightarrow> ppc_region" where
  "region_of rom_end r p =
     (let base = GET_CCSR_BASE r in
      if base \<le> p \<and> p < base + CCSR_MEM_SIZE then Reg_ccsr (p - base)
      else if BOOT_ROM_START \<le> p \<and> p < rom_end then Reg_rom (unat (p - BOOT_ROM_START))
      else if INIT_RAM_START \<le> p \<and> p < INIT_RAM_START + INIT_RAM_SIZE then Reg_init (unat (p - INIT_RAM_START))
      else if p < DDR_RAM_SIZE then Reg_ddr (unat p)
      else Reg_none)"

definition read_region :: "'d ppc_state \<Rightarrow> u32 \<Rightarrow> ppc_region" where
  "read_region s p = region_of (BOOT_ROM_START - 1 + BOOT_ROM_SIZE) (ccsr s) p"

definition write_region :: "'d ppc_state \<Rightarrow> u32 \<Rightarrow> ppc_region" where
  "write_region s p = region_of (BOOT_ROM_START + BOOT_ROM_SIZE) (ccsr s) p"

definition mem_check :: "u32 \<Rightarrow> nat \<Rightarrow> nat \<Rightarrow> 'd ppc_state \<Rightarrow> 'd ppc_state" where
  "mem_check sz n i s = (if unat sz < i + n then ppc_halt Out_of_bounds s else s)"

subsection \<open>Reads (ppc_io.c)\<close>

definition ppc_read_effective_word :: "'d ppc_board \<Rightarrow> u32 \<Rightarrow> u32 \<Rightarrow> 'd ppc_state \<Rightarrow> u32 option \<times> 'd ppc_state" where
  "ppc_read_effective_word bd a old s =
     (case ppc_effective_to_physical (cur s) a PPC_MMU_READ s of
        (None, s1) \<Rightarrow> (None, s1)
      | (Some p, s1) \<Rightarrow>
          (case read_region s1 p of
             Reg_ccsr off \<Rightarrow> (case bd_read_word bd off s1 of (v, s2) \<Rightarrow> (Some v, s2))
           | Reg_rom i \<Rightarrow> (Some (ppc_bswap_word (host_word (boot_rom s1) i)), mem_check BOOT_ROM_SIZE 4 i s1)
           | Reg_init i \<Rightarrow> (Some (ppc_bswap_word (host_word (init_ram s1) i)), mem_check INIT_RAM_SIZE 4 i s1)
           | Reg_ddr i \<Rightarrow> (Some (ppc_bswap_word (host_word (ddr_ram s1) i)), mem_check DDR_RAM_SIZE 4 i s1)
           | Reg_none \<Rightarrow> (Some old, s1)))"

definition ppc_read_effective_half :: "'d ppc_board \<Rightarrow> u32 \<Rightarrow> u16 \<Rightarrow> 'd ppc_state \<Rightarrow> u16 option \<times> 'd ppc_state" where
  "ppc_read_effective_half bd a old s =
     (case ppc_effective_to_physical (cur s) a PPC_MMU_READ s of
        (None, s1) \<Rightarrow> (None, s1)
      | (Some p, s1) \<Rightarrow>
          (case read_region s1 p of
             Reg_ccsr off \<Rightarrow> (case bd_read_half bd off s1 of (v, s2) \<Rightarrow> (Some (ucast v), s2))
           | Reg_rom i \<Rightarrow> (Some (ppc_bswap_half (host_half (boot_rom s1) i)), mem_check BOOT_ROM_SIZE 2 i s1)
           | Reg_init i \<Rightarrow> (Some (ppc_bswap_half (host_half (init_ram s1) i)), mem_check INIT_RAM_SIZE 2 i s1)
           | Reg_ddr i \<Rightarrow> (Some (ppc_bswap_half (host_half (ddr_ram s1) i)), mem_check DDR_RAM_SIZE 2 i s1)
           | Reg_none \<Rightarrow> (Some old, s1)))"

definition ppc_read_effective_byte :: "'d ppc_board \<Rightarrow> u32 \<Rightarrow> u8 \<Rightarrow> 'd ppc_state \<Rightarrow> u8 option \<times> 'd ppc_state" where
  "ppc_read_effective_byte bd a old s =
     (case ppc_effective_to_physical (cur s) a PPC_MMU_READ s of
        (None, s1) \<Rightarrow> (None, s1)
      | (Some p, s1) \<Rightarrow>
          (case read_region s1 p of
             Reg_ccsr off \<Rightarrow> (case bd_read_byte bd off s1 of (v, s2) \<Rightarrow> (Some (ucast v), s2))
           | Reg_rom i \<Rightarrow> (Some (boot_rom s1 i), s1)
           | Reg_init i \<Rightarrow> (Some (init_ram s1 i), s1)
           | Reg_ddr i \<Rightarrow> (Some (ddr_ram s1 i), s1)
           | Reg_none \<Rightarrow> (Some old, ppc_halt Skyeye_exit s1)))"

subsection \<open>Writes (ppc_io.c)\<close>

text \<open>Whether the write returned \<^verbatim>\<open>PPC_MMU_OK\<close>, and the state.\<close>

definition ppc_write_effective_word :: "'d ppc_board \<Rightarrow> u32 \<Rightarrow> u32 \<Rightarrow> 'd ppc_state \<Rightarrow> bool \<times> 'd ppc_state" where
  "ppc_write_effective_word bd a v s =
     (case ppc_effective_to_physical (cur s) a PPC_MMU_WRITE s of
        (None, s1) \<Rightarrow> (False, s1)
      | (Some p, s1) \<Rightarrow> (True,
          case write_region s1 p of
             Reg_ccsr off \<Rightarrow> bd_write_word bd off v s1
           | Reg_rom i \<Rightarrow> mem_check BOOT_ROM_SIZE 4 i (s1\<lparr>boot_rom := host_put_word i (ppc_bswap_word v) (boot_rom s1)\<rparr>)
           | Reg_init i \<Rightarrow> mem_check INIT_RAM_SIZE 4 i (s1\<lparr>init_ram := host_put_word i (ppc_bswap_word v) (init_ram s1)\<rparr>)
           | Reg_ddr i \<Rightarrow> mem_check DDR_RAM_SIZE 4 i (s1\<lparr>ddr_ram := host_put_word i (ppc_bswap_word v) (ddr_ram s1)\<rparr>)
           | Reg_none \<Rightarrow> s1))"

definition ppc_write_effective_half :: "'d ppc_board \<Rightarrow> u32 \<Rightarrow> u16 \<Rightarrow> 'd ppc_state \<Rightarrow> bool \<times> 'd ppc_state" where
  "ppc_write_effective_half bd a v s =
     (case ppc_effective_to_physical (cur s) a PPC_MMU_WRITE s of
        (None, s1) \<Rightarrow> (False, s1)
      | (Some p, s1) \<Rightarrow> (True,
          case write_region s1 p of
             Reg_ccsr off \<Rightarrow> bd_write_half bd off (ucast v) s1
           | Reg_rom i \<Rightarrow> mem_check BOOT_ROM_SIZE 2 i (s1\<lparr>boot_rom := host_put_half i (ppc_bswap_half v) (boot_rom s1)\<rparr>)
           | Reg_init i \<Rightarrow> mem_check INIT_RAM_SIZE 2 i (s1\<lparr>init_ram := host_put_half i (ppc_bswap_half v) (init_ram s1)\<rparr>)
           | Reg_ddr i \<Rightarrow> mem_check DDR_RAM_SIZE 2 i (s1\<lparr>ddr_ram := host_put_half i (ppc_bswap_half v) (ddr_ram s1)\<rparr>)
           | Reg_none \<Rightarrow> s1))"

definition ppc_write_effective_byte :: "'d ppc_board \<Rightarrow> u32 \<Rightarrow> u8 \<Rightarrow> 'd ppc_state \<Rightarrow> bool \<times> 'd ppc_state" where
  "ppc_write_effective_byte bd a v s =
     (case ppc_effective_to_physical (cur s) a PPC_MMU_WRITE s of
        (None, s1) \<Rightarrow> (False, s1)
      | (Some p, s1) \<Rightarrow> (True,
          case write_region s1 p of
             Reg_ccsr off \<Rightarrow> bd_write_byte bd off (ucast v) s1
           | Reg_rom i \<Rightarrow> s1\<lparr>boot_rom := (boot_rom s1)(i := v)\<rparr>
           | Reg_init i \<Rightarrow> s1\<lparr>init_ram := (init_ram s1)(i := v)\<rparr>
           | Reg_ddr i \<Rightarrow> s1\<lparr>ddr_ram := (ddr_ram s1)(i := v)\<rparr>
           | Reg_none \<Rightarrow> s1))"

subsection \<open>Double words (ppc_mmu.c)\<close>

text \<open>The body of the read is left out by the preprocessor: the result variable keeps its value, which is 0.\<close>

definition ppc_read_effective_dword :: "u32 \<Rightarrow> u64 \<Rightarrow> 'd ppc_state \<Rightarrow> u64 option \<times> 'd ppc_state" where
  "ppc_read_effective_dword a old s =
     (case ppc_effective_to_physical (cur s) a PPC_MMU_READ s of
        (None, s1) \<Rightarrow> (None, s1) | (Some p, s1) \<Rightarrow> (Some old, s1))"

text \<open>The bytes of \<open>v\<close> as they are stored, most significant first, into the boot ROM from index \<open>i\<close>.\<close>

definition dword_bytes :: "u64 \<Rightarrow> u8 list" where
  "dword_bytes v = map (\<lambda>k. ucast (drop_bit (56 - 8 * k) v)) [0..<8]"

definition put_bytes :: "nat \<Rightarrow> u8 list \<Rightarrow> (nat \<Rightarrow> u8) \<Rightarrow> nat \<Rightarrow> u8" where
  "put_bytes i bs m = (\<lambda>j. if i \<le> j \<and> j < i + length bs then bs ! (j - i) else m j)"

definition ppc_write_physical_dword :: "u32 \<Rightarrow> u64 \<Rightarrow> 'd ppc_state \<Rightarrow> bool \<times> 'd ppc_state" where
  "ppc_write_physical_dword p v s =
     (if p < BOOT_ROM_SIZE
      then (True, mem_check BOOT_ROM_SIZE 8 (unat p) (s\<lparr>boot_rom := put_bytes (unat p) (dword_bytes v) (boot_rom s)\<rparr>))
      else (False, s))"

text \<open>Over the end of a page: the last seven bytes of one page and the first seven of the next.\<close>

definition write_two_pages :: "nat \<Rightarrow> u64 \<Rightarrow> nat \<Rightarrow> nat \<Rightarrow> 'd ppc_state \<Rightarrow> 'd ppc_state" where
  "write_two_pages off v i1 i2 s =
     (let m = boot_rom s; b0 = map (\<lambda>k. m (i1 + k)) [0..<7] @ map (\<lambda>k. m (i2 + k)) [0..<7];
          b = take (off - 4089) b0 @ dword_bytes v @ drop (off - 4089 + 8) b0
      in mem_check BOOT_ROM_SIZE 7 i1 (mem_check BOOT_ROM_SIZE 7 i2
           (s\<lparr>boot_rom := put_bytes i2 (drop 7 b) (put_bytes i1 (take 7 b) m)\<rparr>)))"

definition ppc_write_effective_dword :: "u32 \<Rightarrow> u64 \<Rightarrow> 'd ppc_state \<Rightarrow> bool \<times> 'd ppc_state" where
  "ppc_write_effective_dword a v s =
     (case ppc_effective_to_physical (cur s) a PPC_MMU_WRITE s of
        (None, s1) \<Rightarrow> (False, s1)
      | (Some p, s1) \<Rightarrow>
          if 4088 < a AND 0xfff then
            (case ppc_effective_to_physical (cur s1) ((a AND NOT 0xfff) + 4089) PPC_MMU_WRITE s1 of (q, s2) \<Rightarrow>
               (let p1 = (case q of None \<Rightarrow> p | Some x \<Rightarrow> x) in
                if BOOT_ROM_SIZE \<le> p1 then (False, s2)
                else case ppc_effective_to_physical (cur s2) ((a AND NOT 0xfff) + 4096) PPC_MMU_WRITE s2 of
                  (None, s3) \<Rightarrow> (False, s3)
                | (Some p2, s3) \<Rightarrow>
                    if BOOT_ROM_SIZE \<le> p2 then (False, s3)
                    else (True, write_two_pages (unat (a AND 0xfff)) v (unat p1) (unat p2) s3)))
          else ppc_write_physical_dword p v s1)"

end
