(* ===== verification/Ppc_Float.thy ===== *)
theory Ppc_Float
  imports Ppc_State
begin

text \<open>
  The software floating point of the e500 simulator (arch_ppc/common/ppc_tools.c and the arithmetic of
  ppc_fpu.c): numbers are unpacked into sign, exponent and a fraction of 56 bits (three of them guard bits),
  computed on, and packed again.

  A sign is a bool, an exponent an \<open>int\<close>. Where the functions assign through a pointer and leave some fields
  unset, the model takes the old contents. \<open>None\<close> is a shift by a negative amount, which C does not define.
  The rounding mode \<open>rn\<close> is \<^verbatim>\<open>FPSCR_RN(fpscr)\<close>.
\<close>

subsection \<open>Unpacked numbers (ppc_fpu.h)\<close>

datatype ppc_fpr_type = Fpr_norm | Fpr_zero | Fpr_NaN | Fpr_Inf

record ppc_quadro =
  qtype :: ppc_fpr_type
  qs :: bool
  qe :: int
  qm0 :: u64
  qm1 :: u64

record ppc_double =
  dtype :: ppc_fpr_type
  ds :: bool
  de :: int
  dm :: u64

record ppc_single =
  stype :: ppc_fpr_type
  ss :: bool
  se :: int
  sm :: u32

definition FPSCR_OX :: u32 where "FPSCR_OX = 0x10000000"
definition FPSCR_UX :: u32 where "FPSCR_UX = 0x8000000"
definition FPSCR_XX :: u32 where "FPSCR_XX = 0x2000000"
definition FPSCR_VXSNAN :: u32 where "FPSCR_VXSNAN = 0x1000000"
definition FPSCR_VXISI :: u32 where "FPSCR_VXISI = 0x800000"
definition FPSCR_VXIDI :: u32 where "FPSCR_VXIDI = 0x400000"
definition FPSCR_VXZDZ :: u32 where "FPSCR_VXZDZ = 0x200000"
definition FPSCR_VXIMZ :: u32 where "FPSCR_VXIMZ = 0x100000"
definition FPSCR_VXVC :: u32 where "FPSCR_VXVC = 0x80000"
definition FPSCR_VXSQRT :: u32 where "FPSCR_VXSQRT = 0x200"

definition RN_NEAR :: u32 where "RN_NEAR = 0"
definition RN_ZERO :: u32 where "RN_ZERO = 1"
definition RN_PINF :: u32 where "RN_PINF = 2"
definition RN_MINF :: u32 where "RN_MINF = 3"

lemmas rn_defs = RN_NEAR_def RN_ZERO_def RN_PINF_def RN_MINF_def

definition FPU_SIGN_BIT :: u64 where "FPU_SIGN_BIT = 0x8000000000000000"

definition FPD_PACK_VAR :: "bool \<Rightarrow> int \<Rightarrow> u64 \<Rightarrow> u64" where
  "FPD_PACK_VAR s e m =
     (if s then FPU_SIGN_BIT else 0) OR push_bit 52 (of_int e AND 0x7ff) OR (m AND (push_bit 52 1 - 1))"

definition FPS_PACK_VAR :: "bool \<Rightarrow> int \<Rightarrow> u64 \<Rightarrow> u32" where
  "FPS_PACK_VAR s e m = ucast ((if s then 0x80000000 else 0) OR ucast (push_bit 23 (of_int e :: u32)) OR (m AND 0x7fffff))"

subsection \<open>Leading zeros (ppc_tools.c)\<close>

definition lz_step :: "bool \<Rightarrow> nat \<Rightarrow> nat \<times> u32 \<Rightarrow> nat \<times> u32" where
  "lz_step c n p = (if c then (fst p - n, drop_bit n (snd p)) else p)"

definition lz_word :: "nat \<Rightarrow> u32 \<Rightarrow> nat" where
  "lz_word start d0 =
     (let p1 = lz_step (0xffff < d0) 16 (start, d0);
          p2 = lz_step (0xff < snd p1) 8 p1;
          p3 = lz_step (snd p2 AND 0xf0 \<noteq> 0) 4 p2;
          p4 = lz_step (snd p3 AND 0xc \<noteq> 0) 2 p3
      in if snd p4 AND 2 \<noteq> 0 then fst p4 - 1 else fst p4)"

definition ppc_count_leading_zeros :: "u64 \<Rightarrow> nat" where
  "ppc_count_leading_zeros i =
     (let dd = ucast (drop_bit 32 i) :: u32
      in if dd \<noteq> 0 then lz_word 31 dd else lz_word 63 (ucast i))"

definition ppc_fpu_normalize_quadro :: "ppc_quadro \<Rightarrow> nat" where
  "ppc_fpu_normalize_quadro d =
     (if qm0 d \<noteq> 0 then ppc_count_leading_zeros (qm0 d) else 64 + ppc_count_leading_zeros (qm1 d))"

definition ppc_fpu_normalize :: "ppc_double \<Rightarrow> nat" where
  "ppc_fpu_normalize d = ppc_count_leading_zeros (dm d)"

definition ppc_fpu_normalize_single :: "ppc_single \<Rightarrow> nat" where
  "ppc_fpu_normalize_single d = lz_word 31 (sm d)"

subsection \<open>Unpacking (ppc_tools.c)\<close>

text \<open>The fraction is not 0 where its leading zeros are counted, so the shifts are in range.\<close>

definition ppc_fpu_unpack_double :: "u64 \<Rightarrow> ppc_double" where
  "ppc_fpu_unpack_double d =
     (let r = \<lparr>dtype = Fpr_norm, ds = d AND FPU_SIGN_BIT \<noteq> 0, de = uint (drop_bit 52 d AND 0x7ff),
               dm = d AND 0x000fffffffffffff\<rparr>;
          diff = int (ppc_fpu_normalize r) - 8
      in if de r = 2047 then r\<lparr>dtype := if dm r = 0 then Fpr_Inf else Fpr_NaN\<rparr>
         else if de r = 0 then
           if dm r = 0 then r\<lparr>dtype := Fpr_zero\<rparr>
           else r\<lparr>dm := push_bit (nat (diff + 3)) (dm r), de := de r - (1023 - 1 + diff)\<rparr>
         else r\<lparr>de := de r - 1023, dm := push_bit 3 (dm r OR push_bit 52 1)\<rparr>)"

definition ppc_fpu_unpack_single :: "u32 \<Rightarrow> ppc_single" where
  "ppc_fpu_unpack_single d =
     (let r = \<lparr>stype = Fpr_norm, ss = d AND 0x80000000 \<noteq> 0, se = uint (drop_bit 23 d AND 0xff), sm = d AND 0x007fffff\<rparr>;
          diff = int (ppc_fpu_normalize_single r) - 8
      in if se r = 255 then r\<lparr>stype := if sm r = 0 then Fpr_Inf else Fpr_NaN\<rparr>
         else if se r = 0 then
           if sm r = 0 then r\<lparr>stype := Fpr_zero\<rparr>
           else r\<lparr>sm := push_bit (nat (diff + 3)) (sm r), se := se r - (127 - 1 + diff)\<rparr>
         else r\<lparr>se := se r - 127, sm := push_bit 3 (sm r OR push_bit 23 1)\<rparr>)"

definition ppc_fpu_single_to_double :: "ppc_single \<Rightarrow> ppc_double" where
  "ppc_fpu_single_to_double s = \<lparr>dtype = stype s, ds = ss s, de = se s, dm = push_bit 29 (ucast (sm s))\<rparr>"

subsection \<open>Rounding and packing (ppc_tools.c)\<close>

text \<open>The flags and the new fraction; \<^verbatim>\<open>ppc_fpu_round\<close> and \<^verbatim>\<open>ppc_fpu_round_double\<close> are the same code.\<close>

definition ppc_fpu_round :: "u32 \<Rightarrow> bool \<Rightarrow> u64 \<Rightarrow> u32 \<times> u64" where
  "ppc_fpu_round rn s m =
     (if rn = RN_NEAR then
        if m AND 7 \<noteq> 0 then (FPSCR_XX, if m AND 7 \<noteq> 4 then m + 4 else if m AND 8 \<noteq> 0 then m + 4 else m) else (0, m)
      else if rn = RN_ZERO then (if m AND 7 \<noteq> 0 then FPSCR_XX else 0, m)
      else if rn = RN_PINF then if \<not> s \<and> m AND 7 \<noteq> 0 then (FPSCR_XX, m + 8) else (0, m)
      else if rn = RN_MINF then if s \<and> m AND 7 \<noteq> 0 then (FPSCR_XX, m + 8) else (0, m)
      else (0, m))"

definition ppc_fpu_round_single :: "u32 \<Rightarrow> bool \<Rightarrow> u32 \<Rightarrow> u32 \<times> u32" where
  "ppc_fpu_round_single rn s m =
     (if rn = RN_NEAR then
        if m AND 7 \<noteq> 0 then (FPSCR_XX, if m AND 7 \<noteq> 4 then m + 4 else if m AND 8 \<noteq> 0 then m + 4 else m) else (0, m)
      else if rn = RN_ZERO then (if m AND 7 \<noteq> 0 then FPSCR_XX else 0, m)
      else if rn = RN_PINF then if \<not> s \<and> m AND 7 \<noteq> 0 then (FPSCR_XX, m + 8) else (0, m)
      else if rn = RN_MINF then if s \<and> m AND 7 \<noteq> 0 then (FPSCR_XX, m + 8) else (0, m)
      else (0, m))"

text \<open>
  A fraction of a normal number to exponent and fraction of the format with \<open>hib\<close> the first bit above the fraction
  and \<open>big\<close> the largest exponent: 56 and 2047 for double, 27 and 255 for single precision.
\<close>

definition pack_norm :: "u32 \<Rightarrow> nat \<Rightarrow> int \<Rightarrow> bool \<Rightarrow> int \<Rightarrow> u64 \<Rightarrow> u32 \<times> int \<times> u64" where
  "pack_norm rn hib big s e m =
     (if 0 < e then
        let (ret, m1) = ppc_fpu_round rn s m;
            (e2, m2) = (if m1 AND push_bit hib 1 \<noteq> 0 then (e + 1, drop_bit 4 m1) else (e, drop_bit 3 m1))
        in if big \<le> e2 then (ret OR FPSCR_OX, big, 0) else (ret, e2, m2)
      else let e1 = - e + 1 in
        if e1 \<le> int hib then
          let (ret, m1) = ppc_fpu_round rn s (drop_bit (nat e1) m); m2 = push_bit 1 m1
          in if m2 AND push_bit hib 1 \<noteq> 0 then (ret, 1, 0) else (ret OR FPSCR_UX, 0, drop_bit 4 m2)
        else (FPSCR_UX, 0, 0))"

definition ppc_fpu_pack_double :: "u32 \<Rightarrow> ppc_double \<Rightarrow> u32 \<times> u64" where
  "ppc_fpu_pack_double rn d =
     (case dtype d of
        Fpr_norm \<Rightarrow> (case pack_norm rn 56 2047 (ds d) (de d + 1023) (dm d) of (ret, e, m) \<Rightarrow> (ret, FPD_PACK_VAR (ds d) e m))
      | Fpr_zero \<Rightarrow> (0, FPD_PACK_VAR (ds d) 0 0)
      | Fpr_NaN \<Rightarrow> (0, FPD_PACK_VAR (ds d) 2047 1)
      | Fpr_Inf \<Rightarrow> (0, FPD_PACK_VAR (ds d) 2047 0))"

definition ppc_fpu_pack_single :: "u32 \<Rightarrow> ppc_double \<Rightarrow> u32 \<times> u32" where
  "ppc_fpu_pack_single rn d =
     (case dtype d of
        Fpr_norm \<Rightarrow> (case pack_norm rn 27 255 (ds d) (de d + 127) (drop_bit 29 (dm d)) of
                       (ret, e, m) \<Rightarrow> (ret, FPS_PACK_VAR (ds d) e m))
      | Fpr_zero \<Rightarrow> (0, FPS_PACK_VAR (ds d) 0 0)
      | Fpr_NaN \<Rightarrow> (0, FPS_PACK_VAR (ds d) 255 1)
      | Fpr_Inf \<Rightarrow> (0, FPS_PACK_VAR (ds d) 255 0))"

text \<open>
  The same steps on the 32-bit fraction of a single, which also decide its type; the exponent of the double is
  written back in the first branch only.
\<close>

definition as_single_norm :: "u32 \<Rightarrow> ppc_double \<Rightarrow> u32 \<times> ppc_fpr_type \<times> u32 \<times> int" where
  "as_single_norm rn d =
     (let m = ucast (drop_bit 29 (dm d)) :: u32; e = de d + 127 in
      if 0 < e then
        let (ret, m1) = ppc_fpu_round_single rn (ds d) m;
            (e2, m2) = (if m1 AND push_bit 27 1 \<noteq> 0 then (e + 1, drop_bit 4 m1) else (e, drop_bit 3 m1))
        in if 255 \<le> e2 then (ret OR FPSCR_OX, Fpr_Inf, 0, 255 - 127) else (ret, Fpr_norm, m2, e2 - 127)
      else let e1 = - e + 1 in
        if e1 \<le> 27 then
          let (ret, m1) = ppc_fpu_round_single rn (ds d) (drop_bit (nat e1) m); m2 = push_bit 1 m1
          in if m2 AND push_bit 27 1 \<noteq> 0 then (ret, Fpr_norm, 0, de d) else (ret OR FPSCR_UX, Fpr_norm, drop_bit 4 m2, de d)
        else (FPSCR_UX, Fpr_zero, 0, de d))"

definition ppc_fpu_pack_double_as_single :: "u32 \<Rightarrow> ppc_double \<Rightarrow> u32 \<times> u64" where
  "ppc_fpu_pack_double_as_single rn d =
     (let (ret, ty, m, e) = (case dtype d of
          Fpr_norm \<Rightarrow> as_single_norm rn d
        | Fpr_zero \<Rightarrow> (0, Fpr_zero, 0, de d)
        | Fpr_NaN \<Rightarrow> (0, Fpr_NaN, 1, de d)
        | Fpr_Inf \<Rightarrow> (0, Fpr_Inf, 0, de d));
          (ret2, v) = ppc_fpu_pack_double rn (d\<lparr>de := e, dm := if ty = Fpr_norm then push_bit 32 (ucast m) else ucast m\<rparr>)
      in (ret OR ret2, v))"

definition ppc_fpu_double_to_int :: "u32 \<Rightarrow> ppc_double \<Rightarrow> u32" where
  "ppc_fpu_double_to_int rn d =
     (case dtype d of
        Fpr_norm \<Rightarrow>
          if de d < 0 then
            if rn = RN_NEAR then if de d < - 1 then 0 else if ds d then - 1 else 1
            else if rn = RN_ZERO then 0
            else if rn = RN_PINF then if ds d then 0 else 1
            else if ds d then - 1 else 0
          else if 31 \<le> de d then if ds d then 0x80000000 else 0x7fffffff
          else
            let sh = nat (56 - de d - 1);
                inexact = dm d AND (push_bit sh 1 - 1) \<noteq> 0;
                i = (if rn = RN_NEAR then inexact \<and> dm d AND push_bit (sh - 1) 1 \<noteq> 0
                     else if rn = RN_PINF then \<not> ds d \<and> inexact
                     else if rn = RN_MINF then ds d \<and> inexact else False);
                m = drop_bit sh (dm d) + of_bool i
            in ucast (if ds d then - m else m)
      | Fpr_zero \<Rightarrow> 0
      | Fpr_Inf \<Rightarrow> if ds d then 0x80000000 else 0x7fffffff
      | Fpr_NaN \<Rightarrow> if ds d then 0x80000000 else 0x7fffffff)"

subsection \<open>Addition (ppc_fpu.c)\<close>

definition align_m :: "int \<Rightarrow> u64 \<Rightarrow> u64" where
  "align_m diff m = (if diff \<le> 56 then drop_bit (nat diff) m else if m \<noteq> 0 then 1 else 0)"

definition fpu_add_norm :: "u32 \<Rightarrow> ppc_double \<Rightarrow> ppc_double \<Rightarrow> ppc_double option" where
  "fpu_add_norm rn a b =
     (let diff = de a - de b;
          am = (if diff < 0 then align_m (- diff) (dm a) else dm a);
          bm = (if diff < 0 then dm b else align_m diff (dm b));
          e = (if diff < 0 then de b else de a)
      in if ds a = ds b then
           let m = am + bm
           in Some (if m AND push_bit 56 1 \<noteq> 0 then \<lparr>dtype = Fpr_norm, ds = ds a, de = e + 1, dm = drop_bit 1 m\<rparr>
                    else \<lparr>dtype = Fpr_norm, ds = ds a, de = e, dm = m\<rparr>)
         else if am - bm = 0 then
           Some \<lparr>dtype = Fpr_zero, ds = if rn = RN_MINF then ds a \<or> ds b else ds a \<and> ds b, de = e, dm = 0\<rparr>
         else
           let neg = sint (am - bm) < 0;
               m = (if neg then bm - am else am - bm);
               sh = int (ppc_count_leading_zeros m) - 8
           in if sh < 0 then None
              else Some \<lparr>dtype = Fpr_norm, ds = if neg then ds b else ds a, de = e - sh, dm = push_bit (nat sh) m\<rparr>)"

fun ppc_fpu_add :: "u32 \<Rightarrow> ppc_double \<Rightarrow> ppc_double \<Rightarrow> ppc_double \<Rightarrow> ppc_double option" where
  "ppc_fpu_add rn res a b =
     (case (dtype a, dtype b) of
        (Fpr_norm, Fpr_norm) \<Rightarrow> fpu_add_norm rn a b
      | (Fpr_NaN, Fpr_NaN) \<Rightarrow> Some (res\<lparr>ds := ds a, dtype := Fpr_NaN\<rparr>)
      | (Fpr_norm, Fpr_zero) \<Rightarrow> Some (res\<lparr>de := de a, ds := ds a, dm := dm a, dtype := dtype a\<rparr>)
      | (Fpr_NaN, _) \<Rightarrow> Some (res\<lparr>ds := ds a, dm := dm a, dtype := dtype a\<rparr>)
      | (Fpr_zero, Fpr_norm) \<Rightarrow> Some (res\<lparr>de := de b, ds := ds b, dm := dm b, dtype := dtype b\<rparr>)
      | (_, Fpr_NaN) \<Rightarrow> Some (res\<lparr>ds := ds b, dm := dm b, dtype := dtype b\<rparr>)
      | (Fpr_Inf, Fpr_Inf) \<Rightarrow>
          if ds a \<noteq> ds b then Some (res\<lparr>ds := True, dtype := Fpr_NaN\<rparr>) else Some (res\<lparr>ds := ds a, dtype := dtype a\<rparr>)
      | (Fpr_Inf, _) \<Rightarrow> Some (res\<lparr>ds := ds a, dtype := dtype a\<rparr>)
      | (_, Fpr_Inf) \<Rightarrow> Some (res\<lparr>ds := ds b, dtype := dtype b\<rparr>)
      | (Fpr_zero, Fpr_zero) \<Rightarrow> Some (res\<lparr>dtype := Fpr_zero, ds := ds a \<and> ds b\<rparr>))"

subsection \<open>Fractions of two words (ppc_fpu.c)\<close>

text \<open>
  For \<open>n = 0\<close> the C code shifts by 64, what it shifts is then 0 after the mask. The length of a left shift that
  was computed from the leading zeros may be negative: \<open>None\<close>.
\<close>

definition ppc_fpu_quadro_mshr :: "nat \<Rightarrow> ppc_quadro \<Rightarrow> ppc_quadro" where
  "ppc_fpu_quadro_mshr e q =
     (let (m0, m1, n) = (if 64 \<le> e then (0, qm0 q, e - 64) else (qm0 q, qm1 q, e));
          t = m0 AND (push_bit n 1 - 1)
      in q\<lparr>qm0 := drop_bit n m0, qm1 := drop_bit n m1 OR push_bit (64 - n) t\<rparr>)"

definition ppc_fpu_quadro_mshl :: "int \<Rightarrow> ppc_quadro \<Rightarrow> ppc_quadro option" where
  "ppc_fpu_quadro_mshl e q =
     (if e < 0 then None else
      let (m0, m1, n) = (if 64 \<le> e then (qm1 q, 0, nat e - 64) else (qm0 q, qm1 q, nat e));
          t = drop_bit (64 - n) m1 AND (push_bit n 1 - 1)
      in Some (q\<lparr>qm0 := push_bit n m0 OR t, qm1 := push_bit n m1\<rparr>))"

definition ppc_fpu_add_quadro_m :: "ppc_quadro \<Rightarrow> ppc_quadro \<Rightarrow> ppc_quadro \<Rightarrow> ppc_quadro" where
  "ppc_fpu_add_quadro_m res a b =
     (let m1 = qm1 a + qm1 b
      in res\<lparr>qm1 := m1, qm0 := if m1 < qm1 a then qm0 a + qm0 b + 1 else qm0 a + qm0 b\<rparr>)"

definition ppc_fpu_sub_quadro_m :: "ppc_quadro \<Rightarrow> ppc_quadro \<Rightarrow> ppc_quadro \<Rightarrow> ppc_quadro" where
  "ppc_fpu_sub_quadro_m res a b =
     res\<lparr>qm1 := qm1 a - qm1 b, qm0 := if qm1 a < qm1 b then qm0 a - qm0 b - 1 else qm0 a - qm0 b\<rparr>"

definition align_quadro :: "int \<Rightarrow> ppc_quadro \<Rightarrow> ppc_quadro" where
  "align_quadro diff q =
     (if diff \<le> 107 then ppc_fpu_quadro_mshr (nat diff) q
      else q\<lparr>qm0 := 0, qm1 := if qm0 q \<noteq> 0 \<or> qm1 q \<noteq> 0 then 1 else 0\<rparr>)"

definition add_quadro_same :: "ppc_quadro \<Rightarrow> ppc_quadro \<Rightarrow> ppc_quadro \<Rightarrow> ppc_quadro" where
  "add_quadro_same res a b =
     (let r = ppc_fpu_add_quadro_m (res\<lparr>qs := qs a\<rparr>) a b;
          x = qm1 r AND 1;
          r2 = (if qm0 r AND push_bit 43 1 \<noteq> 0 then (ppc_fpu_quadro_mshr 1 r)\<lparr>qe := qe r + 1\<rparr> else r)
      in r2\<lparr>qm1 := (qm1 r2 AND 0xfffffffffffffffe) OR x\<rparr>)"

definition add_quadro_diff :: "u32 \<Rightarrow> ppc_quadro \<Rightarrow> ppc_quadro \<Rightarrow> ppc_quadro \<Rightarrow> ppc_quadro option" where
  "add_quadro_diff rn res a b =
     (if qm0 a = qm0 b \<and> qm1 a = qm1 b then
        Some (res\<lparr>qs := if rn = RN_MINF then qs a \<or> qs b else qs a \<and> qs b, qtype := Fpr_zero\<rparr>)
      else
        let r = (if qm0 a < qm0 b \<or> qm0 a = qm0 b \<and> qm1 a < qm1 b
                 then (ppc_fpu_sub_quadro_m res b a)\<lparr>qs := qs b\<rparr> else (ppc_fpu_sub_quadro_m res a b)\<lparr>qs := qs a\<rparr>);
            diff = int (ppc_fpu_normalize_quadro r) - (128 - 107);
            x = qm1 r AND 1
        in map_option (\<lambda>q. q\<lparr>qe := qe r - diff, qm1 := qm1 q OR x\<rparr>)
             (ppc_fpu_quadro_mshl diff (r\<lparr>qm1 := qm1 r AND 0xfffffffffffffffe\<rparr>)))"

definition add_quadro_norm :: "u32 \<Rightarrow> ppc_quadro \<Rightarrow> ppc_quadro \<Rightarrow> ppc_quadro \<Rightarrow> ppc_quadro option" where
  "add_quadro_norm rn res a b =
     (let diff = qe a - qe b;
          a' = (if diff < 0 then align_quadro (- diff) a else a);
          b' = (if diff < 0 then b else align_quadro diff b);
          r = res\<lparr>qe := if diff < 0 then qe b else qe a, qtype := Fpr_norm\<rparr>
      in if qs a = qs b then Some (add_quadro_same r a' b') else add_quadro_diff rn r a' b')"

definition widen_norm :: "ppc_quadro \<Rightarrow> ppc_quadro" where
  "widen_norm q = (if qtype q = Fpr_norm then the (ppc_fpu_quadro_mshl 1 q) else q)"

definition copy_quadro :: "ppc_quadro \<Rightarrow> ppc_quadro \<Rightarrow> ppc_quadro" where
  "copy_quadro res a = res\<lparr>qe := qe a, qs := qs a, qm0 := qm0 a, qm1 := qm1 a, qtype := qtype a\<rparr>"

definition ppc_fpu_add_quadro :: "u32 \<Rightarrow> ppc_quadro \<Rightarrow> ppc_quadro \<Rightarrow> ppc_quadro \<Rightarrow> ppc_quadro option" where
  "ppc_fpu_add_quadro rn res a0 b0 =
     (let a = widen_norm a0; b = widen_norm b0 in
      case (qtype a, qtype b) of
        (Fpr_norm, Fpr_norm) \<Rightarrow> add_quadro_norm rn res a b
      | (Fpr_NaN, Fpr_NaN) \<Rightarrow> Some (res\<lparr>qs := qs a, qtype := Fpr_NaN\<rparr>)
      | (Fpr_norm, Fpr_zero) \<Rightarrow> Some (copy_quadro res a)
      | (Fpr_NaN, _) \<Rightarrow> Some (copy_quadro res a)
      | (Fpr_zero, Fpr_norm) \<Rightarrow> Some (copy_quadro res b)
      | (_, Fpr_NaN) \<Rightarrow> Some (copy_quadro res b)
      | (Fpr_Inf, Fpr_Inf) \<Rightarrow>
          if qs a \<noteq> qs b then Some (res\<lparr>qs := True, qtype := Fpr_NaN\<rparr>) else Some (res\<lparr>qs := qs a, qtype := qtype a\<rparr>)
      | (Fpr_Inf, _) \<Rightarrow> Some (res\<lparr>qs := qs a, qtype := qtype a\<rparr>)
      | (_, Fpr_Inf) \<Rightarrow> Some (res\<lparr>qs := qs b, qtype := qtype b\<rparr>)
      | (Fpr_zero, Fpr_zero) \<Rightarrow> Some (res\<lparr>qtype := Fpr_zero, qs := qs a \<and> qs b\<rparr>))"

subsection \<open>Multiplication (ppc_fpu.c)\<close>

text \<open>The new sum and the carry.\<close>

definition ppc_fpu_add_uint64_carry :: "u64 \<Rightarrow> u64 \<Rightarrow> u64 \<times> u64" where
  "ppc_fpu_add_uint64_carry a b = (a + b, if a + b < a then 1 else 0)"

text \<open>The upper and the lower word of the product of two fractions; both multiplications begin with it.\<close>

definition mul_m :: "u64 \<Rightarrow> u64 \<Rightarrow> u64 \<times> u64" where
  "mul_m am bm =
     (let fL = (am AND 0xffffffff) * (bm AND 0xffffffff);
          fM1 = drop_bit 32 am * (bm AND 0xffffffff);
          fM2 = (am AND 0xffffffff) * drop_bit 32 bm;
          fH = drop_bit 32 am * drop_bit 32 bm;
          split = fM1 + fM2;
          (rL, carry) = ppc_fpu_add_uint64_carry fL (push_bit 32 (split AND 0xffffffff))
      in (fH + carry + drop_bit 32 split, rL))"

definition mul_norm :: "ppc_double \<Rightarrow> ppc_double \<Rightarrow> int \<times> u64" where
  "mul_norm a b =
     (let (rH, rL) = mul_m (dm a) (dm b);
          m = push_bit 9 rH OR drop_bit (64 - 9) rL;
          e = de a + de b
      in if m AND push_bit 57 1 \<noteq> 0 then (e + 2, drop_bit 2 m)
         else if m AND push_bit 56 1 \<noteq> 0 then (e + 1, drop_bit 1 m)
         else (e, m))"

text \<open>Type and sign of a product that is not one of two normal numbers.\<close>

definition mul_special :: "ppc_fpr_type \<Rightarrow> bool \<Rightarrow> ppc_fpr_type \<Rightarrow> bool \<Rightarrow> ppc_fpr_type \<times> bool" where
  "mul_special ta sa tb sb =
     (let s = (sa \<noteq> sb) in
      case (ta, tb) of
        (Fpr_NaN, Fpr_NaN) \<Rightarrow> (ta, s)
      | (Fpr_NaN, _) \<Rightarrow> (ta, sa)
      | (_, Fpr_NaN) \<Rightarrow> (tb, sb)
      | (Fpr_norm, _) \<Rightarrow> (tb, s)
      | (Fpr_zero, Fpr_Inf) \<Rightarrow> (Fpr_NaN, s)
      | (Fpr_Inf, Fpr_zero) \<Rightarrow> (Fpr_NaN, s)
      | (_, _) \<Rightarrow> (ta, s))"

definition ppc_fpu_mul :: "ppc_double \<Rightarrow> ppc_double \<Rightarrow> ppc_double \<Rightarrow> ppc_double" where
  "ppc_fpu_mul res a b =
     (if dtype a = Fpr_norm \<and> dtype b = Fpr_norm then
        case mul_norm a b of (e, m) \<Rightarrow> \<lparr>dtype = Fpr_norm, ds = (ds a \<noteq> ds b), de = e, dm = m\<rparr>
      else case mul_special (dtype a) (ds a) (dtype b) (ds b) of (t, s) \<Rightarrow>
        res\<lparr>ds := s, dtype := t, de := if dtype a = Fpr_NaN \<and> dtype b = Fpr_NaN then de a else de res\<rparr>)"

definition ppc_fpu_mul_quadro :: "ppc_quadro \<Rightarrow> ppc_double \<Rightarrow> ppc_double \<Rightarrow> nat \<Rightarrow> ppc_quadro" where
  "ppc_fpu_mul_quadro res a b prec =
     (if dtype a = Fpr_norm \<and> dtype b = Fpr_norm then
        let (rH, rL) = mul_m (dm a) (dm b);
            r = \<lparr>qtype = Fpr_norm, qs = (ds a \<noteq> ds b), qe = de a + de b, qm0 = rH, qm1 = rL\<rparr>
        in if rH AND push_bit 48 1 \<noteq> 0 then (ppc_fpu_quadro_mshr (2 + (111 - prec)) r)\<lparr>qe := qe r + 2\<rparr>
           else if rH AND push_bit 47 1 \<noteq> 0 then (ppc_fpu_quadro_mshr (1 + (111 - prec)) r)\<lparr>qe := qe r + 1\<rparr>
           else ppc_fpu_quadro_mshr (111 - prec) r
      else case mul_special (dtype a) (ds a) (dtype b) (ds b) of (t, s) \<Rightarrow>
        res\<lparr>qs := s, qtype := t, qe := if dtype a = Fpr_NaN \<and> dtype b = Fpr_NaN then de a else qe res\<rparr>)"

definition quadro_0 :: ppc_quadro where
  "quadro_0 = \<lparr>qtype = Fpr_norm, qs = False, qe = 0, qm0 = 0, qm1 = 0\<rparr>"

definition ppc_fpu_mul_add :: "u32 \<Rightarrow> ppc_double \<Rightarrow> ppc_double \<Rightarrow> ppc_double \<Rightarrow> ppc_double \<Rightarrow> ppc_double option" where
  "ppc_fpu_mul_add rn res m1 m2 t =
     (let p = ppc_fpu_mul_quadro quadro_0 m1 m2 106;
          q = the (ppc_fpu_quadro_mshl (106 - 56) \<lparr>qtype = dtype t, qs = ds t, qe = de t, qm0 = 0, qm1 = dm t\<rparr>)
      in map_option (\<lambda>x. res\<lparr>dtype := qtype x, ds := qs x, de := qe x,
             dm := if qtype x = Fpr_norm
                   then push_bit 13 (qm0 x) OR push_bit 1 (drop_bit (64 - 12) (qm1 x)) OR (qm1 x AND 1) else dm res\<rparr>)
           (ppc_fpu_add_quadro rn quadro_0 p q))"

subsection \<open>Division, square root and comparison (ppc_fpu.c)\<close>

text \<open>The loop runs \<open>n\<close> more times at most; its value is how often it was left out, and the quotient.\<close>

fun div_loop :: "nat \<Rightarrow> u64 \<Rightarrow> u64 \<Rightarrow> u64 \<Rightarrow> nat \<times> u64" where
  "div_loop 0 am bm m = (0, m)"
| "div_loop (Suc n) am bm m =
     (if am = 0 then (Suc n, m)
      else if bm \<le> am then div_loop n (push_bit 1 (am - bm)) bm (push_bit 1 m OR 1)
      else div_loop n (push_bit 1 am) bm (push_bit 1 m))"

definition div_norm :: "ppc_double \<Rightarrow> ppc_double \<Rightarrow> int \<times> u64" where
  "div_norm a b =
     (let (left, m) = div_loop 56 (dm a) (dm b) 0;
          m1 = push_bit (57 - (56 - left)) m;
          e = de a - de b
      in if m1 AND push_bit 56 1 \<noteq> 0 then (e, drop_bit 1 m1) else (e - 1, m1))"

definition ppc_fpu_div :: "ppc_double \<Rightarrow> ppc_double \<Rightarrow> ppc_double \<Rightarrow> ppc_double" where
  "ppc_fpu_div res a b =
     (let r = res\<lparr>ds := (ds a \<noteq> ds b)\<rparr> in
      case (dtype a, dtype b) of
        (Fpr_norm, Fpr_norm) \<Rightarrow> (case div_norm a b of (e, m) \<Rightarrow> r\<lparr>dtype := Fpr_norm, de := e, dm := m\<rparr>)
      | (Fpr_NaN, Fpr_NaN) \<Rightarrow> r\<lparr>de := de a, ds := ds a, dtype := dtype a\<rparr>
      | (Fpr_NaN, _) \<Rightarrow> r\<lparr>ds := ds a, dtype := dtype a\<rparr>
      | (_, Fpr_NaN) \<Rightarrow> r\<lparr>ds := ds b, dtype := dtype b\<rparr>
      | (_, Fpr_norm) \<Rightarrow> r\<lparr>dtype := dtype a\<rparr>
      | (Fpr_norm, Fpr_Inf) \<Rightarrow> r\<lparr>dtype := Fpr_zero\<rparr>
      | (Fpr_norm, Fpr_zero) \<Rightarrow> r\<lparr>dtype := Fpr_Inf\<rparr>
      | (_, _) \<Rightarrow> r\<lparr>dtype := Fpr_NaN\<rparr>)"

definition half_exp :: "int \<Rightarrow> int" where
  "half_exp e = (if e < 0 then - (- e div 2) else e div 2)"

definition double_0 :: ppc_double where
  "double_0 = \<lparr>dtype = Fpr_norm, ds = False, de = 0, dm = 0\<rparr>"

text \<open>One step of Newton's method.\<close>

definition sqrt_step :: "u32 \<Rightarrow> ppc_double \<Rightarrow> ppc_double \<Rightarrow> ppc_double option" where
  "sqrt_step rn b d = map_option (\<lambda>x. x\<lparr>de := de x - 1\<rparr>) (ppc_fpu_add rn d d (ppc_fpu_div double_0 b d))"

primrec sqrt_loop :: "nat \<Rightarrow> u32 \<Rightarrow> ppc_double \<Rightarrow> ppc_double \<Rightarrow> ppc_double option" where
  "sqrt_loop 0 rn b d = Some d"
| "sqrt_loop (Suc n) rn b d =
     (case sqrt_step rn b d of None \<Rightarrow> None | Some x \<Rightarrow> sqrt_loop n rn b x)"

text \<open>The flags that are set, and the root; \<open>d\<close> is the old content of the result.\<close>

definition ppc_fpu_sqrt :: "u32 \<Rightarrow> ppc_double \<Rightarrow> ppc_double \<Rightarrow> u32 \<times> ppc_double option" where
  "ppc_fpu_sqrt rn d b =
     (case dtype b of
        Fpr_norm \<Rightarrow> if ds b then (FPSCR_VXSQRT, Some (d\<lparr>dtype := Fpr_NaN\<rparr>))
                    else (0, sqrt_loop 6 rn b (b\<lparr>de := half_exp (de b)\<rparr>))
      | Fpr_zero \<Rightarrow> (0, Some (d\<lparr>dtype := Fpr_zero, ds := ds b\<rparr>))
      | Fpr_Inf \<Rightarrow> if ds b then (FPSCR_VXSQRT, Some (d\<lparr>dtype := Fpr_NaN\<rparr>))
                   else (0, Some (d\<lparr>dtype := Fpr_Inf, ds := False\<rparr>))
      | Fpr_NaN \<Rightarrow> (0, Some (d\<lparr>dtype := Fpr_NaN\<rparr>)))"

definition ppc_fpu_compare :: "ppc_double \<Rightarrow> ppc_double \<Rightarrow> u32" where
  "ppc_fpu_compare a b =
     (let below = (if ds a then 4 else 8); above = (if ds a then 8 else 4) in
      if dtype a = Fpr_zero then if dtype b = Fpr_zero then 2 else if ds b then 4 else 8
      else if dtype b = Fpr_zero then above
      else if ds a \<noteq> ds b then above
      else if de b < de a then above
      else if de a < de b then below
      else if dm b < dm a then above
      else if dm a < dm b then below
      else 2)"

end
