(* ===== verification/Ppc_Fpu.thy ===== *)
theory Ppc_Fpu
  imports Ppc_Float
begin

text \<open>
  The floating-point instructions of the e500 simulator (arch_ppc/common/ppc_fpu.c). Setting the record bit has
  no effect, the error macro of this file is empty.
\<close>

subsection \<open>Operands and results\<close>

definition fpscr_rn :: "'d ppc_state \<Rightarrow> u32" where
  "fpscr_rn s = efpscr (cc s) AND 3"

definition fpscr_or :: "u32 \<Rightarrow> 'd ppc_state \<Rightarrow> 'd ppc_state" where
  "fpscr_or f = upd_core (\<lambda>c. c\<lparr>efpscr := efpscr c OR f\<rparr>)"

definition unpacked :: "'d ppc_state \<Rightarrow> nat \<Rightarrow> ppc_double" where
  "unpacked s r = ppc_fpu_unpack_double (efpr (cc s) r)"

text \<open>A local variable before its first assignment.\<close>

definition junk_double :: "'d ppc_state \<Rightarrow> ppc_double" where
  "junk_double s = \<lparr>dtype = Fpr_norm, ds = pjunk s \<noteq> 0, de = sint (pjunk s), dm = ucast (pjunk s)\<rparr>"

type_synonym packer = "u32 \<Rightarrow> ppc_double \<Rightarrow> u32 \<times> u64"

text \<open>Packs \<open>x\<close> into register \<open>r\<close> and sets the flags that packing returns.\<close>

definition fpu_put :: "packer \<Rightarrow> nat \<Rightarrow> ppc_double option \<Rightarrow> 'd ppc_state \<Rightarrow> 'd ppc_state" where
  "fpu_put pk r x s =
     (case x of
        None \<Rightarrow> ppc_halt Undefined_shift s
      | Some d \<Rightarrow> (case pk (fpscr_rn s) d of (ret, v) \<Rightarrow> fpscr_or ret (set_pfpr r v s)))"

definition flip_sign :: "ppc_double \<Rightarrow> ppc_double" where
  "flip_sign d = d\<lparr>ds := \<not> ds d\<rparr>"

subsection \<open>Sign and moves\<close>

definition ppc_opc_fabsx :: "'d ppc_insn" where
  "ppc_opc_fabsx bd s = set_pfpr (f21 (opc s)) (efpr (cc s) (f11 (opc s)) AND NOT FPU_SIGN_BIT) s"

definition ppc_opc_fmrx :: "'d ppc_insn" where
  "ppc_opc_fmrx bd s = set_pfpr (f21 (opc s)) (efpr (cc s) (f11 (opc s))) s"

definition ppc_opc_fnabsx :: "'d ppc_insn" where
  "ppc_opc_fnabsx bd s = set_pfpr (f21 (opc s)) (efpr (cc s) (f11 (opc s)) OR FPU_SIGN_BIT) s"

definition ppc_opc_fnegx :: "'d ppc_insn" where
  "ppc_opc_fnegx bd s = set_pfpr (f21 (opc s)) (efpr (cc s) (f11 (opc s)) XOR FPU_SIGN_BIT) s"

definition ppc_opc_fselx :: "'d ppc_insn" where
  "ppc_opc_fselx bd s =
     (let i = opc s; A = unpacked s (f16 i) in
      if dtype A = Fpr_NaN \<or> (dtype A \<noteq> Fpr_zero \<and> ds A)
      then set_pfpr (f21 i) (efpr (cc s) (f11 i)) s else set_pfpr (f21 i) (efpr (cc s) (f6 i)) s)"

subsection \<open>Arithmetic\<close>

text \<open>What the double and the single variant of an instruction share.\<close>

definition fpu_sum :: "packer \<Rightarrow> ppc_double \<Rightarrow> ppc_double \<Rightarrow> 'd ppc_state \<Rightarrow> 'd ppc_state" where
  "fpu_sum pk A B s =
     (let s1 = (if ds A \<noteq> ds B \<and> dtype A = Fpr_Inf \<and> dtype B = Fpr_Inf then fpscr_or FPSCR_VXISI s else s)
      in fpu_put pk (f21 (opc s)) (ppc_fpu_add (fpscr_rn s1) (junk_double s1) A B) s1)"

definition fpu_quotient :: "packer \<Rightarrow> 'd ppc_state \<Rightarrow> 'd ppc_state" where
  "fpu_quotient pk s =
     (let i = opc s; A = unpacked s (f16 i); B = unpacked s (f11 i);
          s1 = (if dtype A = Fpr_zero \<and> dtype B = Fpr_zero then fpscr_or FPSCR_VXZDZ s else s);
          s2 = (if dtype A = Fpr_Inf \<and> dtype B = Fpr_Inf then fpscr_or FPSCR_VXIDI s1 else s1);
          s3 = (if dtype B = Fpr_zero \<and> dtype A \<noteq> Fpr_zero then fpscr_or FPSCR_VXIDI s2 else s2)
      in fpu_put pk (f21 i) (Some (ppc_fpu_div (junk_double s3) A B)) s3)"

definition fpu_product :: "packer \<Rightarrow> 'd ppc_state \<Rightarrow> 'd ppc_state" where
  "fpu_product pk s =
     (let i = opc s; A = unpacked s (f16 i); C = unpacked s (f6 i);
          s1 = (if (dtype A = Fpr_Inf \<and> dtype C = Fpr_zero) \<or> (dtype A = Fpr_zero \<and> dtype C = Fpr_Inf)
                then fpscr_or FPSCR_VXIMZ s else s)
      in fpu_put pk (f21 i) (Some (ppc_fpu_mul (junk_double s1) A C)) s1)"

text \<open>\<open>g\<close> changes operand B before, \<open>h\<close> the result after the multiplication and addition.\<close>

definition fpu_muladd :: "packer \<Rightarrow> (ppc_double \<Rightarrow> ppc_double) \<Rightarrow> (ppc_double \<Rightarrow> ppc_double) \<Rightarrow> 'd ppc_state \<Rightarrow> 'd ppc_state" where
  "fpu_muladd pk g h s =
     (let i = opc s
      in fpu_put pk (f21 i) (map_option h
           (ppc_fpu_mul_add (fpscr_rn s) (junk_double s) (unpacked s (f16 i)) (unpacked s (f6 i)) (g (unpacked s (f11 i))))) s)"

definition ppc_opc_faddx :: "'d ppc_insn" where
  "ppc_opc_faddx bd s = fpu_sum ppc_fpu_pack_double (unpacked s (f16 (opc s))) (unpacked s (f11 (opc s))) s"

definition ppc_opc_faddsx :: "'d ppc_insn" where
  "ppc_opc_faddsx bd s = fpu_sum ppc_fpu_pack_double_as_single (unpacked s (f16 (opc s))) (unpacked s (f11 (opc s))) s"

definition sub_operand :: "ppc_double \<Rightarrow> ppc_double" where
  "sub_operand B = (if dtype B \<noteq> Fpr_NaN then flip_sign B else B)"

definition ppc_opc_fsubx :: "'d ppc_insn" where
  "ppc_opc_fsubx bd s = fpu_sum ppc_fpu_pack_double (unpacked s (f16 (opc s))) (sub_operand (unpacked s (f11 (opc s)))) s"

definition ppc_opc_fsubsx :: "'d ppc_insn" where
  "ppc_opc_fsubsx bd s =
     fpu_sum ppc_fpu_pack_double_as_single (unpacked s (f16 (opc s))) (sub_operand (unpacked s (f11 (opc s)))) s"

definition ppc_opc_fdivx :: "'d ppc_insn" where
  "ppc_opc_fdivx bd s = fpu_quotient ppc_fpu_pack_double s"

definition ppc_opc_fdivsx :: "'d ppc_insn" where
  "ppc_opc_fdivsx bd s = fpu_quotient ppc_fpu_pack_double_as_single s"

definition ppc_opc_fmulx :: "'d ppc_insn" where
  "ppc_opc_fmulx bd s = fpu_product ppc_fpu_pack_double s"

definition ppc_opc_fmulsx :: "'d ppc_insn" where
  "ppc_opc_fmulsx bd s = fpu_product ppc_fpu_pack_double_as_single s"

definition ppc_opc_fmaddx :: "'d ppc_insn" where
  "ppc_opc_fmaddx bd s = fpu_muladd ppc_fpu_pack_double id id s"

definition ppc_opc_fmaddsx :: "'d ppc_insn" where
  "ppc_opc_fmaddsx bd s = fpu_muladd ppc_fpu_pack_double_as_single id id s"

definition ppc_opc_fmsubx :: "'d ppc_insn" where
  "ppc_opc_fmsubx bd s = fpu_muladd ppc_fpu_pack_double flip_sign id s"

text \<open>The single-precision subtraction does not change the sign of B.\<close>

definition ppc_opc_fmsubsx :: "'d ppc_insn" where
  "ppc_opc_fmsubsx bd s = fpu_muladd ppc_fpu_pack_double_as_single id id s"

definition ppc_opc_fnmaddx :: "'d ppc_insn" where
  "ppc_opc_fnmaddx bd s = fpu_muladd ppc_fpu_pack_double id flip_sign s"

definition ppc_opc_fnmaddsx :: "'d ppc_insn" where
  "ppc_opc_fnmaddsx bd s = fpu_muladd ppc_fpu_pack_double_as_single id flip_sign s"

definition ppc_opc_fnmsubx :: "'d ppc_insn" where
  "ppc_opc_fnmsubx bd s = fpu_muladd ppc_fpu_pack_double flip_sign flip_sign s"

definition ppc_opc_fnmsubsx :: "'d ppc_insn" where
  "ppc_opc_fnmsubsx bd s = fpu_muladd ppc_fpu_pack_double_as_single flip_sign flip_sign s"

subsection \<open>Roots, rounding and conversion\<close>

definition ppc_opc_fresx :: "'d ppc_insn" where
  "ppc_opc_fresx bd s = s"

definition ppc_opc_fsqrtsx :: "'d ppc_insn" where
  "ppc_opc_fsqrtsx bd s = s"

definition ppc_opc_fsqrtx :: "'d ppc_insn" where
  "ppc_opc_fsqrtx bd s =
     (let i = opc s; (fl, d) = ppc_fpu_sqrt (fpscr_rn s) (junk_double s) (unpacked s (f11 i))
      in fpu_put ppc_fpu_pack_double (f21 i) d (fpscr_or fl s))"

definition ppc_opc_frsqrtex :: "'d ppc_insn" where
  "ppc_opc_frsqrtex bd s =
     (let i = opc s; (fl, q) = ppc_fpu_sqrt (fpscr_rn s) (junk_double s) (unpacked s (f11 i));
          E = \<lparr>dtype = Fpr_norm, ds = False, de = 0, dm = 0x80000000000000\<rparr>
      in fpu_put ppc_fpu_pack_double (f21 i) (map_option (ppc_fpu_div (junk_double s) E) q) (fpscr_or fl s))"

definition ppc_opc_frspx :: "'d ppc_insn" where
  "ppc_opc_frspx bd s = fpu_put ppc_fpu_pack_double_as_single (f21 (opc s)) (Some (unpacked s (f11 (opc s)))) s"

definition ppc_opc_fctiwx :: "'d ppc_insn" where
  "ppc_opc_fctiwx bd s =
     set_pfpr (f21 (opc s)) (ucast (ppc_fpu_double_to_int (fpscr_rn s) (unpacked s (f11 (opc s))))) s"

definition ppc_opc_fctiwzx :: "'d ppc_insn" where
  "ppc_opc_fctiwzx bd s =
     set_pfpr (f21 (opc s)) (ucast (ppc_fpu_double_to_int RN_ZERO (unpacked s (f11 (opc s))))) s"

subsection \<open>Comparison\<close>

definition ppc_fpu_cmp_and_mask :: "u32 list" where
  "ppc_fpu_cmp_and_mask = [0xfffffff0, 0xffffff0f, 0xfffff0ff, 0xffff0fff, 0xfff0ffff, 0xff0fffff, 0xf0ffffff, 0x0fffffff]"

definition fpu_set_cmp :: "u32 \<Rightarrow> 'd ppc_state \<Rightarrow> 'd ppc_state" where
  "fpu_set_cmp c s =
     (let crf = 7 - f21 (opc s) div 4
      in upd_core (\<lambda>k. k\<lparr>efpscr := (efpscr k AND NOT 0x1f000) OR push_bit 12 c,
           ecr := (ecr k AND ppc_fpu_cmp_and_mask ! crf) OR push_bit (crf * 4) c\<rparr>) s)"

definition ppc_opc_fcmpo :: "'d ppc_insn" where
  "ppc_opc_fcmpo bd s =
     (let A = unpacked s (f16 (opc s)); B = unpacked s (f11 (opc s)) in
      if dtype A = Fpr_NaN \<or> dtype B = Fpr_NaN then fpu_set_cmp 1 (fpscr_or FPSCR_VXVC (fpscr_or FPSCR_VXSNAN s))
      else fpu_set_cmp (ppc_fpu_compare A B) s)"

definition ppc_opc_fcmpu :: "'d ppc_insn" where
  "ppc_opc_fcmpu bd s =
     (let A = unpacked s (f16 (opc s)); B = unpacked s (f11 (opc s)) in
      if dtype A = Fpr_NaN \<or> dtype B = Fpr_NaN then fpu_set_cmp 1 (fpscr_or FPSCR_VXSNAN s)
      else fpu_set_cmp (ppc_fpu_compare A B) s)"

end
