(* ===== verification/Ppc_Ls.thy ===== *)
theory Ppc_Ls
  imports Ppc_Mem Ppc_Fpu
begin

text \<open>
  The load and store instructions of the e500 simulator (arch_ppc/common/ppc_mmu.c). A load whose address is outside
  every region keeps what its local variable held (\<open>pjunk\<close>). The floating-point instructions raise an exception
  that \<^verbatim>\<open>ppc_exception\<close> does not know when MSR[FP] is clear: the simulator exits.
\<close>

subsection \<open>Addresses and updates\<close>

definition ea_d :: "'d ppc_state \<Rightarrow> u32" where "ea_d s = gpr0 s (f16 (opc s)) + simm (opc s)"
definition ea_du :: "'d ppc_state \<Rightarrow> u32" where "ea_du s = pgpr s (f16 (opc s)) + simm (opc s)"
definition ea_x :: "'d ppc_state \<Rightarrow> u32" where "ea_x s = gpr0 s (f16 (opc s)) + pgpr s (f11 (opc s))"
definition ea_xu :: "'d ppc_state \<Rightarrow> u32" where "ea_xu s = pgpr s (f16 (opc s)) + pgpr s (f11 (opc s))"

definition bump_d :: "'d ppc_state \<Rightarrow> 'd ppc_state" where
  "bump_d s = set_pgpr (f16 (opc s)) (pgpr s (f16 (opc s)) + simm (opc s)) s"

definition bump_x :: "'d ppc_state \<Rightarrow> 'd ppc_state" where
  "bump_x s = set_pgpr (f16 (opc s)) (pgpr s (f16 (opc s)) + pgpr s (f11 (opc s))) s"

text \<open>Reads, and goes on with the value unless an exception was raised.\<close>

definition with_byte :: "'d ppc_board \<Rightarrow> u32 \<Rightarrow> (u8 \<Rightarrow> 'd ppc_state \<Rightarrow> 'd ppc_state) \<Rightarrow> 'd ppc_state \<Rightarrow> 'd ppc_state" where
  "with_byte bd a k s = (case ppc_read_effective_byte bd a (ucast (pjunk s)) s of (None, s1) \<Rightarrow> s1 | (Some v, s1) \<Rightarrow> k v s1)"

definition with_half :: "'d ppc_board \<Rightarrow> u32 \<Rightarrow> (u16 \<Rightarrow> 'd ppc_state \<Rightarrow> 'd ppc_state) \<Rightarrow> 'd ppc_state \<Rightarrow> 'd ppc_state" where
  "with_half bd a k s = (case ppc_read_effective_half bd a (ucast (pjunk s)) s of (None, s1) \<Rightarrow> s1 | (Some v, s1) \<Rightarrow> k v s1)"

definition with_word :: "'d ppc_board \<Rightarrow> u32 \<Rightarrow> (u32 \<Rightarrow> 'd ppc_state \<Rightarrow> 'd ppc_state) \<Rightarrow> 'd ppc_state \<Rightarrow> 'd ppc_state" where
  "with_word bd a k s = (case ppc_read_effective_word bd a (pjunk s) s of (None, s1) \<Rightarrow> s1 | (Some v, s1) \<Rightarrow> k v s1)"

definition with_dword :: "u32 \<Rightarrow> (u64 \<Rightarrow> 'd ppc_state \<Rightarrow> 'd ppc_state) \<Rightarrow> 'd ppc_state \<Rightarrow> 'd ppc_state" where
  "with_dword a k s = (case ppc_read_effective_dword a 0 s of (None, s1) \<Rightarrow> s1 | (Some v, s1) \<Rightarrow> k v s1)"

text \<open>After a write: the update of the address register.\<close>

definition then_upd :: "('d ppc_state \<Rightarrow> 'd ppc_state) \<Rightarrow> bool \<times> 'd ppc_state \<Rightarrow> 'd ppc_state" where
  "then_upd f r = (if fst r then f (snd r) else snd r)"

definition put_rd :: "u32 \<Rightarrow> 'd ppc_state \<Rightarrow> 'd ppc_state" where
  "put_rd v s = set_pgpr (f21 (opc s)) v s"

definition sext_half :: "u16 \<Rightarrow> u32" where
  "sext_half r = (if r AND 0x8000 \<noteq> 0 then ucast r OR 0xffff0000 else ucast r)"

subsection \<open>Loads of bytes, half words and words\<close>

definition ppc_opc_lbz :: "'d ppc_insn" where
  "ppc_opc_lbz bd s =
     with_byte bd (ea_d s) (\<lambda>v s. put_rd (ucast v) s) s"

definition ppc_opc_lbzu :: "'d ppc_insn" where
  "ppc_opc_lbzu bd s =
     with_byte bd (ea_du s) (\<lambda>v s. put_rd (ucast v) (bump_d s)) s"

definition ppc_opc_lbzux :: "'d ppc_insn" where
  "ppc_opc_lbzux bd s =
     with_byte bd (ea_xu s) (\<lambda>v s. put_rd (ucast v) (bump_x s)) s"

definition ppc_opc_lbzx :: "'d ppc_insn" where
  "ppc_opc_lbzx bd s =
     with_byte bd (ea_x s) (\<lambda>v s. put_rd (ucast v) s) s"

definition ppc_opc_lhz :: "'d ppc_insn" where
  "ppc_opc_lhz bd s =
     with_half bd (ea_d s) (\<lambda>v s. put_rd (ucast v) s) s"

definition ppc_opc_lhzu :: "'d ppc_insn" where
  "ppc_opc_lhzu bd s =
     with_half bd (ea_du s) (\<lambda>v s. bump_d (put_rd (ucast v) s)) s"

definition ppc_opc_lhzux :: "'d ppc_insn" where
  "ppc_opc_lhzux bd s =
     with_half bd (ea_xu s) (\<lambda>v s. put_rd (ucast v) (bump_x s)) s"

definition ppc_opc_lhzx :: "'d ppc_insn" where
  "ppc_opc_lhzx bd s =
     with_half bd (ea_x s) (\<lambda>v s. put_rd (ucast v) s) s"

definition ppc_opc_lha :: "'d ppc_insn" where
  "ppc_opc_lha bd s =
     with_half bd (ea_d s) (\<lambda>v s. put_rd (sext_half v) s) s"

definition ppc_opc_lhau :: "'d ppc_insn" where
  "ppc_opc_lhau bd s =
     with_half bd (ea_du s) (\<lambda>v s. put_rd (sext_half v) (bump_d s)) s"

definition ppc_opc_lhaux :: "'d ppc_insn" where
  "ppc_opc_lhaux bd s =
     with_half bd (ea_xu s) (\<lambda>v s. put_rd (sext_half v) (bump_x s)) s"

definition ppc_opc_lhax :: "'d ppc_insn" where
  "ppc_opc_lhax bd s =
     with_half bd (ea_x s) (\<lambda>v s. put_rd (sext_half v) s) s"

definition ppc_opc_lwz :: "'d ppc_insn" where
  "ppc_opc_lwz bd s =
     with_word bd (ea_d s) (\<lambda>v s. put_rd v s) s"

definition ppc_opc_lwzu :: "'d ppc_insn" where
  "ppc_opc_lwzu bd s =
     with_word bd (ea_du s) (\<lambda>v s. put_rd v (bump_d s)) s"

definition ppc_opc_lwzux :: "'d ppc_insn" where
  "ppc_opc_lwzux bd s =
     with_word bd (ea_xu s) (\<lambda>v s. put_rd v (bump_x s)) s"

definition ppc_opc_lwzx :: "'d ppc_insn" where
  "ppc_opc_lwzx bd s =
     with_word bd (ea_x s) (\<lambda>v s. put_rd v s) s"

definition ppc_opc_lhbrx :: "'d ppc_insn" where
  "ppc_opc_lhbrx bd s =
     with_half bd (ea_x s) (\<lambda>v s. put_rd (ucast (ppc_bswap_half v)) s) s"

definition ppc_opc_lwbrx :: "'d ppc_insn" where
  "ppc_opc_lwbrx bd s =
     with_word bd (ea_x s) (\<lambda>v s. put_rd (ppc_bswap_word v) s) s"

subsection \<open>Multiple words and strings\<close>

text \<open>The registers that are left, and the address; an exception ends the loop.\<close>

fun lmw_loop :: "'d ppc_board \<Rightarrow> nat list \<Rightarrow> u32 \<Rightarrow> 'd ppc_state \<Rightarrow> 'd ppc_state" where
  "lmw_loop bd [] ea s = s"
| "lmw_loop bd (r # rs) ea s =
     (case ppc_read_effective_word bd ea (pgpr s r) s of
        (None, s1) \<Rightarrow> s1 | (Some v, s1) \<Rightarrow> lmw_loop bd rs (ea + 4) (set_pgpr r v s1))"

definition ppc_opc_lmw :: "'d ppc_insn" where
  "ppc_opc_lmw bd s = lmw_loop bd [f21 (opc s)..<32] (ea_d s) s"

fun stmw_loop :: "'d ppc_board \<Rightarrow> nat list \<Rightarrow> u32 \<Rightarrow> 'd ppc_state \<Rightarrow> 'd ppc_state" where
  "stmw_loop bd [] ea s = s"
| "stmw_loop bd (r # rs) ea s =
     (case ppc_write_effective_word bd ea (pgpr s r) s of
        (False, s1) \<Rightarrow> s1 | (True, s1) \<Rightarrow> stmw_loop bd rs (ea + 4) s1)"

definition ppc_opc_stmw :: "'d ppc_insn" where
  "ppc_opc_stmw bd s = stmw_loop bd [f21 (opc s)..<32] (ea_d s) s"

text \<open>\<open>n\<close> bytes are left, \<open>r\<close> is the word being built, with room for \<open>i\<close> more bytes, for register \<open>rD\<close>.\<close>

fun lsw_loop :: "'d ppc_board \<Rightarrow> nat \<Rightarrow> u32 \<Rightarrow> u32 \<Rightarrow> nat \<Rightarrow> nat \<Rightarrow> 'd ppc_state \<Rightarrow> 'd ppc_state" where
  "lsw_loop bd 0 ea r i rD s = set_pgpr rD (push_bit (8 * i) r) s"
| "lsw_loop bd (Suc n) ea r0 i0 rD0 s0 =
     (let (r, i, rD, s) = (if i0 = 0 then (0, 4, (rD0 + 1) mod 32, set_pgpr rD0 r0 s0) else (r0, i0, rD0, s0)) in
      case ppc_read_effective_byte bd ea (ucast (pjunk s)) s of
        (None, s1) \<Rightarrow> s1
      | (Some v, s1) \<Rightarrow> lsw_loop bd n (ea + 1) (push_bit 8 r OR ucast v) (i - 1) rD s1)"

definition ppc_opc_lswi :: "'d ppc_insn" where
  "ppc_opc_lswi bd s =
     (let i = opc s; nb = (if f11 i = 0 then 32 else f11 i) in lsw_loop bd nb (gpr0 s (f16 i)) 0 4 (f21 i) s)"

definition ppc_opc_lswx :: "'d ppc_insn" where
  "ppc_opc_lswx bd s =
     (let i = opc s in lsw_loop bd (XER_n (exer (cc s))) (pgpr s (f11 i) + gpr0 s (f16 i)) 0 4 (f21 i) s)"

fun stsw_loop :: "'d ppc_board \<Rightarrow> nat \<Rightarrow> u32 \<Rightarrow> u32 \<Rightarrow> nat \<Rightarrow> nat \<Rightarrow> 'd ppc_state \<Rightarrow> 'd ppc_state" where
  "stsw_loop bd 0 ea r i rS s = s"
| "stsw_loop bd (Suc n) ea r0 i0 rS0 s =
     (let (r, i, rS) = (if i0 = 0 then (pgpr s rS0, 4, (rS0 + 1) mod 32) else (r0, i0, rS0)) in
      case ppc_write_effective_byte bd ea (ucast (drop_bit 24 r)) s of
        (False, s1) \<Rightarrow> s1
      | (True, s1) \<Rightarrow> stsw_loop bd n (ea + 1) (push_bit 8 r) (i - 1) rS s1)"

definition ppc_opc_stswi :: "'d ppc_insn" where
  "ppc_opc_stswi bd s =
     (let i = opc s; nb = (if f11 i = 0 then 32 else f11 i) in stsw_loop bd nb (gpr0 s (f16 i)) 0 0 (f21 i) s)"

definition ppc_opc_stswx :: "'d ppc_insn" where
  "ppc_opc_stswx bd s =
     (let i = opc s in stsw_loop bd (XER_n (exer (cc s))) (pgpr s (f11 i) + gpr0 s (f16 i)) 0 0 (f21 i) s)"

subsection \<open>Stores of bytes, half words and words\<close>

definition ppc_opc_stb :: "'d ppc_insn" where
  "ppc_opc_stb bd s =
     snd (ppc_write_effective_byte bd (ea_d s) (ucast (pgpr s (f21 (opc s)))) s)"

definition ppc_opc_stbu :: "'d ppc_insn" where
  "ppc_opc_stbu bd s =
     then_upd bump_d (ppc_write_effective_byte bd (ea_du s) (ucast (pgpr s (f21 (opc s)))) s)"

definition ppc_opc_stbux :: "'d ppc_insn" where
  "ppc_opc_stbux bd s =
     then_upd bump_x (ppc_write_effective_byte bd (ea_xu s) (ucast (pgpr s (f21 (opc s)))) s)"

definition ppc_opc_stbx :: "'d ppc_insn" where
  "ppc_opc_stbx bd s =
     snd (ppc_write_effective_byte bd (ea_x s) (ucast (pgpr s (f21 (opc s)))) s)"

definition ppc_opc_sth :: "'d ppc_insn" where
  "ppc_opc_sth bd s =
     snd (ppc_write_effective_half bd (ea_d s) (ucast (pgpr s (f21 (opc s)))) s)"

definition ppc_opc_sthu :: "'d ppc_insn" where
  "ppc_opc_sthu bd s =
     then_upd bump_d (ppc_write_effective_half bd (ea_du s) (ucast (pgpr s (f21 (opc s)))) s)"

definition ppc_opc_sthux :: "'d ppc_insn" where
  "ppc_opc_sthux bd s =
     then_upd bump_x (ppc_write_effective_half bd (ea_xu s) (ucast (pgpr s (f21 (opc s)))) s)"

definition ppc_opc_sthx :: "'d ppc_insn" where
  "ppc_opc_sthx bd s =
     snd (ppc_write_effective_half bd (ea_x s) (ucast (pgpr s (f21 (opc s)))) s)"

definition ppc_opc_stw :: "'d ppc_insn" where
  "ppc_opc_stw bd s =
     snd (ppc_write_effective_word bd (ea_d s) (pgpr s (f21 (opc s))) s)"

definition ppc_opc_stwu :: "'d ppc_insn" where
  "ppc_opc_stwu bd s =
     then_upd bump_d (ppc_write_effective_word bd (ea_du s) (pgpr s (f21 (opc s))) s)"

definition ppc_opc_stwux :: "'d ppc_insn" where
  "ppc_opc_stwux bd s =
     then_upd bump_x (ppc_write_effective_word bd (ea_xu s) (pgpr s (f21 (opc s))) s)"

definition ppc_opc_stwx :: "'d ppc_insn" where
  "ppc_opc_stwx bd s =
     snd (ppc_write_effective_word bd (ea_x s) (pgpr s (f21 (opc s))) s)"

definition ppc_opc_sthbrx :: "'d ppc_insn" where
  "ppc_opc_sthbrx bd s =
     snd (ppc_write_effective_half bd (ea_x s) (ppc_bswap_half (ucast (pgpr s (f21 (opc s))))) s)"

definition ppc_opc_stwbrx :: "'d ppc_insn" where
  "ppc_opc_stwbrx bd s =
     snd (ppc_write_effective_word bd (ea_x s) (ppc_bswap_word (pgpr s (f21 (opc s)))) s)"

subsection \<open>Reservation and cache\<close>

definition ppc_opc_lwarx :: "'d ppc_insn" where
  "ppc_opc_lwarx bd s =
     with_word bd (ea_x s) (\<lambda>v s. upd_core (\<lambda>c. c\<lparr>ereserve := v, ehave_reservation := True\<rparr>) (put_rd v s)) s"

definition cr_or :: "u32 \<Rightarrow> 'd ppc_state \<Rightarrow> 'd ppc_state" where
  "cr_or b = upd_core (\<lambda>c. c\<lparr>ecr := ecr c OR b\<rparr>)"

definition stwcx_so :: "'d ppc_state \<Rightarrow> 'd ppc_state" where
  "stwcx_so s = (if exer (cc s) AND XER_SO \<noteq> 0 then cr_or CR_CR0_SO s else s)"

definition stwcx_write :: "'d ppc_board \<Rightarrow> 'd ppc_state \<Rightarrow> 'd ppc_state" where
  "stwcx_write bd s =
     (case ppc_write_effective_word bd (ea_x s) (pgpr s (f21 (opc s))) s of
        (False, s1) \<Rightarrow> s1 | (True, s1) \<Rightarrow> stwcx_so (cr_or CR_CR0_EQ s1))"

definition ppc_opc_stwcx_dot :: "'d ppc_insn" where
  "ppc_opc_stwcx_dot bd s0 =
     (let s = upd_core (\<lambda>c. c\<lparr>ecr := ecr c AND 0x0fffffff\<rparr>) s0 in
      if ehave_reservation (cc s) then
        with_word bd (ea_x s) (\<lambda>v s. if v = ereserve (cc s) then stwcx_write bd s else stwcx_so s)
          (upd_core (\<lambda>c. c\<lparr>ehave_reservation := False\<rparr>) s)
      else s)"

definition ppc_opc_dcbz :: "'d ppc_insn" where
  "ppc_opc_dcbz bd s =
     (let a = ea_x s in fold (\<lambda>i s. snd (ppc_write_effective_word bd (a + i) 0 s)) [0, 4, 8, 12, 16, 20, 24, 28] s)"

definition ppc_opc_dcbtls :: "'d ppc_insn" where
  "ppc_opc_dcbtls bd s = s"

subsection \<open>Floating-point loads and stores\<close>

definition fp_guard :: "('d ppc_state \<Rightarrow> 'd ppc_state) \<Rightarrow> 'd ppc_state \<Rightarrow> 'd ppc_state" where
  "fp_guard f s = (if emsr (cc s) AND MSR_FP = 0 then ppc_exception (cur s) PPC_EXC_NO_FPU 0 0 s else f s)"

definition put_fd :: "u64 \<Rightarrow> 'd ppc_state \<Rightarrow> 'd ppc_state" where
  "put_fd v s = set_pfpr (f21 (opc s)) v s"

definition put_fs :: "u32 \<Rightarrow> 'd ppc_state \<Rightarrow> 'd ppc_state" where
  "put_fs v s = put_fd (snd (ppc_fpu_pack_double (fpscr_rn s) (ppc_fpu_single_to_double (ppc_fpu_unpack_single v)))) s"

definition single_of :: "'d ppc_state \<Rightarrow> u32" where
  "single_of s = snd (ppc_fpu_pack_single (fpscr_rn s) (unpacked s (f21 (opc s))))"

definition ppc_opc_lfd :: "'d ppc_insn" where
  "ppc_opc_lfd bd s =
     fp_guard (\<lambda>s. with_dword (ea_d s) (\<lambda>v s. put_fd v s) s) s"

definition ppc_opc_lfdu :: "'d ppc_insn" where
  "ppc_opc_lfdu bd s =
     fp_guard (\<lambda>s. with_dword (ea_du s) (\<lambda>v s. bump_d (put_fd v s)) s) s"

definition ppc_opc_lfdux :: "'d ppc_insn" where
  "ppc_opc_lfdux bd s =
     fp_guard (\<lambda>s. with_dword (ea_xu s) (\<lambda>v s. put_fd v (bump_x s)) s) s"

definition ppc_opc_lfdx :: "'d ppc_insn" where
  "ppc_opc_lfdx bd s =
     fp_guard (\<lambda>s. with_dword (ea_x s) (\<lambda>v s. put_fd v s) s) s"

definition ppc_opc_lfs :: "'d ppc_insn" where
  "ppc_opc_lfs bd s =
     fp_guard (\<lambda>s. with_word bd (ea_d s) (\<lambda>v s. put_fs v s) s) s"

definition ppc_opc_lfsu :: "'d ppc_insn" where
  "ppc_opc_lfsu bd s =
     fp_guard (\<lambda>s. with_word bd (ea_du s) (\<lambda>v s. bump_d (put_fs v s)) s) s"

definition ppc_opc_lfsux :: "'d ppc_insn" where
  "ppc_opc_lfsux bd s =
     fp_guard (\<lambda>s. with_word bd (ea_xu s) (\<lambda>v s. put_fs v (bump_x s)) s) s"

definition ppc_opc_lfsx :: "'d ppc_insn" where
  "ppc_opc_lfsx bd s =
     fp_guard (\<lambda>s. with_word bd (ea_x s) (\<lambda>v s. put_fs v s) s) s"

definition ppc_opc_stfd :: "'d ppc_insn" where
  "ppc_opc_stfd bd s =
     fp_guard (\<lambda>s. snd (ppc_write_effective_dword (ea_d s) (efpr (cc s) (f21 (opc s))) s)) s"

definition ppc_opc_stfdu :: "'d ppc_insn" where
  "ppc_opc_stfdu bd s =
     fp_guard (\<lambda>s. then_upd bump_d (ppc_write_effective_dword (ea_du s) (efpr (cc s) (f21 (opc s))) s)) s"

definition ppc_opc_stfdux :: "'d ppc_insn" where
  "ppc_opc_stfdux bd s =
     fp_guard (\<lambda>s. then_upd bump_x (ppc_write_effective_dword (ea_xu s) (efpr (cc s) (f21 (opc s))) s)) s"

definition ppc_opc_stfdx :: "'d ppc_insn" where
  "ppc_opc_stfdx bd s =
     fp_guard (\<lambda>s. snd (ppc_write_effective_dword (ea_x s) (efpr (cc s) (f21 (opc s))) s)) s"

definition ppc_opc_stfs :: "'d ppc_insn" where
  "ppc_opc_stfs bd s =
     fp_guard (\<lambda>s. snd (ppc_write_effective_word bd (ea_d s) (single_of s) s)) s"

definition ppc_opc_stfsu :: "'d ppc_insn" where
  "ppc_opc_stfsu bd s =
     fp_guard (\<lambda>s. then_upd bump_d (ppc_write_effective_word bd (ea_du s) (single_of s) s)) s"

definition ppc_opc_stfsux :: "'d ppc_insn" where
  "ppc_opc_stfsux bd s =
     fp_guard (\<lambda>s. then_upd bump_x (ppc_write_effective_word bd (ea_xu s) (single_of s) s)) s"

definition ppc_opc_stfsx :: "'d ppc_insn" where
  "ppc_opc_stfsx bd s =
     fp_guard (\<lambda>s. snd (ppc_write_effective_word bd (ea_x s) (single_of s) s)) s"

definition ppc_opc_stfiwx :: "'d ppc_insn" where
  "ppc_opc_stfiwx bd s =
     fp_guard (\<lambda>s. snd (ppc_write_effective_word bd (ea_x s) (ucast (efpr (cc s) (f21 (opc s)))) s)) s"

end
