(* ===== verification/Ppc_Alu.thy ===== *)
theory Ppc_Alu
  imports Ppc_State "HOL-Library.Signed_Division"
begin

text \<open>
  The integer instructions of the e500 simulator (arch_ppc/common/ppc_alu.c). The variants with overflow do what
  the plain ones do: their error macro is empty, the overflow bits of XER are never set.
\<close>

subsection \<open>Carry, rotation and masks\<close>

definition ppc_carry_3 :: "u32 \<Rightarrow> u32 \<Rightarrow> u32 \<Rightarrow> bool" where
  "ppc_carry_3 a b c = (if a + b < a then True else if a + b + c < c then True else False)"

text \<open>For \<open>n = 0\<close> the second shift is by 32; a machine that takes the count modulo 32 gives the same word.\<close>

definition ppc_word_rotl :: "u32 \<Rightarrow> u32 \<Rightarrow> u32" where
  "ppc_word_rotl d n = (let k = unat (n AND 0x1f) in push_bit k d OR drop_bit (32 - k) d)"

text \<open>
  \<open>None\<close> is the shift of 1 by 32, for a mask that wraps around and leaves no bit out. The other signed shifts and
  differences wrap.
\<close>

definition ppc_mask :: "nat \<Rightarrow> nat \<Rightarrow> u32 option" where
  "ppc_mask MB ME =
     (if MB \<le> ME then
        Some (if ME - MB = 31 then 0xffffffff else push_bit (31 - ME) (push_bit (ME - MB + 1) 1 - 1))
      else if 32 - MB + ME + 1 = 32 then None
      else Some (ppc_word_rotl (push_bit (32 - MB + ME + 1) 1 - 1) (of_nat (31 - ME))))"

definition set_ca :: "bool \<Rightarrow> 'd ppc_state \<Rightarrow> 'd ppc_state" where
  "set_ca b = upd_core (\<lambda>c. c\<lparr>exer := if b then exer c OR XER_CA else exer c AND NOT XER_CA\<rparr>)"

definition ppc_ca :: "'d ppc_state \<Rightarrow> u32" where
  "ppc_ca s = (if exer (cc s) AND XER_CA \<noteq> 0 then 1 else 0)"

text \<open>A result with and without the record bit, with the carry set before.\<close>

definition put_rc :: "nat \<Rightarrow> u32 \<Rightarrow> 'd ppc_state \<Rightarrow> 'd ppc_state" where
  "put_rc r v s = record_cr0 r (set_pgpr r v s)"

definition put_ca_rc :: "nat \<Rightarrow> u32 \<Rightarrow> bool \<Rightarrow> 'd ppc_state \<Rightarrow> 'd ppc_state" where
  "put_ca_rc r v b s = record_cr0 r (set_ca b (set_pgpr r v s))"

subsection \<open>Addition and subtraction\<close>

text \<open>What an instruction and its variant with overflow share.\<close>

definition alu_add :: "'d ppc_state \<Rightarrow> 'd ppc_state" where
  "alu_add s = (let i = opc s; a = pgpr s (f16 i); b = pgpr s (f11 i) in put_rc (f21 i) (a + b) s)"

definition ppc_opc_addx :: "'d ppc_insn" where "ppc_opc_addx bd s = alu_add s"

definition ppc_opc_addox :: "'d ppc_insn" where "ppc_opc_addox bd s = alu_add s"

definition alu_addc :: "'d ppc_state \<Rightarrow> 'd ppc_state" where
  "alu_addc s = (let i = opc s; a = pgpr s (f16 i); b = pgpr s (f11 i) in put_ca_rc (f21 i) (a + b) (a + b < a) s)"

definition ppc_opc_addcx :: "'d ppc_insn" where "ppc_opc_addcx bd s = alu_addc s"

definition ppc_opc_addcox :: "'d ppc_insn" where "ppc_opc_addcox bd s = alu_addc s"

definition alu_adde :: "'d ppc_state \<Rightarrow> 'd ppc_state" where
  "alu_adde s = (let i = opc s; a = pgpr s (f16 i); b = pgpr s (f11 i); ca = ppc_ca s in put_ca_rc (f21 i) (a + b + ca) (ppc_carry_3 a b ca) s)"

definition ppc_opc_addex :: "'d ppc_insn" where "ppc_opc_addex bd s = alu_adde s"

definition ppc_opc_addeox :: "'d ppc_insn" where "ppc_opc_addeox bd s = alu_adde s"

definition alu_addme :: "'d ppc_state \<Rightarrow> 'd ppc_state" where
  "alu_addme s = (let i = opc s; a = pgpr s (f16 i); ca = ppc_ca s in put_ca_rc (f21 i) (a + ca + 0xffffffff) (a \<noteq> 0 \<or> ca \<noteq> 0) s)"

definition ppc_opc_addmex :: "'d ppc_insn" where "ppc_opc_addmex bd s = alu_addme s"

definition ppc_opc_addmeox :: "'d ppc_insn" where "ppc_opc_addmeox bd s = alu_addme s"

definition alu_addze :: "'d ppc_state \<Rightarrow> 'd ppc_state" where
  "alu_addze s = (let i = opc s; a = pgpr s (f16 i); ca = ppc_ca s in put_ca_rc (f21 i) (a + ca) (a = 0xffffffff \<and> ca \<noteq> 0) s)"

definition ppc_opc_addzex :: "'d ppc_insn" where "ppc_opc_addzex bd s = alu_addze s"

definition ppc_opc_addzeox :: "'d ppc_insn" where "ppc_opc_addzeox bd s = alu_addze s"

definition alu_subf :: "'d ppc_state \<Rightarrow> 'd ppc_state" where
  "alu_subf s = (let i = opc s; a = pgpr s (f16 i); b = pgpr s (f11 i) in put_rc (f21 i) (NOT a + b + 1) s)"

definition ppc_opc_subfx :: "'d ppc_insn" where "ppc_opc_subfx bd s = alu_subf s"

definition ppc_opc_subfox :: "'d ppc_insn" where "ppc_opc_subfox bd s = alu_subf s"

definition alu_subfc :: "'d ppc_state \<Rightarrow> 'd ppc_state" where
  "alu_subfc s = (let i = opc s; a = pgpr s (f16 i); b = pgpr s (f11 i) in put_ca_rc (f21 i) (NOT a + b + 1) (ppc_carry_3 (NOT a) b 1) s)"

definition ppc_opc_subfcx :: "'d ppc_insn" where "ppc_opc_subfcx bd s = alu_subfc s"

definition ppc_opc_subfcox :: "'d ppc_insn" where "ppc_opc_subfcox bd s = alu_subfc s"

definition alu_subfe :: "'d ppc_state \<Rightarrow> 'd ppc_state" where
  "alu_subfe s = (let i = opc s; a = pgpr s (f16 i); b = pgpr s (f11 i); ca = ppc_ca s in put_ca_rc (f21 i) (NOT a + b + ca) (ppc_carry_3 (NOT a) b ca) s)"

definition ppc_opc_subfex :: "'d ppc_insn" where "ppc_opc_subfex bd s = alu_subfe s"

definition ppc_opc_subfeox :: "'d ppc_insn" where "ppc_opc_subfeox bd s = alu_subfe s"

definition alu_subfme :: "'d ppc_state \<Rightarrow> 'd ppc_state" where
  "alu_subfme s = (let i = opc s; a = pgpr s (f16 i); ca = ppc_ca s in put_ca_rc (f21 i) (NOT a + ca + 0xffffffff) (a \<noteq> 0xffffffff \<or> ca \<noteq> 0) s)"

definition ppc_opc_subfmex :: "'d ppc_insn" where "ppc_opc_subfmex bd s = alu_subfme s"

definition ppc_opc_subfmeox :: "'d ppc_insn" where "ppc_opc_subfmeox bd s = alu_subfme s"

definition alu_subfze :: "'d ppc_state \<Rightarrow> 'd ppc_state" where
  "alu_subfze s = (let i = opc s; a = pgpr s (f16 i); ca = ppc_ca s in put_ca_rc (f21 i) (NOT a + ca) (a = 0 \<and> ca \<noteq> 0) s)"

definition ppc_opc_subfzex :: "'d ppc_insn" where "ppc_opc_subfzex bd s = alu_subfze s"

definition ppc_opc_subfzeox :: "'d ppc_insn" where "ppc_opc_subfzeox bd s = alu_subfze s"

definition alu_neg :: "'d ppc_state \<Rightarrow> 'd ppc_state" where
  "alu_neg s = (let i = opc s; a = pgpr s (f16 i) in put_rc (f21 i) (- a) s)"

definition ppc_opc_negx :: "'d ppc_insn" where "ppc_opc_negx bd s = alu_neg s"

definition ppc_opc_negox :: "'d ppc_insn" where "ppc_opc_negox bd s = alu_neg s"

definition ppc_opc_addi :: "'d ppc_insn" where
  "ppc_opc_addi bd s =
     (let i = opc s in set_pgpr (f21 i) (gpr0 s (f16 i) + simm i) s)"

definition ppc_opc_addis :: "'d ppc_insn" where
  "ppc_opc_addis bd s =
     (let i = opc s in set_pgpr (f21 i) (gpr0 s (f16 i) + imm_shift16 i) s)"

definition ppc_opc_addic :: "'d ppc_insn" where
  "ppc_opc_addic bd s =
     (let i = opc s; a = pgpr s (f16 i); r = a + simm i in set_ca (r < a) (set_pgpr (f21 i) r s))"

definition ppc_opc_addic_dot :: "'d ppc_insn" where
  "ppc_opc_addic_dot bd s =
     (let i = opc s; a = pgpr s (f16 i); r = a + simm i
      in ppc_update_cr0 r (set_ca (r < a) (set_pgpr (f21 i) r s)))"

definition ppc_opc_subfic :: "'d ppc_insn" where
  "ppc_opc_subfic bd s =
     (let i = opc s; a = pgpr s (f16 i)
      in set_ca (ppc_carry_3 (NOT a) (simm i) 1) (set_pgpr (f21 i) (NOT a + simm i + 1) s))"

subsection \<open>Logic\<close>

definition ppc_opc_andx :: "'d ppc_insn" where
  "ppc_opc_andx bd s =
     (let i = opc s in put_rc (f16 i) (pgpr s (f21 i) AND pgpr s (f11 i)) s)"

definition ppc_opc_andcx :: "'d ppc_insn" where
  "ppc_opc_andcx bd s =
     (let i = opc s in put_rc (f16 i) (pgpr s (f21 i) AND NOT (pgpr s (f11 i))) s)"

definition ppc_opc_eqvx :: "'d ppc_insn" where
  "ppc_opc_eqvx bd s =
     (let i = opc s in put_rc (f16 i) (NOT (pgpr s (f21 i) XOR pgpr s (f11 i))) s)"

definition ppc_opc_nandx :: "'d ppc_insn" where
  "ppc_opc_nandx bd s =
     (let i = opc s in put_rc (f16 i) (NOT (pgpr s (f21 i) AND pgpr s (f11 i))) s)"

definition ppc_opc_norx :: "'d ppc_insn" where
  "ppc_opc_norx bd s =
     (let i = opc s in put_rc (f16 i) (NOT (pgpr s (f21 i) OR pgpr s (f11 i))) s)"

definition ppc_opc_orx :: "'d ppc_insn" where
  "ppc_opc_orx bd s =
     (let i = opc s in put_rc (f16 i) (pgpr s (f21 i) OR pgpr s (f11 i)) s)"

definition ppc_opc_orcx :: "'d ppc_insn" where
  "ppc_opc_orcx bd s =
     (let i = opc s in put_rc (f16 i) (pgpr s (f21 i) OR NOT (pgpr s (f11 i))) s)"

definition ppc_opc_xorx :: "'d ppc_insn" where
  "ppc_opc_xorx bd s =
     (let i = opc s in put_rc (f16 i) (pgpr s (f21 i) XOR pgpr s (f11 i)) s)"

definition ppc_opc_andi_dot :: "'d ppc_insn" where
  "ppc_opc_andi_dot bd s =
     (let i = opc s; r = pgpr s (f21 i) AND uimm i in ppc_update_cr0 r (set_pgpr (f16 i) r s))"

definition ppc_opc_andis_dot :: "'d ppc_insn" where
  "ppc_opc_andis_dot bd s =
     (let i = opc s; r = pgpr s (f21 i) AND imm_shift16 i in ppc_update_cr0 r (set_pgpr (f16 i) r s))"

definition ppc_opc_ori :: "'d ppc_insn" where
  "ppc_opc_ori bd s =
     (let i = opc s in set_pgpr (f16 i) (pgpr s (f21 i) OR uimm i) s)"

definition ppc_opc_oris :: "'d ppc_insn" where
  "ppc_opc_oris bd s =
     (let i = opc s in set_pgpr (f16 i) (pgpr s (f21 i) OR imm_shift16 i) s)"

definition ppc_opc_xori :: "'d ppc_insn" where
  "ppc_opc_xori bd s =
     (let i = opc s in set_pgpr (f16 i) (pgpr s (f21 i) XOR uimm i) s)"

definition ppc_opc_xoris :: "'d ppc_insn" where
  "ppc_opc_xoris bd s =
     (let i = opc s in set_pgpr (f16 i) (pgpr s (f21 i) XOR imm_shift16 i) s)"

definition ppc_opc_extsbx :: "'d ppc_insn" where
  "ppc_opc_extsbx bd s =
     (let i = opc s; v = pgpr s (f21 i)
      in put_rc (f16 i) (if v AND 0x80 \<noteq> 0 then v OR 0xffffff00 else v AND NOT 0xffffff00) s)"

definition ppc_opc_extshx :: "'d ppc_insn" where
  "ppc_opc_extshx bd s =
     (let i = opc s; v = pgpr s (f21 i)
      in put_rc (f16 i) (if v AND 0x8000 \<noteq> 0 then v OR 0xffff0000 else v AND NOT 0xffff0000) s)"

text \<open>The mask runs down from bit 31; \<open>n\<close> counts the zeros passed.\<close>

function cntlzw_loop :: "nat \<Rightarrow> u32 \<Rightarrow> u32 \<Rightarrow> nat" where
  "cntlzw_loop n x v =
     (if 32 \<le> n \<or> v AND x \<noteq> 0 then n else if n + 1 = 32 then 32 else cntlzw_loop (n + 1) (drop_bit 1 x) v)"
  by auto
termination by (relation "measure (\<lambda>(n, x, v). 32 - n)") auto

definition ppc_opc_cntlzwx :: "'d ppc_insn" where
  "ppc_opc_cntlzwx bd s =
     (let i = opc s in put_rc (f16 i) (of_nat (cntlzw_loop 0 0x80000000 (pgpr s (f21 i)))) s)"

subsection \<open>Comparison\<close>

definition ppc_cmp_and_mask :: "u32 list" where
  "ppc_cmp_and_mask = [0xfffffff0, 0xffffff0f, 0xfffff0ff, 0xffff0fff, 0xfff0ffff, 0xff0fffff, 0xf0ffffff, 0x0fffffff]"

definition cmp_put :: "bool \<Rightarrow> bool \<Rightarrow> 'd ppc_state \<Rightarrow> 'd ppc_state" where
  "cmp_put lt gt s =
     (let c = (if lt then 8 else if gt then 4 else 2 :: u32);
          c1 = (if exer (cc s) AND XER_SO \<noteq> 0 then c OR 1 else c);
          cr = 7 - f21 (opc s) div 4
      in upd_core (\<lambda>k. k\<lparr>ecr := (ecr k AND ppc_cmp_and_mask ! cr) OR push_bit (cr * 4) c1\<rparr>) s)"

definition ppc_opc_cmp :: "'d ppc_insn" where
  "ppc_opc_cmp bd s =
     (let i = opc s; a = pgpr s (f16 i); b = pgpr s (f11 i) in cmp_put (sint a < sint b) (sint b < sint a) s)"

definition ppc_opc_cmpi :: "'d ppc_insn" where
  "ppc_opc_cmpi bd s =
     (let i = opc s; a = pgpr s (f16 i); b = simm i in cmp_put (sint a < sint b) (sint b < sint a) s)"

definition ppc_opc_cmpl :: "'d ppc_insn" where
  "ppc_opc_cmpl bd s =
     (let i = opc s; a = pgpr s (f16 i); b = pgpr s (f11 i) in cmp_put (a < b) (b < a) s)"

definition ppc_opc_cmpli :: "'d ppc_insn" where
  "ppc_opc_cmpli bd s =
     (let i = opc s; a = pgpr s (f16 i); b = uimm i in cmp_put (a < b) (b < a) s)"

subsection \<open>Condition register\<close>

definition cr_bit :: "'d ppc_state \<Rightarrow> nat \<Rightarrow> bool" where
  "cr_bit s n = (ecr (cc s) AND push_bit (31 - n) 1 \<noteq> 0)"

definition set_cr_bit :: "nat \<Rightarrow> bool \<Rightarrow> 'd ppc_state \<Rightarrow> 'd ppc_state" where
  "set_cr_bit n b = upd_core (\<lambda>c. c\<lparr>ecr := if b then ecr c OR push_bit (31 - n) 1 else ecr c AND NOT (push_bit (31 - n) 1)\<rparr>)"

definition ppc_opc_crand :: "'d ppc_insn" where
  "ppc_opc_crand bd s =
     (let i = opc s in set_cr_bit (f21 i) (cr_bit s (f16 i) \<and> cr_bit s (f11 i)) s)"

definition ppc_opc_crandc :: "'d ppc_insn" where
  "ppc_opc_crandc bd s =
     (let i = opc s in set_cr_bit (f21 i) (cr_bit s (f16 i) \<and> \<not> cr_bit s (f11 i)) s)"

definition ppc_opc_creqv :: "'d ppc_insn" where
  "ppc_opc_creqv bd s =
     (let i = opc s in set_cr_bit (f21 i) (cr_bit s (f16 i) \<and> cr_bit s (f11 i) \<or> \<not> cr_bit s (f16 i) \<and> \<not> cr_bit s (f11 i)) s)"

definition ppc_opc_crnand :: "'d ppc_insn" where
  "ppc_opc_crnand bd s =
     (let i = opc s in set_cr_bit (f21 i) (\<not> (cr_bit s (f16 i) \<and> cr_bit s (f11 i))) s)"

definition ppc_opc_crorc :: "'d ppc_insn" where
  "ppc_opc_crorc bd s =
     (let i = opc s in set_cr_bit (f21 i) (cr_bit s (f16 i) \<or> \<not> cr_bit s (f11 i)) s)"

definition ppc_opc_crxor :: "'d ppc_insn" where
  "ppc_opc_crxor bd s =
     (let i = opc s in set_cr_bit (f21 i) (\<not> cr_bit s (f16 i) \<and> cr_bit s (f11 i) \<or> cr_bit s (f16 i) \<and> \<not> cr_bit s (f11 i)) s)"

definition ppc_opc_crnor :: "'d ppc_insn" where
  "ppc_opc_crnor bd s =
     (let i = opc s; t = push_bit (31 - f16 i) 1 OR push_bit (31 - f11 i) 1
      in set_cr_bit (f21 i) (ecr (cc s) AND t = 0) s)"

definition ppc_opc_cror :: "'d ppc_insn" where
  "ppc_opc_cror bd s =
     (let i = opc s; t = push_bit (31 - f16 i) 1 OR push_bit (31 - f11 i) 1
      in set_cr_bit (f21 i) (ecr (cc s) AND t \<noteq> 0) s)"

subsection \<open>Multiplication and division\<close>

text \<open>A division by zero, and of the smallest number by -1, stops the program on the host.\<close>

definition alu_divw :: "'d ppc_state \<Rightarrow> 'd ppc_state" where
  "alu_divw s =
     (let i = opc s; a = sint (pgpr s (f16 i)); b = sint (pgpr s (f11 i)) in
      if b = 0 \<or> (a = - (2 ^ 31) \<and> b = - 1) then ppc_halt Undefined_arith s
      else put_rc (f21 i) (word_of_int (a sdiv b)) s)"

definition ppc_opc_divwx :: "'d ppc_insn" where "ppc_opc_divwx bd s = alu_divw s"
definition ppc_opc_divwox :: "'d ppc_insn" where "ppc_opc_divwox bd s = alu_divw s"

definition alu_divwu :: "'d ppc_state \<Rightarrow> 'd ppc_state" where
  "alu_divwu s =
     (let i = opc s; b = pgpr s (f11 i) in
      if b = 0 then ppc_halt Undefined_arith s else put_rc (f21 i) (pgpr s (f16 i) div b) s)"

definition ppc_opc_divwux :: "'d ppc_insn" where "ppc_opc_divwux bd s = alu_divwu s"
definition ppc_opc_divwuox :: "'d ppc_insn" where "ppc_opc_divwuox bd s = alu_divwu s"

definition ppc_opc_mulhwx :: "'d ppc_insn" where
  "ppc_opc_mulhwx bd s =
     (let i = opc s; c = scast (pgpr s (f16 i)) * scast (pgpr s (f11 i)) :: u64
      in put_rc (f21 i) (ucast (drop_bit 32 c)) s)"

definition ppc_opc_mulhwux :: "'d ppc_insn" where
  "ppc_opc_mulhwux bd s =
     (let i = opc s; c = ucast (pgpr s (f16 i)) * ucast (pgpr s (f11 i)) :: u64
      in put_rc (f21 i) (ucast (drop_bit 32 c)) s)"

definition ppc_opc_mulli :: "'d ppc_insn" where
  "ppc_opc_mulli bd s =
     (let i = opc s in set_pgpr (f21 i) (pgpr s (f16 i) * simm i) s)"

definition ppc_opc_mullwx :: "'d ppc_insn" where
  "ppc_opc_mullwx bd s =
     (let i = opc s in put_rc (f21 i) (pgpr s (f16 i) * pgpr s (f11 i)) s)"

subsection \<open>Rotation and shifts\<close>

definition rotate_mask :: "u32 \<Rightarrow> (u32 \<Rightarrow> u32 \<Rightarrow> u32) \<Rightarrow> 'd ppc_state \<Rightarrow> 'd ppc_state" where
  "rotate_mask n f s =
     (let i = opc s in
      case ppc_mask (f6 i) (f1 i) of
        None \<Rightarrow> ppc_halt Undefined_shift s
      | Some m \<Rightarrow> put_rc (f16 i) (f (ppc_word_rotl (pgpr s (f21 i)) n) m) s)"

definition ppc_opc_rlwimix :: "'d ppc_insn" where
  "ppc_opc_rlwimix bd s =
     rotate_mask (of_nat (f11 (opc s))) (\<lambda>v m. (v AND m) OR (pgpr s (f16 (opc s)) AND NOT m)) s"

definition ppc_opc_rlwinmx :: "'d ppc_insn" where
  "ppc_opc_rlwinmx bd s =
     rotate_mask (of_nat (f11 (opc s))) (\<lambda>v m. v AND m) s"

definition ppc_opc_rlwnmx :: "'d ppc_insn" where
  "ppc_opc_rlwnmx bd s =
     rotate_mask (pgpr s (f11 (opc s))) (\<lambda>v m. v AND m) s"

definition ppc_opc_slwx :: "'d ppc_insn" where
  "ppc_opc_slwx bd s =
     (let i = opc s; n = unat (pgpr s (f11 i) AND 0x3f)
      in put_rc (f16 i) (if 31 < n then 0 else push_bit n (pgpr s (f21 i))) s)"

definition ppc_opc_srwx :: "'d ppc_insn" where
  "ppc_opc_srwx bd s =
     (let i = opc s; n = unat (pgpr s (f11 i) AND 0x3f)
      in put_rc (f16 i) (if 31 < n then 0 else drop_bit n (pgpr s (f21 i))) s)"

text \<open>The word and whether a one was shifted out.\<close>

primrec sraw_loop :: "nat \<Rightarrow> u32 \<times> bool \<Rightarrow> u32 \<times> bool" where
  "sraw_loop 0 p = p"
| "sraw_loop (Suc n) p = sraw_loop n (drop_bit 1 (fst p) OR 0x80000000, snd p \<or> fst p AND 1 \<noteq> 0)"

definition alu_sraw :: "nat \<Rightarrow> 'd ppc_state \<Rightarrow> 'd ppc_state" where
  "alu_sraw n s =
     (let i = opc s; v = pgpr s (f21 i);
          (r, ca) = (if v AND 0x80000000 \<noteq> 0 then sraw_loop n (v, False) else (if 31 < n then 0 else drop_bit n v, False))
      in put_ca_rc (f16 i) r ca s)"

definition ppc_opc_srawx :: "'d ppc_insn" where
  "ppc_opc_srawx bd s =
     alu_sraw (unat (pgpr s (f11 (opc s)) AND 0x3f)) s"

definition ppc_opc_srawix :: "'d ppc_insn" where
  "ppc_opc_srawix bd s =
     alu_sraw (f11 (opc s)) s"

subsection \<open>Selection\<close>

definition ppc_opc_iseleq :: "'d ppc_insn" where
  "ppc_opc_iseleq bd s =
     (let i = opc s in set_pgpr (f21 i) (if ecr (cc s) AND CR_CR0_EQ \<noteq> 0 then pgpr s (f16 i) else pgpr s (f11 i)) s)"

definition ppc_opc_iselgt :: "'d ppc_insn" where
  "ppc_opc_iselgt bd s =
     (let i = opc s in set_pgpr (f21 i) (if ecr (cc s) AND CR_CR0_GT \<noteq> 0 then pgpr s (f16 i) else pgpr s (f11 i)) s)"

definition ppc_opc_isel :: "'d ppc_insn" where
  "ppc_opc_isel bd s =
     (let i = opc s in set_pgpr (f21 i) (if cr_bit s (f6 i) then pgpr s (f16 i) else pgpr s (f11 i)) s)"

end
