(* ===== verification/Ppc_Opc.thy ===== *)
theory Ppc_Opc
  imports Ppc_Ls Ppc_Alu
begin

text \<open>
  Branches, special-purpose registers, returns and traps of the e500 simulator (arch_ppc/common/ppc_opc.c).
  The error and warning macros of this file are empty. Privileged instructions in user mode and taken traps raise
  exceptions for which \<^verbatim>\<open>ppc_exception\<close> has no case.
\<close>

subsection \<open>Machine state register\<close>

definition ppc_set_msr :: "u32 \<Rightarrow> 'd ppc_state \<Rightarrow> 'd ppc_state" where
  "ppc_set_msr v s =
     upd_core (\<lambda>c. c\<lparr>emsr := if v AND MSR_POW \<noteq> 0 then v AND NOT MSR_POW else v\<rparr>) (ppc_mmu_tlb_invalidate s)"

text \<open>The guard of the privileged instructions.\<close>

definition priv_guard :: "('d ppc_state \<Rightarrow> 'd ppc_state) \<Rightarrow> 'd ppc_state \<Rightarrow> 'd ppc_state" where
  "priv_guard f s = (if emsr (cc s) AND MSR_PR \<noteq> 0 then ppc_exception (cur s) PPC_EXC_PROGRAM 0x40000 0 s else f s)"

subsection \<open>Branches\<close>

definition set_lr_if :: "'d ppc_state \<Rightarrow> 'd ppc_state" where
  "set_lr_if s = (if opc s AND PPC_OPC_LK \<noteq> 0 then upd_core (\<lambda>c. c\<lparr>elr := epc c + 4\<rparr>) s else s)"

definition set_npc :: "u32 \<Rightarrow> 'd ppc_state \<Rightarrow> 'd ppc_state" where
  "set_npc v = upd_core (\<lambda>c. c\<lparr>enpc := v\<rparr>)"

definition ppc_opc_bx :: "'d ppc_insn" where
  "ppc_opc_bx bd s =
     (let i = opc s; li = (if i AND PPC_OPC_AA = 0 then templ_LI i + epc (cc s) else templ_LI i)
      in set_npc li (set_lr_if s))"

text \<open>The counter is decremented when bit 2 of BO is clear; \<open>bo\<close> is BO, \<open>bi\<close> the bit of CR.\<close>

definition dec_ctr :: "nat \<Rightarrow> 'd ppc_state \<Rightarrow> 'd ppc_state" where
  "dec_ctr bo s = (if bit bo 2 then s else upd_core (\<lambda>c. c\<lparr>ectr := ectr c - 1\<rparr>) s)"

definition cr_cond :: "nat \<Rightarrow> nat \<Rightarrow> 'd ppc_state \<Rightarrow> bool" where
  "cr_cond bo bi s = (bit bo 4 \<or> (cr_bit s bi \<longleftrightarrow> bit bo 3))"

definition ctr_cond :: "nat \<Rightarrow> 'd ppc_state \<Rightarrow> bool" where
  "ctr_cond bo s = (bit bo 2 \<or> ((ectr (cc s) \<noteq> 0) \<noteq> bit bo 1))"

definition ppc_opc_bcx :: "'d ppc_insn" where
  "ppc_opc_bcx bd s0 =
     (let i = opc s0; s = dec_ctr (f21 i) s0 in
      if ctr_cond (f21 i) s \<and> cr_cond (f21 i) (f16 i) s
      then set_npc (if i AND PPC_OPC_AA = 0 then templ_BD i + epc (cc s) else templ_BD i) (set_lr_if s)
      else s)"

definition ppc_opc_bcctrx :: "'d ppc_insn" where
  "ppc_opc_bcctrx bd s =
     (let i = opc s in
      if cr_cond (f21 i) (f16 i) s then set_npc (ectr (cc s) AND 0xfffffffc) (set_lr_if s) else s)"

definition ppc_opc_bclrx :: "'d ppc_insn" where
  "ppc_opc_bclrx bd s0 =
     (let i = opc s0; s = dec_ctr (f21 i) s0 in
      if ctr_cond (f21 i) s \<and> cr_cond (f21 i) (f16 i) s
      then set_npc (elr (cc s) AND 0xfffffffc) (set_lr_if s)
      else s)"

subsection \<open>Caches and synchronisation\<close>

definition ppc_opc_dcbf :: "'d ppc_insn" where "ppc_opc_dcbf bd s = s"
definition ppc_opc_dcbi :: "'d ppc_insn" where "ppc_opc_dcbi bd s = priv_guard id s"
definition ppc_opc_dcbst :: "'d ppc_insn" where "ppc_opc_dcbst bd s = s"
definition ppc_opc_dcbt :: "'d ppc_insn" where "ppc_opc_dcbt bd s = s"
definition ppc_opc_dcbtst :: "'d ppc_insn" where "ppc_opc_dcbtst bd s = s"
definition ppc_opc_dcba :: "'d ppc_insn" where "ppc_opc_dcba bd s = s"
definition ppc_opc_eciwx :: "'d ppc_insn" where "ppc_opc_eciwx bd s = s"
definition ppc_opc_ecowx :: "'d ppc_insn" where "ppc_opc_ecowx bd s = s"
definition ppc_opc_eieio :: "'d ppc_insn" where "ppc_opc_eieio bd s = s"
definition ppc_opc_icbi :: "'d ppc_insn" where "ppc_opc_icbi bd s = s"
definition ppc_opc_isync :: "'d ppc_insn" where "ppc_opc_isync bd s = s"
definition ppc_opc_sync :: "'d ppc_insn" where "ppc_opc_sync bd s = s"
definition ppc_opc_tlbia :: "'d ppc_insn" where "ppc_opc_tlbia bd s = priv_guard ppc_mmu_tlb_invalidate s"
definition ppc_opc_tlbie :: "'d ppc_insn" where "ppc_opc_tlbie bd s = priv_guard ppc_mmu_tlb_invalidate s"
definition ppc_opc_tlbsync :: "'d ppc_insn" where "ppc_opc_tlbsync bd s = priv_guard ppc_mmu_tlb_invalidate s"

subsection \<open>Condition register and FPSCR\<close>

definition ppc_opc_mcrf :: "'d ppc_insn" where
  "ppc_opc_mcrf bd s =
     (let i = opc s; crD = 7 - f21 i div 4; crS = 7 - f16 i div 4 in
      upd_core (\<lambda>k. k\<lparr>ecr := (ecr k AND ppc_cmp_and_mask ! crD) OR push_bit (crD * 4) (drop_bit (crS * 4) (ecr k) AND 0xf)\<rparr>) s)"

definition ppc_opc_mcrfs :: "'d ppc_insn" where "ppc_opc_mcrfs bd s = s"
definition ppc_opc_mcrxr :: "'d ppc_insn" where "ppc_opc_mcrxr bd s = s"
definition ppc_opc_mfcr :: "'d ppc_insn" where "ppc_opc_mfcr bd s = put_rd (ecr (cc s)) s"
definition ppc_opc_mffsx :: "'d ppc_insn" where "ppc_opc_mffsx bd s = put_fd (ucast (efpscr (cc s))) s"

text \<open>Four bits of the mask for each bit of the field.\<close>

definition field_mask :: "u32 \<Rightarrow> u32" where
  "field_mask m =
     (if m AND 0x80 \<noteq> 0 then 0xf0000000 else 0) OR (if m AND 0x40 \<noteq> 0 then 0x0f000000 else 0) OR
     (if m AND 0x20 \<noteq> 0 then 0x00f00000 else 0) OR (if m AND 0x10 \<noteq> 0 then 0x000f0000 else 0) OR
     (if m AND 0x08 \<noteq> 0 then 0x0000f000 else 0) OR (if m AND 0x04 \<noteq> 0 then 0x00000f00 else 0) OR
     (if m AND 0x02 \<noteq> 0 then 0x000000f0 else 0) OR (if m AND 0x01 \<noteq> 0 then 0x0000000f else 0)"

definition ppc_opc_mtcrf :: "'d ppc_insn" where
  "ppc_opc_mtcrf bd s =
     (let i = opc s; m = field_mask (templ_CRM i) in
      upd_core (\<lambda>k. k\<lparr>ecr := (egpr k (f21 i) AND m) OR (ecr k AND NOT m)\<rparr>) s)"

definition ppc_opc_mtfsb0x :: "'d ppc_insn" where
  "ppc_opc_mtfsb0x bd s =
     (let b = f21 (opc s) in
      if b \<noteq> 1 \<and> b \<noteq> 2 then upd_core (\<lambda>k. k\<lparr>efpscr := efpscr k AND NOT (push_bit (31 - b) 1)\<rparr>) s else s)"

definition ppc_opc_mtfsb1x :: "'d ppc_insn" where
  "ppc_opc_mtfsb1x bd s =
     (let b = f21 (opc s) in
      if b \<noteq> 1 \<and> b \<noteq> 2 then upd_core (\<lambda>k. k\<lparr>efpscr := efpscr k OR push_bit (31 - b) 1\<rparr>) s else s)"

definition ppc_opc_mtfsfx :: "'d ppc_insn" where
  "ppc_opc_mtfsfx bd s =
     (let i = opc s; m = field_mask (templ_FM i) in
      upd_core (\<lambda>k. k\<lparr>efpscr := ucast ((efpr k (f11 i) AND ucast m) OR ucast (efpscr k AND NOT m))\<rparr>) s)"

definition ppc_opc_mtfsfix :: "'d ppc_insn" where
  "ppc_opc_mtfsfix bd s =
     (let i = opc s; crf = 7 - f21 i div 4; imm = of_nat (f11 i div 2) in
      upd_core (\<lambda>k. k\<lparr>efpscr := (efpscr k AND ppc_cmp_and_mask ! crf) OR push_bit (crf * 4) imm\<rparr>) s)"

subsection \<open>Special-purpose registers\<close>

text \<open>
  The register numbered \<open>spr1\<close>, \<open>spr2\<close> (the two halves of the field). \<open>None\<close> is the end of the function, which exits.
  Reading the decrementer first loads it.
\<close>

definition spr_0 :: "nat \<Rightarrow> e500_core \<Rightarrow> u32 option" where
  "spr_0 n c = map_of [(1, exer c), (8, elr c), (9, ectr c), (18, edsisr c), (19, edar c), (22, edec c),
     (25, esdr1 c), (26, esrr c 0), (27, esrr c 1)] n"

definition spr_1 :: "nat \<Rightarrow> e500_core \<Rightarrow> u32 option" where
  "spr_1 n c = map_of [(16, ucast (mpid (emmu c) 0)), (29, edear c), (30, eesr c)] n"

definition spr_8 :: "nat \<Rightarrow> e500_core \<Rightarrow> u32 option" where
  "spr_8 n c =
     (if n = 12 then Some (etbl c) else if n = 13 then Some (etbu c) else if n = 0 then Some (evrsave c)
      else if 1 \<le> n \<and> n \<le> 7 then Some (esprg c n)
      else if 16 \<le> n \<and> n \<le> 23 then Some (esprg c (n - 16))
      else if n = 26 then Some (eear c) else if n = 30 then Some (epir c) else if n = 31 then Some (epvr c)
      else None)"

definition spr_9 :: "nat \<Rightarrow> e500_core \<Rightarrow> u32 option" where
  "spr_9 n c = map_of [(16, edbsr c), (20, edbcr c 0), (21, edbcr c 1), (22, edbcr c 2), (28, edac c 0), (29, edac c 1)] n"

definition spr_16 :: "nat \<Rightarrow> e500_core \<Rightarrow> u32 option" where
  "spr_16 n c =
     (if n = 0 then Some (espefscr c)
      else if 16 \<le> n \<and> n \<le> 23 then Some (if even n then eibatu c ((n - 16) div 2) else eibatl c ((n - 16) div 2))
      else if 24 \<le> n \<and> n \<le> 31 then Some (if even n then edbatu c ((n - 24) div 2) else edbatl c ((n - 24) div 2))
      else None)"

definition spr_19 :: "nat \<Rightarrow> e500_core \<Rightarrow> u32 option" where
  "spr_19 n c =
     (if n \<in> {16, 17, 18, 19, 20, 22} then Some (ucast (mas (emmu c) (n - 16)))
      else if n \<in> {25, 26} then Some (ucast (mpid (emmu c) (n - 24))) else None)"

definition spr_31 :: "nat \<Rightarrow> e500_core \<Rightarrow> u32 option" where
  "spr_31 n c =
     (if n = 16 then Some (ehid c 0) else if n = 17 then Some (ehid c 1) else if n = 19 then Some (el1csr c 1)
      else if n = 20 then Some (eiac c 0)
      else if n \<in> {18, 21, 22, 23, 25, 27, 28, 29, 30, 31} then Some 0 else None)"

definition spr_read :: "nat \<Rightarrow> nat \<Rightarrow> e500_core \<Rightarrow> u32 option" where
  "spr_read spr2 spr1 c =
     (if spr2 = 0 then spr_0 spr1 c else if spr2 = 1 then spr_1 spr1 c else if spr2 = 8 then spr_8 spr1 c
      else if spr2 = 9 then spr_9 spr1 c
      else if spr2 = 10 then (if spr1 = 20 then Some (etcr c) else None)
      else if spr2 = 16 then spr_16 spr1 c else if spr2 = 19 then spr_19 spr1 c
      else if spr2 = 21 then (if spr1 = 17 then Some (ucast (tlbcfg (emmu c) 1)) else None)
      else if spr2 = 29 then (if spr1 \<in> {16, 17, 18, 24, 25, 26, 28, 29, 30} then Some 0 else None)
      else if spr2 = 31 then spr_31 spr1 c else None)"

definition load_dec :: "e500_core \<Rightarrow> e500_core" where
  "load_dec c = c\<lparr>edec := ucast (epdec c div TB_TO_PTB_FACTOR)\<rparr>"

definition ppc_opc_mfspr :: "'d ppc_insn" where
  "ppc_opc_mfspr bd s0 =
     (let i = opc s0; s = (if f11 i = 0 \<and> f16 i = 22 then upd_core load_dec s0 else s0) in
      case spr_read (f11 i) (f16 i) (cc s) of None \<Rightarrow> ppc_halt Skyeye_exit s | Some v \<Rightarrow> put_rd v s)"

definition spr_w0 :: "nat \<Rightarrow> u32 \<Rightarrow> e500_core \<Rightarrow> e500_core option" where
  "spr_w0 n v c =
     (if n = 1 then Some (c\<lparr>exer := v\<rparr>) else if n = 8 then Some (c\<lparr>elr := v\<rparr>) else if n = 9 then Some (c\<lparr>ectr := v\<rparr>)
      else if n = 22 then Some (c\<lparr>edec := v, epdec := ucast v * TB_TO_PTB_FACTOR\<rparr>)
      else if n = 26 then Some (c\<lparr>esrr := (esrr c)(0 := v)\<rparr>)
      else if n = 27 then Some (c\<lparr>esrr := (esrr c)(1 := v)\<rparr>) else None)"

definition spr_wsprg :: "nat \<Rightarrow> u32 \<Rightarrow> e500_core \<Rightarrow> e500_core option" where
  "spr_wsprg n v c = (if 16 \<le> n \<and> n \<le> 23 then Some (c\<lparr>esprg := (esprg c)(n - 16 := v)\<rparr>) else None)"

text \<open>Group 1 has no \<^verbatim>\<open>break\<close> at its end: the other numbers go on to the cases of group 8.\<close>

definition spr_w1 :: "nat \<Rightarrow> u32 \<Rightarrow> e500_core \<Rightarrow> e500_core option" where
  "spr_w1 n v c =
     (if n = 16 then Some (c\<lparr>emmu := (emmu c)\<lparr>mpid := (mpid (emmu c))(0 := ucast v)\<rparr>\<rparr>)
      else if n = 26 then Some (c\<lparr>ecsrr := (ecsrr c)(0 := v)\<rparr>)
      else if n = 27 then Some (c\<lparr>ecsrr := (ecsrr c)(1 := v)\<rparr>)
      else if n = 29 then Some (c\<lparr>edear := v\<rparr>) else if n = 30 then Some (c\<lparr>eesr := v\<rparr>)
      else if n = 31 then Some (c\<lparr>eivpr := v\<rparr>) else spr_wsprg n v c)"

definition spr_w8 :: "nat \<Rightarrow> u32 \<Rightarrow> e500_core \<Rightarrow> e500_core option" where
  "spr_w8 n v c =
     (if n = 0 then Some (c\<lparr>evrsave := v\<rparr>) else if n = 28 then Some (c\<lparr>etbl := v\<rparr>)
      else if n = 29 then Some (c\<lparr>etbu := v\<rparr>) else spr_wsprg n v c)"

definition spr_w9 :: "nat \<Rightarrow> u32 \<Rightarrow> e500_core \<Rightarrow> e500_core option" where
  "spr_w9 n v c =
     (if n = 16 then Some (c\<lparr>edbsr := v\<rparr>)
      else if n \<in> {20, 21, 22} then Some (c\<lparr>edbcr := (edbcr c)(n - 20 := v)\<rparr>)
      else if n \<in> {28, 29} then Some (c\<lparr>edac := (edac c)(n - 28 := v)\<rparr>) else None)"

definition spr_w10 :: "nat \<Rightarrow> u32 \<Rightarrow> e500_core \<Rightarrow> e500_core option" where
  "spr_w10 n v c =
     (if n = 16 then Some (c\<lparr>etsr := etsr c AND NOT (etsr c AND v)\<rparr>)
      else if n = 20 then Some (c\<lparr>etcr := v\<rparr>) else None)"

definition bat_mask :: "u32 \<Rightarrow> u32" where
  "bat_mask v = NOT (push_bit 17 (BATU_BL v))"

definition spr_w16 :: "nat \<Rightarrow> u32 \<Rightarrow> e500_core \<Rightarrow> e500_core option" where
  "spr_w16 n v c =
     (let i = (n - 16) div 2; j = (n - 24) div 2 in
      if n = 0 then Some (c\<lparr>espefscr := v\<rparr>)
      else if 16 \<le> n \<and> n \<le> 23 then
        Some (if even n then c\<lparr>eibatu := (eibatu c)(i := v), eibat_bl17 := (eibat_bl17 c)(i := bat_mask v)\<rparr>
              else c\<lparr>eibatl := (eibatl c)(i := v)\<rparr>)
      else if 24 \<le> n \<and> n \<le> 31 then
        Some (if even n then c\<lparr>edbatu := (edbatu c)(j := v), edbat_bl17 := (edbat_bl17 c)(j := bat_mask v)\<rparr>
              else c\<lparr>edbatl := (edbatl c)(j := v)\<rparr>)
      else None)"

definition spr_w17 :: "nat \<Rightarrow> u32 \<Rightarrow> e500_core \<Rightarrow> e500_core option" where
  "spr_w17 n v c =
     (if n \<in> {26, 27} then Some (c\<lparr>emcsrr := (emcsrr c)(n - 26 := v)\<rparr>)
      else if n = 28 then Some (c\<lparr>emcsr := v\<rparr>) else None)"

definition spr_w19 :: "nat \<Rightarrow> u32 \<Rightarrow> e500_core \<Rightarrow> e500_core option" where
  "spr_w19 n v c =
     (if n \<in> {16, 17, 18, 19, 20, 22} then Some (set_mas (n - 16) (ucast v) c)
      else if n \<in> {25, 26} then Some (c\<lparr>emmu := (emmu c)\<lparr>mpid := (mpid (emmu c))(n - 24 := ucast v)\<rparr>\<rparr>) else None)"

definition spr_w31 :: "nat \<Rightarrow> u32 \<Rightarrow> e500_core \<Rightarrow> e500_core option" where
  "spr_w31 n v c =
     (if n = 16 then Some (c\<lparr>ehid := (ehid c)(0 := v)\<rparr>)
      else if n = 19 then Some (c\<lparr>el1csr := (el1csr c)(1 := v)\<rparr>)
      else if n = 20 then Some (c\<lparr>eiac := (eiac c)(0 := v)\<rparr>)
      else if n \<in> {17, 18, 21, 27, 28, 29, 30, 31} then Some c else None)"

text \<open>Group 29 goes on to the cases of group 31 in the same way.\<close>

definition spr_write :: "nat \<Rightarrow> nat \<Rightarrow> u32 \<Rightarrow> e500_core \<Rightarrow> e500_core option" where
  "spr_write spr2 n v c =
     (if spr2 = 0 then spr_w0 n v c else if spr2 = 1 then spr_w1 n v c else if spr2 = 8 then spr_w8 n v c
      else if spr2 = 9 then spr_w9 n v c else if spr2 = 10 then spr_w10 n v c
      else if spr2 = 12 then (if 16 \<le> n \<and> n < 32 then Some (c\<lparr>eivor := (eivor c)(n - 16 := v)\<rparr>) else None)
      else if spr2 = 16 then spr_w16 n v c else if spr2 = 17 then spr_w17 n v c else if spr2 = 19 then spr_w19 n v c
      else if spr2 = 29 then (if n \<in> {17, 24, 25, 26} then Some c else spr_w31 n v c)
      else if spr2 = 31 then spr_w31 n v c else None)"

definition ppc_opc_mtspr :: "'d ppc_insn" where
  "ppc_opc_mtspr bd s =
     (let i = opc s; v = pgpr s (f21 i) in
      if f11 i = 0 \<and> f16 i = 25 then snd (ppc_mmu_set_sdr1 v s)
      else case spr_write (f11 i) (f16 i) v (cc s) of
        None \<Rightarrow> ppc_halt Skyeye_exit s
      | Some c \<Rightarrow> upd_core (\<lambda>_. c) s)"

definition ppc_opc_mftb :: "'d ppc_insn" where
  "ppc_opc_mftb bd s =
     (let i = opc s; s1 = upd_core (\<lambda>c. c\<lparr>etb := eptb c div TB_TO_PTB_FACTOR\<rparr>) s in
      if f11 i = 8 \<and> f16 i = 12 then put_rd (ucast (etb (cc s1))) s1
      else if f11 i = 8 \<and> f16 i = 13 then put_rd (ucast (drop_bit 32 (etb (cc s1)))) s1
      else s)"

definition ppc_opc_mfmsr :: "'d ppc_insn" where
  "ppc_opc_mfmsr bd s = priv_guard (\<lambda>s. put_rd (emsr (cc s)) s) s"

definition ppc_opc_mtmsr :: "'d ppc_insn" where
  "ppc_opc_mtmsr bd s = priv_guard (\<lambda>s. ppc_set_msr (pgpr s (f21 (opc s))) s) s"

definition ppc_opc_wrteei :: "'d ppc_insn" where
  "ppc_opc_wrteei bd s =
     (let b = drop_bit 15 (opc s) AND 1 \<noteq> 0 in
      upd_core (\<lambda>c. c\<lparr>emsr := if b then emsr c OR 0x8000 else emsr c AND NOT 0x8000\<rparr>) s)"

definition ppc_opc_wrtee :: "'d ppc_insn" where
  "ppc_opc_wrtee bd s =
     (let b = drop_bit 15 (pgpr s (f21 (opc s))) AND 1 \<noteq> 0 in
      upd_core (\<lambda>c. c\<lparr>emsr := if b then emsr c OR 0x8000 else emsr c AND NOT 0x8000\<rparr>) s)"

text \<open>Segment registers.\<close>

definition ppc_opc_mfsr :: "'d ppc_insn" where
  "ppc_opc_mfsr bd s = priv_guard (\<lambda>s. put_rd (eseg (cc s) (f16 (opc s) mod 16)) s) s"

definition ppc_opc_mfsrin :: "'d ppc_insn" where
  "ppc_opc_mfsrin bd s = priv_guard (\<lambda>s. put_rd (eseg (cc s) (unat (drop_bit 28 (pgpr s (f11 (opc s)))))) s) s"

definition set_seg :: "nat \<Rightarrow> 'd ppc_state \<Rightarrow> 'd ppc_state" where
  "set_seg n s = upd_core (\<lambda>c. c\<lparr>eseg := (eseg c)(n := egpr c (f21 (opc s)))\<rparr>) s"

definition ppc_opc_mtsr :: "'d ppc_insn" where
  "ppc_opc_mtsr bd s = priv_guard (\<lambda>s. set_seg (f16 (opc s) mod 16) s) s"

definition ppc_opc_mtsrin :: "'d ppc_insn" where
  "ppc_opc_mtsrin bd s = priv_guard (\<lambda>s. set_seg (unat (drop_bit 28 (pgpr s (f11 (opc s))))) s) s"

subsection \<open>Interrupt return, system call and traps\<close>

definition ppc_opc_rfi :: "'d ppc_insn" where
  "ppc_opc_rfi bd s =
     priv_guard (\<lambda>s. set_npc (esrr (cc s) 0 AND 0xfffffffc) (ppc_set_msr (esrr (cc s) 1 AND MSR_RFI_SAVE_MASK) s)) s"

definition ppc_opc_sc :: "'d ppc_insn" where
  "ppc_opc_sc bd s =
     (if pgpr s 3 = 0x113724fa \<and> pgpr s 4 = 0x77810f9b then s else ppc_exception (cur s) SYSCALL 0 0 s)"

definition trap_cond :: "nat \<Rightarrow> u32 \<Rightarrow> u32 \<Rightarrow> bool" where
  "trap_cond t a b =
     (bit t 4 \<and> sint a < sint b \<or> bit t 3 \<and> sint b < sint a \<or> bit t 2 \<and> a = b \<or> bit t 1 \<and> a < b \<or> bit t 0 \<and> b < a)"

definition ppc_opc_tw :: "'d ppc_insn" where
  "ppc_opc_tw bd s =
     (let i = opc s in
      if trap_cond (f21 i) (pgpr s (f16 i)) (pgpr s (f11 i)) then ppc_exception (cur s) PPC_EXC_PROGRAM 0x20000 0 s else s)"

definition ppc_opc_twi :: "'d ppc_insn" where
  "ppc_opc_twi bd s =
     (let i = opc s in
      if trap_cond (f21 i) (pgpr s (f16 i)) (simm i) then ppc_exception (cur s) PROG 0x20000 0 s else s)"

end
