(* ===== verification/Ppc_Dec.thy ===== *)
theory Ppc_Dec
  imports Ppc_Opc
begin

text \<open>
  The decoder of the e500 simulator (arch_ppc/common/ppc_dec.c): the tables of functions as association lists by the
  opcode, what is not in a list is \<^verbatim>\<open>ppc_opc_invalid\<close>. The processor version is fixed to 0x80210030, so that the
  AltiVec tables are never installed.
\<close>

subsection \<open>Opcodes outside the tables\<close>

text \<open>The byte in the boot ROM array that an effective address stands for, for \<^verbatim>\<open>memcpy\<close>.\<close>

definition ppc_direct_physical_memory_handle :: "u32 \<Rightarrow> nat option" where
  "ppc_direct_physical_memory_handle p = (if p < BOOT_ROM_SIZE then Some (unat p) else None)"

definition ppc_direct_effective_memory_handle :: "u32 \<Rightarrow> nat option \<Rightarrow> 'd ppc_state \<Rightarrow> nat option \<times> 'd ppc_state" where
  "ppc_direct_effective_memory_handle a old s =
     (case ppc_effective_to_physical (cur s) a PPC_MMU_READ s of
        (None, s1) \<Rightarrow> (old, s1)
      | (Some p, s1) \<Rightarrow> (case ppc_direct_physical_memory_handle p of None \<Rightarrow> (old, s1) | Some i \<Rightarrow> (Some i, s1)))"

text \<open>\<open>None\<close> is a pointer that was never assigned.\<close>

definition memcpy_byte :: "nat option \<Rightarrow> nat option \<Rightarrow> 'd ppc_state \<Rightarrow> 'd ppc_state" where
  "memcpy_byte d r s =
     (case (d, r) of
        (Some i, Some j) \<Rightarrow> mem_check BOOT_ROM_SIZE 1 i (mem_check BOOT_ROM_SIZE 1 j (s\<lparr>boot_rom := (boot_rom s)(i := boot_rom s j)\<rparr>))
      | _ \<Rightarrow> ppc_halt Null_pointer s)"

fun memcpy_loop :: "nat \<Rightarrow> u32 \<Rightarrow> u32 \<Rightarrow> nat option \<Rightarrow> nat option \<Rightarrow> 'd ppc_state \<Rightarrow> 'd ppc_state" where
  "memcpy_loop 0 dest src d r s = s"
| "memcpy_loop (Suc n) dest src d0 r0 s0 =
     (let (d, s1) = (if dest AND 0xfff = 0 then ppc_direct_effective_memory_handle dest d0 s0 else (d0, s0));
          (r, s2) = (if src AND 0xfff = 0 then ppc_direct_effective_memory_handle src r0 s1 else (r0, s1))
      in memcpy_loop n (dest + 1) (src + 1) (map_option Suc d) (map_option Suc r) (memcpy_byte d r s2))"

definition ppc_memcpy :: "'d ppc_state \<Rightarrow> 'd ppc_state" where
  "ppc_memcpy s =
     (let dest = pgpr s 3; src = pgpr s 4; n = unat (pgpr s 5);
          (d, s1) = ppc_direct_effective_memory_handle dest None s;
          (r, s2) = ppc_direct_effective_memory_handle src None s1
      in upd_core (\<lambda>c. c\<lparr>epc := enpc c\<rparr>) (memcpy_loop n dest src d r s2))"

text \<open>
  Of the two e500 instructions the store writes one word and the load reads one byte. The opcode 0x00333301, which is
  meant for \<^verbatim>\<open>memset\<close>, has the extended opcode 384 of the load, so that its branch is never reached; it is left out.
\<close>

definition ppc_opc_invalid :: "'d ppc_insn" where
  "ppc_opc_invalid bd s =
     (let i = opc s; a = pgpr s (f16 i) + drop_bit 11 (uimm i) * 8 in
      if PPC_OPC_EXT i = 400 then snd (ppc_write_effective_word bd a (pgpr s (f21 i)) s)
      else if PPC_OPC_EXT i = 384 then
        (case ppc_read_effective_byte bd a (ucast (pgpr s (f21 i))) s of
           (None, s1) \<Rightarrow> s1
         | (Some v, s1) \<Rightarrow> put_rd ((pgpr s1 (f21 i) AND 0xffffff00) OR ucast v) s1)
      else if i = 0x00333302 then ppc_memcpy s
      else ppc_halt Skyeye_exit s)"

lemma memset_opcode_ext: "PPC_OPC_EXT 0x00333301 = 384"
  by (simp add: PPC_OPC_EXT_def)

definition dispatch :: "(nat \<times> 'd ppc_insn) list \<Rightarrow> nat \<Rightarrow> 'd ppc_insn" where
  "dispatch t n bd s = (case map_of t n of None \<Rightarrow> ppc_opc_invalid bd s | Some f \<Rightarrow> f bd s)"

subsection \<open>Main opcode 19\<close>

definition group_1_table :: "(nat \<times> 'd ppc_insn) list" where
  "group_1_table = [
     (33, ppc_opc_crnor), (129, ppc_opc_crandc), (193, ppc_opc_crxor), (225, ppc_opc_crnand),
     (257, ppc_opc_crand), (289, ppc_opc_creqv), (417, ppc_opc_crorc), (449, ppc_opc_cror),
     (16, ppc_opc_bclrx), (0, ppc_opc_mcrf), (50, ppc_opc_rfi), (150, ppc_opc_isync),
     (528, ppc_opc_bcctrx)]"

definition ppc_opc_group_1 :: "'d ppc_insn" where
  "ppc_opc_group_1 bd s = dispatch group_1_table (PPC_OPC_EXT (opc s)) bd s"

subsection \<open>Main opcode 31\<close>

text \<open>A number beyond the table (1015 entries) first ends the program in \<^verbatim>\<open>ppc_opc_invalid\<close>.\<close>

definition ppc_opc_table_group2 :: "(nat \<times> 'd ppc_insn) list" where
  "ppc_opc_table_group2 = [
     (0, ppc_opc_cmp), (4, ppc_opc_tw), (8, ppc_opc_subfcx), (10, ppc_opc_addcx),
     (11, ppc_opc_mulhwux), (15, ppc_opc_isel), (19, ppc_opc_mfcr), (20, ppc_opc_lwarx),
     (23, ppc_opc_lwzx), (24, ppc_opc_slwx), (26, ppc_opc_cntlzwx), (28, ppc_opc_andx),
     (32, ppc_opc_cmpl), (40, ppc_opc_subfx), (47, ppc_opc_iselgt), (54, ppc_opc_dcbst),
     (55, ppc_opc_lwzux), (60, ppc_opc_andcx), (75, ppc_opc_mulhwx), (79, ppc_opc_iseleq),
     (83, ppc_opc_mfmsr), (86, ppc_opc_dcbf), (87, ppc_opc_lbzx), (104, ppc_opc_negx),
     (119, ppc_opc_lbzux), (124, ppc_opc_norx), (131, ppc_opc_wrtee), (136, ppc_opc_subfex),
     (138, ppc_opc_addex), (143, ppc_opc_isel), (144, ppc_opc_mtcrf), (146, ppc_opc_mtmsr),
     (150, ppc_opc_stwcx_dot), (151, ppc_opc_stwx), (163, ppc_opc_wrteei), (166, ppc_opc_dcbtls),
     (183, ppc_opc_stwux), (200, ppc_opc_subfzex), (202, ppc_opc_addzex), (207, ppc_opc_isel),
     (210, ppc_opc_mtsr), (215, ppc_opc_stbx), (232, ppc_opc_subfmex), (234, ppc_opc_addmex),
     (235, ppc_opc_mullwx), (242, ppc_opc_mtsrin), (246, ppc_opc_dcbtst), (247, ppc_opc_stbux),
     (266, ppc_opc_addx), (278, ppc_opc_dcbt), (279, ppc_opc_lhzx), (284, ppc_opc_eqvx),
     (306, ppc_opc_tlbie), (310, ppc_opc_eciwx), (311, ppc_opc_lhzux), (316, ppc_opc_xorx),
     (339, ppc_opc_mfspr), (343, ppc_opc_lhax), (335, ppc_opc_isel), (370, ppc_opc_tlbia),
     (371, ppc_opc_mftb), (375, ppc_opc_lhaux), (407, ppc_opc_sthx), (412, ppc_opc_orcx),
     (438, ppc_opc_ecowx), (439, ppc_opc_sthux), (444, ppc_opc_orx), (459, ppc_opc_divwux),
     (463, ppc_opc_isel), (467, ppc_opc_mtspr), (470, ppc_opc_dcbi), (476, ppc_opc_nandx),
     (491, ppc_opc_divwx), (512, ppc_opc_mcrxr), (527, ppc_opc_isel), (533, ppc_opc_lswx),
     (534, ppc_opc_lwbrx), (535, ppc_opc_lfsx), (536, ppc_opc_srwx), (566, ppc_opc_tlbsync),
     (567, ppc_opc_lfsux), (591, ppc_opc_isel), (595, ppc_opc_mfsr), (597, ppc_opc_lswi),
     (598, ppc_opc_sync), (599, ppc_opc_lfdx), (631, ppc_opc_lfdux), (659, ppc_opc_mfsrin),
     (661, ppc_opc_stswx), (662, ppc_opc_stwbrx), (663, ppc_opc_stfsx), (695, ppc_opc_stfsux),
     (725, ppc_opc_stswi), (727, ppc_opc_stfdx), (758, ppc_opc_dcba), (759, ppc_opc_stfdux),
     (783, ppc_opc_isel), (786, ppc_opc_tlbivax), (790, ppc_opc_lhbrx), (792, ppc_opc_srawx),
     (815, ppc_opc_isel), (824, ppc_opc_srawix), (847, ppc_opc_isel), (854, ppc_opc_eieio),
     (911, ppc_opc_isel), (914, ppc_opc_tlbsx), (918, ppc_opc_sthbrx), (922, ppc_opc_extshx),
     (946, ppc_opc_tlbrehi), (954, ppc_opc_extsbx), (975, ppc_opc_isel), (943, ppc_opc_isel),
     (978, ppc_opc_tlbwe), (982, ppc_opc_icbi), (983, ppc_opc_stfiwx), (1014, ppc_opc_dcbz)]"

definition ppc_opc_group_2 :: "'d ppc_insn" where
  "ppc_opc_group_2 bd s = dispatch ppc_opc_table_group2 (PPC_OPC_EXT (opc s)) bd s"

subsection \<open>Main opcodes 59 and 63\<close>

definition group_f1_table :: "(nat \<times> 'd ppc_insn) list" where
  "group_f1_table = [
     (18, ppc_opc_fdivsx), (20, ppc_opc_fsubsx), (21, ppc_opc_faddsx), (22, ppc_opc_fsqrtsx),
     (24, ppc_opc_fresx), (25, ppc_opc_fmulsx), (28, ppc_opc_fmsubsx), (29, ppc_opc_fmaddsx),
     (30, ppc_opc_fnmsubsx), (31, ppc_opc_fnmaddsx)]"

definition ppc_opc_group_f1 :: "'d ppc_insn" where
  "ppc_opc_group_f1 bd s = fp_guard (\<lambda>s. dispatch group_f1_table (PPC_OPC_EXT (opc s) mod 32) bd s) s"

definition group_f2_arith :: "(nat \<times> 'd ppc_insn) list" where
  "group_f2_arith = [
     (18, ppc_opc_fdivx), (20, ppc_opc_fsubx), (21, ppc_opc_faddx), (22, ppc_opc_fsqrtx),
     (23, ppc_opc_fselx), (25, ppc_opc_fmulx), (26, ppc_opc_frsqrtex), (28, ppc_opc_fmsubx),
     (29, ppc_opc_fmaddx), (30, ppc_opc_fnmsubx), (31, ppc_opc_fnmaddx)]"

definition group_f2_table :: "(nat \<times> 'd ppc_insn) list" where
  "group_f2_table = [
     (0, ppc_opc_fcmpu), (12, ppc_opc_frspx), (14, ppc_opc_fctiwx), (15, ppc_opc_fctiwzx),
     (32, ppc_opc_fcmpo), (38, ppc_opc_mtfsb1x), (40, ppc_opc_fnegx), (64, ppc_opc_mcrfs),
     (70, ppc_opc_mtfsb0x), (72, ppc_opc_fmrx), (134, ppc_opc_mtfsfix), (136, ppc_opc_fnabsx),
     (264, ppc_opc_fabsx), (583, ppc_opc_mffsx), (711, ppc_opc_mtfsfx)]"

definition ppc_opc_group_f2 :: "'d ppc_insn" where
  "ppc_opc_group_f2 bd s =
     fp_guard (\<lambda>s. let ext = PPC_OPC_EXT (opc s) in
       if bit ext 4 then dispatch group_f2_arith (ext mod 32) bd s else dispatch group_f2_table ext bd s) s"

subsection \<open>All instructions\<close>

definition ppc_opc_table_main :: "(nat \<times> 'd ppc_insn) list" where
  "ppc_opc_table_main = [
     (3, ppc_opc_twi), (7, ppc_opc_mulli), (8, ppc_opc_subfic), (10, ppc_opc_cmpli),
     (11, ppc_opc_cmpi), (12, ppc_opc_addic), (13, ppc_opc_addic_dot), (14, ppc_opc_addi),
     (15, ppc_opc_addis), (16, ppc_opc_bcx), (17, ppc_opc_sc), (18, ppc_opc_bx),
     (19, ppc_opc_group_1), (20, ppc_opc_rlwimix), (21, ppc_opc_rlwinmx), (23, ppc_opc_rlwnmx),
     (24, ppc_opc_ori), (25, ppc_opc_oris), (26, ppc_opc_xori), (27, ppc_opc_xoris),
     (28, ppc_opc_andi_dot), (29, ppc_opc_andis_dot), (31, ppc_opc_group_2), (32, ppc_opc_lwz),
     (33, ppc_opc_lwzu), (34, ppc_opc_lbz), (35, ppc_opc_lbzu), (36, ppc_opc_stw),
     (37, ppc_opc_stwu), (38, ppc_opc_stb), (39, ppc_opc_stbu), (40, ppc_opc_lhz),
     (41, ppc_opc_lhzu), (42, ppc_opc_lha), (43, ppc_opc_lhau), (44, ppc_opc_sth),
     (45, ppc_opc_sthu), (46, ppc_opc_lmw), (47, ppc_opc_stmw), (48, ppc_opc_lfs),
     (49, ppc_opc_lfsu), (50, ppc_opc_lfd), (51, ppc_opc_lfdu), (52, ppc_opc_stfs),
     (53, ppc_opc_stfsu), (54, ppc_opc_stfd), (55, ppc_opc_stfdu), (59, ppc_opc_group_f1),
     (63, ppc_opc_group_f2)]"

definition ppc_exec_opc :: "'d ppc_insn" where
  "ppc_exec_opc bd s = dispatch ppc_opc_table_main (PPC_OPC_MAIN (opc s)) bd s"

end
