(* ===== verification/Ppc_Step.thy ===== *)
theory Ppc_Step
  imports Ppc_Dec
begin

text \<open>
  The main loop of the e500 simulator (arch_ppc/common/ppc_e500_core.c and ppc_arch_interface.c): the decrementer,
  reset, one step of each core, and the accesses of the debugger.

  \<^verbatim>\<open>ppc_divisor\<close> is 0 at the start and never set to anything else, so that the decrementer runs in every step.
\<close>

subsection \<open>Decrementer and reset (ppc_e500_core.c)\<close>

definition dec_io_do_cycle :: "nat \<Rightarrow> 'd ppc_state \<Rightarrow> 'd ppc_state" where
  "dec_io_do_cycle k s0 =
     (let s = upd_core_of k (\<lambda>c. c\<lparr>etbl := etbl c + 1\<rparr>) s0; c = cores s k in
      if etsr c AND 0x8000000 = 0 \<and> etcr c AND 0x4000000 \<noteq> 0 \<and> emsr c AND 0x8000 \<noteq> 0 then
        let s1 = (if 0 < edec c then upd_core_of k (\<lambda>c. c\<lparr>edec := edec c - 1\<rparr>) s else s)
        in if edec (cores s1 k) = 0 then ppc_exception k DEC 0 (epc (cores s1 k)) s1 else s1
      else s)"

definition ppc_core_init :: "nat \<Rightarrow> e500_core \<Rightarrow> e500_core" where
  "ppc_core_init k c =
     c\<lparr>eseg := (\<lambda>j. if j < 16 then 0x2aa * of_nat j else eseg c j), epvr := 0x80210030, epir := of_nat k,
       emmu := e500_mmu_init (emmu c)\<rparr>"

subsection \<open>Reset (ppc_arch_interface.c)\<close>

text \<open>The cores are allocated but not cleared: what \<^verbatim>\<open>ppc_core_init\<close> does not set is arbitrary.\<close>

definition ppc_cpu_init :: "'d ppc_state \<Rightarrow> 'd ppc_state" where
  "ppc_cpu_init s =
     (if core_num s = 0 then ppc_halt Skyeye_exit s
      else s\<lparr>cores := \<lambda>k. if k < core_num s then ppc_core_init k (cores s k) else cores s k, cur := 0\<rparr>)"

definition ppc_init_state :: "('d ppc_state \<Rightarrow> 'd ppc_state) \<Rightarrow> 'd ppc_state \<Rightarrow> 'd ppc_state" where
  "ppc_init_state mach_init s = ppc_cpu_init (mach_init (s\<lparr>core_num := 0, bptr := 0, eebpcr := 0, ccsr := 0\<rparr>))"

definition ppc_reset_state :: "'d ppc_insn" where
  "ppc_reset_state bd s = bd_io_reset bd s"

definition ppc_set_pc :: "u32 \<Rightarrow> 'd ppc_state \<Rightarrow> 'd ppc_state" where
  "ppc_set_pc v s = s\<lparr>cores := \<lambda>k. if k < core_num s then (cores s k)\<lparr>epc := v\<rparr> else cores s k\<rparr>"

definition ppc_get_pc :: "'d ppc_state \<Rightarrow> u32" where
  "ppc_get_pc s = epc (cores s 0)"

subsection \<open>One step\<close>

text \<open>Instructions come from the boot ROM above its first word, or from the DDR RAM.\<close>

definition fetch_opc :: "u32 \<Rightarrow> 'd ppc_state \<Rightarrow> 'd ppc_state" where
  "fetch_opc p s =
     (if BOOT_ROM_START < p then
        let i = unat (p - BOOT_ROM_START)
        in mem_check BOOT_ROM_SIZE 4 i (upd_core (\<lambda>c. c\<lparr>eopc := ppc_bswap_word (host_word (boot_rom s) i)\<rparr>) s)
      else if p < DDR_RAM_SIZE then
        mem_check DDR_RAM_SIZE 4 (unat p) (upd_core (\<lambda>c. c\<lparr>eopc := ppc_bswap_word (host_word (ddr_ram s) (unat p))\<rparr>) s)
      else ppc_halt Skyeye_exit s)"

text \<open>An interrupt of another core or of the board has put the handler in \<^verbatim>\<open>npc\<close>.\<close>

definition step_begin :: "e500_core \<Rightarrow> e500_core" where
  "step_begin c0 =
     (let c = (if eipi_flag c0 \<noteq> 0 then c0\<lparr>epc := enpc c0, eipi_flag := 0\<rparr> else c0) in c\<lparr>enpc := epc c + 4\<rparr>)"

definition step_end :: "'d ppc_state \<Rightarrow> 'd ppc_state" where
  "step_end s = upd_core (\<lambda>c. c\<lparr>epc := enpc c\<rparr>) (dec_io_do_cycle (cur s) s)"

definition per_cpu_step :: "'d ppc_insn" where
  "per_cpu_step bd s =
     (let s1 = upd_core step_begin s in
      case ppc_effective_to_physical (cur s1) (epc (cc s1)) 0 s1 of
        (None, s2) \<Rightarrow> step_end s2
      | (Some p, s2) \<Rightarrow>
          (let s3 = fetch_opc p s2 in if phalted s3 \<noteq> None then s3 else step_end (ppc_exec_opc bd s3)))"

text \<open>The other cores run once bit 25 of \<^verbatim>\<open>eebpcr\<close> is set.\<close>

definition step_core :: "'d ppc_board \<Rightarrow> nat \<Rightarrow> 'd ppc_state \<Rightarrow> 'd ppc_state" where
  "step_core bd k s =
     (let s1 = s\<lparr>cur := k\<rparr> in if k = 0 \<or> eebpcr s1 AND 0x2000000 \<noteq> 0 then per_cpu_step bd s1 else s1)"

definition ppc_step_once :: "'d ppc_insn" where
  "ppc_step_once bd s = bd_do_cycle bd (fold (step_core bd) [0..<core_num s] s)"

primrec ppc_steps :: "nat \<Rightarrow> 'd ppc_insn" where
  "ppc_steps 0 bd s = s"
| "ppc_steps (Suc n) bd s = ppc_steps n bd (ppc_step_once bd s)"

subsection \<open>The debugger's accesses and the choice of the machine\<close>

definition ppc_ICE_write_byte :: "'d ppc_board \<Rightarrow> u32 \<Rightarrow> u8 \<Rightarrow> 'd ppc_state \<Rightarrow> 'd ppc_state" where
  "ppc_ICE_write_byte bd a v s = snd (ppc_write_effective_byte bd a v s)"

definition ppc_ICE_read_byte :: "'d ppc_board \<Rightarrow> u32 \<Rightarrow> u8 \<Rightarrow> 'd ppc_state \<Rightarrow> u8 \<times> 'd ppc_state" where
  "ppc_ICE_read_byte bd a old s =
     (if a AND 0xFFFFF000 = 0xBFFFF000 then (old, s)
      else case ppc_read_effective_byte bd a old s of (None, s1) \<Rightarrow> (old, s1) | (Some v, s1) \<Rightarrow> (v, s1))"

definition ppc_machines :: "string option list" where
  "ppc_machines = [Some ''mpc8560'', Some ''mpc8572'', None]"

definition ppc_parse_mach :: "string \<Rightarrow> halt_reason + nat option" where
  "ppc_parse_mach p = scan_machines p ppc_machines 0"

end
