(* ===== verification/Mach_Mpc8572.thy ===== *)
theory Mach_Mpc8572
  imports Ppc_Step
begin

text \<open>
  The MPC8572 board of the e500 simulator (arch_ppc/mach/skyeye_mach_mpc8572.c, mpc8572_boot_linux.c): its
  registers, the first UART and its interrupt, the interrupts between the two cores, and the preparation for Linux.

  Of the host side of the UART the model keeps the bytes that wait and those written; the files of the boot are
  parameters. Registers that no function reads or writes are left out.
\<close>

subsection \<open>State\<close>

record std_16550_uart =
  u_rbr :: u32
  u_iir :: u32
  u_ier :: u32
  u_dmb :: u32
  u_fcr :: u32
  u_afr :: u32
  u_lcr :: u32
  u_lsr :: u32
  u_mcr :: u32
  u_msr :: u32
  u_scr :: u32

record mpc8572_io =
  lawbar :: "nat \<Rightarrow> u32"
  lawar :: "nat \<Rightarrow> u32"
  lb_br :: "nat \<Rightarrow> u32"
  lb_lcrr :: u32
  m_sccr :: u32
  porpllsr :: u32
  pordevsr :: u32
  i2cadr :: u32
  i2ccr :: u32
  i2csr :: u32
  i2cdr :: u32
  i2cfdr :: u32
  i2cdfsrr :: u32
  ddrdllcr :: u32
  err_disable :: u32
  satr0 :: u32
  l2ctl :: u32
  cfg_addr :: u32
  cfg_data :: u32
  pci_atmu :: "nat \<Rightarrow> u32"
  pg_gcr :: u32
  pg_frr :: u32
  pg_tfrr :: u32
  gtdr :: "nat \<Rightarrow> u32"
  gtvpr :: "nat \<Rightarrow> u32"
  pg_svr :: u32
  pg_iack :: u32
  pr_eivpr :: "nat \<Rightarrow> u32"
  pr_eidr :: "nat \<Rightarrow> u32"
  ctpr0 :: u32
  ctpr1 :: u32
  pr_iivpr :: "nat \<Rightarrow> u32"
  pr_iidr :: "nat \<Rightarrow> u32"
  eoi0 :: u32
  eoi1 :: u32
  pc_iack :: "nat \<Rightarrow> u32"
  ipivpr :: "nat \<Rightarrow> u32"
  ipidr :: "nat \<Rightarrow> u32"
  mp_iivpr :: "nat \<Rightarrow> u32"
  mp_iidr :: "nat \<Rightarrow> u32"
  muart :: "nat \<Rightarrow> std_16550_uart"
  muart_in :: "u8 list"
  muart_out :: "u8 list"

type_synonym mpc_state = "mpc8572_io ppc_state"

definition UART_IRQ :: nat where "UART_IRQ = 26"

definition upd_io :: "(mpc8572_io \<Rightarrow> mpc8572_io) \<Rightarrow> mpc_state \<Rightarrow> mpc_state" where
  "upd_io f s = s\<lparr>pdev := f (pdev s)\<rparr>"

definition upd_uart :: "nat \<Rightarrow> (std_16550_uart \<Rightarrow> std_16550_uart) \<Rightarrow> mpc_state \<Rightarrow> mpc_state" where
  "upd_uart k f = upd_io (\<lambda>d. d\<lparr>muart := (muart d)(k := f (muart d k))\<rparr>)"

definition io_exit :: "mpc_state \<Rightarrow> u32 \<times> mpc_state" where
  "io_exit s = (0, ppc_halt Skyeye_exit s)"

subsection \<open>UART\<close>

definition mpc_uart_poll :: "mpc8572_io \<Rightarrow> mpc8572_io" where
  "mpc_uart_poll d0 =
     (let u = muart d0 0 in
      if u_iir u AND 1 = 0 then d0
      else
        let u1 = (if u_ier u AND 2 \<noteq> 0 then u\<lparr>u_iir := (u_iir u AND 0xf0) OR 2, u_lsr := u_lsr u OR 0x60\<rparr> else u);
            d = d0\<lparr>muart := (muart d0)(0 := u1)\<rparr>
        in if u_ier u1 AND 1 = 0 then d
           else case muart_in d of
             [] \<Rightarrow> d
           | c # cs \<Rightarrow> d\<lparr>muart := (muart d)(0 := u1\<lparr>u_rbr := ucast c, u_lsr := u_lsr u1 OR 1, u_iir := (u_iir u1 AND 0xf0) OR 4\<rparr>),
                         muart_in := cs\<rparr>)"

text \<open>
  The interrupt goes to core 0. The acknowledge register is first given a value from behind the array
  \<^verbatim>\<open>ipivpr\<close>, but set to 0x2a in the next statement.
\<close>

definition uart_interrupt :: "mpc_state \<Rightarrow> mpc_state" where
  "uart_interrupt s =
     (let d = pdev s; c = cores s 0; u = muart d 0 in
      if mp_iivpr d UART_IRQ AND 0x80000000 = 0 \<and> emsr c AND 0x8000 \<noteq> 0 \<and> eipr c AND push_bit UART_IRQ 1 = 0
         \<and> u_iir u AND 1 = 0 \<and> u_ier u AND 3 \<noteq> 0
      then ppc_exception 0 EXT_INT 0 0
             (upd_core_of 0 (\<lambda>c. c\<lparr>eipr := eipr c OR push_bit UART_IRQ 1, eipi_flag := 1\<rparr>)
               (upd_io (\<lambda>d. d\<lparr>mp_iivpr := (mp_iivpr d)(UART_IRQ := mp_iivpr d UART_IRQ OR 0x40000000),
                              pc_iack := (pc_iack d)(0 := 0x2a)\<rparr>) s))
      else s)"

definition mpc8572_io_do_cycle :: "mpc_state \<Rightarrow> mpc_state" where
  "mpc8572_io_do_cycle s = uart_interrupt (upd_io mpc_uart_poll s)"

subsection \<open>Reads\<close>

definition mpc8572_io_read_byte :: "u32 \<Rightarrow> mpc_state \<Rightarrow> u32 \<times> mpc_state" where
  "mpc8572_io_read_byte off s =
     (let d = pdev s; u0 = muart d 0; u1 = muart d 1 in
      if 0x919C0 \<le> off \<and> off \<le> 0x919E0 then io_exit s
      else if 0xE0000 \<le> off \<and> off \<le> 0xE0020 then (if off = 0xE0000 then (porpllsr d, s) else io_exit s)
      else if off = 0 then (ccsr s, s)
      else if off = 0x90C80 then (m_sccr d, s)
      else if off = 0x300C then (i2csr d, s)
      else if off = 0x8006 then (cfg_data d, s)
      else if off = 0x4500 then (u_rbr u0, upd_uart 0 (\<lambda>u. u\<lparr>u_lsr := u_lsr u AND NOT 1\<rparr>) s)
      else if off = 0x4501 then (if u_lcr u0 AND 0x80 \<noteq> 0 then u_dmb u0 else u_ier u0, s)
      else if off = 0x4502 then
        (if u_lcr u0 AND 0x80 \<noteq> 0 then (u_afr u0, s)
         else (u_iir u0, upd_uart 0 (\<lambda>u. u\<lparr>u_iir := (u_iir u AND 0xf0) OR 1\<rparr>) s))
      else if off = 0x4503 then (u_lcr u0, s)
      else if off = 0x4504 then (u_mcr u0, s)
      else if off = 0x4505 then (u_lsr u0, s)
      else if off = 0x4506 then (u_msr u0, s)
      else if off = 0x4507 then (u_scr u0, s)
      else if off = 0x4600 then (u_rbr u1, s)
      else if off = 0x4601 then (if u_lcr u1 AND 0x80 \<noteq> 0 then u_dmb u1 else u_ier u1, s)
      else if off = 0x4602 then (if u_lcr u1 AND 0x80 \<noteq> 0 then u_afr u1 else u_iir u1, s)
      else if off = 0x4603 then (u_lcr u1, s)
      else if off = 0x4604 then (u_mcr u1, s)
      else if off = 0x4607 then (u_scr u1, s)
      else (0, s))"

definition mpc8572_io_read_halfword :: "u32 \<Rightarrow> mpc_state \<Rightarrow> u32 \<times> mpc_state" where
  "mpc8572_io_read_halfword off s =
     (let d = pdev s in
      if 0x919C0 \<le> off \<and> off \<le> 0x919E0 then io_exit s
      else if 0xE0000 \<le> off \<and> off \<le> 0xE0020 then (if off = 0xE0000 then (porpllsr d, s) else io_exit s)
      else if off = 0 then (ccsr s, s)
      else if off = 0x90C80 then (m_sccr d, s)
      else if off = 0x8004 \<or> off = 0x8006 then (cfg_data d, s)
      else (0, s))"

text \<open>The registers of the interrupt controller, with the two arrays of eleven entries that are indexed up to 11.\<close>

definition ext_int_access :: "u32 \<Rightarrow> nat" where
  "ext_int_access off = unat (drop_bit 4 (off - 0x50000))"

definition int_int_access :: "u32 \<Rightarrow> nat" where
  "int_int_access off = unat (drop_bit 4 (off - 0x50200))"

definition read_pic_global :: "u32 \<Rightarrow> mpc8572_io \<Rightarrow> u32 option" where
  "read_pic_global off d =
     (if off = 0x400a0 then Some (pg_iack d)
      else if off = 0x41000 then Some (pg_frr d)
      else if off = 0x41020 then Some (pg_gcr d AND NOT 0x80000000)
      else if off \<in> {0x410a0, 0x410b0, 0x410c0, 0x410d0} then Some (ipivpr d (unat (drop_bit 4 (off - 0x410a0))))
      else if off = 0x410e0 then Some (pg_svr d)
      else if off = 0x410f0 then Some (pg_tfrr d)
      else if off = 0x41120 then Some (gtvpr d 0)
      else if off = 0x41160 then Some (gtvpr d 1)
      else if off = 0x41170 then Some (gtdr d 1)
      else if off = 0x411a0 then Some (gtvpr d 2)
      else if off = 0x411B0 then Some (gtdr d 2)
      else if off = 0x411E0 then Some (gtvpr d 3)
      else None)"

definition read_pic :: "u32 \<Rightarrow> mpc_state \<Rightarrow> u32 \<times> mpc_state" where
  "read_pic off s =
     (let d = pdev s in
      case read_pic_global off d of
        Some v \<Rightarrow> (v, s)
      | None \<Rightarrow>
          if 0x50000 \<le> off \<and> off \<le> 0x50170 then
            (let i = ext_int_access off
             in (if odd i then pr_eidr d (i div 2) else pr_eivpr d (i div 2), if i div 2 < 11 then s else ppc_halt Out_of_bounds s))
          else if 0x50200 \<le> off \<and> off \<le> 0x509F0 then
            (let i = int_int_access off in (if odd i then mp_iidr d (i div 2) else mp_iivpr d (i div 2), s))
          else if off = 0x60080 then (ctpr0 d, s)
          else if off = 0x60090 then (0, s)
          else if off = 0x61090 then (1, s)
          else if off = 0x600a0 then (pc_iack d 0, s)
          else if off = 0x610a0 then (pc_iack d 1, s)
          else (0, s))"

definition mpc8572_io_read_word :: "u32 \<Rightarrow> mpc_state \<Rightarrow> u32 \<times> mpc_state" where
  "mpc8572_io_read_word off s =
     (let d = pdev s in
      if 0x919C0 \<le> off \<and> off \<le> 0x919E0 then io_exit s
      else if 0x2000 \<le> off \<and> off \<le> 0x2E58 then (if off = 0x2E44 then (err_disable d, s) else io_exit s)
      else if 0x40000 \<le> off \<and> off \<le> 0x7FFF0 then read_pic off s
      else if 0x21100 \<le> off \<and> off \<le> 0x21300 then (if off = 0x21110 \<or> off = 0x21118 then satr0 d else 0, s)
      else if 0x90D00 \<le> off \<and> off \<le> 0x90D70 then (0, s)
      else if 0xE0000 \<le> off \<and> off \<le> 0xE0020 then
        (if off = 0xE0000 then (porpllsr d, s) else if off = 0xE000C then (pordevsr d, s) else io_exit s)
      else if off = 0 then (ccsr s, s)
      else if off = 0x20 then (bptr s, s)
      else if off = 0x1010 then (eebpcr s, s)
      else if off = 0xC28 then (lawbar d 1, s)
      else if off = 0xC30 then (lawar d 1, s)
      else if off = 0x90C80 then (m_sccr d, s)
      else if off = 0xe0e10 then (ddrdllcr d, s)
      else if off = 0x50D4 then (lb_lcrr d, s)
      else if off = 0x20000 then (l2ctl d, s)
      else if off = 0x8004 then (cfg_data d, s)
      else (0, s))"

subsection \<open>Writes\<close>

definition write_law :: "u32 \<Rightarrow> u32 \<Rightarrow> mpc_state \<Rightarrow> mpc_state" where
  "write_law off v =
     upd_io (\<lambda>d. if off AND 8 \<noteq> 0 then d\<lparr>lawbar := (lawbar d)(unat ((off - 0xC08) div 0x20) := v)\<rparr>
                 else d\<lparr>lawar := (lawar d)(unat ((off - 0xC10) div 0x20) := v)\<rparr>)"

definition uart_write_byte :: "nat \<Rightarrow> u32 \<Rightarrow> u32 \<Rightarrow> mpc_state \<Rightarrow> mpc_state" where
  "uart_write_byte k r v =
     upd_uart k (\<lambda>u.
       if r = 1 then if u_lcr u AND 0x80 \<noteq> 0 then u\<lparr>u_dmb := v\<rparr> else u\<lparr>u_ier := v\<rparr>
       else if r = 2 then if u_lcr u AND 0x80 \<noteq> 0 then u\<lparr>u_afr := v\<rparr> else u\<lparr>u_fcr := v\<rparr>
       else if r = 3 then u\<lparr>u_lcr := v\<rparr> else if r = 4 then u\<lparr>u_mcr := v\<rparr> else u\<lparr>u_scr := v\<rparr>)"

definition mpc8572_io_write_byte :: "u32 \<Rightarrow> u32 \<Rightarrow> mpc_state \<Rightarrow> mpc_state" where
  "mpc8572_io_write_byte off v s =
     (if 0xC08 \<le> off \<and> off \<le> 0xCF0 then write_law off v s
      else if off = 0 then s\<lparr>ccsr := v\<rparr>
      else if off = 0x3000 then upd_io (\<lambda>d. d\<lparr>i2cadr := v\<rparr>) s
      else if off = 0x3004 then upd_io (\<lambda>d. d\<lparr>i2cfdr := v\<rparr>) s
      else if off = 0x3008 then upd_io (\<lambda>d. d\<lparr>i2ccr := v\<rparr>) s
      else if off = 0x300C then upd_io (\<lambda>d. d\<lparr>i2csr := v\<rparr>) s
      else if off = 0x3010 then upd_io (\<lambda>d. d\<lparr>i2cdr := v, i2csr := i2csr d OR 2\<rparr>) s
      else if off = 0x3014 then upd_io (\<lambda>d. d\<lparr>i2cdfsrr := v\<rparr>) s
      else if off = 0x8004 \<or> off = 0x8005 then upd_io (\<lambda>d. d\<lparr>cfg_data := v\<rparr>) s
      else if off = 0x4500 then
        upd_uart 0 (\<lambda>u. u\<lparr>u_lsr := u_lsr u OR 0x60\<rparr>) (upd_io (\<lambda>d. d\<lparr>muart_out := muart_out d @ [ucast v]\<rparr>) s)
      else if off \<in> {0x4501, 0x4502, 0x4503, 0x4504, 0x4507} then uart_write_byte 0 (off - 0x4500) v s
      else if off \<in> {0x4601, 0x4602, 0x4603, 0x4604, 0x4607} then uart_write_byte 1 (off - 0x4600) v s
      else s)"

definition mpc8572_io_write_halfword :: "u32 \<Rightarrow> u32 \<Rightarrow> mpc_state \<Rightarrow> mpc_state" where
  "mpc8572_io_write_halfword off v s =
     (if 0xC08 \<le> off \<and> off \<le> 0xCF0 then write_law off v s
      else if 0x5000 \<le> off \<and> off \<le> 0x5038 then upd_io (\<lambda>d. d\<lparr>lb_br := (lb_br d)(unat ((off - 0x5000) div 8) := v)\<rparr>) s
      else if 0x91A00 \<le> off \<and> off \<le> 0x91A3F then ppc_halt Skyeye_exit s
      else if 0x80000 \<le> off \<and> off < 0x8C000 then s
      else if off = 0 then s\<lparr>ccsr := v\<rparr>
      else if off = 0x90C80 then upd_io (\<lambda>d. d\<lparr>m_sccr := v\<rparr>) s
      else if off = 0x8004 \<or> off = 0x8006 then upd_io (\<lambda>d. d\<lparr>cfg_data := v\<rparr>) s
      else s)"

definition write_pic_global :: "u32 \<Rightarrow> u32 \<Rightarrow> mpc8572_io \<Rightarrow> mpc8572_io" where
  "write_pic_global off v d =
     (if off \<in> {0x410a0, 0x410b0, 0x410c0, 0x410d0} then d\<lparr>ipivpr := (ipivpr d)(unat (drop_bit 4 (off - 0x410a0)) := v)\<rparr>
      else if off = 0x41020 then d\<lparr>pg_gcr := v\<rparr>
      else if off = 0x410e0 then d\<lparr>pg_svr := v\<rparr>
      else if off = 0x41120 then d\<lparr>gtvpr := (gtvpr d)(0 := v)\<rparr>
      else if off = 0x41130 then d\<lparr>gtdr := (gtdr d)(0 := v)\<rparr>
      else if off = 0x41160 then d\<lparr>gtvpr := (gtvpr d)(1 := v)\<rparr>
      else if off = 0x41170 then d\<lparr>gtdr := (gtdr d)(1 := v)\<rparr>
      else if off = 0x411a0 then d\<lparr>gtvpr := (gtvpr d)(2 := v)\<rparr>
      else if off = 0x411B0 then d\<lparr>gtdr := (gtdr d)(2 := v)\<rparr>
      else if off = 0x411E0 then d\<lparr>gtvpr := (gtvpr d)(3 := v)\<rparr>
      else if off = 0x411F0 then d\<lparr>gtdr := (gtdr d)(3 := v)\<rparr>
      else d)"

definition write_pic_ram :: "u32 \<Rightarrow> u32 \<Rightarrow> mpc_state \<Rightarrow> mpc_state" where
  "write_pic_ram off v s =
     (if 0x50000 \<le> off \<and> off \<le> 0x50170 then
        let i = ext_int_access off in
        if 11 \<le> i div 2 then ppc_halt Out_of_bounds s
        else upd_io (\<lambda>d. if odd i then d\<lparr>pr_eidr := (pr_eidr d)(i div 2 := v)\<rparr> else d\<lparr>pr_eivpr := (pr_eivpr d)(i div 2 := v)\<rparr>) s
      else if 0x50200 \<le> off \<and> off \<le> 0x509F0 then
        let i = int_int_access off
        in upd_io (\<lambda>d. if odd i then d\<lparr>mp_iidr := (mp_iidr d)(i div 2 := v)\<rparr> else d\<lparr>mp_iivpr := (mp_iivpr d)(i div 2 := v)\<rparr>) s
      else s)"

text \<open>A write to the dispatch register interrupts core 1 if bit 1 is set, else core 0 if bit 0 is set.\<close>

definition send_ipi :: "u32 \<Rightarrow> mpc_state \<Rightarrow> mpc_state" where
  "send_ipi v s0 =
     (let s = upd_io (\<lambda>d. d\<lparr>ipidr := (ipidr d)(0 := v)\<rparr>) s0; k = (if v AND 2 \<noteq> 0 then 1 else 0) in
      if v AND 3 = 0 then s
      else
        let s1 = upd_core_of k (\<lambda>c. c\<lparr>eipr := eipr c OR 1\<rparr>) s;
            s2 = upd_io (\<lambda>d. let p = ipivpr d 0 OR 0x40000000
                   in d\<lparr>ipivpr := (ipivpr d)(0 := p), pc_iack := (pc_iack d)(k := (pc_iack d k AND 0xFFFF0000) OR (p AND 0xFFFF))\<rparr>) s1
        in upd_core_of k (\<lambda>c. c\<lparr>eipi_flag := 1\<rparr>) (ppc_exception k EXT_INT 0 0 s2))"

definition write_percpu :: "u32 \<Rightarrow> u32 \<Rightarrow> mpc_state \<Rightarrow> mpc_state" where
  "write_percpu off v s =
     (if off = 0x60040 then send_ipi v s
      else if off = 0x60080 then upd_io (\<lambda>d. d\<lparr>ctpr0 := v\<rparr>) s
      else if off = 0x600b0 then
        upd_core (\<lambda>c. c\<lparr>eipr := eipr c AND NOT (push_bit UART_IRQ 1)\<rparr>) (upd_io (\<lambda>d. d\<lparr>eoi0 := v\<rparr>) s)
      else if off = 0x61080 then upd_io (\<lambda>d. d\<lparr>ctpr1 := v\<rparr>) s
      else if off = 0x610b0 then upd_io (\<lambda>d. d\<lparr>eoi1 := v\<rparr>) s
      else s)"

definition mpc8572_io_write_word :: "u32 \<Rightarrow> u32 \<Rightarrow> mpc_state \<Rightarrow> mpc_state" where
  "mpc8572_io_write_word off v s =
     (if 0xC08 \<le> off \<and> off \<le> 0xCF0 then write_law off v s
      else if 0x2000 \<le> off \<and> off \<le> 0x2E58 then
        (if off = 0x2E44 then upd_io (\<lambda>d. d\<lparr>err_disable := v\<rparr>) s else ppc_halt Skyeye_exit s)
      else if 0x5000 \<le> off \<and> off \<le> 0x50D4 then
        (if off \<le> 0x5038 then upd_io (\<lambda>d. d\<lparr>lb_br := (lb_br d)(unat ((off - 0x5000) div 8) := v)\<rparr>) s else s)
      else if 0x21100 \<le> off \<and> off \<le> 0x21300 then
        (if off = 0x21110 \<or> off = 0x21118 then upd_io (\<lambda>d. d\<lparr>satr0 := v\<rparr>) s else s)
      else if 0x40000 \<le> off \<and> off \<le> 0x4FFF0 then upd_io (write_pic_global off v) s
      else if 0x50000 \<le> off \<and> off \<le> 0x5FFF0 then write_pic_ram off v s
      else if 0x60000 \<le> off \<and> off \<le> 0x7FFF0 then write_percpu off v s
      else if 0x90C00 \<le> off \<and> off \<le> 0x90C7F then s
      else if 0x919C0 \<le> off \<and> off \<le> 0x919E0 then s
      else if 0x91A00 \<le> off \<and> off \<le> 0x91A3F then ppc_halt Skyeye_exit s
      else if 0x91B00 \<le> off \<and> off \<le> 0x91B1F then ppc_halt Skyeye_exit s
      else if 0x90D00 \<le> off \<and> off \<le> 0x90D70 then s
      else if 0x8C00 \<le> off \<and> off \<le> 0x8DFC then
        (if off \<in> {0x8C20, 0x8C24, 0x8C28, 0x8C2C, 0x8C30}
         then upd_io (\<lambda>d. d\<lparr>pci_atmu := (pci_atmu d)(unat ((off - 0x8C20) div 4) := v)\<rparr>) s else s)
      else if off = 0 then s\<lparr>ccsr := v\<rparr>
      else if off = 0x20 then s\<lparr>bptr := v\<rparr>
      else if off = 0x1010 then
        let s1 = s\<lparr>eebpcr := v\<rparr> in if v AND 0x2000000 \<noteq> 0 then upd_core_of 1 (\<lambda>c. c\<lparr>epc := 0xFFFFF000\<rparr>) s1 else s1
      else if off = 0x90C80 then upd_io (\<lambda>d. d\<lparr>m_sccr := v\<rparr>) s
      else if off = 0x3008 then upd_io (\<lambda>d. d\<lparr>i2ccr := v\<rparr>) s
      else if off = 0xe0e10 then upd_io (\<lambda>d. d\<lparr>ddrdllcr := v\<rparr>) s
      else if off = 0x8000 then upd_io (\<lambda>d. d\<lparr>cfg_addr := v\<rparr>) s
      else if off = 0x8004 then upd_io (\<lambda>d. d\<lparr>cfg_data := v\<rparr>) s
      else s)"

subsection \<open>Boot (mpc8572_boot_linux.c)\<close>

definition initrd_start :: nat where "initrd_start = 32 * 1024 * 1024"
definition initrd_size :: nat where "initrd_size = 1024 * 1024"
definition bd_start :: nat where "bd_start = 8 * 1024 * 1024"
definition bootcmd_start :: nat where "bootcmd_start = 9 * 1024 * 1024"
definition DT_STRUCT_SIZE :: nat where "DT_STRUCT_SIZE = 8 * 1024"
definition bootcmd :: string where "bootcmd = ''root=/dev/ram0 console=ttyS0 mem=64M''"

definition load_file :: "u8 list option \<Rightarrow> nat \<Rightarrow> nat \<Rightarrow> mpc_state \<Rightarrow> mpc_state" where
  "load_file f a n s =
     (case f of None \<Rightarrow> ppc_halt Skyeye_exit s | Some bs \<Rightarrow> s\<lparr>ddr_ram := put_bytes a (take n bs) (ddr_ram s)\<rparr>)"

definition load_initrd :: "u8 list option \<Rightarrow> mpc_state \<Rightarrow> mpc_state" where
  "load_initrd f = load_file f initrd_start initrd_size"

definition setup_boot_param :: "u8 list option \<Rightarrow> mpc_state \<Rightarrow> mpc_state" where
  "setup_boot_param f s0 =
     (let s = load_file f bd_start DT_STRUCT_SIZE s0
      in s\<lparr>ddr_ram := put_bytes bootcmd_start (map of_char bootcmd @ [0]) (ddr_ram s)\<rparr>)"

definition set_boot_param :: "e500_core \<Rightarrow> e500_core" where
  "set_boot_param c = c\<lparr>egpr := (egpr c)(3 := of_nat bd_start, 4 := of_nat initrd_start, 5 := of_nat (initrd_start + initrd_size),
     6 := of_nat bootcmd_start, 7 := of_nat (bootcmd_start + length bootcmd + 1))\<rparr>"

definition setup_boot_map :: "e500_mmu \<Rightarrow> e500_mmu" where
  "setup_boot_map m = m\<lparr>tlb1 := (tlb1 m)(0 := \<lparr>t_v = 1, t_ts = 0, t_tid = 0, t_epn = 0xC0000, t_rpn = 0, t_size = 7,
     t_usxrw = 0x15, t_wimge = 8, t_x = 0, t_u = 0, t_iprot = 1\<rparr>)\<rparr>"

definition boot_core :: "e500_core \<Rightarrow> e500_core" where
  "boot_core c = (set_boot_param c)\<lparr>emmu := setup_boot_map (emmu c)\<rparr>"

definition mpc8572_boot_linux :: "u8 list option \<Rightarrow> u8 list option \<Rightarrow> mpc_state \<Rightarrow> mpc_state" where
  "mpc8572_boot_linux initrd dtb s0 =
     (let s = setup_boot_param dtb (load_initrd initrd s0)
      in s\<lparr>cores := \<lambda>k. if k < core_num s then boot_core (cores s k) else cores s k, ccsr := 0xFFE00\<rparr>)"

text \<open>The reset masks the interrupts in \<^verbatim>\<open>pic_ram\<close>, the registers that the UART looks at are in \<^verbatim>\<open>mpic\<close>.\<close>

definition reset_io :: "mpc8572_io \<Rightarrow> mpc8572_io" where
  "reset_io d = d\<lparr>pg_frr := 0x6b0102, porpllsr := 0x40004, lb_lcrr := 0x80000008, i2csr := 0x81, i2cdfsrr := 0x10,
     ctpr0 := 0xF, pg_svr := 0xFFFF, ipivpr := \<lambda>i. if i < 4 then 0x80000000 else ipivpr d i,
     muart := (muart d)(0 := (muart d 0)\<lparr>u_ier := 0, u_iir := 1\<rparr>),
     pr_iidr := \<lambda>i. if i < 32 then 1 else pr_iidr d i, pr_iivpr := \<lambda>i. if i < 32 then 0x80800000 else pr_iivpr d i\<rparr>"

definition mpc8572_io_reset :: "u8 list option \<Rightarrow> u8 list option \<Rightarrow> mpc_state \<Rightarrow> mpc_state" where
  "mpc8572_io_reset initrd dtb s = mpc8572_boot_linux initrd dtb (upd_io reset_io s)"

definition mpc8572_mach_init :: "mpc_state \<Rightarrow> mpc_state" where
  "mpc8572_mach_init s = s\<lparr>core_num := 2\<rparr>"

definition mpc8572_board :: "u8 list option \<Rightarrow> u8 list option \<Rightarrow> mpc8572_io ppc_board" where
  "mpc8572_board initrd dtb = \<lparr>
     bd_read_byte = mpc8572_io_read_byte,
     bd_read_half = mpc8572_io_read_halfword,
     bd_read_word = mpc8572_io_read_word,
     bd_write_byte = mpc8572_io_write_byte,
     bd_write_half = mpc8572_io_write_halfword,
     bd_write_word = mpc8572_io_write_word,
     bd_io_reset = mpc8572_io_reset initrd dtb,
     bd_do_cycle = mpc8572_io_do_cycle\<rparr>"

end
