(* ===== verification/Mips_State.thy ===== *)
theory Mips_State
  imports Bus
begin

text \<open>
  The state of the MIPS R3000 simulator and what its parts share (arch_mips/common: inttypes.h,
  cpu.h, emul.h, emul.c, exception.c, interrupt.c, mips_arch_interface.c): bit fields, registers of
  coprocessor 0, processor modes, exceptions and access to memory.

  A pointer to a TLB entry is its index in the array. The global \<^verbatim>\<open>mstate\<close> and the argument of the
  same name are one state. Memory is the bus of src/memory; output is left out.
\<close>

subsection \<open>Bit fields (inttypes.h)\<close>

text \<open>The macros compute on 64 bits; their callers narrow the result.\<close>

definition mips_bits :: "u64 \<Rightarrow> nat \<Rightarrow> nat \<Rightarrow> u64" where
  "mips_bits x n m = drop_bit (63 - n + m) (push_bit (63 - n) x)"

definition mips_bitsmask :: "nat \<Rightarrow> nat \<Rightarrow> u64" where
  "mips_bitsmask n m = drop_bit (63 - n) (push_bit (63 - n + m) (drop_bit m (NOT 0)))"

definition mips_clear_bits :: "u64 \<Rightarrow> nat \<Rightarrow> nat \<Rightarrow> u64" where
  "mips_clear_bits x n m = x AND NOT (mips_bitsmask n m)"

definition mips_set_bits :: "u64 \<Rightarrow> nat \<Rightarrow> nat \<Rightarrow> u64" where
  "mips_set_bits x n m = x OR mips_bitsmask n m"

definition copy_bits :: "u64 \<Rightarrow> u64 \<Rightarrow> nat \<Rightarrow> nat \<Rightarrow> u64" where
  "copy_bits x y n m = mips_clear_bits x n m OR push_bit m (mips_bits y (n - m) 0)"

text \<open>The macros on 32-bit operands with a 32-bit result.\<close>

definition bits32 :: "u32 \<Rightarrow> nat \<Rightarrow> nat \<Rightarrow> u32" where
  "bits32 x n m = ucast (mips_bits (ucast x) n m)"

definition copy_bits32 :: "u32 \<Rightarrow> u32 \<Rightarrow> nat \<Rightarrow> nat \<Rightarrow> u32" where
  "copy_bits32 x y n m = ucast (copy_bits (ucast x) (ucast y) n m)"

definition bitmask :: "nat \<Rightarrow> u32" where
  "bitmask n = push_bit n 1"

definition mips_bit :: "u32 \<Rightarrow> nat \<Rightarrow> u32" where
  "mips_bit x n = drop_bit n x AND 1"

definition mips_set_bit :: "u32 \<Rightarrow> nat \<Rightarrow> u32" where
  "mips_set_bit x n = x OR bitmask n"

definition mips_clear_bit :: "u32 \<Rightarrow> nat \<Rightarrow> u32" where
  "mips_clear_bit x n = x AND NOT (bitmask n)"

definition sign_extend_UInt32 :: "u32 \<Rightarrow> nat \<Rightarrow> u32" where
  "sign_extend_UInt32 x n =
     (if n < 32 then
        if mips_bit x (n - 1) \<noteq> 0 then ucast (mips_set_bits (ucast x) 31 n)
        else ucast (mips_clear_bits (ucast x) 31 n)
      else 0)"

subsection \<open>Registers of coprocessor 0 (cpu.h)\<close>

definition Index :: nat where "Index = 0"
definition Random :: nat where "Random = 1"
definition EntryLo0 :: nat where "EntryLo0 = 2"
definition EntryLo1 :: nat where "EntryLo1 = 3"
definition Context :: nat where "Context = 4"
definition Wired :: nat where "Wired = 6"
definition BadVAddr :: nat where "BadVAddr = 8"
definition Count :: nat where "Count = 9"
definition EntryHi :: nat where "EntryHi = 10"
definition Compare :: nat where "Compare = 11"
definition SR :: nat where "SR = 12"
definition Cause :: nat where "Cause = 13"
definition EPC :: nat where "EPC = 14"
definition PRId :: nat where "PRId = 15"
definition Config :: nat where "Config = 16"

lemmas cp0_numbers = Index_def Random_def EntryLo0_def EntryLo1_def Context_def Wired_def BadVAddr_def
  Count_def EntryHi_def Compare_def SR_def Cause_def EPC_def PRId_def Config_def

definition EntryLo_G :: nat where "EntryLo_G = 8"
definition SR_IEC :: nat where "SR_IEC = 0"
definition SR_IM7 :: nat where "SR_IM7 = 15"
definition SR_BEV :: nat where "SR_BEV = 22"
definition SR_CU0 :: nat where "SR_CU0 = 28"
definition SR_CU1 :: nat where "SR_CU1 = 29"
definition Cause_IP0 :: nat where "Cause_IP0 = 8"
definition Cause_IP1 :: nat where "Cause_IP1 = 9"
definition Cause_IP2 :: nat where "Cause_IP2 = 10"
definition Cause_IP7 :: nat where "Cause_IP7 = 15"
definition Cause_IP_First :: nat where "Cause_IP_First = 8"
definition Cause_CE_First :: nat where "Cause_CE_First = 28"
definition Cause_BD :: nat where "Cause_BD = 31"

lemmas cp0_fields = EntryLo_G_def SR_IEC_def SR_IM7_def SR_BEV_def SR_CU0_def SR_CU1_def Cause_IP0_def
  Cause_IP1_def Cause_IP2_def Cause_IP7_def Cause_IP_First_def Cause_CE_First_def Cause_BD_def

definition EXC_Int :: u32 where "EXC_Int = 0"
definition EXC_Mod :: u32 where "EXC_Mod = 4"
definition EXC_TLBL :: u32 where "EXC_TLBL = 8"
definition EXC_TLBS :: u32 where "EXC_TLBS = 12"
definition EXC_AdEL :: u32 where "EXC_AdEL = 16"
definition EXC_AdES :: u32 where "EXC_AdES = 20"
definition EXC_IBE :: u32 where "EXC_IBE = 24"
definition EXC_DBE :: u32 where "EXC_DBE = 28"
definition EXC_Sys :: u32 where "EXC_Sys = 32"
definition EXC_Bp :: u32 where "EXC_Bp = 36"
definition EXC_RI :: u32 where "EXC_RI = 40"
definition EXC_CpU :: u32 where "EXC_CpU = 44"
definition EXC_Ov :: u32 where "EXC_Ov = 48"
definition EXC_Tr :: u32 where "EXC_Tr = 52"
definition EXC_FPE :: u32 where "EXC_FPE = 60"

lemmas exc_codes = EXC_Int_def EXC_Mod_def EXC_TLBL_def EXC_TLBS_def EXC_AdEL_def EXC_AdES_def EXC_IBE_def
  EXC_DBE_def EXC_Sys_def EXC_Bp_def EXC_RI_def EXC_CpU_def EXC_Ov_def EXC_Tr_def EXC_FPE_def

definition kseg1 :: u32 where "kseg1 = 0xA0000000"
definition kseg0 :: u32 where "kseg0 = 0x80000000"
definition kuseg :: u32 where "kuseg = 0"
definition reset_vector_base :: u32 where "reset_vector_base = 0xBFC00000"
definition general_vector_base :: u32 where "general_vector_base = 0x80000000"
definition boot_vector_base :: u32 where "boot_vector_base = 0x80000000"
definition reset_vector :: u32 where "reset_vector = 0"
definition tlb_refill_vector :: u32 where "tlb_refill_vector = 0"
definition common_vector :: u32 where "common_vector = 0x180"

lemmas mips_layout = kseg1_def kseg0_def kuseg_def reset_vector_base_def general_vector_base_def
  boot_vector_base_def reset_vector_def tlb_refill_vector_def common_vector_def

subsection \<open>Processor state (emul.h, cache.h)\<close>

text \<open>What the instruction in the pipeline is; \<^verbatim>\<open>decode\<close> returns one for the next instruction.\<close>

datatype mips_pipeline = nothing_special | branch_delay | instr_addr_error | branch_nodelay

datatype mips_access = instr_fetch | data_load | data_store | cache_op

definition bmode :: u8 where "bmode = 4"
definition rmode :: u8 where "rmode = 8"
definition umode :: u8 where "umode = 16"
definition kmode :: u8 where "kmode = 64"

lemmas mips_modes = bmode_def rmode_def umode_def kmode_def

definition cold_reset_event :: u16 where "cold_reset_event = 1"
definition soft_reset_event :: u16 where "soft_reset_event = 2"

definition tlb_size :: nat where "tlb_size = 48"
definition tlb_map_size :: nat where "tlb_map_size = 64"

record mips_tlb_entry =
  next_entry :: "nat option"
  prev_entry :: "nat option"
  entry_hi :: u32
  lo_reg :: "nat \<Rightarrow> u32"
  entry_index :: nat
  entry_hash :: nat

record mips_cache_line =
  line_tag :: u32
  line_state :: u32
  line_words :: "nat \<Rightarrow> u32"

record mips_cache_set =
  lru :: "nat \<Rightarrow> u8"
  set_line :: "nat \<Rightarrow> mips_cache_line"

record 'd mips_state =
  mpc :: u32
  gpr :: "nat \<Rightarrow> u32"
  fpr :: "nat \<Rightarrow> u32"
  fir :: u32
  cp0 :: "nat \<Rightarrow> u32"
  cp0_config1 :: u32
  cp1 :: "nat \<Rightarrow> u32"
  mhi :: u32
  mlo :: u32
  ll_bit :: int
  now :: u64
  warm :: bool
  nop_count :: int
  events :: u16
  mpipeline :: mips_pipeline
  mmode :: u8
  sync_bit :: int
  branch_target :: u32
  random_seed :: u64
  count_seed :: u64
  ibuf_tag :: "nat \<Rightarrow> u32"
  ibuf_line :: "nat \<Rightarrow> nat \<times> nat"
  lru_ibuf :: nat
  mtlb :: "nat \<Rightarrow> mips_tlb_entry"
  tlb_map :: "nat \<Rightarrow> nat option"
  micache :: "nat \<Rightarrow> mips_cache_set"
  mdcache :: "nat \<Rightarrow> mips_cache_set"
  bigendSig :: u32
  mirq_pending :: bool
  mjunk :: u32
  mbus :: "'d bus"

definition mips_halt :: "halt_reason \<Rightarrow> 'd mips_state \<Rightarrow> 'd mips_state" where
  "mips_halt h s = s\<lparr>mbus := bus_halt h (mbus s)\<rparr>"

definition set_gpr :: "nat \<Rightarrow> u32 \<Rightarrow> 'd mips_state \<Rightarrow> 'd mips_state" where
  "set_gpr r v s = s\<lparr>gpr := (gpr s)(r := v)\<rparr>"

definition set_cp0 :: "nat \<Rightarrow> u32 \<Rightarrow> 'd mips_state \<Rightarrow> 'd mips_state" where
  "set_cp0 r v s = s\<lparr>cp0 := (cp0 s)(r := v)\<rparr>"

subsection \<open>Modes (emul.c)\<close>

definition enter_kernel_mode :: "'d mips_state \<Rightarrow> 'd mips_state" where
  "enter_kernel_mode s = s\<lparr>mmode := kmode\<rparr>"

definition leave_kernel_mode :: "'d mips_state \<Rightarrow> 'd mips_state" where
  "leave_kernel_mode s =
     (let sr1 = copy_bits32 (cp0 s SR) (bits32 (cp0 s SR) 5 2) 3 0;
          sr2 = copy_bits32 sr1 (push_bit 4 (bits32 sr1 3 2)) 5 4;
          s1 = set_cp0 SR sr2 s
      in if mips_bit sr2 1 = 0 then s1\<lparr>mmode := mmode s1 OR kmode\<rparr> else s1\<lparr>mmode := umode\<rparr>)"

definition branch_delay_slot :: "'d mips_state \<Rightarrow> bool" where
  "branch_delay_slot s \<longleftrightarrow> mpipeline s = branch_delay"

definition big_endian_mem :: "'d mips_state \<Rightarrow> bool" where
  "big_endian_mem s \<longleftrightarrow> mips_bit (cp0 s Config) 15 \<noteq> 0"

definition reverse_endian :: "'d mips_state \<Rightarrow> bool" where
  "reverse_endian s \<longleftrightarrow> mmode s AND rmode \<noteq> 0"

definition big_endian_cpu :: "'d mips_state \<Rightarrow> bool" where
  "big_endian_cpu s \<longleftrightarrow> mmode s AND bmode \<noteq> 0"

definition allow_xinstr :: "'d mips_state \<Rightarrow> bool" where
  "allow_xinstr s \<longleftrightarrow> mmode s AND (kmode OR 1) \<noteq> 0"

definition vaddr_region :: "u32 \<Rightarrow> u32" where
  "vaddr_region va = bits32 va 31 29"

definition vaddr_compat_region :: "u32 \<Rightarrow> u32" where
  "vaddr_compat_region va = bits32 va 31 30"

definition asid_match :: "16 word \<Rightarrow> 16 word \<Rightarrow> bool" where
  "asid_match asid1 asid2 \<longleftrightarrow> sint (asid1 XOR asid2) \<le> 0"

definition va_match :: "u32 \<Rightarrow> u32 \<Rightarrow> bool" where
  "va_match va1 va2 \<longleftrightarrow> va1 XOR va2 = 0"

definition ibuf_match :: "u32 \<Rightarrow> u32 \<Rightarrow> bool" where
  "ibuf_match pa tag \<longleftrightarrow> (drop_bit 5 pa) XOR tag = 0"

definition swizzle_word :: "u32 \<Rightarrow> u32 \<Rightarrow> u32" where
  "swizzle_word x addr = x"

definition swizzle_byte :: "u32 \<Rightarrow> u32 \<Rightarrow> 'd mips_state \<Rightarrow> u8" where
  "swizzle_byte x addr s = ucast (drop_bit (unat (push_bit 3 ((bigendSig s * 3) XOR (addr AND 3)))) x AND 0xff)"

definition swizzle_doublebyte :: "u32 \<Rightarrow> u32 \<Rightarrow> 'd mips_state \<Rightarrow> u16" where
  "swizzle_doublebyte x addr s = ucast (drop_bit (unat (push_bit 3 ((bigendSig s * 2) XOR (addr AND 2)))) x AND 0xffff)"

subsection \<open>The Random register (emul.c)\<close>

text \<open>
  \<open>None\<close> where C leaves the value undefined: \<^verbatim>\<open>tlb_size - wired\<close> overflows an \<^verbatim>\<open>int\<close> or is the
  zero that the sum is divided by.
\<close>

definition get_random :: "'d mips_state \<Rightarrow> u32 option" where
  "get_random s =
     (let wired = sint (cp0 s Wired); free = int tlb_size - wired;
          sum = (word_of_int (int tlb_size - 1 - wired) :: u64) + (now s - random_seed s)
      in if free = 0 \<or> 2 ^ 31 \<le> free then None
         else Some (ucast (sum mod word_of_int free + word_of_int wired)))"

subsection \<open>Exceptions (exception.c, emul.c)\<close>

definition process_exception :: "u32 \<Rightarrow> u32 \<Rightarrow> 'd mips_state \<Rightarrow> 'd mips_state" where
  "process_exception cause vec s =
     (let exc_code = cause AND 0x7f;
          epc = (if \<not> branch_delay_slot s then mpc s else mpc s - 4);
          cause1 = (if \<not> branch_delay_slot s then cause else mips_set_bit cause Cause_BD);
          s1 = s\<lparr>now := now s + 5,
                 mpipeline := (if exc_code = EXC_Sys \<or> exc_code = EXC_TLBL \<or> exc_code = EXC_CpU \<or>
                                  exc_code = EXC_TLBS \<or> exc_code = EXC_Mod
                               then branch_nodelay else nothing_special)\<rparr>;
          s2 = set_cp0 Cause (cp0 s1 Cause AND 0xFFFFFF83) s1;
          s3 = set_cp0 EPC epc (set_cp0 Cause (cp0 s2 Cause OR cause1) s2);
          s4 = s3\<lparr>mpc := vec + (if mips_bit (cp0 s3 SR) SR_BEV \<noteq> 0 then general_vector_base else boot_vector_base)\<rparr>;
          s5 = set_cp0 SR (cp0 s4 SR OR 2) s4;
          s6 = set_cp0 SR (cp0 s5 SR AND 0xFFFFFFFD) s5
      in enter_kernel_mode s6)"

definition process_address_error :: "mips_access \<Rightarrow> u32 \<Rightarrow> 'd mips_state \<Rightarrow> 'd mips_state" where
  "process_address_error ty va s =
     process_exception (if ty = data_store then EXC_AdES else EXC_AdEL) common_vector (set_cp0 BadVAddr va s)"

text \<open>The registers of a TLB exception. In C \<^verbatim>\<open>va & 0xFFFFe000 >> 9\<close> masks with the shifted constant.\<close>

definition tlb_fault_regs :: "u32 \<Rightarrow> 'd mips_state \<Rightarrow> 'd mips_state" where
  "tlb_fault_regs va s =
     (let s1 = set_cp0 BadVAddr va s;
          s2 = set_cp0 Context ((va AND drop_bit 9 0xFFFFe000) OR (cp0 s1 Context AND 0x7FFFF0)) s1
      in set_cp0 EntryHi ((va AND 0xFFFFE000) OR (cp0 s2 EntryHi AND 0x1FFF)) s2)"

definition process_tlb_refill :: "mips_access \<Rightarrow> u32 \<Rightarrow> 'd mips_state \<Rightarrow> 'd mips_state" where
  "process_tlb_refill ty va s =
     process_exception (if ty = data_store then EXC_TLBS else EXC_TLBL) tlb_refill_vector (tlb_fault_regs va s)"

definition process_tlb_invalid :: "mips_access \<Rightarrow> u32 \<Rightarrow> 'd mips_state \<Rightarrow> 'd mips_state" where
  "process_tlb_invalid ty va s =
     process_exception (if ty = data_store then EXC_TLBS else EXC_TLBL) common_vector (tlb_fault_regs va s)"

definition process_tlb_modified :: "u32 \<Rightarrow> 'd mips_state \<Rightarrow> 'd mips_state" where
  "process_tlb_modified va s = process_exception EXC_Mod common_vector (tlb_fault_regs va s)"

definition process_bus_error :: "mips_access \<Rightarrow> 'd mips_state \<Rightarrow> 'd mips_state" where
  "process_bus_error ty s = process_exception (if ty = instr_fetch then EXC_IBE else EXC_DBE) common_vector s"

definition process_integer_overflow :: "'d mips_state \<Rightarrow> 'd mips_state" where
  "process_integer_overflow s = process_exception EXC_Ov common_vector s"

definition process_trap :: "'d mips_state \<Rightarrow> 'd mips_state" where
  "process_trap s = process_exception EXC_Tr common_vector s"

definition process_syscall :: "'d mips_state \<Rightarrow> 'd mips_state" where
  "process_syscall s = process_exception EXC_Sys common_vector s"

definition process_breakpoint :: "'d mips_state \<Rightarrow> 'd mips_state" where
  "process_breakpoint s = process_exception EXC_Bp common_vector s"

text \<open>The simulator exits before the exception is raised.\<close>

definition process_reserved_instruction :: "'d mips_state \<Rightarrow> 'd mips_state" where
  "process_reserved_instruction s = process_exception EXC_RI common_vector (mips_halt Skyeye_exit s)"

definition process_coprocessor_unusable :: "u32 \<Rightarrow> 'd mips_state \<Rightarrow> 'd mips_state" where
  "process_coprocessor_unusable c s = process_exception (EXC_CpU OR push_bit Cause_CE_First c) common_vector s"

definition process_fp_exception :: "'d mips_state \<Rightarrow> 'd mips_state" where
  "process_fp_exception s = process_exception EXC_FPE common_vector s"

definition process_interrupt :: "'d mips_state \<Rightarrow> 'd mips_state" where
  "process_interrupt s = process_exception EXC_Int common_vector s"

subsection \<open>Events (interrupt.c)\<close>

definition deliver_cold_reset :: "'d mips_state \<Rightarrow> 'd mips_state" where
  "deliver_cold_reset s = s\<lparr>events := events s OR cold_reset_event\<rparr>"

definition deliver_soft_reset :: "'d mips_state \<Rightarrow> 'd mips_state" where
  "deliver_soft_reset s = s\<lparr>events := events s OR soft_reset_event\<rparr>"

subsection \<open>Memory (mips_arch_interface.c, dcache.c)\<close>

text \<open>\<^verbatim>\<open>*data\<close> keeps its value \<open>v0\<close> where the bus reads nothing.\<close>

definition kseg_strip :: "u32 \<Rightarrow> u32" where
  "kseg_strip pa =
     (let pa1 = (if 0x80000000 \<le> pa \<and> pa < 0xA0000000 then pa AND NOT 0x80000000 else pa)
      in if 0xA0000000 \<le> pa1 \<and> pa1 < 0xC0000000 then pa1 AND NOT 0xE0000000 else pa1)"

definition mips_mem_read :: "u32 \<Rightarrow> u32 \<Rightarrow> nat \<Rightarrow> 'd mips_state \<Rightarrow> u32 \<times> 'd mips_state" where
  "mips_mem_read pa v0 len s =
     (case bus_read (len * 8) (kseg_strip pa) v0 (mbus s) of (v, b) \<Rightarrow> (v, s\<lparr>mbus := b\<rparr>))"

definition mips_mem_write :: "u32 \<Rightarrow> u32 \<Rightarrow> nat \<Rightarrow> 'd mips_state \<Rightarrow> 'd mips_state" where
  "mips_mem_write pa v len s = s\<lparr>mbus := bus_write (len * 8) (kseg_strip pa) v (mbus s)\<rparr>"

definition mips_load :: "u32 \<Rightarrow> u32 \<Rightarrow> u32 \<Rightarrow> nat \<Rightarrow> 'd mips_state \<Rightarrow> u32 \<times> 'd mips_state" where
  "mips_load va pa v0 len s = mips_mem_read pa v0 len s"

definition mips_store :: "u32 \<Rightarrow> u32 \<Rightarrow> u32 \<Rightarrow> nat \<Rightarrow> 'd mips_state \<Rightarrow> 'd mips_state" where
  "mips_store v va pa len s = mips_mem_write pa v len s"

end
