(* ===== verification/Mips_Tlb.thy ===== *)
theory Mips_Tlb
  imports Mips_State
begin

text \<open>
  The translation lookaside buffer of the MIPS simulator and address translation
  (arch_mips/common/tlb.c): 48 entries on doubly linked hash chains, one chain for each of 64
  hash values and a last one for the entries that were never written.
\<close>

definition mips_hash :: "u32 \<Rightarrow> nat" where
  "mips_hash va = unat (bits32 va 31 13) mod tlb_map_size"

definition set_entry :: "nat \<Rightarrow> (mips_tlb_entry \<Rightarrow> mips_tlb_entry) \<Rightarrow> 'd mips_state \<Rightarrow> 'd mips_state" where
  "set_entry n f s = s\<lparr>mtlb := (mtlb s)(n := f (mtlb s n))\<rparr>"

definition set_map :: "nat \<Rightarrow> nat option \<Rightarrow> 'd mips_state \<Rightarrow> 'd mips_state" where
  "set_map h e s = s\<lparr>tlb_map := (tlb_map s)(h := e)\<rparr>"

subsection \<open>Chains\<close>

text \<open>Entry \<open>n\<close> becomes the first of the chain of \<open>h\<close>: the last statements of both writers.\<close>

definition push_entry :: "nat \<Rightarrow> nat \<Rightarrow> 'd mips_state \<Rightarrow> 'd mips_state" where
  "push_entry n h s =
     (let s1 = (case tlb_map s h of None \<Rightarrow> s | Some e \<Rightarrow> set_entry e (prev_entry_update (\<lambda>_. Some n)) s);
          s2 = set_entry n (next_entry_update (\<lambda>_. tlb_map s1 h)) s1;
          s3 = set_entry n (prev_entry_update (\<lambda>_. None)) s2
      in set_map h (Some n) s3)"

text \<open>Entry \<open>n\<close> leaves the chain it is on.\<close>

definition unlink_entry :: "nat \<Rightarrow> 'd mips_state \<Rightarrow> 'd mips_state" where
  "unlink_entry n s =
     (let s1 = (case next_entry (mtlb s n) of None \<Rightarrow> s
                | Some e \<Rightarrow> set_entry e (prev_entry_update (\<lambda>_. prev_entry (mtlb s n))) s)
      in case prev_entry (mtlb s1 n) of
           Some e \<Rightarrow> set_entry e (next_entry_update (\<lambda>_. next_entry (mtlb s1 n))) s1
         | None \<Rightarrow> set_map (entry_hash (mtlb s1 n)) (next_entry (mtlb s1 n)) s1)"

definition reset_entry :: "nat \<Rightarrow> 'd mips_state \<Rightarrow> 'd mips_state" where
  "reset_entry i s =
     push_entry i tlb_map_size (set_entry i (\<lambda>e. e\<lparr>entry_index := i, entry_hash := tlb_map_size\<rparr>) s)"

definition reset_tlb :: "'d mips_state \<Rightarrow> 'd mips_state" where
  "reset_tlb s = fold reset_entry [0..<tlb_size] (s\<lparr>tlb_map := \<lambda>h. None\<rparr>)"

text \<open>The new contents of an entry, from EntryHi, EntryLo0 and EntryLo1.\<close>

definition filled_entry :: "u32 \<Rightarrow> 'd mips_state \<Rightarrow> mips_tlb_entry \<Rightarrow> mips_tlb_entry" where
  "filled_entry n s e =
     e\<lparr>entry_hi := (if mips_bit (cp0 s EntryLo0) EntryLo_G \<noteq> 0 then cp0 s EntryHi OR 0x1000 else cp0 s EntryHi),
       lo_reg := (lo_reg e)(0 := cp0 s EntryLo0, 1 := cp0 s EntryLo1),
       entry_index := unat n,
       entry_hash := mips_hash (cp0 s EntryHi)\<rparr>"

definition set_tlb_entry :: "u32 \<Rightarrow> 'd mips_state \<Rightarrow> 'd mips_state" where
  "set_tlb_entry n s =
     (let hash = mips_hash (cp0 s EntryHi)
      in if tlb_size \<le> unat n then s
         else push_entry (unat n) hash (set_entry (unat n) (filled_entry n s) (unlink_entry (unat n) s)))"

subsection \<open>Lookup\<close>

definition entry_matches :: "u32 \<Rightarrow> u32 \<Rightarrow> mips_tlb_entry \<Rightarrow> bool" where
  "entry_matches asid va e \<longleftrightarrow>
     (entry_hi e AND 0x1000 \<noteq> 0 \<or> entry_hi e AND 0xFF = asid AND 0xFF) \<and> drop_bit 13 va = drop_bit 13 (entry_hi e)"

text \<open>The walk of a chain. \<open>None\<close>: it never ends.\<close>

partial_function (option) probe_chain ::
  "(nat \<Rightarrow> mips_tlb_entry) \<Rightarrow> u32 \<Rightarrow> u32 \<Rightarrow> nat option \<Rightarrow> nat option option" where
  "probe_chain t asid va p =
     (if p = None then Some None
      else if entry_matches asid va (t (the p)) then Some p
      else probe_chain t asid va (next_entry (t (the p))))"

definition probe_tlb :: "u32 \<Rightarrow> 'd mips_state \<Rightarrow> nat option option" where
  "probe_tlb va s = probe_chain (mtlb s) (cp0 s EntryHi) va (tlb_map s (mips_hash va))"

subsection \<open>Translation\<close>

datatype translation = TLB_SUCC u32 | TLB_FAIL | TLB_EXP

text \<open>The lookup of an address that is not in \<^verbatim>\<open>kseg0\<close> or \<^verbatim>\<open>kseg1\<close>.\<close>

definition translate_mapped :: "u32 \<Rightarrow> mips_access \<Rightarrow> 'd mips_state \<Rightarrow> translation \<times> 'd mips_state" where
  "translate_mapped va ty s =
     (case probe_tlb va s of
        None \<Rightarrow> (TLB_FAIL, mips_halt Endless_loop s)
      | Some None \<Rightarrow> (TLB_EXP, process_tlb_refill ty va s)
      | Some (Some n) \<Rightarrow>
          (let lo = lo_reg (mtlb s n) (unat (drop_bit 12 va AND 1))
           in if lo AND 2 = 0 then (TLB_EXP, process_tlb_invalid ty va s)
              else if ty = data_store \<and> lo AND 4 = 0 then (TLB_EXP, process_tlb_modified va s)
              else (TLB_SUCC ((push_bit 6 lo AND 0xFFFFF000) OR (va AND 0xFFF)), s)))"

definition translate_vaddr :: "u32 \<Rightarrow> mips_access \<Rightarrow> 'd mips_state \<Rightarrow> translation \<times> 'd mips_state" where
  "translate_vaddr va ty s =
     (if vaddr_region kuseg \<le> vaddr_region va \<and> vaddr_region va < vaddr_region kseg0 then translate_mapped va ty s
      else if mmode s AND umode \<noteq> 0 then (TLB_FAIL, process_address_error ty va s)
      else if vaddr_region va = vaddr_region kseg0 then (TLB_SUCC (va AND NOT 0x80000000), s)
      else if vaddr_region va = vaddr_region kseg1 then (TLB_SUCC (va AND NOT 0xE0000000), s)
      else translate_mapped va ty s)"

end
