(* ===== verification/Mips_Cache.thy ===== *)
theory Mips_Cache
  imports Mips_Tlb
begin

text \<open>
  The caches of the MIPS simulator (arch_mips/common: cache.c, icache.c, dcache.c): two ways,
  256 sets in use of the 16384 allocated. Loads, stores and the fetch of an instruction never consult
  them, and no instruction reaches \<^verbatim>\<open>decode_cache\<close>; a reset clears them.
\<close>

definition cache_assoc :: nat where "cache_assoc = 2"
definition cache_sets :: nat where "cache_sets = 16384"
definition index_first :: nat where "index_first = 5"
definition index_last :: nat where "index_last = 12"
definition bad_tag :: u32 where "bad_tag = NOT 0"
definition bad_pa :: u32 where "bad_pa = NOT 0"
definition W_FLAG :: u32 where "W_FLAG = 1"
definition CS_Invalid :: u32 where "CS_Invalid = 0"
definition CS_DirtyExclusive :: u32 where "CS_DirtyExclusive = 12"

subsection \<open>Replacement (cache.c)\<close>

text \<open>Both caches have two ways, so the functions of one are those of the other.\<close>

definition lru_init :: "(nat \<Rightarrow> u8) \<Rightarrow> nat \<Rightarrow> u8" where
  "lru_init l = fold (\<lambda>i l. l(i := of_nat i)) [0..<cache_assoc] l"

definition lru_replace :: "(nat \<Rightarrow> u8) \<Rightarrow> nat" where
  "lru_replace l = unat (l (cache_assoc - 1))"

text \<open>\<^verbatim>\<open>for (i = n; i; --i) lru[i] = lru[i - 1];\<close>\<close>

primrec lru_shift :: "nat \<Rightarrow> (nat \<Rightarrow> u8) \<Rightarrow> nat \<Rightarrow> u8" where
  "lru_shift 0 l = l"
| "lru_shift (Suc i) l = lru_shift i (l(Suc i := l i))"

definition lru_touch :: "nat \<Rightarrow> (nat \<Rightarrow> u8) \<Rightarrow> nat \<Rightarrow> u8" where
  "lru_touch n l = (if unat (l 0) \<noteq> n then (lru_shift n l)(0 := of_nat n) else l)"

definition cache_index :: "u32 \<Rightarrow> nat" where
  "cache_index va = unat (bits32 va index_last index_first)"

definition cache_block :: "u32 \<Rightarrow> nat" where
  "cache_block va = unat (bits32 va (index_last + 1) (index_last + 1))"

definition cache_tag :: "u32 \<Rightarrow> u32" where
  "cache_tag pa = bits32 pa 31 (index_last + 1)"

definition coherency_algorithm :: "u32 \<Rightarrow> u32" where
  "coherency_algorithm pa = bits32 pa 31 29"

subsection \<open>Instruction cache (icache.c)\<close>

definition on_line :: "nat \<Rightarrow> nat \<Rightarrow> (mips_cache_line \<Rightarrow> mips_cache_line) \<Rightarrow> (nat \<Rightarrow> mips_cache_set) \<Rightarrow> nat \<Rightarrow> mips_cache_set" where
  "on_line i j f c = c(i := (c i)\<lparr>set_line := (set_line (c i))(j := f (set_line (c i) j))\<rparr>)"

definition reset_ibufs :: "'d mips_state \<Rightarrow> 'd mips_state" where
  "reset_ibufs s = s\<lparr>ibuf_tag := (ibuf_tag s)(0 := bad_tag, 1 := bad_tag)\<rparr>"

definition reset_icache_set :: "mips_cache_set \<Rightarrow> mips_cache_set" where
  "reset_icache_set c =
     c\<lparr>set_line := fold (\<lambda>j l. l(j := (l j)\<lparr>line_tag := bad_tag\<rparr>)) [0..<cache_assoc] (set_line c), lru := lru_init (lru c)\<rparr>"

definition reset_icache :: "'d mips_state \<Rightarrow> 'd mips_state" where
  "reset_icache s =
     reset_ibufs (s\<lparr>micache := \<lambda>i. if i < cache_sets then reset_icache_set (micache s i) else micache s i\<rparr>)"

text \<open>Reads of eight bytes into the words of a line: \<^verbatim>\<open>bus_read\<close> has no access of 64 bits.\<close>

primrec fill_line :: "nat \<Rightarrow> nat \<Rightarrow> nat \<Rightarrow> u32 \<Rightarrow> 'd mips_state \<Rightarrow> 'd mips_state" where
  "fill_line 0 i j pa s = s"
| "fill_line (Suc k) i j pa s =
     (let s1 = fill_line k i j pa s
      in case mips_mem_read (pa + 8 * of_nat k) (line_words (set_line (micache s1 i) j) k) 8 s1 of
           (v, s2) \<Rightarrow> s2\<lparr>micache := on_line i j (\<lambda>l. l\<lparr>line_words := (line_words l)(k := v)\<rparr>) (micache s2)\<rparr>)"

definition control_icache :: "u32 \<Rightarrow> u32 \<Rightarrow> u32 \<Rightarrow> u32 \<Rightarrow> 'd mips_state \<Rightarrow> 'd mips_state" where
  "control_icache va pa op ty s =
     (let i = cache_index va; j = cache_block va;
          clear = s\<lparr>micache := on_line i j (\<lambda>l. l\<lparr>line_tag := bad_tag\<rparr>) (micache s)\<rparr>
      in if ty \<noteq> 0 then s
         else reset_ibufs
           (if op = 0 then clear
            else if op = 4 then (if line_tag (set_line (micache s i) j) = cache_tag pa then clear else s)
            else if op = 5 then fill_line 4 i j (pa AND NOT 31) s
            else s))"

text \<open>The way that holds a tag: the first one.\<close>

definition find_way :: "u32 \<Rightarrow> mips_cache_set \<Rightarrow> nat option" where
  "find_way tag c = find (\<lambda>j. line_tag (set_line c j) = tag) [0..<cache_assoc]"

definition on_lru :: "nat \<Rightarrow> nat \<Rightarrow> 'd mips_state \<Rightarrow> 'd mips_state" where
  "on_lru i n s = s\<lparr>micache := (micache s)(i := (micache s i)\<lparr>lru := lru_touch n (lru (micache s i))\<rparr>)\<rparr>"

definition mips_fetch :: "u32 \<Rightarrow> u32 \<Rightarrow> 'd mips_state \<Rightarrow> u32 \<times> 'd mips_state" where
  "mips_fetch va pa s =
     (if coherency_algorithm pa = 5 then mips_mem_read pa (mjunk s) 4 s
      else
        (let i = cache_index pa; tag = cache_tag pa;
             (j, s1) =
               (case find_way tag (micache s i) of
                  Some j \<Rightarrow> (j, on_lru i j s)
                | None \<Rightarrow>
                    (let j = lru_replace (lru (micache s i));
                         s2 = fill_line 4 i j (pa AND NOT 31) s;
                         s3 = s2\<lparr>micache := on_line i j (\<lambda>l. l\<lparr>line_tag := tag\<rparr>) (micache s2)\<rparr>
                     in (j, on_lru i j s3)));
             s4 = s1\<lparr>ibuf_tag := (ibuf_tag s1)(lru_ibuf s1 := drop_bit 5 pa),
                     ibuf_line := (ibuf_line s1)(lru_ibuf s1 := (i, j)),
                     lru_ibuf := (if lru_ibuf s1 = 0 then 1 else 0)\<rparr>
         in (swizzle_word (line_words (set_line (micache s4 i) j) (unat (pa AND 31) div 8)) va, s4)))"

subsection \<open>Data cache (dcache.c)\<close>

definition reset_dcache_set :: "mips_cache_set \<Rightarrow> mips_cache_set" where
  "reset_dcache_set c =
     fold (\<lambda>j c. c\<lparr>set_line := (set_line c)(j := (set_line c j)\<lparr>line_tag := bad_tag, line_state := CS_Invalid\<rparr>),
                   lru := lru_init (lru c)\<rparr>) [0..<cache_assoc] c"

definition reset_dcache :: "'d mips_state \<Rightarrow> 'd mips_state" where
  "reset_dcache s = s\<lparr>mdcache := \<lambda>i. if i < cache_sets then reset_dcache_set (mdcache s i) else mdcache s i\<rparr>"

text \<open>The address a line was filled from, and its write-back.\<close>

definition line_address :: "u32 \<Rightarrow> mips_cache_line \<Rightarrow> u32" where
  "line_address va l = push_bit index_first (of_nat (cache_index va)) OR push_bit (index_last + 1) (line_tag l)"

primrec write_line :: "nat \<Rightarrow> u32 \<Rightarrow> mips_cache_line \<Rightarrow> 'd mips_state \<Rightarrow> 'd mips_state" where
  "write_line 0 pa l s = s"
| "write_line (Suc k) pa l s = mips_mem_write (pa + 8 * of_nat k) (line_words l k) 8 (write_line k pa l s)"

definition put_dline :: "u32 \<Rightarrow> u32 \<Rightarrow> u32 \<Rightarrow> 'd mips_state \<Rightarrow> 'd mips_state" where
  "put_dline va tag st s =
     s\<lparr>mdcache := on_line (cache_index va) (cache_block va) (\<lambda>l. l\<lparr>line_tag := tag, line_state := st\<rparr>) (mdcache s)\<rparr>"

definition control_dcache :: "u32 \<Rightarrow> u32 \<Rightarrow> u32 \<Rightarrow> u32 \<Rightarrow> 'd mips_state \<Rightarrow> 'd mips_state" where
  "control_dcache va pa op ty s =
     (let l = set_line (mdcache s (cache_index va)) (cache_block va);
          dirty = (line_state l AND W_FLAG \<noteq> 0); tag = cache_tag pa; addr = line_address va l
      in if ty \<noteq> 0 then s
         else if op = 0 then (if dirty then put_dline va bad_tag CS_Invalid (write_line 4 addr l s) else s)
         else if op = 3 then
           put_dline va tag (CS_DirtyExclusive OR (line_state l AND W_FLAG))
             (if line_tag l \<noteq> tag \<and> dirty then write_line 4 addr l s else s)
         else if op = 4 then (if line_tag l \<noteq> tag \<and> dirty then put_dline va bad_tag CS_Invalid s else s)
         else if op = 5 then
           put_dline va bad_tag CS_Invalid (if line_tag l = tag \<and> dirty then write_line 4 addr l s else s)
         else if op = 6 then
           put_dline va bad_tag (line_state l) (if line_tag l = tag \<and> dirty then write_line 4 addr l s else s)
         else s)"

subsection \<open>The cache instruction (cache.c)\<close>

definition decode_cache :: "u32 \<Rightarrow> 'd mips_state \<Rightarrow> mips_pipeline \<times> 'd mips_state" where
  "decode_cache instr s =
     (let s1 = (if mmode s AND kmode = 0 \<and> mips_bit (cp0 s SR) SR_CU0 = 0 then process_coprocessor_unusable 0 s else s);
          va = sign_extend_UInt32 (bits32 instr 15 0) 16 + gpr s1 (unat (bits32 instr 25 21))
      in case translate_vaddr va cache_op s1 of
           (TLB_SUCC pa, s2) \<Rightarrow>
             (nothing_special,
              if pa = bad_pa then s2
              else if mips_bit instr 16 \<noteq> 0
                then control_dcache va pa (bits32 instr 20 18) (mips_bit instr 17) s2
                else control_icache va pa (bits32 instr 20 18) (mips_bit instr 17) s2)
         | (_, s2) \<Rightarrow> (nothing_special, s2))"

end
