(* ===== verification/Mips_Decode.thy ===== *)
theory Mips_Decode
  imports Mips_Cache "HOL-Library.Signed_Division"
begin

text \<open>
  The instructions of the MIPS simulator: arch_mips/common/decoder.c (the CPU instructions),
  cp0.c (coprocessor 0 and 1), instr.h (their fields). Every instruction returns what it
  makes of the next one, as \<^verbatim>\<open>decode\<close> does. Register 0 is cleared at the start of a step.
\<close>

subsection \<open>Fields (instr.h)\<close>

definition mips_opcode :: "u32 \<Rightarrow> u32" where "mips_opcode instr = bits32 instr 31 26"
definition mips_function :: "u32 \<Rightarrow> u32" where "mips_function instr = bits32 instr 5 0"
definition mips_rs :: "u32 \<Rightarrow> nat" where "mips_rs instr = unat (bits32 instr 25 21)"
definition mips_rt :: "u32 \<Rightarrow> nat" where "mips_rt instr = unat (bits32 instr 20 16)"
definition mips_rd :: "u32 \<Rightarrow> nat" where "mips_rd instr = unat (bits32 instr 15 11)"
definition mips_shamt :: "u32 \<Rightarrow> nat" where "mips_shamt instr = unat (bits32 instr 10 6)"
definition mips_offset :: "u32 \<Rightarrow> u32" where "mips_offset instr = bits32 instr 15 0"
definition mips_target :: "u32 \<Rightarrow> u32" where "mips_target instr = bits32 instr 25 0"
definition mips_sel :: "u32 \<Rightarrow> u32" where "mips_sel instr = bits32 instr 2 0"

type_synonym 'd mips_instruction = "u32 \<Rightarrow> 'd mips_state \<Rightarrow> mips_pipeline \<times> 'd mips_state"

text \<open>What the board gives the processor: \<^verbatim>\<open>mach_set_intr\<close> and \<^verbatim>\<open>mach_io_do_cycle\<close>.\<close>

record 'd mips_board =
  mach_set_intr :: "u32 \<Rightarrow> 'd mips_state \<Rightarrow> 'd mips_state"
  mach_do_cycle :: "'d mips_state \<Rightarrow> 'd mips_state"

definition reg_rs :: "u32 \<Rightarrow> 'd mips_state \<Rightarrow> u32" where "reg_rs instr s = gpr s (mips_rs instr)"
definition reg_rt :: "u32 \<Rightarrow> 'd mips_state \<Rightarrow> u32" where "reg_rt instr s = gpr s (mips_rt instr)"

definition set_rd :: "u32 \<Rightarrow> u32 \<Rightarrow> 'd mips_state \<Rightarrow> mips_pipeline \<times> 'd mips_state" where
  "set_rd instr v s = (nothing_special, set_gpr (mips_rd instr) v s)"

definition set_rt :: "u32 \<Rightarrow> u32 \<Rightarrow> 'd mips_state \<Rightarrow> mips_pipeline \<times> 'd mips_state" where
  "set_rt instr v s = (nothing_special, set_gpr (mips_rt instr) v s)"

definition mips_imm :: "u32 \<Rightarrow> u32" where
  "mips_imm instr = sign_extend_UInt32 (mips_offset instr) 16"

definition mips_reserved :: "'d mips_instruction" where
  "mips_reserved instr s = (nothing_special, process_reserved_instruction s)"

definition mips_nothing :: "'d mips_instruction" where
  "mips_nothing instr s = (nothing_special, s)"

subsection \<open>Shifts\<close>

definition mips_SLL :: "'d mips_instruction" where
  "mips_SLL instr s =
     (if mips_rd instr \<noteq> 0 then set_rd instr (push_bit (mips_shamt instr) (reg_rt instr s)) s else (nothing_special, s))"

definition mips_SRL :: "'d mips_instruction" where
  "mips_SRL instr s =
     set_rd instr (drop_bit (mips_shamt instr) (reg_rt instr s)) s"

definition mips_SRA :: "'d mips_instruction" where
  "mips_SRA instr s =
     set_rd instr (sign_extend_UInt32 (drop_bit (mips_shamt instr) (reg_rt instr s)) (32 - mips_shamt instr)) s"

definition shift_var :: "u32 \<Rightarrow> 'd mips_state \<Rightarrow> nat" where
  "shift_var instr s = unat (bits32 (reg_rs instr s) 4 0)"

definition mips_SLLV :: "'d mips_instruction" where
  "mips_SLLV instr s =
     set_rd instr (push_bit (shift_var instr s) (reg_rt instr s)) s"

definition mips_SRLV :: "'d mips_instruction" where
  "mips_SRLV instr s =
     set_rd instr (drop_bit (shift_var instr s) (reg_rt instr s)) s"

definition mips_SRAV :: "'d mips_instruction" where
  "mips_SRAV instr s =
     (let x = reg_rt instr s; n = shift_var instr s;
          sign_bits = (if 0x80000000 AND x \<noteq> 0 then 0xFFFFFFFF AND NOT (drop_bit n 0xFFFFFFFF) else 0)
      in set_rd instr (sign_bits OR drop_bit n x) s)"

subsection \<open>Moves, multiplication and division\<close>

definition mips_MOVZ :: "'d mips_instruction" where
  "mips_MOVZ instr s =
     (if reg_rt instr s = 0 then set_rd instr (reg_rs instr s) s else (nothing_special, s))"

definition mips_MOVN :: "'d mips_instruction" where
  "mips_MOVN instr s =
     (if reg_rt instr s \<noteq> 0 then set_rd instr (reg_rs instr s) s else (nothing_special, s))"

definition mips_MFHI :: "'d mips_instruction" where
  "mips_MFHI instr s =
     set_rd instr (mhi s) s"

definition mips_MTHI :: "'d mips_instruction" where
  "mips_MTHI instr s =
     (nothing_special, s\<lparr>mhi := reg_rs instr s\<rparr>)"

definition mips_MFLO :: "'d mips_instruction" where
  "mips_MFLO instr s =
     set_rd instr (mlo s) s"

definition mips_MTLO :: "'d mips_instruction" where
  "mips_MTLO instr s =
     (nothing_special, s\<lparr>mlo := reg_rs instr s\<rparr>)"

definition set_hilo :: "u32 \<Rightarrow> u32 \<Rightarrow> 'd mips_state \<Rightarrow> mips_pipeline \<times> 'd mips_state" where
  "set_hilo h l s = (nothing_special, s\<lparr>mhi := h, mlo := l\<rparr>)"

text \<open>The operands are read from unsigned registers into 64-bit signed variables, whose product may overflow.\<close>

definition mips_MULT :: "'d mips_instruction" where
  "mips_MULT instr s =
     (let x = uint (reg_rs instr s); y = uint (reg_rt instr s); z = (word_of_int (x * y) :: u64)
      in set_hilo (ucast (drop_bit 32 z)) (ucast z) (if 2 ^ 63 \<le> x * y then mips_halt Undefined_arith s else s))"

definition mips_MULTU :: "'d mips_instruction" where
  "mips_MULTU instr s =
     (let x = (ucast (reg_rs instr s) :: u64); y = ucast (reg_rt instr s); z = x * y
      in set_hilo (ucast (drop_bit 32 z)) (ucast z) s)"

text \<open>\<^verbatim>\<open>ldiv\<close> on 64-bit \<^verbatim>\<open>long\<close>s: the quotient is truncated towards zero.\<close>

definition mips_DIV :: "'d mips_instruction" where
  "mips_DIV instr s =
     (let y = sint (reg_rt instr s); x = sint (reg_rs instr s)
      in set_hilo (word_of_int (x smod y)) (word_of_int (x sdiv y)) (if y = 0 then mips_halt Undefined_arith s else s))"

definition mips_DIVU :: "'d mips_instruction" where
  "mips_DIVU instr s =
     (let y = reg_rt instr s; x = reg_rs instr s
      in set_hilo (x mod y) (x div y) (if y = 0 then mips_halt Undefined_arith s else s))"

subsection \<open>Arithmetic and logic\<close>

text \<open>The overflow test of ADD and ADDI; the result is written also after the exception.\<close>

definition add_overflows :: "u32 \<Rightarrow> u32 \<Rightarrow> bool" where
  "add_overflows x y \<longleftrightarrow> mips_bit (x XOR y) 31 = 0 \<and> mips_bit (x XOR (x + y)) 31 \<noteq> 0"

definition mips_ADD :: "'d mips_instruction" where
  "mips_ADD instr s =
     (let x = reg_rs instr s; y = reg_rt instr s
      in set_rd instr (x + y) (if add_overflows x y then process_integer_overflow s else s))"

definition mips_ADDU :: "'d mips_instruction" where
  "mips_ADDU instr s =
     set_rd instr (reg_rs instr s + reg_rt instr s) s"

definition sub_overflows :: "u32 \<Rightarrow> u32 \<Rightarrow> bool" where
  "sub_overflows x y \<longleftrightarrow> (sint y < 0 \<and> sint (x - y) < sint x) \<or> (0 < sint y \<and> sint x < sint (x - y))"

definition mips_SUB :: "'d mips_instruction" where
  "mips_SUB instr s =
     (let x = reg_rs instr s; y = reg_rt instr s
      in set_rd instr (x - y) (if sub_overflows x y then process_integer_overflow s else s))"

definition mips_SUBU :: "'d mips_instruction" where
  "mips_SUBU instr s =
     set_rd instr (reg_rs instr s - reg_rt instr s) s"

definition mips_AND :: "'d mips_instruction" where
  "mips_AND instr s =
     set_rd instr (reg_rs instr s AND reg_rt instr s) s"

definition mips_OR :: "'d mips_instruction" where
  "mips_OR instr s =
     set_rd instr (reg_rs instr s OR reg_rt instr s) s"

definition mips_XOR :: "'d mips_instruction" where
  "mips_XOR instr s =
     set_rd instr (reg_rs instr s XOR reg_rt instr s) s"

definition mips_NOR :: "'d mips_instruction" where
  "mips_NOR instr s =
     set_rd instr (NOT (reg_rs instr s OR reg_rt instr s)) s"

definition mips_SLT :: "'d mips_instruction" where
  "mips_SLT instr s =
     set_rd instr (of_bool (sint (reg_rs instr s) < sint (reg_rt instr s))) s"

definition mips_SLTU :: "'d mips_instruction" where
  "mips_SLTU instr s =
     set_rd instr (of_bool (reg_rs instr s < reg_rt instr s)) s"

definition mips_ADDI :: "'d mips_instruction" where
  "mips_ADDI instr s =
     (let x = reg_rs instr s; y = mips_imm instr
      in set_rt instr (x + y) (if add_overflows x y then process_integer_overflow s else s))"

definition mips_ADDIU :: "'d mips_instruction" where
  "mips_ADDIU instr s =
     set_rt instr (reg_rs instr s + mips_imm instr) s"

definition mips_SLTI :: "'d mips_instruction" where
  "mips_SLTI instr s =
     set_rt instr (of_bool (sint (reg_rs instr s) < sint (mips_imm instr))) s"

definition mips_SLTIU :: "'d mips_instruction" where
  "mips_SLTIU instr s =
     set_rt instr (of_bool (reg_rs instr s < mips_imm instr)) s"

definition mips_ANDI :: "'d mips_instruction" where
  "mips_ANDI instr s =
     (let x = (ucast (reg_rs instr s) :: u16); imm = ucast (mips_offset instr)
      in set_rt instr (ucast (x AND imm)) s)"

definition mips_ORI :: "'d mips_instruction" where
  "mips_ORI instr s =
     (let imm = (ucast (mips_offset instr) :: u16)
      in set_rt instr (reg_rs instr s OR ucast imm) s)"

definition mips_XORI :: "'d mips_instruction" where
  "mips_XORI instr s =
     set_rt instr (reg_rs instr s XOR mips_offset instr) s"

definition mips_LUI :: "'d mips_instruction" where
  "mips_LUI instr s =
     set_rt instr (push_bit 16 (mips_offset instr)) s"

text \<open>The product is computed on 32 bits.\<close>

definition mips_MADD :: "'d mips_instruction" where
  "mips_MADD instr s =
     (let temp1 = push_bit 32 (ucast (mhi s) :: u64) + ucast (mlo s);
          temp2 = ucast (reg_rs instr s * reg_rt instr s) + temp1
      in set_hilo (ucast (drop_bit 32 temp2)) (ucast temp2) s)"

definition mips_MUL :: "'d mips_instruction" where
  "mips_MUL instr s =
     set_rd instr (reg_rs instr s * reg_rt instr s) s"

primrec mips_clz_loop :: "nat \<Rightarrow> u32 \<Rightarrow> nat" where
  "mips_clz_loop 0 x = 32"
| "mips_clz_loop (Suc i) x = (if x AND push_bit i 1 \<noteq> 0 then 31 - i else mips_clz_loop i x)"

definition mips_CLZ :: "'d mips_instruction" where
  "mips_CLZ instr s =
     set_rd instr (of_nat (mips_clz_loop 32 (reg_rs instr s))) s"

subsection \<open>Jumps and branches\<close>

definition jump_register :: "u32 \<Rightarrow> 'd mips_state \<Rightarrow> mips_pipeline \<times> 'd mips_state" where
  "jump_register t s = (if bits32 t 1 0 \<noteq> 0 then instr_addr_error else branch_delay, s)"

definition mips_JR :: "'d mips_instruction" where
  "mips_JR instr s =
     jump_register (reg_rs instr s) (s\<lparr>branch_target := reg_rs instr s\<rparr>)"

definition mips_JALR :: "'d mips_instruction" where
  "mips_JALR instr s =
     jump_register (reg_rs instr s)
       (set_gpr (mips_rd instr) (mpc s + 8) (s\<lparr>branch_target := reg_rs instr s\<rparr>))"

definition jump_target :: "u32 \<Rightarrow> 'd mips_state \<Rightarrow> u32" where
  "jump_target instr s =
     ucast (mips_clear_bits (ucast (mpc s + 4)) 27 0) OR push_bit 2 (mips_target instr)"

definition mips_J :: "'d mips_instruction" where
  "mips_J instr s =
     (branch_delay, s\<lparr>branch_target := jump_target instr s\<rparr>)"

definition mips_JAL :: "'d mips_instruction" where
  "mips_JAL instr s =
     (let s1 = set_gpr 31 (mpc s + 8) s
      in (branch_delay, s1\<lparr>branch_target := jump_target instr s1\<rparr>))"

text \<open>The two endings of a branch: the conditional one, and the \<^emph>\<open>likely\<close> one, which skips the delay slot when not taken.\<close>

definition branch_address :: "u32 \<Rightarrow> 'd mips_state \<Rightarrow> u32" where
  "branch_address instr s = mpc s + 4 + push_bit 2 (mips_imm instr)"

definition mips_branch :: "bool \<Rightarrow> 'd mips_instruction" where
  "mips_branch c instr s =
     (branch_delay, s\<lparr>branch_target := if c then branch_address instr s else mpc s + 8\<rparr>)"

definition mips_branch_likely :: "bool \<Rightarrow> 'd mips_instruction" where
  "mips_branch_likely c instr s =
     (if c then (branch_delay, s\<lparr>branch_target := branch_address instr s\<rparr>)
      else (nothing_special, s\<lparr>branch_target := mpc s + 8, mpipeline := branch_delay\<rparr>))"

definition mips_BLTZ :: "'d mips_instruction" where
  "mips_BLTZ instr s =
     mips_branch (sint (reg_rs instr s) < 0) instr s"

definition mips_BGEZ :: "'d mips_instruction" where
  "mips_BGEZ instr s =
     mips_branch (0 \<le> sint (reg_rs instr s)) instr s"

definition mips_BLTZL :: "'d mips_instruction" where
  "mips_BLTZL instr s =
     mips_branch_likely (sint (reg_rs instr s) < 0) instr s"

definition mips_BGEZL :: "'d mips_instruction" where
  "mips_BGEZL instr s =
     mips_branch_likely (0 \<le> sint (reg_rs instr s)) instr s"

definition mips_BEQ :: "'d mips_instruction" where
  "mips_BEQ instr s =
     mips_branch (reg_rs instr s = reg_rt instr s) instr s"

definition mips_BNE :: "'d mips_instruction" where
  "mips_BNE instr s =
     mips_branch (reg_rs instr s \<noteq> reg_rt instr s) instr s"

definition mips_BLEZ :: "'d mips_instruction" where
  "mips_BLEZ instr s =
     mips_branch (sint (reg_rs instr s) \<le> 0) instr s"

definition mips_BGTZ :: "'d mips_instruction" where
  "mips_BGTZ instr s =
     mips_branch (0 < sint (reg_rs instr s)) instr s"

definition mips_BEQL :: "'d mips_instruction" where
  "mips_BEQL instr s =
     mips_branch_likely (reg_rs instr s = reg_rt instr s) instr s"

definition mips_BNEL :: "'d mips_instruction" where
  "mips_BNEL instr s =
     mips_branch_likely (reg_rs instr s \<noteq> reg_rt instr s) instr s"

definition mips_BLEZL :: "'d mips_instruction" where
  "mips_BLEZL instr s =
     mips_branch_likely (sint (reg_rs instr s) \<le> 0) instr s"

definition mips_BGTZL :: "'d mips_instruction" where
  "mips_BGTZL instr s =
     mips_branch_likely (0 < sint (reg_rs instr s)) instr s"

definition mips_BLTZAL :: "'d mips_instruction" where
  "mips_BLTZAL instr s =
     mips_branch (sint (reg_rs instr s) < 0) instr (set_gpr 31 (mpc s + 8) s)"

definition mips_BGEZAL :: "'d mips_instruction" where
  "mips_BGEZAL instr s =
     mips_branch (0 \<le> sint (reg_rs instr s)) instr (set_gpr 31 (mpc s + 8) s)"

definition mips_SYSCALL :: "'d mips_instruction" where
  "mips_SYSCALL instr s =
     (nothing_special, process_syscall s)"

subsection \<open>Loads and stores\<close>

definition mips_address :: "u32 \<Rightarrow> 'd mips_state \<Rightarrow> u32" where
  "mips_address instr s = mips_imm instr + gpr s (mips_rs instr)"

text \<open>The translation of an access, and what follows when it succeeds.\<close>

definition mips_translated ::
  "u32 \<Rightarrow> mips_access \<Rightarrow> (u32 \<Rightarrow> 'd mips_state \<Rightarrow> 'd mips_state) \<Rightarrow> 'd mips_state \<Rightarrow> mips_pipeline \<times> 'd mips_state" where
  "mips_translated va ty f s =
     (nothing_special, case translate_vaddr va ty s of (TLB_SUCC pa, s1) \<Rightarrow> f pa s1 | (_, s1) \<Rightarrow> s1)"

text \<open>The alignment check of LH, LHU, LW and SH: the access goes on after the exception.\<close>

definition check_align :: "bool \<Rightarrow> mips_access \<Rightarrow> u32 \<Rightarrow> 'd mips_state \<Rightarrow> 'd mips_state" where
  "check_align bad ty va s = (if bad then process_address_error ty va s else s)"

definition round_down4 :: "u32 \<Rightarrow> u32" where
  "round_down4 x = x AND NOT 3"

text \<open>A datum into \<^verbatim>\<open>rt\<close>, and \<^verbatim>\<open>rt\<close> or what is made of it into memory.\<close>

definition load_rt :: "nat \<Rightarrow> (u32 \<Rightarrow> u32) \<Rightarrow> u32 \<Rightarrow> u32 \<Rightarrow> u32 \<Rightarrow> 'd mips_state \<Rightarrow> 'd mips_state" where
  "load_rt len f instr va pa s = (case mips_load va pa 0 len s of (y, s1) \<Rightarrow> set_gpr (mips_rt instr) (f y) s1)"

definition store_rt :: "nat \<Rightarrow> u32 \<Rightarrow> u32 \<Rightarrow> u32 \<Rightarrow> 'd mips_state \<Rightarrow> 'd mips_state" where
  "store_rt len instr va pa s = mips_store (reg_rt instr s) va pa len s"

definition mips_LB :: "'d mips_instruction" where
  "mips_LB instr s =
     (let va = mips_address instr s
      in mips_translated va data_load (load_rt 1 (\<lambda>y. sign_extend_UInt32 (y AND 0xff) 8) instr va) s)"

definition mips_LH :: "'d mips_instruction" where
  "mips_LH instr s =
     (let va = mips_address instr s
      in mips_translated va data_load (load_rt 2 (\<lambda>y. sign_extend_UInt32 (y AND 0xffff) 16) instr va)
           (check_align (mips_bit va 0 \<noteq> 0) data_load va s))"

definition mips_LW :: "'d mips_instruction" where
  "mips_LW instr s =
     (let va = mips_address instr s
      in mips_translated va data_load (load_rt 4 (\<lambda>y. y) instr va)
           (check_align (va AND 3 \<noteq> 0) data_load va s))"

definition mips_LBU :: "'d mips_instruction" where
  "mips_LBU instr s =
     (let va = mips_address instr s
      in mips_translated va data_load (load_rt 1 (\<lambda>y. y AND 0xff) instr va) s)"

definition mips_LHU :: "'d mips_instruction" where
  "mips_LHU instr s =
     (let va = mips_address instr s
      in mips_translated va data_load (load_rt 2 (\<lambda>y. y AND 0xffff) instr va)
           (check_align (mips_bit va 0 \<noteq> 0) data_load va s))"

text \<open>The byte lane of an unaligned access, counted from the left or from the right.\<close>

definition lane_left :: "u32 \<Rightarrow> 'd mips_state \<Rightarrow> nat" where
  "lane_left va s = unat (if big_endian_cpu s then bits32 va 1 0 else bits32 va 1 0 XOR ucast (mips_bitsmask 1 0))"

definition lane_right :: "u32 \<Rightarrow> 'd mips_state \<Rightarrow> nat" where
  "lane_right va s = unat (if big_endian_cpu s then bits32 va 1 0 XOR ucast (mips_bitsmask 1 0) else bits32 va 1 0)"

definition load_word_at :: "u32 \<Rightarrow> u32 \<Rightarrow> 'd mips_state \<Rightarrow> u32 \<times> 'd mips_state" where
  "load_word_at va pa s = mips_load (round_down4 va) (round_down4 pa) 0 4 s"

definition store_word_at :: "u32 \<Rightarrow> u32 \<Rightarrow> u32 \<Rightarrow> 'd mips_state \<Rightarrow> 'd mips_state" where
  "store_word_at v va pa s = mips_store v (round_down4 va) (round_down4 pa) 4 s"

definition merge_LWL :: "nat \<Rightarrow> u32 \<Rightarrow> u32 \<Rightarrow> u32" where
  "merge_LWL k reg mem = copy_bits32 reg mem 31 (k * 8)"

definition merge_LWR :: "nat \<Rightarrow> u32 \<Rightarrow> u32 \<Rightarrow> u32" where
  "merge_LWR k reg mem = copy_bits32 reg (bits32 mem 31 (k * 8)) (31 - k * 8) 0"

definition merge_SWL :: "nat \<Rightarrow> u32 \<Rightarrow> u32 \<Rightarrow> u32" where
  "merge_SWL k mem reg = copy_bits32 mem (bits32 reg 31 (k * 8)) (31 - k * 8) 0"

definition merge_SWR :: "nat \<Rightarrow> u32 \<Rightarrow> u32 \<Rightarrow> u32" where
  "merge_SWR k mem reg = copy_bits32 mem reg 31 (k * 8)"

definition mips_LWL :: "'d mips_instruction" where
  "mips_LWL instr s =
     (let va = mips_address instr s
      in mips_translated va data_load
           (\<lambda>pa s1. case load_word_at va pa s1 of (mem, s2) \<Rightarrow>
              set_gpr (mips_rt instr) (merge_LWL (lane_left va s2) (reg_rt instr s2) mem) s2) s)"

definition mips_LWR :: "'d mips_instruction" where
  "mips_LWR instr s =
     (let va = mips_address instr s
      in mips_translated va data_load
           (\<lambda>pa s1. case load_word_at va pa s1 of (mem, s2) \<Rightarrow>
              set_gpr (mips_rt instr) (merge_LWR (lane_right va s2) (reg_rt instr s2) mem) s2) s)"

definition mips_SB :: "'d mips_instruction" where
  "mips_SB instr s =
     (let va = mips_address instr s
      in mips_translated va data_store (store_rt 1 instr va) s)"

definition mips_SH :: "'d mips_instruction" where
  "mips_SH instr s =
     (let va = mips_address instr s
      in mips_translated va data_store (store_rt 2 instr va)
           (check_align (mips_bit va 0 \<noteq> 0) data_store va s))"

definition mips_SWL :: "'d mips_instruction" where
  "mips_SWL instr s =
     (let va = mips_address instr s
      in mips_translated va data_store
           (\<lambda>pa s1. case load_word_at va pa s1 of (mem, s2) \<Rightarrow>
              store_word_at (merge_SWL (lane_left va s2) mem (reg_rt instr s2)) va pa s2) s)"

definition mips_SWR :: "'d mips_instruction" where
  "mips_SWR instr s =
     (let va = mips_address instr s
      in mips_translated va data_store
           (\<lambda>pa s1. case load_word_at va pa s1 of (mem, s2) \<Rightarrow>
              store_word_at (merge_SWR (lane_right va s2) mem (reg_rt instr s2)) va pa s2) s)"

text \<open>A misaligned address ends the simulation.\<close>

definition mips_SW :: "'d mips_instruction" where
  "mips_SW instr s =
     (let va = mips_address instr s
      in mips_translated va data_store (store_rt 4 instr va)
           (if bits32 va 1 0 \<noteq> 0 then process_address_error data_store va (mips_halt Skyeye_exit s) else s))"

text \<open>Load linked sets no link; store conditional always succeeds, and is translated as a load.\<close>

definition mips_LL :: "'d mips_instruction" where
  "mips_LL instr s =
     (let va = mips_address instr s
      in mips_translated va data_load
           (\<lambda>pa s1. case mips_mem_read pa (mjunk s1) 4 s1 of (y, s2) \<Rightarrow> set_gpr (mips_rt instr) y s2) s)"

definition mips_SC :: "'d mips_instruction" where
  "mips_SC instr s =
     (let va = mips_address instr s
      in mips_translated va data_load (\<lambda>pa s1. set_gpr (mips_rt instr) 1 (mips_mem_write pa (reg_rt instr s1) 4 s1)) s)"

subsection \<open>Coprocessors 0 and 1 (cp0.c)\<close>

definition read_cp0 :: "nat \<Rightarrow> u32 \<Rightarrow> 'd mips_state \<Rightarrow> u32 \<times> 'd mips_state" where
  "read_cp0 n sel s =
     (if n = Random then (case get_random s of None \<Rightarrow> (0, mips_halt Undefined_arith s) | Some v \<Rightarrow> (v, s))
      else if n = Count then (ucast (ucast (cp0 s Count) + (now s - count_seed s) div 2), s)
      else if n = Config then (if sel \<noteq> 0 then (cp0_config1 s, s) else (cp0 s Config, s))
      else (cp0 s n, s))"

text \<open>The clock moves to the time at which Count reaches Compare.\<close>

definition advance_clock :: "'d mips_state \<Rightarrow> 'd mips_state" where
  "advance_clock s =
     s\<lparr>now := now s + (ucast (cp0 s Compare) - (ucast (cp0 s Count) + (now s - count_seed s) div 2)) * 2\<rparr>"

definition write_cp0 :: "nat \<Rightarrow> u32 \<Rightarrow> 'd mips_state \<Rightarrow> 'd mips_state" where
  "write_cp0 n x s =
     (if n = Index \<or> n = EntryLo0 \<or> n = EntryLo1 \<or> n = EntryHi \<or> n = EPC then set_cp0 n x s
      else if n = Context then set_cp0 n (ucast (mips_clear_bits (ucast x) 1 0)) s
      else if n = Count then advance_clock (set_cp0 n x (s\<lparr>count_seed := now s\<rparr>))
      else if n = Compare then
        (let s1 = set_cp0 n x s;
             s2 = advance_clock (s1\<lparr>events := ucast (mips_clear_bit (ucast (events s1)) (7 + Cause_IP_First))\<rparr>)
         in set_cp0 Cause (cp0 s2 Cause AND 0xFFFF7FFF) s2)
      else if n = SR then
        set_cp0 n (ucast (ucast x AND NOT (mips_bitsmask 27 26 OR (mips_bitsmask 24 23 OR mips_bitsmask 7 6)))) s
      else if n = Cause then s\<lparr>events := events s OR ucast (ucast x AND mips_bitsmask Cause_IP1 Cause_IP0)\<rparr>
      else s)"

definition cop0_TLBR :: "'d mips_state \<Rightarrow> 'd mips_state" where
  "cop0_TLBR s =
     (let i = unat (bits32 (cp0 s Index) 13 6); e = mtlb s i
      in if tlb_size \<le> i then mips_halt Out_of_bounds s
         else set_cp0 EntryLo1 (lo_reg e 1) (set_cp0 EntryLo0 (lo_reg e 0) (set_cp0 EntryHi (entry_hi e) s)))"

definition cop0_TLBWI :: "'d mips_state \<Rightarrow> 'd mips_state" where
  "cop0_TLBWI s = set_tlb_entry (cp0 s Index) s"

definition cop0_TLBWR :: "'d mips_state \<Rightarrow> 'd mips_state" where
  "cop0_TLBWR s = (case get_random s of None \<Rightarrow> mips_halt Undefined_arith s | Some n \<Rightarrow> set_tlb_entry n s)"

definition cop0_TLBP :: "'d mips_state \<Rightarrow> 'd mips_state" where
  "cop0_TLBP s =
     (case probe_tlb (cp0 s EntryHi) s of
        None \<Rightarrow> mips_halt Endless_loop s
      | Some None \<Rightarrow> set_cp0 Index (bitmask 31) s
      | Some (Some n) \<Rightarrow> set_cp0 Index (of_nat (entry_index (mtlb s n))) s)"

definition cop0_ERET :: "'d mips_board \<Rightarrow> 'd mips_state \<Rightarrow> 'd mips_state" where
  "cop0_ERET m s =
     (let s1 = set_cp0 SR (cp0 s SR OR 1) s;
          s2 = s1\<lparr>mpc := cp0 s1 EPC\<rparr>;
          s3 = (if cp0 s2 Cause AND bitmask Cause_IP2 \<noteq> 0 then mach_set_intr m 0 s2 else s2)
      in s3\<lparr>mpipeline := branch_nodelay\<rparr>)"

text \<open>An instruction that is not allowed in user mode is executed after the exception.\<close>

definition decode_cop0 :: "'d mips_board \<Rightarrow> 'd mips_instruction" where
  "decode_cop0 m instr s =
     (let s1 = (if mmode s AND kmode = 0 \<and> mips_bit (cp0 s SR) SR_CU0 = 0 then process_coprocessor_unusable 0 s else s);
          f = mips_function instr; r = bits32 instr 25 21
      in if mips_bit instr 25 \<noteq> 0 then
           (if f = 1 then (nothing_special, cop0_TLBR s1)
            else if f = 2 then (nothing_special, cop0_TLBWI s1)
            else if f = 6 then (nothing_special, cop0_TLBWR s1)
            else if f = 8 then (nothing_special, cop0_TLBP s1)
            else if f = 16 then (nothing_special, leave_kernel_mode s1)
            else if f = 24 then (nothing_special, cop0_ERET m s1)
            else mips_reserved instr s1)
         else
           (if r = 0 then (case read_cp0 (mips_rd instr) (mips_sel instr) s1 of (v, s2) \<Rightarrow> set_rt instr v s2)
            else if r = 2 then mips_nothing instr s1
            else if r = 4 then (nothing_special, write_cp0 (mips_rd instr) (reg_rt instr s1) s1)
            else mips_reserved instr s1))"

definition decode_cop1 :: "'d mips_instruction" where
  "decode_cop1 instr s =
     (if mips_bit (cp0 s SR) SR_CU1 = 0 then (nothing_special, process_coprocessor_unusable 1 s)
      else if mips_function instr = 32 then mips_nothing instr s
      else if bits32 instr 25 21 = 2 \<and> mips_rd instr = 0 then set_rt instr (fir s) s
      else mips_nothing instr s)"

subsection \<open>Decoding\<close>

text \<open>BREAK (13), SYNC (15) and the traps TEQ (52) and TNE (54) do nothing; every other code is a reserved instruction.\<close>

definition decode_special :: "'d mips_instruction" where
  "decode_special instr s =
     (let f = mips_function instr
      in if f = 0 then mips_SLL instr s
      else if f = 2 then mips_SRL instr s
      else if f = 3 then mips_SRA instr s
      else if f = 4 then mips_SLLV instr s
      else if f = 6 then mips_SRLV instr s
      else if f = 7 then mips_SRAV instr s
      else if f = 8 then mips_JR instr s
      else if f = 9 then mips_JALR instr s
      else if f = 10 then mips_MOVZ instr s
      else if f = 11 then mips_MOVN instr s
      else if f = 12 then mips_SYSCALL instr s
      else if f = 13 then mips_nothing instr s
      else if f = 15 then mips_nothing instr s
      else if f = 16 then mips_MFHI instr s
      else if f = 17 then mips_MTHI instr s
      else if f = 18 then mips_MFLO instr s
      else if f = 19 then mips_MTLO instr s
      else if f = 24 then mips_MULT instr s
      else if f = 25 then mips_MULTU instr s
      else if f = 26 then mips_DIV instr s
      else if f = 27 then mips_DIVU instr s
      else if f = 32 then mips_ADD instr s
      else if f = 33 then mips_ADDU instr s
      else if f = 34 then mips_SUB instr s
      else if f = 35 then mips_SUBU instr s
      else if f = 36 then mips_AND instr s
      else if f = 37 then mips_OR instr s
      else if f = 38 then mips_XOR instr s
      else if f = 39 then mips_NOR instr s
      else if f = 42 then mips_SLT instr s
      else if f = 43 then mips_SLTU instr s
      else if f = 52 then mips_nothing instr s
      else if f = 54 then mips_nothing instr s
      else mips_reserved instr s)"

definition decode_regimm :: "'d mips_instruction" where
  "decode_regimm instr s =
     (let f = bits32 instr 20 16
      in if f = 0 then mips_BLTZ instr s
      else if f = 1 then mips_BGEZ instr s
      else if f = 2 then mips_BLTZL instr s
      else if f = 3 then mips_BGEZL instr s
      else if f = 16 then mips_BLTZAL instr s
      else if f = 17 then mips_BGEZAL instr s
      else mips_reserved instr s)"

definition decode_special2 :: "'d mips_instruction" where
  "decode_special2 instr s =
     (let f = mips_function instr
      in if f = 0 then mips_MADD instr s
      else if f = 2 then mips_MUL instr s
      else if f = 32 then mips_CLZ instr s
      else mips_reserved instr s)"

text \<open>CACHE (47), LWC1 (49), PREF (51) and SWC1 (57) do nothing.\<close>

definition decode :: "'d mips_board \<Rightarrow> 'd mips_instruction" where
  "decode m instr s =
     (let f = mips_opcode instr
      in if f = 0 then decode_special instr s
      else if f = 1 then decode_regimm instr s
      else if f = 2 then mips_J instr s
      else if f = 3 then mips_JAL instr s
      else if f = 4 then mips_BEQ instr s
      else if f = 5 then mips_BNE instr s
      else if f = 6 then mips_BLEZ instr s
      else if f = 7 then mips_BGTZ instr s
      else if f = 8 then mips_ADDI instr s
      else if f = 9 then mips_ADDIU instr s
      else if f = 10 then mips_SLTI instr s
      else if f = 11 then mips_SLTIU instr s
      else if f = 12 then mips_ANDI instr s
      else if f = 13 then mips_ORI instr s
      else if f = 14 then mips_XORI instr s
      else if f = 15 then mips_LUI instr s
      else if f = 16 then decode_cop0 m instr s
      else if f = 17 then decode_cop1 instr s
      else if f = 20 then mips_BEQL instr s
      else if f = 21 then mips_BNEL instr s
      else if f = 22 then mips_BLEZL instr s
      else if f = 23 then mips_BGTZL instr s
      else if f = 28 then decode_special2 instr s
      else if f = 32 then mips_LB instr s
      else if f = 33 then mips_LH instr s
      else if f = 34 then mips_LWL instr s
      else if f = 35 then mips_LW instr s
      else if f = 36 then mips_LBU instr s
      else if f = 37 then mips_LHU instr s
      else if f = 38 then mips_LWR instr s
      else if f = 40 then mips_SB instr s
      else if f = 41 then mips_SH instr s
      else if f = 42 then mips_SWL instr s
      else if f = 43 then mips_SW instr s
      else if f = 46 then mips_SWR instr s
      else if f = 47 then mips_nothing instr s
      else if f = 48 then mips_LL instr s
      else if f = 49 then mips_nothing instr s
      else if f = 51 then mips_nothing instr s
      else if f = 56 then mips_SC instr s
      else if f = 57 then mips_nothing instr s
      else mips_reserved instr s)"

end
