(* ===== verification/Mips_Step.thy ===== *)
theory Mips_Step
  imports Mips_Decode
begin

text \<open>
  One step of the MIPS simulator, its interrupts, initialisation and reset, and the interface to the
  front end (arch_mips/common: mips_arch_interface.c, exception.c, multiply.c).

  \<^verbatim>\<open>mips_mem_reset\<close> (mipsmem.c) has no bank to reset: the code that would register one is
  commented out.
\<close>

subsection \<open>Reset (exception.c)\<close>

definition process_reset :: "'d mips_state \<Rightarrow> 'd mips_state" where
  "process_reset s =
     (let s1 = s\<lparr>now := now s + 5\<rparr>;
          s2 = (if events s1 AND cold_reset_event \<noteq> 0
                then reset_tlb (reset_dcache (reset_icache
                       ((set_cp0 Random (of_nat (tlb_size - 1)) s1)\<lparr>random_seed := now s1\<rparr>)))
                else s1);
          s3 = set_cp0 SR (mips_set_bit (cp0 s2 SR) SR_BEV) s2;
          s4 = s3\<lparr>mpc := reset_vector_base + reset_vector, mpipeline := nothing_special\<rparr>
      in (enter_kernel_mode s4)\<lparr>events := 0\<rparr>)"

text \<open>\<^verbatim>\<open>memset\<close> clears the bytes of one element, \<^verbatim>\<open>sizeof(mstate->cp1[32])\<close>, of each array.\<close>

definition mips_reset_state :: "'d mips_state \<Rightarrow> 'd mips_state" where
  "mips_reset_state s =
     (let s1 = (if \<not> warm s
                then s\<lparr>cp1 := (cp1 s)(0 := 0), fpr := (fpr s)(0 := 0), count_seed := now s, nop_count := 0\<rparr>
                else s);
          s2 = s1\<lparr>ll_bit := 0, sync_bit := 0\<rparr>;
          s3 = (if warm s2 then deliver_soft_reset s2 else deliver_cold_reset s2)
      in process_reset s3)"

subsection \<open>Initialisation (mips_arch_interface.c)\<close>

text \<open>The loops run to the logarithm of the number of sets.\<close>

definition init_caches :: "'d mips_state \<Rightarrow> 'd mips_state" where
  "init_caches s =
     (let f = (\<lambda>c i. if i < 8 then (c i)\<lparr>lru := lru_init (lru (c i))\<rparr> else c i)
      in s\<lparr>micache := f (micache s), mdcache := f (mdcache s)\<rparr>)"

definition init_tlb :: "'d mips_state \<Rightarrow> 'd mips_state" where
  "init_tlb s = s\<lparr>tlb_map := \<lambda>h. if h < tlb_map_size + 1 then None else tlb_map s h\<rparr>"

text \<open>
  \<open>old\<close> is the state \<^verbatim>\<open>mstate\<close> points to at entry, if any; its mode is written before the new state
  \<open>fresh\<close> is allocated.
\<close>

definition mips_init_state ::
  "('d mips_state \<Rightarrow> 'd mips_state) option \<Rightarrow> 'd mips_state option \<Rightarrow> 'd mips_state \<Rightarrow> 'd mips_state" where
  "mips_init_state mach_init old fresh =
     (let s = (case old of None \<Rightarrow> mips_halt Null_pointer fresh | Some _ \<Rightarrow> fresh);
          s1 = set_cp0 SR 0x40004 (s\<lparr>warm := False, bigendSig := 0, mirq_pending := False\<rparr>);
          s2 = init_tlb (init_caches s1)
      in case mach_init of Some f \<Rightarrow> f s2 | None \<Rightarrow> mips_halt Skyeye_exit s2)"

subsection \<open>Interrupts\<close>

definition mips_trigger_irq :: "'d mips_state \<Rightarrow> 'd mips_state" where
  "mips_trigger_irq s =
     (let cause = cp0 s Cause;
          epc = (if \<not> branch_delay_slot s then mpc s else mpc s - 4);
          cause1 = (if \<not> branch_delay_slot s then cause else mips_set_bit cause Cause_BD);
          s1 = set_cp0 EPC epc (set_cp0 Cause cause1 s)
      in s1\<lparr>mpc := if mips_bit (cp0 s1 SR) SR_BEV \<noteq> 0 then 0xbfc00380 else 0x80000180,
            mpipeline := nothing_special\<rparr>)"

text \<open>Count reaches Compare.\<close>

definition timer_interrupt :: "'d mips_state \<Rightarrow> 'd mips_state" where
  "timer_interrupt s =
     (let s1 = set_cp0 Count 0 s
      in if cp0 s1 SR AND bitmask SR_IEC \<noteq> 0 \<and> cp0 s1 SR AND bitmask SR_IM7 \<noteq> 0 \<and>
            cp0 s1 Cause AND bitmask Cause_IP7 = 0 \<and> cp0 s1 SR AND 2 = 0
         then process_exception EXC_Int common_vector (set_cp0 Cause (cp0 s1 Cause OR bitmask Cause_IP7) s1)
         else s1)"

definition mips_count :: "'d mips_state \<Rightarrow> 'd mips_state" where
  "mips_count s =
     (if cp0 s Compare \<noteq> 0
      then (let s1 = set_cp0 Count (cp0 s Count + 1) s
            in if cp0 s1 Compare \<le> cp0 s1 Count then timer_interrupt s1 else s1)
      else s)"

subsection \<open>A step\<close>

text \<open>The instruction at \<^verbatim>\<open>pc\<close>: its translation, fetch and execution.\<close>

definition fetch_decode :: "'d mips_board \<Rightarrow> 'd mips_state \<Rightarrow> mips_pipeline \<times> 'd mips_state" where
  "fetch_decode m s =
     (case translate_vaddr (mpc s) instr_fetch s of
        (TLB_SUCC pa, s1) \<Rightarrow> (case mips_mem_read pa (mjunk s1) 4 s1 of (instr, s2) \<Rightarrow> decode m instr s2)
      | (_, s1) \<Rightarrow> (nothing_special, s1))"

definition mips_finish :: "'d mips_board \<Rightarrow> mips_pipeline \<Rightarrow> 'd mips_state \<Rightarrow> 'd mips_state" where
  "mips_finish m next_state s = mach_do_cycle m (mips_count (s\<lparr>mpipeline := next_state\<rparr>))"

definition mips_retire :: "'d mips_board \<Rightarrow> mips_pipeline \<Rightarrow> 'd mips_state \<Rightarrow> 'd mips_state" where
  "mips_retire m next_state s =
     (case mpipeline s of
        nothing_special \<Rightarrow> mips_finish m next_state (s\<lparr>mpc := mpc s + 4\<rparr>)
      | branch_delay \<Rightarrow> mips_finish m next_state (s\<lparr>mpc := branch_target s\<rparr>)
      | instr_addr_error \<Rightarrow>
          (process_address_error instr_fetch (branch_target s) s)\<lparr>mpipeline := nothing_special\<rparr>
      | branch_nodelay \<Rightarrow> s\<lparr>mpipeline := nothing_special\<rparr>)"

definition mips_step_once :: "'d mips_board \<Rightarrow> 'd mips_state \<Rightarrow> 'd mips_state" where
  "mips_step_once m s =
     (let s1 = set_gpr 0 0 s;
          s2 = (if mirq_pending s1 then mips_trigger_irq s1 else s1);
          (next_state, s3) = fetch_decode m s2
      in mips_retire m next_state s3)"

subsection \<open>The interface to the front end\<close>

definition mips_set_pc :: "u32 \<Rightarrow> 'd mips_state \<Rightarrow> 'd mips_state" where
  "mips_set_pc addr s = s\<lparr>mpc := addr\<rparr>"

definition mips_get_pc :: "'d mips_state \<Rightarrow> u32" where
  "mips_get_pc s = mpc s"

text \<open>The bytes around the one of the caller are read and written too; only the byte matters here.\<close>

definition mips_ICE_read_byte :: "u32 \<Rightarrow> 'd mips_state \<Rightarrow> u8 \<times> 'd mips_state" where
  "mips_ICE_read_byte addr s = (case mips_mem_read addr (mjunk s) 1 s of (v, s1) \<Rightarrow> (ucast v, s1))"

definition mips_ICE_write_byte :: "u32 \<Rightarrow> u8 \<Rightarrow> 'd mips_state \<Rightarrow> 'd mips_state" where
  "mips_ICE_write_byte addr v s = mips_mem_write addr ((mjunk s AND NOT 0xff) OR ucast v) 1 s"

definition mips_machines :: "string option list" where
  "mips_machines = [Some ''nedved'', Some ''au1100'', Some ''fulong'', Some ''gs32eb1'', None]"

definition mips_parse_mach :: "string \<Rightarrow> halt_reason + nat option" where
  "mips_parse_mach p = scan_machines p mips_machines 0"

subsection \<open>64-bit products (multiply.c)\<close>

text \<open>The schoolbook product of two halves each; \<^verbatim>\<open>lo\<close> and \<^verbatim>\<open>hi\<close> keep its words 0 and 2.\<close>

definition product_words :: "u64 \<Rightarrow> u64 \<Rightarrow> u64 \<times> u64 \<times> u64 \<times> u64" where
  "product_words u v =
     (let u0 = mips_bits u 31 0; u1 = mips_bits u 63 32;
          v0 = mips_bits v 31 0; v1 = mips_bits v 63 32;
          t1 = u0 * v0 + 0 + 0; w0 = mips_bits t1 31 0; k1 = mips_bits t1 63 32;
          t2 = u1 * v0 + 0 + k1; w1 = mips_bits t2 31 0; w2 = mips_bits t2 63 32;
          t3 = u0 * v1 + w1 + 0; w1' = mips_bits t3 31 0; k3 = mips_bits t3 63 32;
          t4 = u1 * v1 + w2 + k3
      in (w0, w1', mips_bits t4 31 0, mips_bits t4 63 32))"

definition multiply_UInt64 :: "u64 \<Rightarrow> u64 \<Rightarrow> 'd mips_state \<Rightarrow> 'd mips_state" where
  "multiply_UInt64 u v s =
     (case product_words u v of
        (w0, w1, w2, w3) \<Rightarrow> s\<lparr>mlo := ucast (w0 OR push_bit 32 w1), mhi := ucast (w2 OR push_bit 32 w3)\<rparr>)"

definition multiply_Int64 :: "u64 \<Rightarrow> u64 \<Rightarrow> 'd mips_state \<Rightarrow> 'd mips_state" where
  "multiply_Int64 u v s =
     (let neg = ((sint u < 0) \<noteq> (sint v < 0));
          u1 = (if sint u < 0 then - u else u); v1 = (if sint v < 0 then - v else v);
          over = (sint u = - (2 ^ 63) \<or> sint v = - (2 ^ 63));
          s1 = multiply_UInt64 u1 v1 (if over then mips_halt Undefined_arith s else s)
      in if neg
         then (let lo1 = NOT (mlo s1) + 1; hi1 = NOT (mhi s1)
               in s1\<lparr>mlo := lo1, mhi := if lo1 = 0 then hi1 + 1 else hi1\<rparr>)
         else s1)"

end
