(* ===== verification/Mach_Nedved.thy ===== *)
theory Mach_Nedved
  imports Mips_Step
begin

text \<open>
  The Nedved board of the MIPS simulator (arch_mips/mach/skyeye_mach_nedved.c): a timer, an
  interrupt controller and a UART. Of the host side of the UART the model keeps the bytes that
  wait to be read and those written.
\<close>

subsection \<open>State\<close>

record nedved_io =
  nuart_baudrate :: u32
  nuart_char :: u32
  timer_initreg1 :: u32
  timer_compare1 :: u32
  timer_initreg2 :: u32
  timer_compare2 :: u32
  timer_counter1 :: u32
  timer_counter2 :: u32
  timer_controlreg1 :: u32
  timer_controlreg2 :: u32
  nisr :: u32
  nimr :: u32
  nuart_in :: "u8 list"
  nuart_out :: "u8 list"

definition RTC_INIT_REG1 :: u32 where "RTC_INIT_REG1 = 0xb8300000"
definition RTC_COMPARE1 :: u32 where "RTC_COMPARE1 = 0xb8300004"
definition RTC_INIT_REG2 :: u32 where "RTC_INIT_REG2 = 0xb8300008"
definition RTC_COMPARE2 :: u32 where "RTC_COMPARE2 = 0xb830000c"
definition RTC_COUNTER1 :: u32 where "RTC_COUNTER1 = 0xb8300010"
definition RTC_COUNTER2 :: u32 where "RTC_COUNTER2 = 0xb8300014"
definition RTC_CONTROL1 :: u32 where "RTC_CONTROL1 = 0xb8300018"
definition RTC_CONTROL2 :: u32 where "RTC_CONTROL2 = 0xb830001c"
definition INC_IMR :: u32 where "INC_IMR = 0xb8200004"
definition INC_ISR :: u32 where "INC_ISR = 0xb8200000"
definition UART_BAUDRATE :: u32 where "UART_BAUDRATE = 0xb8500000"
definition UART_CHAR :: u32 where "UART_CHAR = 0xb8500004"
definition INC_UART_RX :: u32 where "INC_UART_RX = 0x400"
definition INC_UART_TX :: u32 where "INC_UART_TX = 0x800"
definition INC_TIMER1 :: u32 where "INC_TIMER1 = 0x4000"
definition ImpRev :: u32 where "ImpRev = 0x2070"

lemmas nedved_map =
  RTC_INIT_REG1_def RTC_COMPARE1_def RTC_INIT_REG2_def RTC_COMPARE2_def RTC_COUNTER1_def RTC_COUNTER2_def RTC_CONTROL1_def RTC_CONTROL2_def INC_IMR_def INC_ISR_def UART_BAUDRATE_def UART_CHAR_def

subsection \<open>Registers\<close>

definition nedved_io_read_byte :: "u32 \<Rightarrow> nedved_io \<Rightarrow> u32 \<times> nedved_io" where
  "nedved_io_read_byte addr b =
     (if addr = RTC_INIT_REG1 then (timer_initreg1 b AND 0xff, b)
      else if addr = RTC_COMPARE1 then (timer_compare1 b AND 0xff, b)
      else if addr = RTC_INIT_REG2 then (timer_initreg2 b AND 0xff, b)
      else if addr = RTC_COMPARE2 then (timer_compare2 b AND 0xff, b)
      else if addr = RTC_COUNTER1 then (timer_counter1 b AND 0xff, b)
      else if addr = RTC_COUNTER2 then (timer_counter2 b AND 0xff, b)
      else if addr = RTC_CONTROL1 then (timer_controlreg1 b AND 0xff, b)
      else if addr = RTC_CONTROL2 then (timer_controlreg2 b AND 0xff, b)
      else if addr = INC_IMR then (nimr b AND 0xff, b)
      else if addr = INC_ISR then (nisr b AND 0xff, b)
      else if addr = UART_BAUDRATE then (nuart_baudrate b AND 0xff, b)
      else if addr = UART_CHAR then
        (nuart_char b AND 0xff, if nuart_char b AND 0xff \<noteq> 0 then b\<lparr>nisr := nisr b AND NOT INC_UART_TX\<rparr> else b)
      else (0, b))"

definition nedved_io_read_halfword :: "u32 \<Rightarrow> nedved_io \<Rightarrow> u32 \<times> nedved_io" where
  "nedved_io_read_halfword addr b =
     (if addr = RTC_INIT_REG1 then (timer_initreg1 b AND 0xffff, b)
      else if addr = RTC_COMPARE1 then (timer_compare1 b AND 0xffff, b)
      else if addr = RTC_INIT_REG2 then (timer_initreg2 b AND 0xffff, b)
      else if addr = RTC_COMPARE2 then (timer_compare2 b AND 0xffff, b)
      else if addr = RTC_COUNTER1 then (timer_counter1 b AND 0xffff, b)
      else if addr = RTC_COUNTER2 then (timer_counter2 b AND 0xffff, b)
      else if addr = RTC_CONTROL1 then (timer_controlreg1 b AND 0xffff, b)
      else if addr = RTC_CONTROL2 then (timer_controlreg2 b AND 0xffff, b)
      else if addr = INC_IMR then (nimr b AND 0xffff, b)
      else if addr = INC_ISR then (nisr b AND 0xffff, b)
      else if addr = UART_BAUDRATE then (nuart_baudrate b AND 0xffff, b)
      else if addr = UART_CHAR then (nuart_char b AND 0xffff, b)
      else (0, b))"

definition nedved_io_read_word :: "u32 \<Rightarrow> nedved_io \<Rightarrow> u32 \<times> nedved_io" where
  "nedved_io_read_word addr b =
     (if addr = RTC_INIT_REG1 then (timer_initreg1 b, b)
      else if addr = RTC_COMPARE1 then (timer_compare1 b, b)
      else if addr = RTC_INIT_REG2 then (timer_initreg2 b, b)
      else if addr = RTC_COMPARE2 then (timer_compare2 b, b)
      else if addr = RTC_COUNTER1 then (timer_counter1 b, b)
      else if addr = RTC_COUNTER2 then (timer_counter2 b, b)
      else if addr = RTC_CONTROL1 then (timer_controlreg1 b, b)
      else if addr = RTC_CONTROL2 then (timer_controlreg2 b, b)
      else if addr = INC_IMR then (nimr b, b)
      else if addr = INC_ISR then (nisr b, b)
      else if addr = UART_BAUDRATE then (nuart_baudrate b, b)
      else if addr = UART_CHAR then
        (nuart_char b, if nuart_char b \<noteq> 0 then b\<lparr>nisr := nisr b AND NOT INC_UART_TX\<rparr> else b)
      else (0, b))"

definition nedved_io_write_byte :: "u32 \<Rightarrow> u32 \<Rightarrow> nedved_io \<Rightarrow> nedved_io" where
  "nedved_io_write_byte addr data b =
     (if addr = RTC_INIT_REG1 then b\<lparr>timer_initreg1 := copy_bits32 (timer_initreg1 b) data 7 0\<rparr>
      else if addr = RTC_COMPARE1 then b\<lparr>timer_compare1 := copy_bits32 (timer_compare1 b) data 7 0\<rparr>
      else if addr = RTC_INIT_REG2 then b\<lparr>timer_initreg2 := copy_bits32 (timer_initreg2 b) data 7 0\<rparr>
      else if addr = RTC_COMPARE2 then b\<lparr>timer_compare2 := copy_bits32 (timer_compare2 b) data 7 0\<rparr>
      else if addr = RTC_COUNTER1 then b\<lparr>timer_counter1 := copy_bits32 (timer_counter1 b) data 7 0\<rparr>
      else if addr = RTC_COUNTER2 then b\<lparr>timer_counter2 := copy_bits32 (timer_counter2 b) data 7 0\<rparr>
      else if addr = RTC_CONTROL1 then b\<lparr>timer_controlreg1 := copy_bits32 (timer_controlreg1 b) data 7 0\<rparr>
      else if addr = RTC_CONTROL2 then b\<lparr>timer_controlreg2 := copy_bits32 (timer_controlreg2 b) data 7 0\<rparr>
      else if addr = INC_IMR then b\<lparr>nimr := copy_bits32 (nimr b) data 7 0\<rparr>
      else if addr = INC_ISR then b\<lparr>nisr := copy_bits32 (nisr b) data 7 0\<rparr>
      else if addr = UART_BAUDRATE then b\<lparr>nuart_baudrate := copy_bits32 (nuart_baudrate b) data 7 0\<rparr>
      else if addr = UART_CHAR then 
        (let b1 = b\<lparr>nisr := nisr b AND NOT INC_UART_RX, nuart_char := copy_bits32 (nuart_char b) data 7 0\<rparr>;
             b2 = b1\<lparr>nuart_out := nuart_out b1 @ [ucast (data AND 0xff)]\<rparr>
         in b2\<lparr>nisr := nisr b2 OR INC_UART_RX\<rparr>)
      else b)"

definition nedved_io_write_halfword :: "u32 \<Rightarrow> u32 \<Rightarrow> nedved_io \<Rightarrow> nedved_io" where
  "nedved_io_write_halfword addr data b =
     (if addr = RTC_INIT_REG1 then b\<lparr>timer_initreg1 := copy_bits32 (timer_initreg1 b) data 15 0\<rparr>
      else if addr = RTC_COMPARE1 then b\<lparr>timer_compare1 := copy_bits32 (timer_compare1 b) data 15 0\<rparr>
      else if addr = RTC_INIT_REG2 then b\<lparr>timer_initreg2 := copy_bits32 (timer_initreg2 b) data 15 0\<rparr>
      else if addr = RTC_COMPARE2 then b\<lparr>timer_compare2 := copy_bits32 (timer_compare2 b) data 15 0\<rparr>
      else if addr = RTC_COUNTER1 then b\<lparr>timer_counter1 := copy_bits32 (timer_counter1 b) data 15 0\<rparr>
      else if addr = RTC_COUNTER2 then b\<lparr>timer_counter2 := copy_bits32 (timer_counter2 b) data 15 0\<rparr>
      else if addr = RTC_CONTROL1 then b\<lparr>timer_controlreg1 := copy_bits32 (timer_controlreg1 b) data 15 0\<rparr>
      else if addr = RTC_CONTROL2 then b\<lparr>timer_controlreg2 := copy_bits32 (timer_controlreg2 b) data 15 0\<rparr>
      else if addr = INC_IMR then b\<lparr>nimr := copy_bits32 (nimr b) data 15 0\<rparr>
      else if addr = INC_ISR then b\<lparr>nisr := copy_bits32 (nisr b) data 15 0\<rparr>
      else if addr = UART_BAUDRATE then b\<lparr>nuart_baudrate := copy_bits32 (nuart_baudrate b) data 15 0\<rparr>
      else if addr = UART_CHAR then b\<lparr>nuart_char := copy_bits32 (nuart_char b) data 15 0\<rparr>
      else b)"

definition nedved_io_write_word :: "u32 \<Rightarrow> u32 \<Rightarrow> nedved_io \<Rightarrow> nedved_io" where
  "nedved_io_write_word addr data b =
     (if addr = RTC_INIT_REG1 then b\<lparr>timer_initreg1 := data, timer_counter1 := data\<rparr>
      else if addr = RTC_COMPARE1 then b\<lparr>timer_compare1 := data\<rparr>
      else if addr = RTC_INIT_REG2 then b\<lparr>timer_initreg2 := data\<rparr>
      else if addr = RTC_COMPARE2 then b\<lparr>timer_compare2 := data\<rparr>
      else if addr = RTC_COUNTER1 then b\<lparr>timer_counter1 := data\<rparr>
      else if addr = RTC_COUNTER2 then b\<lparr>timer_counter2 := data\<rparr>
      else if addr = RTC_CONTROL1 then b\<lparr>timer_controlreg1 := data\<rparr>
      else if addr = RTC_CONTROL2 then b\<lparr>timer_controlreg2 := data\<rparr>
      else if addr = INC_IMR then b\<lparr>nimr := data\<rparr>
      else if addr = INC_ISR then b\<lparr>nisr := data\<rparr>
      else if addr = UART_BAUDRATE then b\<lparr>nuart_baudrate := data\<rparr>
      else if addr = UART_CHAR then b\<lparr>nuart_char := data\<rparr>
      else b)"

subsection \<open>Cycles and interrupts\<close>

definition nedved_timer :: "nedved_io \<Rightarrow> nedved_io" where
  "nedved_timer b =
     (let b1 = b\<lparr>timer_counter1 := timer_counter1 b - 1\<rparr>
      in if timer_counter1 b1 = timer_compare1 b1
         then b1\<lparr>timer_counter1 := timer_initreg1 b1, nisr := nisr b1 OR INC_TIMER1\<rparr>
         else b1)"

definition nedved_uart :: "nedved_io \<Rightarrow> nedved_io" where
  "nedved_uart b =
     (if nuart_char b = 0 then b\<lparr>nisr := nisr b OR INC_UART_RX\<rparr>
      else (case nuart_in b of
              [] \<Rightarrow> b
            | c # cs \<Rightarrow> b\<lparr>nuart_char := ucast c, nisr := nisr b OR INC_UART_TX, nuart_in := cs\<rparr>))"

definition nedved_of :: "nedved_io mips_state \<Rightarrow> nedved_io" where
  "nedved_of s = board (io (mbus s))"

definition mips_update_irq_flag_fast :: "nedved_io mips_state \<Rightarrow> nedved_io mips_state" where
  "mips_update_irq_flag_fast s =
     (let s1 = s\<lparr>mirq_pending := False\<rparr>
      in if cp0 s1 SR AND bitmask SR_IEC = bitmask SR_IEC
         then (let imask = cp0 s1 SR AND 0xFF00
               in if cp0 s1 Cause AND imask \<noteq> 0 \<and> nimr (nedved_of s1) AND nisr (nedved_of s1) \<noteq> 0
                  then s1\<lparr>mirq_pending := True\<rparr> else s1)
         else s1)"

definition nedved_io_do_cycle :: "nedved_io mips_state \<Rightarrow> nedved_io mips_state" where
  "nedved_io_do_cycle s =
     mips_update_irq_flag_fast
       (s\<lparr>mbus := (mbus s)\<lparr>io := (io (mbus s))\<lparr>board := nedved_uart (nedved_timer (nedved_of s))\<rparr>\<rparr>\<rparr>)"

definition nedved_set_int :: "u32 \<Rightarrow> nedved_io mips_state \<Rightarrow> nedved_io mips_state" where
  "nedved_set_int irq s = s"

definition nedved_board :: "nedved_io mips_board" where
  "nedved_board = \<lparr>mach_set_intr = nedved_set_int, mach_do_cycle = nedved_io_do_cycle\<rparr>"

subsection \<open>The machine\<close>

definition on_nedved :: "(nedved_io \<Rightarrow> nedved_io) \<Rightarrow> nedved_io io_world \<Rightarrow> nedved_io io_world" where
  "on_nedved f w = w\<lparr>board := f (board w)\<rparr>"

definition read_nedved ::
  "(u32 \<Rightarrow> nedved_io \<Rightarrow> u32 \<times> nedved_io) \<Rightarrow> u32 \<Rightarrow> nedved_io io_world \<Rightarrow> u32 \<times> nedved_io io_world" where
  "read_nedved f a w = (case f a (board w) of (v, b) \<Rightarrow> (v, w\<lparr>board := b\<rparr>))"

text \<open>The handlers that \<^verbatim>\<open>nedved_mach_init\<close> installs; the cycle of the board is \<open>nedved_board\<close>.\<close>

definition nedved_machine :: "nedved_io device_desc list \<Rightarrow> nedved_io machine_config" where
  "nedved_machine devs =
     \<lparr>devices = [], mach_io_reset = None, mach_io_do_cycle = (\<lambda>w. w),
      mach_io_read_byte = read_nedved nedved_io_read_byte,
      mach_io_read_halfword = read_nedved nedved_io_read_halfword,
      mach_io_read_word = read_nedved nedved_io_read_word,
      mach_io_write_byte = (\<lambda>a v. on_nedved (nedved_io_write_byte a v)),
      mach_io_write_halfword = (\<lambda>a v. on_nedved (nedved_io_write_halfword a v)),
      mach_io_write_word = (\<lambda>a v. on_nedved (nedved_io_write_word a v))\<rparr>"

definition nedved_mach_init :: "nedved_io mips_state \<Rightarrow> nedved_io mips_state" where
  "nedved_mach_init s =
     (let s1 = (set_cp0 PRId ImpRev s)\<lparr>cp1 := (cp1 s)(0 := ImpRev)\<rparr>;
          b = (nedved_of s1)\<lparr>nisr := INC_UART_RX, nimr := 0, nuart_char := 0\<rparr>
      in s1\<lparr>mbus := (mbus s1)\<lparr>mach := nedved_machine (devices (mach (mbus s1))), io := (io (mbus s1))\<lparr>board := b\<rparr>\<rparr>\<rparr>)"

end
