(* ===== verification/Mach_S3c2440.thy ===== *)
theory Mach_S3c2440
  imports Arm_Init
begin

text \<open>
  The S3C2440 board (arch_arm/mach/skyeye_mach_s3c2440.c, s3c2440.h): interrupt controller with
  its sub-sources, timer 4, UART 0, clock registers. \<open>s3c2440_machine\<close> is the table of handlers
  that \<^verbatim>\<open>s3c2440_mach_init\<close> installs; it plugs the board into the bus.
\<close>

subsection \<open>State (s3c2440.h)\<close>

record s3c2440_timer_io =
  tcfg0 :: u32
  tcfg1 :: u32
  tcon :: u32
  tcnt :: "nat \<Rightarrow> u32"
  tcmp :: "nat \<Rightarrow> u32"
  tcntb :: "nat \<Rightarrow> u32"
  tcmpb :: "nat \<Rightarrow> u32"
  tcnto :: "nat \<Rightarrow> u32"

record s3c2440_uart_io =
  ulcon :: u32
  ucon :: u32
  ufcon :: u32
  umcon :: u32
  utrstat :: u32
  uerstat :: u32
  ufstat :: u32
  umstat :: u32
  utxh :: u32
  urxh :: u32
  ubrdiv :: u32

record s3c2440_clkpower =
  locktime :: u32
  mpllcon :: u32
  upllcon :: u32
  clkcon :: u32
  clkslow :: u32
  clkdivn :: u32

text \<open>
  \<open>host_rx\<close> and \<open>host_tx\<close> are the other side of \<^verbatim>\<open>skyeye_uart_read\<close> and \<^verbatim>\<open>skyeye_uart_write\<close>: the answers
  of the coming polls (\<open>None\<close>, or the end of the list, for no byte) and the bytes sent.
\<close>

record s3c2440_io =
  srcpnd :: u32
  intmod :: u32
  intmsk :: u32
  priority :: u32
  intpnd :: u32
  intoffset :: u32
  subsrcpnd :: u32
  intsubmsk :: u32
  timer :: s3c2440_timer_io
  uart0 :: s3c2440_uart_io
  clkpower :: s3c2440_clkpower
  tc_prescale :: int
  host_rx :: "u8 option list"
  host_tx :: "u8 list"

type_synonym s3c_world = "s3c2440_io io_world"

definition on_board :: "(s3c2440_io \<Rightarrow> s3c2440_io) \<Rightarrow> s3c_world \<Rightarrow> s3c_world" where
  "on_board f w = w\<lparr>board := f (board w)\<rparr>"

definition TC_DIVISOR :: int where "TC_DIVISOR = 1"

definition INT_UART0 :: u32 where "INT_UART0 = 0x10000000"
definition INT_UART1 :: u32 where "INT_UART1 = 0x800000"
definition INT_UART2 :: u32 where "INT_UART2 = 0x8000"
definition INT_TIMER4 :: u32 where "INT_TIMER4 = 0x4000"
definition INT_ADC :: u32 where "INT_ADC = 0x400"
definition INT_MASK_INIT :: u32 where "INT_MASK_INIT = 0xffffffff"
definition INT_SUBMSK_INIT :: u32 where "INT_SUBMSK_INIT = 0x7ff"
definition UART_INT_RXD :: u32 where "UART_INT_RXD = 1"
definition UART_INT_TXD :: u32 where "UART_INT_TXD = 2"
definition UART_ULCON_INIT :: u32 where "UART_ULCON_INIT = 3"
definition UART_UTRSTAT_INIT :: u32 where "UART_UTRSTAT_INIT = 6"

lemmas int_sources =
  INT_UART0_def INT_UART1_def INT_UART2_def INT_TIMER4_def INT_ADC_def INT_MASK_INIT_def
  INT_SUBMSK_INIT_def UART_INT_RXD_def UART_INT_TXD_def

subsection \<open>Interrupts\<close>

definition s3c2440_set_subsrcint :: "u32 \<Rightarrow> s3c2440_io \<Rightarrow> s3c2440_io" where
  "s3c2440_set_subsrcint irq b = b\<lparr>subsrcpnd := subsrcpnd b OR irq\<rparr>"

definition s3c2440_update_subsrcint :: "s3c2440_io \<Rightarrow> s3c2440_io" where
  "s3c2440_update_subsrcint b =
     (let b1 = s3c2440_set_subsrcint (push_bit 6 UART_INT_TXD)
                 (s3c2440_set_subsrcint (push_bit 3 UART_INT_TXD) (s3c2440_set_subsrcint UART_INT_TXD b));
          requests = (subsrcpnd b1 AND NOT (intsubmsk b1)) AND 0x7fff;
          b2 = (if requests AND 0x7 \<noteq> 0 then b1\<lparr>srcpnd := srcpnd b1 OR INT_UART0\<rparr> else b1);
          b3 = (if requests AND 0x38 \<noteq> 0 then b2\<lparr>srcpnd := srcpnd b2 OR INT_UART1\<rparr> else b2);
          b4 = (if requests AND 0x1c0 \<noteq> 0 then b3\<lparr>srcpnd := srcpnd b3 OR INT_UART2\<rparr> else b3)
      in if requests AND 0x600 \<noteq> 0 then b4\<lparr>srcpnd := srcpnd b4 OR INT_ADC\<rparr> else b4)"

definition s3c2440_update_int :: "s3c_world \<Rightarrow> s3c_world" where
  "s3c2440_update_int w =
     (let w1 = on_board s3c2440_update_subsrcint w;
          b = board w1;
          requests = srcpnd b AND (NOT (intmsk b) AND INT_MASK_INIT)
      in w1\<lparr>NfiqSig := (if requests AND intmod b \<noteq> 0 then 0 else 1),
            NirqSig := (if requests AND NOT (intmod b) \<noteq> 0 then 0 else 1)\<rparr>)"

subsection \<open>Reset and the periodic work\<close>

text \<open>The registers after \<^verbatim>\<open>memset\<close>; the host's side of the UART is not in the structure it clears.\<close>

definition s3c2440_zero :: "s3c2440_io \<Rightarrow> s3c2440_io" where
  "s3c2440_zero b =
     \<lparr>srcpnd = 0, intmod = 0, intmsk = 0, priority = 0, intpnd = 0, intoffset = 0, subsrcpnd = 0, intsubmsk = 0,
      timer = \<lparr>tcfg0 = 0, tcfg1 = 0, tcon = 0, tcnt = (\<lambda>i. 0), tcmp = (\<lambda>i. 0), tcntb = (\<lambda>i. 0),
               tcmpb = (\<lambda>i. 0), tcnto = (\<lambda>i. 0)\<rparr>,
      uart0 = \<lparr>ulcon = 0, ucon = 0, ufcon = 0, umcon = 0, utrstat = 0, uerstat = 0, ufstat = 0, umstat = 0,
               utxh = 0, urxh = 0, ubrdiv = 0\<rparr>,
      clkpower = \<lparr>locktime = 0, mpllcon = 0, upllcon = 0, clkcon = 0, clkslow = 0, clkdivn = 0\<rparr>,
      tc_prescale = 0, host_rx = host_rx b, host_tx = host_tx b\<rparr>"

definition s3c2440_io_reset :: "s3c_world \<Rightarrow> s3c_world" where
  "s3c2440_io_reset =
     on_board (\<lambda>b. let z = s3c2440_zero b in
       z\<lparr>tc_prescale := TC_DIVISOR,
         uart0 := (uart0 z)\<lparr>ulcon := UART_ULCON_INIT, utrstat := UART_UTRSTAT_INIT\<rparr>,
         clkpower := (clkpower z)\<lparr>locktime := 0x00FFFFFF, mpllcon := 0x0005C080, upllcon := 0x00028080,
                                  clkcon := 0x7FFF0, clkslow := 0x4\<rparr>,
         intmsk := INT_MASK_INIT, intpnd := 0\<rparr>)"

text \<open>\<^verbatim>\<open>skyeye_uart_read\<close> and \<^verbatim>\<open>skyeye_uart_write\<close> of one byte.\<close>

definition skyeye_uart_read :: "s3c2440_io \<Rightarrow> u8 option \<times> s3c2440_io" where
  "skyeye_uart_read b =
     (case host_rx b of [] \<Rightarrow> (None, b) | r # rs \<Rightarrow> (r, b\<lparr>host_rx := rs\<rparr>))"

definition skyeye_uart_write :: "u8 \<Rightarrow> s3c2440_io \<Rightarrow> s3c2440_io" where
  "skyeye_uart_write c b = b\<lparr>host_tx := host_tx b @ [c]\<rparr>"

definition timer4_expire :: "s3c2440_io \<Rightarrow> s3c2440_io" where
  "timer4_expire b =
     (let t = timer b
      in b\<lparr>timer := t\<lparr>tcnt := (tcnt t)(4 := tcntb t 4), tcnto := (tcnto t)(4 := tcntb t 4)\<rparr>,
           srcpnd := srcpnd b OR INT_TIMER4\<rparr>)"

definition uart_receive :: "u8 \<Rightarrow> s3c2440_io \<Rightarrow> s3c2440_io" where
  "uart_receive c b =
     s3c2440_set_subsrcint UART_INT_RXD
       (b\<lparr>uart0 := (uart0 b)\<lparr>urxh := ucast c, utrstat := utrstat (uart0 b) OR 1\<rparr>\<rparr>)"

definition uart_poll :: "s3c_world \<Rightarrow> s3c_world" where
  "uart_poll w =
     (let b = board w
      in if utrstat (uart0 b) AND 1 = 0 \<and> ucon (uart0 b) AND 3 = 1 then
           (case skyeye_uart_read b of
              (None, b1) \<Rightarrow> w\<lparr>board := b1\<rparr>
            | (Some c, b1) \<Rightarrow> s3c2440_update_int (w\<lparr>board := uart_receive c b1\<rparr>))
         else w)"

definition timer4_count :: "s3c2440_io \<Rightarrow> s3c2440_io" where
  "timer4_count b = b\<lparr>timer := (timer b)\<lparr>tcnt := (tcnt (timer b))(4 := tcnt (timer b) 4 - 1)\<rparr>\<rparr>"

definition s3c2440_io_do_cycle :: "s3c_world \<Rightarrow> s3c_world" where
  "s3c2440_io_do_cycle w =
     (let w1 = on_board (\<lambda>b. b\<lparr>tc_prescale := tc_prescale b - 1\<rparr>) w
      in if tc_prescale (board w1) < 0 then
           (let w2 = on_board (\<lambda>b. b\<lparr>tc_prescale := TC_DIVISOR\<rparr>) w1
            in if tcon (timer (board w2)) AND 0x100000 \<noteq> 0 then
                 (let w3 = on_board timer4_count w2
                  in if sint (tcnt (timer (board w3)) 4) < 0
                     then s3c2440_update_int (on_board timer4_expire w3)
                     else uart_poll w3)
               else uart_poll w2)
         else w1)"

subsection \<open>UART registers\<close>

definition s3c2440_uart_read :: "u32 \<Rightarrow> u32 \<Rightarrow> s3c2440_io \<Rightarrow> u32 \<times> s3c2440_io" where
  "s3c2440_uart_read offset old b =
     (let u = uart0 b
      in if offset = 0x0 then (ulcon u, b)
         else if offset = 0x4 then (ucon u, b)
         else if offset = 0x8 then (ufcon u, b)
         else if offset = 0xc then (umcon u, b)
         else if offset = 0x10 then (utrstat u, b)
         else if offset = 0x14 then (uerstat u, b)
         else if offset = 0x18 then (ufstat u, b)
         else if offset = 0x1c then (umstat u, b)
         else if offset = 0x24 then (urxh u, b\<lparr>uart0 := u\<lparr>utrstat := utrstat u AND NOT 1\<rparr>\<rparr>)
         else if offset = 0x28 then (ubrdiv u, b)
         else (old, b))"

definition uart_transmit :: "u32 \<Rightarrow> s3c_world \<Rightarrow> s3c_world" where
  "uart_transmit data w =
     (let w1 = on_board (\<lambda>b. let b1 = skyeye_uart_write (ucast data) b
                              in b1\<lparr>uart0 := (uart0 b1)\<lparr>utrstat := utrstat (uart0 b1) OR 6\<rparr>\<rparr>) w
      in if ucon (uart0 (board w1)) AND 0xc = 4
         then s3c2440_update_int (on_board (s3c2440_set_subsrcint UART_INT_TXD) w1) else w1)"

definition s3c2440_uart_write :: "u32 \<Rightarrow> u32 \<Rightarrow> s3c_world \<Rightarrow> s3c_world" where
  "s3c2440_uart_write offset data w =
     (let u = uart0 (board w); put = (\<lambda>u1. w\<lparr>board := (board w)\<lparr>uart0 := u1\<rparr>\<rparr>)
      in if offset = 0x0 then put (u\<lparr>ulcon := data\<rparr>)
         else if offset = 0x4 then put (u\<lparr>ucon := data\<rparr>)
         else if offset = 0x8 then put (u\<lparr>ufcon := data\<rparr>)
         else if offset = 0xc then put (u\<lparr>umcon := data\<rparr>)
         else if offset = 0x10 then put (u\<lparr>utrstat := data\<rparr>)
         else if offset = 0x14 then put (u\<lparr>uerstat := data\<rparr>)
         else if offset = 0x18 then put (u\<lparr>ufstat := data\<rparr>)
         else if offset = 0x1c then put (u\<lparr>umstat := data\<rparr>)
         else if offset = 0x20 then uart_transmit data w
         else if offset = 0x28 then put (u\<lparr>ubrdiv := data\<rparr>)
         else w)"

subsection \<open>Timer registers\<close>

definition s3c2440_timer_read :: "u32 \<Rightarrow> u32 \<Rightarrow> s3c2440_io \<Rightarrow> u32" where
  "s3c2440_timer_read offset old b =
     (let t = timer b
      in if offset = 0x0 then tcfg0 t
         else if offset = 0x4 then tcfg1 t
         else if offset = 0x8 then tcon t
         else if offset \<in> {0xc, 0x18, 0x24, 0x30, 0x3c} then tcntb t (unat ((offset - 0xc) div 0xc))
         else if offset \<in> {0x10, 0x1c, 0x28, 0x34} then tcmpb t (unat ((offset - 0x10) div 0xc))
         else if offset \<in> {0x14, 0x20, 0x2c, 0x38} then tcnto t (unat ((offset - 0x10) div 0xc))
         else if offset = 0x40 then tcnto t 4
         else old)"

definition s3c2440_timer_write :: "u32 \<Rightarrow> u32 \<Rightarrow> s3c2440_io \<Rightarrow> s3c2440_io" where
  "s3c2440_timer_write offset data b =
     (let t = timer b
      in if offset = 0x0 then b\<lparr>timer := t\<lparr>tcfg0 := data\<rparr>\<rparr>
         else if offset = 0x4 then b\<lparr>timer := t\<lparr>tcfg1 := data\<rparr>\<rparr>
         else if offset = 0x8 then b\<lparr>timer := t\<lparr>tcon := data\<rparr>\<rparr>
         else if offset \<in> {0xc, 0x18, 0x24, 0x30, 0x3c}
         then b\<lparr>timer := t\<lparr>tcntb := (tcntb t)(unat ((offset - 0xc) div 0xc) := 25350)\<rparr>\<rparr>
         else if offset \<in> {0x10, 0x1c, 0x28, 0x34}
         then b\<lparr>timer := t\<lparr>tcmpb := (tcmpb t)(unat ((offset - 0x10) div 0xc) := data)\<rparr>\<rparr>
         else b)"

subsection \<open>The register map\<close>

definition UART_CTL_BASE0 :: u32 where "UART_CTL_BASE0 = 0x50000000"
definition UART_CTL_SIZE :: u32 where "UART_CTL_SIZE = 0x802c"
definition PWM_CTL_BASE :: u32 where "PWM_CTL_BASE = 0x51000000"
definition PWM_CTL_SIZE :: u32 where "PWM_CTL_SIZE = 0x44"
definition SRCPND :: u32 where "SRCPND = 0x4a000000"
definition INTMOD :: u32 where "INTMOD = 0x4a000004"
definition INTMSK :: u32 where "INTMSK = 0x4a000008"
definition PRIORITY :: u32 where "PRIORITY = 0x4a00000c"
definition INTPND :: u32 where "INTPND = 0x4a000010"
definition INTOFFSET :: u32 where "INTOFFSET = 0x4a000014"
definition SUBSRCPND :: u32 where "SUBSRCPND = 0x4a000018"
definition INTSUBMSK :: u32 where "INTSUBMSK = 0x4a00001c"

lemmas s3c_addresses =
  UART_CTL_BASE0_def UART_CTL_SIZE_def PWM_CTL_BASE_def PWM_CTL_SIZE_def SRCPND_def INTMOD_def INTMSK_def
  PRIORITY_def INTPND_def INTOFFSET_def SUBSRCPND_def INTSUBMSK_def

text \<open>INTPND and INTOFFSET: the lowest bit of SRCPND.\<close>

definition read_pending :: "u32 \<Rightarrow> u32 \<Rightarrow> s3c2440_io \<Rightarrow> u32 \<times> s3c2440_io" where
  "read_pending addr old b =
     (let r = (case find (\<lambda>i. srcpnd b AND push_bit i 1 \<noteq> 0) [0 ..< 32] of
                 Some i \<Rightarrow> (if addr = INTPND then push_bit i 1 else word_of_nat i,
                            b\<lparr>intoffset := word_of_nat i, intpnd := push_bit i 1\<rparr>)
               | None \<Rightarrow> (0, b))
      in (fst r, (snd r)\<lparr>intpnd := push_bit (unat (intoffset (snd r))) 1\<rparr>))"

definition s3c2440_io_read_word :: "u32 \<Rightarrow> s3c_world \<Rightarrow> u32 \<times> s3c_world" where
  "s3c2440_io_read_word addr w =
     (let d0 = - 1;
          p1 = (if UART_CTL_BASE0 \<le> addr \<and> addr < UART_CTL_BASE0 + UART_CTL_SIZE
                then s3c2440_uart_read (addr - UART_CTL_BASE0) d0 (board w) else (d0, board w));
          b = snd p1;
          d = (if PWM_CTL_BASE \<le> addr \<and> addr < PWM_CTL_BASE + PWM_CTL_SIZE
               then s3c2440_timer_read (addr - PWM_CTL_BASE) (fst p1) b else fst p1);
          p2 = (if addr = SRCPND then (srcpnd b, b)
                else if addr = INTMOD then (intmod b, b)
                else if addr = INTMSK then (intmsk b, b)
                else if addr = PRIORITY then (priority b, b)
                else if addr = INTPND \<or> addr = INTOFFSET then read_pending addr d b
                else if addr = SUBSRCPND then (subsrcpnd b, b)
                else if addr = INTSUBMSK then (intsubmsk b, b)
                else if addr = 0x560000b0 then (0x32410000, b)
                else if addr = 0x4c000000 then (locktime (clkpower b), b)
                else if addr = 0x4c000004 then (mpllcon (clkpower b), b)
                else if addr = 0x4c000008 then (upllcon (clkpower b), b)
                else if addr = 0x4c00000c then (clkcon (clkpower b), b)
                else if addr = 0x4c000010 then (clkslow (clkpower b), b)
                else if addr = 0x4c000014 then (clkdivn (clkpower b), b)
                else (d, b))
      in (fst p2, w\<lparr>board := snd p2\<rparr>))"

definition s3c2440_io_read_byte :: "u32 \<Rightarrow> s3c_world \<Rightarrow> u32 \<times> s3c_world" where
  "s3c2440_io_read_byte addr w = s3c2440_io_read_word addr w"

definition s3c2440_io_read_halfword :: "u32 \<Rightarrow> s3c_world \<Rightarrow> u32 \<times> s3c_world" where
  "s3c2440_io_read_halfword addr w = s3c2440_io_read_word addr w"

definition s3c2440_io_write_word :: "u32 \<Rightarrow> u32 \<Rightarrow> s3c_world \<Rightarrow> s3c_world" where
  "s3c2440_io_write_word addr data w =
     (let w1 = (if UART_CTL_BASE0 \<le> addr \<and> addr < UART_CTL_BASE0 + UART_CTL_SIZE
                then s3c2440_uart_write (addr - UART_CTL_BASE0) data w else w);
          w2 = (if PWM_CTL_BASE \<le> addr \<and> addr < PWM_CTL_BASE + PWM_CTL_SIZE
                then on_board (s3c2440_timer_write (addr - PWM_CTL_BASE) data) w1 else w1)
      in if addr = SRCPND then on_board (\<lambda>b. b\<lparr>srcpnd := srcpnd b AND (NOT data AND INT_MASK_INIT)\<rparr>) w2
         else if addr = INTMOD then on_board (\<lambda>b. b\<lparr>intmod := data\<rparr>) w2
         else if addr = INTMSK then s3c2440_update_int (on_board (\<lambda>b. b\<lparr>intmsk := data\<rparr>) w2)
         else if addr = PRIORITY then on_board (\<lambda>b. b\<lparr>priority := data\<rparr>) w2
         else if addr = INTPND
         then on_board (\<lambda>b. b\<lparr>intpnd := intpnd b AND (NOT data AND INT_MASK_INIT), intoffset := 0\<rparr>) w2
         else if addr = SUBSRCPND
         then on_board (\<lambda>b. b\<lparr>subsrcpnd := subsrcpnd b AND (NOT data AND INT_SUBMSK_INIT)\<rparr>) w2
         else if addr = INTSUBMSK then on_board (\<lambda>b. b\<lparr>intsubmsk := data\<rparr>) w2
         else w2)"

definition s3c2440_io_write_byte :: "u32 \<Rightarrow> u32 \<Rightarrow> s3c_world \<Rightarrow> s3c_world" where
  "s3c2440_io_write_byte addr data w = s3c2440_io_write_word addr data w"

definition s3c2440_io_write_halfword :: "u32 \<Rightarrow> u32 \<Rightarrow> s3c_world \<Rightarrow> s3c_world" where
  "s3c2440_io_write_halfword addr data w = s3c2440_io_write_word addr data w"

subsection \<open>The machine\<close>

text \<open>\<open>devs\<close> are the devices of the configuration file, which the machine does not add to.\<close>

definition s3c2440_machine :: "s3c2440_io device_desc list \<Rightarrow> s3c2440_io machine_config" where
  "s3c2440_machine devs =
     \<lparr>devices = devs, mach_io_reset = Some s3c2440_io_reset, mach_io_do_cycle = s3c2440_io_do_cycle,
      mach_io_read_byte = s3c2440_io_read_byte, mach_io_read_halfword = s3c2440_io_read_halfword,
      mach_io_read_word = s3c2440_io_read_word, mach_io_write_byte = s3c2440_io_write_byte,
      mach_io_write_halfword = s3c2440_io_write_halfword, mach_io_write_word = s3c2440_io_write_word\<rparr>"

definition s3c2440_mach_init ::
  "(s3c2440_io arm_state \<Rightarrow> (nat \<Rightarrow> s3c2440_io coprocessor) \<times> s3c2440_io arm_state) \<Rightarrow>
   s3c2440_io arm_state \<Rightarrow> (nat \<Rightarrow> s3c2440_io coprocessor) \<times> s3c2440_io arm_state" where
  "s3c2440_mach_init coproinit s =
     (case ARMul_SelectProcessor coproinit ARM_v4_Prop s of
        (t, s1) \<Rightarrow>
          (t, (set_reg 1 241 (s1\<lparr>lateabtSig := False\<rparr>))
                \<lparr>bus := bus s1\<lparr>mach := s3c2440_machine (devices (mach (bus s1)))\<rparr>\<rparr>))"

end
