(* ===== verification/Mem_Config.thy ===== *)
theory Mem_Config
  imports Bus
begin

text \<open>
  The memory map of the configuration file: \<^verbatim>\<open>parse_mem\<close> (memory/parse_mem.c) reads one
  \<^verbatim>\<open>mem_bank\<close> line into the next entry of the bank table, and \<^verbatim>\<open>split_param\<close>
  (utils/config/skyeye_options.c) splits its parameters. The two buffers of
  \<^verbatim>\<open>parse_mem\<close> have 32 characters and nothing checks that a parameter fits.
\<close>

subsection \<open>Parameters\<close>

text \<open>
  \<^verbatim>\<open>split_param\<close>: the name before the first equality sign and the value after it. Without
  one the value is not written.
\<close>

definition split_param :: "string \<Rightarrow> string \<times> string option" where
  "split_param p =
     (let name = takeWhile (\<lambda>c. c \<noteq> CHR ''='') p; rest = dropWhile (\<lambda>c. c \<noteq> CHR ''='') p
      in (name, case rest of [] \<Rightarrow> None | _ # v \<Rightarrow> Some v))"

text \<open>\<^verbatim>\<open>!strncmp (word, s, strlen (s))\<close>: \<open>s\<close> is a prefix of the word.\<close>

definition abbreviates :: "string \<Rightarrow> string \<Rightarrow> bool" where
  "abbreviates s word \<longleftrightarrow> take (length s) word = s"

text \<open>\<^verbatim>\<open>strtoul\<close> for the bases 10 and 16, truncated to the field it is stored in.\<close>

definition digit_value :: "char \<Rightarrow> nat option" where
  "digit_value c =
     (let n = of_char c
      in if 48 \<le> n \<and> n \<le> 57 then Some (n - 48)
         else if 65 \<le> n \<and> n \<le> 90 then Some (n - 55)
         else if 97 \<le> n \<and> n \<le> 122 then Some (n - 87) else None)"

definition digits :: "nat \<Rightarrow> string \<Rightarrow> nat list" where
  "digits base s =
     map the (takeWhile (\<lambda>d. d \<noteq> None \<and> the d < base) (map digit_value s))"

definition strip_0x :: "nat \<Rightarrow> string \<Rightarrow> string" where
  "strip_0x base s =
     (if base = 16 \<and> length s \<ge> 2 \<and> s ! 0 = CHR ''0'' \<and> s ! 1 \<in> {CHR ''x'', CHR ''X''} \<and>
         digits 16 (drop 2 s) \<noteq> [] then drop 2 s else s)"

definition is_space :: "char \<Rightarrow> bool" where
  "is_space c \<longleftrightarrow> (let n = (of_char c :: nat) in n = 32 \<or> 9 \<le> n \<and> n \<le> 13)"

definition strtoul :: "nat \<Rightarrow> string \<Rightarrow> u32" where
  "strtoul base str =
     (let s = dropWhile is_space str;
          neg = (s \<noteq> [] \<and> hd s = CHR ''-'');
          s1 = (if s \<noteq> [] \<and> hd s \<in> {CHR ''-'', CHR ''+''} then tl s else s);
          n = foldl (\<lambda>a d. a * int base + int d) 0 (digits base (strip_0x base s1))
      in if 2 ^ 64 \<le> n then - 1
         else if neg then - word_of_int n else word_of_int n)"

definition parse_number :: "string \<Rightarrow> u32" where
  "parse_number v =
     (if length v \<ge> 2 \<and> v ! 0 = CHR ''0'' \<and> v ! 1 = CHR ''x'' then strtoul 16 v else strtoul 10 v)"

subsection \<open>One bank\<close>

definition MAX_BANK :: nat where "MAX_BANK = 32"
definition MAX_PARAM_NAME :: nat where "MAX_PARAM_NAME = 32"

text \<open>The table before the configuration is read.\<close>

definition empty_bank :: mem_bank where
  "empty_bank =
     \<lparr>bank_addr = 0, bank_len = 0, bank_write = None, bank_read = None, bank_filename = '''',
      bank_type = MEMTYPE_IO\<rparr>"

definition initial_banks :: "mem_bank list" where
  "initial_banks = replicate MAX_BANK empty_bank"

text \<open>One parameter: the entry and the start address after it.\<close>

definition parse_bank_param :: "string \<Rightarrow> string \<Rightarrow> mem_bank \<times> u32 \<Rightarrow> mem_bank \<times> u32" where
  "parse_bank_param name v p =
     (case p of (b, start) \<Rightarrow>
        if abbreviates name ''map'' then
          (if abbreviates v ''M''
           then (b\<lparr>bank_read := Some mem_read_fn, bank_write := Some mem_write_fn, bank_type := MEMTYPE_RAM\<rparr>, start)
           else if abbreviates v ''I''
           then (b\<lparr>bank_read := Some io_read_fn, bank_write := Some io_write_fn, bank_type := MEMTYPE_IO\<rparr>, start)
           else if abbreviates v ''F''
           then (b\<lparr>bank_read := Some flash_read_fn, bank_write := Some flash_write_fn, bank_type := MEMTYPE_FLASH\<rparr>, start)
           else (b, start))
        else if abbreviates name ''type'' then
          (if abbreviates v ''R''
           then (b\<lparr>bank_type := (if bank_type b = MEMTYPE_RAM then MEMTYPE_ROM else bank_type b),
                   bank_write := Some warn_write_fn\<rparr>, start)
           else (b, start))
        else if abbreviates name ''addr'' then (b\<lparr>bank_addr := parse_number v\<rparr>, start)
        else if abbreviates name ''size'' then (b\<lparr>bank_len := parse_number v\<rparr>, start)
        else if abbreviates name ''file'' then (b\<lparr>bank_filename := v\<rparr>, start)
        else if abbreviates name ''boot'' then
          (b, if abbreviates v ''yes'' then bank_addr b else start)
        else (b, start))"

text \<open>
  The loop over the parameters; \<open>old\<close> is what the value buffer holds. The result is \<open>None\<close> where
  a buffer overflows.
\<close>

fun parse_params :: "string list \<Rightarrow> string \<Rightarrow> mem_bank \<times> u32 \<Rightarrow> (mem_bank \<times> u32) option" where
  "parse_params [] old p = Some p"
| "parse_params (prm # prms) old p =
     (case split_param prm of
        (name, v) \<Rightarrow>
          let val = (case v of None \<Rightarrow> old | Some x \<Rightarrow> x)
          in if MAX_PARAM_NAME \<le> length name \<or> MAX_PARAM_NAME \<le> length val then None
             else parse_params prms val (parse_bank_param name val p))"

text \<open>
  \<^verbatim>\<open>parse_mem\<close>: the bus and \<^verbatim>\<open>skyeye_config.start_address\<close> after the line. An entry past the end of
  the table is written out of bounds. \<open>junk\<close> is the value buffer before the first parameter.
\<close>

definition parse_mem :: "string \<Rightarrow> string list \<Rightarrow> 'd bus \<times> u32 \<Rightarrow> 'd bus \<times> u32" where
  "parse_mem junk params p =
     (case p of (s, start) \<Rightarrow>
        let num = current_num s; s1 = s\<lparr>current_num := num + 1\<rparr>
        in if length (mem_banks s1) \<le> num then (bus_halt Out_of_bounds s1, start)
           else (case parse_params params junk ((mem_banks s1 ! num)\<lparr>bank_filename := ''''\<rparr>, start) of
                  None \<Rightarrow> (bus_halt Out_of_bounds s1, start)
                | Some (b, start1) \<Rightarrow> (s1\<lparr>mem_banks := (mem_banks s1)[num := b]\<rparr>, start1)))"

end
