(* ===== verification/Mips_Tlb_Spec.thy ===== *)
theory Mips_Tlb_Spec
  imports Mips_Tlb
begin

text \<open>
  The MIPS TLB as what it stands for, a fully associative memory. \<open>tlb_chains\<close> says that
  the pointers of the entries form the 65 hash chains; a reset establishes it, every
  write of an entry keeps it, and on it the walk of one chain ends and finds an entry
  exactly when one of the 48 matches.
\<close>

subsection \<open>Hash values\<close>

lemma mips_bits_take:
  assumes "n \<le> 63" "m \<le> n"
  shows "mips_bits x n m = take_bit (Suc n - m) (drop_bit m x)"
  unfolding mips_bits_def using assms
  by (intro bit_word_eqI) (auto simp: bit_drop_bit_eq bit_push_bit_iff bit_take_bit_iff)

lemma bits32_take:
  assumes "n \<le> 31" "m \<le> n"
  shows "bits32 x n m = take_bit (Suc n - m) (drop_bit m x)"
  unfolding bits32_def using assms
  by (intro bit_word_eqI) (auto simp: mips_bits_take bit_simps dest: bit_imp_le_length)

lemma mips_hash_page: "mips_hash va = unat (drop_bit 13 va) mod 64"
proof -
  have "bits32 va 31 13 = drop_bit 13 va"
    by (intro bit_word_eqI) (auto simp: bits32_take bit_simps dest: bit_imp_le_length)
  then show ?thesis by (simp add: mips_hash_def tlb_map_size_def)
qed

lemma mips_hash_lt: "mips_hash va < 64"
  by (simp add: mips_hash_page)

lemma mips_hash_global: "mips_hash (x OR 0x1000) = mips_hash x"
proof -
  have "drop_bit 13 (x OR 0x1000) = drop_bit 13 x" by (simp add: drop_bit_or drop_bit_Suc)
  then show ?thesis by (simp add: mips_hash_page)
qed

lemma match_hash: "entry_matches asid va e \<Longrightarrow> mips_hash (entry_hi e) = mips_hash va"
  by (simp add: entry_matches_def mips_hash_page)

subsection \<open>Doubly linked segments\<close>

text \<open>The entries \<open>xs\<close> from the pointer \<open>a0\<close> on; before the first is \<open>p\<close>, after the last is \<open>e\<close>.\<close>

fun seg :: "(nat \<Rightarrow> mips_tlb_entry) \<Rightarrow> nat option \<Rightarrow> nat option \<Rightarrow> nat list \<Rightarrow> nat option \<Rightarrow> bool" where
  "seg t p a0 [] e \<longleftrightarrow> a0 = e"
| "seg t p a0 (n # ns) e \<longleftrightarrow> a0 = Some n \<and> prev_entry (t n) = p \<and> seg t (Some n) (next_entry (t n)) ns e"

definition last_of :: "nat option \<Rightarrow> nat list \<Rightarrow> nat option" where
  "last_of p xs = (if xs = [] then p else Some (last xs))"

lemma last_of_simps [simp]: "last_of p [] = p" "last_of p (x # xs) = last_of (Some x) xs"
  by (simp_all add: last_of_def)

lemma seg_append: "seg t p a0 (xs @ ys) e \<longleftrightarrow> (\<exists>m. seg t p a0 xs m \<and> seg t (last_of p xs) m ys e)"
  by (induction xs arbitrary: p a0) auto

lemma seg_cong:
  assumes "\<And>x. x \<in> set xs \<Longrightarrow> prev_entry (t' x) = prev_entry (t x) \<and> next_entry (t' x) = next_entry (t x)"
  shows "seg t' p a0 xs e = seg t p a0 xs e"
  using assms by (induction xs arbitrary: p a0) auto

lemma seg_set_last:
  assumes "seg t p a0 xs m" "xs \<noteq> []" "distinct xs"
  shows "seg (t(last xs := (t (last xs))\<lparr>next_entry := e\<rparr>)) p a0 xs e"
proof -
  obtain ys y where xs: "xs = ys @ [y]" using assms(2) by (metis append_butlast_last_id)
  have "y \<notin> set ys" using assms(3) xs by simp
  then have "seg (t(y := (t y)\<lparr>next_entry := e\<rparr>)) p a0 ys (Some y)"
    using assms(1) xs by (subst seg_cong [where t = t]) (auto simp: seg_append)
  moreover have "prev_entry (t y) = last_of p ys" using assms(1) xs by (auto simp: seg_append)
  ultimately show ?thesis by (auto simp: xs seg_append)
qed

lemma seg_set_prev:
  assumes "seg t p (Some b) (b # bs) e" "distinct (b # bs)"
  shows "seg (t(b := (t b)\<lparr>prev_entry := q\<rparr>)) q (Some b) (b # bs) e"
proof -
  have "seg (t(b := (t b)\<lparr>prev_entry := q\<rparr>)) (Some b) (next_entry (t b)) bs e = seg t (Some b) (next_entry (t b)) bs e"
    using assms(2) by (intro seg_cong) auto
  then show ?thesis using assms(1) by simp
qed

subsection \<open>The invariant\<close>

text \<open>\<open>C h\<close> lists the entries on the chain of \<open>h\<close>; entries that were never written are on chain 64.\<close>

definition chains_are :: "(nat \<Rightarrow> nat list) \<Rightarrow> (nat \<Rightarrow> mips_tlb_entry) \<Rightarrow> (nat \<Rightarrow> nat option) \<Rightarrow> bool" where
  "chains_are C t mp \<longleftrightarrow>
     (\<forall>h \<le> 64. seg t None (mp h) (C h) None \<and> distinct (C h) \<and>
        (\<forall>n \<in> set (C h). n < 48 \<and> entry_hash (t n) = h \<and> entry_index (t n) = n \<and>
           (h < 64 \<longrightarrow> mips_hash (entry_hi (t n)) = h)))"

definition tlb_chains :: "'d mips_state \<Rightarrow> bool" where
  "tlb_chains s \<longleftrightarrow>
     (\<exists>C. chains_are C (mtlb s) (tlb_map s) \<and> (\<forall>n < 48. entry_hash (mtlb s n) \<le> 64 \<and> n \<in> set (C (entry_hash (mtlb s n)))))"

lemma chains_areD:
  assumes "chains_are C t mp" "h \<le> 64"
  shows "seg t None (mp h) (C h) None" "distinct (C h)"
    and "n \<in> set (C h) \<Longrightarrow> n < 48" "n \<in> set (C h) \<Longrightarrow> entry_hash (t n) = h"
    and "n \<in> set (C h) \<Longrightarrow> entry_index (t n) = n"
    and "n \<in> set (C h) \<Longrightarrow> h < 64 \<Longrightarrow> mips_hash (entry_hi (t n)) = h"
  using assms by (auto simp: chains_are_def)

subsection \<open>Pushing and unlinking\<close>

lemma push_tables:
  "mtlb (push_entry n h s) =
     (let t1 = (case tlb_map s h of None \<Rightarrow> mtlb s | Some e \<Rightarrow> (mtlb s)(e := (mtlb s e)\<lparr>prev_entry := Some n\<rparr>))
      in t1(n := (t1 n)\<lparr>next_entry := tlb_map s h, prev_entry := None\<rparr>))"
  "tlb_map (push_entry n h s) = (tlb_map s)(h := Some n)"
  by (simp_all add: push_entry_def set_entry_def set_map_def Let_def split: option.split)

lemma push_chains:
  assumes C: "chains_are C (mtlb s) (tlb_map s)"
    and h: "h \<le> 64" and n: "n < 48" "\<And>h'. h' \<le> 64 \<Longrightarrow> n \<notin> set (C h')"
    and new: "entry_hash (mtlb s n) = h" "entry_index (mtlb s n) = n"
      "h < 64 \<Longrightarrow> mips_hash (entry_hi (mtlb s n)) = h"
  shows "chains_are (C(h := n # C h)) (mtlb (push_entry n h s)) (tlb_map (push_entry n h s))"
proof -
  define t where "t = mtlb s"
  define t' where "t' = mtlb (push_entry n h s)"
  note D = chains_areD [OF C]
  have same: "entry_hash (t' x) = entry_hash (t x) \<and> entry_index (t' x) = entry_index (t x) \<and> entry_hi (t' x) = entry_hi (t x)" for x
    by (simp add: t'_def t_def push_tables Let_def split: option.split)
  have seg_other: "seg t' None (tlb_map s h') (C h') None" if "h' \<le> 64" "h' \<noteq> h" for h'
  proof -
    have "x \<noteq> n \<and> tlb_map s h \<noteq> Some x" if x: "x \<in> set (C h')" for x
    proof -
      have "tlb_map s h \<noteq> Some x"
      proof
        assume a: "tlb_map s h = Some x"
        then have "x \<in> set (C h)" using D(1) [OF h] by (cases "C h") auto
        then show False using D(4) [OF h] D(4) [OF \<open>h' \<le> 64\<close> x] \<open>h' \<noteq> h\<close> by auto
      qed
      then show ?thesis using n(2) [OF \<open>h' \<le> 64\<close>] x by auto
    qed
    then have "seg t' None (tlb_map s h') (C h') None = seg t None (tlb_map s h') (C h') None"
      by (intro seg_cong) (auto simp: t'_def t_def push_tables Let_def split: option.split)
    then show ?thesis using D(1) [OF \<open>h' \<le> 64\<close>] by (simp add: t_def)
  qed
  have "seg t' None (Some n) (n # C h) None"
  proof (cases "C h")
    case Nil
    then show ?thesis using D(1) [OF h] by (simp add: t'_def push_tables Let_def)
  next
    case (Cons b bs)
    have b: "tlb_map s h = Some b" using D(1) [OF h] Cons by simp
    have nb: "n \<notin> set (b # bs)" using n(2) [OF h] Cons by simp
    have "seg (t(b := (t b)\<lparr>prev_entry := Some n\<rparr>)) (Some n) (Some b) (b # bs) None"
      using D(1,2) [OF h] Cons by (intro seg_set_prev [where p = None]) (simp_all add: t_def)
    then have "seg t' (Some n) (Some b) (b # bs) None"
      using nb by (subst seg_cong [where t = "t(b := (t b)\<lparr>prev_entry := Some n\<rparr>)"])
        (auto simp: t'_def t_def push_tables b)
    then show ?thesis using Cons nb by (simp add: t'_def push_tables b)
  qed
  then show ?thesis
    unfolding chains_are_def using seg_other D n new h same
    by (fold t'_def) (auto simp: push_tables t_def)
qed

lemma unlink_tables:
  assumes "next_entry (mtlb s n) \<noteq> Some n"
  defines "t1 \<equiv> (case next_entry (mtlb s n) of None \<Rightarrow> mtlb s
     | Some e \<Rightarrow> (mtlb s)(e := (mtlb s e)\<lparr>prev_entry := prev_entry (mtlb s n)\<rparr>))"
  shows "mtlb (unlink_entry n s) =
      (case prev_entry (mtlb s n) of None \<Rightarrow> t1 | Some e \<Rightarrow> t1(e := (t1 e)\<lparr>next_entry := next_entry (mtlb s n)\<rparr>))"
    and "tlb_map (unlink_entry n s) =
      (case prev_entry (mtlb s n) of None \<Rightarrow> (tlb_map s)(entry_hash (mtlb s n) := next_entry (mtlb s n)) | Some e \<Rightarrow> tlb_map s)"
  using assms by (auto simp: unlink_entry_def set_entry_def set_map_def Let_def split: option.split)

text \<open>What unlinking does to the segment that holds the entry.\<close>

lemma unlink_seg:
  assumes t: "seg t None a0 (as @ n # bs) None" and "distinct (as @ n # bs)"
  defines "t1 \<equiv> (case next_entry (t n) of None \<Rightarrow> t | Some e \<Rightarrow> t(e := (t e)\<lparr>prev_entry := prev_entry (t n)\<rparr>))"
  shows "prev_entry (t n) = last_of None as" "next_entry (t n) = (if bs = [] then None else Some (hd bs))"
    and "seg (if as = [] then t1 else t1(last as := (t1 (last as))\<lparr>next_entry := next_entry (t n)\<rparr>))
          None (if as = [] then next_entry (t n) else a0) (as @ bs) None"
proof -
  have a: "seg t None a0 as (Some n)" and p: "prev_entry (t n) = last_of None as"
    and b: "seg t (Some n) (next_entry (t n)) bs None"
    using t by (auto simp: seg_append)
  show "prev_entry (t n) = last_of None as" by (fact p)
  show nx: "next_entry (t n) = (if bs = [] then None else Some (hd bs))" using b by (cases bs) auto
  have b1: "seg t1 (last_of None as) (next_entry (t n)) bs None"
    using b assms(2) nx p seg_set_prev [of t "Some n" "hd bs" "tl bs" None "last_of None as"]
    by (cases bs) (simp_all add: t1_def)
  have a1: "seg t1 None a0 as (Some n)"
  proof (cases bs)
    case (Cons c cs)
    then have "c \<notin> set as" using assms(2) by auto
    then show ?thesis using a nx Cons by (subst seg_cong [where t = t]) (auto simp: t1_def)
  qed (use a nx in \<open>simp add: t1_def\<close>)
  show "seg (if as = [] then t1 else t1(last as := (t1 (last as))\<lparr>next_entry := next_entry (t n)\<rparr>))
          None (if as = [] then next_entry (t n) else a0) (as @ bs) None"
  proof (cases "as = []")
    case False
    let ?t = "t1(last as := (t1 (last as))\<lparr>next_entry := next_entry (t n)\<rparr>)"
    have "last as \<notin> set bs" using assms(2) False by (auto dest: last_in_set)
    then have "seg ?t (last_of None as) (next_entry (t n)) bs None"
      using b1 by (subst seg_cong [where t = t1]) auto
    moreover have "seg ?t None a0 as (next_entry (t n))"
      using a1 assms(2) False by (intro seg_set_last) auto
    ultimately show ?thesis using False by (auto simp: seg_append)
  qed (use b1 in simp)
qed

lemma unlink_chains:
  assumes C: "chains_are C (mtlb s) (tlb_map s)" and h: "h \<le> 64" and n: "n \<in> set (C h)"
  shows "chains_are (C(h := remove1 n (C h))) (mtlb (unlink_entry n s)) (tlb_map (unlink_entry n s))"
    and "\<And>h'. h' \<le> 64 \<Longrightarrow> n \<notin> set ((C(h := remove1 n (C h))) h')"
proof -
  note D = chains_areD [OF C]
  define t where "t = mtlb s"
  define t' where "t' = mtlb (unlink_entry n s)"
  obtain as bs where xs: "C h = as @ n # bs" using n by (metis split_list)
  have dis: "distinct (as @ n # bs)" using D(2) [OF h] xs by simp
  note U = unlink_seg [OF D(1) [OF h, unfolded xs] dis]
  have nn: "next_entry (mtlb s n) \<noteq> Some n" using U(2) dis by (cases bs) auto
  have hn: "entry_hash (mtlb s n) = h" using D(4) [OF h n] .
  note T = unlink_tables [OF nn, unfolded hn]
  have r: "remove1 n (C h) = as @ bs" using xs dis by (simp add: remove1_append)
  have touched: "t' x = t x" if "x \<notin> set as" "x \<notin> set bs" for x
  proof -
    have "bs \<noteq> [] \<Longrightarrow> x \<noteq> hd bs" "as \<noteq> [] \<Longrightarrow> x \<noteq> last as" using that by auto
    then show ?thesis by (simp add: t'_def t_def T(1) U(1,2) last_of_def)
  qed
  have same: "entry_hash (t' x) = entry_hash (t x) \<and> entry_index (t' x) = entry_index (t x) \<and> entry_hi (t' x) = entry_hi (t x)" for x
    by (simp add: t'_def t_def T split: option.split)
  have other: "seg t' None (tlb_map (unlink_entry n s) h') (C h') None" if "h' \<le> 64" "h' \<noteq> h" for h'
  proof -
    have "t' x = t x" if x: "x \<in> set (C h')" for x
      using D(4) [OF \<open>h' \<le> 64\<close> x] D(4) [OF h] \<open>h' \<noteq> h\<close> xs by (intro touched) auto
    then have "seg t' None (tlb_map s h') (C h') None = seg t None (tlb_map s h') (C h') None"
      by (intro seg_cong) simp
    then show ?thesis using D(1) [OF \<open>h' \<le> 64\<close>] \<open>h' \<noteq> h\<close> by (simp add: t_def T split: option.split)
  qed
  have "seg t' None (tlb_map (unlink_entry n s) h) (as @ bs) None"
    using U(1,3) by (cases "as = []") (simp_all add: t'_def T last_of_def)
  then show "chains_are (C(h := remove1 n (C h))) (mtlb (unlink_entry n s)) (tlb_map (unlink_entry n s))"
    unfolding chains_are_def
  proof (intro allI impI)
    fix k :: nat
    assume k: "k \<le> 64"
    have sub: "set ((C(h := remove1 n (C h))) k) \<subseteq> set (C k)" using xs r by auto
    have dk: "distinct ((C(h := remove1 n (C h))) k)" using D(2) [OF k] dis r by auto
    have sk: "seg t' None (tlb_map (unlink_entry n s) k) ((C(h := remove1 n (C h))) k) None"
      using \<open>seg t' None (tlb_map (unlink_entry n s) h) (as @ bs) None\<close> other [OF k] r by (cases "k = h") simp_all
    have "x < 48 \<and> entry_hash (t' x) = k \<and> entry_index (t' x) = x \<and> (k < 64 \<longrightarrow> mips_hash (entry_hi (t' x)) = k)"
      if "x \<in> set ((C(h := remove1 n (C h))) k)" for x
    proof -
      have x: "x \<in> set (C k)" using that sub by blast
      show ?thesis
        using D(3) [OF k x] D(4) [OF k x] D(5) [OF k x] D(6) [OF k x] same [of x] by (simp add: t_def)
    qed
    then show "seg (mtlb (unlink_entry n s)) None (tlb_map (unlink_entry n s) k) ((C(h := remove1 n (C h))) k) None \<and>
        distinct ((C(h := remove1 n (C h))) k) \<and>
        (\<forall>x \<in> set ((C(h := remove1 n (C h))) k). x < 48 \<and> entry_hash (mtlb (unlink_entry n s) x) = k \<and>
           entry_index (mtlb (unlink_entry n s) x) = x \<and>
           (k < 64 \<longrightarrow> mips_hash (entry_hi (mtlb (unlink_entry n s) x)) = k))"
      using dk sk unfolding t'_def by blast
  qed
  show "\<And>h'. h' \<le> 64 \<Longrightarrow> n \<notin> set ((C(h := remove1 n (C h))) h')"
    using r dis D(4) hn by auto
qed

lemma set_off_chain:
  assumes C: "chains_are C (mtlb s) (tlb_map s)" and n: "\<And>h. h \<le> 64 \<Longrightarrow> n \<notin> set (C h)"
  shows "chains_are C (mtlb (set_entry n f s)) (tlb_map (set_entry n f s))"
  unfolding chains_are_def
proof (intro allI impI)
  fix h :: nat
  assume h: "h \<le> 64"
  have off: "x \<noteq> n" if "x \<in> set (C h)" for x using n [OF h] that by auto
  have "seg (mtlb (set_entry n f s)) None (tlb_map s h) (C h) None = seg (mtlb s) None (tlb_map s h) (C h) None"
    using off by (intro seg_cong) (simp add: set_entry_def)
  then show "seg (mtlb (set_entry n f s)) None (tlb_map (set_entry n f s) h) (C h) None \<and> distinct (C h) \<and>
      (\<forall>x \<in> set (C h). x < 48 \<and> entry_hash (mtlb (set_entry n f s) x) = h \<and> entry_index (mtlb (set_entry n f s) x) = x \<and>
         (h < 64 \<longrightarrow> mips_hash (entry_hi (mtlb (set_entry n f s) x)) = h))"
    using chains_areD [OF C h] off by (simp add: set_entry_def)
qed

lemma entry_hash_links:
  "entry_hash (mtlb (push_entry n h s) x) = entry_hash (mtlb s x)"
  "entry_hash (mtlb (unlink_entry n s) x) = entry_hash (mtlb s x)"
  "entry_hi (mtlb (push_entry n h s) x) = entry_hi (mtlb s x)"
  "entry_hi (mtlb (unlink_entry n s) x) = entry_hi (mtlb s x)"
  "lo_reg (mtlb (push_entry n h s) x) = lo_reg (mtlb s x)"
  "lo_reg (mtlb (unlink_entry n s) x) = lo_reg (mtlb s x)"
  by (simp_all add: push_entry_def unlink_entry_def set_entry_def set_map_def Let_def split: option.split)

subsection \<open>The writers keep the chains\<close>

lemma set_tlb_entry_chains:
  assumes "tlb_chains s"
  shows "tlb_chains (set_tlb_entry n s)"
proof (cases "unat n < 48")
  case True
  obtain C where C: "chains_are C (mtlb s) (tlb_map s)"
    and all: "\<And>m. m < 48 \<Longrightarrow> entry_hash (mtlb s m) \<le> 64 \<and> m \<in> set (C (entry_hash (mtlb s m)))"
    using assms by (auto simp: tlb_chains_def)
  define h0 h where "h0 = entry_hash (mtlb s (unat n))" and "h = mips_hash (cp0 s EntryHi)"
  define C1 where "C1 = C(h0 := remove1 (unat n) (C h0))"
  define s1 where "s1 = unlink_entry (unat n) s"
  define s2 where "s2 = set_entry (unat n) (filled_entry n s) s1"
  have h0: "h0 \<le> 64" "unat n \<in> set (C h0)" using all [OF True] by (simp_all add: h0_def)
  note U = unlink_chains [OF C h0, folded C1_def s1_def]
  have h: "h < 64" by (simp add: h_def mips_hash_lt)
  have e: "mtlb s2 (unat n) = filled_entry n s (mtlb s1 (unat n))" by (simp add: s2_def set_entry_def)
  have "chains_are (C1(h := unat n # C1 h)) (mtlb (push_entry (unat n) h s2)) (tlb_map (push_entry (unat n) h s2))"
  proof (rule push_chains)
    show "chains_are C1 (mtlb s2) (tlb_map s2)" unfolding s2_def by (rule set_off_chain [OF U(1)]) (rule U(2))
    show "\<And>h'. h' \<le> 64 \<Longrightarrow> unat n \<notin> set (C1 h')" by (rule U(2))
  qed (use h True in \<open>simp_all add: e filled_entry_def h_def mips_hash_global\<close>)
  moreover have "set_tlb_entry n s = push_entry (unat n) h s2"
    using True by (simp add: set_tlb_entry_def s1_def s2_def h_def tlb_size_def Let_def)
  moreover have "entry_hash (mtlb (push_entry (unat n) h s2) m) \<le> 64 \<and>
      m \<in> set ((C1(h := unat n # C1 h)) (entry_hash (mtlb (push_entry (unat n) h s2) m)))" if "m < 48" for m
  proof (cases "m = unat n")
    case True
    then show ?thesis using h by (simp add: entry_hash_links e filled_entry_def h_def)
  next
    case False
    then have "entry_hash (mtlb (push_entry (unat n) h s2) m) = entry_hash (mtlb s m)"
      by (simp add: entry_hash_links s2_def s1_def set_entry_def)
    then show ?thesis using all [OF that] False by (auto simp: C1_def)
  qed
  ultimately show ?thesis unfolding tlb_chains_def by auto
next
  case False
  then show ?thesis using assms by (simp add: set_tlb_entry_def tlb_size_def Let_def)
qed

lemma reset_some:
  fixes s :: "'d mips_state"
  assumes "k \<le> 48" and "\<And>h. tlb_map s h = None"
  defines "r \<equiv> fold reset_entry [0..<k] s"
  shows "chains_are (\<lambda>h::nat. if h = 64 then rev [0..<k] else []) (mtlb r) (tlb_map r) \<and> (\<forall>n < k. entry_hash (mtlb r n) = 64)"
  using assms(1) unfolding r_def
proof (induction k)
  case 0
  then show ?case using assms(2) by (simp add: chains_are_def)
next
  case (Suc k)
  define q where "q = fold reset_entry [0..<k] s"
  define q1 where "q1 = set_entry k (\<lambda>e. e\<lparr>entry_index := k, entry_hash := tlb_map_size\<rparr>) q"
  let ?C = "\<lambda>h::nat. if h = 64 then rev [0..<k] else []"
  have IH: "chains_are ?C (mtlb q) (tlb_map q)" "\<forall>n < k. entry_hash (mtlb q n) = 64"
    using Suc by (simp_all add: q_def)
  have "chains_are (?C((64::nat) := k # ?C 64)) (mtlb (push_entry k 64 q1)) (tlb_map (push_entry k 64 q1))"
  proof (rule push_chains)
    show "chains_are ?C (mtlb q1) (tlb_map q1)" unfolding q1_def by (rule set_off_chain [OF IH(1)]) simp
  qed (use Suc.prems in \<open>simp_all add: q1_def set_entry_def tlb_map_size_def\<close>)
  moreover have "?C((64::nat) := k # ?C 64) = (\<lambda>h::nat. if h = 64 then rev [0..<Suc k] else [])" by (rule ext) simp
  moreover have "fold reset_entry [0..<Suc k] s = push_entry k 64 q1"
    by (simp add: q_def q1_def reset_entry_def tlb_map_size_def)
  moreover have "\<forall>n < Suc k. entry_hash (mtlb (push_entry k 64 q1) n) = 64"
    using IH(2) by (auto simp: entry_hash_links q1_def set_entry_def tlb_map_size_def less_Suc_eq)
  ultimately show ?case by simp
qed

lemma reset_tlb_chains: "tlb_chains (reset_tlb s)"
proof -
  have *: "chains_are (\<lambda>h::nat. if h = 64 then rev [0..<48] else []) (mtlb (reset_tlb s)) (tlb_map (reset_tlb s)) \<and>
      (\<forall>n < 48. entry_hash (mtlb (reset_tlb s) n) = 64)"
    using reset_some [of 48 "s\<lparr>tlb_map := \<lambda>h. None\<rparr>"] by (simp only: reset_tlb_def tlb_size_def) simp
  show ?thesis
    unfolding tlb_chains_def
    by (intro exI [of _ "\<lambda>h::nat. if h = 64 then rev [0..<48] else []"]) (use * in auto)
qed

subsection \<open>The walk\<close>

lemma walk_segment: "seg t p a0 xs None \<Longrightarrow> probe_chain t asid va a0 = Some (find (\<lambda>n. entry_matches asid va (t n)) xs)"
  by (induction xs arbitrary: p a0) (subst probe_chain.simps, auto)+

definition entry_valid :: "'d mips_state \<Rightarrow> u32 \<Rightarrow> nat \<Rightarrow> bool" where
  "entry_valid s va n \<longleftrightarrow> n < 48 \<and> entry_hash (mtlb s n) \<noteq> 64 \<and> entry_matches (cp0 s EntryHi) va (mtlb s n)"

lemma probe_finds:
  assumes "tlb_chains s"
  shows "\<exists>r. probe_tlb va s = Some r \<and> (\<forall>n. r = Some n \<longrightarrow> entry_valid s va n) \<and> (r = None \<longrightarrow> (\<forall>n. \<not> entry_valid s va n))"
proof -
  obtain C where C: "chains_are C (mtlb s) (tlb_map s)"
    and all: "\<And>m. m < 48 \<Longrightarrow> entry_hash (mtlb s m) \<le> 64 \<and> m \<in> set (C (entry_hash (mtlb s m)))"
    using assms by (auto simp: tlb_chains_def)
  define h where "h = mips_hash va"
  let ?Q = "\<lambda>n. entry_matches (cp0 s EntryHi) va (mtlb s n)"
  have h: "h < 64" "h \<le> 64" using mips_hash_lt [of va] by (simp_all add: h_def)
  note D = chains_areD [OF C h(2)]
  have p: "probe_tlb va s = Some (find ?Q (C h))"
    using walk_segment [OF D(1)] by (simp add: probe_tlb_def h_def)
  have "entry_valid s va n" if "find ?Q (C h) = Some n" for n
    using that D(3,4) h by (auto simp: entry_valid_def find_Some_iff)
  moreover have "\<not> entry_valid s va n" if "find ?Q (C h) = None" for n
  proof
    assume v: "entry_valid s va n"
    then have n: "n < 48" "entry_hash (mtlb s n) \<noteq> 64" "?Q n" by (auto simp: entry_valid_def)
    define k where "k = entry_hash (mtlb s n)"
    have k: "k < 64" "n \<in> set (C k)" using all [OF n(1)] n(2) by (simp_all add: k_def)
    then have "k = h" using chains_areD(6) [OF C, of k n] match_hash [OF n(3)] by (simp add: h_def)
    then show False using k(2) n(3) that by (auto simp: find_None_iff)
  qed
  ultimately show ?thesis using p by auto
qed

end
