(* ===== verification/Mips_Step_Spec.thy ===== *)
theory Mips_Step_Spec
  imports Mips_Tlb_Spec Mach_Nedved
begin

text \<open>
  What every step of the MIPS simulator keeps. The locale \<open>mips_keeps\<close> is the interface between a
  predicate on states and the instructions: if the primitive updates keep the predicate, every
  instruction, every exception and a step do. It is interpreted for the hash chains of the TLB and for
  the modes the processor can be in.
\<close>

locale mips_keeps =
  fixes P :: "'d mips_state \<Rightarrow> bool"
  assumes kgpr: "P s \<Longrightarrow> P (set_gpr r v s)"
    and kcp0: "P s \<Longrightarrow> P (set_cp0 r v s)"
    and kpc: "P s \<Longrightarrow> P (s\<lparr>mpc := v\<rparr>)"
    and kpipe: "P s \<Longrightarrow> P (s\<lparr>mpipeline := p\<rparr>)"
    and kbranch: "P s \<Longrightarrow> P (s\<lparr>branch_target := v\<rparr>)"
    and khi: "P s \<Longrightarrow> P (s\<lparr>mhi := v\<rparr>)"
    and klo: "P s \<Longrightarrow> P (s\<lparr>mlo := v\<rparr>)"
    and know: "P s \<Longrightarrow> P (s\<lparr>now := v64\<rparr>)"
    and kseed: "P s \<Longrightarrow> P (s\<lparr>count_seed := v64\<rparr>)"
    and kevents: "P s \<Longrightarrow> P (s\<lparr>events := v16\<rparr>)"
    and kread: "P s \<Longrightarrow> P (snd (mips_mem_read pa v len s))"
    and kwrite: "P s \<Longrightarrow> P (mips_mem_write pa v len s)"
    and khalt: "P s \<Longrightarrow> P (mips_halt h s)"
    and kenter: "P s \<Longrightarrow> P (s\<lparr>mmode := kmode\<rparr>)"
    and kleave: "P s \<Longrightarrow> P (s\<lparr>mmode := umode\<rparr>) \<and> P (s\<lparr>mmode := mmode s OR kmode\<rparr>)"
    and ktlb: "P s \<Longrightarrow> P (set_tlb_entry n s)"
begin

lemmas kept = kgpr kcp0 kpc kpipe kbranch khi klo know kseed kevents kread kwrite khalt kenter ktlb

lemma kept_exception: "P s \<Longrightarrow> P (process_exception c v s)"
  by (simp add: process_exception_def enter_kernel_mode_def Let_def kept)

lemma kept_exceptions:
  assumes "P s"
  shows "P (process_address_error ty va s)" "P (process_tlb_refill ty va s)" "P (process_tlb_invalid ty va s)"
    "P (process_tlb_modified va s)" "P (process_integer_overflow s)" "P (process_syscall s)"
    "P (process_reserved_instruction s)" "P (process_coprocessor_unusable c s)"
  using assms
  by (simp_all add: process_address_error_def process_tlb_refill_def process_tlb_invalid_def process_tlb_modified_def
      process_integer_overflow_def process_syscall_def process_reserved_instruction_def
      process_coprocessor_unusable_def tlb_fault_regs_def Let_def kept kept_exception)

lemma kept_leave: "P s \<Longrightarrow> P (leave_kernel_mode s)"
  using kleave [OF kcp0] by (simp add: leave_kernel_mode_def Let_def)

lemma kept_translate: "P s \<Longrightarrow> P (snd (translate_vaddr va ty s))"
  by (simp add: translate_vaddr_def translate_mapped_def Let_def kept_exceptions khalt split: option.split)

lemma kept_access:
  assumes "P s"
  shows "P (load_rt n f i va pa s)" "P (store_rt n i va pa s)" "P (snd (load_word_at va pa s))"
    "P (store_word_at v va pa s)" "P (check_align b ty va s)"
  using assms
  by (simp_all add: load_rt_def store_rt_def load_word_at_def store_word_at_def mips_load_def mips_store_def
      check_align_def case_prod_beta kept kept_exceptions)

lemma kept_translated:
  assumes "P s" "\<And>pa s. P s \<Longrightarrow> P (f pa s)"
  shows "P (snd (mips_translated va ty f s))"
  using kept_translate [OF assms(1), of va ty] assms(2)
  by (auto simp: mips_translated_def split: prod.split translation.split)

lemma kept_alu:
  assumes "P s"
  shows "P (snd (mips_SLL i s))" "P (snd (mips_SRL i s))" "P (snd (mips_SRA i s))" "P (snd (mips_SLLV i s))"
    "P (snd (mips_SRLV i s))" "P (snd (mips_SRAV i s))" "P (snd (mips_MOVZ i s))" "P (snd (mips_MOVN i s))"
    "P (snd (mips_MFHI i s))" "P (snd (mips_MTHI i s))" "P (snd (mips_MFLO i s))" "P (snd (mips_MTLO i s))"
    "P (snd (mips_MULT i s))" "P (snd (mips_MULTU i s))" "P (snd (mips_DIV i s))" "P (snd (mips_DIVU i s))"
    "P (snd (mips_ADD i s))" "P (snd (mips_ADDU i s))" "P (snd (mips_SUB i s))" "P (snd (mips_SUBU i s))"
    "P (snd (mips_AND i s))" "P (snd (mips_OR i s))" "P (snd (mips_XOR i s))" "P (snd (mips_NOR i s))"
    "P (snd (mips_SLT i s))" "P (snd (mips_SLTU i s))" "P (snd (mips_ADDI i s))" "P (snd (mips_ADDIU i s))"
    "P (snd (mips_SLTI i s))" "P (snd (mips_SLTIU i s))" "P (snd (mips_ANDI i s))" "P (snd (mips_ORI i s))"
    "P (snd (mips_XORI i s))" "P (snd (mips_LUI i s))" "P (snd (mips_MADD i s))" "P (snd (mips_MUL i s))"
    "P (snd (mips_CLZ i s))"
  using assms
  by (simp_all add: mips_SLL_def mips_SRL_def mips_SRA_def mips_SLLV_def mips_SRLV_def mips_SRAV_def mips_MOVZ_def
      mips_MOVN_def mips_MFHI_def mips_MTHI_def mips_MFLO_def mips_MTLO_def mips_MULT_def mips_MULTU_def mips_DIV_def
      mips_DIVU_def mips_ADD_def mips_ADDU_def mips_SUB_def mips_SUBU_def mips_AND_def mips_OR_def mips_XOR_def
      mips_NOR_def mips_SLT_def mips_SLTU_def mips_ADDI_def mips_ADDIU_def mips_SLTI_def mips_SLTIU_def mips_ANDI_def
      mips_ORI_def mips_XORI_def mips_LUI_def mips_MADD_def mips_MUL_def mips_CLZ_def set_rd_def set_rt_def set_hilo_def
      Let_def kept kept_exceptions)

lemma kept_jumps:
  assumes "P s"
  shows "P (snd (mips_JR i s))" "P (snd (mips_JALR i s))" "P (snd (mips_J i s))" "P (snd (mips_JAL i s))"
    "P (snd (mips_BLTZ i s))" "P (snd (mips_BGEZ i s))" "P (snd (mips_BLTZL i s))" "P (snd (mips_BGEZL i s))"
    "P (snd (mips_BEQ i s))" "P (snd (mips_BNE i s))" "P (snd (mips_BLEZ i s))" "P (snd (mips_BGTZ i s))"
    "P (snd (mips_BEQL i s))" "P (snd (mips_BNEL i s))" "P (snd (mips_BLEZL i s))" "P (snd (mips_BGTZL i s))"
    "P (snd (mips_BLTZAL i s))" "P (snd (mips_BGEZAL i s))" "P (snd (mips_SYSCALL i s))"
    "P (snd (mips_reserved i s))" "P (snd (mips_nothing i s))"
  using assms
  by (simp_all add: mips_JR_def mips_JALR_def mips_J_def mips_JAL_def mips_BLTZ_def mips_BGEZ_def mips_BLTZL_def
      mips_BGEZL_def mips_BEQ_def mips_BNE_def mips_BLEZ_def mips_BGTZ_def mips_BEQL_def mips_BNEL_def mips_BLEZL_def
      mips_BGTZL_def mips_BLTZAL_def mips_BGEZAL_def mips_SYSCALL_def mips_reserved_def mips_nothing_def
      jump_register_def mips_branch_def mips_branch_likely_def Let_def kept kept_exceptions)

lemma kept_loads_stores:
  assumes "P s"
  shows "P (snd (mips_LB i s))" "P (snd (mips_LH i s))" "P (snd (mips_LW i s))" "P (snd (mips_LBU i s))"
    "P (snd (mips_LHU i s))" "P (snd (mips_LWL i s))" "P (snd (mips_LWR i s))" "P (snd (mips_SB i s))"
    "P (snd (mips_SH i s))" "P (snd (mips_SWL i s))" "P (snd (mips_SWR i s))" "P (snd (mips_SW i s))"
    "P (snd (mips_LL i s))" "P (snd (mips_SC i s))"
  unfolding mips_LB_def mips_LH_def mips_LW_def mips_LBU_def mips_LHU_def mips_LWL_def mips_LWR_def mips_SB_def
    mips_SH_def mips_SWL_def mips_SWR_def mips_SW_def mips_LL_def mips_SC_def Let_def
  using assms
  by (intro kept_translated; simp add: case_prod_beta kept kept_access kept_exceptions)+

lemma kept_cop0_reads: "P s \<Longrightarrow> P (snd (read_cp0 n sel s))"
  by (simp add: read_cp0_def khalt split: option.split)

lemma kept_cop0:
  assumes "P s"
  shows "P (write_cp0 n x s)" "P (cop0_TLBR s)" "P (cop0_TLBWI s)" "P (cop0_TLBWR s)" "P (cop0_TLBP s)"
  using assms
  by (simp_all add: write_cp0_def advance_clock_def cop0_TLBR_def cop0_TLBWI_def cop0_TLBWR_def cop0_TLBP_def
      Let_def kept split: option.split)

lemma kept_eret: "P s \<Longrightarrow> (\<And>irq s. P s \<Longrightarrow> P (mach_set_intr m irq s)) \<Longrightarrow> P (cop0_ERET m s)"
  by (simp add: cop0_ERET_def Let_def kept)

lemma kept_decode_cop0:
  assumes "P s" "\<And>irq s. P s \<Longrightarrow> P (mach_set_intr m irq s)"
  shows "P (snd (decode_cop0 m i s))"
proof -
  define s1 where "s1 = (if mmode s AND kmode = 0 \<and> mips_bit (cp0 s SR) SR_CU0 = 0 then process_coprocessor_unusable 0 s else s)"
  have "P s1" using assms(1) by (simp add: s1_def kept_exceptions)
  then show ?thesis
    using kept_eret [OF _ assms(2)]
    unfolding decode_cop0_def s1_def [symmetric] Let_def case_prod_beta
    by (simp add: set_rt_def kept kept_cop0 kept_cop0_reads kept_jumps kept_leave)
qed

lemma kept_groups:
  assumes "P s"
  shows "P (snd (decode_special i s))" "P (snd (decode_regimm i s))" "P (snd (decode_special2 i s))" "P (snd (decode_cop1 i s))"
  using assms
  by (simp_all add: decode_special_def decode_regimm_def decode_special2_def decode_cop1_def set_rt_def Let_def
      kept kept_alu kept_jumps kept_exceptions)

lemma kept_decode:
  assumes "P s" "\<And>irq s. P s \<Longrightarrow> P (mach_set_intr m irq s)"
  shows "P (snd (decode m i s))"
  by (simp add: decode_def Let_def kept_groups [OF assms(1)] kept_alu [OF assms(1)] kept_jumps [OF assms(1)]
      kept_loads_stores [OF assms(1)] kept_decode_cop0 [OF assms])

lemma kept_irq: "P s \<Longrightarrow> P (mips_trigger_irq s)"
  by (simp add: mips_trigger_irq_def Let_def kept)

lemma kept_count: "P s \<Longrightarrow> P (mips_count s)"
  by (simp add: mips_count_def timer_interrupt_def Let_def kept kept_exception)

lemma kept_step:
  assumes "P s" and intr: "\<And>irq s. P s \<Longrightarrow> P (mach_set_intr m irq s)" and cycle: "\<And>s. P s \<Longrightarrow> P (mach_do_cycle m s)"
  shows "P (mips_step_once m s)"
proof -
  have f: "P (snd (fetch_decode m s))" if "P s" for s
  proof -
    obtain r s1 where t: "translate_vaddr (mpc s) instr_fetch s = (r, s1)" by (cases "translate_vaddr (mpc s) instr_fetch s")
    then have "P s1" using kept_translate [OF that, of "mpc s" instr_fetch] by simp
    then show ?thesis
      using kept_decode [OF kread intr] by (simp add: fetch_decode_def t case_prod_beta split: translation.split)
  qed
  have r: "P (mips_retire m p s)" if "P s" for p s
    using that by (simp add: mips_retire_def mips_finish_def kept kept_count kept_exceptions cycle split: mips_pipeline.split)
  show ?thesis
    unfolding mips_step_once_def Let_def case_prod_beta
    by (rule r, rule f) (use assms(1) in \<open>simp add: kept kept_irq\<close>)
qed

end

subsection \<open>The chains of the TLB\<close>

lemma tlb_chains_cong: "mtlb s' = mtlb s \<Longrightarrow> tlb_map s' = tlb_map s \<Longrightarrow> tlb_chains s' = tlb_chains s"
  by (simp add: tlb_chains_def)

lemma tlb_of_memory [simp]:
  "mtlb (snd (mips_mem_read pa v n s)) = mtlb s" "tlb_map (snd (mips_mem_read pa v n s)) = tlb_map s"
  "mmode (snd (mips_mem_read pa v n s)) = mmode s" "mtlb (mips_mem_write pa v n s) = mtlb s"
  "tlb_map (mips_mem_write pa v n s) = tlb_map s" "mmode (mips_mem_write pa v n s) = mmode s"
  "mtlb (mips_halt h s) = mtlb s" "tlb_map (mips_halt h s) = tlb_map s" "mmode (mips_halt h s) = mmode s"
  by (simp_all add: mips_mem_read_def mips_mem_write_def mips_halt_def split: prod.split)

interpretation chains: mips_keeps tlb_chains
  by unfold_locales (simp_all add: set_tlb_entry_chains, simp_all add: tlb_chains_def set_gpr_def set_cp0_def)

lemma nedved_hooks:
  assumes "P s" "\<And>s p. P s \<Longrightarrow> P (s\<lparr>mirq_pending := p\<rparr>)" "\<And>s b. P s \<Longrightarrow> P (s\<lparr>mbus := b\<rparr>)"
  shows "P (mach_set_intr nedved_board irq s)" "P (mach_do_cycle nedved_board s)"
  using assms by (simp_all add: nedved_board_def nedved_set_int_def nedved_io_do_cycle_def mips_update_irq_flag_fast_def Let_def)

lemma chains_hooks:
  assumes "tlb_chains s"
  shows "tlb_chains (mach_set_intr nedved_board irq s)" "tlb_chains (mach_do_cycle nedved_board s)"
  using nedved_hooks [where P = tlb_chains, OF assms] by (simp_all add: tlb_chains_def)

lemma reset_chains: "\<not> warm s \<Longrightarrow> tlb_chains (mips_reset_state s)"
  using reset_tlb_chains
  by (simp add: mips_reset_state_def process_reset_def deliver_cold_reset_def enter_kernel_mode_def cold_reset_event_def
      Let_def or.assoc)
    (simp add: tlb_chains_def set_cp0_def)

text \<open>The board when it starts, and the states of a run from its reset.\<close>

definition nedved_start :: "nedved_io mips_state option \<Rightarrow> nedved_io mips_state \<Rightarrow> nedved_io mips_state" where
  "nedved_start old fresh = mips_init_state (Some nedved_mach_init) old fresh"

definition nedved_run :: "nat \<Rightarrow> nedved_io mips_state \<Rightarrow> nedved_io mips_state" where
  "nedved_run k s = (mips_step_once nedved_board ^^ k) (mips_reset_state s)"

lemma run_induct:
  assumes "P (mips_reset_state s)" "\<And>s. P s \<Longrightarrow> P (mips_step_once nedved_board s)"
  shows "P (nedved_run k s)"
  using assms by (induction k) (simp_all add: nedved_run_def)

lemma start_is_cold: "\<not> warm (nedved_start old fresh)"
  by (simp add: nedved_start_def mips_init_state_def nedved_mach_init_def mips_halt_def init_tlb_def init_caches_def
      set_cp0_def Let_def split: option.split)

lemma run_chains: "\<not> warm s \<Longrightarrow> tlb_chains (nedved_run k s)"
  by (rule run_induct [of tlb_chains], erule reset_chains) (intro chains.kept_step chains_hooks)

text \<open>C6. The TLB of the MIPS simulator is a well-formed set of hash chains at every moment of a run: from
  the start of the board on, whatever the program, the exceptions and the devices do, the pointers of
  the 48 entries form one doubly linked list for every hash value and one for the unused entries,
  every entry is on the list of its own hash value, and on no other.\<close>

theorem run_keeps_chains:
  "\<exists>C. chains_are C (mtlb (nedved_run k (nedved_start old fresh))) (tlb_map (nedved_run k (nedved_start old fresh))) \<and>
     (\<Union>h \<le> 64. set (C h)) = {..<48}"
proof -
  obtain C where C: "chains_are C (mtlb (nedved_run k (nedved_start old fresh))) (tlb_map (nedved_run k (nedved_start old fresh)))"
    and all: "\<And>n. n < 48 \<Longrightarrow> \<exists>h \<le> 64. n \<in> set (C h)"
    using run_chains [OF start_is_cold, of k old fresh] unfolding tlb_chains_def by metis
  have "(\<Union>h \<le> 64. set (C h)) = {..<48}" using all chains_areD(3) [OF C] by (fastforce simp: atMost_iff)
  with C show ?thesis by blast
qed

text \<open>C5. The hash table of the TLB is a fully associative memory: at every moment of a run, and for every
  address, the walk of the one chain that the address selects ends; it finds an entry that was
  written and matches the address and the current address space, and it finds none only
  when none of the 48 entries does.\<close>

theorem lookup_is_associative:
  fixes old :: "nedved_io mips_state option" and fresh :: "nedved_io mips_state" and k :: nat
  defines "s \<equiv> nedved_run k (nedved_start old fresh)"
  shows "(\<exists>n. probe_tlb va s = Some (Some n) \<and> entry_valid s va n) \<or>
    (probe_tlb va s = Some None \<and> (\<forall>n. \<not> entry_valid s va n))"
  using probe_finds [OF run_chains [OF start_is_cold, of k old fresh], of va] unfolding s_def
  by (metis option.exhaust)

subsection \<open>Modes\<close>

definition mode_ok :: "'d mips_state \<Rightarrow> bool" where
  "mode_ok s \<longleftrightarrow> mmode s = kmode \<or> mmode s = umode \<or> mmode s = umode OR kmode"

interpretation modes: mips_keeps mode_ok
  by unfold_locales (auto simp: mode_ok_def set_gpr_def set_cp0_def set_tlb_entry_def push_entry_def unlink_entry_def
      set_entry_def set_map_def mips_modes Let_def split: option.split)

text \<open>The processor is little-endian for ever.\<close>

theorem run_is_little_endian: "mode_ok (nedved_run k s) \<and> \<not> big_endian_cpu (nedved_run k s)"
proof -
  have "mode_ok (nedved_run k s)"
  proof (rule run_induct [of mode_ok])
    show "mode_ok (mips_reset_state s)"
      by (simp add: mips_reset_state_def process_reset_def enter_kernel_mode_def mode_ok_def Let_def)
    fix s :: "nedved_io mips_state"
    assume "mode_ok s"
    then show "mode_ok (mips_step_once nedved_board s)"
      using nedved_hooks [where P = mode_ok] by (intro modes.kept_step) (simp_all add: mode_ok_def)
  qed
  then show ?thesis by (auto simp: mode_ok_def big_endian_cpu_def mips_modes)
qed

end
