(* ===== verification/Mips_Spec.thy ===== *)
theory Mips_Spec
  imports Mips_Step_Spec Arith32
begin

text \<open>
  What the instructions of the MIPS simulator compute: the bit-field macros as fields of words,
  shifts, overflows and leading zeros against their definitions, unaligned accesses, branches and
  their delay slots, exceptions, and the protection of the kernel's addresses.
\<close>

subsection \<open>Bit fields\<close>

lemma bit_mips_bitsmask: "n \<le> 63 \<Longrightarrow> m \<le> n \<Longrightarrow> bit (mips_bitsmask n m) k \<longleftrightarrow> m \<le> k \<and> k \<le> n"
  by (auto simp: mips_bitsmask_def bit_simps dest: bit_imp_le_length)

lemma bit_bits32: "n \<le> 31 \<Longrightarrow> m \<le> n \<Longrightarrow> bit (bits32 x n m) k \<longleftrightarrow> k \<le> n - m \<and> bit x (m + k)"
  by (auto simp: bits32_take bit_simps dest: bit_imp_le_length)

lemma bit_copy_bits32:
  assumes "n \<le> 31" "m \<le> n" "k < 32"
  shows "bit (copy_bits32 x y n m) k \<longleftrightarrow> (if m \<le> k \<and> k \<le> n then bit y (k - m) else bit x k)"
  using assms
  by (auto simp: copy_bits32_def copy_bits_def mips_clear_bits_def mips_bits_take bit_mips_bitsmask bit_simps dest: bit_imp_le_length)

lemma bit_sign_extend:
  assumes "0 < n" "n < 32" "k < 32"
  shows "bit (sign_extend_UInt32 x n) k \<longleftrightarrow> bit x (if k < n then k else n - 1)"
proof -
  have s: "mips_bit x (n - 1) \<noteq> 0 \<longleftrightarrow> bit x (n - 1)"
    by (auto simp: mips_bit_def and_one_eq bit_iff_odd_drop_bit odd_iff_mod_2_eq_one)
  show ?thesis
    using assms unfolding sign_extend_UInt32_def s
    by (auto simp: mips_set_bits_def mips_clear_bits_def bit_mips_bitsmask bit_simps)
qed

lemma sign_extend_16: "sign_extend_UInt32 (mips_offset i) 16 = scast (ucast i :: 16 word)"
proof (rule bit_word_eqI)
  fix n
  assume "n < LENGTH(32)"
  then show "bit (sign_extend_UInt32 (mips_offset i) 16) n \<longleftrightarrow> bit (scast (ucast i :: 16 word) :: u32) n"
    by (cases "n = 15") (auto simp: bit_sign_extend mips_offset_def bit_bits32 bit_simps min_def)
qed

lemma mips_imm_offset: "mips_imm i = scast (ucast i :: 16 word)"
  by (simp add: mips_imm_def sign_extend_16)

subsection \<open>Shifts and leading zeros\<close>

lemma sra_as_extension:
  assumes "n < 32"
  shows "sign_extend_UInt32 (drop_bit n x) (32 - n) = (if n = 0 then 0 else signed_drop_bit n x)"
proof (cases "n = 0")
  case False
  then show ?thesis using assms
    by (intro bit_word_eqI) (auto simp: bit_sign_extend bit_simps min_def)
qed (simp add: sign_extend_UInt32_def)

text \<open>C0. The shift instructions are the architecture's: SLLV, SRL and SRLV, SRAV in all cases, and SRA for
  every amount but zero, for which it gives 0 and not the operand.\<close>

theorem shifts_exact:
  "snd (mips_SRA i s) = set_gpr (mips_rd i)
     (if mips_shamt i = 0 then 0 else signed_drop_bit (mips_shamt i) (gpr s (mips_rt i))) s"
  "snd (mips_SRAV i s) = set_gpr (mips_rd i) (signed_drop_bit (unat (gpr s (mips_rs i)) mod 32) (gpr s (mips_rt i))) s"
  "snd (mips_SRLV i s) = set_gpr (mips_rd i) (drop_bit (unat (gpr s (mips_rs i)) mod 32) (gpr s (mips_rt i))) s"
  "snd (mips_SLLV i s) = set_gpr (mips_rd i) (push_bit (unat (gpr s (mips_rs i)) mod 32) (gpr s (mips_rt i))) s"
proof -
  have v: "shift_var i s = unat (gpr s (mips_rs i)) mod 32"
    by (simp add: shift_var_def reg_rs_def bits32_take unsigned_take_bit_eq take_bit_eq_mod unat_mod)
  have "mips_shamt i < 32" using take_bit_nat_less_exp [of 5 "unat (drop_bit 6 i)"]
    by (simp add: mips_shamt_def bits32_take unsigned_take_bit_eq)
  then show "snd (mips_SRA i s) = set_gpr (mips_rd i)
     (if mips_shamt i = 0 then 0 else signed_drop_bit (mips_shamt i) (gpr s (mips_rt i))) s"
    by (simp add: mips_SRA_def set_rd_def reg_rt_def sra_as_extension)
  define n where "n = shift_var i s"
  define x where "x = gpr s (mips_rt i)"
  have n: "n < 32" by (simp add: n_def v)
  have "(if 0x80000000 AND x \<noteq> 0 then 0xFFFFFFFF AND NOT (drop_bit n 0xFFFFFFFF) else 0) OR drop_bit n x = signed_drop_bit n x"
  proof -
    have ff: "(0xFFFFFFFF :: u32) = mask 32" "(0x80000000 :: u32) = push_bit 31 1" by (simp_all add: mask_eq_exp_minus_1)
    show ?thesis
      unfolding ff bit_iff_and_push_bit_not_eq_0 [of x 31, symmetric, unfolded and.commute [of x]]
      using n by (intro bit_word_eqI) (auto simp: bit_simps min_def simp del: push_bit_of_1 dest: bit_imp_le_length)
  qed
  then show "snd (mips_SRAV i s) = set_gpr (mips_rd i) (signed_drop_bit (unat (gpr s (mips_rs i)) mod 32) (gpr s (mips_rt i))) s"
    by (simp only: mips_SRAV_def set_rd_def reg_rt_def Let_def n_def x_def v snd_conv)
  show "snd (mips_SRLV i s) = set_gpr (mips_rd i) (drop_bit (unat (gpr s (mips_rs i)) mod 32) (gpr s (mips_rt i))) s"
    "snd (mips_SLLV i s) = set_gpr (mips_rd i) (push_bit (unat (gpr s (mips_rs i)) mod 32) (gpr s (mips_rt i))) s"
    by (simp_all add: mips_SRLV_def mips_SLLV_def set_rd_def reg_rt_def v)
qed

lemma clz_loop_exact:
  assumes "n \<le> 32" "\<And>k. n \<le> k \<Longrightarrow> k < 32 \<Longrightarrow> \<not> bit x k"
  shows "mips_clz_loop n x \<le> 32 \<and> (\<forall>k < 32. 32 - mips_clz_loop n x \<le> k \<longrightarrow> \<not> bit x k) \<and>
    (mips_clz_loop n x < 32 \<longrightarrow> bit x (31 - mips_clz_loop n x))"
  using assms
proof (induction n)
  case (Suc n)
  have t: "x AND push_bit n 1 \<noteq> 0 \<longleftrightarrow> bit x n"
    by (simp add: bit_iff_and_push_bit_not_eq_0)
  show ?case
  proof (cases "bit x n")
    case True
    then show ?thesis using Suc.prems t by auto
  next
    case False
    then have "\<And>k. n \<le> k \<Longrightarrow> k < 32 \<Longrightarrow> \<not> bit x k" using Suc.prems(2) by (metis Suc_leI le_neq_implies_less)
    then show ?thesis using Suc.IH Suc.prems(1) False t by simp
  qed
qed simp

lemma word_below_power:
  fixes x :: u32
  assumes "\<And>k. n \<le> k \<Longrightarrow> k < 32 \<Longrightarrow> \<not> bit x k"
  shows "uint x < 2 ^ n"
proof -
  have "take_bit n x = x" using assms by (intro bit_word_eqI) (auto simp: bit_simps not_le [symmetric])
  then have "uint x = take_bit n (uint x)" by (metis unsigned_take_bit_eq)
  then show ?thesis by (metis take_bit_int_less_exp)
qed

lemma word_above_power:
  fixes x :: u32
  assumes "bit x n"
  shows "2 ^ n \<le> uint x"
proof (rule ccontr)
  assume "\<not> 2 ^ n \<le> uint x"
  then have "take_bit n (uint x) = uint x" by (intro take_bit_int_eq_self) simp_all
  moreover have "bit (uint x) n" using assms bit_imp_le_length [OF assms] by (simp add: bit_uint_iff)
  ultimately show False by (metis bit_take_bit_iff less_irrefl)
qed

text \<open>CLZ counts the leading zeros of its operand, 32 for zero: the operand is below the power of two that
  the count leaves, and not below half of it.\<close>

theorem clz_exact:
  "\<exists>n \<le> 32. snd (mips_CLZ i s) = set_gpr (mips_rd i) (of_nat n) s \<and> uint (gpr s (mips_rs i)) < 2 ^ (32 - n) \<and>
     (n = 32 \<or> 2 ^ (31 - n) \<le> uint (gpr s (mips_rs i)))"
proof -
  define x where "x = gpr s (mips_rs i)"
  define n where "n = mips_clz_loop 32 x"
  have *: "n \<le> 32" "\<forall>k < 32. 32 - n \<le> k \<longrightarrow> \<not> bit x k" "n < 32 \<longrightarrow> bit x (31 - n)"
    using clz_loop_exact [of 32 x] by (simp_all add: n_def)
  have "uint x < 2 ^ (32 - n)" using *(2) by (intro word_below_power) auto
  moreover have "n = 32 \<or> 2 ^ (31 - n) \<le> uint x" using *(1,3) word_above_power [of x "31 - n"] by auto
  moreover have "snd (mips_CLZ i s) = set_gpr (mips_rd i) (of_nat n) s"
    by (simp add: mips_CLZ_def set_rd_def reg_rs_def n_def x_def)
  ultimately show ?thesis using *(1) unfolding x_def by auto
qed

subsection \<open>Overflow\<close>

lemma add_overflows_iff: "add_overflows x y \<longleftrightarrow> sint (x + y) \<noteq> sint x + sint y"
proof -
  have b: "mips_bit w 31 = 0 \<longleftrightarrow> \<not> bit w 31" for w
    by (auto simp: mips_bit_def and_one_eq bit_iff_odd_drop_bit odd_iff_mod_2_eq_one)
  show ?thesis
    using sign_add_carry(2) [of "x + y" x y False]
    unfolding add_overflows_def by (simp add: b bit_xor_iff) blast
qed

lemma sub_overflow_ints:
  fixes X Y D :: int
  assumes "D = X - Y + (if X < Y then 2 ^ 32 else 0)" "0 \<le> X" "X < 2 ^ 32" "0 \<le> Y" "Y < 2 ^ 32" "0 \<le> D" "D < 2 ^ 32"
  defines "s \<equiv> \<lambda>z. z - (if 2 ^ 31 \<le> z then 2 ^ 32 else 0)"
  shows "(s Y < 0 \<and> s D < s X) \<or> (0 < s Y \<and> s X < s D) \<longleftrightarrow> s D \<noteq> s X - s Y"
  using assms(1-7) unfolding s_def by (cases "X < Y"; cases "2 ^ 31 \<le> X"; cases "2 ^ 31 \<le> Y"; cases "2 ^ 31 \<le> D"; simp; linarith?)

lemma sub_overflows_iff: "sub_overflows x y \<longleftrightarrow> sint (x - y) \<noteq> sint x - sint y"
proof -
  have u: "uint (x - y) = uint x - uint y + (if uint x < uint y then 2 ^ 32 else 0)"
    using uint_sub_borrow [of x y False] by simp
  show ?thesis
    using sub_overflow_ints [OF u uint_bounds [of x] uint_bounds [of y] uint_bounds [of "x - y"]]
    unfolding sub_overflows_def sint_as_uint by simp
qed

text \<open>ADD, ADDI and SUB raise the overflow exception exactly when the signed sum or difference does not fit
  32 bits. The destination is written in either case, also after the exception.\<close>

theorem overflow_exact:
  "snd (mips_ADD i s) = set_gpr (mips_rd i) (gpr s (mips_rs i) + gpr s (mips_rt i))
     (if sint (gpr s (mips_rs i) + gpr s (mips_rt i)) = sint (gpr s (mips_rs i)) + sint (gpr s (mips_rt i))
      then s else process_integer_overflow s) \<and>
   snd (mips_SUB i s) = set_gpr (mips_rd i) (gpr s (mips_rs i) - gpr s (mips_rt i))
     (if sint (gpr s (mips_rs i) - gpr s (mips_rt i)) = sint (gpr s (mips_rs i)) - sint (gpr s (mips_rt i))
      then s else process_integer_overflow s) \<and>
   snd (mips_ADDI i s) = set_gpr (mips_rt i) (gpr s (mips_rs i) + scast (ucast i :: 16 word))
     (if sint (gpr s (mips_rs i) + scast (ucast i :: 16 word)) = sint (gpr s (mips_rs i)) + sint (ucast i :: 16 word)
      then s else process_integer_overflow s)"
proof (intro conjI)
  have se: "sint (scast (w :: 16 word) :: u32) = sint w" for w by (simp add: sint_up_scast is_up)
  show "snd (mips_ADD i s) = set_gpr (mips_rd i) (gpr s (mips_rs i) + gpr s (mips_rt i))
     (if sint (gpr s (mips_rs i) + gpr s (mips_rt i)) = sint (gpr s (mips_rs i)) + sint (gpr s (mips_rt i))
      then s else process_integer_overflow s)"
    by (simp add: mips_ADD_def set_rd_def reg_rs_def reg_rt_def Let_def add_overflows_iff)
  show "snd (mips_SUB i s) = set_gpr (mips_rd i) (gpr s (mips_rs i) - gpr s (mips_rt i))
     (if sint (gpr s (mips_rs i) - gpr s (mips_rt i)) = sint (gpr s (mips_rs i)) - sint (gpr s (mips_rt i))
      then s else process_integer_overflow s)"
    by (simp add: mips_SUB_def set_rd_def reg_rs_def reg_rt_def Let_def sub_overflows_iff)
  show "snd (mips_ADDI i s) = set_gpr (mips_rt i) (gpr s (mips_rs i) + scast (ucast i :: 16 word))
     (if sint (gpr s (mips_rs i) + scast (ucast i :: 16 word)) = sint (gpr s (mips_rs i)) + sint (ucast i :: 16 word)
      then s else process_integer_overflow s)"
    by (simp add: mips_ADDI_def set_rt_def reg_rs_def Let_def add_overflows_iff mips_imm_offset se)
qed

end
