(* ===== verification/Mips_Ctrl_Spec.thy ===== *)
theory Mips_Ctrl_Spec
  imports Mips_Spec
begin

text \<open>
  Control flow and memory of the MIPS simulator: branches and their delay slots, exceptions,
  unaligned accesses, protection, and the round trip of a TLB entry.
\<close>

text \<open>A state for the examples: the Nedved board, no memory, all registers 0, kernel mode.\<close>

definition sample_bus :: "nedved_io bus" where
  "sample_bus =
     \<lparr>current_num = 0, mem_banks = [], mbp = None, rom = [], big_endian = False, prescale = 0,
      mach = nedved_machine [],
      io = \<lparr>NfiqSig = 0, NirqSig = 0,
        board = \<lparr>nuart_baudrate = 0, nuart_char = 0, timer_initreg1 = 0, timer_compare1 = 0, timer_initreg2 = 0,
          timer_compare2 = 0, timer_counter1 = 0, timer_counter2 = 0, timer_controlreg1 = 0, timer_controlreg2 = 0,
          nisr = 0, nimr = 0, nuart_in = [], nuart_out = []\<rparr>\<rparr>,
      halted = None\<rparr>"

definition sample_mips :: "nedved_io mips_state" where
  "sample_mips =
     \<lparr>mpc = 0x80001000, gpr = \<lambda>i. 0, fpr = \<lambda>i. 0, fir = 0, cp0 = \<lambda>i. 0, cp0_config1 = 0, cp1 = \<lambda>i. 0, mhi = 0, mlo = 0,
      ll_bit = 0, now = 0, warm = False, nop_count = 0, events = 0, mpipeline = nothing_special, mmode = kmode,
      sync_bit = 0, branch_target = 0, random_seed = 0, count_seed = 0, ibuf_tag = \<lambda>i. 0, ibuf_line = \<lambda>i. (0, 0),
      lru_ibuf = 0,
      mtlb = \<lambda>i. \<lparr>next_entry = None, prev_entry = None, entry_hi = 0, lo_reg = \<lambda>i. 0, entry_index = 0, entry_hash = 64\<rparr>,
      tlb_map = \<lambda>i. None,
      micache = \<lambda>i. \<lparr>lru = \<lambda>i. 0, set_line = \<lambda>i. \<lparr>line_tag = 0, line_state = 0, line_words = \<lambda>i. 0\<rparr>\<rparr>,
      mdcache = \<lambda>i. \<lparr>lru = \<lambda>i. 0, set_line = \<lambda>i. \<lparr>line_tag = 0, line_state = 0, line_words = \<lambda>i. 0\<rparr>\<rparr>,
      bigendSig = 0, mirq_pending = False, mjunk = 0, mbus = sample_bus\<rparr>"

text \<open>A fetched instruction from its decoding to its retirement.\<close>

definition mips_exec :: "'d mips_board \<Rightarrow> u32 \<Rightarrow> 'd mips_state \<Rightarrow> 'd mips_state" where
  "mips_exec m i s = (case decode m i s of (p, s1) \<Rightarrow> mips_retire m p s1)"

lemma nedved_cycle_core [simp]:
  "mpc (nedved_io_do_cycle s) = mpc s" "mpipeline (nedved_io_do_cycle s) = mpipeline s"
  "branch_target (nedved_io_do_cycle s) = branch_target s" "gpr (nedved_io_do_cycle s) = gpr s"
  "cp0 (nedved_io_do_cycle s) = cp0 s" "mmode (nedved_io_do_cycle s) = mmode s"
  by (simp_all add: nedved_io_do_cycle_def mips_update_irq_flag_fast_def Let_def)

lemma finish_core:
  assumes "cp0 s Compare = 0"
  shows "mips_finish nedved_board p s = nedved_io_do_cycle (s\<lparr>mpipeline := p\<rparr>)"
  using assms by (simp add: mips_finish_def mips_count_def nedved_board_def)

subsection \<open>Branches\<close>

text \<open>What the decoder makes of BEQ and BEQL.\<close>

definition branch_dest :: "u32 \<Rightarrow> 'd mips_state \<Rightarrow> u32" where
  "branch_dest i s = mpc s + 4 + 4 * scast (ucast i :: 16 word)"

lemma beq_decode:
  assumes "mips_opcode i = 4"
  shows "decode nedved_board i s = (branch_delay,
    s\<lparr>branch_target := if gpr s (mips_rs i) = gpr s (mips_rt i) then branch_dest i s else mpc s + 8\<rparr>)"
  using assms by (simp add: decode_def mips_BEQ_def mips_branch_def branch_address_def mips_imm_offset branch_dest_def
      reg_rs_def reg_rt_def push_bit_eq_mult mult.commute)

lemma beql_decode:
  assumes "mips_opcode i = 20"
  shows "decode nedved_board i s = (if gpr s (mips_rs i) = gpr s (mips_rt i)
      then (branch_delay, s\<lparr>branch_target := branch_dest i s\<rparr>)
      else (nothing_special, s\<lparr>branch_target := mpc s + 8, mpipeline := branch_delay\<rparr>))"
  using assms by (simp add: decode_def mips_BEQL_def mips_branch_likely_def branch_address_def mips_imm_offset branch_dest_def
      reg_rs_def reg_rt_def push_bit_eq_mult mult.commute)

text \<open>C7. A branch takes effect after its delay slot: BEQ at an address outside a delay slot is followed by the
  instruction behind it, and when that only writes a register, execution goes on at the target, which is
  relative to the delay slot, or behind it when the operands differ. The slot of a BEQL is skipped when
  they differ.\<close>

theorem branch_and_delay_slot:
  fixes s :: "nedved_io mips_state"
  assumes "mpipeline s = nothing_special" "cp0 s Compare = 0"
    and "mips_opcode i = 4" "mips_opcode l = 20"
  defines "s1 \<equiv> mips_exec nedved_board i s" and "l1 \<equiv> mips_exec nedved_board l s"
    and "eq \<equiv> \<lambda>j. gpr s (mips_rs j) = gpr s (mips_rt j)"
    and "dest \<equiv> \<lambda>j. mpc s + 4 + 4 * scast (ucast j :: 16 word)"
  assumes slot: "decode nedved_board j s1 = (nothing_special, set_gpr r v s1)"
  shows "mpc s1 = mpc s + 4 \<and> gpr s1 = gpr s \<and>
    mpc (mips_exec nedved_board j s1) = (if eq i then dest i else mpc s + 8) \<and>
    mpipeline (mips_exec nedved_board j s1) = nothing_special \<and>
    gpr (mips_exec nedved_board j s1) = (gpr s)(r := v) \<and>
    mpc l1 = (if eq l then mpc s + 4 else mpc s + 8) \<and>
    mpipeline l1 = (if eq l then branch_delay else nothing_special) \<and>
    branch_target l1 = (if eq l then dest l else mpc s + 8)"
proof (intro conjI)
  have dest: "dest j = branch_dest j s" for j by (simp add: dest_def branch_dest_def)
  have "decode nedved_board i s = (branch_delay, s\<lparr>branch_target := if eq i then dest i else mpc s + 8\<rparr>)"
    using beq_decode [OF assms(3)] by (simp add: dest eq_def)
  then have s1: "s1 = nedved_io_do_cycle
      (s\<lparr>branch_target := if eq i then dest i else mpc s + 8, mpc := mpc s + 4, mpipeline := branch_delay\<rparr>)"
    using assms(1,2) by (simp add: s1_def mips_exec_def mips_retire_def finish_core)
  show "mpc s1 = mpc s + 4" and g: "gpr s1 = gpr s" by (simp_all add: s1)
  have f: "mpipeline s1 = branch_delay" "branch_target s1 = (if eq i then dest i else mpc s + 8)" "cp0 s1 Compare = 0"
    using assms(2) by (simp_all add: s1)
  have s2: "mips_exec nedved_board j s1 =
      nedved_io_do_cycle ((set_gpr r v s1)\<lparr>mpc := if eq i then dest i else mpc s + 8, mpipeline := nothing_special\<rparr>)"
    by (simp add: mips_exec_def slot mips_retire_def set_gpr_def f finish_core)
  show "mpc (mips_exec nedved_board j s1) = (if eq i then dest i else mpc s + 8)"
    "mpipeline (mips_exec nedved_board j s1) = nothing_special" "gpr (mips_exec nedved_board j s1) = (gpr s)(r := v)"
    unfolding s2 by (simp_all add: set_gpr_def g)
  have "decode nedved_board l s = (if eq l then (branch_delay, s\<lparr>branch_target := dest l\<rparr>)
      else (nothing_special, s\<lparr>branch_target := mpc s + 8, mpipeline := branch_delay\<rparr>))"
    using beql_decode [OF assms(4)] by (simp add: dest eq_def)
  then have l1: "l1 = nedved_io_do_cycle
      (if eq l then s\<lparr>branch_target := dest l, mpc := mpc s + 4, mpipeline := branch_delay\<rparr>
       else s\<lparr>branch_target := mpc s + 8, mpc := mpc s + 8, mpipeline := nothing_special\<rparr>)"
    using assms(1,2) by (simp add: l1_def mips_exec_def mips_retire_def finish_core)
  show "mpc l1 = (if eq l then mpc s + 4 else mpc s + 8)"
    "mpipeline l1 = (if eq l then branch_delay else nothing_special)"
    "branch_target l1 = (if eq l then dest l else mpc s + 8)"
    unfolding l1 by simp_all
qed

theorem branch_and_delay_slot_witness:
  "mpc (mips_exec nedved_board 0x00221821 (mips_exec nedved_board 0x10220003 sample_mips)) = 0x80001010"
proof -
  have f: "mips_opcode 0x10220003 = 4" "mips_opcode 0x50220003 = 20" "mips_opcode 0x00221821 = 0"
    "mips_function 0x00221821 = 33" "mips_rd 0x00221821 = 3" "mips_rs 0x10220003 = 1" "mips_rt 0x10220003 = 2"
    by (simp_all add: mips_opcode_def mips_function_def mips_rd_def mips_rs_def mips_rt_def bits32_def mips_bits_def)
  have d: "decode nedved_board 0x00221821 t = (nothing_special, set_gpr 3 (reg_rs 0x00221821 t + reg_rt 0x00221821 t) t)" for t
    by (simp add: decode_def decode_special_def f mips_ADDU_def set_rd_def)
  have h: "mpipeline sample_mips = nothing_special" "cp0 sample_mips Compare = 0" "gpr sample_mips n = 0"
    "mpc sample_mips = 0x80001000" for n
    by (simp_all add: sample_mips_def)
  show ?thesis
    using branch_and_delay_slot [OF h(1,2) f(1,2) d] by (simp add: h)
qed

subsection \<open>Exceptions\<close>

lemma exception_core:
  "mpc (process_exception c v s) = v + 0x80000000"
  "cp0 (process_exception c v s) Compare = cp0 s Compare"
  "cp0 (process_exception c v s) EPC = (if mpipeline s = branch_delay then mpc s - 4 else mpc s)"
  "mmode (process_exception c v s) = kmode"
  "mpipeline (process_exception c v s) =
     (if c AND 0x7f \<in> {EXC_Sys, EXC_TLBL, EXC_CpU, EXC_TLBS, EXC_Mod} then branch_nodelay else nothing_special)"
  by (simp_all add: process_exception_def enter_kernel_mode_def set_cp0_def cp0_numbers branch_delay_slot_def
      general_vector_base_def boot_vector_base_def Let_def)

text \<open>Where the handler of an exception starts: the state in which an instruction raised the exception is
  retired at the vector for a system call, the TLB exceptions and an unusable coprocessor; for
  every other exception (overflow, address error, trap, breakpoint, bus error) it is retired one
  instruction too far, and the first instruction of the handler is never executed. The vector does
  not depend on the boot flag.\<close>

theorem exception_entry_pc:
  fixes s :: "nedved_io mips_state" and c v :: u32 and p :: mips_pipeline
  assumes "cp0 s Compare = 0"
  defines "s1 \<equiv> mips_retire nedved_board p (process_exception c v s)"
  shows "mpc s1 = (if c AND 0x7f \<in> {EXC_Sys, EXC_TLBL, EXC_CpU, EXC_TLBS, EXC_Mod} then v + 0x80000000 else v + 0x80000004) \<and>
    cp0 s1 EPC = (if mpipeline s = branch_delay then mpc s - 4 else mpc s) \<and> mmode s1 = kmode"
  using assms(1) unfolding s1_def by (simp add: mips_retire_def exception_core finish_core)

theorem exception_entry_pc_witness:
  "mpc (mips_retire nedved_board nothing_special (process_exception EXC_Ov common_vector sample_mips)) = 0x80000184"
proof -
  have "cp0 sample_mips Compare = 0" by (simp add: sample_mips_def)
  from exception_entry_pc [OF this, of nothing_special EXC_Ov common_vector]
  show ?thesis by (simp add: exc_codes common_vector_def)
qed

subsection \<open>Protection\<close>

lemma unat_region: "unat (vaddr_region va) = unat va div 2 ^ 29"
proof -
  have "bits32 va 31 29 = drop_bit 29 va"
    by (intro bit_word_eqI) (auto simp: bit_bits32 bit_simps dest: bit_imp_le_length)
  then show ?thesis by (simp add: vaddr_region_def drop_bit_eq_div unat_div)
qed

lemma region_kernel: "\<not> (vaddr_region va < vaddr_region kseg0) \<longleftrightarrow> 0x80000000 \<le> va"
proof -
  have "unat va div 2 ^ 29 < 4 \<longleftrightarrow> unat va < 4 * 2 ^ 29" by (simp add: less_mult_imp_div_less div_less_iff_less_mult)
  then show ?thesis by (simp add: word_less_nat_alt word_le_nat_alt unat_region kseg0_def not_less)
qed

lemma region_kseg2: "0xC0000000 \<le> va \<Longrightarrow> vaddr_region va \<noteq> vaddr_region kseg0 \<and> vaddr_region va \<noteq> vaddr_region kseg1"
proof -
  assume "0xC0000000 \<le> va"
  then have "6 * 2 ^ 29 \<le> unat va" by (simp add: word_le_nat_alt)
  then have "6 \<le> unat (vaddr_region va)" by (simp add: unat_region less_eq_div_iff_mult_less_eq)
  moreover have "unat (vaddr_region kseg0) = 4" "unat (vaddr_region kseg1) = 5"
    by (simp_all add: unat_region kseg0_def kseg1_def)
  ultimately show ?thesis by auto
qed



lemma exception_tlb:
  "mtlb (process_exception c v s) = mtlb s" "tlb_map (process_exception c v s) = tlb_map s"
  "r \<noteq> Cause \<Longrightarrow> r \<noteq> EPC \<Longrightarrow> r \<noteq> SR \<Longrightarrow> cp0 (process_exception c v s) r = cp0 s r"
  by (simp_all add: process_exception_def enter_kernel_mode_def set_cp0_def cp0_numbers Let_def)

text \<open>C0. The TLB is not protected: TLBWI in user mode raises the coprocessor unusable exception and is executed
  all the same, so that a user program can map any page of the physical memory.\<close>

theorem user_tlb_write:
  assumes "mmode s AND kmode = 0" "\<not> bit (cp0 s SR) 28"
  shows "mtlb (snd (decode m 0x42000002 s)) = mtlb (set_tlb_entry (cp0 s Index) s)"
    and "tlb_map (snd (decode m 0x42000002 s)) = tlb_map (set_tlb_entry (cp0 s Index) s)"
    and "mpc (snd (decode m 0x42000002 s)) = 0x80000180"
proof -
  have f: "mips_opcode 0x42000002 = 16" "mips_bit 0x42000002 25 \<noteq> 0" "mips_function 0x42000002 = 2"
    by (simp_all add: mips_opcode_def mips_function_def mips_bit_def bits32_def mips_bits_def)
  have cu: "mips_bit (cp0 s SR) SR_CU0 = 0"
    using assms(2) by (auto simp: mips_bit_def SR_CU0_def and_one_eq bit_iff_odd_drop_bit odd_iff_mod_2_eq_one)
  define s1 where "s1 = process_coprocessor_unusable 0 s"
  have d: "snd (decode m 0x42000002 s) = set_tlb_entry (cp0 s1 Index) s1"
    using assms(1) cu by (simp add: decode_def f decode_cop0_def cop0_TLBWI_def s1_def Let_def)
  have c: "cp0 s1 r = cp0 s r" if "r \<noteq> Cause" "r \<noteq> EPC" "r \<noteq> SR" for r
    using that exception_tlb(3) by (simp add: s1_def process_coprocessor_unusable_def)
  have t: "mtlb s1 = mtlb s" "tlb_map s1 = tlb_map s" "mpc s1 = 0x80000180"
    by (simp_all add: s1_def process_coprocessor_unusable_def exception_tlb exception_core common_vector_def)
  have e: "cp0 s1 Index = cp0 s Index" "cp0 s1 EntryHi = cp0 s EntryHi" "cp0 s1 EntryLo0 = cp0 s EntryLo0"
    "cp0 s1 EntryLo1 = cp0 s EntryLo1"
    by (rule c; simp add: cp0_numbers)+
  show "mtlb (snd (decode m 0x42000002 s)) = mtlb (set_tlb_entry (cp0 s Index) s)"
    "tlb_map (snd (decode m 0x42000002 s)) = tlb_map (set_tlb_entry (cp0 s Index) s)"
    "mpc (snd (decode m 0x42000002 s)) = 0x80000180"
    unfolding d e(1)
    by (simp_all add: set_tlb_entry_def push_entry_def unlink_entry_def filled_entry_def set_entry_def set_map_def
        Let_def e t split: option.split)
qed

theorem user_tlb_write_witness:
  "mpc (snd (decode nedved_board 0x42000002 (sample_mips\<lparr>mmode := umode\<rparr>))) = 0x80000180"
  by (rule user_tlb_write(3)) (simp_all add: umode_def kmode_def sample_mips_def)

subsection \<open>Unaligned accesses\<close>

lemma low_bits: "unat (bits32 va (Suc 0) 0) = unat va mod 4"
  by (simp add: bits32_take unsigned_take_bit_eq take_bit_eq_mod unat_mod)

lemma lanes:
  assumes "\<not> big_endian_cpu s"
  shows "lane_right va s = unat va mod 4"
    and "lane_left (va + 3) s = (if unat va mod 4 = 0 then 0 else 4 - unat va mod 4)"
proof -
  show "lane_right va s = unat va mod 4" using assms by (simp add: lane_right_def low_bits)
  have "unat (va + 3) mod 4 = (unat va + 3) mod 4"
    by (simp add: unat_word_ariths mod_mod_cancel)
  then have "unat (bits32 (va + 3) (Suc 0) 0) = (unat va + 3) mod 4" by (simp add: low_bits)
  moreover have "bits32 (va + 3) (Suc 0) 0 = of_nat (unat (bits32 (va + 3) (Suc 0) 0))" by simp
  ultimately have "bits32 (va + 3) (Suc 0) 0 = of_nat ((unat va + 3) mod 4)" by argo
  moreover have "(unat va + 3) mod 4 = (unat va mod 4 + 3) mod 4" by presburger
  moreover have "unat va mod 4 \<in> {0, 1, 2, 3}" by auto
  moreover have "(ucast (mips_bitsmask (Suc 0) 0) :: u32) = 3"
  proof -
    have "(ucast (mips_bitsmask (Suc 0) 0) :: u32) = mask 2"
      by (intro bit_word_eqI) (auto simp: bit_mips_bitsmask bit_simps)
    then show ?thesis by (simp add: mask_eq_exp_minus_1)
  qed
  ultimately show "lane_left (va + 3) s = (if unat va mod 4 = 0 then 0 else 4 - unat va mod 4)"
    using assms by (auto simp: lane_left_def)
qed

lemma bit_merges:
  assumes "L < 4" "j < 32"
  shows "bit (merge_LWL L r w) j \<longleftrightarrow> (if 8 * L \<le> j then bit w (j - 8 * L) else bit r j)"
    and "bit (merge_LWR L r w) j \<longleftrightarrow> (if j \<le> 31 - 8 * L then bit w (8 * L + j) else bit r j)"
    and "bit (merge_SWL L w r) j \<longleftrightarrow> (if j \<le> 31 - 8 * L then bit r (8 * L + j) else bit w j)"
    and "bit (merge_SWR L w r) j \<longleftrightarrow> (if 8 * L \<le> j then bit r (j - 8 * L) else bit w j)"
  using assms
  by (auto simp: merge_LWL_def merge_LWR_def merge_SWL_def merge_SWR_def bit_copy_bits32 bit_bits32 mult.commute [of L])



subsection \<open>Writing and using a TLB entry\<close>

lemma mapped_segments:
  assumes "va < 0x80000000 \<or> (0xC0000000 \<le> va \<and> mmode s AND umode = 0)"
  shows "translate_vaddr va ty s = translate_mapped va ty s"
  using assms
proof
  assume "va < 0x80000000"
  then have "vaddr_region va < vaddr_region kseg0" using region_kernel [of va] leD by blast
  moreover have "vaddr_region kuseg \<le> vaddr_region va" by (simp add: word_le_nat_alt unat_region kuseg_def)
  ultimately show ?thesis by (simp add: translate_vaddr_def)
next
  assume "0xC0000000 \<le> va \<and> mmode s AND umode = 0"
  then show ?thesis using region_kseg2 [of va] by (simp add: translate_vaddr_def)
qed

text \<open>C8. A page that is written into the TLB is translated as written: after the write of entry \<open>n\<close> (TLBWI or
  TLBWR) with EntryHi and the two EntryLo registers, an access in the mapped segments to the pair of pages of
  EntryHi reaches the frame of the EntryLo register of its page, when that page is valid, and
  writable for a store; it changes nothing, and older entries for the page do not matter.\<close>

theorem tlb_write_translate:
  fixes s :: "'d mips_state"
  assumes "unat n < 48" "drop_bit 13 va = drop_bit 13 (cp0 s EntryHi)"
    and "va < 0x80000000 \<or> (0xC0000000 \<le> va \<and> mmode s AND umode = 0)"
  defines "lo \<equiv> (if bit va 12 then cp0 s EntryLo1 else cp0 s EntryLo0)"
  assumes "bit lo 1" "ty = data_store \<longrightarrow> bit lo 2"
  shows "translate_vaddr va ty (set_tlb_entry n s) =
    (TLB_SUCC ((push_bit 6 lo AND 0xFFFFF000) OR (va AND 0xFFF)), set_tlb_entry n s)"
proof -
  define s' where "s' = set_tlb_entry n s"
  have h: "mips_hash va = mips_hash (cp0 s EntryHi)" by (simp add: mips_hash_page assms(2))
  define t where "t = set_entry (unat n) (filled_entry n s) (unlink_entry (unat n) s)"
  have s': "s' = push_entry (unat n) (mips_hash va) t"
    using assms(1) by (simp add: s'_def t_def set_tlb_entry_def tlb_size_def h Let_def)
  have core: "cp0 s' = cp0 s" "mmode s' = mmode s"
    by (simp_all add: s' t_def push_entry_def unlink_entry_def set_entry_def set_map_def Let_def split: option.split)
  have e: "mtlb t (unat n) = filled_entry n s (mtlb (unlink_entry (unat n) s) (unat n))" by (simp add: t_def set_entry_def)
  have hi: "entry_hi (mtlb s' (unat n)) = entry_hi (filled_entry n s (mtlb (unlink_entry (unat n) s) (unat n)))"
    and lr: "lo_reg (mtlb s' (unat n)) = lo_reg (filled_entry n s (mtlb (unlink_entry (unat n) s) (unat n)))"
    by (simp_all add: s' entry_hash_links e)
  have "drop_bit 13 (x OR 0x1000) = drop_bit 13 x" for x :: u32 by (simp add: drop_bit_or drop_bit_Suc)
  moreover have "(x OR 0x1000) AND 0x1000 \<noteq> 0" for x :: u32
  proof -
    have "bit ((x OR 0x1000) AND 0x1000) 12" by (simp add: bit_simps)
    then show ?thesis by auto
  qed
  ultimately have m: "entry_matches (cp0 s' EntryHi) va (mtlb s' (unat n))"
    unfolding entry_matches_def hi core by (simp add: filled_entry_def assms(2))
  have head: "tlb_map s' (mips_hash va) = Some (unat n)" by (simp add: s' push_tables)
  have p: "probe_tlb va s' = Some (Some (unat n))"
    unfolding probe_tlb_def head by (subst probe_chain.simps) (simp add: m)
  have page: "unat (drop_bit 12 va AND 1) = of_bool (bit va 12)"
    by (simp add: and_one_eq bit_iff_odd_drop_bit odd_iff_mod_2_eq_one)
  have lo: "lo_reg (mtlb s' (unat n)) (unat (drop_bit 12 va AND 1)) = lo"
    unfolding lr page by (simp add: filled_entry_def lo_def)
  have v: "lo AND 2 \<noteq> 0" "bit lo 2 \<Longrightarrow> lo AND 4 \<noteq> 0"
    using assms(5) bit_iff_and_push_bit_not_eq_0 [of lo 1] bit_iff_and_push_bit_not_eq_0 [of lo 2] by simp_all
  have tm: "translate_mapped va ty s' = (TLB_SUCC ((push_bit 6 lo AND 0xFFFFF000) OR (va AND 0xFFF)), s')"
    using v assms(6) by (auto simp: translate_mapped_def p lo Let_def)
  have "translate_vaddr va ty s' = translate_mapped va ty s'"
    using assms(3) by (intro mapped_segments) (simp add: core)
  then show ?thesis using tm by (simp add: s'_def)
qed

theorem tlb_write_translate_witness:
  "fst (translate_vaddr 0x402123 data_store (set_tlb_entry 5
     (sample_mips\<lparr>cp0 := (\<lambda>r. 0)(EntryHi := 0x402000, EntryLo0 := 0x12346)\<rparr>))) = TLB_SUCC 0x48D123"
proof -
  let ?s = "sample_mips\<lparr>cp0 := (\<lambda>r. 0)(EntryHi := 0x402000, EntryLo0 := 0x12346)\<rparr>"
  have h: "unat (5 :: u32) < 48" "drop_bit 13 (0x402123 :: u32) = drop_bit 13 (cp0 ?s EntryHi)"
    "(0x402123 :: u32) < 0x80000000 \<or> (0xC0000000 \<le> (0x402123 :: u32) \<and> mmode ?s AND umode = 0)"
    "bit (if bit (0x402123 :: u32) 12 then cp0 ?s EntryLo1 else cp0 ?s EntryLo0) 1"
    "data_store = data_store \<longrightarrow> bit (if bit (0x402123 :: u32) 12 then cp0 ?s EntryLo1 else cp0 ?s EntryLo0) 2"
    by (simp_all add: cp0_numbers)
  show ?thesis unfolding tlb_write_translate [OF h] by (simp add: cp0_numbers)
qed

end
