(* ===== verification/Nedved_Spec.thy ===== *)
theory Nedved_Spec
  imports Mips_Ctrl_Spec
begin

text \<open>
  The Nedved board and its processor together: the addresses the processor puts on the bus never
  are those of the board's registers, so that no program reads or writes them and no device
  interrupt is ever delivered. Some further consequences of the code on concrete states.
\<close>

subsection \<open>Physical addresses\<close>

lemma kseg_strip_range: "kseg_strip pa < 0x80000000 \<or> 0xC0000000 \<le> kseg_strip pa"
proof -
  have n: "NOT 0x80000000 = (mask 31 :: u32)" "NOT 0xE0000000 = (mask 29 :: u32)" by (simp_all add: mask_eq_exp_minus_1)
  have "unat (x AND mask k) < 2 ^ k" for x :: u32 and k
    by (simp add: take_bit_eq_mask [symmetric] unsigned_take_bit_eq)
  then have l: "unat (x AND mask 31) < 2 ^ 31" "unat (x AND mask 29) < 2 ^ 29" for x :: u32 by blast+
  have "x AND mask 31 < 0x80000000" "x AND mask 29 < 0x80000000" for x :: u32
    using l(1) [of x] l(2) [of x] by (simp_all add: word_less_nat_alt)
  then show ?thesis unfolding kseg_strip_def n Let_def by (auto simp: not_le not_less)
qed

lemma not_nedved_register:
  assumes "0xB0000000 \<le> r" "r < 0xC0000000"
  shows "kseg_strip pa \<noteq> r"
  using kseg_strip_range [of pa] assms by (auto simp: word_less_nat_alt word_le_nat_alt)

lemma nedved_handlers_miss:
  "nedved_io_read_byte (kseg_strip pa) b = (0, b)" "nedved_io_read_halfword (kseg_strip pa) b = (0, b)"
  "nedved_io_read_word (kseg_strip pa) b = (0, b)" "nedved_io_write_byte (kseg_strip pa) v b = b"
  "nedved_io_write_halfword (kseg_strip pa) v b = b" "nedved_io_write_word (kseg_strip pa) v b = b"
  by (simp_all add: nedved_io_read_byte_def nedved_io_read_halfword_def nedved_io_read_word_def
      nedved_io_write_byte_def nedved_io_write_halfword_def nedved_io_write_word_def nedved_map not_nedved_register)

subsection \<open>The bus\<close>

lemma bank_ptr_io: "io (snd (bank_ptr a b)) = io b" "mach (snd (bank_ptr a b)) = mach b"
  by (simp_all add: bank_ptr_def bus_halt_def Let_def split: option.split scan_result.split)

lemma rom_io:
  "io (snd (rom_read i a b)) = io b" "mach (snd (rom_read i a b)) = mach b"
  "io (rom_write i a v b) = io b" "mach (rom_write i a v b) = mach b"
  by (simp_all add: rom_read_def rom_write_def bus_halt_def Let_def split: option.split)

lemma mem_io:
  "io (snd (mem_read n a v b)) = io b" "mach (snd (mem_read n a v b)) = mach b"
  "io (mem_write n a v b) = io b" "mach (mem_write n a v b) = mach b"
proof -
  note p = bank_ptr_io [of a b]
  have h: "io (bus_halt h c) = io c" "mach (bus_halt h c) = mach c" for h and c :: "'a bus" by (simp_all add: bus_halt_def)
  show "io (snd (mem_read n a v b)) = io b" "mach (snd (mem_read n a v b)) = mach b"
    using p by (cases "bank_ptr a b";
      simp add: mem_read_def mem_read_byte_def mem_read_halfword_def mem_read_word_def case_prod_beta h rom_io split: option.split)+
  show "io (mem_write n a v b) = io b" "mach (mem_write n a v b) = mach b"
    using p by (cases "bank_ptr a b";
      simp add: mem_write_def mem_write_byte_def mem_write_halfword_def mem_write_word_def case_prod_beta Let_def h rom_io
        split: option.split)+
qed

text \<open>An access on the bus of the board, at an address the processor can produce, does nothing to the board.\<close>

lemma board_untouched:
  assumes m: "mach b = nedved_machine []"
  shows "io (snd (bus_read n (kseg_strip pa) v b)) = io b" "mach (snd (bus_read n (kseg_strip pa) v b)) = mach b"
    and "io (bus_write n (kseg_strip pa) v b) = io b" "mach (bus_write n (kseg_strip pa) v b) = mach b"
proof -
  define a where "a = kseg_strip pa"
  obtain r c where p: "bank_ptr a b = (r, c)" by (cases "bank_ptr a b")
  have c: "io c = io b" "mach c = nedved_machine []" using bank_ptr_io [of a b] m by (simp_all add: p)
  note M = nedved_machine_def read_nedved_def on_nedved_def nedved_handlers_miss [of pa, folded a_def]
  have r: "io (snd (io_read n a v c)) = io b" "mach (snd (io_read n a v c)) = mach b"
    "io (snd (flash_read v n a v c)) = io b" "mach (snd (flash_read v n a v c)) = mach b"
    using c m by (simp_all add: io_read_def io_read_byte_def io_read_halfword_def io_read_word_def
        flash_read_def flash_read_byte_def flash_read_halfword_def flash_read_word_def M)
  have w: "io (io_write n a v c) = io b" "mach (io_write n a v c) = mach b"
    "io (flash_write n a v c) = io b" "mach (flash_write n a v c) = mach b"
    using c m by (simp_all add: io_write_def io_write_byte_def io_write_halfword_def io_write_word_def
        flash_write_def flash_write_byte_def flash_write_halfword_def flash_write_word_def M)
  show "io (snd (bus_read n (kseg_strip pa) v b)) = io b" "mach (snd (bus_read n (kseg_strip pa) v b)) = mach b"
    unfolding a_def [symmetric] bus_read_def p using c r m
    by (simp_all add: mem_io split: option.split bank_reader.split)
  show "io (bus_write n (kseg_strip pa) v b) = io b" "mach (bus_write n (kseg_strip pa) v b) = mach b"
    unfolding a_def [symmetric] bus_write_def p using c w m
    by (simp_all add: mem_io bus_halt_def warn_write_def split: option.split bank_writer.split)
qed

subsection \<open>No device interrupt\<close>

definition nedved_quiet :: "u8 list \<Rightarrow> nedved_io mips_state \<Rightarrow> bool" where
  "nedved_quiet out s \<longleftrightarrow>
     mach (mbus s) = nedved_machine [] \<and> nimr (nedved_of s) = 0 \<and> nuart_out (nedved_of s) = out \<and> \<not> mirq_pending s"

lemma quiet_memory:
  assumes "nedved_quiet out s"
  shows "nedved_quiet out (snd (mips_mem_read pa v n s))" "nedved_quiet out (mips_mem_write pa v n s)"
    "nedved_quiet out (mips_halt h s)"
  using assms board_untouched [of "mbus s"]
  by (simp_all add: nedved_quiet_def nedved_of_def mips_mem_read_def mips_mem_write_def mips_halt_def bus_halt_def case_prod_beta)

lemma quiet_tlb: "nedved_quiet out s \<Longrightarrow> nedved_quiet out (set_tlb_entry n s)"
  by (simp add: nedved_quiet_def nedved_of_def set_tlb_entry_def push_entry_def unlink_entry_def set_entry_def set_map_def
      Let_def split: option.split)

interpretation quiet: mips_keeps "nedved_quiet out" for out
  by unfold_locales (simp_all add: quiet_memory quiet_tlb, simp_all add: nedved_quiet_def nedved_of_def set_gpr_def set_cp0_def)

lemma quiet_hooks:
  assumes "nedved_quiet out s"
  shows "nedved_quiet out (mach_set_intr nedved_board irq s)" "nedved_quiet out (mach_do_cycle nedved_board s)"
  using assms
  by (simp_all add: nedved_quiet_def nedved_board_def nedved_set_int_def nedved_io_do_cycle_def nedved_of_def
      mips_update_irq_flag_fast_def nedved_uart_def nedved_timer_def Let_def split: list.split)

lemma reset_off_board: "mbus (mips_reset_state s) = mbus s" "mirq_pending (mips_reset_state s) = mirq_pending s"
proof -
  have e: "mbus (reset_entry i t) = mbus t \<and> mirq_pending (reset_entry i t) = mirq_pending t" for i and t :: "'a mips_state"
    by (simp add: reset_entry_def push_entry_def set_entry_def set_map_def Let_def split: option.split)
  have f: "mbus (fold reset_entry xs t) = mbus t \<and> mirq_pending (fold reset_entry xs t) = mirq_pending t" for xs and t :: "'a mips_state"
    by (induction xs arbitrary: t) (simp_all add: e)
  show "mbus (mips_reset_state s) = mbus s" "mirq_pending (mips_reset_state s) = mirq_pending s"
    by (simp_all add: mips_reset_state_def process_reset_def deliver_cold_reset_def deliver_soft_reset_def
        enter_kernel_mode_def reset_tlb_def reset_icache_def reset_dcache_def reset_ibufs_def set_cp0_def f Let_def)
qed

text \<open>C16. The devices of the Nedved board are out of reach of its programs: from its initialisation and reset on,
  whatever the program, the contents of the memory and the input of the UART are, no
  device interrupt is ever delivered and the UART never sends a byte. The registers are listed at
  their addresses in \<^verbatim>\<open>kseg1\<close>, and every address is stripped of its segment before it reaches the
  bus, so that no program can unmask an interrupt or write a character.\<close>

theorem nedved_devices_unreachable:
  fixes k :: nat and old :: "nedved_io mips_state option" and fresh :: "nedved_io mips_state"
  assumes "devices (mach (mbus fresh)) = []"
  defines "s \<equiv> nedved_run k (nedved_start old fresh)"
  shows "\<not> mirq_pending s \<and> nuart_out (nedved_of s) = nuart_out (nedved_of fresh)"
proof -
  define s0 where "s0 = nedved_start old fresh"
  define out where "out = nuart_out (nedved_of fresh)"
  have "nedved_quiet out s0"
    using assms(1)
    by (simp add: s0_def out_def nedved_start_def mips_init_state_def nedved_mach_init_def nedved_quiet_def nedved_of_def init_tlb_def
        init_caches_def set_cp0_def mips_halt_def bus_halt_def Let_def split: option.split)
  then have "nedved_quiet out (mips_reset_state s0)" by (simp add: nedved_quiet_def nedved_of_def reset_off_board)
  then have "nedved_quiet out (nedved_run k s0)"
    by (rule run_induct) (intro quiet.kept_step quiet_hooks)
  then show "\<not> mirq_pending s \<and> nuart_out (nedved_of s) = nuart_out (nedved_of fresh)"
    by (simp add: s_def s0_def [symmetric] nedved_quiet_def out_def)
qed

theorem nedved_devices_unreachable_witness: "\<not> mirq_pending (nedved_run 3 (nedved_start (Some sample_mips) sample_mips))"
proof -
  have "devices (mach (mbus sample_mips)) = []" by (simp add: sample_mips_def sample_bus_def nedved_machine_def)
  from nedved_devices_unreachable [OF this] show ?thesis by blast
qed

subsection \<open>Consequences on concrete values\<close>

text \<open>RFE clears the mode bits of the outermost level, which the R3000 keeps.\<close>

lemma rfe_mode_bits:
  "\<not> bit (cp0 (leave_kernel_mode s) SR) 4" "\<not> bit (cp0 (leave_kernel_mode s) SR) 5"
proof -
  have "bit (copy_bits32 x (push_bit 4 y) 5 4) n \<longleftrightarrow> n \<noteq> 4 \<and> n \<noteq> 5 \<and> bit x n" if "n < 32" for x y n
    using that by (auto simp: bit_copy_bits32 bit_simps)
  then show "\<not> bit (cp0 (leave_kernel_mode s) SR) 4" "\<not> bit (cp0 (leave_kernel_mode s) SR) 5"
    by (simp_all add: leave_kernel_mode_def set_cp0_def Let_def)
qed

text \<open>TLBR reads the entry that bits 13 to 6 of Index select, TLBWI writes the one that the whole register selects.\<close>

lemma tlbr_other_entry:
  assumes "unat (cp0 s Index) < 48"
  shows "cp0 (cop0_TLBR s) EntryHi = entry_hi (mtlb s 0)"
proof -
  have "unat (bits32 (cp0 s Index) 13 6) = 0"
    using assms by (simp add: bits32_take unsigned_take_bit_eq take_bit_eq_mod drop_bit_eq_div unat_div unat_mod)
  then show ?thesis by (simp add: cop0_TLBR_def tlb_size_def set_cp0_def cp0_numbers Let_def)
qed

text \<open>After way 1 and then way 0 were used, the way to be replaced is way 0.\<close>

lemma lru_replaces_recent: "lru_replace (lru_touch 0 (lru_touch 1 (lru_init l))) = 0"
  by (simp add: lru_replace_def lru_touch_def lru_init_def cache_assoc_def upt_rec numeral_2_eq_2)

lemma init_before_allocation: "halted (mbus (mips_init_state (Some nedved_mach_init) None fresh)) \<noteq> None"
  by (simp add: mips_init_state_def nedved_mach_init_def mips_halt_def bus_halt_def init_tlb_def init_caches_def
      set_cp0_def Let_def)

lemma unknown_machine_crashes: "mips_parse_mach ''malta'' = Inl Null_pointer"
  by (simp add: mips_parse_mach_def mips_machines_def)

lemma mult_is_unsigned:
  assumes "uint (gpr s (mips_rs i)) * uint (gpr s (mips_rt i)) < 2 ^ 63"
  shows "mips_MULT i s = mips_MULTU i s"
  using assms by (simp add: mips_MULT_def mips_MULTU_def reg_rs_def reg_rt_def set_hilo_def Let_def)

end
