(* ===== verification/Word_Shift.thy ===== *)
theory Word_Shift
  imports Prelude
begin

text \<open>
  Shifts and masks of words as division, multiplication and remainder of the numbers they stand for.
\<close>

lemma unat_shr: "unat (drop_bit n x) = unat x div 2 ^ n" for x :: "'a :: len word"
  unfolding unat_drop_bit_eq by (simp add: drop_bit_eq_div)

lemma word_from: "unat w = n \<Longrightarrow> w = of_nat n" for w :: "'a :: len word"
  by auto

lemma shl_bit0: "push_bit (Suc n) x AND 1 = 0" for x :: "'a :: len word"
  by (rule bit_word_eqI) (auto simp del: push_bit_Suc simp: bit_push_bit_iff bit_and_iff bit_1_iff)

lemma unat_shl: "unat (push_bit n x) = unat x * 2 ^ n mod 2 ^ LENGTH('a)" for x :: "'a :: len word"
  unfolding unsigned_push_bit_eq by (simp add: push_bit_eq_mult take_bit_eq_mod)

lemma unat_shl_exact: "unat x < 2 ^ k \<Longrightarrow> k + n \<le> LENGTH('a) \<Longrightarrow> unat (push_bit n x) = unat x * 2 ^ n"
  for x :: "'a :: len word"
proof -
  assume a: "unat x < 2 ^ k" "k + n \<le> LENGTH('a)"
  have "unat x * 2 ^ n < 2 ^ k * 2 ^ n" using a(1) by simp
  also have "\<dots> \<le> 2 ^ LENGTH('a)" using a(2) power_increasing [of "k + n" "LENGTH('a)" "2 :: nat"] by (simp add: power_add)
  finally show ?thesis by (simp add: unat_shl)
qed

lemma shr_shl: "unat x < 2 ^ k \<Longrightarrow> k + n \<le> LENGTH('a) \<Longrightarrow> drop_bit n (push_bit n x) = x" for x :: "'a :: len word"
  by (rule word_unat_eq_iff [THEN iffD2]) (simp only: unat_shr unat_shl_exact, simp)

lemma shl_shr_bound: "unat x < 2 ^ (k + n) \<Longrightarrow> unat (drop_bit n x) < 2 ^ k" for x :: "'a :: len word"
  unfolding unat_shr by (simp add: power_add less_mult_imp_div_less)

lemma unat_low: "unat (x AND mask n) = unat x mod 2 ^ n" for x :: "'a :: len word"
  unfolding take_bit_eq_mask [symmetric] unsigned_take_bit_eq by (simp add: take_bit_eq_mod)

lemma unat_below: "(\<And>n. k \<le> n \<Longrightarrow> \<not> bit x n) \<Longrightarrow> unat x < 2 ^ k" for x :: "'a :: len word"
proof -
  assume h: "\<And>n. k \<le> n \<Longrightarrow> \<not> bit x n"
  have "x = x AND mask k" by (rule bit_word_eqI) (use h in \<open>auto simp: bit_and_iff bit_mask_iff not_le [symmetric]\<close>)
  then show ?thesis by (metis unat_low mod_less_divisor zero_less_numeral zero_less_power)
qed

lemma and_bit_zero: "x AND push_bit n 1 = 0 \<longleftrightarrow> \<not> bit x n" for x :: "'a :: len word"
  using bit_iff_and_push_bit_not_eq_0 [of x n] by simp

lemma bit_below: "unat x < 2 ^ n \<Longrightarrow> n \<le> k \<Longrightarrow> \<not> bit x k" for x :: "'a :: len word"
proof -
  assume a: "unat x < 2 ^ n" "n \<le> k"
  then have "unat x < 2 ^ k" using power_increasing [of n k "2 :: nat"] by linarith
  then have "\<not> bit (unat x) k" by (simp add: bit_iff_odd)
  then show ?thesis using bit_imp_le_length [of x k] by (auto simp: bit_unsigned_iff)
qed

text \<open>Bit \<open>n\<close> of a number below \<open>2 ^ (n + 1)\<close>.\<close>

lemma top_bit_iff: "unat x < 2 ^ (n + 1) \<Longrightarrow> bit x n \<longleftrightarrow> 2 ^ n \<le> unat x" for x :: "'a :: len word"
proof -
  assume a: "unat x < 2 ^ (n + 1)"
  show ?thesis
  proof (cases "n < LENGTH('a)")
    case True
    have "bit x n \<longleftrightarrow> bit (unat x) n" using True by (simp add: bit_unsigned_iff)
    also have "\<dots> \<longleftrightarrow> odd (unat x div 2 ^ n)" by (rule bit_iff_odd)
    also have "\<dots> \<longleftrightarrow> 2 ^ n \<le> unat x"
    proof (cases "2 ^ n \<le> unat x")
      case True
      have "unat x div 2 ^ n = 1" using a True by (simp add: div_nat_eqI)
      then show ?thesis using True by simp
    qed simp
    finally show ?thesis .
  next
    case False
    have "unat x < 2 ^ LENGTH('a)" by (rule unsigned_less)
    then have "unat x < 2 ^ n" using False power_increasing [of "LENGTH('a)" n "2 :: nat"] by linarith
    then show ?thesis using False bit_imp_le_length [of x n] by auto
  qed
qed

lemma or_disjoint_add: "a AND b = 0 \<Longrightarrow> unat (a OR b) = unat a + unat b" for a b :: "'a :: len word"
proof -
  assume "a AND b = 0"
  then have "unat a AND unat b = 0" by (metis unsigned_0 unsigned_and_eq)
  then show ?thesis by (simp add: unsigned_or_eq disjunctive_add bit_eq_iff bit_and_iff)
qed

end
