(* ===== verification/Ppc_Alu_Spec.thy ===== *)
theory Ppc_Alu_Spec
  imports Ppc_Alu Word_Shift
begin

text \<open>
  What the integer instructions of the e500 simulator compute: sums and differences of two words by the carry, and
  rotation under a mask.
\<close>

subsection \<open>What the parts of an instruction change\<close>

lemma pgpr_upd:
  "pgpr (set_pgpr r v s) k = (if k = r then v else pgpr s k)"
  "pgpr (set_ca b s) k = pgpr s k"
  "pgpr (record_cr0 r s) k = pgpr s k"
  by (simp_all add: pgpr_def set_pgpr_def set_ca_def record_cr0_def ppc_update_cr0_def upd_core_def upd_core_of_def cc_def Let_def)

lemma opc_upd:
  "opc (set_pgpr r v s) = opc s" "opc (set_ca b s) = opc s"
  by (simp_all add: opc_def set_pgpr_def set_ca_def upd_core_def upd_core_of_def cc_def)

lemma ppc_ca_upd:
  "ppc_ca (set_pgpr r v s) = ppc_ca s"
  "ppc_ca (set_ca b s) = of_bool b"
  "ppc_ca (record_cr0 r s) = ppc_ca s"
proof -
  have "(x OR XER_CA) AND XER_CA \<noteq> 0" for x :: u32
  proof -
    have "(x OR XER_CA) AND XER_CA = XER_CA" by (rule bit_word_eqI) (auto simp: bit_simps)
    then show ?thesis by (simp add: XER_CA_def)
  qed
  moreover have "(x AND NOT XER_CA) AND XER_CA = 0" for x :: u32 by (rule bit_word_eqI) (auto simp: bit_simps)
  ultimately show "ppc_ca (set_ca b s) = of_bool b"
    by (simp add: ppc_ca_def set_ca_def upd_core_def upd_core_of_def cc_def)
qed (simp_all add: ppc_ca_def set_pgpr_def record_cr0_def ppc_update_cr0_def upd_core_def upd_core_of_def cc_def Let_def)

lemmas put_upd = put_ca_rc_def put_rc_def pgpr_upd ppc_ca_upd

text \<open>The next instruction is \<open>i\<close>.\<close>

definition with_opc :: "u32 \<Rightarrow> 'd ppc_state \<Rightarrow> 'd ppc_state" where
  "with_opc i = upd_core (\<lambda>c. c\<lparr>eopc := i\<rparr>)"

lemma with_opc_upd: "opc (with_opc i s) = i" "pgpr (with_opc i s) k = pgpr s k" "ppc_ca (with_opc i s) = ppc_ca s"
  by (simp_all add: with_opc_def opc_def pgpr_def ppc_ca_def upd_core_def upd_core_of_def cc_def)

subsection \<open>Carries\<close>

lemma carry_exact: "unat (a + b) + 2 ^ 32 * of_bool (a + b < a) = unat a + unat b" for a b :: u32
  using unat_plus_if_size [of a b] unsigned_less [of b, where 'a = nat]
  by (auto simp: word_less_nat_alt word_size split: if_splits)

lemma ppc_carry_3_exact:
  assumes "c = 0 \<or> c = 1"
  shows "unat (a + b + c) + 2 ^ 32 * of_bool (ppc_carry_3 a b c) = unat a + unat b + unat c"
proof -
  have "unat c \<le> 1" using assms by auto
  moreover have "unat (a + b + c) + 2 ^ 32 * of_bool (a + b + c < c) = unat (a + b) + unat c"
    using carry_exact [of c "a + b"] by (simp add: add.commute)
  ultimately show ?thesis
    using carry_exact [of a b] unsigned_less [of a, where 'a = nat] unsigned_less [of b, where 'a = nat]
    by (cases "a + b < a"; cases "a + b + c < c"; simp add: ppc_carry_3_def)
qed

lemma unat_bool: "unat (of_bool b :: u32) = of_bool b"
  by simp

lemma unat_not: "unat (NOT a) = 2 ^ 32 - 1 - unat a" for a :: u32
proof -
  have "NOT a = - 1 - a" by (simp add: not_eq_complement)
  moreover have "unat (- 1 :: u32) = 2 ^ 32 - 1"
  proof -
    have "(- 1 :: u32) = 0xffffffff" by simp
    then show ?thesis by (simp only:) simp
  qed
  moreover have "a \<le> - 1" by simp
  ultimately show ?thesis by (simp only: unat_sub)
qed

text \<open>The number in two registers.\<close>

definition reg_pair :: "'d ppc_state \<Rightarrow> nat \<Rightarrow> nat \<Rightarrow> nat" where
  "reg_pair s hi lo = unat (pgpr s hi) * 2 ^ 32 + unat (pgpr s lo)"

lemma add_digits:
  "L + 2 ^ 32 * Q = A + B \<Longrightarrow> H + 2 ^ 32 * P = X + Y + Q \<Longrightarrow> 2 ^ 64 * P + (H * 2 ^ 32 + L) = X * 2 ^ 32 + A + (Y * 2 ^ 32 + B)"
  for A B H L P Q X Y :: nat
  by simp

lemma sub_digits:
  "L + 2 ^ 32 * Q = 2 ^ 32 - 1 - A + B + 1 \<Longrightarrow> H + 2 ^ 32 * P = 2 ^ 32 - 1 - X + Y + Q \<Longrightarrow> A < 2 ^ 32 \<Longrightarrow> X < 2 ^ 32 \<Longrightarrow>
   2 ^ 64 * P + (H * 2 ^ 32 + L) + (X * 2 ^ 32 + A) = Y * 2 ^ 32 + B + 2 ^ 64"
  for A B H L P Q X Y :: nat
  by simp

lemma add_two_words:
  assumes "f21 i \<noteq> f16 j" "f21 i \<noteq> f11 j" "f21 i \<noteq> f21 j"
    "s2 = ppc_opc_addex bd (with_opc j (ppc_opc_addcx bd (with_opc i s)))"
  shows "2 ^ 64 * unat (ppc_ca s2) + reg_pair s2 (f21 j) (f21 i) = reg_pair s (f16 j) (f16 i) + reg_pair s (f11 j) (f11 i)"
proof -
  let ?a = "pgpr s (f16 i)" and ?b = "pgpr s (f11 i)" and ?x = "pgpr s (f16 j)" and ?y = "pgpr s (f11 j)"
  define c :: u32 where "c = of_bool (?a + ?b < ?a)"
  have c: "c = 0 \<or> c = 1" "unat c = of_bool (?a + ?b < ?a)" by (simp_all add: c_def)
  have r: "pgpr s2 (f21 i) = ?a + ?b" "pgpr s2 (f21 j) = ?x + ?y + c" "ppc_ca s2 = of_bool (ppc_carry_3 ?x ?y c)"
    using assms
    by (simp_all add: ppc_opc_addex_def ppc_opc_addcx_def alu_adde_def alu_addc_def Let_def put_upd with_opc_upd c_def)
  show ?thesis
    unfolding reg_pair_def r unat_bool
    by (rule add_digits [OF carry_exact ppc_carry_3_exact [OF c(1), unfolded c(2)]])
qed

lemma sub_two_words:
  assumes "f21 i \<noteq> f16 j" "f21 i \<noteq> f11 j" "f21 i \<noteq> f21 j"
    "s2 = ppc_opc_subfex bd (with_opc j (ppc_opc_subfcx bd (with_opc i s)))"
  shows "2 ^ 64 * unat (ppc_ca s2) + reg_pair s2 (f21 j) (f21 i) + reg_pair s (f16 j) (f16 i) = reg_pair s (f11 j) (f11 i) + 2 ^ 64"
proof -
  let ?a = "pgpr s (f16 i)" and ?b = "pgpr s (f11 i)" and ?x = "pgpr s (f16 j)" and ?y = "pgpr s (f11 j)"
  define c :: u32 where "c = of_bool (ppc_carry_3 (NOT ?a) ?b 1)"
  have c: "c = 0 \<or> c = 1" "unat c = of_bool (ppc_carry_3 (NOT ?a) ?b 1)" by (simp_all add: c_def)
  have r: "pgpr s2 (f21 i) = NOT ?a + ?b + 1" "pgpr s2 (f21 j) = NOT ?x + ?y + c" "ppc_ca s2 = of_bool (ppc_carry_3 (NOT ?x) ?y c)"
    using assms
    by (simp_all add: ppc_opc_subfex_def ppc_opc_subfcx_def alu_subfe_def alu_subfc_def Let_def put_upd with_opc_upd c_def)
  have "unat ?a < 2 ^ 32" "unat ?x < 2 ^ 32"
    using unsigned_less [of ?a, where 'a = nat] unsigned_less [of ?x, where 'a = nat] by simp_all
  then show ?thesis
    unfolding reg_pair_def r unat_bool
    using sub_digits ppc_carry_3_exact [of 1 "NOT ?a" ?b, unfolded unat_not unsigned_1]
      ppc_carry_3_exact [OF c(1), of "NOT ?x" ?y, unfolded c(2) unat_not] by blast
qed

text \<open>
  C24. \<^verbatim>\<open>addc\<close> on the lower words and \<^verbatim>\<open>adde\<close> on the upper ones add numbers of 64
  bits, \<^verbatim>\<open>subfc\<close> and \<^verbatim>\<open>subfe\<close> subtract them: the two results and the carry they
  leave behind are the exact sum, and the exact difference with 2 to the power of 64 added to it.
\<close>

theorem two_word_arithmetic:
  fixes s :: "'d ppc_state" and bd :: "'d ppc_board"
  assumes "f21 i \<noteq> f16 j" "f21 i \<noteq> f11 j" "f21 i \<noteq> f21 j"
  defines "p \<equiv> ppc_opc_addex bd (with_opc j (ppc_opc_addcx bd (with_opc i s)))"
    and "d \<equiv> ppc_opc_subfex bd (with_opc j (ppc_opc_subfcx bd (with_opc i s)))"
  shows "2 ^ 64 * unat (ppc_ca p) + reg_pair p (f21 j) (f21 i) = reg_pair s (f16 j) (f16 i) + reg_pair s (f11 j) (f11 i) \<and>
    2 ^ 64 * unat (ppc_ca d) + reg_pair d (f21 j) (f21 i) + reg_pair s (f16 j) (f16 i) = reg_pair s (f11 j) (f11 i) + 2 ^ 64"
  unfolding p_def d_def
  using add_two_words [OF assms(1-3) refl] sub_two_words [OF assms(1-3) refl] by blast

text \<open>\<^verbatim>\<open>addc r4, r6, r8\<close> and \<^verbatim>\<open>adde r3, r5, r7\<close>.\<close>

theorem two_word_arithmetic_witness:
  "\<forall>(bd :: unit ppc_board) s0.
     (let s = set_pgpr 5 1 (set_pgpr 6 0xffffffff (set_pgpr 7 2 (set_pgpr 8 1 s0)));
          p = ppc_opc_addex bd (with_opc 0x7c653914 (ppc_opc_addcx bd (with_opc 0x7c864014 s)))
      in 2 ^ 64 * unat (ppc_ca p) + reg_pair p 3 4 = 0x1ffffffff + 0x200000001)"
proof -
  have f: "f21 0x7c864014 = 4" "f16 0x7c864014 = 6" "f11 0x7c864014 = 8" "f21 0x7c653914 = 3" "f16 0x7c653914 = 5" "f11 0x7c653914 = 7"
    by code_simp+
  show ?thesis
  proof (intro allI)
    fix bd :: "unit ppc_board" and s0 :: "unit ppc_state"
    define s where "s = set_pgpr 5 1 (set_pgpr 6 0xffffffff (set_pgpr 7 2 (set_pgpr 8 1 s0)))"
    have "reg_pair s 5 6 = 0x1ffffffff" "reg_pair s 7 8 = 0x200000001" by (simp_all add: s_def reg_pair_def pgpr_upd)
    then show "let s = set_pgpr 5 1 (set_pgpr 6 0xffffffff (set_pgpr 7 2 (set_pgpr 8 1 s0)));
        p = ppc_opc_addex bd (with_opc 0x7c653914 (ppc_opc_addcx bd (with_opc 0x7c864014 s)))
      in 2 ^ 64 * unat (ppc_ca p) + reg_pair p 3 4 = 0x1ffffffff + 0x200000001"
      using two_word_arithmetic [of "0x7c864014" "0x7c653914" bd s, unfolded f] unfolding Let_def s_def [symmetric] by simp
  qed
qed

subsection \<open>Rotation under a mask\<close>

lemma bit_rotl: "n < 32 \<Longrightarrow> bit (ppc_word_rotl d k) n \<longleftrightarrow> bit d ((n + 32 - unat k mod 32) mod 32)"
proof -
  assume n: "n < 32"
  define r where "r = unat k mod 32"
  have "(0x1f :: u32) = mask 5" by (simp add: mask_eq_exp_minus_1)
  then have k: "unat (k AND 0x1f) = r" unfolding r_def by (simp only: unat_low) simp
  have r: "r < 32" by (simp add: r_def)
  have l: "\<not> bit d (32 - r + n)" if "r \<le> n"
    using bit_imp_le_length [of d "32 - r + n"] that r by auto
  have m: "(n + 32 - r) mod 32 = (if r \<le> n then n - r else 32 - r + n)"
    using n r by (auto simp: mod_if)
  show ?thesis
    unfolding ppc_word_rotl_def k Let_def r_def [symmetric] m using n l by (auto simp: bit_simps)
qed

lemma opc_field_bound: "f21 i < 32" "f16 i < 32" "f11 i < 32" "f6 i < 32" "f1 i < 32"
proof -
  have "(0x1f :: u32) = mask 5" by (simp add: mask_eq_exp_minus_1)
  then have "unat (x AND 0x1f :: u32) < 32" for x by (simp only: unat_low) simp
  then show "f21 i < 32" "f16 i < 32" "f11 i < 32" "f6 i < 32" "f1 i < 32"
    by (simp_all add: f21_def f16_def f11_def f6_def f1_def)
qed

text \<open>Whether bit \<open>n\<close> of a word, counted from the least one, is between \<open>MB\<close> and \<open>ME\<close>, counted from the greatest one.\<close>

definition in_mask :: "nat \<Rightarrow> nat \<Rightarrow> nat \<Rightarrow> bool" where
  "in_mask MB ME n = (if MB \<le> ME then MB \<le> 31 - n \<and> 31 - n \<le> ME else MB \<le> 31 - n \<or> 31 - n \<le> ME)"

lemma ppc_mask_bits:
  assumes "MB < 32" "ME < 32"
  shows "ppc_mask MB ME = None \<longleftrightarrow> MB = ME + 1"
    and "ppc_mask MB ME = Some m \<Longrightarrow> n < 32 \<Longrightarrow> bit m n \<longleftrightarrow> in_mask MB ME n"
proof -
  show "ppc_mask MB ME = None \<longleftrightarrow> MB = ME + 1" using assms by (auto simp: ppc_mask_def)
  have mk: "push_bit k 1 - 1 = (mask k :: u32)" for k by (simp add: mask_eq_exp_minus_1)
  assume m: "ppc_mask MB ME = Some m" and n: "n < 32"
  show "bit m n \<longleftrightarrow> in_mask MB ME n"
  proof (cases "MB \<le> ME")
    case True
    show ?thesis
    proof (cases "ME - MB = 31")
      case True
      then have e: "MB = 0" "ME = 31" using assms by auto
      have "(0xffffffff :: u32) = mask 32" by (simp add: mask_eq_exp_minus_1)
      then have "m = mask 32" using m e by (simp add: ppc_mask_def)
      then show ?thesis using n e by (simp only: bit_mask_iff) (simp add: in_mask_def)
    next
      case False
      then have "m = push_bit (31 - ME) (mask (ME - MB + 1))"
        using m True unfolding ppc_mask_def mk by simp
      then show ?thesis using True n assms by (auto simp: in_mask_def bit_simps)
    qed
  next
    case False
    then have k: "m = ppc_word_rotl (mask (32 - MB + ME + 1)) (of_nat (31 - ME))"
      using m False unfolding ppc_mask_def mk by (simp split: if_splits)
    have r: "unat (of_nat (31 - ME) :: u32) mod 32 = 31 - ME" by (simp add: unat_of_nat)
    show ?thesis
      unfolding k bit_rotl [OF n] r using False assms n by (auto simp: in_mask_def bit_simps mod_if)
  qed
qed

text \<open>
  C14. \<^verbatim>\<open>rlwinm\<close> rotates and masks as the manual says: bit \<open>n\<close> of the result is the bit of the source
  that the rotation brings there, inside the mask from bit MB to bit ME, which may wrap around, and 0 outside of it;
  every other register is kept. For \<open>MB = ME + 1\<close>, a mask of ones, the simulator's shift is undefined.
\<close>

theorem rlwinm_exact:
  fixes s :: "'d ppc_state" and bd :: "'d ppc_board"
  defines "i \<equiv> opc s" and "s' \<equiv> ppc_opc_rlwinmx bd s"
  shows "if f6 i = f1 i + 1 then s' = ppc_halt Undefined_shift s
    else (\<lambda>n. n < 32 \<and> bit (pgpr s' (f16 i)) n) =
        (\<lambda>n. n < 32 \<and> in_mask (f6 i) (f1 i) n \<and> bit (pgpr s (f21 i)) ((n + 32 - f11 i) mod 32)) \<and>
      (pgpr s')(f16 i := 0) = (pgpr s)(f16 i := 0)"
proof (cases "ppc_mask (f6 i) (f1 i)")
  case None
  then have "f6 i = f1 i + 1" using ppc_mask_bits(1) [OF opc_field_bound(4) [of i] opc_field_bound(5) [of i]] by simp
  then show ?thesis using None by (simp add: s'_def ppc_opc_rlwinmx_def rotate_mask_def i_def Let_def)
next
  case (Some m)
  then have ne: "f6 i \<noteq> f1 i + 1" using ppc_mask_bits(1) [OF opc_field_bound(4) [of i] opc_field_bound(5) [of i]] by simp
  have r: "unat (of_nat (f11 i) :: u32) mod 32 = f11 i" using opc_field_bound(3) [of i] by (simp add: unat_of_nat)
  have s': "s' = put_rc (f16 i) (ppc_word_rotl (pgpr s (f21 i)) (of_nat (f11 i)) AND m) s"
    using Some by (simp add: s'_def ppc_opc_rlwinmx_def rotate_mask_def i_def Let_def)
  have "(n < 32 \<and> bit (pgpr s' (f16 i)) n) = (n < 32 \<and> in_mask (f6 i) (f1 i) n \<and> bit (pgpr s (f21 i)) ((n + 32 - f11 i) mod 32))" for n
    unfolding s' put_upd using bit_rotl [of n "pgpr s (f21 i)" "of_nat (f11 i)"] ppc_mask_bits(2) [OF opc_field_bound(4) [of i] opc_field_bound(5) [of i] Some] r
    by (auto simp: bit_and_iff)
  moreover have "(pgpr s')(f16 i := 0) = (pgpr s)(f16 i := 0)" unfolding s' put_upd by (auto simp: put_upd)
  ultimately show ?thesis using ne by simp
qed

end
