(* ===== verification/Ppc_Float_Spec.thy ===== *)
theory Ppc_Float_Spec
  imports Ppc_Fpu Word_Shift
begin

text \<open>
  What the software floating point of the e500 simulator computes: leading zeros, packing as the inverse of
  unpacking, and the fractions of products and quotients as the truncated exact ones.
\<close>

subsection \<open>Leading zeros\<close>

text \<open>\<open>x\<close> is \<open>d\<close> without its low \<open>j\<close> bits, and not 0.\<close>

definition lz_inv :: "u32 \<Rightarrow> nat \<Rightarrow> nat \<times> u32 \<Rightarrow> bool" where
  "lz_inv d start p \<longleftrightarrow> fst p \<le> start \<and> unat (snd p) = unat d div 2 ^ (start - fst p) \<and> 0 < unat (snd p)"

lemma lz_step_inv:
  assumes "lz_inv d start p" "n \<le> fst p" "c \<Longrightarrow> 2 ^ n \<le> unat (snd p)"
  shows "lz_inv d start (lz_step c n p)"
proof (cases c)
  case True
  have "start - (fst p - n) = (start - fst p) + n" using assms(1,2) by (simp add: lz_inv_def)
  then have "unat (drop_bit n (snd p)) = unat d div 2 ^ (start - (fst p - n))"
    using assms(1) by (simp only: lz_inv_def unat_shr power_add div_mult2_eq)
  moreover have "0 < unat (drop_bit n (snd p))"
    using assms(3) True unfolding unat_shr by (simp add: div_greater_zero_iff)
  moreover have "fst p - n \<le> start" using assms(1) by (auto simp: lz_inv_def)
  ultimately show ?thesis using True by (simp add: lz_inv_def lz_step_def)
qed (use assms in \<open>simp add: lz_inv_def lz_step_def\<close>)

lemma lz_step_bound:
  assumes "unat (snd p) < 2 ^ (m + n)" "\<not> c \<Longrightarrow> unat (snd p) < 2 ^ m"
  shows "unat (snd (lz_step c n p)) < 2 ^ m"
  using assms by (auto simp: lz_step_def intro: shl_shr_bound)

lemma and_table:
  "list_all (\<lambda>n. ((of_nat n :: u32) AND 0xf0 \<noteq> 0) = (16 \<le> n)) [0..<256]"
  "list_all (\<lambda>n. ((of_nat n :: u32) AND 0xc \<noteq> 0) = (4 \<le> n)) [0..<16]"
  "list_all (\<lambda>n. ((of_nat n :: u32) AND 2 \<noteq> 0) = (2 \<le> n)) [0..<4]"
  by code_simp+

lemma by_table:
  assumes "list_all (\<lambda>n. P (of_nat n :: u32) = Q n) [0..<k]" "unat x < k"
  shows "P x = Q (unat x)"
  using assms(1) [unfolded list_all_iff, rule_format, of "unat x"] assms(2) by simp

lemma lz_word_exact:
  assumes "unat d \<noteq> 0" "31 \<le> start"
  shows "\<exists>k < 32. lz_word start d = start - k \<and> 2 ^ k \<le> unat d \<and> unat d < 2 ^ (k + 1)"
proof -
  have cmp: "0xffff < x \<longleftrightarrow> 2 ^ 16 \<le> unat x" "0xff < x \<longleftrightarrow> 2 ^ 8 \<le> unat x" for x :: u32
    by (simp_all add: word_less_nat_alt Suc_le_eq [symmetric])
  define p1 where "p1 = lz_step (0xffff < d) 16 (start, d)"
  define p2 where "p2 = lz_step (0xff < snd p1) 8 p1"
  define p3 where "p3 = lz_step (snd p2 AND 0xf0 \<noteq> 0) 4 p2"
  define p4 where "p4 = lz_step (snd p3 AND 0xc \<noteq> 0) 2 p3"
  have i0: "lz_inv d start (start, d)" using assms(1) by (simp add: lz_inv_def)
  have i1: "lz_inv d start p1" and f1: "start - 16 \<le> fst p1"
    unfolding p1_def using assms(2) by (auto intro!: lz_step_inv [OF i0] simp: cmp) (simp add: lz_step_def)
  have b1: "unat (snd p1) < 2 ^ 16"
    unfolding p1_def by (rule lz_step_bound) (use unsigned_less [of d] cmp in \<open>auto simp: not_le [symmetric]\<close>)
  have i2: "lz_inv d start p2" and f2: "start - 24 \<le> fst p2"
    unfolding p2_def using assms(2) f1 by (auto intro!: lz_step_inv [OF i1] simp: cmp) (auto simp: lz_step_def)
  have b2: "unat (snd p2) < 2 ^ 8"
    unfolding p2_def by (rule lz_step_bound) (use b1 cmp in \<open>auto simp: not_le [symmetric]\<close>)
  have c3: "(snd p2 AND 0xf0 \<noteq> 0) = (2 ^ 4 \<le> unat (snd p2))"
    using by_table [OF and_table(1)] b2 by simp
  have i3: "lz_inv d start p3" and f3: "start - 28 \<le> fst p3"
    unfolding p3_def c3 using assms(2) f2 by (auto intro!: lz_step_inv [OF i2]) (auto simp: lz_step_def)
  have b3: "unat (snd p3) < 2 ^ 4"
    unfolding p3_def c3 by (rule lz_step_bound) (use b2 in \<open>auto simp: not_le [symmetric]\<close>)
  have c4: "(snd p3 AND 0xc \<noteq> 0) = (2 ^ 2 \<le> unat (snd p3))"
    using by_table [OF and_table(2)] b3 by simp
  have i4: "lz_inv d start p4" and f4: "start - 30 \<le> fst p4"
    unfolding p4_def c4 using assms(2) f3 by (auto intro!: lz_step_inv [OF i3]) (auto simp: lz_step_def)
  have b4: "unat (snd p4) < 2 ^ 2"
    unfolding p4_def c4 by (rule lz_step_bound) (use b3 in \<open>auto simp: not_le [symmetric]\<close>)
  define j where "j = start - fst p4"
  define X where "X = unat (snd p4)"
  have X: "X = unat d div 2 ^ j" "0 < X" "X < 4" and j: "fst p4 = start - j" "j \<le> 30"
    using i4 b4 f4 assms(2) by (auto simp: lz_inv_def X_def j_def)
  have c5: "(snd p4 AND 2 \<noteq> 0) = (2 \<le> X)"
    unfolding X_def using by_table [OF and_table(3)] b4 by simp
  have lz: "lz_word start d = start - (if 2 \<le> X then j + 1 else j)"
    unfolding lz_word_def Let_def p1_def [symmetric] p2_def [symmetric] p3_def [symmetric] p4_def [symmetric] c5
    by (simp add: j(1))
  have "2 ^ j * X \<le> unat d" "unat d < 2 ^ j * (X + 1)"
    unfolding X(1) by (simp_all add: dividend_less_times_div)
  moreover have "X = 1 \<or> X = 2 \<or> X = 3" using X(2,3) by arith
  ultimately show ?thesis
    using j(2) lz by (intro exI [of _ "if 2 \<le> X then j + 1 else j"]) (auto simp: power_add)
qed

theorem count_leading_zeros_exact:
  assumes "i \<noteq> 0"
  shows "ppc_count_leading_zeros i < 64 \<and> 2 ^ (63 - ppc_count_leading_zeros i) \<le> unat i \<and>
    unat i < 2 ^ (64 - ppc_count_leading_zeros i)"
proof -
  have hi: "unat (ucast (drop_bit 32 i) :: u32) = unat i div 2 ^ 32"
  proof -
    have "unat i div 2 ^ 32 < 2 ^ 32"
      using unsigned_less [of i, where 'a = nat] by (intro less_mult_imp_div_less) simp
    then show ?thesis by (simp add: unsigned_ucast_eq unat_shr take_bit_eq_mod)
  qed
  show ?thesis
  proof (cases "(ucast (drop_bit 32 i) :: u32) = 0")
    case True
    then have z: "unat i div 2 ^ 32 = 0" using hi by simp
    then have lo: "unat (ucast i :: u32) = unat i"
      by (simp add: unsigned_ucast_eq take_bit_eq_mod)
    have "unat (ucast i :: u32) \<noteq> 0" using assms lo by (simp add: unat_eq_zero)
    from lz_word_exact [OF this, of 63] obtain k where
      "k < 32" "lz_word 63 (ucast i) = 63 - k" "2 ^ k \<le> unat i" "unat i < 2 ^ (k + 1)" using lo by auto
    then show ?thesis using True by (simp add: ppc_count_leading_zeros_def Suc_diff_le)
  next
    case False
    then have "unat (ucast (drop_bit 32 i) :: u32) \<noteq> 0" by (simp add: unat_eq_zero)
    from lz_word_exact [OF this, of 31] obtain k where
      k: "k < 32" "lz_word 31 (ucast (drop_bit 32 i)) = 31 - k" "2 ^ k \<le> unat i div 2 ^ 32" "unat i div 2 ^ 32 < 2 ^ (k + 1)"
      unfolding hi by auto
    have "2 ^ (k + 32) \<le> unat i" using k(3) by (simp add: power_add less_eq_div_iff_mult_less_eq)
    moreover have "unat i < 2 ^ (k + 33)" using k(4) by (simp add: power_add div_less_iff_less_mult)
    ultimately show ?thesis
      using False k(1,2) by (simp add: ppc_count_leading_zeros_def Suc_diff_le algebra_simps)
  qed
qed

subsection \<open>Packing undoes unpacking\<close>

lemma ppc_fpu_round_exact: "m AND 7 = 0 \<Longrightarrow> ppc_fpu_round rn s m = (0, m)"
  by (simp add: ppc_fpu_round_def)

lemma pack_norm_exact:
  assumes "m AND 7 = 0" "0 < e" "e < big" "\<not> bit m hib"
  shows "pack_norm rn hib big s e m = (0, e, drop_bit 3 m)"
  unfolding pack_norm_def and_bit_zero ppc_fpu_round_exact [OF assms(1)] using assms by simp

lemma pack_norm_denormal:
  assumes "e \<le> 0" "nat (- e + 1) = n" "n \<le> hib" "drop_bit n m AND 7 = 0" "\<not> bit (push_bit 1 (drop_bit n m)) hib"
  shows "pack_norm rn hib big s e m = (FPSCR_UX, 0, drop_bit 4 (push_bit 1 (drop_bit n m)))"
proof -
  have "- e + 1 \<le> int hib" using assms(2,3) by simp
  then show ?thesis
    unfolding pack_norm_def and_bit_zero Let_def assms(2) ppc_fpu_round_exact [OF assms(4)] using assms(1,5) by simp
qed

lemma mask52: "0x000fffffffffffff = (mask 52 :: u64)" "push_bit 52 1 - 1 = (mask 52 :: u64)"
  by (simp_all add: mask_eq_exp_minus_1)

lemma mask11: "0x7ff = (mask 11 :: u64)"
  by (simp add: mask_eq_exp_minus_1)

lemma fpu_sign_bit: "d AND FPU_SIGN_BIT \<noteq> 0 \<longleftrightarrow> bit d 63" "FPU_SIGN_BIT = push_bit 63 1"
proof -
  show eq: "FPU_SIGN_BIT = push_bit 63 1" by (simp add: FPU_SIGN_BIT_def)
  show "d AND FPU_SIGN_BIT \<noteq> 0 \<longleftrightarrow> bit d 63" unfolding eq and_bit_zero by simp
qed

lemma bit_sign: "bit FPU_SIGN_BIT n \<longleftrightarrow> n = 63"
  unfolding fpu_sign_bit(2) bit_push_bit_iff bit_1_iff by auto

text \<open>A double from its three fields.\<close>

lemma pack_fields:
  "FPD_PACK_VAR (d AND FPU_SIGN_BIT \<noteq> 0) (uint (drop_bit 52 d AND 0x7ff)) (d AND 0x000fffffffffffff) = d"
  unfolding FPD_PACK_VAR_def mask52 mask11 fpu_sign_bit(1)
  apply (rule bit_word_eqI)
  subgoal for n by (cases "n = 63") (auto simp: bit_simps bit_sign)
  done

lemma round_bits: "push_bit 3 x AND 7 = 0" for x :: u64
proof -
  have 7: "(7 :: u64) = mask 3" by (simp add: mask_eq_exp_minus_1)
  show ?thesis unfolding 7 by (rule bit_word_eqI) (auto simp: bit_simps)
qed

lemma frac_bound: "unat (d AND 0x000fffffffffffff) < 2 ^ 52" for d :: u64
  unfolding mask52(1) unat_low by simp

lemma pack_unpack_normal:
  assumes "0 < uint (drop_bit 52 d AND 0x7ff)" "uint (drop_bit 52 d AND 0x7ff) < 2047"
  shows "ppc_fpu_pack_double rn (ppc_fpu_unpack_double d) = (0, d)"
proof -
  let ?f = "d AND 0x000fffffffffffff" and ?e = "uint (drop_bit 52 d AND 0x7ff)"
  let ?m = "push_bit 3 (?f OR push_bit 52 1)"
  have u: "ppc_fpu_unpack_double d = \<lparr>dtype = Fpr_norm, ds = d AND FPU_SIGN_BIT \<noteq> 0, de = ?e - 1023, dm = ?m\<rparr>"
    unfolding ppc_fpu_unpack_double_def Let_def using assms by (simp del: push_bit_of_1)
  have b: "\<not> bit ?m 56" and m: "drop_bit 3 ?m AND mask 52 = ?f"
    unfolding mask52 by (auto simp: bit_simps simp del: push_bit_of_1 intro!: bit_word_eqI)
  have p: "pack_norm rn 56 2047 s ?e ?m = (0, ?e, drop_bit 3 ?m)" for s
    by (rule pack_norm_exact [OF round_bits _ _ b]) (use assms in simp_all)
  have "FPD_PACK_VAR s ?e (drop_bit 3 ?m) = FPD_PACK_VAR s ?e ?f" for s
    unfolding FPD_PACK_VAR_def mask52(2) m by (simp add: mask52(1) and.assoc)
  then show ?thesis unfolding u ppc_fpu_pack_double_def using p pack_fields by simp
qed

text \<open>A denormal number has its fraction shifted to bit 58, three bits further than a normal one.\<close>

lemma unpack_denormal:
  assumes "uint (drop_bit 52 d AND 0x7ff) = 0" "d AND 0x000fffffffffffff = f" "f \<noteq> 0"
    "n = ppc_count_leading_zeros f - 8"
  shows "4 \<le> n \<and> n \<le> 55 \<and> unat f < 2 ^ (56 - n) \<and>
    ppc_fpu_unpack_double d = \<lparr>dtype = Fpr_norm, ds = d AND FPU_SIGN_BIT \<noteq> 0, de = - (1022 + int n), dm = push_bit (n + 3) f\<rparr>"
proof -
  let ?z = "ppc_count_leading_zeros f"
  have z: "?z < 64" "2 ^ (63 - ?z) \<le> unat f" "unat f < 2 ^ (64 - ?z)"
    using count_leading_zeros_exact [OF assms(3)] by auto
  have "(2 :: nat) ^ (63 - ?z) < 2 ^ 52" using z(2) frac_bound [of d] unfolding assms(2) by (rule le_less_trans)
  then have "63 - ?z < 52" by (rule power_less_imp_less_exp [rotated]) simp
  then have n: "?z = n + 8" "4 \<le> n" "n \<le> 55" using z(1) assms(4) by auto
  have "64 - ?z = 56 - n" using n by simp
  then have b: "unat f < 2 ^ (56 - n)" using z(3) by simp
  have "ppc_fpu_unpack_double d = \<lparr>dtype = Fpr_norm, ds = d AND FPU_SIGN_BIT \<noteq> 0, de = - (1022 + int n), dm = push_bit (n + 3) f\<rparr>"
    unfolding ppc_fpu_unpack_double_def Let_def ppc_fpu_normalize_def
    using assms(1-3) n by (simp add: nat_add_distrib del: push_bit_of_1)
  then show ?thesis using n b by simp
qed

lemma pack_unpack_denormal:
  assumes "uint (drop_bit 52 d AND 0x7ff) = 0" "d AND 0x000fffffffffffff \<noteq> 0"
  shows "ppc_fpu_pack_double rn (ppc_fpu_unpack_double d) = (FPSCR_UX, d)"
proof -
  define f where "f = d AND 0x000fffffffffffff"
  have fb: "unat f < 2 ^ 52" unfolding f_def by (rule frac_bound)
  define n where "n = ppc_count_leading_zeros f - 8"
  have n: "4 \<le> n" "n \<le> 55" "unat f < 2 ^ (56 - n)" and
    u: "ppc_fpu_unpack_double d = \<lparr>dtype = Fpr_norm, ds = d AND FPU_SIGN_BIT \<noteq> 0, de = - (1022 + int n), dm = push_bit (n + 3) f\<rparr>"
    using unpack_denormal [OF assms(1) f_def [symmetric] _ n_def] assms(2) by (auto simp: f_def)
  have "unat (push_bit 3 f) = unat f * 2 ^ 3" by (rule unat_shl_exact [OF fb]) simp
  also have "\<dots> < 2 ^ (56 - n) * 2 ^ 3" using n(3) by simp
  also have "\<dots> = 2 ^ (56 - n + 3)" by (simp only: power_add)
  also have "56 - n + 3 = 59 - n" using n(2) by simp
  finally have "unat (push_bit 3 f) < 2 ^ (59 - n)" .
  then have m: "drop_bit n (push_bit (n + 3) f) = push_bit 3 f"
    using shr_shl [of "push_bit 3 f" "59 - n" n] n by (simp add: push_bit_push_bit)
  have "unat (push_bit 4 f) < 2 ^ 56" using unat_shl_exact [OF fb, of 4] fb by simp
  then have b: "\<not> bit (push_bit 1 (push_bit 3 f)) 56" using bit_below [of "push_bit 4 f" 56 56] by simp
  have r: "drop_bit 4 (push_bit 1 (push_bit 3 f)) = f" using shr_shl [OF fb, of 4] by simp
  have p: "pack_norm rn 56 2047 s (1 - int n) (push_bit (n + 3) f) = (FPSCR_UX, 0, f)" for s
    using pack_norm_denormal [of "1 - int n" n 56 "push_bit (n + 3) f" rn 2047 s] n b r m round_bits by simp
  have "1 - int n = - (1022 + int n) + 1023" by simp
  then show ?thesis
    unfolding u ppc_fpu_pack_double_def using p pack_fields [of d, unfolded assms(1) f_def [symmetric]] by simp
qed

text \<open>
  C13. Packing undoes unpacking, in every rounding mode: a double that is unpacked and packed again is the same
  number, the denormal ones included, with no flag set but underflow for those; infinities and zeros keep their
  signs. Of a NaN only the sign is kept.
\<close>

theorem pack_unpack_double:
  fixes d :: u64
  defines "e \<equiv> drop_bit 52 d AND 0x7ff" and "f \<equiv> d AND 0x000fffffffffffff"
  shows "ppc_fpu_pack_double rn (ppc_fpu_unpack_double d) =
    (if e = 0 \<and> f \<noteq> 0 then FPSCR_UX else 0,
     if e = 2047 \<and> f \<noteq> 0 then FPD_PACK_VAR (d AND FPU_SIGN_BIT \<noteq> 0) 2047 1 else d)"
proof -
  have e: "uint e = 2047 \<longleftrightarrow> e = 2047" "uint e = 0 \<longleftrightarrow> e = 0" by (simp_all add: uint_word_ariths word_uint_eq_iff)
  have "uint e < 2048"
    using unat_low [of "drop_bit 52 d" 11] unfolding e_def mask11 by (simp only: uint_nat) simp
  moreover have "0 \<le> uint e" by simp
  ultimately consider "e = 2047" | "e = 0" "f \<noteq> 0" | "e = 0" "f = 0" | "0 < uint e" "uint e < 2047"
    using e by (cases "uint e = 2047"; cases "uint e = 0"; cases "f = 0") auto
  then show ?thesis
  proof cases
    case 1
    then show ?thesis
      using pack_fields [of d]
      by (auto simp: ppc_fpu_unpack_double_def ppc_fpu_pack_double_def Let_def e_def f_def)
  next
    case 2
    then show ?thesis using pack_unpack_denormal [of d rn] unfolding e_def f_def by simp
  next
    case 3
    then show ?thesis
      using pack_fields [of d] by (simp add: ppc_fpu_unpack_double_def ppc_fpu_pack_double_def Let_def e_def f_def)
  next
    case 4
    then show ?thesis using pack_unpack_normal [of d rn] e unfolding e_def f_def by auto
  qed
qed

subsection \<open>Products\<close>

lemma mult_exact: "unat x < 2 ^ a \<Longrightarrow> unat y < 2 ^ b \<Longrightarrow> a + b \<le> 64 \<Longrightarrow> unat (x * y) = unat x * unat y \<and> unat x * unat y < 2 ^ (a + b)"
  for x y :: u64
proof -
  assume a: "unat x < 2 ^ a" "unat y < 2 ^ b" "a + b \<le> 64"
  have p: "unat x * unat y < 2 ^ (a + b)"
    using mult_strict_mono [OF a(1,2)] by (simp add: power_add)
  also have "(2 :: nat) ^ (a + b) \<le> 2 ^ 64" using a(3) by (intro power_increasing) simp_all
  finally have "unat (x * y) = unat x * unat y" using unat_mult_lem [of x y] by simp
  then show ?thesis using p by simp
qed

lemma fpu_carry_exact:
  "unat (fst (ppc_fpu_add_uint64_carry a b)) + 2 ^ 64 * unat (snd (ppc_fpu_add_uint64_carry a b)) = unat a + unat b"
  unfolding ppc_fpu_add_uint64_carry_def
  using unat_plus_if_size [of a b] unsigned_less [of b, where 'a = nat] by (auto simp: word_less_nat_alt word_size split: if_splits)

lemma halves: "unat x = unat (drop_bit 32 x) * 2 ^ 32 + unat (x AND 0xffffffff)" for x :: u64
proof -
  have "(0xffffffff :: u64) = mask 32" by (simp add: mask_eq_exp_minus_1)
  then show ?thesis by (simp only: unat_low unat_shr) (simp add: div_mult_mod_eq)
qed

lemma low_half: "unat (x AND 0xffffffff) < 2 ^ 32" for x :: u64
proof -
  have "(0xffffffff :: u64) = mask 32" by (simp add: mask_eq_exp_minus_1)
  then show ?thesis by (simp only: unat_low) simp
qed

text \<open>The two words are the exact product.\<close>

lemma mul_m_exact:
  assumes "unat a < 2 ^ 62" "unat b < 2 ^ 62"
  shows "unat (fst (mul_m a b)) * 2 ^ 64 + unat (snd (mul_m a b)) = unat a * unat b"
proof -
  define a1 a0 b1 b0 where "a1 = drop_bit 32 a" and "a0 = a AND 0xffffffff" and "b1 = drop_bit 32 b" and "b0 = b AND 0xffffffff"
  note d = a1_def a0_def b1_def b0_def
  have s: "unat a = unat a1 * 2 ^ 32 + unat a0" "unat b = unat b1 * 2 ^ 32 + unat b0" unfolding d by (rule halves)+
  have u: "unat a1 < 2 ^ 30" "unat b1 < 2 ^ 30" "unat a0 < 2 ^ 32" "unat b0 < 2 ^ 32"
    unfolding d using shl_shr_bound [of a 30 32] shl_shr_bound [of b 30 32] assms low_half [of a] low_half [of b] by simp_all
  define split where "split = a1 * b0 + a0 * b1"
  have LL: "unat (a0 * b0) = unat a0 * unat b0" and M1: "unat (a1 * b0) = unat a1 * unat b0" "unat a1 * unat b0 < 2 ^ 62"
    and M2: "unat (a0 * b1) = unat a0 * unat b1" "unat a0 * unat b1 < 2 ^ 62"
    and H: "unat (a1 * b1) = unat a1 * unat b1" "unat a1 * unat b1 < 2 ^ 60"
    using mult_exact [OF u(3,4)] mult_exact [OF u(1,4)] mult_exact [OF u(3,2)] mult_exact [OF u(1,2)] by simp_all
  have sp: "unat split = unat a1 * unat b0 + unat a0 * unat b1" "unat split < 2 ^ 63"
    unfolding split_def using M1 M2 unat_add_lem [of "a1 * b0" "a0 * b1"] by simp_all
  define c where "c = ppc_fpu_add_uint64_carry (a0 * b0) (push_bit 32 (split AND 0xffffffff))"
  have "unat (push_bit 32 (split AND 0xffffffff)) = unat (split AND 0xffffffff) * 2 ^ 32"
    by (rule unat_shl_exact [OF low_half]) simp
  then have c: "unat (fst c) + 2 ^ 64 * unat (snd c) = unat a0 * unat b0 + unat (split AND 0xffffffff) * 2 ^ 32"
    unfolding c_def fpu_carry_exact LL by simp
  have c1: "unat (snd c) \<le> 1" by (simp add: c_def ppc_fpu_add_uint64_carry_def)
  have dh: "unat (drop_bit 32 split) < 2 ^ 31" by (rule shl_shr_bound) (use sp(2) in simp)
  have top: "unat (a1 * b1 + snd c + drop_bit 32 split) = unat a1 * unat b1 + unat (snd c) + unat (drop_bit 32 split)"
    using unat_add_lem [of "a1 * b1" "snd c"] unat_add_lem [of "a1 * b1 + snd c" "drop_bit 32 split"] H c1 dh by simp
  have m: "mul_m a b = (a1 * b1 + snd c + drop_bit 32 split, fst c)"
    by (simp add: mul_m_def Let_def d split_def c_def case_prod_beta)
  show ?thesis
    unfolding m fst_conv snd_conv top using c sp(1) halves [of split] s by (simp add: algebra_simps)
qed

lemma high_low_disjoint: "n + k \<le> LENGTH('a) \<Longrightarrow> push_bit n x AND drop_bit (LENGTH('a) - n) y = 0" for x y :: "'a :: len word"
proof (rule bit_word_eqI)
  fix j assume "n + k \<le> LENGTH('a)"
  have "j + (LENGTH('a) - n) < LENGTH('a)" if "bit y (LENGTH('a) - n + j)"
    using bit_imp_le_length [OF that] by simp
  then show "bit (push_bit n x AND drop_bit (LENGTH('a) - n) y) j = bit 0 j"
    by (auto simp: bit_simps)
qed

lemma product_shift:
  fixes h l :: u64
  assumes "unat h * 2 ^ 64 + unat l = p" "p < 2 ^ 118"
  shows "unat (push_bit 9 h OR drop_bit (64 - 9) l) = p div 2 ^ 55"
proof -
  have "unat h * 2 ^ 64 < 2 ^ 54 * 2 ^ 64" using assms by simp
  then have h: "unat h < 2 ^ 54" by (simp only: mult_less_cancel2)
  have "unat (push_bit 9 h OR drop_bit (64 - 9) l) = unat (push_bit 9 h) + unat (drop_bit 55 l)"
    using or_disjoint_add [of "push_bit 9 h" "drop_bit 55 l"] high_low_disjoint [of 9 0 h l] by simp
  also have "\<dots> = unat h * 2 ^ 9 + unat l div 2 ^ 55"
    using unat_shl_exact [OF h, of 9] by (simp only: unat_shr) simp
  also have "\<dots> = p div 2 ^ 55" using assms(1) by simp
  finally show ?thesis .
qed

text \<open>A fraction of 56 bits, the first of them set.\<close>

definition normalised :: "u64 \<Rightarrow> bool" where
  "normalised m \<longleftrightarrow> 2 ^ 55 \<le> unat m \<and> unat m < 2 ^ 56"

lemma normalised_product:
  assumes "normalised a" "normalised b"
  shows "2 ^ 110 \<le> unat a * unat b \<and> unat a * unat b < 2 ^ 112"
proof -
  have "2 ^ 55 * 2 ^ 55 \<le> unat a * unat b" using assms unfolding normalised_def by (intro mult_le_mono) auto
  moreover have "unat a * unat b < 2 ^ 56 * 2 ^ 56" using assms unfolding normalised_def by (intro mult_strict_mono) auto
  ultimately show ?thesis by simp
qed

text \<open>
  C10. The product of two normalised numbers is exact up to truncation: its sign is the product of the signs, its
  exponent the sum of the exponents or one more, and its fraction the leading 56 bits of the product of the fractions.
\<close>

theorem product_is_truncated_exact:
  assumes "dtype a = Fpr_norm" "dtype b = Fpr_norm" "normalised (dm a)" "normalised (dm b)"
  shows "\<exists>k \<in> {0, 1}. ppc_fpu_mul res a b = \<lparr>dtype = Fpr_norm, ds = (ds a \<noteq> ds b), de = de a + de b + int k,
      dm = of_nat (unat (dm a) * unat (dm b) div 2 ^ (55 + k))\<rparr> \<and>
    normalised (dm (ppc_fpu_mul res a b))"
proof -
  define p where "p = unat (dm a) * unat (dm b)"
  have p: "2 ^ 110 \<le> p" "p < 2 ^ 112" using normalised_product [OF assms(3,4)] by (simp_all add: p_def)
  have e: "unat (fst (mul_m (dm a) (dm b))) * 2 ^ 64 + unat (snd (mul_m (dm a) (dm b))) = p"
    unfolding p_def by (rule mul_m_exact) (use assms(3,4) in \<open>auto simp: normalised_def\<close>)
  define m where "m = push_bit 9 (fst (mul_m (dm a) (dm b))) OR drop_bit (64 - 9) (snd (mul_m (dm a) (dm b)))"
  have m: "unat m = p div 2 ^ 55" unfolding m_def by (rule product_shift [OF e]) (use p in simp)
  have b: "2 ^ 55 \<le> unat m" "unat m < 2 ^ 57" using p unfolding m by simp_all
  have n57: "\<not> bit m 57" by (rule bit_below [of _ 57]) (use b in simp_all)
  have b56: "bit m 56 \<longleftrightarrow> 2 ^ 56 \<le> unat m" by (rule top_bit_iff) (use b in simp)
  have r: "mul_norm a b = (if bit m 56 then (de a + de b + 1, drop_bit 1 m) else (de a + de b, m))"
    unfolding mul_norm_def Let_def case_prod_beta m_def [symmetric] and_bit_zero using n57 by simp
  note i = word_from [OF m]
  have j: "drop_bit 1 m = of_nat (p div 2 ^ 56)" "unat (drop_bit 1 m) = p div 2 ^ 56"
  proof -
    have "unat (drop_bit 1 m) = p div 2 ^ 55 div 2 ^ 1" by (simp only: unat_shr m)
    also have "\<dots> = p div 2 ^ 56" by (simp only: div_mult2_eq [symmetric] power_add [symmetric]) simp
    finally show "unat (drop_bit 1 m) = p div 2 ^ 56" .
    then show "drop_bit 1 m = of_nat (p div 2 ^ 56)" by (rule word_from)
  qed
  show ?thesis
  proof (cases "bit m 56")
    case True
    have "2 ^ 55 \<le> p div 2 ^ 56" "p div 2 ^ 56 < 2 ^ 56"
      using True b56 p unfolding m by simp_all
    then have "normalised (drop_bit 1 m)" unfolding normalised_def j(2) by simp
    then show ?thesis
      using True r j(1) assms(1,2) by (intro bexI [of _ 1]) (simp_all add: ppc_fpu_mul_def p_def)
  next
    case False
    then show ?thesis
      using r i m assms(1,2) b b56 by (intro bexI [of _ 0]) (simp_all add: ppc_fpu_mul_def normalised_def p_def)
  qed
qed

theorem product_is_truncated_exact_witness:
  "normalised (dm (ppc_fpu_mul double_0 (ppc_fpu_unpack_double 0x3ff8000000000000) (ppc_fpu_unpack_double 0x4008000000000000)))"
proof -
  let ?a = "ppc_fpu_unpack_double 0x3ff8000000000000" and ?b = "ppc_fpu_unpack_double 0x4008000000000000"
  have "dtype ?a = Fpr_norm \<and> dtype ?b = Fpr_norm \<and> dm ?a = 0xc0000000000000 \<and> dm ?b = 0xc0000000000000"
    by code_simp
  then show ?thesis using product_is_truncated_exact [of ?a ?b double_0] by (auto simp: normalised_def)
qed

subsection \<open>Quotients\<close>

lemma quotient_digit:
  "a * 2 ^ Suc n div (2 * b) = (a div b) * 2 ^ n + 2 * (a mod b) * 2 ^ n div (2 * b)" if "0 < b" for a b :: nat
proof -
  have "a * 2 ^ Suc n div (2 * b) = a * 2 ^ n div b" by (simp add: mult.assoc [symmetric] div_mult_mult1 mult.commute)
  also have "a * 2 ^ n = (a div b * 2 ^ n) * b + a mod b * 2 ^ n" by (metis add_mult_distrib div_mult_mod_eq mult.assoc mult.commute)
  also have "\<dots> div b = a div b * 2 ^ n + a mod b * 2 ^ n div b" using that by simp
  also have "a mod b * 2 ^ n div b = 2 * (a mod b) * 2 ^ n div (2 * b)" by (simp add: mult.assoc)
  finally show ?thesis .
qed

text \<open>The loop is long division, one bit of the quotient each time.\<close>

lemma div_loop_exact:
  assumes "unat am < 2 * unat bm" "unat bm < 2 ^ 56" "unat m < 2 ^ k" "k + n \<le> 64"
  shows "fst (div_loop n am bm m) \<le> n \<and>
    unat (snd (div_loop n am bm m)) * 2 ^ fst (div_loop n am bm m) = unat m * 2 ^ n + unat am * 2 ^ n div (2 * unat bm)"
  using assms
proof (induction n arbitrary: am m k)
  case 0
  then show ?case by simp
next
  case (Suc n)
  have b: "0 < unat bm" using Suc.prems(1) by simp
  show ?case
  proof (cases "am = 0")
    case False
    define c where "c = (bm \<le> am)"
    have c: "c \<longleftrightarrow> unat bm \<le> unat am" by (simp add: c_def word_le_nat_alt)
    define am' where "am' = push_bit 1 (if c then am - bm else am)"
    define m' where "m' = (if c then push_bit 1 m OR 1 else push_bit 1 m)"
    have q: "unat am div unat bm = of_bool c" "unat am mod unat bm = (if c then unat am - unat bm else unat am)"
      using c Suc.prems(1) b by (auto simp: div_nat_eqI le_mod_geq)
    have r: "unat (if c then am - bm else am) = unat am mod unat bm"
      using q c by (auto simp: unat_sub_if' )
    have "unat am mod unat bm < 2 ^ 56" using mod_less_divisor [OF b, of "unat am"] Suc.prems(2) by linarith
    then have am': "unat am' = 2 * (unat am mod unat bm)"
      unfolding am'_def using unat_shl_exact [of "if c then am - bm else am" 56 1] r by simp
    have s: "unat (push_bit 1 m) = 2 * unat m"
      using unat_shl_exact [OF Suc.prems(3), of 1] Suc.prems(4) by simp
    have "push_bit 1 m AND 1 = 0" using shl_bit0 [of 0 m] by simp
    then have m': "unat m' = 2 * unat m + of_bool c"
      unfolding m'_def using s or_disjoint_add [of "push_bit 1 m" 1] by auto
    have e: "div_loop (Suc n) am bm m = div_loop n am' bm m'"
      using False by (simp add: am'_def m'_def c_def)
    have "unat m' < 2 ^ Suc k" unfolding m' using Suc.prems(3) by auto
    moreover have "unat am' < 2 * unat bm" unfolding am' using mod_less_divisor [OF b] by simp
    ultimately have ih: "fst (div_loop n am' bm m') \<le> n"
      "unat (snd (div_loop n am' bm m')) * 2 ^ fst (div_loop n am' bm m') = unat m' * 2 ^ n + unat am' * 2 ^ n div (2 * unat bm)"
      using Suc.IH [of am' m' "Suc k"] Suc.prems(2,4) by auto
    show ?thesis
      unfolding e ih(2) quotient_digit [OF b] am' m' q(1) using ih(1) by (simp add: algebra_simps)
  qed simp
qed

text \<open>
  C9. The quotient of two normalised numbers is exact up to truncation: the sign is the product of the signs, the
  fraction is the quotient of the fractions to 55 binary places, moved up one place, with the exponent lowered by
  one, when the quotient is less than 1.
\<close>

theorem quotient_is_truncated_exact:
  fixes a b :: ppc_double
  assumes "dtype a = Fpr_norm" "dtype b = Fpr_norm" "normalised (dm a)" "normalised (dm b)"
  defines "q \<equiv> unat (dm a) * 2 ^ 55 div unat (dm b)"
  shows "ppc_fpu_div res a b = res\<lparr>dtype := Fpr_norm, ds := (ds a \<noteq> ds b),
      de := if 2 ^ 55 \<le> q then de a - de b else de a - de b - 1,
      dm := of_nat (if 2 ^ 55 \<le> q then q else 2 * q)\<rparr> \<and>
    normalised (dm (ppc_fpu_div res a b))"
proof -
  define l w where "l = fst (div_loop 56 (dm a) (dm b) 0)" and "w = snd (div_loop 56 (dm a) (dm b) 0)"
  have ab: "2 ^ 55 \<le> unat (dm a)" "unat (dm a) < 2 ^ 56" "2 ^ 55 \<le> unat (dm b)" "unat (dm b) < 2 ^ 56"
    using assms(3,4) by (auto simp: normalised_def)
  have q: "2 ^ 54 \<le> q" "q < 2 ^ 56"
  proof -
    have "2 ^ 54 * unat (dm b) \<le> 2 ^ 54 * (2 * unat (dm a))" using ab by (intro mult_le_mono2) simp
    then show "2 ^ 54 \<le> q" using ab by (simp add: q_def less_eq_div_iff_mult_less_eq)
    have "unat (dm a) * 2 ^ 55 < 2 ^ 56 * unat (dm b)" using ab by simp
    then show "q < 2 ^ 56" using ab by (simp add: q_def div_less_iff_less_mult)
  qed
  have "unat (dm a) * 2 ^ 56 div (2 * unat (dm b)) = q"
    using div_mult_mult1 [of 2 "unat (dm a) * 2 ^ 55" "unat (dm b)"] by (simp add: q_def mult.commute)
  then have d: "l \<le> 56" "unat w * 2 ^ l = q"
    using div_loop_exact [of "dm a" "dm b" 0 0 56] ab by (simp_all add: l_def w_def)
  define m where "m = push_bit (l + 1) w"
  have m: "unat m = 2 * q"
  proof -
    have "unat w * 2 ^ (l + 1) = 2 * q" using d(2) by simp
    then show ?thesis unfolding m_def unat_shl using q by simp
  qed
  have b56: "bit m 56 \<longleftrightarrow> 2 ^ 55 \<le> q" using top_bit_iff [of m 56] m q by simp
  have u: "unat (drop_bit 1 m) = q" by (simp only: unat_shr m) simp
  note w = word_from [OF m] word_from [OF u]
  have "57 - (56 - l) = l + 1" using d(1) by simp
  then have "div_norm a b = (if bit m 56 then (de a - de b, drop_bit 1 m) else (de a - de b - 1, m))"
    unfolding div_norm_def Let_def l_def w_def m_def case_prod_beta and_bit_zero by simp
  then show ?thesis
    using assms(1,2) b56 w u m q by (simp add: ppc_fpu_div_def normalised_def)
qed

theorem quotient_is_truncated_exact_witness:
  "dm (ppc_fpu_div double_0 (ppc_fpu_unpack_double 0x3ff0000000000000) (ppc_fpu_unpack_double 0x4008000000000000)) =
     of_nat (2 * (2 ^ 55 * 2 ^ 55 div (3 * 2 ^ 54)))"
proof -
  let ?a = "ppc_fpu_unpack_double 0x3ff0000000000000" and ?b = "ppc_fpu_unpack_double 0x4008000000000000"
  have "dtype ?a = Fpr_norm \<and> dtype ?b = Fpr_norm \<and> dm ?a = 0x80000000000000 \<and> dm ?b = 0xc0000000000000"
    by code_simp
  then show ?thesis using quotient_is_truncated_exact [of ?a ?b double_0] by (simp add: normalised_def)
qed

subsection \<open>Denormal numbers\<close>

text \<open>
  The fraction of a denormal number ends three bits too far to the left. Half of the least normal number is \<open>2 ^ -1023\<close>;
  \<open>2 ^ 1022\<close> times that is \<open>2 ^ -1\<close>, but the product that is packed is \<open>2 ^ -4\<close>.
\<close>

lemma denormal_not_normalised: "\<not> normalised (dm (ppc_fpu_unpack_double 0x0008000000000000))"
proof -
  have "dm (ppc_fpu_unpack_double 0x0008000000000000) = 0x400000000000000" by code_simp
  then show ?thesis by (simp add: normalised_def)
qed

lemma denormal_product_wrong:
  "ppc_fpu_pack_double RN_NEAR (ppc_fpu_mul double_0 (ppc_fpu_unpack_double 0x0008000000000000)
     (ppc_fpu_unpack_double 0x7fd0000000000000)) = (0, 0x3fb0000000000000)"
  by code_simp

end
