(* ===== verification/Ppc_Mmu_Spec.thy ===== *)
theory Ppc_Mmu_Spec
  imports Ppc_Ls Word_Shift
begin

text \<open>
  The memory of the e500 simulator as programs see it: words and their bytes in big-endian order through any
  translation, and what an entry written by \<^verbatim>\<open>tlbwe\<close> does.
\<close>

subsection \<open>Byte order\<close>

text \<open>Bit by bit, for words of known length.\<close>

lemma by_bits: "list_all (\<lambda>n. bit x n = bit y n) [0..<LENGTH('a)] \<Longrightarrow> x = y" for x y :: "'a :: len word"
  by (rule bit_word_eqI) (simp add: list_all_iff)

lemma indices:
  "[0..<8] = [0, 1, 2, 3, 4, 5, 6, 7]"
  "[0..<16] = [0, 1, 2, 3, 4, 5, 6, 7, 8, 9, 10, 11, 12, 13, 14, 15]"
  "[0..<32] = [0, 1, 2, 3, 4, 5, 6, 7, 8, 9, 10, 11, 12, 13, 14, 15, 16, 17, 18, 19, 20, 21, 22, 23, 24, 25, 26, 27, 28, 29, 30, 31]"
  by code_simp+

lemma word_no_bit: "LENGTH('a) \<le> n \<Longrightarrow> \<not> bit x n" for x :: "'a :: len word"
  using bit_imp_le_length [of x n] by auto

lemma bswap_word_bytes:
  "ucast (ppc_bswap_word v) = (ucast (drop_bit 24 v) :: u8)"
  "ucast (drop_bit 8 (ppc_bswap_word v)) = (ucast (drop_bit 16 v) :: u8)"
  "ucast (drop_bit 16 (ppc_bswap_word v)) = (ucast (drop_bit 8 v) :: u8)"
  "ucast (drop_bit 24 (ppc_bswap_word v)) = (ucast v :: u8)"
  by (rule by_bits; simp add: ppc_bswap_word_def bit_simps indices word_no_bit)+

lemma bswap_twice: "ppc_bswap_word (ppc_bswap_word v) = v"
  by (rule by_bits) (simp add: ppc_bswap_word_def bit_simps indices word_no_bit)

lemma host_word_put: "host_word (host_put_word i v m) i = v"
  by (rule by_bits) (simp add: host_word_def host_put_word_def bit_simps indices word_no_bit)

lemma host_half_put: "host_half (host_put_half i v m) i = v"
  by (rule by_bits) (simp add: host_half_def host_put_half_def bit_simps indices word_no_bit)

lemma bswap_half_twice: "ppc_bswap_half (ppc_bswap_half v) = v"
  by (rule by_bits) (simp add: ppc_bswap_half_def bit_simps indices word_no_bit)

subsection \<open>Translation\<close>

lemma four: "[i..<i + 4] = [i, i + 1, i + 2, i + 3]"
  by (simp add: upt_rec)

lemma translate_keeps: "ppc_effective_to_physical c a f s = (Some p, s1) \<Longrightarrow> s1 = s"
  by (auto simp: ppc_effective_to_physical_def Let_def split: if_splits option.splits)

lemma translate_write_read:
  "ppc_effective_to_physical c a PPC_MMU_WRITE s = (Some p, s) \<Longrightarrow> ppc_effective_to_physical c a PPC_MMU_READ s = (Some p, s)"
  by (auto simp: ppc_effective_to_physical_def Let_def tlb_protected_def PPC_MMU_READ_def PPC_MMU_WRITE_def
    split: if_splits option.splits)

text \<open>Translation depends on the core's MMU and status register and on the boot page, not on the memories.\<close>

lemma translate_cong:
  assumes "ppc_effective_to_physical c a f s = (Some p, s)" "bptr t = bptr s" "emmu (cc t) = emmu (cc s)" "emsr (cc t) = emsr (cc s)"
  shows "ppc_effective_to_physical c a f t = (Some p, t)"
  using assms by (auto simp: ppc_effective_to_physical_def Let_def split: if_splits option.splits)

lemma region_ddr:
  "write_region s p = Reg_ddr i \<Longrightarrow> read_region s p = Reg_ddr i \<and> i = unat p \<and> unat p < unat DDR_RAM_SIZE"
  by (auto simp: write_region_def read_region_def region_of_def Let_def region_defs word_less_nat_alt word_le_nat_alt split: if_splits)

text \<open>
  C25. Memory is big-endian whatever the host: after a word is written through a translation into the DDR RAM, reading
  it back gives the word, the four bytes from its physical address on are its bytes, the most significant one first,
  every other byte and the rest of the state are as before.
\<close>

theorem word_is_big_endian:
  fixes s :: "'d ppc_state" and bd :: "'d ppc_board" and v old :: u32
  assumes "ppc_effective_to_physical (cur s) a PPC_MMU_WRITE s = (Some p, s)" "write_region s p = Reg_ddr i"
    "i + 4 \<le> unat DDR_RAM_SIZE"
  defines "s' \<equiv> snd (ppc_write_effective_word bd a v s)"
  shows "ppc_read_effective_word bd a old s' = (Some v, s') \<and> map (ddr_ram s') [i..<i + 4] = map (\<lambda>n. ucast (drop_bit n v)) [24, 16, 8, 0] \<and>
    (\<forall>j. j \<notin> {i..<i + 4} \<longrightarrow> ddr_ram s' j = ddr_ram s j) \<and> s'\<lparr>ddr_ram := ddr_ram s\<rparr> = s"
proof -
  define m where "m = host_put_word i (ppc_bswap_word v) (ddr_ram s)"
  have s': "s' = s\<lparr>ddr_ram := m\<rparr>"
    using assms(1-3) by (simp add: s'_def ppc_write_effective_word_def mem_check_def m_def)
  have "ppc_effective_to_physical (cur s) a PPC_MMU_READ s' = (Some p, s')"
    unfolding s' by (rule translate_cong [OF translate_write_read [OF assms(1)]]) (simp_all add: cc_def)
  moreover have "read_region s' p = Reg_ddr i"
    using region_ddr [OF assms(2)] by (simp add: read_region_def s')
  ultimately have "ppc_read_effective_word bd a old s' = (Some v, s')"
    using assms(3) by (simp add: ppc_read_effective_word_def s' mem_check_def m_def host_word_put bswap_twice)
  moreover have "map m [i..<i + 4] = map (\<lambda>n. ucast (drop_bit n v)) [24, 16, 8, 0]"
    unfolding four by (simp add: m_def host_put_word_def bswap_word_bytes)
  moreover have "m j = ddr_ram s j" if "j \<notin> {i..<i + 4}" for j
    using that by (auto simp: m_def host_put_word_def)
  ultimately show ?thesis by (simp add: s')
qed

theorem word_is_big_endian_witness:
  "\<forall>(bd :: unit ppc_board) s0. ddr_ram (snd (ppc_write_effective_word bd 0xFFFFF010 0x12345678
     (s0\<lparr>bptr := 0x80000100, ccsr := 0xFFE00\<rparr>))) 0x100010 = 0x12"
proof (intro allI)
  fix bd :: "unit ppc_board" and s0 :: "unit ppc_state"
  let ?s = "s0\<lparr>bptr := 0x80000100, ccsr := 0xFFE00\<rparr>"
  have t: "ppc_effective_to_physical (cur ?s) 0xFFFFF010 PPC_MMU_WRITE ?s = (Some 0x100010, ?s)"
    by (simp add: ppc_effective_to_physical_def)
  have r: "write_region ?s 0x100010 = Reg_ddr 0x100010"
    by (simp add: write_region_def region_of_def GET_CCSR_BASE_def region_defs Let_def)
  have "map (ddr_ram (snd (ppc_write_effective_word bd 0xFFFFF010 0x12345678 ?s))) [0x100010..<0x100010 + 4] =
    map (\<lambda>n. ucast (drop_bit n (0x12345678 :: u32))) [24, 16, 8, 0]"
    using word_is_big_endian [OF t r, where v = "0x12345678" and bd = bd] by (simp add: DDR_RAM_SIZE_def)
  then show "ddr_ram (snd (ppc_write_effective_word bd 0xFFFFF010 0x12345678 ?s)) 0x100010 = 0x12"
    unfolding four by simp
qed

subsection \<open>Entries written by tlbwe\<close>

lemma find_first:
  "P i \<Longrightarrow> m \<le> i \<Longrightarrow> i < n \<Longrightarrow> (\<forall>j. m \<le> j \<and> j < i \<longrightarrow> \<not> P j) \<Longrightarrow> find P [m..<n] = Some i"
  unfolding find_Some_iff by (rule exI [of _ "i - m"]) auto

lemma find_in: "find P xs = Some i \<Longrightarrow> i \<in> set xs"
  by (induction xs) (auto split: if_splits)

lemma tlb0_offset_bound: "tlb0_offset m < L2_TLB0_SIZE"
proof -
  have c: "(0xC :: u64) = push_bit 2 (mask 2)" "(0x3f :: u64) = mask 6" by (simp_all add: mask_eq_exp_minus_1)
  have "unat (push_bit 4 (x AND push_bit 2 (mask 2)) OR (y AND mask 6)) < 2 ^ 8" for x y :: u64
    by (rule unat_below) (auto simp: bit_simps)
  then show ?thesis unfolding tlb0_offset_def L2_TLB0_SIZE_def c by simp
qed

lemma tlb1_offset_bound: "tlb1_offset m < L2_TLB1_SIZE"
proof -
  have "(0xf :: u64) = mask 4" by (simp add: mask_eq_exp_minus_1)
  then show ?thesis unfolding tlb1_offset_def ESEL_def L2_TLB1_SIZE_def by (simp only: unat_low) simp
qed

text \<open>The index in the walk of the entry that \<^verbatim>\<open>tlbwe\<close> writes, and the length of the offsets in its page.\<close>

definition tlbwe_index :: "e500_mmu \<Rightarrow> nat" where
  "tlbwe_index m = (if TLBSEL (mas m 0) = 0 then tlb0_offset m else L2_TLB0_SIZE + tlb1_offset m)"

definition page_bits :: "nat \<Rightarrow> ppc_tlb_entry \<Rightarrow> nat" where
  "page_bits i e = (if i < L2_TLB0_SIZE then 12 else 10 + 2 * unat (t_size e))"

lemma tlb_mask_page: "t_size e \<le> 11 \<Longrightarrow> tlb_mask i e = NOT (mask (page_bits i e))"
proof -
  assume z: "t_size e \<le> 11"
  have "1024 = (push_bit 10 1 :: u32)" by simp
  then have "1024 * tlb_pages e = push_bit (10 + 2 * unat (t_size e)) 1"
    by (simp add: tlb_pages_def push_bit_eq_mult power_add)
  moreover have "(1024 * (x - 1) - 1) + 1024 = 1024 * x - 1" for x :: u32 by (simp add: algebra_simps)
  moreover have "(1024 * 4 - 1 :: u32) = mask 12" by (simp add: mask_eq_exp_minus_1)
  ultimately show ?thesis
    by (auto simp: tlb_mask_def page_bits_def L2_TLB0_SIZE_def mask_eq_exp_minus_1 push_bit_eq_mult)
qed

lemma page_split: "x AND NOT (mask n) = push_bit n (drop_bit n x)" for x :: "'a :: len word"
  by (rule bit_word_eqI) (auto simp: bit_simps dest: bit_imp_le_length)

lemma tlbwe_cases:
  "cc (ppc_opc_tlbwe bd s) = (cc s)\<lparr>emmu := upd_tlb_at (tlbwe_index (emmu (cc s))) (\<lambda>_. tlbwe_entry (mas (emmu (cc s))))
     ((emmu (cc s))\<lparr>tlb0_nv := ucast (mas (emmu (cc s)) 0 AND 3)\<rparr>)\<rparr>"
  "cur (ppc_opc_tlbwe bd s) = cur s" "bptr (ppc_opc_tlbwe bd s) = bptr s"
  using tlb0_offset_bound [of "emmu (cc s)"] tlb1_offset_bound [of "emmu (cc s)"]
  by (simp_all add: ppc_opc_tlbwe_def Let_def upd_tlb_at_def tlbwe_index_def upd_mmu_def upd_core_def upd_core_of_def cc_def L2_TLB0_SIZE_def)

lemma tlb_at_upd: "0 < i \<or> 0 < j \<Longrightarrow> tlb_at (upd_tlb_at i f m) j = (if j = i then f (tlb_at m i) else tlb_at m j)"
  by (auto simp: tlb_at_def upd_tlb_at_def)

lemma tlb_at_nv: "tlb_at (m\<lparr>tlb0_nv := v\<rparr>) j = tlb_at m j"
  by (simp add: tlb_at_def)

lemma mpid_upd: "mpid (upd_tlb_at i f m) = mpid m"
  by (simp add: upd_tlb_at_def)


text \<open>A page of 4 KB for every process, user code may write to it.\<close>

definition sample_mas :: "nat \<Rightarrow> u64" where
  "sample_mas = (\<lambda>_. 0)(1 := 0x80000100, 2 := 0x00401000, 3 := 0x0012303f)"

definition sample_mmu :: "e500_core \<Rightarrow> e500_core" where
  "sample_mmu c = c\<lparr>emmu := (emmu c)\<lparr>mas := sample_mas\<rparr>\<rparr>"


text \<open>
  C27. Entry 0 of TLB0 is written but never used: when the assist registers select way 0 and a page whose number ends in
  six zero bits, \<^verbatim>\<open>tlbwe\<close> changes no translation, whatever it writes; the miss it was to repair comes again.
\<close>

theorem tlb0_entry_0_ignored:
  assumes "TLBSEL (mas (emmu (cc s)) 0) = 0" "tlb0_offset (emmu (cc s)) = 0"
  shows "fst (ppc_effective_to_physical c a flags (ppc_opc_tlbwe bd s)) = fst (ppc_effective_to_physical c a flags s) \<and>
    tlb0 (emmu (cc (ppc_opc_tlbwe bd s))) 0 = tlbwe_entry (mas (emmu (cc s)))"
proof -
  let ?s = "ppc_opc_tlbwe bd s"
  have i: "tlbwe_index (emmu (cc s)) = 0" using assms by (simp add: tlbwe_index_def)
  have at: "tlb_at (emmu (cc ?s)) j = tlb_at (emmu (cc s)) j" if "0 < j" for j
    using that by (simp add: tlbwe_cases i tlb_at_upd tlb_at_nv)
  have "mpid (emmu (cc ?s)) = mpid (emmu (cc s))" by (simp add: tlbwe_cases mpid_upd)
  then have h: "tlb_hit (emmu (cc ?s)) a j = tlb_hit (emmu (cc s)) a j" if "0 < j" for j
    using at [OF that] by (simp add: tlb_hit_def tlb_tid_ok_def)
  have "find (tlb_hit (emmu (cc ?s)) a) tlb_walk = find (tlb_hit (emmu (cc s)) a) tlb_walk"
    by (rule find_cong [OF refl], rule h) (auto simp: tlb_walk_def)
  moreover have "0 < i" if "find (tlb_hit (emmu (cc s)) a) tlb_walk = Some i" for i
    using find_in [OF that] by (auto simp: tlb_walk_def)
  moreover have "emsr (cc ?s) = emsr (cc s)" "bptr ?s = bptr s" by (simp_all add: tlbwe_cases)
  moreover have "tlb0 (emmu (cc ?s)) 0 = tlbwe_entry (mas (emmu (cc s)))"
    by (simp add: tlbwe_cases i upd_tlb_at_def L2_TLB0_SIZE_def)
  ultimately show ?thesis
    by (auto simp: ppc_effective_to_physical_def Let_def at split: option.splits)
qed

theorem tlb0_entry_0_ignored_witness:
  "\<forall>(bd :: unit ppc_board) s0. (let s = upd_core (\<lambda>c. c\<lparr>emmu := (emmu c)\<lparr>mas := sample_mas(2 := 0x00400000)\<rparr>\<rparr>) s0
     in fst (ppc_effective_to_physical (cur s) 0x00400000 PPC_MMU_READ (ppc_opc_tlbwe bd s)) =
        fst (ppc_effective_to_physical (cur s) 0x00400000 PPC_MMU_READ s))"
proof (intro allI)
  fix bd :: "unit ppc_board" and s0 :: "unit ppc_state"
  let ?s = "upd_core (\<lambda>c. c\<lparr>emmu := (emmu c)\<lparr>mas := sample_mas(2 := 0x00400000)\<rparr>\<rparr>) s0"
  have m: "mas (emmu (cc ?s)) = sample_mas(2 := 0x00400000)" by (simp add: upd_core_def upd_core_of_def cc_def)
  show "let s = ?s in fst (ppc_effective_to_physical (cur s) 0x00400000 PPC_MMU_READ (ppc_opc_tlbwe bd s)) =
        fst (ppc_effective_to_physical (cur s) 0x00400000 PPC_MMU_READ s)"
  proof -
    have "TLBSEL (mas (emmu (cc ?s)) 0) = 0 \<and> tlb0_offset (emmu (cc ?s)) = 0"
      unfolding tlb0_offset_def m by (simp add: sample_mas_def TLBSEL_def ESEL_def EPN_def)
    then show ?thesis unfolding Let_def using tlb0_entry_0_ignored [of ?s] by blast
  qed
qed

end
