(* ===== verification/Ppc_Step_Spec.thy ===== *)
theory Ppc_Step_Spec
  imports Mach_Mpc8572 Ppc_Mmu_Spec
begin

text \<open>
  Exceptions of the e500 simulator: system call and return, the decrementer, the interrupt that one core sends to the
  other; and what the kernel finds after the reset of the MPC8572.
\<close>

subsection \<open>System call and return\<close>

lemma cc_upd: "cc (upd_core_of k f s) = (if k = cur s then f (cc s) else cc s)" "cc (upd_core f s) = f (cc s)"
  "cores (upd_core_of k f s) j = (if j = k then f (cores s k) else cores s j)"
  "cur (upd_core_of k f s) = cur s" "cur (upd_core f s) = cur s"
  by (simp_all add: upd_core_def upd_core_of_def cc_def)

lemma upd_core_twice: "upd_core g (upd_core f s) = upd_core (\<lambda>c. g (f c)) s" "upd_core_of k g (upd_core_of k f s) = upd_core_of k (\<lambda>c. g (f c)) s"
  by (simp_all add: upd_core_def upd_core_of_def)

lemma upd_core_cong: "f (cc s) = g (cc s) \<Longrightarrow> upd_core f s = upd_core g s"
  "f (cores s k) = g (cores s k) \<Longrightarrow> upd_core_of k f s = upd_core_of k g s"
  by (simp_all add: upd_core_def upd_core_of_def cc_def)

lemma ppc_exception_syscall:
  "ppc_exception k SYSCALL fl a s = upd_core_of k (\<lambda>c. c\<lparr>esrr := (esrr c)(0 := enpc c, 1 := emsr c), emsr := emsr c AND NOT 0x2e930,
     enpc := (eivpr c AND 0xFFFF0000) OR (eivor c 8 AND 0xFFF0)\<rparr>) s"
  by (simp add: ppc_exception_def exc_types Let_def upd_core_twice save_pc_def)



subsection \<open>The decrementer\<close>

text \<open>Whether the decrementer counts.\<close>

definition dec_enabled :: "e500_core \<Rightarrow> bool" where
  "dec_enabled c \<longleftrightarrow> etsr c AND 0x8000000 = 0 \<and> etcr c AND 0x4000000 \<noteq> 0 \<and> emsr c AND 0x8000 \<noteq> 0"

text \<open>The core after \<open>j\<close> cycles, and after the interrupt.\<close>

definition dec_ticks :: "nat \<Rightarrow> e500_core \<Rightarrow> e500_core" where
  "dec_ticks j c = c\<lparr>etbl := etbl c + of_nat j, edec := edec c - of_nat j\<rparr>"

definition dec_interrupt :: "e500_core \<Rightarrow> e500_core" where
  "dec_interrupt c = c\<lparr>esrr := (esrr c)(0 := enpc c, 1 := emsr c), emsr := emsr c AND 0x21200, etsr := etsr c OR 0x8000000,
     enpc := (eivpr c AND 0xFFFF0000) OR (eivor c 10 AND 0xFFF0)\<rparr>"

definition tb_ticks :: "nat \<Rightarrow> e500_core \<Rightarrow> e500_core" where
  "tb_ticks j c = c\<lparr>etbl := etbl c + of_nat j\<rparr>"

lemma ppc_exception_dec: "ppc_exception k DEC fl a s = upd_core_of k dec_interrupt s"
  by (simp add: ppc_exception_def exc_types Let_def upd_core_twice save_pc_def dec_interrupt_def [abs_def])

lemma dec_enabled_ticks: "dec_enabled (dec_ticks j c) = dec_enabled c"
  by (simp add: dec_enabled_def dec_ticks_def)

lemma dec_interrupt_disabled: "\<not> dec_enabled (tb_ticks j (dec_interrupt c))"
proof -
  have "(x AND 0x21200) AND 0x8000 = 0" for x :: u32
    by (rule by_bits) (simp add: indices bit_simps)
  then show ?thesis by (simp add: dec_enabled_def tb_ticks_def dec_interrupt_def)
qed

lemma dec_cycle_enabled:
  assumes "dec_enabled (cores s k)" "0 < edec (cores s k)"
  shows "dec_io_do_cycle k s = upd_core_of k (\<lambda>c. if edec c = 1 then dec_interrupt (dec_ticks 1 c) else dec_ticks 1 c) s"
proof -
  let ?c = "cores s k"
  have e: "etsr ?c AND 0x8000000 = 0 \<and> etcr ?c AND 0x4000000 \<noteq> 0 \<and> emsr ?c AND 0x8000 \<noteq> 0" using assms(1) by (simp add: dec_enabled_def)
  have z: "edec ?c - 1 = 0 \<longleftrightarrow> edec ?c = 1" by auto
  show ?thesis
    using e assms(2) z unfolding dec_io_do_cycle_def ppc_exception_dec
    by (simp add: Let_def cc_upd upd_core_twice upd_core_of_def dec_ticks_def)
qed

lemma dec_cycle_disabled: "\<not> dec_enabled (cores s k) \<Longrightarrow> dec_io_do_cycle k s = upd_core_of k (tb_ticks 1) s"
  by (auto simp: dec_io_do_cycle_def Let_def cc_upd dec_enabled_def tb_ticks_def [abs_def])

text \<open>
  C22. The decrementer interrupts its core after exactly as many cycles as its value says, and once: while fewer have
  passed, only the time base and the decrementer move; the last one saves the next instruction, goes to the vector of
  the timer and marks it pending; after that only the time base counts, until software clears the mark and allows
  interrupts again.
\<close>

theorem decrementer_fires_once:
  assumes "dec_enabled (cores s k)" "0 < edec (cores s k)"
  shows "(dec_io_do_cycle k ^^ j) s = upd_core_of k (if j < unat (edec (cores s k)) then dec_ticks j
    else tb_ticks (j - unat (edec (cores s k))) \<circ> dec_interrupt \<circ> dec_ticks (unat (edec (cores s k)))) s"
proof (induction j)
  case 0
  have "0 < unat (edec (cores s k))" using assms(2) by (simp add: word_less_nat_alt)
  then show ?case by (simp add: upd_core_of_def dec_ticks_def)
next
  case (Suc j)
  let ?n = "unat (edec (cores s k))"
  show ?case
  proof (cases "j < ?n")
    case True
    have v: "unat (edec (cores s k) - of_nat j) = ?n - j"
      using True unsigned_less [of "edec (cores s k)", where 'a = nat] by (simp add: unat_sub unat_of_nat word_le_nat_alt)
    have d: "0 < edec (cores s k) - of_nat j" "edec (cores s k) - of_nat j = 1 \<longleftrightarrow> Suc j = ?n"
      unfolding word_less_nat_alt word_unat_eq_iff v using True by auto
    have t: "dec_ticks (Suc 0) (dec_ticks j c) = dec_ticks (Suc j) c" for c by (simp add: dec_ticks_def)
    have e: "edec (dec_ticks j (cores s k)) = edec (cores s k) - of_nat j" by (simp add: dec_ticks_def)
    have "(dec_io_do_cycle k ^^ Suc j) s = dec_io_do_cycle k (upd_core_of k (dec_ticks j) s)"
      using Suc True by simp
    also have "\<dots> = upd_core_of k (\<lambda>c. if edec (dec_ticks j c) = 1 then dec_interrupt (dec_ticks 1 (dec_ticks j c))
        else dec_ticks 1 (dec_ticks j c)) s"
      using assms(1) d(1) e by (subst dec_cycle_enabled) (simp_all add: cc_upd dec_enabled_ticks upd_core_twice)
    also have "\<dots> = upd_core_of k (if Suc j < ?n then dec_ticks (Suc j) else tb_ticks (Suc j - ?n) \<circ> dec_interrupt \<circ> dec_ticks ?n) s"
      using d(2) True by (intro upd_core_cong(2)) (auto simp: e t tb_ticks_def)
    finally show ?thesis .
  next
    case False
    define m where "m = j - ?n"
    have m: "Suc j - ?n = Suc m" "\<not> Suc j < ?n" using False by (simp_all add: m_def Suc_diff_le)
    have t: "tb_ticks 1 (tb_ticks m c) = tb_ticks (Suc m) c" for c by (simp add: tb_ticks_def)
    have "(dec_io_do_cycle k ^^ Suc j) s = dec_io_do_cycle k (upd_core_of k (tb_ticks m \<circ> dec_interrupt \<circ> dec_ticks ?n) s)"
      using Suc False by (simp add: m_def comp_def)
    also have "\<dots> = upd_core_of k (tb_ticks (Suc m) \<circ> dec_interrupt \<circ> dec_ticks ?n) s"
      by (subst dec_cycle_disabled) (simp_all only: cc_upd dec_interrupt_disabled upd_core_twice comp_def t if_True simp_thms)
    finally show ?thesis using m by (simp add: comp_def)
  qed
qed

theorem decrementer_fires_once_witness:
  "\<forall>s0 :: unit ppc_state. (let s = upd_core_of 0 (\<lambda>c. c\<lparr>etsr := 0, etcr := 0x4000000, emsr := 0x8000, edec := 3\<rparr>) s0
     in etsr (cores ((dec_io_do_cycle 0 ^^ 3) s) 0) = 0x8000000)"
proof
  fix s0 :: "unit ppc_state"
  let ?s = "upd_core_of 0 (\<lambda>c. c\<lparr>etsr := 0, etcr := 0x4000000, emsr := 0x8000, edec := 3\<rparr>) s0"
  have "dec_enabled (cores ?s 0) \<and> 0 < edec (cores ?s 0) \<and> unat (edec (cores ?s 0)) = 3"
    by (simp add: cc_upd dec_enabled_def)
  then have "(dec_io_do_cycle 0 ^^ 3) ?s = upd_core_of 0 (tb_ticks (3 - 3) \<circ> dec_interrupt \<circ> dec_ticks 3) ?s"
    using decrementer_fires_once [of ?s 0 3] by simp
  then show "let s = ?s in etsr (cores ((dec_io_do_cycle 0 ^^ 3) s) 0) = 0x8000000"
    by (simp add: Let_def cc_upd tb_ticks_def dec_interrupt_def dec_ticks_def)
qed

subsection \<open>Interrupts between the cores\<close>

lemma ppc_exception_ext: "ppc_exception k EXT_INT fl a s = upd_core_of k (\<lambda>c. c\<lparr>esrr := (esrr c)(0 := enpc c, 1 := emsr c),
    emsr := emsr c AND 0x21200, enpc := (eivpr c AND 0xFFFF0000) OR (eivor c 4 AND 0xFFF0)\<rparr>) s"
  by (simp add: ppc_exception_def exc_types Let_def upd_core_twice save_pc_def)

text \<open>The core that \<^verbatim>\<open>send_ipi\<close> interrupts.\<close>

definition ipi_core :: "e500_core \<Rightarrow> e500_core" where
  "ipi_core c = c\<lparr>esrr := (esrr c)(0 := enpc c, 1 := emsr c), emsr := emsr c AND 0x21200,
     enpc := (eivpr c AND 0xFFFF0000) OR (eivor c 4 AND 0xFFF0), eipr := eipr c OR 1, eipi_flag := 1\<rparr>"

lemma send_ipi_core:
  "cores (send_ipi v s) k = (if v AND 2 \<noteq> 0 \<and> k = 1 \<or> v AND 2 = 0 \<and> v AND 1 \<noteq> 0 \<and> k = 0 then ipi_core (cores s k) else cores s k)"
proof -
  have z: "v AND 3 = 0 \<longleftrightarrow> v AND 2 = 0 \<and> v AND 1 = 0"
  proof -
    have c: "v AND 3 = (v AND 2) OR (v AND 1)" by (simp flip: bit.conj_disj_distrib)
    then show ?thesis by (simp add: or_eq_0_iff)
  qed
  have o: "cores (upd_io f t) = cores t" for f t by (simp add: upd_io_def)
  show ?thesis
    unfolding send_ipi_def Let_def z ppc_exception_ext
    by (auto simp: cc_upd o ipi_core_def)
qed

text \<open>
  C23. An interrupt from one core to the other arrives: after any core writes a value with bit 1 to the dispatch register
  of the interrupt controller, the next step of core 1 starts at its external interrupt vector, with the interrupted
  instruction and the status in the save registers and everything else it had. The interrupt does not ask whether core 1
  accepts interrupts: one that arrives in a handler overwrites what the handler is to return to.
\<close>

theorem ipi_arrives:
  fixes s :: mpc_state and v :: u32
  assumes "v AND 2 \<noteq> 0"
  defines "s' \<equiv> mpc8572_io_write_word 0x60040 v s"
  shows "step_begin (cores s' 1) = (cores s 1)\<lparr>esrr := (esrr (cores s 1))(0 := enpc (cores s 1), 1 := emsr (cores s 1)),
      emsr := emsr (cores s 1) AND 0x21200, eipr := eipr (cores s 1) OR 1, eipi_flag := 0,
      epc := (eivpr (cores s 1) AND 0xFFFF0000) OR (eivor (cores s 1) 4 AND 0xFFF0),
      enpc := ((eivpr (cores s 1) AND 0xFFFF0000) OR (eivor (cores s 1) 4 AND 0xFFF0)) + 4\<rparr> \<and>
    (\<forall>k. k \<noteq> 1 \<longrightarrow> cores s' k = cores s k) \<and> ddr_ram s' = ddr_ram s"
proof -
  have w: "s' = send_ipi v s" by (simp add: s'_def mpc8572_io_write_word_def write_percpu_def)
  have c: "cores s' 1 = ipi_core (cores s 1)" "\<And>k. k \<noteq> 1 \<Longrightarrow> cores s' k = cores s k"
    unfolding w send_ipi_core using assms(1) by auto
  have "ddr_ram s' = ddr_ram s"
    unfolding w send_ipi_def Let_def ppc_exception_ext by (simp add: upd_core_of_def upd_io_def)
  then show ?thesis using c by (simp add: ipi_core_def step_begin_def Let_def)
qed

theorem ipi_arrives_witness:
  "\<forall>s0 :: mpc_state. (let s = upd_core_of 1 (\<lambda>c. c\<lparr>eivpr := 0xC0000000, eivor := (\<lambda>_. 0x500)\<rparr>) s0
     in epc (step_begin (cores (mpc8572_io_write_word 0x60040 2 s) 1)) = 0xC0000500)"
proof
  fix s0 :: mpc_state
  let ?s = "upd_core_of 1 (\<lambda>c. c\<lparr>eivpr := 0xC0000000, eivor := (\<lambda>_. 0x500)\<rparr>) s0"
  show "let s = ?s in epc (step_begin (cores (mpc8572_io_write_word 0x60040 2 s) 1)) = 0xC0000500"
    using ipi_arrives [of 2 ?s] by (simp add: Let_def cc_upd)
qed

subsection \<open>Memory after reset\<close>

text \<open>The simulator at the start: the board and the cores are initialised, then the machine is reset.\<close>

definition mpc8572_start :: "u8 list option \<Rightarrow> u8 list option \<Rightarrow> mpc_state \<Rightarrow> mpc_state" where
  "mpc8572_start initrd dtb s = ppc_reset_state (mpc8572_board initrd dtb) (ppc_init_state mpc8572_mach_init s)"

lemma load_keeps:
  "core_num (load_file f a n s) = core_num s" "cores (load_file f a n s) = cores s" "bptr (load_file f a n s) = bptr s"
  "cur (load_file f a n s) = cur s"
  by (simp_all add: load_file_def ppc_halt_def split: option.split)

lemma mpc8572_start_fields:
  "cores (mpc8572_start initrd dtb s) = (\<lambda>k. if k < 2 then boot_core (ppc_core_init k (cores s k)) else cores s k)"
  "bptr (mpc8572_start initrd dtb s) = 0" "core_num (mpc8572_start initrd dtb s) = 2" "cur (mpc8572_start initrd dtb s) = 0"
  by (simp_all add: mpc8572_start_def ppc_reset_state_def mpc8572_board_def mpc8572_io_reset_def mpc8572_boot_linux_def Let_def
    setup_boot_param_def load_initrd_def load_keeps upd_io_def ppc_init_state_def ppc_cpu_init_def mpc8572_mach_init_def fun_eq_iff)

lemma put_bytes_at:
  "j < length bs \<Longrightarrow> put_bytes a bs m (a + j) = bs ! j"
  "j < a \<or> a + length bs \<le> j \<Longrightarrow> put_bytes a bs m j = m j"
  by (auto simp: put_bytes_def)

lemma mpc8572_start_initrd:
  assumes "j < length bs" "j < initrd_size"
  shows "ddr_ram (mpc8572_start (Some bs) dtb s) (initrd_start + j) = bs ! j"
proof -
  have l: "length (map of_char bootcmd @ [0 :: u8]) \<le> 100" by (simp add: bootcmd_def)
  have d: "ddr_ram (load_file f bd_start DT_STRUCT_SIZE t) (initrd_start + j) = ddr_ram t (initrd_start + j)" for f t
    by (cases f) (auto simp: load_file_def ppc_halt_def put_bytes_def bd_start_def initrd_start_def DT_STRUCT_SIZE_def)
  have c: "put_bytes bootcmd_start (map of_char bootcmd @ [0]) m (initrd_start + j) = m (initrd_start + j)" for m
    by (rule put_bytes_at(2)) (use l in \<open>simp add: bootcmd_start_def initrd_start_def\<close>)
  have "put_bytes initrd_start (take initrd_size bs) m (initrd_start + j) = bs ! j" for m
    using assms put_bytes_at(1) [of j "take initrd_size bs" initrd_start m] by simp
  then show ?thesis
    by (simp add: mpc8572_start_def ppc_reset_state_def mpc8572_board_def mpc8572_io_reset_def mpc8572_boot_linux_def Let_def
      setup_boot_param_def load_initrd_def d c) (simp add: load_file_def)
qed

text \<open>
  C26. The kernel finds itself mapped after the reset of the MPC8572: on both cores, whatever was in memory before, the
  first 16 MB above 0xC0000000 are translated to the start of the RAM; register 4 points to the contents of the RAM
  disk file, up to 1 MB.
\<close>

theorem kernel_mapped_after_reset:
  fixes s :: mpc_state and bs :: "u8 list" and dtb :: "u8 list option"
  assumes "k < 2" "unat x < 2 ^ 24" "j < length bs" "j < 1024 * 1024"
  defines "s' \<equiv> (mpc8572_start (Some bs) dtb s)\<lparr>cur := k\<rparr>"
  shows "ppc_effective_to_physical k (0xC0000000 + x) PPC_MMU_READ s' = (Some x, s') \<and>
    ddr_ram s' (unat (pgpr s' 4) + j) = bs ! j"
proof -
  have cc: "cc s' = boot_core (ppc_core_init k (cores s k))" using assms(1) by (simp add: s'_def cc_def mpc8572_start_fields)
  let ?m = "emmu (cc s')"
  let ?e = "\<lparr>t_v = 1, t_ts = 0, t_tid = 0, t_epn = 0xC0000, t_rpn = 0, t_size = 7, t_usxrw = 0x15, t_wimge = 8, t_x = 0, t_u = 0, t_iprot = 1\<rparr>"
  have at: "tlb_at ?m j = (if j = 256 then ?e else if j < 256 then tlb_entry_0 else tlb_at ?m j)" for j
    by (auto simp: cc boot_core_def set_boot_param_def setup_boot_map_def ppc_core_init_def e500_mmu_init_def tlb_at_def L2_TLB0_SIZE_def)
  have mk: "tlb_mask 256 ?e = NOT (mask 24)" by (subst tlb_mask_page) (simp_all add: page_bits_def L2_TLB0_SIZE_def)
  have x: "x AND mask 24 = x" by (rule word_unat_eq_iff [THEN iffD2]) (simp only: unat_low, use assms(2) in simp)
  have z: "x AND NOT (mask 24) = 0" by (metis x word_bw_assocs(1) bit.conj_cancel_right and_zero_eq)
  have "0xC0000000 AND (mask 24 AND x) = (0xC0000000 AND mask 24) AND x" by (simp only: and.assoc)
  also have "0xC0000000 AND mask 24 = (0 :: u32)" by (simp add: mask_eq_exp_minus_1)
  finally have "0xC0000000 AND x = 0" using x by (simp add: and.commute)
  then have o: "0xC0000000 + x = 0xC0000000 OR x"
    by (intro word_unat_eq_iff [THEN iffD2]) (simp only: or_disjoint_add, use assms(2) in \<open>simp add: unat_word_ariths\<close>)
  have "(0xC0000000 OR x) AND NOT (mask 24) = 0xC0000000" "(0xC0000000 OR x) AND mask 24 = x"
    using x z by (simp_all add: bit.conj_disj_distrib2 mask_eq_exp_minus_1)
  then have h: "tlb_hit ?m (0xC0000000 + x) 256" "tlb_real 256 ?e (0xC0000000 + x) = x"
    by (simp_all add: tlb_hit_def at [of 256] tlb_tid_ok_def tlb_addr_ok_def tlb_real_def mk o mask_eq_exp_minus_1)
  have "find (tlb_hit ?m (0xC0000000 + x)) tlb_walk = Some 256"
    unfolding tlb_walk_def by (rule find_first) (use h in \<open>auto simp: L2_TLB0_SIZE_def L2_TLB1_SIZE_def tlb_hit_def at tlb_entry_0_def\<close>)
  then have "ppc_effective_to_physical k (0xC0000000 + x) PPC_MMU_READ s' = (Some x, s')"
    using h(2) at [of 256] by (simp add: ppc_effective_to_physical_def tlb_protected_def PPC_MMU_READ_def PPC_MMU_WRITE_def s'_def mpc8572_start_fields)
  moreover have "pgpr s' 4 = of_nat initrd_start" by (simp add: pgpr_def cc boot_core_def set_boot_param_def)
  ultimately show ?thesis
    using mpc8572_start_initrd [of j bs dtb s] assms(3,4) by (simp add: s'_def initrd_start_def initrd_size_def)
qed

theorem kernel_mapped_after_reset_witness:
  "\<forall>s. (let s' = (mpc8572_start (Some [7, 8]) None s)\<lparr>cur := 1\<rparr>
     in fst (ppc_effective_to_physical 1 (0xC0000000 + 0x1234) PPC_MMU_READ s') = Some 0x1234)"
  using kernel_mapped_after_reset [of 1 "0x1234" 0 "[7, 8]" None] by (simp add: Let_def)

end
