(* ===== verification/Ppc_Frame.thy ===== *)
theory Ppc_Frame
  imports Ppc_Step_Spec
begin

text \<open>
  What no instruction of the e500 simulator changes: the number and the version of each core, how many there are,
  which one runs, and the word behind TLB1 that the walk over the TLBs looks at. The contract of a board is a locale,
  the MPC8572 keeps it; the facts about its runs follow.
\<close>

subsection \<open>What is kept\<close>

definition fixed :: "e500_core \<Rightarrow> e500_core \<Rightarrow> bool" where
  "fixed c d \<longleftrightarrow> epir d = epir c \<and> epvr d = epvr c \<and>
     (t_v (tlb1 (emmu c) L2_TLB1_SIZE) = 0 \<longrightarrow> t_v (tlb1 (emmu d) L2_TLB1_SIZE) = 0)"

definition keeps :: "'d ppc_state \<Rightarrow> 'd ppc_state \<Rightarrow> bool" where
  "keeps s t \<longleftrightarrow> core_num t = core_num s \<and> cur t = cur s \<and> (\<forall>k. fixed (cores s k) (cores t k))"

named_theorems keep

lemma keeps_refl [keep]: "keeps s s"
  by (simp add: keeps_def fixed_def)

lemma keeps_trans: "keeps s t \<Longrightarrow> keeps t u \<Longrightarrow> keeps s u"
  by (simp add: keeps_def fixed_def)

lemma keeps_core_at: "keeps s t \<Longrightarrow> fixed (cores t k) (f (cores t k)) \<Longrightarrow> keeps s (upd_core_of k f t)"
  by (auto simp: keeps_def fixed_def upd_core_of_def)

lemma keeps_core [keep]:
  "keeps s t \<Longrightarrow> (\<And>c. fixed c (f c)) \<Longrightarrow> keeps s (upd_core f t)"
  "keeps s t \<Longrightarrow> (\<And>c. fixed c (f c)) \<Longrightarrow> keeps s (upd_core_of k f t)"
  by (simp_all add: keeps_core_at upd_core_def)

lemma keeps_outside [keep]:
  "keeps s t \<Longrightarrow> keeps s (ppc_halt h t)"
  "keeps s t \<Longrightarrow> keeps s (mem_check z n i t)"
  "keeps s t \<Longrightarrow> keeps s (t\<lparr>boot_rom := m\<rparr>)" "keeps s t \<Longrightarrow> keeps s (t\<lparr>init_ram := m\<rparr>)"
  "keeps s t \<Longrightarrow> keeps s (t\<lparr>ddr_ram := m\<rparr>)" "keeps s t \<Longrightarrow> keeps s (t\<lparr>pdev := d\<rparr>)"
  "keeps s t \<Longrightarrow> keeps s (t\<lparr>bptr := v\<rparr>)" "keeps s t \<Longrightarrow> keeps s (t\<lparr>ccsr := v\<rparr>)" "keeps s t \<Longrightarrow> keeps s (t\<lparr>eebpcr := v\<rparr>)"
  by (simp_all add: keeps_def ppc_halt_def mem_check_def)

lemma fixed_mas [keep]: "fixed c (set_mas n v d) = fixed c d"
  by (simp add: fixed_def set_mas_def)

lemma fixed_upd [keep]:
  "fixed c (d\<lparr>egpr := v_egpr\<rparr>) = fixed c d" "fixed c (d\<lparr>efpr := v_efpr\<rparr>) = fixed c d"
  "fixed c (d\<lparr>ecr := v_ecr\<rparr>) = fixed c d" "fixed c (d\<lparr>efpscr := v_efpscr\<rparr>) = fixed c d"
  "fixed c (d\<lparr>exer := v_exer\<rparr>) = fixed c d" "fixed c (d\<lparr>elr := v_elr\<rparr>) = fixed c d"
  "fixed c (d\<lparr>ectr := v_ectr\<rparr>) = fixed c d" "fixed c (d\<lparr>emsr := v_emsr\<rparr>) = fixed c d"
  "fixed c (d\<lparr>eibatu := v_eibatu\<rparr>) = fixed c d" "fixed c (d\<lparr>eibatl := v_eibatl\<rparr>) = fixed c d"
  "fixed c (d\<lparr>eibat_bl17 := v_eibat_bl17\<rparr>) = fixed c d" "fixed c (d\<lparr>edbatu := v_edbatu\<rparr>) = fixed c d"
  "fixed c (d\<lparr>edbatl := v_edbatl\<rparr>) = fixed c d" "fixed c (d\<lparr>edbat_bl17 := v_edbat_bl17\<rparr>) = fixed c d"
  "fixed c (d\<lparr>esdr1 := v_esdr1\<rparr>) = fixed c d" "fixed c (d\<lparr>eseg := v_eseg\<rparr>) = fixed c d"
  "fixed c (d\<lparr>edar := v_edar\<rparr>) = fixed c d" "fixed c (d\<lparr>edsisr := v_edsisr\<rparr>) = fixed c d"
  "fixed c (d\<lparr>esprg := v_esprg\<rparr>) = fixed c d" "fixed c (d\<lparr>esrr := v_esrr\<rparr>) = fixed c d"
  "fixed c (d\<lparr>edec := v_edec\<rparr>) = fixed c d" "fixed c (d\<lparr>eear := v_eear\<rparr>) = fixed c d"
  "fixed c (d\<lparr>etb := v_etb\<rparr>) = fixed c d" "fixed c (d\<lparr>ehid := v_ehid\<rparr>) = fixed c d"
  "fixed c (d\<lparr>epc := v_epc\<rparr>) = fixed c d" "fixed c (d\<lparr>enpc := v_enpc\<rparr>) = fixed c d"
  "fixed c (d\<lparr>eopc := v_eopc\<rparr>) = fixed c d" "fixed c (d\<lparr>epagetable_base := v_epagetable_base\<rparr>) = fixed c d"
  "fixed c (d\<lparr>epagetable_hashmask := v_epagetable_hashmask\<rparr>) = fixed c d" "fixed c (d\<lparr>ereserve := v_ereserve\<rparr>) = fixed c d"
  "fixed c (d\<lparr>ehave_reservation := v_ehave_reservation\<rparr>) = fixed c d" "fixed c (d\<lparr>eeffective_code_page := v_eeffective_code_page\<rparr>) = fixed c d"
  "fixed c (d\<lparr>epdec := v_epdec\<rparr>) = fixed c d" "fixed c (d\<lparr>eptb := v_eptb\<rparr>) = fixed c d"
  "fixed c (d\<lparr>evrsave := v_evrsave\<rparr>) = fixed c d" "fixed c (d\<lparr>el1csr := v_el1csr\<rparr>) = fixed c d"
  "fixed c (d\<lparr>ecsrr := v_ecsrr\<rparr>) = fixed c d" "fixed c (d\<lparr>emcsrr := v_emcsrr\<rparr>) = fixed c d"
  "fixed c (d\<lparr>eesr := v_eesr\<rparr>) = fixed c d" "fixed c (d\<lparr>emcsr := v_emcsr\<rparr>) = fixed c d"
  "fixed c (d\<lparr>edear := v_edear\<rparr>) = fixed c d" "fixed c (d\<lparr>edbcr := v_edbcr\<rparr>) = fixed c d"
  "fixed c (d\<lparr>edbsr := v_edbsr\<rparr>) = fixed c d" "fixed c (d\<lparr>etcr := v_etcr\<rparr>) = fixed c d"
  "fixed c (d\<lparr>etsr := v_etsr\<rparr>) = fixed c d" "fixed c (d\<lparr>edac := v_edac\<rparr>) = fixed c d"
  "fixed c (d\<lparr>eivpr := v_eivpr\<rparr>) = fixed c d" "fixed c (d\<lparr>eivor := v_eivor\<rparr>) = fixed c d"
  "fixed c (d\<lparr>eiac := v_eiac\<rparr>) = fixed c d" "fixed c (d\<lparr>etbl := v_etbl\<rparr>) = fixed c d"
  "fixed c (d\<lparr>etbu := v_etbu\<rparr>) = fixed c d" "fixed c (d\<lparr>espefscr := v_espefscr\<rparr>) = fixed c d"
  "fixed c (d\<lparr>eipr := v_eipr\<rparr>) = fixed c d" "fixed c (d\<lparr>eipi_flag := v_eipi_flag\<rparr>) = fixed c d"
  by (simp_all add: fixed_def)

lemma fixed_refl [keep]: "fixed c c"
  by (simp add: fixed_def)

subsection \<open>Exceptions and results\<close>

lemma keeps_exception [keep]: "keeps s t \<Longrightarrow> keeps s (ppc_exception k ty fl a t)"
proof -
  have "fixed c (tlb_miss_assist a d) = fixed c d" for c d :: e500_core and a by (simp add: tlb_miss_assist_def Let_def keep)
  moreover have "fixed c (set_spid d) = fixed c d" for c d by (simp add: set_spid_def keep)
  ultimately show "keeps s t \<Longrightarrow> ?thesis"
    by (simp add: ppc_exception_def Let_def keep save_pc_def)
qed

lemma keeps_put [keep]:
  "keeps s t \<Longrightarrow> keeps s (set_pgpr r v t)" "keeps s t \<Longrightarrow> keeps s (set_pfpr r w t)"
  "keeps s t \<Longrightarrow> keeps s (ppc_update_cr0 v t)" "keeps s t \<Longrightarrow> keeps s (record_cr0 r t)"
  "keeps s t \<Longrightarrow> keeps s (set_ca b t)" "keeps s t \<Longrightarrow> keeps s (put_rc r v t)" "keeps s t \<Longrightarrow> keeps s (put_ca_rc r v b t)"
  "keeps s t \<Longrightarrow> keeps s (cmp_put b c t)" "keeps s t \<Longrightarrow> keeps s (set_cr_bit n b t)"
  "keeps s t \<Longrightarrow> keeps s (put_rd v t)" "keeps s t \<Longrightarrow> keeps s (bump_d t)" "keeps s t \<Longrightarrow> keeps s (bump_x t)"
  "keeps s t \<Longrightarrow> keeps s (cr_or v t)" "keeps s t \<Longrightarrow> keeps s (stwcx_so t)" "keeps s t \<Longrightarrow> keeps s (put_fd w t)" "keeps s t \<Longrightarrow> keeps s (put_fs v t)"
  "keeps s t \<Longrightarrow> keeps s (fpscr_or v t)" "keeps s t \<Longrightarrow> keeps s (fpu_put pk r x t)" "keeps s t \<Longrightarrow> keeps s (fpu_set_cmp v t)"
  "keeps s t \<Longrightarrow> keeps s (set_npc v t)" "keeps s t \<Longrightarrow> keeps s (set_lr_if t)" "keeps s t \<Longrightarrow> keeps s (dec_ctr n t)"
  "keeps s t \<Longrightarrow> keeps s (ppc_mmu_tlb_invalidate t)" "keeps s t \<Longrightarrow> keeps s (ppc_set_msr v t)" "keeps s t \<Longrightarrow> keeps s (set_seg n t)"
  by (simp_all add: put_rc_def put_ca_rc_def set_pgpr_def set_pfpr_def record_cr0_def ppc_update_cr0_def set_ca_def cmp_put_def
    set_cr_bit_def put_rd_def bump_d_def bump_x_def cr_or_def stwcx_so_def put_fd_def put_fs_def fpscr_or_def fpu_put_def
    fpu_set_cmp_def set_npc_def set_lr_if_def dec_ctr_def ppc_mmu_tlb_invalidate_def ppc_set_msr_def set_seg_def
    Let_def keep split: option.split prod.split)

lemma keeps_guard [keep]:
  "keeps s t \<Longrightarrow> (\<And>u. keeps s u \<Longrightarrow> keeps s (f u)) \<Longrightarrow> keeps s (priv_guard f t)"
  "keeps s t \<Longrightarrow> (\<And>u. keeps s u \<Longrightarrow> keeps s (f u)) \<Longrightarrow> keeps s (fp_guard f t)"
  "keeps s t \<Longrightarrow> keeps s (rotate_mask n g t)"
  by (simp_all add: priv_guard_def fp_guard_def rotate_mask_def Let_def keep split: option.split)

subsection \<open>Translation\<close>

lemma keeps_translate [keep]: "keeps s t \<Longrightarrow> keeps s (snd (ppc_effective_to_physical c a f t))"
  by (simp add: ppc_effective_to_physical_def Let_def keep split: option.split)

lemma keeps_dword [keep]:
  "keeps s t \<Longrightarrow> keeps s (snd (ppc_write_effective_dword a v t))"
  "keeps s t \<Longrightarrow> (\<And>v u. keeps s u \<Longrightarrow> keeps s (k v u)) \<Longrightarrow> keeps s (with_dword a k t)"
  by (simp_all add: ppc_write_effective_dword_def write_two_pages_def ppc_write_physical_dword_def with_dword_def
    ppc_read_effective_dword_def Let_def case_prod_beta keep split: option.split)

lemma keeps_then_upd [keep]: "keeps s (snd r) \<Longrightarrow> (\<And>u. keeps s u \<Longrightarrow> keeps s (f u)) \<Longrightarrow> keeps s (then_upd f r)"
  by (simp add: then_upd_def)

subsection \<open>Instructions that do not use the board\<close>

lemma keeps_alu:
  "keeps s (ppc_opc_addx bd s)"
  "keeps s (ppc_opc_addox bd s)"
  "keeps s (ppc_opc_addcx bd s)"
  "keeps s (ppc_opc_addcox bd s)"
  "keeps s (ppc_opc_addex bd s)"
  "keeps s (ppc_opc_addeox bd s)"
  "keeps s (ppc_opc_addmex bd s)"
  "keeps s (ppc_opc_addmeox bd s)"
  "keeps s (ppc_opc_addzex bd s)"
  "keeps s (ppc_opc_addzeox bd s)"
  "keeps s (ppc_opc_subfx bd s)"
  "keeps s (ppc_opc_subfox bd s)"
  "keeps s (ppc_opc_subfcx bd s)"
  "keeps s (ppc_opc_subfcox bd s)"
  "keeps s (ppc_opc_subfex bd s)"
  "keeps s (ppc_opc_subfeox bd s)"
  "keeps s (ppc_opc_subfmex bd s)"
  "keeps s (ppc_opc_subfmeox bd s)"
  "keeps s (ppc_opc_subfzex bd s)"
  "keeps s (ppc_opc_subfzeox bd s)"
  "keeps s (ppc_opc_negx bd s)"
  "keeps s (ppc_opc_negox bd s)"
  "keeps s (ppc_opc_addi bd s)"
  "keeps s (ppc_opc_addis bd s)"
  "keeps s (ppc_opc_addic bd s)"
  "keeps s (ppc_opc_addic_dot bd s)"
  "keeps s (ppc_opc_subfic bd s)"
  "keeps s (ppc_opc_andx bd s)"
  "keeps s (ppc_opc_andcx bd s)"
  "keeps s (ppc_opc_eqvx bd s)"
  "keeps s (ppc_opc_nandx bd s)"
  "keeps s (ppc_opc_norx bd s)"
  "keeps s (ppc_opc_orx bd s)"
  "keeps s (ppc_opc_orcx bd s)"
  "keeps s (ppc_opc_xorx bd s)"
  "keeps s (ppc_opc_andi_dot bd s)"
  "keeps s (ppc_opc_andis_dot bd s)"
  "keeps s (ppc_opc_ori bd s)"
  "keeps s (ppc_opc_oris bd s)"
  "keeps s (ppc_opc_xori bd s)"
  "keeps s (ppc_opc_xoris bd s)"
  "keeps s (ppc_opc_extsbx bd s)"
  "keeps s (ppc_opc_extshx bd s)"
  "keeps s (ppc_opc_cntlzwx bd s)"
  "keeps s (ppc_opc_cmp bd s)"
  "keeps s (ppc_opc_cmpi bd s)"
  "keeps s (ppc_opc_cmpl bd s)"
  "keeps s (ppc_opc_cmpli bd s)"
  "keeps s (ppc_opc_crand bd s)"
  "keeps s (ppc_opc_crandc bd s)"
  "keeps s (ppc_opc_creqv bd s)"
  "keeps s (ppc_opc_crnand bd s)"
  "keeps s (ppc_opc_crorc bd s)"
  "keeps s (ppc_opc_crxor bd s)"
  "keeps s (ppc_opc_crnor bd s)"
  "keeps s (ppc_opc_cror bd s)"
  "keeps s (ppc_opc_divwx bd s)"
  "keeps s (ppc_opc_divwox bd s)"
  "keeps s (ppc_opc_divwux bd s)"
  "keeps s (ppc_opc_divwuox bd s)"
  "keeps s (ppc_opc_mulhwx bd s)"
  "keeps s (ppc_opc_mulhwux bd s)"
  "keeps s (ppc_opc_mulli bd s)"
  "keeps s (ppc_opc_mullwx bd s)"
  "keeps s (ppc_opc_rlwimix bd s)"
  "keeps s (ppc_opc_rlwinmx bd s)"
  "keeps s (ppc_opc_rlwnmx bd s)"
  "keeps s (ppc_opc_slwx bd s)"
  "keeps s (ppc_opc_srwx bd s)"
  "keeps s (ppc_opc_srawx bd s)"
  "keeps s (ppc_opc_srawix bd s)"
  "keeps s (ppc_opc_iseleq bd s)"
  "keeps s (ppc_opc_iselgt bd s)"
  "keeps s (ppc_opc_isel bd s)"
  by (simp_all add: Let_def keep case_prod_beta alu_add_def alu_addc_def alu_adde_def alu_addme_def alu_addze_def alu_subf_def alu_subfc_def alu_subfe_def alu_subfme_def alu_subfze_def alu_neg_def alu_divw_def alu_divwu_def alu_sraw_def
    ppc_opc_addx_def ppc_opc_addox_def ppc_opc_addcx_def ppc_opc_addcox_def ppc_opc_addex_def ppc_opc_addeox_def
    ppc_opc_addmex_def ppc_opc_addmeox_def ppc_opc_addzex_def ppc_opc_addzeox_def ppc_opc_subfx_def
    ppc_opc_subfox_def ppc_opc_subfcx_def ppc_opc_subfcox_def ppc_opc_subfex_def ppc_opc_subfeox_def
    ppc_opc_subfmex_def ppc_opc_subfmeox_def ppc_opc_subfzex_def ppc_opc_subfzeox_def ppc_opc_negx_def
    ppc_opc_negox_def ppc_opc_addi_def ppc_opc_addis_def ppc_opc_addic_def ppc_opc_addic_dot_def
    ppc_opc_subfic_def ppc_opc_andx_def ppc_opc_andcx_def ppc_opc_eqvx_def ppc_opc_nandx_def ppc_opc_norx_def
    ppc_opc_orx_def ppc_opc_orcx_def ppc_opc_xorx_def ppc_opc_andi_dot_def ppc_opc_andis_dot_def ppc_opc_ori_def
    ppc_opc_oris_def ppc_opc_xori_def ppc_opc_xoris_def ppc_opc_extsbx_def ppc_opc_extshx_def ppc_opc_cntlzwx_def
    ppc_opc_cmp_def ppc_opc_cmpi_def ppc_opc_cmpl_def ppc_opc_cmpli_def ppc_opc_crand_def ppc_opc_crandc_def
    ppc_opc_creqv_def ppc_opc_crnand_def ppc_opc_crorc_def ppc_opc_crxor_def ppc_opc_crnor_def ppc_opc_cror_def
    ppc_opc_divwx_def ppc_opc_divwox_def ppc_opc_divwux_def ppc_opc_divwuox_def ppc_opc_mulhwx_def
    ppc_opc_mulhwux_def ppc_opc_mulli_def ppc_opc_mullwx_def ppc_opc_rlwimix_def ppc_opc_rlwinmx_def
    ppc_opc_rlwnmx_def ppc_opc_slwx_def ppc_opc_srwx_def ppc_opc_srawx_def ppc_opc_srawix_def ppc_opc_iseleq_def
    ppc_opc_iselgt_def ppc_opc_isel_def split: option.split)

lemma keeps_fpu:
  "keeps s (ppc_opc_fabsx bd s)"
  "keeps s (ppc_opc_fmrx bd s)"
  "keeps s (ppc_opc_fnabsx bd s)"
  "keeps s (ppc_opc_fnegx bd s)"
  "keeps s (ppc_opc_fselx bd s)"
  "keeps s (ppc_opc_faddx bd s)"
  "keeps s (ppc_opc_faddsx bd s)"
  "keeps s (ppc_opc_fsubx bd s)"
  "keeps s (ppc_opc_fsubsx bd s)"
  "keeps s (ppc_opc_fdivx bd s)"
  "keeps s (ppc_opc_fdivsx bd s)"
  "keeps s (ppc_opc_fmulx bd s)"
  "keeps s (ppc_opc_fmulsx bd s)"
  "keeps s (ppc_opc_fmaddx bd s)"
  "keeps s (ppc_opc_fmaddsx bd s)"
  "keeps s (ppc_opc_fmsubx bd s)"
  "keeps s (ppc_opc_fmsubsx bd s)"
  "keeps s (ppc_opc_fnmaddx bd s)"
  "keeps s (ppc_opc_fnmaddsx bd s)"
  "keeps s (ppc_opc_fnmsubx bd s)"
  "keeps s (ppc_opc_fnmsubsx bd s)"
  "keeps s (ppc_opc_fresx bd s)"
  "keeps s (ppc_opc_fsqrtsx bd s)"
  "keeps s (ppc_opc_fsqrtx bd s)"
  "keeps s (ppc_opc_frsqrtex bd s)"
  "keeps s (ppc_opc_frspx bd s)"
  "keeps s (ppc_opc_fctiwx bd s)"
  "keeps s (ppc_opc_fctiwzx bd s)"
  "keeps s (ppc_opc_fcmpo bd s)"
  "keeps s (ppc_opc_fcmpu bd s)"
  by (simp_all add: Let_def keep fpu_sum_def fpu_quotient_def fpu_product_def fpu_muladd_def case_prod_beta
    ppc_opc_fabsx_def ppc_opc_fmrx_def ppc_opc_fnabsx_def ppc_opc_fnegx_def ppc_opc_fselx_def ppc_opc_faddx_def
    ppc_opc_faddsx_def ppc_opc_fsubx_def ppc_opc_fsubsx_def ppc_opc_fdivx_def ppc_opc_fdivsx_def ppc_opc_fmulx_def
    ppc_opc_fmulsx_def ppc_opc_fmaddx_def ppc_opc_fmaddsx_def ppc_opc_fmsubx_def ppc_opc_fmsubsx_def
    ppc_opc_fnmaddx_def ppc_opc_fnmaddsx_def ppc_opc_fnmsubx_def ppc_opc_fnmsubsx_def ppc_opc_fresx_def
    ppc_opc_fsqrtsx_def ppc_opc_fsqrtx_def ppc_opc_frsqrtex_def ppc_opc_frspx_def ppc_opc_fctiwx_def
    ppc_opc_fctiwzx_def ppc_opc_fcmpo_def ppc_opc_fcmpu_def split: option.split)

lemma fixed_spr: "spr_write a n v c = Some d \<Longrightarrow> fixed c d"
  by (auto simp: spr_write_def spr_w0_def spr_w1_def spr_w8_def spr_w9_def spr_w10_def spr_w16_def spr_w17_def spr_w19_def
    spr_w31_def spr_wsprg_def Let_def fixed_def set_mas_def split: if_splits)

lemma keeps_mtspr: "keeps s (ppc_opc_mtspr bd s)"
proof -
  have "keeps s (upd_core (\<lambda>_. d) s)" if "spr_write a n v (cc s) = Some d" for a n v d
    unfolding upd_core_def by (rule keeps_core_at [OF keeps_refl]) (use fixed_spr [OF that] in \<open>simp add: cc_def\<close>)
  moreover have "keeps s (snd (ppc_mmu_set_sdr1 v s))" for v
    by (simp add: ppc_mmu_set_sdr1_def Let_def keep)
  ultimately show ?thesis by (auto simp: ppc_opc_mtspr_def Let_def keep split: option.split)
qed

lemma keeps_opc:
  "keeps s (ppc_opc_bx bd s)"
  "keeps s (ppc_opc_bcx bd s)"
  "keeps s (ppc_opc_bcctrx bd s)"
  "keeps s (ppc_opc_bclrx bd s)"
  "keeps s (ppc_opc_dcbf bd s)"
  "keeps s (ppc_opc_dcbi bd s)"
  "keeps s (ppc_opc_dcbst bd s)"
  "keeps s (ppc_opc_dcbt bd s)"
  "keeps s (ppc_opc_dcbtst bd s)"
  "keeps s (ppc_opc_dcba bd s)"
  "keeps s (ppc_opc_eciwx bd s)"
  "keeps s (ppc_opc_ecowx bd s)"
  "keeps s (ppc_opc_eieio bd s)"
  "keeps s (ppc_opc_icbi bd s)"
  "keeps s (ppc_opc_isync bd s)"
  "keeps s (ppc_opc_sync bd s)"
  "keeps s (ppc_opc_tlbia bd s)"
  "keeps s (ppc_opc_tlbie bd s)"
  "keeps s (ppc_opc_tlbsync bd s)"
  "keeps s (ppc_opc_mcrf bd s)"
  "keeps s (ppc_opc_mcrfs bd s)"
  "keeps s (ppc_opc_mcrxr bd s)"
  "keeps s (ppc_opc_mfcr bd s)"
  "keeps s (ppc_opc_mffsx bd s)"
  "keeps s (ppc_opc_mtcrf bd s)"
  "keeps s (ppc_opc_mtfsb0x bd s)"
  "keeps s (ppc_opc_mtfsb1x bd s)"
  "keeps s (ppc_opc_mtfsfx bd s)"
  "keeps s (ppc_opc_mtfsfix bd s)"
  "keeps s (ppc_opc_mfspr bd s)"
  "keeps s (ppc_opc_mftb bd s)"
  "keeps s (ppc_opc_mfmsr bd s)"
  "keeps s (ppc_opc_mtmsr bd s)"
  "keeps s (ppc_opc_wrteei bd s)"
  "keeps s (ppc_opc_wrtee bd s)"
  "keeps s (ppc_opc_mfsr bd s)"
  "keeps s (ppc_opc_mfsrin bd s)"
  "keeps s (ppc_opc_mtsr bd s)"
  "keeps s (ppc_opc_mtsrin bd s)"
  "keeps s (ppc_opc_rfi bd s)"
  "keeps s (ppc_opc_sc bd s)"
  "keeps s (ppc_opc_tw bd s)"
  "keeps s (ppc_opc_twi bd s)"
  by (simp_all add: Let_def keep load_dec_def
    ppc_opc_bx_def ppc_opc_bcx_def ppc_opc_bcctrx_def ppc_opc_bclrx_def ppc_opc_dcbf_def ppc_opc_dcbi_def
    ppc_opc_dcbst_def ppc_opc_dcbt_def ppc_opc_dcbtst_def ppc_opc_dcba_def ppc_opc_eciwx_def ppc_opc_ecowx_def
    ppc_opc_eieio_def ppc_opc_icbi_def ppc_opc_isync_def ppc_opc_sync_def ppc_opc_tlbia_def ppc_opc_tlbie_def
    ppc_opc_tlbsync_def ppc_opc_mcrf_def ppc_opc_mcrfs_def ppc_opc_mcrxr_def ppc_opc_mfcr_def ppc_opc_mffsx_def
    ppc_opc_mtcrf_def ppc_opc_mtfsb0x_def ppc_opc_mtfsb1x_def ppc_opc_mtfsfx_def ppc_opc_mtfsfix_def
    ppc_opc_mfspr_def ppc_opc_mftb_def ppc_opc_mfmsr_def ppc_opc_mtmsr_def ppc_opc_wrteei_def ppc_opc_wrtee_def
    ppc_opc_mfsr_def ppc_opc_mfsrin_def ppc_opc_mtsr_def ppc_opc_mtsrin_def ppc_opc_rfi_def ppc_opc_sc_def
    ppc_opc_tw_def ppc_opc_twi_def split: option.split)

lemma keeps_mmu [keep]:
  "keeps s t \<Longrightarrow> (\<And>m. t_v (tlb1 m L2_TLB1_SIZE) = 0 \<Longrightarrow> t_v (tlb1 (f m) L2_TLB1_SIZE) = 0) \<Longrightarrow> keeps s (upd_mmu f t)"
  unfolding upd_mmu_def by (rule keeps_core) (simp_all add: fixed_def)

lemma tlbivax_keeps: "t_v (tlb1 m L2_TLB1_SIZE) = 0 \<Longrightarrow> t_v (tlb1 (fold (tlbivax_at a) is m) L2_TLB1_SIZE) = 0"
  by (induction "is" arbitrary: m) (auto simp: tlbivax_at_def upd_tlb_at_def Let_def)

lemma keeps_tlb:
  "keeps s (ppc_opc_tlbwe bd s)" "keeps s (ppc_opc_tlbrehi bd s)" "keeps s (ppc_opc_tlbsx bd s)" "keeps s (ppc_opc_tlbivax bd s)"
proof -
  have "tlb1_offset m \<noteq> L2_TLB1_SIZE" "L2_TLB1_SIZE \<noteq> tlb1_offset m" for m using tlb1_offset_bound [of m] by auto
  then show "keeps s (ppc_opc_tlbwe bd s)" by (simp add: ppc_opc_tlbwe_def Let_def keep)
qed (simp_all add: ppc_opc_tlbrehi_def ppc_opc_tlbsx_def ppc_opc_tlbivax_def Let_def tlbre_put_def tlbsx_put_def
    inv_entry_def keep tlbivax_keeps split: option.split)

end
