(* ===== verification/Ppc_Run.thy ===== *)
theory Ppc_Run
  imports Ppc_Frame
begin

text \<open>
  Runs of the e500 simulator. What its main loop expects of a board is a locale: no access and no cycle of the board
  changes what no instruction may change. Inside it every instruction, step and run keeps that; the MPC8572 is shown
  to be such a board.
\<close>

subsection \<open>The contract of a board\<close>

text \<open>What a run keeps: everything that an instruction keeps but which core runs.\<close>

definition run_keeps :: "'d ppc_state \<Rightarrow> 'd ppc_state \<Rightarrow> bool" where
  "run_keeps s t \<longleftrightarrow> core_num t = core_num s \<and> (\<forall>k. fixed (cores s k) (cores t k))"

lemma keeps_run: "keeps s t \<Longrightarrow> run_keeps s t"
  by (simp add: keeps_def run_keeps_def)

lemma run_keeps_trans: "run_keeps s t \<Longrightarrow> run_keeps t u \<Longrightarrow> run_keeps s u"
  by (simp add: run_keeps_def fixed_def)

text \<open>No access to the board's registers and no cycle of the board changes what is kept.\<close>

locale quiet_board =
  fixes bd :: "'d ppc_board"
  assumes read_byte: "keeps s (snd (bd_read_byte bd a s))"
    and read_half: "keeps s (snd (bd_read_half bd a s))"
    and read_word: "keeps s (snd (bd_read_word bd a s))"
    and write_byte: "keeps s (bd_write_byte bd a v s)"
    and write_half: "keeps s (bd_write_half bd a v s)"
    and write_word: "keeps s (bd_write_word bd a v s)"
    and do_cycle: "keeps s (bd_do_cycle bd s)"
begin

lemma board_keeps:
  "keeps s t \<Longrightarrow> keeps s (snd (bd_read_byte bd a t))" "keeps s t \<Longrightarrow> keeps s (snd (bd_read_half bd a t))"
  "keeps s t \<Longrightarrow> keeps s (snd (bd_read_word bd a t))" "keeps s t \<Longrightarrow> keeps s (bd_write_byte bd a v t)"
  "keeps s t \<Longrightarrow> keeps s (bd_write_half bd a v t)" "keeps s t \<Longrightarrow> keeps s (bd_write_word bd a v t)"
  "keeps s t \<Longrightarrow> keeps s (bd_do_cycle bd t)"
  using keeps_trans read_byte read_half read_word write_byte write_half write_word do_cycle by blast+

lemma access_keeps:
  "keeps s t \<Longrightarrow> keeps s (snd (ppc_read_effective_byte bd a x t))"
  "keeps s t \<Longrightarrow> keeps s (snd (ppc_read_effective_half bd a y t))"
  "keeps s t \<Longrightarrow> keeps s (snd (ppc_read_effective_word bd a z t))"
  "keeps s t \<Longrightarrow> keeps s (snd (ppc_write_effective_byte bd a x t))"
  "keeps s t \<Longrightarrow> keeps s (snd (ppc_write_effective_half bd a y t))"
  "keeps s t \<Longrightarrow> keeps s (snd (ppc_write_effective_word bd a z t))"
  by (simp_all add: ppc_read_effective_byte_def ppc_read_effective_half_def ppc_read_effective_word_def
    ppc_write_effective_byte_def ppc_write_effective_half_def ppc_write_effective_word_def case_prod_beta keep board_keeps
    split: option.split ppc_region.split)

lemma with_keeps:
  "keeps s t \<Longrightarrow> (\<And>v u. keeps s u \<Longrightarrow> keeps s (k v u)) \<Longrightarrow> keeps s (with_byte bd a k t)"
  "keeps s t \<Longrightarrow> (\<And>v u. keeps s u \<Longrightarrow> keeps s (l v u)) \<Longrightarrow> keeps s (with_half bd a l t)"
  "keeps s t \<Longrightarrow> (\<And>v u. keeps s u \<Longrightarrow> keeps s (m v u)) \<Longrightarrow> keeps s (with_word bd a m t)"
  by (simp_all add: with_byte_def with_half_def with_word_def case_prod_beta access_keeps split: option.split)

lemma lmw_keeps: "keeps s t \<Longrightarrow> keeps s (lmw_loop bd rs ea t)"
  by (induction rs arbitrary: ea t) (simp_all add: case_prod_beta access_keeps keep split: option.split)

lemma stmw_keeps: "keeps s t \<Longrightarrow> keeps s (stmw_loop bd rs ea t)"
  by (induction rs arbitrary: ea t) (simp_all add: case_prod_beta access_keeps keep split: bool.split)

lemma lsw_keeps: "keeps s t \<Longrightarrow> keeps s (lsw_loop bd n ea r i rD t)"
  by (induction n arbitrary: ea r i rD t) (simp_all add: case_prod_beta Let_def access_keeps keep split: option.split)

lemma stsw_keeps: "keeps s t \<Longrightarrow> keeps s (stsw_loop bd n ea r i rS t)"
  by (induction n arbitrary: ea r i rS t) (simp_all add: case_prod_beta Let_def access_keeps keep split: bool.split)

lemma dcbz_keeps: "keeps s t \<Longrightarrow> keeps s (fold (\<lambda>i s. snd (ppc_write_effective_word bd (a + i) 0 s)) js t)"
  by (induction js arbitrary: t) (simp_all add: access_keeps)

lemma stwcx_keeps: "keeps s t \<Longrightarrow> keeps s (stwcx_write bd t)"
  by (simp add: stwcx_write_def case_prod_beta access_keeps keep split: bool.split)

lemma dcbz_insn_keeps: "keeps s (ppc_opc_dcbz bd s)"
  unfolding ppc_opc_dcbz_def Let_def by (rule dcbz_keeps [OF keeps_refl])

lemma ls_keeps:
  "keeps s (ppc_opc_lbz bd s)"
  "keeps s (ppc_opc_lbzu bd s)"
  "keeps s (ppc_opc_lbzux bd s)"
  "keeps s (ppc_opc_lbzx bd s)"
  "keeps s (ppc_opc_lhz bd s)"
  "keeps s (ppc_opc_lhzu bd s)"
  "keeps s (ppc_opc_lhzux bd s)"
  "keeps s (ppc_opc_lhzx bd s)"
  "keeps s (ppc_opc_lha bd s)"
  "keeps s (ppc_opc_lhau bd s)"
  "keeps s (ppc_opc_lhaux bd s)"
  "keeps s (ppc_opc_lhax bd s)"
  "keeps s (ppc_opc_lwz bd s)"
  "keeps s (ppc_opc_lwzu bd s)"
  "keeps s (ppc_opc_lwzux bd s)"
  "keeps s (ppc_opc_lwzx bd s)"
  "keeps s (ppc_opc_lhbrx bd s)"
  "keeps s (ppc_opc_lwbrx bd s)"
  "keeps s (ppc_opc_lmw bd s)"
  "keeps s (ppc_opc_stmw bd s)"
  "keeps s (ppc_opc_lswi bd s)"
  "keeps s (ppc_opc_lswx bd s)"
  "keeps s (ppc_opc_stswi bd s)"
  "keeps s (ppc_opc_stswx bd s)"
  "keeps s (ppc_opc_stb bd s)"
  "keeps s (ppc_opc_stbu bd s)"
  "keeps s (ppc_opc_stbux bd s)"
  "keeps s (ppc_opc_stbx bd s)"
  "keeps s (ppc_opc_sth bd s)"
  "keeps s (ppc_opc_sthu bd s)"
  "keeps s (ppc_opc_sthux bd s)"
  "keeps s (ppc_opc_sthx bd s)"
  "keeps s (ppc_opc_stw bd s)"
  "keeps s (ppc_opc_stwu bd s)"
  "keeps s (ppc_opc_stwux bd s)"
  "keeps s (ppc_opc_stwx bd s)"
  "keeps s (ppc_opc_sthbrx bd s)"
  "keeps s (ppc_opc_stwbrx bd s)"
  "keeps s (ppc_opc_lwarx bd s)"
  "keeps s (ppc_opc_stwcx_dot bd s)"
  "keeps s (ppc_opc_dcbtls bd s)"
  "keeps s (ppc_opc_lfd bd s)"
  "keeps s (ppc_opc_lfdu bd s)"
  "keeps s (ppc_opc_lfdux bd s)"
  "keeps s (ppc_opc_lfdx bd s)"
  "keeps s (ppc_opc_lfs bd s)"
  "keeps s (ppc_opc_lfsu bd s)"
  "keeps s (ppc_opc_lfsux bd s)"
  "keeps s (ppc_opc_lfsx bd s)"
  "keeps s (ppc_opc_stfd bd s)"
  "keeps s (ppc_opc_stfdu bd s)"
  "keeps s (ppc_opc_stfdux bd s)"
  "keeps s (ppc_opc_stfdx bd s)"
  "keeps s (ppc_opc_stfs bd s)"
  "keeps s (ppc_opc_stfsu bd s)"
  "keeps s (ppc_opc_stfsux bd s)"
  "keeps s (ppc_opc_stfsx bd s)"
  "keeps s (ppc_opc_stfiwx bd s)"
  by (simp_all add: Let_def keep access_keeps with_keeps lmw_keeps stmw_keeps lsw_keeps stsw_keeps stwcx_keeps
    ppc_opc_lbz_def ppc_opc_lbzu_def ppc_opc_lbzux_def ppc_opc_lbzx_def ppc_opc_lhz_def ppc_opc_lhzu_def
    ppc_opc_lhzux_def ppc_opc_lhzx_def ppc_opc_lha_def ppc_opc_lhau_def ppc_opc_lhaux_def ppc_opc_lhax_def
    ppc_opc_lwz_def ppc_opc_lwzu_def ppc_opc_lwzux_def ppc_opc_lwzx_def ppc_opc_lhbrx_def ppc_opc_lwbrx_def
    ppc_opc_lmw_def ppc_opc_stmw_def ppc_opc_lswi_def ppc_opc_lswx_def ppc_opc_stswi_def ppc_opc_stswx_def
    ppc_opc_stb_def ppc_opc_stbu_def ppc_opc_stbux_def ppc_opc_stbx_def ppc_opc_sth_def ppc_opc_sthu_def
    ppc_opc_sthux_def ppc_opc_sthx_def ppc_opc_stw_def ppc_opc_stwu_def ppc_opc_stwux_def ppc_opc_stwx_def
    ppc_opc_sthbrx_def ppc_opc_stwbrx_def ppc_opc_lwarx_def ppc_opc_stwcx_dot_def ppc_opc_dcbtls_def
    ppc_opc_lfd_def ppc_opc_lfdu_def ppc_opc_lfdux_def ppc_opc_lfdx_def ppc_opc_lfs_def ppc_opc_lfsu_def
    ppc_opc_lfsux_def ppc_opc_lfsx_def ppc_opc_stfd_def ppc_opc_stfdu_def ppc_opc_stfdux_def ppc_opc_stfdx_def
    ppc_opc_stfs_def ppc_opc_stfsu_def ppc_opc_stfsux_def ppc_opc_stfsx_def ppc_opc_stfiwx_def split: option.split)

lemma invalid_keeps: "keeps s (ppc_opc_invalid bd s)"
proof -
  have h: "keeps s (snd (ppc_direct_effective_memory_handle a d t))" if "keeps s t" for a d t
    using that by (simp add: ppc_direct_effective_memory_handle_def case_prod_beta keep split: option.split)
  have l: "keeps s (memcpy_loop n x y d r t)" if "keeps s t" for n x y d r t
    using that by (induction n arbitrary: x y d r t) (simp_all add: case_prod_beta Let_def h memcpy_byte_def keep split: option.split)
  show ?thesis by (simp add: ppc_opc_invalid_def Let_def case_prod_beta ppc_memcpy_def h l keep access_keeps split: option.split)
qed

lemmas insn_keeps = keeps_alu keeps_fpu keeps_opc keeps_mtspr keeps_tlb ls_keeps dcbz_insn_keeps

lemma dispatch_keeps: "list_all (\<lambda>p. keeps s (snd p bd s)) tab \<Longrightarrow> keeps s (dispatch tab n bd s)"
  unfolding dispatch_def list_all_iff by (auto simp: invalid_keeps split: option.split dest!: map_of_SomeD bspec)

lemma group_keeps:
  "keeps s (ppc_opc_group_1 bd s)" "keeps s (ppc_opc_group_2 bd s)"
  by (simp_all add: ppc_opc_group_1_def ppc_opc_group_2_def group_1_table_def ppc_opc_table_group2_def dispatch_keeps insn_keeps)

lemma group_f_keeps:
  "keeps s (ppc_opc_group_f1 bd s)" "keeps s (ppc_opc_group_f2 bd s)"
proof -
  have d: "keeps s (dispatch group_f1_table n bd u)" "keeps s (dispatch group_f2_arith n bd u)" "keeps s (dispatch group_f2_table n bd u)"
    if "keeps s u" for n u
    by (rule keeps_trans [OF that], rule dispatch_keeps,
      simp add: group_f1_table_def group_f2_arith_def group_f2_table_def insn_keeps)+
  show "keeps s (ppc_opc_group_f1 bd s)" "keeps s (ppc_opc_group_f2 bd s)"
    by (simp_all add: ppc_opc_group_f1_def ppc_opc_group_f2_def Let_def keep d)
qed

lemma exec_keeps: "keeps s (ppc_exec_opc bd s)"
  unfolding ppc_exec_opc_def
  by (rule dispatch_keeps) (simp add: ppc_opc_table_main_def insn_keeps group_keeps group_f_keeps)

lemma exec_keeps_after: "keeps s t \<Longrightarrow> keeps s (ppc_exec_opc bd t)"
  using keeps_trans exec_keeps by blast

subsection \<open>Steps and runs\<close>

lemma step_end_keeps: "keeps s t \<Longrightarrow> keeps s (step_end t)"
  by (simp add: step_end_def dec_io_do_cycle_def Let_def keep)

lemma per_cpu_step_keeps: "keeps s (per_cpu_step bd s)"
  by (simp add: per_cpu_step_def Let_def case_prod_beta step_begin_def fetch_opc_def keep exec_keeps_after step_end_keeps split: option.split)

lemma step_core_keeps: "run_keeps s (step_core bd k s)"
proof -
  have "run_keeps s (s\<lparr>cur := k\<rparr>)" by (simp add: run_keeps_def fixed_refl)
  moreover have "run_keeps (s\<lparr>cur := k\<rparr>) (per_cpu_step bd (s\<lparr>cur := k\<rparr>))" by (rule keeps_run [OF per_cpu_step_keeps])
  ultimately show ?thesis unfolding step_core_def Let_def using run_keeps_trans by auto
qed

lemma step_cores_keep: "run_keeps s (fold (step_core bd) ks s)"
proof (induction ks arbitrary: s)
  case (Cons k ks)
  show ?case unfolding fold_simps by (rule run_keeps_trans [OF step_core_keeps Cons.IH])
qed (simp add: run_keeps_def fixed_refl)

lemma ppc_step_once_keeps: "run_keeps s (ppc_step_once bd s)"
  unfolding ppc_step_once_def using run_keeps_trans [OF step_cores_keep] keeps_run [OF do_cycle] by blast

lemma ppc_steps_keeps: "run_keeps s (ppc_steps n bd s)"
proof (induction n arbitrary: s)
  case (Suc n)
  then show ?case using run_keeps_trans [OF ppc_step_once_keeps] by simp
qed (simp add: run_keeps_def fixed_refl)

end

subsection \<open>The MPC8572\<close>

lemma keeps_io [keep]: "keeps s t \<Longrightarrow> keeps s (upd_io f t)" "keeps s t \<Longrightarrow> keeps s (upd_uart k g t)" "keeps s t \<Longrightarrow> keeps s (snd (io_exit t))"
  by (simp_all add: upd_uart_def upd_io_def io_exit_def keep)

lemma keeps_send_ipi [keep]: "keeps s t \<Longrightarrow> keeps s (send_ipi v t)"
  by (simp add: send_ipi_def Let_def keep)

lemma keeps_if: "keeps s t \<Longrightarrow> keeps s u \<Longrightarrow> keeps s (if b then t else u)" "keeps s (snd p) \<Longrightarrow> keeps s (snd q) \<Longrightarrow> keeps s (snd (if b then p else q))"
  by simp_all

lemma keeps_snd: "keeps s t \<Longrightarrow> keeps s (snd (v, t))"
  by simp

lemma keeps_reads:
  "keeps s (snd (mpc8572_io_read_byte a s))" "keeps s (snd (mpc8572_io_read_halfword a s))" "keeps s (snd (mpc8572_io_read_word a s))"
proof -
  have "keeps s (snd (read_pic a s))" by (simp add: read_pic_def Let_def keep split: option.split)
  then show "keeps s (snd (mpc8572_io_read_byte a s))" "keeps s (snd (mpc8572_io_read_halfword a s))" "keeps s (snd (mpc8572_io_read_word a s))"
    unfolding mpc8572_io_read_byte_def mpc8572_io_read_halfword_def mpc8572_io_read_word_def Let_def
    by (intro keeps_if keeps_snd keep; assumption)+
qed

lemma keeps_writes:
  "keeps s (mpc8572_io_write_byte a v s)" "keeps s (mpc8572_io_write_halfword a v s)" "keeps s (mpc8572_io_write_word a v s)"
  unfolding mpc8572_io_write_byte_def mpc8572_io_write_halfword_def mpc8572_io_write_word_def write_law_def
    uart_write_byte_def write_pic_ram_def write_percpu_def Let_def
  by ((intro keeps_if keep; simp add: keep)+)

lemma keeps_cycle: "keeps s (mpc8572_io_do_cycle s)"
  by (simp add: mpc8572_io_do_cycle_def uart_interrupt_def Let_def keep)

interpretation mpc: quiet_board "mpc8572_board initrd dtb" for initrd dtb
  by unfold_locales (simp_all add: mpc8572_board_def keeps_reads keeps_writes keeps_cycle)

text \<open>
  C12. In every run of the MPC8572, from the reset on and whatever it executes, there are two cores, core \<open>k\<close> reads \<open>k\<close>
  from its processor identification register and the version of the e500 from the version register, and the word behind
  TLB1, which every walk over the TLBs that finds no entry looks at as the valid bit of one more, is 0: no address is
  ever translated by what lies behind the table.
\<close>

theorem mpc8572_run_invariant:
  fixes s0 :: mpc_state and initrd dtb :: "u8 list option" and k n :: nat and a :: u32
  assumes "k < 2"
  defines "s \<equiv> ppc_steps n (mpc8572_board initrd dtb) (mpc8572_start initrd dtb s0)"
  shows "core_num s = 2 \<and> spr_read 8 30 (cores s k) = Some (of_nat k) \<and> spr_read 8 31 (cores s k) = Some 0x80210030 \<and>
    \<not> tlb_hit (emmu (cores s k)) a (L2_TLB0_SIZE + L2_TLB1_SIZE)"
proof -
  have r: "run_keeps (mpc8572_start initrd dtb s0) s" unfolding s_def by (rule mpc.ppc_steps_keeps)
  have "cores (mpc8572_start initrd dtb s0) k = boot_core (ppc_core_init k (cores s0 k))" using assms(1) by (simp add: mpc8572_start_fields)
  then have c: "epir (cores (mpc8572_start initrd dtb s0) k) = of_nat k" "epvr (cores (mpc8572_start initrd dtb s0) k) = 0x80210030"
    "t_v (tlb1 (emmu (cores (mpc8572_start initrd dtb s0) k)) L2_TLB1_SIZE) = 0"
    by (simp_all add: boot_core_def set_boot_param_def setup_boot_map_def ppc_core_init_def e500_mmu_init_def L2_TLB1_SIZE_def)
  have "fixed (cores (mpc8572_start initrd dtb s0) k) (cores s k)" "core_num s = 2"
    using r by (simp_all add: run_keeps_def mpc8572_start_fields)
  then show ?thesis
    using c by (simp add: fixed_def spr_read_def spr_8_def tlb_hit_def tlb_at_def L2_TLB0_SIZE_def)
qed

theorem mpc8572_run_invariant_witness:
  "\<forall>s0. spr_read 8 30 (cores (ppc_steps 1000 (mpc8572_board None None) (mpc8572_start None None s0)) 1) = Some 1"
  using mpc8572_run_invariant [of 1 1000 None None] by simp

end
