(* ===== verification/Sparc_Window_Spec.thy ===== *)
theory Sparc_Window_Spec
  imports Sparc_Iu
begin

text \<open>
  The register windows as one circular file of 128 words, and the invariant of the integer unit.

  Window \<open>w\<close> has its out registers at \<open>16 w\<close>, its locals behind them, and its in registers are the out
  registers of window \<open>w + 1\<close>. The array of the code is not circular: the in registers of window 7 are
  copied to a place behind the last window while that window is current. \<open>window_file\<close>
  forgets this copy.
\<close>

subsection \<open>Fields of the PSR\<close>

lemma bits_take: "n \<le> 31 \<Longrightarrow> m \<le> n \<Longrightarrow> bits x n m = take_bit (Suc n - m) (drop_bit m x)"
  unfolding bits_def by (rule bit_word_eqI) (auto simp: bit_simps)

lemma bit_bitsmask: "n \<le> 31 \<Longrightarrow> m \<le> n \<Longrightarrow> bit (bitsmask n m) i \<longleftrightarrow> m \<le> i \<and> i \<le> n"
  unfolding bitsmask_def by (cases "i < 32") (auto simp: bit_simps dest: bit_imp_le_length)

lemma put_bit: "n \<le> 31 \<Longrightarrow> put_bits x n n = set_bit n x"
  unfolding put_bits_def by (rule bit_word_eqI) (auto simp: bit_simps bit_bitsmask)

lemma clear_bit: "n \<le> 31 \<Longrightarrow> clear_bits x n n = unset_bit n x"
  unfolding clear_bits_def by (rule bit_word_eqI) (auto simp: bit_simps bit_bitsmask)

lemma psr_bit_of: "psr_bit s n = of_bool (bit (PSRREG s) n)"
  by (simp add: psr_bit_def and_one_eq bit_iff_odd_drop_bit mod_2_eq_odd)

lemma cwp_take: "CWP s = take_bit 5 (PSRREG s)"
  by (simp add: CWP_def bits_take)

lemma take_set_bit: "m \<le> n \<Longrightarrow> take_bit m (set_bit n x) = take_bit m x" for x :: u32
  by (rule bit_word_eqI) (auto simp: bit_simps)

lemma take_unset_bit: "m \<le> n \<Longrightarrow> take_bit m (unset_bit n x) = take_bit m x" for x :: u32
  by (rule bit_word_eqI) (auto simp: bit_simps)

lemma cwp_psr [simp]: "5 \<le> n \<Longrightarrow> n \<le> 31 \<Longrightarrow> CWP (psr_set n s) = CWP s"
  "5 \<le> n \<Longrightarrow> n \<le> 31 \<Longrightarrow> CWP (psr_clear n s) = CWP s"
  by (simp_all add: cwp_take psr_set_def psr_clear_def put_bit clear_bit take_set_bit take_unset_bit)

lemma sign_ext_take: "0 < n \<Longrightarrow> n \<le> 32 \<Longrightarrow> sign_ext x n = signed_take_bit (n - 1) (word_of_int x)"
  unfolding sign_ext_def
  by (rule bit_word_eqI, cases n) (auto simp: bit_simps min_def not_le less_Suc_eq)

subsection \<open>The window file\<close>

definition wf_sparc :: "'d sparc_state \<Rightarrow> bool" where
  "wf_sparc s \<longleftrightarrow> unat (CWP s) < N_WINDOWS \<and> regwptr s = unat (CWP s) * 16"

definition window_file :: "'d sparc_state \<Rightarrow> nat \<Rightarrow> u32" where
  "window_file s i = (if unat (CWP s) = 7 \<and> i < 8 then regbase s (128 + i) else regbase s i)"

text \<open>Register \<open>r\<close> of window \<open>w\<close>: the place in the file, and the value.\<close>

definition window_slot :: "nat \<Rightarrow> nat \<Rightarrow> nat" where
  "window_slot w r = (16 * w + (r - 8)) mod 128"

definition window_reg :: "'d sparc_state \<Rightarrow> nat \<Rightarrow> nat \<Rightarrow> u32" where
  "window_reg s w r = (if r < 8 then globals s r else window_file s (window_slot w r))"

lemma window_overlap: "r < 8 \<Longrightarrow> window_slot w (24 + r) = window_slot ((w + 1) mod 8) (8 + r)"
proof -
  assume "r < 8"
  have "16 * ((w + 1) mod 8) = (16 * (w + 1)) mod 128" using mult_mod_right [of 16 "w + 1" 8] by simp
  then have "(16 * ((w + 1) mod 8) + r) mod 128 = (16 * (w + 1) + r) mod 128" by (simp add: mod_simps)
  then show ?thesis by (simp add: window_slot_def algebra_simps)
qed

lemma memcpy32_at: "src + 8 \<le> d \<or> d + 8 \<le> src \<Longrightarrow>
    memcpy32 d src r i = (if d \<le> i \<and> i < d + 8 then r (src + (i - d)) else r i)"
proof -
  assume apart: "src + 8 \<le> d \<or> d + 8 \<le> src"
  show ?thesis
  proof (cases "d \<le> i \<and> i < d + 8")
    case True
    then have "i - d \<in> {0, 1, 2, 3, 4, 5, 6, 7}" by auto
    then show ?thesis using True by (auto simp: memcpy32_def eval_nat_numeral dest!: le_Suc_ex)
  next
    case False
    then show ?thesis by (auto simp: memcpy32_def)
  qed
qed

lemma cwp_values: "unat (x :: u32) = 7 \<longleftrightarrow> x = 7"
  by (simp add: word_unat_eq_iff)

text \<open>Reading and writing the current window is reading and writing the file.\<close>

lemma reg_is_window_reg:
  assumes "wf_sparc s" "r < 32"
  shows "REG s r = window_reg s (unat (CWP s)) r"
proof -
  define w where "w = unat (CWP s)"
  have w: "w < 8" "regwptr s = w * 16" using assms(1) by (simp_all add: wf_sparc_def w_def N_WINDOWS_def)
  show ?thesis
  proof (cases "w = 7 \<and> 24 \<le> r")
    case True
    then have "(16 * 7 + (r - 8)) mod 128 = r - 24" "r - 24 < 8" using assms(2) by (auto simp: mod_if)
    then show ?thesis using True assms(2) w
      by (simp add: REG_def window_reg_def window_file_def window_slot_def w_def [symmetric] add.commute)
  next
    case False
    have "r < 8 \<or> 16 * w + (r - 8) < 128" using False w(1) assms(2) by auto
    moreover have "\<not> (w = 7 \<and> 16 * w + (r - 8) < 8)" by auto
    ultimately show ?thesis using w
      by (auto simp: REG_def window_reg_def window_file_def window_slot_def w_def [symmetric] mult.commute)
  qed
qed

text \<open>Every slot of the file belongs to the current window for at most one of its registers.\<close>

lemma slot_inj:
  assumes "window_slot w r = window_slot w q" "8 \<le> r" "r < 32" "8 \<le> q" "q < 32"
  shows "r = q"
proof -
  have "r - 8 = q - 8"
    by (rule mod_add_inj [of "16 * w" _ 128]) (use assms in \<open>simp_all add: window_slot_def\<close>)
  then show ?thesis using assms(2,4) by simp
qed

lemma set_reg_fields [simp]:
  "CWP (set_REG r v s) = CWP s" "regwptr (set_REG r v s) = regwptr s" "PSRREG (set_REG r v s) = PSRREG s"
  "WIMREG (set_REG r v s) = WIMREG s" "PCREG (set_REG r v s) = PCREG s" "NPCREG (set_REG r v s) = NPCREG s"
  "YREG (set_REG r v s) = YREG s" "TBRREG (set_REG r v s) = TBRREG s" "sbus (set_REG r v s) = sbus s"
  "irq_pending (set_REG r v s) = irq_pending s" "FPREG (set_REG r v s) = FPREG s"
  "wf_sparc (set_REG r v s) = wf_sparc s"
  by (simp_all add: set_REG_def CWP_def wf_sparc_def)

lemma set_reg_is_window_update:
  assumes "wf_sparc s" "r < 32" "i < 128"
  shows "window_file (set_REG r v s) i =
      (if 8 \<le> r \<and> i = window_slot (unat (CWP s)) r then v else window_file s i)"
proof -
  define w where "w = unat (CWP s)"
  have w: "w < 8" "regwptr s = w * 16" using assms(1) by (simp_all add: wf_sparc_def w_def N_WINDOWS_def)
  have cw: "unat (CWP (set_REG r v s)) = w" "unat (CWP s) = w" by (simp_all add: w_def)
  have rb: "regbase (set_REG r v s) = (if r > 7 then (regbase s)(w * 16 + (r - 8) := v) else regbase s)"
    by (simp add: set_REG_def w)
  show ?thesis
  proof (cases "w = 7 \<and> 24 \<le> r")
    case True
    then have "(16 * 7 + (r - 8)) mod 128 = r - 24" "r - 24 < 8" using assms(2) by (auto simp: mod_if)
    then show ?thesis using True assms(2,3)
      by (auto simp: window_file_def window_slot_def cw rb)
  next
    case False
    have "r < 8 \<or> 16 * w + (r - 8) < 128" using False w(1) assms(2) by auto
    then show ?thesis using False assms(2,3)
      by (auto simp: window_file_def window_slot_def mult.commute cw rb)
  qed
qed

lemma window_reg_set_reg:
  assumes "wf_sparc s" "r < 32" "w < 8" "q < 32"
  shows "window_reg (set_REG r v s) w q =
      (if r < 8 then (if q = r then v else window_reg s w q)
       else if 8 \<le> q \<and> window_slot w q = window_slot (unat (CWP s)) r then v else window_reg s w q)"
proof -
  have "window_slot w q < 128" by (simp add: window_slot_def)
  then have f: "window_file (set_REG r v s) (window_slot w q) =
      (if 8 \<le> r \<and> window_slot w q = window_slot (unat (CWP s)) r then v else window_file s (window_slot w q))"
    by (rule set_reg_is_window_update [OF assms(1,2)])
  have g: "globals (set_REG r v s) = (if r < 8 then (globals s)(r := v) else globals s)"
    by (simp add: set_REG_def)
  show ?thesis unfolding window_reg_def f g by auto
qed

subsection \<open>Changing windows\<close>

lemma cwp_put: "unat c < 32 \<Longrightarrow> take_bit 5 (clear_bits x 4 0 OR c) = c"
proof -
  assume "unat c < 32"
  then have "c = take_bit 5 c" by (simp add: word_unat_eq_iff take_bit_eq_mod unat_mod)
  then have "bit c i \<Longrightarrow> i < 5" for i by (metis bit_take_bit_iff)
  then show ?thesis
    by (intro bit_word_eqI) (auto simp: clear_bits_def bit_simps bit_bitsmask)
qed

text \<open>
  The rest of the state, and the bits of the PSR above the window.
\<close>

lemma set_cwp_fields [simp]:
  "PCREG (iu_set_cwp c s) = PCREG s" "NPCREG (iu_set_cwp c s) = NPCREG s" "WIMREG (iu_set_cwp c s) = WIMREG s"
  "TBRREG (iu_set_cwp c s) = TBRREG s" "globals (iu_set_cwp c s) = globals s" "YREG (iu_set_cwp c s) = YREG s"
  "sbus (iu_set_cwp c s) = sbus s" "irq_pending (iu_set_cwp c s) = irq_pending s"
  "regwptr (iu_set_cwp c s) = unat c * 16"
  "PSRREG (iu_set_cwp c s) = clear_bits (PSRREG s) 4 0 OR c"
  by (simp_all add: iu_set_cwp_def Let_def)

lemma set_cwp_CWP [simp]: "unat c < 32 \<Longrightarrow> CWP (iu_set_cwp c s) = c"
  by (simp add: cwp_take cwp_put del: take_bit_or)

lemma set_cwp_wf: "unat c < 8 \<Longrightarrow> wf_sparc (iu_set_cwp c s)"
  by (simp add: wf_sparc_def N_WINDOWS_def)

lemma set_cwp_file:
  assumes "wf_sparc s" "unat c < 8" "i < 128"
  shows "window_file (iu_set_cwp c s) i = window_file s i"
proof -
  have c: "CWP (iu_set_cwp c s) = c" using assms(2) by simp
  have rb: "regbase (iu_set_cwp c s) =
      (let r = (if CWP s = 7 then memcpy32 0 128 (regbase s) else regbase s)
       in if c = 7 then memcpy32 128 0 r else r)"
    by (simp add: iu_set_cwp_def Let_def N_WINDOWS_def CWP_def)
  show ?thesis unfolding window_file_def c rb Let_def cwp_values
    using assms(3) by (auto simp: memcpy32_at)
qed

lemma seven_mod: "(n + 4294967295) mod 8 = (n + 7) mod 8" for n :: nat
  using mod_mult_self2 [of "n + 7" 8 536870911] by (simp add: add.commute)

lemma mod_window: "unat ((x + 1) AND 7) = (unat x + 1) mod 8" "unat ((x - 1) AND 7) = (unat x + 7) mod 8"
  if "unat x < 8" for x :: u32
proof -
  have m: "(7 :: u32) = mask 3" by (simp add: mask_eq_exp_minus_1)
  show "unat ((x + 1) AND 7) = (unat x + 1) mod 8"
    unfolding m using that
    by (simp add: take_bit_eq_mask [symmetric] unsigned_take_bit_eq take_bit_eq_mod unat_word_ariths mod_simps)
  have "x - 1 = x + 0xFFFFFFFF" by simp
  then show "unat ((x - 1) AND 7) = (unat x + 7) mod 8"
    unfolding m using that
    by (simp only: take_bit_eq_mask [symmetric])
      (simp add: unsigned_take_bit_eq take_bit_eq_mod unat_word_ariths mod_mod_cancel seven_mod)
qed

lemma seven: "(word_of_nat (N_WINDOWS - 1) :: u32) = 7" "(word_of_nat (N_WINDOWS - Suc 0) :: u32) = 7"
  by (simp_all add: N_WINDOWS_def)

lemma add_cwp:
  assumes "wf_sparc s"
  shows "wf_sparc (iu_add_cwp s)" "unat (CWP (iu_add_cwp s)) = (unat (CWP s) + 1) mod 8"
    "globals (iu_add_cwp s) = (globals s)(0 := 0)"
    "i < 128 \<Longrightarrow> window_file (iu_add_cwp s) i = window_file s i"
proof -
  have w: "unat (CWP s) < 8" using assms by (simp add: wf_sparc_def N_WINDOWS_def)
  have n: "unat ((CWP s + 1) AND 7) = (unat (CWP s) + 1) mod 8" using mod_window w by blast
  then have lt: "unat ((CWP s + 1) AND 7) < 8" by simp
  show "wf_sparc (iu_add_cwp s)" unfolding iu_add_cwp_def Let_def seven using lt by (simp add: set_cwp_wf)
  show "unat (CWP (iu_add_cwp s)) = (unat (CWP s) + 1) mod 8"
    unfolding iu_add_cwp_def Let_def seven using lt n by simp
  show "globals (iu_add_cwp s) = (globals s)(0 := 0)" by (simp add: iu_add_cwp_def Let_def set_REG_def)
  show "window_file (iu_add_cwp s) i = window_file s i" if "i < 128"
    unfolding iu_add_cwp_def Let_def seven using lt that assms
    by (simp add: set_cwp_file set_reg_is_window_update)
qed

lemma sub_cwp:
  assumes "wf_sparc s"
  shows "wf_sparc (iu_sub_cwp s)" "unat (CWP (iu_sub_cwp s)) = (unat (CWP s) + 7) mod 8"
    "globals (iu_sub_cwp s) = (globals s)(0 := 0)"
    "i < 128 \<Longrightarrow> window_file (iu_sub_cwp s) i = window_file s i"
proof -
  have w: "unat (CWP s) < 8" using assms by (simp add: wf_sparc_def N_WINDOWS_def)
  have n: "unat ((CWP s - 1) AND 7) = (unat (CWP s) + 7) mod 8" using mod_window w by blast
  then have lt: "unat ((CWP s - 1) AND 7) < 8" by simp
  show "wf_sparc (iu_sub_cwp s)" unfolding iu_sub_cwp_def Let_def seven using lt by (simp add: set_cwp_wf)
  show "unat (CWP (iu_sub_cwp s)) = (unat (CWP s) + 7) mod 8"
    unfolding iu_sub_cwp_def Let_def seven using lt n by simp
  show "globals (iu_sub_cwp s) = (globals s)(0 := 0)" by (simp add: iu_sub_cwp_def Let_def set_REG_def)
  show "window_file (iu_sub_cwp s) i = window_file s i" if "i < 128"
    unfolding iu_sub_cwp_def Let_def seven using lt that assms
    by (simp add: set_cwp_file set_reg_is_window_update)
qed

end
