(* ===== verification/Sparc_Spec.thy ===== *)
theory Sparc_Spec
  imports Sparc_Window_Spec Bus_Spec
begin

text \<open>
  Correctness of the SPARC integer unit: register windows over SAVE, RESTORE, traps and RETT, the
  invariant of a step, and WRPSR.
\<close>

subsection \<open>A processor for the witnesses\<close>

definition sample_sparc :: "unit sparc_state" where
  "sample_sparc =
     \<lparr>globals = (\<lambda>i. word_of_nat i), regbase = (\<lambda>i. word_of_nat (100 + i)), regwptr = 112, FPREG = (\<lambda>i. 0),
      YREG = 0, PSRREG = 0xa7, WIMREG = 2, TBRREG = 0x40000000, PCREG = 0x40001000, NPCREG = 0x40001004,
      FPSRREG = 0, irq_pending = False, cycle_counter = 0, instr_junk = 0, sbus = sample_bus\<rparr>"

lemma sample_sparc_wf: "wf_sparc sample_sparc" "CWP sample_sparc = 7"
  by (simp_all add: wf_sparc_def CWP_def sample_sparc_def N_WINDOWS_def bits_def)

subsection \<open>Slots of neighbouring windows\<close>

lemma caller_slots_apart:
  assumes "8 \<le> r" "r < 24" "8 \<le> q" "q < 32" "w < 8"
  shows "window_slot ((w + 7) mod 8) r \<noteq> window_slot w q"
proof
  assume "window_slot ((w + 7) mod 8) r = window_slot w q"
  moreover have "16 * ((w + 7) mod 8) = (16 * w + 112) mod 128"
    using mult_mod_right [of 16 "w + 7" 8] by (simp add: algebra_simps)
  then have "(16 * ((w + 7) mod 8) + (r - 8)) mod 128 = (16 * w + (112 + (r - 8))) mod 128"
    by (simp add: mod_simps algebra_simps)
  ultimately have "(16 * w + (112 + (r - 8))) mod 128 = (16 * w + (q - 8)) mod 128"
    by (simp add: window_slot_def)
  then have "112 + (r - 8) = q - 8" by (rule mod_add_inj) (use assms in simp_all)
  then show False using assms by simp
qed

lemma next_pc_fields [simp]:
  "REG (next_pc s) = REG s" "CWP (next_pc s) = CWP s" "wf_sparc (next_pc s) = wf_sparc s"
  "window_file (next_pc s) = window_file s" "globals (next_pc s) = globals s" "WIMREG (next_pc s) = WIMREG s"
  "window_reg (next_pc s) = window_reg s"
  by (simp_all add: next_pc_def REG_def CWP_def wf_sparc_def window_file_def window_reg_def fun_eq_iff)

lemma save_state:
  assumes "wf_sparc s" "\<not> window_invalid ((CWP s - 1) AND 7) s" "rd d < 32"
  defines "t \<equiv> snd (i_save_execute d s)" and "w' \<equiv> (unat (CWP s) + 7) mod 8"
  shows "wf_sparc t" "unat (CWP t) = w'"
    "i < 128 \<Longrightarrow> window_file t i =
      (if 8 \<le> rd d \<and> i = window_slot w' (rd d) then REG s (rs1 d) + operand2 d s else window_file s i)"
    "globals t = (if rd d < 8 then ((globals s)(0 := 0))(rd d := REG s (rs1 d) + operand2 d s) else (globals s)(0 := 0))"
proof -
  note sw = sub_cwp [OF assms(1)]
  have t: "t = next_pc (set_REG (rd d) (REG s (rs1 d) + operand2 d s) (iu_sub_cwp s))"
    using assms(2) by (simp add: t_def i_save_execute_def seven)
  show "wf_sparc t" "unat (CWP t) = w'" using sw(1,2) by (simp_all add: t w'_def)
  show "window_file t i = (if 8 \<le> rd d \<and> i = window_slot w' (rd d) then REG s (rs1 d) + operand2 d s
      else window_file s i)" if "i < 128"
    using set_reg_is_window_update [OF sw(1) assms(3) that] that by (simp add: t sw w'_def)
  show "globals t = (if rd d < 8 then ((globals s)(0 := 0))(rd d := REG s (rs1 d) + operand2 d s) else (globals s)(0 := 0))"
    by (simp add: t set_REG_def sw(3))
qed

subsection \<open>Register windows\<close>

text \<open>
  C3. The window array with its copied registers implements a circular register file: reading a
  register, writing one and changing the window are, on the file, reading the slot
  of the register, updating only that slot, and nothing.
\<close>

theorem windows_refine_file:
  assumes "wf_sparc s" "r < 32" "i < 128" "unat c < 8"
  shows "REG s r = window_reg s (unat (CWP s)) r
    \<and> window_file (set_REG r v s) i =
        (if 8 \<le> r \<and> i = window_slot (unat (CWP s)) r then v else window_file s i)
    \<and> window_file (iu_set_cwp c s) i = window_file s i
    \<and> wf_sparc (iu_set_cwp c s) \<and> CWP (iu_set_cwp c s) = c"
  using reg_is_window_reg [OF assms(1,2)] set_reg_is_window_update [OF assms(1-3)]
    set_cwp_file [OF assms(1,4,3)] set_cwp_wf [OF assms(4)] assms(4) by simp

theorem windows_refine_file_witness:
  "window_file (iu_set_cwp 0 sample_sparc) 3 = 231 \<and> REG sample_sparc 27 = 231"
  using windows_refine_file [OF sample_sparc_wf(1), of 27 3 0] sample_sparc_wf(2)
  by (simp add: window_file_def sample_sparc_def window_reg_def window_slot_def)

text \<open>
  C4. SAVE and RESTORE are a procedure call and its return: after a SAVE that does not
  overflow, the callee's in registers are the caller's out registers and the sum is in
  the callee's register; a RESTORE into %g0 brings back the caller's window with all
  of its 24 registers as they were.
\<close>

theorem save_restore_inverse:
  assumes "wf_sparc s" "\<not> window_invalid ((CWP s - 1) AND 7) s" "\<not> window_invalid (CWP s) s"
    and "0 < rd d" "rd d < 24" "rd e = 0"
  defines "t \<equiv> snd (i_save_execute d s)"
  defines "u \<equiv> snd (i_restore_execute e t)"
  shows "(k < 8 \<longrightarrow> REG t (24 + k) = REG s (8 + k)) \<and> REG t (rd d) = REG s (rs1 d) + operand2 d s
    \<and> CWP u = CWP s \<and> (8 \<le> r \<and> r < 32 \<longrightarrow> REG u r = REG s r)"
proof -
  define w where "w = unat (CWP s)"
  have w: "w < 8" using assms(1) by (simp add: wf_sparc_def w_def N_WINDOWS_def)
  have rd: "rd d < 32" using assms(5) by simp
  note sv = save_state [OF assms(1,2) rd, folded t_def w_def]
  have slot: "window_slot x y < 128" for x y by (simp add: window_slot_def)
  have ret: "(unat (CWP t) + 1) mod 8 = w" using w by (simp add: sv(2) mod_simps)
  have cw: "(CWP t + 1) AND 7 = CWP s"
    using mod_window(1) [of "CWP t"] sv(1) ret
    by (simp add: word_unat_eq_iff w_def wf_sparc_def N_WINDOWS_def)
  have wim: "WIMREG t = WIMREG s"
    by (simp add: t_def i_save_execute_def Let_def iu_sub_cwp_def signal_def tbr_set_tt_def)
  have u: "u = next_pc (set_REG 0 (REG t (rs1 e) + operand2 e t) (iu_add_cwp t))"
    using assms(3) by (simp add: u_def i_restore_execute_def seven cw assms(6) window_invalid_def wim)
  note ad = add_cwp [OF sv(1)]
  have kept: "window_file u i = window_file t i" if "i < 128" for i
    using set_reg_is_window_update [OF ad(1) _ that, of 0] ad(4) [OF that] by (simp add: u)
  have cu: "CWP u = CWP s" using ad(2) ret by (simp add: u word_unat_eq_iff w_def)
  have wu: "wf_sparc u" using ad(1) by (simp add: u)
  have keep: "window_file t (window_slot w q) = window_file s (window_slot w q)" if "8 \<le> q" "q < 32" for q
  proof -
    have "8 \<le> rd d \<Longrightarrow> window_slot w q \<noteq> window_slot ((w + 7) mod 8) (rd d)"
      using caller_slots_apart [of "rd d" q w] assms(5) that w by metis
    then show ?thesis using sv(3) [OF slot] by auto
  qed
  have "REG t (24 + k) = REG s (8 + k)" if "k < 8"
  proof -
    have "window_slot ((w + 7) mod 8) (24 + k) = window_slot w (8 + k)"
      using window_overlap [OF that, of "(w + 7) mod 8"] w by (simp add: mod_simps)
    then show ?thesis
      using keep [of "8 + k"] that reg_is_window_reg [OF sv(1), of "24 + k"] reg_is_window_reg [OF assms(1), of "8 + k"]
      by (simp add: sv(2) window_reg_def w_def)
  qed
  moreover have "REG t (rd d) = REG s (rs1 d) + operand2 d s"
    using reg_is_window_reg [OF sv(1) rd] sv(3) [OF slot] sv(4) assms(4)
    by (simp add: window_reg_def sv(2))
  moreover have "REG u r = REG s r" if "8 \<le> r" "r < 32"
    using reg_is_window_reg [OF wu that(2)] reg_is_window_reg [OF assms(1) that(2)] kept [OF slot] keep [OF that] that
    by (simp add: window_reg_def cu w_def)
  ultimately show ?thesis using cu by blast
qed

theorem save_restore_inverse_witness:
  "REG (snd (i_save_execute (no_operands\<lparr>rd := 14, rs1 := 14, imm := 0x1fa0\<rparr>) sample_sparc)) 30 = 218"
  using save_restore_inverse [OF sample_sparc_wf(1), of "no_operands\<lparr>rd := 14, rs1 := 14, imm := 0x1fa0\<rparr>"
      "no_operands\<lparr>rd := 0\<rparr>" 6 8] sample_sparc_wf(2)
  by (simp add: window_invalid_def sample_sparc_def REG_def)

text \<open>
  WRPSR that changes the window from or to window 7 loses registers: it writes the register with
  the new window number before \<^verbatim>\<open>iu_set_cwp\<close> asks for the old one. The eight registers that windows
  7 and 0 share are then what the unused copy held.
\<close>

theorem wrpsr_stale_window:
  assumes "wf_sparc s" "psr_bit s PSR_S = 1" "bits (REG s (rs1 d) XOR operand2 d s) 4 0 = c" "unat c < 8" "i < 8"
  defines "t \<equiv> snd (i_wrpsr_execute d s)"
  shows "(CWP s = 7 \<and> c \<noteq> 7 \<longrightarrow> window_file s i = regbase s (128 + i) \<and> window_file t i = regbase s i)
    \<and> (CWP s \<noteq> 7 \<and> c = 7 \<longrightarrow> window_file s i = regbase s i \<and> window_file t i = regbase s (128 + i))"
proof -
  define v where "v = clear_bits (clear_bits (REG s (rs1 d) XOR operand2 d s) 19 14) 31 24"
  have v: "take_bit 5 v = c"
    using assms(3) unfolding v_def bits_take [of 4 0, simplified]
    by (auto simp: clear_bits_def bit_simps bit_bitsmask intro!: bit_word_eqI)
  have lt: "\<not> word_of_nat N_WINDOWS \<le> c" using assms(4) by (simp add: N_WINDOWS_def word_le_nat_alt)
  have t: "t = next_pc (iu_set_cwp c (s\<lparr>PSRREG := v\<rparr>))"
    using assms(2) lt by (simp add: t_def i_wrpsr_execute_def unprivileged_def assms(3) v_def)
  have c: "CWP (iu_set_cwp c (s\<lparr>PSRREG := v\<rparr>)) = c" using assms(4) by simp
  have r: "regbase (iu_set_cwp c (s\<lparr>PSRREG := v\<rparr>)) =
      (if c = 7 then memcpy32 128 0 (memcpy32 0 128 (regbase s)) else regbase s)"
    by (simp add: iu_set_cwp_def Let_def seven cwp_take v) (simp add: N_WINDOWS_def)
  show ?thesis
    using assms(5) unfolding t next_pc_fields window_file_def c r cwp_values by (auto simp: memcpy32_at)
qed

theorem wrpsr_stale_window_witness:
  "window_file (snd (i_wrpsr_execute (no_operands\<lparr>rs1 := 0, imm := 0x80\<rparr>) sample_sparc)) 3 = 103
    \<and> window_file sample_sparc 3 = 231"
proof -
  let ?d = "no_operands\<lparr>rs1 := 0, imm := 0x80\<rparr>"
  have S: "psr_bit sample_sparc PSR_S = 1" by (simp add: sample_sparc_def psr_bit_def psr_fields)
  have c: "bits (REG sample_sparc (rs1 ?d) XOR operand2 ?d sample_sparc) 4 0 = 0"
    by (simp add: REG_def operand2_def no_operands_def sign_ext_def bits_def sample_sparc_def)
  have r: "regbase sample_sparc i = word_of_nat (100 + i)" for i by (simp add: sample_sparc_def)
  have "CWP sample_sparc = 7 \<and> (0 :: u32) \<noteq> 7" by (simp add: sample_sparc_wf)
  then show ?thesis using wrpsr_stale_window [OF sample_sparc_wf(1) S c, of 3] by (simp add: r)
qed

end
