(* ===== verification/Sparc_Step_Spec.thy ===== *)
theory Sparc_Step_Spec
  imports Sparc_Spec
begin

text \<open>
  What holds of every step of the SPARC integer unit. The locale \<open>sparc_keeps\<close> is the interface
  between a predicate on states and the instructions: if the primitive updates keep the predicate,
  every instruction of the table, a trap and a step keep it.
\<close>

lemmas instructions =
      i_nop_def i_or_def i_and_def i_andn_def i_orn_def i_xor_def i_xnor_def i_orcc_def i_andcc_def
      i_andncc_def i_sll_def i_srl_def i_sra_def i_add_def i_addx_def i_addcc_def i_sub_def i_subx_def
      i_subcc_def i_subxcc_def i_stb_def i_sth_def i_st_def i_std_def i_sethi_def i_jmpl_def i_wry_def
      i_wrpsr_def i_wrwim_def i_wrtbr_def i_rdy_def i_rdpsr_def i_rdwim_def i_rdtbr_def i_ldsb_def i_ldsh_def
      i_ldub_def i_lduh_def i_ld_def i_ldd_def i_ba_def i_bn_def i_bne_def i_be_def i_bg_def
      i_ble_def i_bge_def i_bl_def i_bgu_def i_bleu_def i_bcc_def i_bcs_def i_bpos_def i_bneg_def
      i_bvc_def i_bvs_def i_flush_def i_save_def i_restore_def i_ldf_def i_lddf_def i_call_def i_rett_def
      i_ta_def i_stf_def i_stdf_def i_stfsr_def i_udiv_def i_smul_def i_umul_def i_mulscc_def

lemma find_SomeD: "find Q xs = Some x \<Longrightarrow> Q x \<and> x \<in> set xs"
  by (induction xs) (auto split: if_splits)

lemma get_instr_mem: "iu_get_instr w = Some (d, i) \<Longrightarrow> i \<in> set isa \<and> disassemble i w = Some d"
  by (auto simp: iu_get_instr_def i_set_def split: option.splits dest!: find_SomeD)

locale sparc_keeps =
  fixes P :: "'d sparc_state \<Rightarrow> bool"
  assumes kreg: "P s \<Longrightarrow> P (set_REG r v s)"
    and kfp: "P s \<Longrightarrow> P (s\<lparr>FPREG := f\<rparr>)"
    and kflag: "P s \<Longrightarrow> 5 \<le> n \<Longrightarrow> n < 24 \<Longrightarrow> P (psr_set n s) \<and> P (psr_clear n s)"
    and kpc: "P s \<Longrightarrow> P (s\<lparr>PCREG := a, NPCREG := b\<rparr>)"
    and ky: "P s \<Longrightarrow> P (s\<lparr>YREG := v\<rparr>)"
    and ktbr: "P s \<Longrightarrow> P (s\<lparr>TBRREG := v\<rparr>)"
    and kirq: "P s \<Longrightarrow> P (s\<lparr>irq_pending := p\<rparr>)"
    and kcount: "P s \<Longrightarrow> P (s\<lparr>cycle_counter := n64\<rparr>)"
    and kbus: "P s \<Longrightarrow> P (s\<lparr>sbus := m\<rparr>)"
    and kwim: "P s \<Longrightarrow> P (s\<lparr>WIMREG := bits v 7 0\<rparr>)"
    and kcwp: "P s \<Longrightarrow> unat c < 8 \<Longrightarrow> P (iu_set_cwp c s) \<and> P (iu_set_cwp c (s\<lparr>PSRREG := v\<rparr>))"
begin

lemma kept_flags:
  assumes "P s"
  shows "P (set_nz z s)" "P (set_cv c v s)" "P (clear_icc s)"
  using assms by (simp_all add: set_nz_def set_cv_def clear_icc_def Let_def psr_fields kflag)

lemma kept_signal: "P s \<Longrightarrow> P (signal t s)"
  by (simp add: signal_def tbr_set_tt_def Let_def ktbr kirq)

lemma kept_halt: "P s \<Longrightarrow> P (sparc_halt h s)" "P s \<Longrightarrow> P (shift_guard n s)" "P s \<Longrightarrow> P (array_guard d s)"
  by (simp_all add: sparc_halt_def shift_guard_def array_guard_def kbus)

lemma kept_next: "P s \<Longrightarrow> P (next_pc s)"
  by (simp add: next_pc_def kpc)

lemma kept_window: "P s \<Longrightarrow> P (iu_add_cwp s)" "P s \<Longrightarrow> P (iu_sub_cwp s)"
proof -
  have lt: "unat (x AND 7) < 8" for x :: u32
    using word_and_le1 [of x 7] by (simp add: word_le_nat_alt)
  show "P s \<Longrightarrow> P (iu_add_cwp s)" "P s \<Longrightarrow> P (iu_sub_cwp s)"
    by (simp_all add: iu_add_cwp_def iu_sub_cwp_def Let_def seven kcwp lt kreg)
qed

lemmas kept = kept_flags kept_signal kept_halt kept_next kept_window kreg kfp kpc ky ktbr kirq kcount kbus kwim

lemma kept_branch: "P s \<Longrightarrow> P (snd (branch_if c d s))"
  by (simp add: branch_if_def kept)

lemma kept_access:
  assumes "P s"
  shows "P (snd (finish_access st s))" "P (snd (load_to n f a r s))" "P (snd (store_word a v s))"
    "P (snd (store_double a v v2 s))" "P (snd (snd (sparc_memory_read n v a s)))"
    "P (snd (sparc_memory_store n a v s))" "P (set_FPREG r v s)"
  using assms by (simp_all add: finish_access_def load_to_def store_word_def store_double_def
      sparc_memory_read_def sparc_memory_store_def set_FPREG_def kept split: prod.split)

lemma kept_alu:
  assumes "P s"
  shows "P (snd (i_or_execute d s))" "P (snd (i_and_execute d s))" "P (snd (i_andn_execute d s))"
    "P (snd (i_orn_execute d s))" "P (snd (i_xor_execute d s))" "P (snd (i_xnor_execute d s))"
    "P (snd (i_orcc_execute d s))" "P (snd (i_andcc_execute d s))" "P (snd (i_andncc_execute d s))"
    "P (snd (i_sll_execute d s))" "P (snd (i_srl_execute d s))" "P (snd (i_sra_execute d s))"
    "P (snd (i_add_execute d s))" "P (snd (i_addx_execute d s))" "P (snd (i_addcc_execute d s))"
    "P (snd (i_sub_execute d s))" "P (snd (i_subx_execute d s))" "P (snd (i_subcc_execute d s))"
    "P (snd (i_subxcc_execute d s))" "P (snd (i_umul_execute d s))" "P (snd (i_smul_execute d s))"
    "P (snd (i_udiv_execute d s))" "P (snd (i_mulscc_execute d s))" "P (snd (i_sethi_execute d s))"
    "P (snd (i_nop_execute d s))" "P (snd (i_flush_execute d s))"
  using assms
  by (simp_all add: i_or_execute_def i_and_execute_def i_andn_execute_def i_orn_execute_def i_xor_execute_def
      i_xnor_execute_def i_orcc_execute_def i_andcc_execute_def i_andncc_execute_def i_sll_execute_def
      i_srl_execute_def i_sra_execute_def i_add_execute_def i_addx_execute_def i_addcc_execute_def
      i_sub_execute_def i_subx_execute_def i_subcc_execute_def i_subxcc_execute_def i_umul_execute_def
      i_smul_execute_def i_udiv_execute_def i_mulscc_execute_def i_sethi_execute_def i_nop_execute_def
      i_flush_execute_def Let_def kept)

lemma kept_state_regs:
  assumes "P s"
  shows "P (snd (i_rdy_execute d s))" "P (snd (i_rdpsr_execute d s))" "P (snd (i_rdwim_execute d s))"
    "P (snd (i_rdtbr_execute d s))" "P (snd (i_wry_execute d s))" "P (snd (i_wrwim_execute d s))"
    "P (snd (i_wrtbr_execute d s))" "P (snd (i_wrpsr_execute d s))"
proof -
  show "P (snd (i_wrpsr_execute d s))"
    using assms by (auto simp: i_wrpsr_execute_def Let_def kept_signal N_WINDOWS_def word_le_nat_alt not_le
        intro!: kept_next kcwp [THEN conjunct2])
qed (use assms in \<open>simp_all add: i_rdy_execute_def i_rdpsr_execute_def i_rdwim_execute_def i_rdtbr_execute_def
      i_wry_execute_def i_wrwim_execute_def i_wrtbr_execute_def kept N_WINDOWS_def\<close>)

lemma kept_ctrl:
  assumes "P s"
  shows "P (snd (i_ba_execute d s))" "P (snd (i_bn_execute d s))" "P (snd (i_call_execute d s))"
    "P (snd (i_jmpl_execute d s))" "P (snd (i_save_execute d s))" "P (snd (i_restore_execute d s))"
    "P (snd (i_rett_execute d s))" "P (snd (i_ta_execute d s))"
  using assms
  by (simp_all add: i_ba_execute_def i_bn_execute_def i_call_execute_def i_jmpl_execute_def i_save_execute_def
      i_restore_execute_def i_rett_execute_def i_ta_execute_def Let_def kept kflag psr_fields)

lemma kept_branches:
  assumes "P s"
  shows "P (snd (i_be_execute d s))" "P (snd (i_bne_execute d s))" "P (snd (i_bg_execute d s))"
    "P (snd (i_ble_execute d s))" "P (snd (i_bge_execute d s))" "P (snd (i_bl_execute d s))"
    "P (snd (i_bgu_execute d s))" "P (snd (i_bleu_execute d s))" "P (snd (i_bcc_execute d s))"
    "P (snd (i_bcs_execute d s))" "P (snd (i_bpos_execute d s))" "P (snd (i_bneg_execute d s))"
    "P (snd (i_bvc_execute d s))" "P (snd (i_bvs_execute d s))"
  using assms
  by (simp_all add: i_be_execute_def i_bne_execute_def i_bg_execute_def i_ble_execute_def i_bge_execute_def
      i_bl_execute_def i_bgu_execute_def i_bleu_execute_def i_bcc_execute_def i_bcs_execute_def
      i_bpos_execute_def i_bneg_execute_def i_bvc_execute_def i_bvs_execute_def kept_branch)

lemma kept_memory:
  assumes "P s"
  shows "P (snd (i_ldsb_execute d s))" "P (snd (i_ldsh_execute d s))" "P (snd (i_ldub_execute d s))"
    "P (snd (i_lduh_execute d s))" "P (snd (i_ld_execute d s))" "P (snd (i_ldd_execute d s))"
    "P (snd (i_ldf_execute d s))" "P (snd (i_lddf_execute d s))" "P (snd (i_stb_execute d s))"
    "P (snd (i_sth_execute d s))" "P (snd (i_st_execute d s))" "P (snd (i_std_execute d s))"
    "P (snd (i_stf_execute d s))" "P (snd (i_stdf_execute d s))" "P (snd (i_stfsr_execute d s))"
  using assms
  by (simp_all add: i_ldsb_execute_def i_ldsh_execute_def i_ldub_execute_def i_lduh_execute_def i_ld_execute_def
      i_ldd_execute_def i_ldf_execute_def i_lddf_execute_def i_stb_execute_def i_sth_execute_def i_st_execute_def
      i_std_execute_def i_stf_execute_def i_stdf_execute_def i_stfsr_execute_def case_prod_beta Let_def kept kept_access)

lemma kept_execute:
  assumes "i \<in> set isa" "P s"
  shows "P (snd (execute i d s))"
  using assms(1) unfolding isa_def list.set insert_iff empty_iff
  by (elim disjE) (simp_all add: instructions assms(2) kept_alu kept_state_regs kept_ctrl kept_branches kept_memory)

lemma kept_cycle: "P s \<Longrightarrow> P (snd (iu_cycle_step s))"
  unfolding iu_cycle_step_def
  by (auto simp: kept kept_access case_prod_beta Let_def kept_execute split: option.split dest: get_instr_mem)

lemma kept_trap: "P s \<Longrightarrow> P (iu_trap_cycle s)"
  by (simp add: iu_trap_cycle_def trigger_def Let_def kept kflag psr_fields)

lemma kept_step: "P s \<Longrightarrow> P (sparc_step_once s)"
  by (simp add: sparc_step_once_def sparc_io_do_cycle_def Let_def kept_cycle kept_trap kbus)

end

subsection \<open>The invariant\<close>

interpretation windows: sparc_keeps wf_sparc
proof
  fix s :: "'a sparc_state"
  assume s: "wf_sparc s"
  show "wf_sparc (psr_set n s) \<and> wf_sparc (psr_clear n s)" if "5 \<le> n" "n < 24" for n
    using s that cwp_psr(1) [of n s] cwp_psr(2) [of n s] by (simp add: wf_sparc_def) (simp add: psr_set_def psr_clear_def)
  show "wf_sparc (iu_set_cwp c s) \<and> wf_sparc (iu_set_cwp c (s\<lparr>PSRREG := v\<rparr>))" if "unat c < 8" for c v
    using that by (simp add: set_cwp_wf)
qed (simp_all add: wf_sparc_def CWP_def)

lemma wim_bits: "bits v 7 0 < 256"
proof -
  have "bits v 7 0 = take_bit 8 v" by (simp add: bits_take)
  then show ?thesis by (simp add: word_less_nat_alt take_bit_eq_mod unat_mod)
qed

interpretation wim: sparc_keeps "\<lambda>s. WIMREG s < 256"
  by unfold_locales (simp_all add: psr_set_def psr_clear_def wim_bits)

lemma zero_register: "globals s 0 = 0 \<Longrightarrow> globals (sparc_step_once s) 0 = 0"
  by (auto simp: sparc_step_once_def iu_cycle_step_def sparc_memory_read_def iu_trap_cycle_def trigger_def
      sparc_io_do_cycle_def sparc_halt_def iu_sub_cwp_def psr_set_def psr_clear_def set_REG_def L1_def L2_def
      case_prod_beta Let_def split: option.split)

text \<open>
  C19. From the initial state on, at every moment of a run, whatever the program, the devices and the
  traps do: the window pointer is the one of the window number, which is in range, the window
  mask has no bit of a window that does not exist, and %g0 is 0.
\<close>

theorem run_keeps_windows:
  assumes "globals s 0 = 0" "t = (sparc_step_once ^^ n) (iu_init_state s)"
  shows "unat (CWP t) < N_WINDOWS \<and> regwptr t = unat (CWP t) * 16 \<and> WIMREG t < 2 ^ N_WINDOWS \<and> globals t 0 = 0"
proof -
  have start: "wf_sparc (iu_init_state s)" "WIMREG (iu_init_state s) < 256" "globals (iu_init_state s) 0 = 0"
    using assms(1) by (simp_all add: iu_init_state_def Let_def wf_sparc_def N_WINDOWS_def psr_fields)
      (simp_all add: psr_set_def set_REG_def reg_names CWP_def bits_def)
  have "wf_sparc ((sparc_step_once ^^ n) (iu_init_state s)) \<and> WIMREG ((sparc_step_once ^^ n) (iu_init_state s)) < 256
      \<and> globals ((sparc_step_once ^^ n) (iu_init_state s)) 0 = 0"
    by (induction n) (simp_all add: start windows.kept_step wim.kept_step zero_register)
  then show ?thesis by (simp add: assms(2) wf_sparc_def N_WINDOWS_def)
qed

theorem run_keeps_windows_witness:
  "WIMREG ((sparc_step_once ^^ 5) (iu_init_state (sample_sparc\<lparr>globals := \<lambda>i. 0\<rparr>))) < 256"
  using run_keeps_windows [of "sample_sparc\<lparr>globals := \<lambda>i. 0\<rparr>" _ 5] by (simp add: N_WINDOWS_def)

subsection \<open>Traps and the return from them\<close>

lemma psr_kept_by_window:
  assumes "unat c < 32" "5 \<le> n" "n < 32"
  shows "bit (clear_bits x 4 0 OR c) n \<longleftrightarrow> bit x n"
proof -
  have "c = take_bit 5 c" using assms(1) by (simp add: word_unat_eq_iff take_bit_eq_mod unat_mod)
  then have "\<not> bit c n" using assms(2) by (metis bit_take_bit_iff not_le)
  then show ?thesis using assms by (simp add: clear_bits_def bit_simps bit_bitsmask)
qed

lemma psr_fields_kept [simp]:
  "globals (psr_set n s) = globals s" "globals (psr_clear n s) = globals s"
  "regbase (psr_set n s) = regbase s" "regbase (psr_clear n s) = regbase s"
  "regwptr (psr_set n s) = regwptr s" "regwptr (psr_clear n s) = regwptr s"
  "PCREG (psr_set n s) = PCREG s" "PCREG (psr_clear n s) = PCREG s"
  "NPCREG (psr_set n s) = NPCREG s" "NPCREG (psr_clear n s) = NPCREG s"
  "TBRREG (psr_set n s) = TBRREG s" "TBRREG (psr_clear n s) = TBRREG s"
  "WIMREG (psr_set n s) = WIMREG s" "WIMREG (psr_clear n s) = WIMREG s"
  by (simp_all add: psr_set_def psr_clear_def)

lemma window_step_fields [simp]:
  "PCREG (iu_add_cwp s) = PCREG s" "NPCREG (iu_add_cwp s) = NPCREG s" "TBRREG (iu_add_cwp s) = TBRREG s"
  "WIMREG (iu_add_cwp s) = WIMREG s" "PCREG (iu_sub_cwp s) = PCREG s" "NPCREG (iu_sub_cwp s) = NPCREG s"
  "TBRREG (iu_sub_cwp s) = TBRREG s" "WIMREG (iu_sub_cwp s) = WIMREG s"
  by (simp_all add: iu_add_cwp_def iu_sub_cwp_def Let_def)

lemma seven_bound: "unat (x AND 7) < 32" for x :: u32
  using word_and_le1 [of x 7] by (simp add: word_le_nat_alt)

lemma window_step_psr:
  assumes "5 \<le> n" "n < 32"
  shows "bit (PSRREG (iu_add_cwp s)) n \<longleftrightarrow> bit (PSRREG s) n" "bit (PSRREG (iu_sub_cwp s)) n \<longleftrightarrow> bit (PSRREG s) n"
  using assms by (simp_all add: iu_add_cwp_def iu_sub_cwp_def Let_def seven psr_kept_by_window seven_bound)

lemma psr_set_bit: "n < 32 \<Longrightarrow> m < 32 \<Longrightarrow> bit (PSRREG (psr_set n s)) m \<longleftrightarrow> m = n \<or> bit (PSRREG s) m"
  "n < 32 \<Longrightarrow> m < 32 \<Longrightarrow> bit (PSRREG (psr_clear n s)) m \<longleftrightarrow> m \<noteq> n \<and> bit (PSRREG s) m"
  by (auto simp: psr_set_def psr_clear_def put_bit clear_bit bit_simps)

text \<open>The state in the handler.\<close>

lemma trap_entry:
  assumes "wf_sparc s" "psr_bit s PSR_ET = 1" "irq_pending s"
  defines "t \<equiv> iu_trap_cycle s" and "w' \<equiv> (unat (CWP s) + 7) mod 8"
  shows "wf_sparc t" "unat (CWP t) = w'" "PCREG t = TBRREG s" "NPCREG t = TBRREG s + 4"
    "REG t 17 = PCREG s" "REG t 18 = NPCREG s" "WIMREG t = WIMREG s" "globals t = (globals s)(0 := 0)"
    "i < 128 \<Longrightarrow> i \<noteq> window_slot w' 17 \<Longrightarrow> i \<noteq> window_slot w' 18 \<Longrightarrow> window_file t i = window_file s i"
    "5 \<le> n \<Longrightarrow> n < 32 \<Longrightarrow> bit (PSRREG t) n \<longleftrightarrow>
       (if n = 5 then False else if n = 6 then bit (PSRREG s) 7 else n = 7 \<or> bit (PSRREG s) n)"
proof -
  define a where "a = psr_set PSR_S (if psr_bit (psr_clear PSR_ET s) PSR_S \<noteq> 0
      then psr_set PSR_PS (psr_clear PSR_ET s) else psr_clear PSR_PS (psr_clear PSR_ET s))"
  have a: "wf_sparc a" "CWP a = CWP s" "globals a = globals s" "PCREG a = PCREG s" "NPCREG a = NPCREG s"
    "TBRREG a = TBRREG s" "WIMREG a = WIMREG s" "window_file a = window_file s"
    using assms(1) by (auto simp: a_def psr_fields wf_sparc_def window_file_def fun_eq_iff)
  note sb = sub_cwp [OF a(1), unfolded a]
  define b where "b = set_REG L2 (NPCREG (iu_sub_cwp a)) (set_REG L1 (PCREG (iu_sub_cwp a)) (iu_sub_cwp a))"
  have t: "t = b\<lparr>PCREG := TBRREG b, NPCREG := TBRREG b + 4, irq_pending := False\<rparr>"
    using assms(2,3) by (simp add: t_def iu_trap_cycle_def trigger_def Let_def a_def b_def)
  have f: "wf_sparc t = wf_sparc b" "CWP t = CWP b" "REG t = REG b" "window_file t = window_file b"
    by (simp_all add: t wf_sparc_def CWP_def REG_def window_file_def fun_eq_iff)
  show "wf_sparc t" "unat (CWP t) = w'" using sb(1,2) by (simp_all add: f b_def w'_def)
  show "PCREG t = TBRREG s" "NPCREG t = TBRREG s + 4" "WIMREG t = WIMREG s" by (simp_all add: t b_def a)
  show "globals t = (globals s)(0 := 0)" by (simp add: t b_def set_REG_def reg_names sb)
  show "REG t 17 = PCREG s" "REG t 18 = NPCREG s" by (simp_all add: f b_def REG_def set_REG_def reg_names a)
  show "window_file t i = window_file s i" if "i < 128" "i \<noteq> window_slot w' 17" "i \<noteq> window_slot w' 18"
    using that sb set_reg_is_window_update [of "iu_sub_cwp a" 17 i] set_reg_is_window_update [of "set_REG 17 (PCREG (iu_sub_cwp a)) (iu_sub_cwp a)" 18 i]
    by (simp add: f b_def reg_names w'_def)
  show "bit (PSRREG t) n \<longleftrightarrow> (if n = 5 then False else if n = 6 then bit (PSRREG s) 7 else n = 7 \<or> bit (PSRREG s) n)"
    if "5 \<le> n" "n < 32" for n
    using that by (auto simp: t b_def window_step_psr a_def psr_fields psr_set_bit psr_bit_of split: if_splits)
qed

end
