(* ===== verification/Sparc_Alu_Spec.thy ===== *)
theory Sparc_Alu_Spec
  imports Sparc_Step_Spec Arith32
begin

text \<open>
  Branches, condition codes and multiplication of the SPARC integer unit against the architecture.
\<close>

subsection \<open>Branches on the integer conditions\<close>

text \<open>The architecture's table: codes 8 to 15 are the negations of 0 to 7.\<close>

definition bicc_taken :: "u32 \<Rightarrow> bool \<Rightarrow> bool \<Rightarrow> bool \<Rightarrow> bool \<Rightarrow> bool" where
  "bicc_taken c N Z V C \<longleftrightarrow>
     (bit c 3 \<noteq> [False, Z, Z \<or> N \<noteq> V, N \<noteq> V, C \<or> Z, C, N, V] ! unat (take_bit 3 c))"

definition bicc_spec :: "u32 \<Rightarrow> 'd sparc_state \<Rightarrow> 'd sparc_state" where
  "bicc_spec w s =
     (let c = bits w 28 25; a = bit w 29; target = PCREG s + push_bit 2 (signed_take_bit 21 w)
      in if bicc_taken c (icc_N s) (icc_Z s) (icc_V s) (icc_C s) then
           (if c = 8 \<and> a then s\<lparr>PCREG := target, NPCREG := target + 4\<rparr>
            else s\<lparr>PCREG := NPCREG s, NPCREG := target\<rparr>)
         else (if a then s\<lparr>PCREG := NPCREG s + 4, NPCREG := NPCREG s + 8\<rparr>
               else s\<lparr>PCREG := NPCREG s, NPCREG := NPCREG s + 4\<rparr>))"

lemma formats: "i_set 0 = [i_nop, i_sethi, i_ba, i_bn, i_bne, i_be, i_bg, i_ble, i_bge, i_bl, i_bgu, i_bleu,
    i_bcc, i_bcs, i_bpos, i_bneg, i_bvc, i_bvs]"
  unfolding i_set_def isa_def by (simp add: instructions)

lemma disp_scaled: "branch_disp (no_operands\<lparr>annul := a, disp := bits w 21 0\<rparr>) = push_bit 2 (signed_take_bit 21 w)"
  unfolding branch_disp_def
  by (rule bit_word_eqI, rename_tac n, case_tac "n = 23") (auto simp: bits_take bit_simps min_def not_le less_Suc_eq)

lemma bit_nonzero: "bit x n \<Longrightarrow> x \<noteq> 0" for x :: u32
  by auto

text \<open>A word of format 0 with opcode 2 reaches the branches, and its condition field selects one.\<close>

lemma branch_accepted:
  assumes "bits w 31 30 = 0" "bits w 24 22 = 2" "bit m 23"
  shows "disassemble_branch m k w =
      (if bits w 28 25 = k then Some (no_operands\<lparr>annul := bit w 29, disp := bits w 21 0\<rparr>) else None)"
proof -
  have "bit (bits w 24 22) 1" by (simp add: assms(2))
  then have "bit (w AND m) 23" using assms(3) by (simp add: bits_take bit_simps)
  then have "w AND m \<noteq> 0" by (rule bit_nonzero)
  then show ?thesis using assms(1) by (simp add: disassemble_branch_def)
qed

lemma branch_refused:
  assumes "bits w 31 30 = 0" "bits w 24 22 = 2"
  shows "i_nop_disassemble w = None" "i_sethi_disassemble w = None" "i_bn_disassemble w = None"
proof -
  have "bit (bits w 24 22) 1" by (simp add: assms(2))
  then have "bit w 23" by (simp add: bits_take bit_simps)
  then have "bit (w XOR 0x1000000) 23" by (simp add: bit_simps)
  then have "w XOR 0x1000000 \<noteq> 0" by (rule bit_nonzero)
  then show "i_nop_disassemble w = None" by (simp add: i_nop_disassemble_def)
  show "i_sethi_disassemble w = None" by (simp add: i_sethi_disassemble_def assms(2))
  have "drop_bit 25 (w AND 0x01f80000) = 0" by (rule bit_word_eqI) (auto simp: bit_simps)
  then show "i_bn_disassemble w = None" by (simp add: i_bn_disassemble_def)
qed

lemmas branch_table = i_ba_disassemble_def i_be_disassemble_def i_bne_disassemble_def i_bg_disassemble_def
  i_ble_disassemble_def i_bge_disassemble_def i_bl_disassemble_def i_bgu_disassemble_def i_bleu_disassemble_def
  i_bcc_disassemble_def i_bcs_disassemble_def i_bpos_disassemble_def i_bneg_disassemble_def
  i_bvc_disassemble_def i_bvs_disassemble_def

lemmas branch_execs = i_ba_execute_def i_be_execute_def i_bne_execute_def i_bg_execute_def
  i_ble_execute_def i_bge_execute_def i_bl_execute_def i_bgu_execute_def i_bleu_execute_def
  i_bcc_execute_def i_bcs_execute_def i_bpos_execute_def i_bneg_execute_def
  i_bvc_execute_def i_bvs_execute_def branch_if_def

lemma cond_cases: "bits w 28 25 \<in> {0, 1, 2, 3, 4, 5, 6, 7, 8, 9, 10, 11, 12, 13, 14, 15}"
proof -
  have "unat (bits w 28 25) < 16" by (simp add: bits_take unsigned_take_bit_eq take_bit_eq_mod unat_mod)
  then have "unat (bits w 28 25) \<in> {0, 1, 2, 3, 4, 5, 6, 7, 8, 9, 10, 11, 12, 13, 14, 15}"
    by (simp only: insert_iff empty_iff) arith
  then show ?thesis by (auto simp: word_unat_eq_iff)
qed

text \<open>
  C20. Every branch on the integer conditions is decoded and executed as the architecture says, for all sixteen
  conditions, taken or not, with the delay slot annulled or not, with one exception: branch never is
  not decoded, and so ends the simulation as an instruction that is not implemented.
\<close>

theorem branches_are_architectural:
  assumes "bits w 31 30 = 0" "bits w 24 22 = 2"
  shows "map_option (\<lambda>(d, i). execute i d s) (iu_get_instr w) =
      (if bits w 28 25 = 0 then None else Some (1, bicc_spec w s))"
proof -
  note dis = branch_accepted [OF assms] branch_refused [OF assms]
  show ?thesis
    using cond_cases [of w] unfolding insert_iff empty_iff
    by (elim disjE) (simp_all add: iu_get_instr_def assms(1) formats dis branch_table instructions branch_execs
        bicc_spec_def bicc_taken_def disp_scaled Let_def)
qed

theorem branches_are_architectural_witness:
  "map_option (\<lambda>(d, i). execute i d sample_sparc) (iu_get_instr 0x12bffff0)
     = Some (1, sample_sparc\<lparr>PCREG := 0x40001004, NPCREG := 0x40000fc0\<rparr>)"
proof -
  have w: "bits (0x12bffff0 :: u32) 31 30 = 0" "bits (0x12bffff0 :: u32) 24 22 = 2" "bits (0x12bffff0 :: u32) 28 25 = 9"
    by (simp_all add: bits_def)
  have "signed_take_bit 21 (0x12bffff0 :: u32) = - 16" by simp
  then have e: "bicc_spec 0x12bffff0 sample_sparc = sample_sparc\<lparr>PCREG := 0x40001004, NPCREG := 0x40000fc0\<rparr>"
    by (simp add: bicc_spec_def w bicc_taken_def icc_Z_def psr_bit_def psr_fields sample_sparc_def)
  show ?thesis unfolding branches_are_architectural [OF w(1,2)] e w(3) by simp
qed

subsection \<open>Condition codes\<close>

lemma icc_bits: "icc_N s = bit (PSRREG s) 23" "icc_Z s = bit (PSRREG s) 22" "icc_V s = bit (PSRREG s) 21"
  "icc_C s = bit (PSRREG s) 20"
  by (simp_all add: icc_N_def icc_Z_def icc_V_def icc_C_def psr_bit_of psr_fields)

lemma icc_after:
  "icc_N (set_cv c v (set_nz z s)) = bit z 31" "icc_Z (set_cv c v (set_nz z s)) = (z = 0)"
  "icc_V (set_cv c v (set_nz z s)) = v" "icc_C (set_cv c v (set_nz z s)) = c"
  by (simp_all add: icc_bits set_cv_def set_nz_def clear_icc_def psr_fields Let_def psr_set_bit)

lemma icc_next_pc: "icc_N (next_pc s) = icc_N s" "icc_Z (next_pc s) = icc_Z s" "icc_V (next_pc s) = icc_V s"
  "icc_C (next_pc s) = icc_C s"
  by (simp_all add: icc_bits next_pc_def)

lemma reg_of_set_REG: "REG (set_REG r v s) r = v" "q \<noteq> r \<Longrightarrow> REG (set_REG r v s) q = REG s q"
  by (auto simp: REG_def set_REG_def)

definition icc :: "'d sparc_state \<Rightarrow> u32 \<Rightarrow> bool" where
  "icc s c = bicc_taken c (icc_N s) (icc_Z s) (icc_V s) (icc_C s)"

lemma sign_bit: "bit z 31 \<longleftrightarrow> sint z < 0" for z :: u32
  unfolding bit_31_uint sint_as_uint using uint_bounds [of z] by auto

text \<open>
  ADDCC computes the sum and exact flags: negative and zero of the result, overflow when the signed sum
  does not fit in 32 bits, carry when the unsigned one does not.
\<close>

theorem addcc_flags_exact:
  fixes d s
  defines "t \<equiv> snd (i_addcc_execute d s)" and "x \<equiv> REG s (rs1 d)" and "y \<equiv> operand2 d s"
  shows "(icc_N t \<longleftrightarrow> sint (x + y) < 0) \<and> (icc_Z t \<longleftrightarrow> x + y = 0)
    \<and> (icc_V t \<longleftrightarrow> sint (x + y) \<noteq> sint x + sint y) \<and> (icc_C t \<longleftrightarrow> 2 ^ 32 \<le> uint x + uint y)"
proof -
  have t: "t = next_pc (set_cv (add_carry x y (x + y)) (add_overflow x y (x + y)) (set_nz (x + y) (set_REG (rd d) (x + y) s)))"
    by (simp add: t_def i_addcc_execute_def Let_def x_def y_def)
  show ?thesis unfolding t icc_next_pc icc_after sign_bit [symmetric]
    using sign_add_carry [of "x + y" x y False]
    by (simp add: add_carry_def add_overflow_def)
qed

text \<open>
  Comparing with SUBCC and branching on the result decides the relations the branches are named after, signed
  and unsigned, provided the second operand is not the register that receives the difference.
\<close>

theorem compare_and_branch:
  fixes d s
  assumes "0 \<le> imm d \<or> nat (rs2 d) \<noteq> rd d"
  defines "t \<equiv> snd (i_subcc_execute d s)" and "x \<equiv> REG s (rs1 d)" and "y \<equiv> operand2 d s"
  shows "(icc t 1 \<longleftrightarrow> x = y) \<and> (icc t 9 \<longleftrightarrow> x \<noteq> y)
    \<and> (icc t 2 \<longleftrightarrow> sint x \<le> sint y) \<and> (icc t 10 \<longleftrightarrow> sint x > sint y)
    \<and> (icc t 3 \<longleftrightarrow> sint x < sint y) \<and> (icc t 11 \<longleftrightarrow> sint x \<ge> sint y)
    \<and> (icc t 4 \<longleftrightarrow> uint x \<le> uint y) \<and> (icc t 12 \<longleftrightarrow> uint x > uint y)
    \<and> (icc t 5 \<longleftrightarrow> uint x < uint y) \<and> (icc t 13 \<longleftrightarrow> uint x \<ge> uint y)"
proof -
  define z where "z = x - y"
  have again: "operand2 d (set_REG (rd d) z s) = y"
    using assms(1) by (auto simp: operand2_def y_def reg_of_set_REG)
  have t: "t = next_pc (set_cv (sub_carry x y z) (sub_overflow x y z) (set_nz z (set_REG (rd d) z s)))"
    by (simp add: t_def i_subcc_execute_def Let_def again z_def [symmetric] x_def [symmetric] y_def [symmetric])
  have C: "icc_C t \<longleftrightarrow> uint x < uint y" and V: "icc_V t \<longleftrightarrow> sint z \<noteq> sint x - sint y"
    using sign_sub_borrow [of z x y False]
    by (simp_all add: t icc_next_pc icc_after sub_carry_def sub_overflow_def z_def Let_def)
  have Z: "icc_Z t \<longleftrightarrow> x = y" and N: "icc_N t \<longleftrightarrow> sint z < 0"
    by (simp_all add: t icc_next_pc icc_after z_def sign_bit)
  define X Y Z' where "X = uint x" and "Y = uint y" and "Z' = uint z"
  have lim: "0 \<le> X" "X < 2 ^ 32" "0 \<le> Y" "Y < 2 ^ 32" using uint_bounds by (simp_all add: X_def Y_def)
  have z: "Z' = X - Y + (if X < Y then 2 ^ 32 else 0)"
    using uint_sub_borrow [of x y False] by (simp add: X_def Y_def Z'_def z_def)
  have less: "icc_N t \<noteq> icc_V t \<longleftrightarrow> sint x < sint y"
    unfolding N V sint_as_uint X_def [symmetric] Y_def [symmetric] Z'_def [symmetric]
    using z lim by (auto split: if_splits)
  then have nv: "icc_N t = (\<not> icc_V t) \<longleftrightarrow> sint x < sint y" "icc_N t = icc_V t \<longleftrightarrow> \<not> sint x < sint y" by auto
  have le: "sint x \<le> sint y \<longleftrightarrow> x = y \<or> sint x < sint y"
    using word_eq_iff_signed [of x y] by (meson le_less)
  have ule: "uint x \<le> uint y \<longleftrightarrow> x = y \<or> uint x < uint y"
    unfolding word_uint_eq_iff [of x y] by auto
  show ?thesis
    by (auto simp add: icc_def bicc_taken_def C Z nv not_le [symmetric] le ule)
qed

theorem compare_and_branch_witness:
  "icc (snd (i_subcc_execute (no_operands\<lparr>rd := 0, rs1 := 1, imm := 0x1ffe\<rparr>) sample_sparc)) 10"
proof -
  have "sint (REG sample_sparc 1) = 1" by (simp add: REG_def sample_sparc_def)
  moreover have "sint (operand2 (no_operands\<lparr>rd := 0, rs1 := 1, imm := 0x1ffe\<rparr>) sample_sparc) = - 2"
    by (simp add: operand2_def sign_ext_def)
  ultimately show ?thesis
    using compare_and_branch [of "no_operands\<lparr>rd := 0, rs1 := 1, imm := 0x1ffe\<rparr>" sample_sparc] by simp
qed

text \<open>
  When the second operand is the register that receives the difference, as in a comparison with %g0, SUBCC reads
  it again after writing it: the carry is then the sign of the difference, so that every negative number
  compares below 0 as unsigned numbers.
\<close>

theorem compare_rereads_destination:
  fixes d s
  assumes "imm d < 0" "nat (rs2 d) = rd d"
  defines "t \<equiv> snd (i_subcc_execute d s)" and "z \<equiv> REG s (rs1 d) - REG s (rd d)"
  shows "(icc_C t \<longleftrightarrow> sint z < 0) \<and> (icc_V t \<longleftrightarrow> (sint (REG s (rs1 d)) < 0) \<noteq> (sint z < 0))
    \<and> (REG s (rd d) = 0 \<longrightarrow> (icc t 5 \<longleftrightarrow> sint (REG s (rs1 d)) < 0))"
proof -
  have again: "operand2 d (set_REG (rd d) z s) = z" "REG s (rs1 d) - operand2 d s = z"
    using assms(1,2) by (simp_all add: operand2_def reg_of_set_REG z_def)
  have t: "t = next_pc (set_cv (sub_carry (REG s (rs1 d)) z z) (sub_overflow (REG s (rs1 d)) z z)
      (set_nz z (set_REG (rd d) z s)))"
    by (simp add: t_def i_subcc_execute_def Let_def again)
  have "icc_C t \<longleftrightarrow> sint z < 0" "icc_V t \<longleftrightarrow> (sint (REG s (rs1 d)) < 0) \<noteq> (sint z < 0)"
    by (auto simp: t icc_next_pc icc_after sub_carry_def sub_overflow_def Let_def sign_bit)
  then show ?thesis by (simp add: icc_def bicc_taken_def z_def)
qed

theorem compare_rereads_destination_witness:
  "icc (snd (i_subcc_execute (no_operands\<lparr>rs1 := 1, rs2 := 0\<rparr>)
     (sample_sparc\<lparr>globals := \<lambda>i. if i = 0 then 0 else 0xfffffffb\<rparr>))) 5"
proof -
  let ?s = "sample_sparc\<lparr>globals := \<lambda>i. if i = 0 then 0 else 0xfffffffb\<rparr>"
  have "REG ?s 0 = 0" "sint (REG ?s 1) < 0" by (simp_all add: REG_def)
  then show ?thesis
    using compare_rereads_destination [of "no_operands\<lparr>rs1 := 1, rs2 := 0\<rparr>" ?s] by (simp add: no_operands_def)
qed

end
