(* ===== verification/Sparc_Mul_Spec.thy ===== *)
theory Sparc_Mul_Spec
  imports Sparc_Alu_Spec
begin

text \<open>
  Multiplication on the SPARC integer unit. A program multiplies with MULSCC, one step for each bit of the
  multiplier in the Y register; the accumulator is one bit longer than its register, the sign being in
  the flags.
\<close>

subsection \<open>Halves of words\<close>

lemma half_bits: "bits x 31 (Suc 0) = drop_bit (Suc 0) x"
  by (rule bit_word_eqI) (auto simp: bits_take bit_simps dest: bit_imp_le_length)

lemma half_clear: "clear_bits (drop_bit (Suc 0) x) 31 31 = drop_bit (Suc 0) x"
  by (rule bit_word_eqI) (auto simp: clear_bits_def bit_simps bit_bitsmask dest: bit_imp_le_length)

lemma half_put: "put_bits (drop_bit (Suc 0) x) 31 31 = drop_bit (Suc 0) x + 2147483648" for x :: u32
proof -
  have "push_bit 31 1 = (2147483648 :: u32)" by (simp add: push_bit_eq_mult)
  moreover have "drop_bit (Suc 0) x AND push_bit 31 1 = 0"
    by (rule bit_word_eqI) (auto simp add: bit_simps simp del: push_bit_of_1 dest: bit_imp_le_length)
  ultimately show ?thesis
    by (metis put_bit set_bit_eq_or disjunctive_add_eq_or order_refl)
qed

lemma lsb: "(uint x - (if b then 2 ^ 32 else 0)) mod 2 = of_bool (bit x 0)" for x :: u32
  using bit_uint_iff [of x 0] by (simp add: mod_2_eq_odd bit_0)

lemma uint_half: "uint (drop_bit (Suc 0) x) = uint x div 2" for x :: u32
  by (simp add: drop_bit_Suc uint_div)

lemma uint_half_put: "uint (drop_bit (Suc 0) x + 2147483648) = uint x div 2 + 2 ^ 31" for x :: u32
  using uint_bounds [of x] by (simp add: uint_word_ariths uint_half)

lemma half_int: "X < 4294967296 \<Longrightarrow> X div 2 < 2147483648" "(X - 4294967296) div 2 = X div 2 - 2147483648" for X :: int
  by presburger+

subsection \<open>One step\<close>

text \<open>The instruction that adds register \<open>q\<close> to the accumulator \<open>r\<close>, and the value of accumulator and Y register.\<close>

definition mulscc :: "nat \<Rightarrow> nat \<Rightarrow> 'd sparc_state \<Rightarrow> 'd sparc_state" where
  "mulscc r q s = snd (i_mulscc_execute (no_operands\<lparr>rd := r, rs1 := r, rs2 := int q\<rparr>) s)"

definition accumulator :: "nat \<Rightarrow> 'd sparc_state \<Rightarrow> int" where
  "accumulator r s = uint (REG s r) - (if icc_N s \<noteq> icc_V s then 2 ^ 32 else 0)"

definition partial_product :: "nat \<Rightarrow> 'd sparc_state \<Rightarrow> int" where
  "partial_product r s = accumulator r s * 2 ^ 32 + uint (YREG s)"

lemma signed_sum:
  fixes a b :: u32
  shows "uint (a + b) - (if bit (a + b) 31 \<noteq> add_overflow a b (a + b) then 2 ^ 32 else 0) = sint a + sint b"
proof -
  define A B D where "A = uint a" and "B = uint b" and "D = uint (a + b)"
  have lim: "0 \<le> A" "A < 2 ^ 32" "0 \<le> B" "B < 2 ^ 32" using uint_bounds by (simp_all add: A_def B_def)
  have d: "D = A + B - (if 2 ^ 32 \<le> A + B then 2 ^ 32 else 0)"
    using uint_add_carry [of a b False] by (simp add: A_def B_def D_def)
  have v: "add_overflow a b (a + b) \<longleftrightarrow> sint (a + b) \<noteq> sint a + sint b"
    using sign_add_carry(2) [of "a + b" a b False] by (simp add: add_overflow_def)
  show ?thesis
    unfolding v unfolding bit_31_uint sint_as_uint A_def [symmetric] B_def [symmetric] D_def [symmetric]
    using d lim by (auto split: if_splits)
qed

lemma next_pc_regs [simp]: "YREG (next_pc s) = YREG s"
  by (simp add: next_pc_def)

lemma flags_keep [simp]: "REG (set_cv c v s) = REG s" "REG (set_nz z s) = REG s"
  "YREG (set_cv c v s) = YREG s" "YREG (set_nz z s) = YREG s" "REG (s\<lparr>YREG := y\<rparr>) = REG s"
  by (simp_all add: set_cv_def set_nz_def clear_icc_def Let_def REG_def fun_eq_iff)
    (simp_all add: psr_set_def psr_clear_def)

lemma xor_icc: "psr_bit s PSR_icc_N XOR psr_bit s PSR_icc_V = 0 \<longleftrightarrow> icc_N s = icc_V s"
  by (simp add: psr_bit_of icc_bits psr_fields)

lemma halved_product:
  fixes T Y M :: int
  shows "2 * ((T div 2 + Y mod 2 * M) * 2 ^ 32 + ((T mod 2) * 2 ^ 31 + Y div 2)) =
      T * 2 ^ 32 + Y + (Y mod 2) * (2 ^ 33 * M - 1)"
proof -
  define t b c e where "t = T div 2" and "b = T mod 2" and "c = Y div 2" and "e = Y mod 2"
  have "T = 2 * t + b" "Y = 2 * c + e" by (simp_all add: t_def b_def c_def e_def)
  then show ?thesis
    unfolding t_def [symmetric] b_def [symmetric] c_def [symmetric] e_def [symmetric] by (simp add: algebra_simps)
qed

lemma mulscc_step:
  assumes "q \<noteq> r"
  shows "2 * partial_product r (mulscc r q s) =
      partial_product r s + (if odd (partial_product r s) then 2 ^ 33 * sint (REG s q) - 1 else 0)"
    "p \<noteq> r \<Longrightarrow> REG (mulscc r q s) p = REG s p"
proof -
  define x where "x = REG s r"
  define sgn where "sgn \<longleftrightarrow> icc_N s \<noteq> icc_V s"
  define op1 where "op1 = (if sgn then drop_bit (Suc 0) x + 2147483648 else drop_bit (Suc 0) x)"
  define op2 where "op2 = (if bit (YREG s) 0 then REG s q else 0)"
  define y where "y = (if bit x 0 then drop_bit (Suc 0) (YREG s) + 2147483648 else drop_bit (Suc 0) (YREG s))"
  have t: "mulscc r q s = next_pc (set_cv (add_carry op1 op2 (op1 + op2)) (add_overflow op1 op2 (op1 + op2))
      (set_nz (op1 + op2) ((set_REG r (op1 + op2) s)\<lparr>YREG := y\<rparr>)))"
    by (auto simp: mulscc_def i_mulscc_execute_def Let_def no_operands_def half_bits half_clear half_put xor_icc
        op1_def op2_def sgn_def y_def x_def)
  show "REG (mulscc r q s) p = REG s p" if "p \<noteq> r"
    using that by (simp add: t reg_of_set_REG)
  have "accumulator r (mulscc r q s) = sint op1 + sint op2"
    unfolding accumulator_def t icc_next_pc icc_after signed_sum [symmetric]
    by (simp add: reg_of_set_REG)
  moreover have "sint op1 = accumulator r s div 2"
    using uint_bounds [of x] unfolding accumulator_def sint_as_uint op1_def sgn_def [symmetric] x_def [symmetric]
    by (simp add: uint_half uint_half_put half_int not_le)
  moreover have "uint (YREG (mulscc r q s)) = (accumulator r s mod 2) * 2 ^ 31 + uint (YREG s) div 2"
    using lsb [of x] unfolding accumulator_def x_def [symmetric]
    by (simp add: t y_def uint_half uint_half_put del: bit_0)
  moreover have "sint op2 = (uint (YREG s) mod 2) * sint (REG s q)"
    using lsb [of "YREG s" False] by (simp add: op2_def del: bit_0)
  ultimately have "2 * partial_product r (mulscc r q s) =
      partial_product r s + (uint (YREG s) mod 2) * (2 ^ 33 * sint (REG s q) - 1)"
    unfolding partial_product_def by (simp only: halved_product)
  moreover have "odd (partial_product r s) \<longleftrightarrow> odd (uint (YREG s))" by (simp add: partial_product_def)
  ultimately show "2 * partial_product r (mulscc r q s) =
      partial_product r s + (if odd (partial_product r s) then 2 ^ 33 * sint (REG s q) - 1 else 0)"
    by (simp add: mod_2_eq_odd)
qed

subsection \<open>The whole product\<close>

lemma mulscc_steps:
  assumes "q \<noteq> r" "REG s r = 0" "icc_N s = icc_V s" "k \<le> 32"
  defines "y \<equiv> uint (YREG s)" and "t \<equiv> (mulscc r q ^^ k) s"
  shows "partial_product r t = y div 2 ^ k + (y mod 2 ^ k) * 2 ^ (33 - k) * sint (REG s q) \<and> (p \<noteq> r \<longrightarrow> REG t p = REG s p)"
  using assms(4) unfolding t_def
proof (induction k arbitrary: p)
  case 0
  then show ?case using assms(2,3) by (simp add: partial_product_def accumulator_def y_def)
next
  case (Suc k)
  define u where "u = (mulscc r q ^^ k) s"
  define M a b where "M = sint (REG s q)" and "a = y div 2 ^ k" and "b = y mod 2 ^ k"
  have P: "partial_product r u = a + b * 2 ^ (33 - k) * M" and R: "p \<noteq> r \<Longrightarrow> REG u p = REG s p" for p
    using Suc.IH Suc.prems by (simp_all add: u_def M_def a_def b_def)
  have "2 ^ (33 - k) = 2 * (2 ^ (32 - k) :: int)"
    using Suc.prems by (simp add: Suc_diff_le flip: power_Suc)
  then have P2: "partial_product r u = a + 2 * (b * 2 ^ (32 - k) * M)" by (simp add: P)
  have two: "2 * partial_product r (mulscc r q u) = a + 2 * (b * 2 ^ (32 - k) * M) + (a mod 2) * (2 ^ 33 * M - 1)"
    using mulscc_step(1) [OF assms(1), of u] R [OF assms(1)] by (simp add: P2 M_def mod_2_eq_odd)
  have mods: "y mod 2 ^ Suc k = b + 2 ^ k * (a mod 2)" "y div 2 ^ Suc k = a div 2"
    using zmod_zmult2_eq [of 2 y "2 ^ k"] zdiv_zmult2_eq [of 2 y "2 ^ k"]
    by (simp_all add: a_def b_def mult.commute add.commute)
  have "2 ^ k * 2 ^ (32 - k) = (2 ^ 32 :: int)" using Suc.prems by (simp flip: power_add)
  then have expand: "(b + 2 ^ k * (a mod 2)) * 2 ^ (32 - k) * M = b * 2 ^ (32 - k) * M + (a mod 2) * (2 ^ 32 * M)"
    by (simp add: distrib_right flip: mult.assoc)
  have sub: "33 - Suc k = 32 - k" by simp
  have "(a mod 2) * (2 ^ 33 * M - 1) = 2 * ((a mod 2) * (2 ^ 32 * M)) - a mod 2" by (simp add: algebra_simps)
  then have "partial_product r (mulscc r q u) = y div 2 ^ Suc k + (y mod 2 ^ Suc k) * 2 ^ (33 - Suc k) * M"
    unfolding mods sub expand using two mult_div_mod_eq [of 2 a] by linarith
  then show ?case using mulscc_step(2) [OF assms(1), of p u] R [of p] by (simp add: u_def M_def)
qed



subsection \<open>The multiply instructions\<close>

text \<open>
  UMUL and SMUL multiply in 32 bits and always leave 0 in the Y register, so that Y and the destination hold the
  64-bit product of UMUL only if it fits in 32 bits.
\<close>

theorem multiply_loses_high_word:
  fixes d s
  defines "t \<equiv> snd (i_umul_execute d s)" and "v \<equiv> snd (i_smul_execute d s)"
  shows "YREG t = 0 \<and> YREG v = 0
    \<and> (uint (YREG t) * 2 ^ 32 + uint (REG t (rd d)) = uint (REG s (rs1 d)) * uint (operand2 d s)
        \<longleftrightarrow> uint (REG s (rs1 d)) * uint (operand2 d s) < 2 ^ 32)"
proof -
  have "drop_bit 32 (ucast z :: u64) = 0" for z :: u32
    by (rule bit_word_eqI) (auto simp: bit_simps dest: bit_imp_le_length)
  moreover have "signed_drop_bit 32 (ucast z :: u64) = 0" for z :: u32
    by (rule bit_word_eqI) (auto simp: bit_simps min_def dest: bit_imp_le_length)
  ultimately have Y: "YREG t = 0" "YREG v = 0"
    by (simp_all add: t_def v_def i_umul_execute_def i_smul_execute_def Let_def)
  have "ucast (ucast z :: u64) = z" for z :: u32
    by (rule bit_word_eqI) (auto simp: bit_simps dest: bit_imp_le_length)
  then have "REG t (rd d) = REG s (rs1 d) * operand2 d s"
    by (simp add: t_def i_umul_execute_def Let_def reg_of_set_REG)
  then have "uint (REG t (rd d)) = (uint (REG s (rs1 d)) * uint (operand2 d s)) mod 2 ^ 32"
    by (simp add: uint_word_ariths)
  moreover have "P mod 2 ^ 32 = P \<longleftrightarrow> P < 2 ^ 32" if "0 \<le> P" for P :: int
    using that pos_mod_bound [of "2 ^ 32" P] mod_pos_pos_trivial [of P "2 ^ 32"] by auto
  moreover have "0 \<le> uint (REG s (rs1 d)) * uint (operand2 d s)" by simp
  ultimately show ?thesis using Y by simp
qed

end
