(* ===== verification/Sparc_Trap_Spec.thy ===== *)
theory Sparc_Trap_Spec
  imports Sparc_Step_Spec
begin

text \<open>
  Traps and the return from them: the pair JMPL, RETT that ends a trap handler undoes the trap.
\<close>

subsection \<open>The two instructions at the end of a handler\<close>

lemma sign_ext_zero: "sign_ext13 0 = 0"
  by (simp add: sign_ext_def)

definition jmpl_l1 :: operands where "jmpl_l1 = no_operands\<lparr>rs1 := 17, imm := 0\<rparr>"
definition rett_l2 :: operands where "rett_l2 = no_operands\<lparr>rs1 := 18, imm := 0\<rparr>"

lemma handler_operands: "rd jmpl_l1 = 0" "rs1 jmpl_l1 = 17" "operand2 jmpl_l1 s = 0" "rs1 rett_l2 = 18" "operand2 rett_l2 s = 0"
  by (simp_all add: jmpl_l1_def rett_l2_def no_operands_def operand2_def sign_ext_zero)

text \<open>JMPL and RETT, each followed by the clearing of %g0 of its cycle.\<close>

definition return_from_trap :: "'d sparc_state \<Rightarrow> 'd sparc_state" where
  "return_from_trap s =
     set_REG 0 0 (snd (i_rett_execute rett_l2 (set_REG 0 0 (snd (i_jmpl_execute jmpl_l1 s)))))"

lemma return_state:
  assumes "wf_sparc h" "\<not> bit (PSRREG h) 5" "bit (PSRREG h) 7" "REG h 17 AND 3 = 0" "REG h 18 AND 3 = 0"
    and "\<not> window_invalid ((CWP h + 1) mod 8) h"
  defines "u \<equiv> return_from_trap h"
  shows "PCREG u = REG h 17" "NPCREG u = REG h 18" "wf_sparc u" "unat (CWP u) = (unat (CWP h) + 1) mod 8"
    "i < 128 \<Longrightarrow> window_file u i = window_file h i"
    "5 \<le> n \<Longrightarrow> n < 32 \<Longrightarrow> bit (PSRREG u) n \<longleftrightarrow> n = 5 \<or> (if n = 7 then bit (PSRREG h) 6 else bit (PSRREG h) n)"
proof -
  define a where "a = set_REG 0 0 ((set_REG 0 (PCREG h) h)\<lparr>PCREG := NPCREG h, NPCREG := REG h 17\<rparr>)"
  have "set_REG 0 0 (snd (i_jmpl_execute jmpl_l1 h)) = a"
    using assms(4) by (simp add: i_jmpl_execute_def handler_operands a_def)
  note jump = this
  have a: "wf_sparc a" "CWP a = CWP h" "NPCREG a = REG h 17" "PSRREG a = PSRREG h" "WIMREG a = WIMREG h"
    "REG a 18 = REG h 18" "window_file a = window_file h"
    using assms(1) by (auto simp: a_def wf_sparc_def CWP_def REG_def set_REG_def window_file_def fun_eq_iff)
  define b where "b = (iu_add_cwp a)\<lparr>PCREG := REG h 17, NPCREG := REG h 18\<rparr>"
  have eight: "(word_of_nat N_WINDOWS :: u32) = 8" by (simp add: N_WINDOWS_def)
  have u: "u = set_REG 0 0 (psr_set PSR_ET (if psr_bit b PSR_PS = 1 then psr_set PSR_S b else psr_clear PSR_S b))"
    unfolding u_def return_from_trap_def jump i_rett_execute_def Let_def handler_operands b_def eight
    using assms(2,3,5,6) a by (simp add: psr_bit_of psr_fields window_invalid_def)
  note ad = add_cwp [OF a(1)]
  have c: "CWP u = CWP (iu_add_cwp a)" by (simp add: u psr_fields b_def) (simp add: CWP_def)
  have ptr: "regwptr u = regwptr (iu_add_cwp a)" by (simp add: u b_def)
  show "PCREG u = REG h 17" "NPCREG u = REG h 18" by (simp_all add: u b_def)
  show "wf_sparc u" using ad(1) by (simp add: wf_sparc_def c ptr)
  show "unat (CWP u) = (unat (CWP h) + 1) mod 8" using ad(2) by (simp add: c a)
  show "window_file u i = window_file h i" if "i < 128"
  proof -
    have "regbase u = regbase (iu_add_cwp a)" by (simp add: u b_def set_REG_def)
    then have "window_file u i = window_file (iu_add_cwp a) i" by (simp add: window_file_def c)
    then show ?thesis using ad(4) [OF that] by (simp add: a)
  qed
  have p: "PSRREG b = PSRREG (iu_add_cwp a)" by (simp add: b_def)
  show "bit (PSRREG u) n \<longleftrightarrow> n = 5 \<or> (if n = 7 then bit (PSRREG h) 6 else bit (PSRREG h) n)"
    if "5 \<le> n" "n < 32"
    using that by (auto simp: u psr_fields psr_set_bit psr_bit_of p window_step_psr a)
qed

text \<open>
  C17. The return from a trap undoes it: when a handler entered by a trap ends with JMPL and RETT on the two
  saved counters, and has kept those, the status register, the window mask and the registers of the
  interrupted window, then the program goes on at the instruction that trapped, in its window with its
  registers, and with its status register but for the previous-supervisor bit, which is overwritten.
\<close>

theorem trap_return_inverse:
  assumes "wf_sparc s" "psr_bit s PSR_ET = 1" "irq_pending s" "\<not> window_invalid (CWP s) s"
    and "PCREG s AND 3 = 0" "NPCREG s AND 3 = 0"
    and "wf_sparc h" "PSRREG h = PSRREG (iu_trap_cycle s)" "WIMREG h = WIMREG (iu_trap_cycle s)"
    and "REG h 17 = REG (iu_trap_cycle s) 17" "REG h 18 = REG (iu_trap_cycle s) 18"
    and "\<And>q. 8 \<le> q \<Longrightarrow> q < 32 \<Longrightarrow> window_reg h (unat (CWP s)) q = window_reg (iu_trap_cycle s) (unat (CWP s)) q"
  defines "u \<equiv> return_from_trap h"
  shows "PCREG (iu_trap_cycle s) = TBRREG s \<and> PCREG u = PCREG s \<and> NPCREG u = NPCREG s \<and> CWP u = CWP s
    \<and> (8 \<le> r \<and> r < 32 \<longrightarrow> REG u r = REG s r)
    \<and> (5 \<le> n \<and> n < 32 \<and> n \<noteq> 6 \<longrightarrow> bit (PSRREG u) n = bit (PSRREG s) n)"
proof -
  define t where "t = iu_trap_cycle s"
  define w where "w = unat (CWP s)"
  have w: "w < 8" using assms(1) by (simp add: wf_sparc_def w_def N_WINDOWS_def)
  note en = trap_entry [OF assms(1-3), folded t_def w_def]
  note keep = assms(8-12) [folded t_def w_def]
  have cwt: "CWP h = CWP t" by (simp add: CWP_def keep(1))
  have ret: "(unat (CWP h) + 1) mod 8 = w" using w by (simp add: cwt en(2) mod_simps)
  have cw: "(CWP h + 1) mod 8 = CWP s"
    using ret w by (simp add: word_unat_eq_iff unat_mod unat_word_ariths mod_mod_cancel w_def [symmetric])
  have "\<not> bit (PSRREG h) 5" "bit (PSRREG h) 7" using en(10) [of 5] en(10) [of 7] by (simp_all add: keep)
  moreover have "REG h 17 AND 3 = 0" "REG h 18 AND 3 = 0" using assms(5,6) by (simp_all add: keep en(5,6))
  moreover have "\<not> window_invalid ((CWP h + 1) mod 8) h"
    using assms(4) by (simp add: cw window_invalid_def keep en(7))
  ultimately have ret2: "PCREG u = REG h 17" "NPCREG u = REG h 18" "wf_sparc u" "unat (CWP u) = w"
    "\<And>i. i < 128 \<Longrightarrow> window_file u i = window_file h i"
    "\<And>n. 5 \<le> n \<Longrightarrow> n < 32 \<Longrightarrow> bit (PSRREG u) n \<longleftrightarrow> n = 5 \<or> (if n = 7 then bit (PSRREG h) 6 else bit (PSRREG h) n)"
    using return_state [OF assms(7)] unfolding u_def ret by blast+
  have slot: "window_slot w q < 128" for q by (simp add: window_slot_def)
  have "REG u r = REG s r" if "8 \<le> r" "r < 32"
  proof -
    have "window_slot w r \<noteq> window_slot ((w + 7) mod 8) 17" "window_slot w r \<noteq> window_slot ((w + 7) mod 8) 18"
      using caller_slots_apart [of 17 r w] caller_slots_apart [of 18 r w] that w by auto
    then have "window_file t (window_slot w r) = window_file s (window_slot w r)"
      using en(9) slot by blast
    then show ?thesis
      using reg_is_window_reg [OF ret2(3) that(2)] reg_is_window_reg [OF assms(1) that(2)] keep(5) [OF that] ret2(5) [OF slot] that
      by (simp add: window_reg_def ret2(4) w_def [symmetric])
  qed
  moreover have "bit (PSRREG u) n = bit (PSRREG s) n" if "5 \<le> n" "n < 32" "n \<noteq> 6"
    using ret2(6) [OF that(1,2)] en(10) [of 6] en(10) [OF that(1,2)] that assms(2)
    by (auto simp: keep psr_bit_of psr_fields split: if_splits)
  moreover have "CWP u = CWP s" using ret2(4) by (simp add: word_unat_eq_iff w_def)
  ultimately show ?thesis using en(3,5,6) ret2(1,2) keep(3,4) by (simp add: t_def)
qed

theorem trap_return_inverse_witness:
  "REG (return_from_trap (iu_trap_cycle (sample_sparc\<lparr>irq_pending := True\<rparr>))) 20 = 224"
proof -
  let ?s = "sample_sparc\<lparr>irq_pending := True\<rparr>"
  have wf: "wf_sparc ?s" and c: "CWP ?s = 7" using sample_sparc_wf by (simp_all add: wf_sparc_def CWP_def)
  have et: "psr_bit ?s PSR_ET = 1" by (simp add: sample_sparc_def psr_bit_def psr_fields)
  have pc: "PCREG ?s AND 3 = 0" "NPCREG ?s AND 3 = 0" by (simp_all add: sample_sparc_def)
  have wi: "\<not> window_invalid (CWP ?s) ?s" by (simp add: c window_invalid_def) (simp add: sample_sparc_def)
  have "wf_sparc (iu_trap_cycle ?s)" using wf et by (simp add: trap_entry)
  then have "REG (return_from_trap (iu_trap_cycle ?s)) 20 = REG ?s 20"
    using trap_return_inverse [OF wf et _ wi pc, of "iu_trap_cycle ?s" 20] by simp
  then show ?thesis by (simp add: sample_sparc_def REG_def)
qed

end
