(* ===== verification/Spec2Isabelle.thy ===== *)
theory Spec2Isabelle
  imports Arith32 Arm_Bank_Spec Arm_Copro Arm_Copro_Spec Arm_Dp Arm_Emu Arm_Frame Arm_Init Arm_Invariant Arm_Keep Arm_LS Arm_Mul Arm_Shift Arm_Shift_Spec Arm_State Arm_Supp Arm_Supp_Spec Arm_Thumb Arm_Thumb_Spec Arm_Virt Arm_Xfer Bus Bus_Spec Leon2_Spec Mach_Leon2 Mach_Mpc8572 Mach_Nedved Mach_S3c2440 Mem_Config Mips_Cache Mips_Ctrl_Spec Mips_Decode Mips_Spec Mips_State Mips_Step Mips_Step_Spec Mips_Tlb Mips_Tlb_Spec Mmu_Arm920t Mmu_Cache Mmu_Cache_Spec Mmu_Tlb Mmu_Wb Nedved_Spec Ppc_Alu Ppc_Alu_Spec Ppc_Dec Ppc_Float Ppc_Float_Spec Ppc_Fpu Ppc_Frame Ppc_Ls Ppc_Mem Ppc_Mmu_Spec Ppc_Opc Ppc_Run Ppc_State Ppc_Step Ppc_Step_Spec Ppc_Tlb Prelude Sparc_Alu Sparc_Alu_Spec Sparc_Ctrl Sparc_Iu Sparc_Mem Sparc_Mul_Spec Sparc_Spec Sparc_State Sparc_Step_Spec Sparc_Trap_Spec Sparc_Window_Spec Word_Shift
begin

text \<open>
  A verification development for four processors of the Lusimus (SkyEye) simulator: the
  ARM920T on the S3C2440 board of the repository's README, as it is simulated by the C code under
  src/arch_arm; the SPARC V8 integer unit on the LEON2 board, under src/arch_sparc; the MIPS R3000 on
  the Nedved board, under src/arch_mips; and the PowerPC e500 with two cores on the MPC8572, under src/arch_ppc.
  The first three are on the banks and the bus of src/memory, the last one has arrays of its own.

  \<^bold>\<open>How the program works.\<close> The emulator loop of arch_arm/common/armemu32.c executes one
  instruction at a time on an \<^verbatim>\<open>ARMul_State\<close>. Its operands come from the shifter
  (\<^verbatim>\<open>GetDPRegRHS\<close> and the other helpers at the end of armemu32.c), its memory accesses go through
  armvirt.c (cycle counts, aborts) and armmmu.c to the MMU model mmu/arm920t_mmu.c. That
  uses the TLB (mmu/tlb.c), the caches (mmu/cache.c) and the write buffer (mmu/wb.c), and
  reaches memory and devices through \<^verbatim>\<open>bus_read\<close> and \<^verbatim>\<open>bus_write\<close> of src/memory. Exceptions and
  mode changes are in armsupp.c and arminit.c.

  The SPARC simulator has one file for each instruction (arch_sparc/instructions), with a function that
  decodes a word into static variables and one that executes it. \<^verbatim>\<open>iu_cycle_step\<close> of arch_sparc/common/iu.c
  fetches a word, looks for the first instruction of its format that accepts it, and executes it; a trap is only
  signalled there, and taken after the instruction (traps.c). Register windows are a pointer into an array.

  The MIPS simulator (arch_mips/common) fetches through \<^verbatim>\<open>translate_vaddr\<close> (tlb.c, whose 48 entries are linked in
  hash chains) and the instruction cache, executes the word in the one switch of decoder.c (cp0.c for the system
  coprocessor), and retires it in \<^verbatim>\<open>mips_step_once\<close>: the result of the switch and the pipeline state say what the next pc
  is. An exception (exception.c, emul.c) changes the state inside the switch, which goes on.

  The PowerPC simulator (arch_ppc/common) steps its cores in turn (\<^verbatim>\<open>ppc_step_once\<close>). Every address goes through
  \<^verbatim>\<open>ppc_effective_to_physical\<close>, which walks over both TLBs and enters the miss handler if no entry matches; ppc_io.c then
  chooses between the device registers, the boot ROM, the initial RAM and the DDR RAM. The tables of ppc_dec.c select
  the function of an instruction (ppc_alu.c, ppc_fpu.c, ppc_opc.c, ppc_mmu.c), which works on the global
  \<^verbatim>\<open>current_core\<close>. Exceptions set the next pc (ppc_e500_exc.c); an interrupt that arrives from the other core or the UART also
  sets \<^verbatim>\<open>ipi_flag\<close>, so that the next step of that core starts there.

  \<^bold>\<open>Theories, bottom up.\<close>
  \<^item> Prelude: types of the model, bit-field lemmas, the collections \<open>word_field\<close> and
    \<open>flag_simps\<close>.
  \<^item> Arith32: carries, borrows and signs of 32-bit sums and differences.
  \<^item> Bus, Bus_Spec: src/memory (bank_ops.c, ram.c, io.c). The state is the record \<open>bus\<close>: the
    bank table, the remembered bank of \<^verbatim>\<open>bank_ptr\<close>, the arrays behind the banks, the devices and
    the machine. Bus_Spec proves that the banks implement an array of bytes
    (\<open>mem_abs\<close>), for both byte orders, and that no access leaves defined behaviour; the contract of
    a store is the locale \<open>byte_store\<close>, interpreted for bytes and, in Mmu_Cache_Spec, for words.
  \<^item> Mmu_Cache, Mmu_Cache_Spec: mmu/cache.c and cache.h. A line pointer is a pair of indices.
    \<open>coherent\<close> is the invariant that ties the lines to memory, \<open>seen\<close> the memory a program sees
    through the cache; write back, flush and allocation keep both.
  \<^item> Mmu_Wb: mmu/wb.c, the write buffer as a queue of pending byte writes.
  \<^item> Mmu_Tlb: mmu/tlb.c, search, page walk, permissions, replacement.
  \<^item> Arm_State: armdefs.h and the state types of armmmu.h.
  \<^item> Mmu_Arm920t: mmu/arm920t_mmu.c, fetch, read, write and CP15 operations.
  \<^item> Arm_Supp: armsupp.c, the exception entry of arminit.c, interrupts, events.
  \<^item> Arm_Virt: armvirt.c and armmmu.c.
  \<^item> Arm_Shift, Arm_LS, Arm_Mul, Arm_Dp, Arm_Xfer: armemu32.c, cases 0x00 to 0xbf of the
    instruction switch and the functions they call.
  \<^item> Arm_Copro: armcopro.c and the coprocessor calls of armsupp.c. A coprocessor is the record
    \<open>coprocessor\<close> of its handlers; the busy-waiting loops are partial functions.
  \<^item> Arm_Thumb: thumbemu.c. Arm_Emu: the main loop of armemu32.c (\<open>emulate_turn\<close> is one turn) with
    the cases 0xc0 to 0xff and the space of unconditional instructions.
  \<^item> Arm_Init: arminit.c and the processor's entry points of arm_arch_interface.c.
  \<^item> Mach_S3c2440: mach/skyeye_mach_s3c2440.c, the board, as handlers of the bus.
  \<^item> Mem_Config: src/memory/parse_mem.c, one line of the memory configuration.
  \<^item> Sparc_State: the SPARC's registers, windows, traps and memory access (iu.h, iu.c, traps.c).
  \<^item> Sparc_Alu, Sparc_Ctrl, Sparc_Mem: arch_sparc/instructions; for a file \<^verbatim>\<open>i_x.c\<close> the definitions \<open>i_x_execute\<close>,
    \<open>i_x_disassemble\<close> and \<open>i_x\<close>. The record \<open>operands\<close> stands for the static variables.
  \<^item> Sparc_Iu: the instruction table, dispatch, cycle and step (iu.c, sparc_arch_interface.c).
  \<^item> Mach_Leon2: arch_sparc/mach, the LEON2 board, as handlers of the bus.
  \<^item> Mips_State: the state of cpu.h, bit fields (inttypes.h), exceptions, memory access.
  \<^item> Mips_Tlb: tlb.c. The entries are a map from their index, a pointer to an entry is an index.
  \<^item> Mips_Cache: cache.c, icache.c, dcache.c. Mips_Decode: decoder.c and cp0.c; one definition \<open>mips_X\<close> or \<open>cop0_X\<close> for each
    case of the switches. Mips_Step: reset, interrupts, retirement and the step (mips_arch_interface.c), multiply.c.
  \<^item> Mach_Nedved: mach/skyeye_mach_nedved.c, as handlers of the bus and hooks of the step.
  \<^item> Ppc_State: the cores, the instruction templates of ppc_dec.h, exceptions (ppc_e500_exc.c), byte order (sysendian.h).
    \<open>cores\<close> maps a number to a core, \<open>cur\<close> is the number of \<^verbatim>\<open>current_core\<close>, the board is the record \<open>ppc_board\<close> of its handlers.
  \<^item> Ppc_Float, Ppc_Fpu: the arithmetic of ppc_tools.c and ppc_fpu.c on unpacked numbers, and the instructions.
  \<^item> Ppc_Alu: ppc_alu.c. Ppc_Tlb: translation and the TLB instructions of ppc_mmu.c. Ppc_Mem: ppc_io.c and the double words.
    Ppc_Ls: loads and stores of ppc_mmu.c. Ppc_Opc: ppc_opc.c. Ppc_Dec: the tables of ppc_dec.c.
  \<^item> Ppc_Step: ppc_e500_core.c, ppc_arch_interface.c. Mach_Mpc8572: mach/skyeye_mach_mpc8572.c, mach/mpc8572_boot_linux.c.

  \<^bold>\<open>Theories with the proofs.\<close>
  \<^item> Arm_Bank_Spec, Arm_Supp_Spec: the register banks as one array of physical registers
    (\<open>reg_view\<close>), well-formed processors (\<open>wf_psr\<close>, \<open>wf_arm\<close>), mode switches, exception entry, events.
  \<^item> Arm_Shift_Spec: the operand shifter and the architecture's; exception return.
  \<^item> Arm_Thumb_Spec: Thumb translation, branch targets, conditions.
  \<^item> Arm_Frame: what memory accesses leave alone (\<open>core\<close>).
  \<^item> Arm_Copro_Spec: the locales \<open>ready_handler\<close>, \<open>never_busy\<close> and \<open>finite_transfer\<close> state the contract
    between the coprocessor calls and a handler; every handler of the standard table interprets them, and
    with that every turn of the emulator ends.
  \<^item> Arm_Keep: the locales \<open>keeps_base\<close>, \<open>keeps\<close>, \<open>keeps_all\<close> and \<open>keeps_turn\<close>. A predicate on states that the few
    primitive updates keep is kept by every instruction, and by every turn of the emulator.
  \<^item> Arm_Invariant: interpretations of these locales (status registers well-formed, instruction
    count, stopping), reset, single steps, conditional execution.
  \<^item> Sparc_Window_Spec, Sparc_Spec: the window array implements a circular file of registers
    (\<open>window_file\<close>, \<open>wf_sparc\<close>); SAVE and RESTORE; where WRPSR breaks it.
  \<^item> Sparc_Step_Spec: the locale \<open>sparc_keeps\<close>, a predicate that the primitive updates keep is kept by every step;
    interpreted for the windows and for the window mask. The state on trap entry.
  \<^item> Sparc_Trap_Spec: the return from a trap undoes it.
  \<^item> Sparc_Alu_Spec, Sparc_Mul_Spec: branches, comparisons and their flags, multiplication by MULSCC steps.
  \<^item> Leon2_Spec: the period of the timer, the interrupt controller.
  \<^item> Mips_Tlb_Spec, Mips_Step_Spec: the chains of the TLB (\<open>chains_are\<close>) and the locale \<open>mips_keeps\<close>, a predicate that
    the primitive updates keep is kept by every step; interpreted for the chains and for the processor's mode.
  \<^item> Mips_Spec, Mips_Ctrl_Spec: shifts, overflow, leading zeros; branches and their delay slots, exception entry,
    protection, unaligned accesses, writing and using a TLB entry.
  \<^item> Nedved_Spec: the locale interpreted for the devices: no program reaches them.
  \<^item> Word_Shift: shifts of words as divisions and powers of two.
  \<^item> Ppc_Float_Spec: packing undoes unpacking; the mantissas of product and quotient are the exact ones, cut off, and the
    bits cut off are seen in the lowest one.
  \<^item> Ppc_Alu_Spec: rotate and mask against the architecture's description; sums and differences of two words with carry.
  \<^item> Ppc_Mmu_Spec: what an entry that TLBWE wrote translates; words in memory are big-endian.
  \<^item> Ppc_Step_Spec: decrementer, system call, interrupt of the other core, the mapping after reset.
  \<^item> Ppc_Frame, Ppc_Run: what every instruction keeps of a core (\<open>fixed\<close>, \<open>keeps\<close>); the locale \<open>quiet_board\<close>, a board
    whose handlers keep it too, interpreted for the MPC8572, gives the invariant of every run.
  \<^bold>\<open>Conventions.\<close> Machine integers are words of their width. Undefined behaviour, process exit
  and endless loops are recorded in the sticky field \<open>halted\<close> of the bus (\<open>phalted\<close> for the PowerPC; the first reason is kept);
  the safety theorems show that it is not reached. Uninitialised locals are the parameter
  \<open>junk\<close> (\<open>pjunk\<close>) of the state. The build is the one of the repository: armsupp.c, arminit.c and armcopro.c
  without MODE32, armemu32.c with it, both with MODET; DBCT off; little-endian host.
  Recursion follows the C loops and is structural or has a measure; \<open>clz_loop\<close> has fuel 32, the
  width of the word it shifts. A loop that need not end (\<open>busy_wait\<close>, \<open>ldc_words_loop\<close>, \<open>stc_words_loop\<close>,
  \<open>emulate_loop\<close>, \<open>do_prog_loop\<close>, \<open>probe_chain\<close>) is a \<open>partial_function\<close> with \<open>None\<close> for not returning.

  \<^bold>\<open>Parameters.\<close> Device callbacks, the machine's I/O handlers, file contents, event functions, the
  stop signal, what the processor allows a coprocessor access by, the initialisations of the
  EP9312 and XScale coprocessors, MMU models other than the ARM920T and the 26-bit emulator
  are arguments of the model.

  \<^bold>\<open>Not modelled.\<close> The 26-bit emulator (armemu.c, a second copy of the instruction switch), MMUs other
  than the ARM920T and machines other than the S3C2440, the LEON2,
  the Nedved and the MPC8572, the private memory of the MIPS simulator that the bus replaced (mipsmem.c, mipsio.c), semihosting calls other than the
  breakpoint, the statistics and code coverage of the SPARC simulator, the AltiVec instructions (no modelled processor has them), the MPC8560
  board with its communication processor, the Blackfin and ColdFire simulators, the debugger, tracing
  and profiling, the option reader around parse_mem, vendored code (src/bfd) and the devices,
  which talk to the host.
\<close>

end
